(* ===== verification/Prelude.thy ===== *)
theory Prelude
  imports Complex_Main "HOL-Library.List_Lexorder" "HOL-Library.Char_ord"
    "HOL-Library.Product_Lexorder" "HOL-Library.AList" "HOL-Library.Multiset"
begin

text \<open>
  The shared vocabulary of the development. It holds the collections that the component
  proofs feed to the simplifier, the exception monad that stands for Python's
  \<open>raise\<close>, insertion-ordered dictionaries as association lists (Python's \<open>dict\<close>), and
  the facts about running totals kept in such a dictionary on which every conservation
  theorem of the ledger rests.
\<close>

named_theorems res_simps \<open>unfolding of the exception monad\<close>
named_theorems dict_simps \<open>dictionary lookups after updates\<close>
named_theorems py_simps \<open>evaluation of the Python string and JSON helpers\<close>

section \<open>Python exceptions as values\<close>

text \<open>\<open>Inl e\<close> is the exception \<open>e\<close>, \<open>Inr x\<close> is the normal result \<open>x\<close>.\<close>

type_synonym ('e, 'a) res = "'e + 'a"

definition rbind :: "('e, 'a) res \<Rightarrow> ('a \<Rightarrow> ('e, 'b) res) \<Rightarrow> ('e, 'b) res" where
  "rbind m f = (case m of Inl e \<Rightarrow> Inl e | Inr x \<Rightarrow> f x)"

text \<open>A list comprehension whose element expression may raise: the first exception wins.\<close>

fun rmap :: "('a \<Rightarrow> ('e, 'b) res) \<Rightarrow> 'a list \<Rightarrow> ('e, 'b list) res" where
  "rmap f [] = Inr []"
| "rmap f (x # xs) = rbind (f x) (\<lambda>y. rbind (rmap f xs) (\<lambda>ys. Inr (y # ys)))"

text \<open>A loop over a list that threads a state and may raise.\<close>

fun rfold :: "('s \<Rightarrow> 'a \<Rightarrow> ('e, 's) res) \<Rightarrow> 's \<Rightarrow> 'a list \<Rightarrow> ('e, 's) res" where
  "rfold f s [] = Inr s"
| "rfold f s (x # xs) = rbind (f s x) (\<lambda>s'. rfold f s' xs)"

text \<open>
  Operations on stored files: a result or an exception, and the state that is left. What was
  written before an exception stays written.
\<close>

type_synonym ('s, 'e, 'a) sres = "'s \<Rightarrow> ('e, 'a) res \<times> 's"

definition sbind :: "('s, 'e, 'a) sres \<Rightarrow> ('a \<Rightarrow> ('s, 'e, 'b) sres) \<Rightarrow> ('s, 'e, 'b) sres" where
  "sbind m f s = (case m s of (Inl e, s') \<Rightarrow> (Inl e, s') | (Inr x, s') \<Rightarrow> f x s')"

definition slift :: "('e, 'a) res \<Rightarrow> ('s, 'e, 'a) sres" where
  "slift r s = (r, s)"

text \<open>\<open>x or y\<close> on optional text: Python's \<open>or\<close> treats the empty string as missing.\<close>

definition str_or :: "string \<Rightarrow> string \<Rightarrow> string" where
  "str_or a b = (if a = [] then b else a)"

section \<open>Dictionaries\<close>

text \<open>
  A Python \<open>dict\<close> is an association list with distinct keys: assigning to an existing key
  keeps its place, a new key goes to the end, which is what \<open>AList.update\<close> does.
\<close>

type_synonym 'v dict = "(string \<times> 'v) list"

abbreviation dict_ok :: "('k \<times> 'v) list \<Rightarrow> bool" where
  "dict_ok d \<equiv> distinct (map fst d)"

definition dget :: "('k \<times> 'v) list \<Rightarrow> 'k \<Rightarrow> 'v \<Rightarrow> 'v" where
  "dget d k v0 = (case map_of d k of None \<Rightarrow> v0 | Some v \<Rightarrow> v)"

text \<open>\<open>d[k] = d.get(k, 0) + n\<close>, the counter idiom of the chain indexes.\<close>

definition bump :: "'k \<Rightarrow> int \<Rightarrow> ('k \<times> int) list \<Rightarrow> ('k \<times> int) list" where
  "bump k n d = AList.update k (dget d k 0 + n) d"

definition dsum :: "('k \<times> int) list \<Rightarrow> int" where
  "dsum d = sum_list (map snd d)"

text \<open>\<open>sorted(d.items())\<close> of a dictionary: its keys are distinct, so the key decides.\<close>

definition dsorted :: "('k::linorder \<times> 'v) list \<Rightarrow> ('k \<times> 'v) list" where
  "dsorted d = sort_key fst d"

text \<open>\<open>list(dict.fromkeys(xs))\<close>: duplicates removed, first occurrences kept.\<close>

fun dedup_first :: "'a list \<Rightarrow> 'a list" where
  "dedup_first [] = []"
| "dedup_first (x # xs) = x # filter (\<lambda>y. y \<noteq> x) (dedup_first xs)"

section \<open>Lemmas\<close>

lemma sbind_simps [simp]:
  "sbind (slift (Inr x)) f s = f x s" "sbind (slift (Inl e)) f s = (Inl e, s)"
  "sbind m f s = (Inr y, s') \<longleftrightarrow> (\<exists>x s1. m s = (Inr x, s1) \<and> f x s1 = (Inr y, s'))"
  "slift r s = (r', s') \<longleftrightarrow> r = r' \<and> s = s'"
  by (auto simp: sbind_def slift_def split: prod.splits sum.splits)

lemma sbind_Inl_iff:
  "sbind m f s = (Inl e, s') \<longleftrightarrow>
    m s = (Inl e, s') \<or> (\<exists>x s1. m s = (Inr x, s1) \<and> f x s1 = (Inl e, s'))"
  by (auto simp: sbind_def split: prod.splits sum.splits)

lemma sbind_step: "m s = (Inr x, s1) \<Longrightarrow> sbind m f s = f x s1"
  by (simp add: sbind_def)

lemma rbind_simps [simp, res_simps]:
  "rbind (Inl e) f = Inl e"
  "rbind (Inr x) f = f x"
  by (simp_all add: rbind_def)

lemma rbind_Inr_iff [res_simps]: "rbind m f = Inr y \<longleftrightarrow> (\<exists>x. m = Inr x \<and> f x = Inr y)"
  by (cases m) auto

lemma rbind_Inl_iff: "rbind m f = Inl e \<longleftrightarrow> m = Inl e \<or> (\<exists>x. m = Inr x \<and> f x = Inl e)"
  by (cases m) auto

lemma rmap_Inr_iff: "rmap f xs = Inr ys \<longleftrightarrow> list_all2 (\<lambda>x y. f x = Inr y) xs ys"
  by (induction xs arbitrary: ys) (auto simp: rbind_Inr_iff list_all2_Cons1)

lemma rmap_Inr_length: "rmap f xs = Inr ys \<Longrightarrow> length ys = length xs"
  by (auto simp: rmap_Inr_iff dest: list_all2_lengthD)

lemma rmap_total: "(\<And>x. x \<in> set xs \<Longrightarrow> f x = Inr (g x)) \<Longrightarrow> rmap f xs = Inr (map g xs)"
  by (induction xs) auto

lemma rmap_map_inverse: "(\<And>x. x \<in> set xs \<Longrightarrow> f (g x) = Inr x) \<Longrightarrow> rmap f (map g xs) = Inr xs"
  by (induction xs) auto

lemma rfold_append:
  "rfold f s (xs @ ys) = rbind (rfold f s xs) (\<lambda>s'. rfold f s' ys)"
  by (induction xs arbitrary: s) (auto simp: rbind_def split: sum.splits)

lemma rfold_invariant:
  assumes "rfold f s xs = Inr t" and "P s"
    and "\<And>s x t. x \<in> set xs \<Longrightarrow> P s \<Longrightarrow> f s x = Inr t \<Longrightarrow> P t"
  shows "P t"
  using assms
proof (induction xs arbitrary: s)
  case Nil
  then show ?case by simp
next
  case (Cons x xs)
  from Cons.prems(1) obtain s' where s': "f s x = Inr s'" and rest: "rfold f s' xs = Inr t"
    by (auto simp: rbind_Inr_iff)
  show ?case
  proof (rule Cons.IH [OF rest])
    show "P s'" using Cons.prems(2,3) s' by auto
    show "\<And>s x t. x \<in> set xs \<Longrightarrow> P s \<Longrightarrow> f s x = Inr t \<Longrightarrow> P t"
      using Cons.prems(3) by auto
  qed
qed

lemma dget_update [simp, dict_simps]:
  "dget (AList.update k v d) k' v0 = (if k' = k then v else dget d k' v0)"
  by (simp add: dget_def update_conv')

lemma dget_Nil [simp, dict_simps]: "dget [] k v0 = v0"
  by (simp add: dget_def)

lemma dget_Cons [dict_simps]: "dget ((k, v) # d) k' v0 = (if k' = k then v else dget d k' v0)"
  by (simp add: dget_def)

lemma dget_bump [simp, dict_simps]:
  "dget (bump k n d) k' 0 = dget d k' 0 + (if k' = k then n else 0)"
  by (simp add: bump_def)

lemma dict_ok_update [simp, intro]: "dict_ok d \<Longrightarrow> dict_ok (AList.update k v d)"
  by (rule distinct_update)

lemma dict_ok_bump [simp, intro]: "dict_ok d \<Longrightarrow> dict_ok (bump k n d)"
  by (simp add: bump_def)

lemma keys_bump [simp]: "fst ` set (bump k n d) = insert k (fst ` set d)"
  by (simp add: bump_def dom_update)

lemma dsum_simps [simp]: "dsum [] = 0" "dsum (kv # d) = snd kv + dsum d"
  by (simp_all add: dsum_def)

lemma dsum_update_new: "k \<notin> fst ` set d \<Longrightarrow> dsum (AList.update k v d) = dsum d + v"
  by (induction d) auto

lemma update_new: "k \<notin> fst ` set d \<Longrightarrow> AList.update k v d = d @ [(k, v)]"
  by (induction d) auto

lemma dget_absent: "k \<notin> fst ` set d \<Longrightarrow> dget d k v0 = v0"
  by (auto simp: dget_def split: option.splits dest: map_of_SomeD)
    (metis fst_conv image_eqI map_of_SomeD)

lemma dsum_update: "dict_ok d \<Longrightarrow> dsum (AList.update k v d) = dsum d - dget d k 0 + v"
proof (induction d)
  case Nil
  then show ?case by simp
next
  case (Cons kv d)
  obtain k' v' where kv: "kv = (k', v')" by (cases kv)
  show ?case
  proof (cases "k' = k")
    case True
    then show ?thesis by (simp add: kv dget_Cons)
  next
    case False
    then show ?thesis using Cons by (simp add: kv dget_Cons)
  qed
qed

text \<open>The conservation step: bumping one entry by \<open>n\<close> moves the total by exactly \<open>n\<close>.\<close>

lemma dsum_bump [simp]: "dict_ok d \<Longrightarrow> dsum (bump k n d) = dsum d + n"
  by (simp add: bump_def dsum_update)

lemma dget_in_set: "dict_ok d \<Longrightarrow> (k, v) \<in> set d \<Longrightarrow> dget d k v0 = v"
  by (simp add: dget_def)

lemma dsum_mset: "mset d = mset d' \<Longrightarrow> dsum d = dsum d'"
  unfolding dsum_def by (metis mset_map sum_mset_sum_list)

lemma mset_dsorted [simp]: "mset (dsorted d) = mset d"
  by (simp add: dsorted_def)

lemma set_dsorted [simp]: "set (dsorted d) = set d"
  by (simp add: dsorted_def)

lemma length_dsorted [simp]: "length (dsorted d) = length d"
  by (simp add: dsorted_def)

lemma dict_ok_dsorted [simp]: "dict_ok (dsorted d) = dict_ok d"
  by (metis mset_dsorted mset_map mset_eq_imp_distinct_iff)

lemma dsum_dsorted [simp]: "dsum (dsorted d) = dsum d"
  by (rule dsum_mset) simp

lemma map_of_dsorted [simp]: "dict_ok d \<Longrightarrow> map_of (dsorted d) = map_of d"
  by (rule map_of_inject_set [THEN iffD2]) auto

lemma dget_dsorted [simp]: "dict_ok d \<Longrightarrow> dget (dsorted d) = dget d"
  by (simp add: dget_def fun_eq_iff)

lemma set_dedup_first [simp]: "set (dedup_first xs) = set xs"
  by (induction xs) auto

lemma distinct_dedup_first [simp]: "distinct (dedup_first xs)"
  by (induction xs) auto

lemma sum_list_nonneg_int: "(\<And>x. x \<in> set xs \<Longrightarrow> 0 \<le> (x::int)) \<Longrightarrow> 0 \<le> sum_list xs"
  by (induction xs) auto

lemma sorted_le_last: "sorted xs \<Longrightarrow> x \<in> set xs \<Longrightarrow> x \<le> last xs"
  by (induction xs rule: rev_induct) (auto simp: sorted_append)

lemma sort_key_unique:
  assumes "mset xs = mset ys" "inj_on f (set xs)"
  shows "sort_key f xs = sort_key f ys"
proof -
  have "map f (sort_key f zs) = sort (map f zs)" for zs
    by (rule properties_for_sort [symmetric]) simp_all
  moreover have "sort (map f xs) = sort (map f ys)"
    by (rule properties_for_sort) (simp_all add: assms(1))
  ultimately have "map f (sort_key f xs) = map f (sort_key f ys)" by simp
  moreover have "set xs = set ys" by (rule mset_eq_setD [OF assms(1)])
  ultimately show ?thesis
    using assms(2) by (intro map_inj_on [of f]) simp_all
qed

lemma sorted_take_le:
  assumes "sorted (map f xs)" "x \<in> set (take n xs)" "y \<in> set xs" "y \<notin> set (take n xs)"
  shows "f x \<le> f y"
proof -
  have "y \<in> set (drop n xs)"
    using assms(3,4) by (metis UnE append_take_drop_id set_append)
  moreover have "sorted (map f (take n xs @ drop n xs))" using assms(1) by simp
  ultimately show ?thesis
    using assms(2) unfolding map_append sorted_append by auto
qed

end
