(* ===== verification/PyValues.thy ===== *)
theory PyValues
  imports Prelude
begin

text \<open>
  Python text and JSON values, as far as the chain code uses them. A Python \<open>str\<close> is a
  list of code points; \<open>string\<close> covers the code points below 256, and the predicates
  below (white space, lower case, printable) are Python's on that range. A JSON document,
  as \<open>json.loads\<close> returns it, is a value of \<open>json\<close>; the conversions \<open>bool(x)\<close>,
  \<open>str(x)\<close>, \<open>int(x)\<close>, \<open>dict(x)\<close>, \<open>list(x)\<close> and \<open>json.dumps\<close> are functions on it,
  with the exceptions they raise. A non-integer JSON number carries its Python \<open>repr\<close>
  and its value. Not modelled: \<open>int\<close>'s limit of 4300 digits, \<open>NaN\<close> and the infinities,
  code points above 255.
\<close>

datatype py_error = TypeError | ValueError | KeyError string | AttributeError | LibraryError string

section \<open>Text\<close>

definition py_isspace :: "char \<Rightarrow> bool" where
  "py_isspace c = (let n = of_char c :: nat in
     (9 \<le> n \<and> n \<le> 13) \<or> (28 \<le> n \<and> n \<le> 32) \<or> n = 133 \<or> n = 160)"

definition py_lstrip :: "string \<Rightarrow> string" where
  "py_lstrip s = dropWhile py_isspace s"

definition py_strip :: "string \<Rightarrow> string" where
  "py_strip s = rev (dropWhile py_isspace (rev (dropWhile py_isspace s)))"

definition py_lower_char :: "char \<Rightarrow> char" where
  "py_lower_char c = (let n = of_char c :: nat in
     if (65 \<le> n \<and> n \<le> 90) \<or> (192 \<le> n \<and> n \<le> 222 \<and> n \<noteq> 215) then char_of (n + 32) else c)"

definition py_lower :: "string \<Rightarrow> string" where
  "py_lower s = map py_lower_char s"

definition py_startswith :: "string \<Rightarrow> string \<Rightarrow> bool" where
  "py_startswith s p = (take (length p) s = p)"

text \<open>\<open>s.partition(c)\<close> without the separator: the text before and after the first \<open>c\<close>.\<close>

definition py_partition :: "char \<Rightarrow> string \<Rightarrow> string \<times> string" where
  "py_partition c s = (takeWhile (\<lambda>x. x \<noteq> c) s, tl (dropWhile (\<lambda>x. x \<noteq> c) s))"

fun py_join :: "string \<Rightarrow> string list \<Rightarrow> string" where
  "py_join sep [] = []"
| "py_join sep [x] = x"
| "py_join sep (x # y # xs) = x @ sep @ py_join sep (y # xs)"

section \<open>Decimal numbers\<close>

definition digit_char :: "nat \<Rightarrow> char" where
  "digit_char n = char_of (48 + n)"

definition py_isdigit :: "char \<Rightarrow> bool" where
  "py_isdigit c = (let n = of_char c :: nat in 48 \<le> n \<and> n \<le> 57)"

definition digit_value :: "char \<Rightarrow> int" where
  "digit_value c = int (of_char c) - 48"

fun show_nat :: "nat \<Rightarrow> string" where
  "show_nat n = (if n < 10 then [digit_char n] else show_nat (n div 10) @ [digit_char (n mod 10)])"

declare show_nat.simps [simp del]

definition show_int :: "int \<Rightarrow> string" where
  "show_int i = (if i < 0 then CHR ''-'' # show_nat (nat (- i)) else show_nat (nat i))"

text \<open>\<open>f"{n:0{w}d}"\<close> for \<open>n \<ge> 0\<close>: decimal digits, padded with zeros to width \<open>w\<close>.\<close>

definition pad_zero :: "nat \<Rightarrow> string \<Rightarrow> string" where
  "pad_zero w s = replicate (w - length s) CHR ''0'' @ s"

text \<open>
  The digits of \<open>int(text)\<close>: decimal digits, with single underscores allowed between two of
  them. The flag says whether the last character was a digit.
\<close>

fun scan_digits :: "bool \<Rightarrow> int \<Rightarrow> string \<Rightarrow> int option" where
  "scan_digits prev acc [] = (if prev then Some acc else None)"
| "scan_digits prev acc (c # cs) =
     (if py_isdigit c then scan_digits True (10 * acc + digit_value c) cs
      else if c = CHR ''_'' \<and> prev then scan_digits False acc cs
      else None)"

definition py_int_str :: "string \<Rightarrow> (py_error, int) res" where
  "py_int_str s = (case (case py_strip s of
       [] \<Rightarrow> None
     | c # cs \<Rightarrow> if c = CHR ''-'' then map_option uminus (scan_digits False 0 cs)
                 else if c = CHR ''+'' then scan_digits False 0 cs
                 else scan_digits False 0 (c # cs))
     of None \<Rightarrow> Inl ValueError | Some i \<Rightarrow> Inr i)"

section \<open>JSON values\<close>

datatype json =
    JNull
  | JBool bool
  | JInt int
  | JFloat string rat
  | JStr string
  | JList "json list"
  | JObj "(string \<times> json) list"

type_synonym obj = "(string \<times> json) list"

text \<open>\<open>d.get(k)\<close>: a missing key reads as \<open>None\<close>.\<close>

definition jget :: "obj \<Rightarrow> string \<Rightarrow> json" where
  "jget d k = dget d k JNull"

fun truthy :: "json \<Rightarrow> bool" where
  "truthy JNull = False"
| "truthy (JBool b) = b"
| "truthy (JInt i) = (i \<noteq> 0)"
| "truthy (JFloat _ q) = (q \<noteq> 0)"
| "truthy (JStr s) = (s \<noteq> [])"
| "truthy (JList xs) = (xs \<noteq> [])"
| "truthy (JObj kvs) = (kvs \<noteq> [])"

text \<open>\<open>x or y\<close>\<close>

definition py_or :: "json \<Rightarrow> json \<Rightarrow> json" where
  "py_or x y = (if truthy x then x else y)"

definition hex_char :: "nat \<Rightarrow> char" where
  "hex_char n = (if n < 10 then char_of (48 + n) else char_of (87 + n))"

text \<open>\<open>repr\<close> of text: the quote is \<open>'\<close> unless the text holds one and no double quote.\<close>

definition py_repr_char :: "char \<Rightarrow> char \<Rightarrow> string" where
  "py_repr_char q c = (let n = of_char c :: nat in
     if c = q \<or> c = CHR 0x5C then [CHR 0x5C, c]
     else if n = 9 then [CHR 0x5C, CHR ''t'']
     else if n = 10 then [CHR 0x5C, CHR ''n'']
     else if n = 13 then [CHR 0x5C, CHR ''r'']
     else if n < 32 \<or> (127 \<le> n \<and> n \<le> 160) \<or> n = 173
       then [CHR 0x5C, CHR ''x'', hex_char (n div 16), hex_char (n mod 16)]
     else [c])"

definition py_repr_str :: "string \<Rightarrow> string" where
  "py_repr_str s = (let q = (if CHR 0x27 \<in> set s \<and> CHR 0x22 \<notin> set s then CHR 0x22 else CHR 0x27)
     in [q] @ concat (map (py_repr_char q) s) @ [q])"

fun py_repr :: "json \<Rightarrow> string" where
  "py_repr JNull = ''None''"
| "py_repr (JBool b) = (if b then ''True'' else ''False'')"
| "py_repr (JInt i) = show_int i"
| "py_repr (JFloat t _) = t"
| "py_repr (JStr s) = py_repr_str s"
| "py_repr (JList xs) = ''['' @ py_join '', '' (map py_repr xs) @ '']''"
| "py_repr (JObj kvs) =
     ''{'' @ py_join '', '' (map (\<lambda>(k, v). py_repr_str k @ '': '' @ py_repr v) kvs) @ ''}''"

text \<open>\<open>str(x)\<close>: text is itself, everything else prints as its \<open>repr\<close>.\<close>

fun py_str :: "json \<Rightarrow> string" where
  "py_str (JStr s) = s"
| "py_str v = py_repr v"

text \<open>\<open>str(x or y)\<close> for a text \<open>y\<close>, the most frequent shape of the source.\<close>

definition str_of_or :: "json \<Rightarrow> string \<Rightarrow> string" where
  "str_of_or x y = (if truthy x then py_str x else y)"

definition trunc_rat :: "rat \<Rightarrow> int" where
  "trunc_rat q = (if q < 0 then - \<lfloor>- q\<rfloor> else \<lfloor>q\<rfloor>)"

fun py_int :: "json \<Rightarrow> (py_error, int) res" where
  "py_int JNull = Inl TypeError"
| "py_int (JBool b) = Inr (if b then 1 else 0)"
| "py_int (JInt i) = Inr i"
| "py_int (JFloat _ q) = Inr (trunc_rat q)"
| "py_int (JStr s) = py_int_str s"
| "py_int (JList _) = Inl TypeError"
| "py_int (JObj _) = Inl TypeError"

text \<open>\<open>list(x)\<close>: text gives its characters, a dictionary its keys.\<close>

fun py_list :: "json \<Rightarrow> (py_error, json list) res" where
  "py_list (JList xs) = Inr xs"
| "py_list (JStr s) = Inr (map (\<lambda>c. JStr [c]) s)"
| "py_list (JObj kvs) = Inr (map (\<lambda>(k, _). JStr k) kvs)"
| "py_list _ = Inl TypeError"

text \<open>
  \<open>dict(x)\<close>: a dictionary is copied; a list of pairs (two-element lists, or two-character
  texts) builds one. Pairs whose key is not text are refused here.
\<close>

fun py_pair :: "json \<Rightarrow> (py_error, string \<times> json) res" where
  "py_pair (JList [JStr k, v]) = Inr (k, v)"
| "py_pair (JStr [a, b]) = Inr ([a], JStr [b])"
| "py_pair (JList _) = Inl ValueError"
| "py_pair (JStr _) = Inl ValueError"
| "py_pair _ = Inl TypeError"

fun py_dict :: "json \<Rightarrow> (py_error, obj) res" where
  "py_dict (JObj kvs) = Inr kvs"
| "py_dict (JList xs) = rbind (rmap py_pair xs)
     (\<lambda>ps. Inr (fold (\<lambda>(k, v) d. AList.update k v d) ps []))"
| "py_dict (JStr s) = (if s = [] then Inr [] else Inl ValueError)"
| "py_dict _ = Inl TypeError"

definition is_obj :: "json \<Rightarrow> bool" where
  "is_obj v = (case v of JObj _ \<Rightarrow> True | _ \<Rightarrow> False)"

text \<open>\<open>x if isinstance(x, dict) else {}\<close>\<close>

definition obj_or_empty :: "json \<Rightarrow> obj" where
  "obj_or_empty v = (case v of JObj kvs \<Rightarrow> kvs | _ \<Rightarrow> [])"

definition jopt :: "string option \<Rightarrow> json" where
  "jopt x = (case x of None \<Rightarrow> JNull | Some s \<Rightarrow> JStr s)"

section \<open>Canonical JSON text\<close>

text \<open>
  \<open>json.dumps(payload, ensure_ascii=False, sort_keys=True, separators=(",", ":"))\<close>, the
  text under every hash and signature of the chain.
\<close>

definition json_escape_char :: "char \<Rightarrow> string" where
  "json_escape_char c = (let n = of_char c :: nat in
     if n = 34 then [CHR 0x5C, CHR 0x22]
     else if n = 92 then [CHR 0x5C, CHR 0x5C]
     else if n = 10 then [CHR 0x5C, CHR ''n'']
     else if n = 13 then [CHR 0x5C, CHR ''r'']
     else if n = 9 then [CHR 0x5C, CHR ''t'']
     else if n = 8 then [CHR 0x5C, CHR ''b'']
     else if n = 12 then [CHR 0x5C, CHR ''f'']
     else if n < 32 then [CHR 0x5C, CHR ''u'', CHR ''0'', CHR ''0'', hex_char (n div 16), hex_char (n mod 16)]
     else [c])"

definition json_quote :: "string \<Rightarrow> string" where
  "json_quote s = CHR 0x22 # concat (map json_escape_char s) @ [CHR 0x22]"

fun canonical :: "json \<Rightarrow> string" where
  "canonical JNull = ''null''"
| "canonical (JBool b) = (if b then ''true'' else ''false'')"
| "canonical (JInt i) = show_int i"
| "canonical (JFloat t _) = t"
| "canonical (JStr s) = json_quote s"
| "canonical (JList xs) = ''['' @ py_join '','' (map canonical xs) @ '']''"
| "canonical (JObj kvs) =
     ''{'' @ py_join '','' (map (\<lambda>(k, t). json_quote k @ '':'' @ t)
       (dsorted (map (\<lambda>(k, v). (k, canonical v)) kvs))) @ ''}''"

section \<open>Lemmas on text\<close>

lemma of_char_digit [simp]: "n < 10 \<Longrightarrow> of_char (digit_char n) = 48 + n"
  by (simp add: digit_char_def)

lemma digit_char_simps [simp]:
  assumes "n < 10"
  shows "py_isdigit (digit_char n)" "digit_value (digit_char n) = int n"
    "\<not> py_isspace (digit_char n)" "digit_char n \<noteq> CHR ''-''" "digit_char n \<noteq> CHR ''+''"
    "digit_char n \<noteq> CHR ''.''" "digit_char n \<noteq> CHR ''_''"
proof -
  have v: "of_char (digit_char n) = 48 + n" using assms by simp
  show "py_isdigit (digit_char n)" "digit_value (digit_char n) = int n"
    "\<not> py_isspace (digit_char n)"
    using assms by (simp_all add: py_isdigit_def digit_value_def py_isspace_def v)
  have "of_char (digit_char n) \<noteq> (of_char c :: nat)"
    if "c \<in> {CHR ''-'', CHR ''+'', CHR ''.'', CHR ''_''}" for c
    using that assms by (auto simp: v)
  then show "digit_char n \<noteq> CHR ''-''" "digit_char n \<noteq> CHR ''+''"
    "digit_char n \<noteq> CHR ''.''" "digit_char n \<noteq> CHR ''_''"
    by blast+
qed

lemma digit_char_0: "digit_char 0 = CHR ''0''"
  by code_simp

lemma show_nat_nonempty [simp]: "show_nat n \<noteq> []"
  by (subst show_nat.simps) simp

lemma show_nat_digits: "c \<in> set (show_nat n) \<Longrightarrow> \<exists>d < 10. c = digit_char d"
proof (induction n rule: show_nat.induct)
  case (1 n)
  show ?case
  proof (cases "n < 10")
    case True
    then show ?thesis using 1 by (auto simp: show_nat.simps [of n])
  next
    case False
    then have "c \<in> set (show_nat (n div 10)) \<or> c = digit_char (n mod 10)"
      using "1.prems" by (auto simp: show_nat.simps [of n])
    then show ?thesis
    proof
      assume "c \<in> set (show_nat (n div 10))"
      then show ?thesis using "1.IH" [OF False] by simp
    next
      assume "c = digit_char (n mod 10)"
      then show ?thesis by (intro exI [of _ "n mod 10"]) simp
    qed
  qed
qed

lemma scan_digits_append_digit:
  assumes "scan_digits prev acc s = Some v" and "d < 10" and "s \<noteq> []"
    and "\<forall>c \<in> set s. py_isdigit c"
  shows "scan_digits prev acc (s @ [digit_char d]) = Some (10 * v + int d)"
  using assms
proof (induction s arbitrary: prev acc)
  case Nil
  then show ?case by simp
next
  case (Cons c cs)
  show ?case
  proof (cases "cs = []")
    case True
    with Cons.prems show ?thesis by auto
  next
    case False
    with Cons show ?thesis by auto
  qed
qed

lemma show_nat_isdigit: "c \<in> set (show_nat n) \<Longrightarrow> py_isdigit c"
  by (auto dest!: show_nat_digits)

lemma scan_digits_show_nat: "scan_digits prev 0 (show_nat n) = Some (int n)"
proof (induction n rule: show_nat.induct)
  case (1 n)
  show ?case
  proof (cases "n < 10")
    case True
    then show ?thesis by (simp add: show_nat.simps [of n])
  next
    case False
    have "scan_digits prev 0 (show_nat (n div 10) @ [digit_char (n mod 10)])
      = Some (10 * int (n div 10) + int (n mod 10))"
      by (rule scan_digits_append_digit) (use "1.IH" [OF False] in \<open>auto dest: show_nat_isdigit\<close>)
    moreover have "10 * int (n div 10) + int (n mod 10) = int n"
      by (metis mult_div_mod_eq of_nat_add of_nat_mult of_nat_numeral)
    ultimately show ?thesis using False by (simp add: show_nat.simps [of n])
  qed
qed

lemma scan_digits_zeros:
  "scan_digits True 0 (replicate k CHR ''0'' @ s) = scan_digits True 0 s"
  by (induction k) (auto simp: py_isdigit_def digit_value_def)

lemma scan_digits_pad_zero:
  "scan_digits False 0 (pad_zero w (show_nat n)) = Some (int n)"
proof (cases "w - length (show_nat n)")
  case 0
  then show ?thesis by (simp add: pad_zero_def scan_digits_show_nat)
next
  case (Suc k)
  then show ?thesis
    by (simp add: pad_zero_def scan_digits_show_nat scan_digits_zeros py_isdigit_def digit_value_def)
qed

lemma dropWhile_none: "(\<And>c. c \<in> set s \<Longrightarrow> \<not> P c) \<Longrightarrow> dropWhile P s = s"
  by (cases s) auto

lemma py_strip_clean: "(\<And>c. c \<in> set s \<Longrightarrow> \<not> py_isspace c) \<Longrightarrow> py_strip s = s"
  using dropWhile_none [of s py_isspace] dropWhile_none [of "rev s" py_isspace]
  by (simp add: py_strip_def)

lemma py_strip_Nil [simp, py_simps]: "py_strip [] = []"
  by (simp add: py_strip_def)

lemma rstrip_keeps_head:
  assumes "s = [] \<or> \<not> P (hd s)"
  shows "rev (dropWhile P (rev s)) = [] \<or> \<not> P (hd (rev (dropWhile P (rev s))))"
proof -
  obtain pre where pre: "rev s = pre @ dropWhile P (rev s)"
    by (metis takeWhile_dropWhile_id)
  then have s: "s = rev (dropWhile P (rev s)) @ rev pre"
    by (metis rev_append rev_rev_ident)
  then have "rev (dropWhile P (rev s)) \<noteq> [] \<Longrightarrow> hd s = hd (rev (dropWhile P (rev s))) \<and> s \<noteq> []"
    by (metis append_is_Nil_conv hd_append2)
  then show ?thesis using assms by metis
qed

lemma dropWhile_id: "s = [] \<or> \<not> P (hd s) \<Longrightarrow> dropWhile P s = s"
  by (cases s) auto

lemma dropWhile_head: "dropWhile P s = [] \<or> \<not> P (hd (dropWhile P s))"
  by (metis hd_dropWhile)

lemma py_strip_idem [simp]: "py_strip (py_strip s) = py_strip s"
proof -
  have "dropWhile py_isspace (py_strip s) = py_strip s"
    unfolding py_strip_def
    by (rule dropWhile_id, rule rstrip_keeps_head, rule dropWhile_head)
  then show ?thesis by (metis dropWhile_head dropWhile_id py_strip_def rev_rev_ident)
qed

lemma py_int_str_show_nat [simp]: "py_int_str (show_nat n) = Inr (int n)"
proof -
  obtain d cs where s: "show_nat n = digit_char d # cs" and d: "d < 10"
    by (metis list.exhaust list.set_intros(1) show_nat_digits show_nat_nonempty)
  have "py_strip (show_nat n) = show_nat n"
    by (rule py_strip_clean) (auto dest!: show_nat_digits)
  then show ?thesis
    using s d scan_digits_show_nat [of False n] by (simp add: py_int_str_def)
qed

lemma py_int_str_pad_zero: "0 < w \<Longrightarrow> py_int_str (pad_zero w (show_nat n)) = Inr (int n)"
proof -
  have clean: "c \<in> set (pad_zero w (show_nat n)) \<Longrightarrow> \<exists>d < 10. c = digit_char d" for c
  proof -
    assume "c \<in> set (pad_zero w (show_nat n))"
    then consider "c = CHR ''0''" | "c \<in> set (show_nat n)"
      by (auto simp: pad_zero_def split: if_splits)
    then show "\<exists>d < 10. c = digit_char d"
    proof cases
      case 1
      then show ?thesis by (intro exI [of _ 0]) (simp add: digit_char_0)
    next
      case 2
      then show ?thesis by (rule show_nat_digits)
    qed
  qed
  obtain d cs where s: "pad_zero w (show_nat n) = digit_char d # cs" and d: "d < 10"
    by (metis append_is_Nil_conv clean list.exhaust list.set_intros(1) pad_zero_def show_nat_nonempty)
  have "py_strip (pad_zero w (show_nat n)) = pad_zero w (show_nat n)"
    by (rule py_strip_clean) (auto dest!: clean)
  then show ?thesis
    using s d scan_digits_pad_zero [of w n] by (simp add: py_int_str_def)
qed

lemma length_show_nat_bound: "n < 10 ^ w \<Longrightarrow> 0 < w \<Longrightarrow> length (show_nat n) \<le> w"
proof (induction n arbitrary: w rule: show_nat.induct)
  case (1 n)
  show ?case
  proof (cases "n < 10")
    case True
    with "1.prems" show ?thesis by (simp add: show_nat.simps [of n])
  next
    case False
    with "1.prems" obtain w' where w: "w = Suc w'" and "0 < w'"
      by (cases w) (auto, metis One_nat_def gr0I power_0 mult.right_neutral power_Suc)
    with "1.prems" have "n div 10 < 10 ^ w'" by auto
    then have "length (show_nat (n div 10)) \<le> w'" using "1.IH" False \<open>0 < w'\<close> by blast
    then show ?thesis using False w by (simp add: show_nat.simps [of n])
  qed
qed

lemma length_pad_zero: "length s \<le> w \<Longrightarrow> length (pad_zero w s) = w"
  by (simp add: pad_zero_def)

lemma py_lower_char_idem [simp]: "py_lower_char (py_lower_char c) = py_lower_char c"
proof -
  have "of_char c < (256::nat)" by (cases c) (simp add: of_char_def)
  then show ?thesis by (auto simp: py_lower_char_def Let_def)
qed

lemma py_lower_idem [simp]: "py_lower (py_lower s) = py_lower s"
  by (simp add: py_lower_def)

lemma py_lower_Nil [simp]: "py_lower [] = []"
  by (simp add: py_lower_def)

lemma jget_Nil [simp, py_simps]: "jget [] k = JNull"
  by (simp add: jget_def)

lemma jget_Cons [simp, py_simps]: "jget ((k, v) # d) k' = (if k' = k then v else jget d k')"
  by (simp add: jget_def dget_Cons)

lemma jget_update [simp, py_simps]:
  "jget (AList.update k v d) k' = (if k' = k then v else jget d k')"
  by (simp add: jget_def)

end
