(* ===== verification/Policy.thy ===== *)
theory Policy
  imports PyValues
begin

text \<open>
  \<open>src/src/cai_compute_chain/model.py\<close>: the enumerations, the per-network presets, and the
  money and wallet policies with their defaults. A field \<open>f\<close> of \<open>MoneyPolicy\<close> is
  \<open>mp_f\<close>, of \<open>WalletPolicy\<close> \<open>wp_f\<close>, of \<open>NetworkModelPolicy\<close> \<open>np_f\<close>. The process
  environment is an argument, the function \<open>os.getenv\<close>. A float constant of a policy is
  the exact rational value of its IEEE double (\<open>0.35\<close>, \<open>0.85\<close>); such fields are only
  compared. The file names of
  \<open>WalletPolicy\<close> and the switches no modelled code reads are left out.
\<close>

type_synonym os_env = "string \<Rightarrow> string option"

datatype ValidatorLifecycleState = UNBONDED | BONDED | UNBONDING | JAILED

datatype PaymentPreference = AUTO | RESERVE_ONLY | WALLET_ONLY

datatype FundingSource = RESERVE | WALLET

datatype ChainNetwork = MAINNET | TESTNET

fun funding_source_value :: "FundingSource \<Rightarrow> string" where
  "funding_source_value RESERVE = ''reserve''"
| "funding_source_value WALLET = ''wallet''"

fun chain_network_value :: "ChainNetwork \<Rightarrow> string" where
  "chain_network_value MAINNET = ''mainnet''"
| "chain_network_value TESTNET = ''testnet''"

fun validator_state_value :: "ValidatorLifecycleState \<Rightarrow> string" where
  "validator_state_value UNBONDED = ''unbonded''"
| "validator_state_value BONDED = ''bonded''"
| "validator_state_value UNBONDING = ''unbonding''"
| "validator_state_value JAILED = ''jailed''"

definition CHAIN_NETWORK_ALIASES :: "(string \<times> ChainNetwork) list" where
  "CHAIN_NETWORK_ALIASES =
     [(''mainnet'', MAINNET), (''main'', MAINNET), (''prod'', MAINNET), (''production'', MAINNET),
      (''testnet'', TESTNET), (''test'', TESTNET), (''staging'', TESTNET)]"

section \<open>Environment switches\<close>

definition env_flag_or_none :: "os_env \<Rightarrow> string \<Rightarrow> bool option" where
  "env_flag_or_none os name = map_option
     (\<lambda>raw. py_lower (py_strip raw) \<in> {''1'', ''true'', ''yes'', ''on'', ''strict'', ''required''})
     (os name)"

text \<open>\<open>os.getenv(a) or os.getenv(b) or ""\<close>\<close>

definition getenv_or :: "os_env \<Rightarrow> string \<Rightarrow> string \<Rightarrow> string" where
  "getenv_or os name d = (case os name of None \<Rightarrow> d | Some v \<Rightarrow> str_or v d)"

text \<open>
  \<open>resolve_active_chain_network\<close> is called with a \<open>ChainNetwork\<close>, with a text, or with
  nothing, when the environment decides; an unknown name means the main network.
\<close>

datatype network_arg = NetEnum ChainNetwork | NetText string | NetNone

fun resolve_active_chain_network :: "os_env \<Rightarrow> network_arg \<Rightarrow> ChainNetwork" where
  "resolve_active_chain_network os (NetEnum n) = n"
| "resolve_active_chain_network os (NetText v) =
     dget CHAIN_NETWORK_ALIASES (py_lower (py_strip v)) MAINNET"
| "resolve_active_chain_network os NetNone =
     dget CHAIN_NETWORK_ALIASES
       (py_lower (py_strip (getenv_or os ''CAI_CHAIN_NETWORK'' (getenv_or os ''CAI_NETWORK'' [])))) MAINNET"

section \<open>Presets\<close>

record ChainNetworkPreset =
  preset_namespace :: string
  preset_bootstrap_peers :: "string list"
  preset_trusted_validator_addresses :: "string list"
  preset_api_port :: int
  preset_libp2p_port :: int
  preset_cai_home_dirname :: string
  preset_wallet_data_dirname :: string
  preset_developer_treasury_wallet_id :: string
  preset_developer_treasury_address :: string
  preset_ai_development_wallet_id :: string
  preset_ai_development_address :: string

fun CHAIN_NETWORK_PRESETS :: "ChainNetwork \<Rightarrow> ChainNetworkPreset" where
  "CHAIN_NETWORK_PRESETS MAINNET =
    \<lparr>preset_namespace = ''cai-ai-net'',
     preset_bootstrap_peers = [''/ip4/192.145.29.212/tcp/52416''],
     preset_trusted_validator_addresses =
       [''2dabc2bfc0e6182aade1e5c17633d191fc290e3bd94b6153ab0992c79078a8ec''],
     preset_api_port = 52415, preset_libp2p_port = 52418,
     preset_cai_home_dirname = ''.cai'', preset_wallet_data_dirname = ''.cai-local'',
     preset_developer_treasury_wallet_id = ''f566089781403edca18c2d06c9c0af8a'',
     preset_developer_treasury_address =
       ''6d9c5fc0ab4f5ad786881d1848800f778dc8f21473ebcff514181dfb50023881'',
     preset_ai_development_wallet_id = ''d614b61241fa972c34cf7c256848dc3d'',
     preset_ai_development_address = ''d7fbe14450f1a91363fb9585393ccd38''\<rparr>"
| "CHAIN_NETWORK_PRESETS TESTNET =
    \<lparr>preset_namespace = ''cai-ai-testnet'',
     preset_bootstrap_peers = [],
     preset_trusted_validator_addresses = [],
     preset_api_port = 52515, preset_libp2p_port = 52518,
     preset_cai_home_dirname = ''.cai-testnet'', preset_wallet_data_dirname = ''.cai-local-testnet'',
     preset_developer_treasury_wallet_id = ''855ecd31ec15064d9787560bc0e44ccc'',
     preset_developer_treasury_address = ''c45112f1eb695a79732dc622e16e0423'',
     preset_ai_development_wallet_id = ''4b41845b6ba0422fdee9a2dc435101d1'',
     preset_ai_development_address = ''d96d56a8fd63fb352009bf17d05c7d96''\<rparr>"

definition active_chain_preset :: "os_env \<Rightarrow> network_arg \<Rightarrow> ChainNetworkPreset" where
  "active_chain_preset os n = CHAIN_NETWORK_PRESETS (resolve_active_chain_network os n)"

definition env_or_preset :: "os_env \<Rightarrow> string \<Rightarrow> string \<Rightarrow> string" where
  "env_or_preset os name v = str_or (py_strip (getenv_or os name [])) v"

text \<open>\<open>s.split(",")\<close>\<close>

fun split_commas :: "string \<Rightarrow> string list" where
  "split_commas [] = [[]]"
| "split_commas (c # cs) =
     (if c = CHR '','' then [] # split_commas cs
      else (case split_commas cs of [] \<Rightarrow> [[c]] | w # ws \<Rightarrow> (c # w) # ws))"

definition split_peer_env :: "string option \<Rightarrow> string list" where
  "split_peer_env raw = (case raw of None \<Rightarrow> []
     | Some s \<Rightarrow> filter (\<lambda>p. p \<noteq> [])
         (map py_strip (split_commas (map (\<lambda>c. if c = CHR 0x0A then CHR '','' else c) s))))"

definition default_trusted_validator_addresses :: "os_env \<Rightarrow> string list" where
  "default_trusted_validator_addresses os =
     (let configured = split_peer_env (os ''CAI_TRUSTED_VALIDATOR_ADDRESSES'');
          extra = split_peer_env (os ''CAI_EXTRA_TRUSTED_VALIDATOR_ADDRESSES'');
          base = (if configured \<noteq> [] then configured
                  else preset_trusted_validator_addresses (active_chain_preset os NetNone))
      in dedup_first (base @ extra))"

definition default_developer_treasury_wallet_id :: "os_env \<Rightarrow> string" where
  "default_developer_treasury_wallet_id os = env_or_preset os ''CAI_DEVELOPER_TREASURY_WALLET_ID''
     (preset_developer_treasury_wallet_id (active_chain_preset os NetNone))"

definition default_developer_treasury_address :: "os_env \<Rightarrow> string" where
  "default_developer_treasury_address os = env_or_preset os ''CAI_DEVELOPER_TREASURY_ADDRESS''
     (preset_developer_treasury_address (active_chain_preset os NetNone))"

definition default_ai_development_wallet_id :: "os_env \<Rightarrow> string" where
  "default_ai_development_wallet_id os = preset_ai_development_wallet_id (active_chain_preset os NetNone)"

definition default_ai_development_address :: "os_env \<Rightarrow> string" where
  "default_ai_development_address os = preset_ai_development_address (active_chain_preset os NetNone)"

section \<open>Money policy\<close>

record MoneyPolicy =
  mp_chain_network :: ChainNetwork
  mp_currency_code :: string
  mp_reward_token_code :: string
  mp_decimals :: nat
  mp_total_supply_coins :: int
  mp_compute_reserve_coins :: int
  mp_project_treasury_coins :: int
  mp_developer_treasury_coins :: int
  mp_developer_contribution_fund_coins :: int
  mp_developer_treasury_wallet_id :: string
  mp_developer_treasury_address :: string
  mp_ai_development_wallet_id :: string
  mp_ai_development_address :: string
  mp_ai_development_fee_bps :: int
  mp_daily_user_reserve_limit_enabled :: bool
  mp_daily_user_reserve_limit_coins :: string
  mp_daily_ip_reserve_limit_enabled :: bool
  mp_daily_ip_reserve_limit_coins :: string
  mp_default_tx_fee_coins :: string
  mp_validator_settlement_fee_bps :: int
  mp_validator_min_bond_coins :: string
  mp_validator_committee_target_size :: int
  mp_validator_committee_selection_mode :: string
  mp_validator_jail_slash_bps :: int
  mp_validator_conflicting_attestation_slash_bps :: int
  mp_validator_unbonding_seconds :: int
  mp_validator_unjail_cooldown_seconds :: int
  mp_automatic_token_pricing_enabled :: bool
  mp_automatic_price_floor_coins :: string
  mp_automatic_price_cap_coins :: string
  mp_automatic_price_per_input_token_coins :: string
  mp_automatic_price_per_output_token_coins :: string
  mp_automatic_price_default_reserved_output_tokens :: int
  mp_automatic_price_prompt_unit_chars :: int
  mp_automatic_price_per_prompt_unit_coins :: string
  mp_automatic_price_target_connections :: int
  mp_automatic_price_low_load_threshold :: rat
  mp_automatic_price_high_load_threshold :: rat
  mp_automatic_price_low_load_discount_bps :: int
  mp_automatic_price_high_load_surcharge_bps :: int
  mp_automatic_price_connection_scarcity_surcharge_bps :: int
  mp_automatic_price_healthy_network_discount_bps :: int
  mp_automatic_price_unreachable_safety_bps :: int
  mp_automatic_price_non_default_model_premium_bps :: int
  mp_automatic_price_reserve_guard_bps :: int
  mp_automatic_price_reserve_critical_bps :: int

text \<open>
  \<open>MoneyPolicy(chain_network=n)\<close>: the treasury and development wallets come from their own
  default factories, which look at the environment and not at \<open>n\<close>.
\<close>

definition MoneyPolicy_for :: "os_env \<Rightarrow> ChainNetwork \<Rightarrow> MoneyPolicy" where
  "MoneyPolicy_for os n =
    \<lparr>mp_chain_network = n,
     mp_currency_code = ''CAICN'',
     mp_reward_token_code = ''CAICN'',
     mp_decimals = 8,
     mp_total_supply_coins = 1000000000,
     mp_compute_reserve_coins = 850000000,
     mp_project_treasury_coins = 50000000,
     mp_developer_treasury_coins = 50000000,
     mp_developer_contribution_fund_coins = 100000000,
     mp_developer_treasury_wallet_id = default_developer_treasury_wallet_id os,
     mp_developer_treasury_address = default_developer_treasury_address os,
     mp_ai_development_wallet_id = default_ai_development_wallet_id os,
     mp_ai_development_address = default_ai_development_address os,
     mp_ai_development_fee_bps = 0,
     mp_daily_user_reserve_limit_enabled = True,
     mp_daily_user_reserve_limit_coins = ''1.00000000'',
     mp_daily_ip_reserve_limit_enabled = True,
     mp_daily_ip_reserve_limit_coins = ''1.00000000'',
     mp_default_tx_fee_coins = ''0.00010000'',
     mp_validator_settlement_fee_bps = 200,
     mp_validator_min_bond_coins = ''10000.00000000'',
     mp_validator_committee_target_size = 3,
     mp_validator_committee_selection_mode = ''stake_weighted_lottery'',
     mp_validator_jail_slash_bps = 500,
     mp_validator_conflicting_attestation_slash_bps = 2000,
     mp_validator_unbonding_seconds = 86400,
     mp_validator_unjail_cooldown_seconds = 21600,
     mp_automatic_token_pricing_enabled = True,
     mp_automatic_price_floor_coins = ''0.00100000'',
     mp_automatic_price_cap_coins = ''0.00500000'',
     mp_automatic_price_per_input_token_coins = ''0.00000300'',
     mp_automatic_price_per_output_token_coins = ''0.00000600'',
     mp_automatic_price_default_reserved_output_tokens = 128,
     mp_automatic_price_prompt_unit_chars = 256,
     mp_automatic_price_per_prompt_unit_coins = ''0.00025000'',
     mp_automatic_price_target_connections = 2,
     mp_automatic_price_low_load_threshold = 3152519739159347 / 9007199254740992,
     mp_automatic_price_high_load_threshold = 7656119366529843 / 9007199254740992,
     mp_automatic_price_low_load_discount_bps = 500,
     mp_automatic_price_high_load_surcharge_bps = 1500,
     mp_automatic_price_connection_scarcity_surcharge_bps = 1200,
     mp_automatic_price_healthy_network_discount_bps = 500,
     mp_automatic_price_unreachable_safety_bps = 500,
     mp_automatic_price_non_default_model_premium_bps = 2500,
     mp_automatic_price_reserve_guard_bps = 500,
     mp_automatic_price_reserve_critical_bps = 1000\<rparr>"

text \<open>\<open>MoneyPolicy()\<close>\<close>

definition MoneyPolicy_default :: "os_env \<Rightarrow> MoneyPolicy" where
  "MoneyPolicy_default os = MoneyPolicy_for os (resolve_active_chain_network os NetNone)"

section \<open>Wallet policy\<close>

record WalletPolicy =
  wp_chain_network :: ChainNetwork
  wp_require_post_quantum_wallet_signatures :: bool
  wp_require_hybrid_peer_payload_signatures :: bool
  wp_trusted_validator_addresses :: "string list"

definition default_require_hybrid_peer_payload_signatures :: "os_env \<Rightarrow> bool" where
  "default_require_hybrid_peer_payload_signatures os =
     (case env_flag_or_none os ''CAI_REQUIRE_HYBRID_PEER_PAYLOAD_SIGNATURES'' of
        Some b \<Rightarrow> b | None \<Rightarrow> resolve_active_chain_network os NetNone = MAINNET)"

text \<open>The constructor with its \<open>__post_init__\<close>; \<open>None\<close> stands for an argument left out.\<close>

definition WalletPolicy_make ::
  "os_env \<Rightarrow> ChainNetwork option \<Rightarrow> bool option \<Rightarrow> bool option \<Rightarrow> string list option \<Rightarrow> WalletPolicy" where
  "WalletPolicy_make os net pq hybrid trusted =
    (let n = (case net of Some m \<Rightarrow> m | None \<Rightarrow> resolve_active_chain_network os NetNone) in
     \<lparr>wp_chain_network = n,
      wp_require_post_quantum_wallet_signatures =
        (case pq of Some b \<Rightarrow> b
         | None \<Rightarrow> (case env_flag_or_none os ''CAI_REQUIRE_POST_QUANTUM_SIGNATURES'' of
              Some b \<Rightarrow> b | None \<Rightarrow> n = MAINNET)),
      wp_require_hybrid_peer_payload_signatures =
        (case hybrid of Some b \<Rightarrow> b
         | None \<Rightarrow> (case env_flag_or_none os ''CAI_REQUIRE_HYBRID_PEER_PAYLOAD_SIGNATURES'' of
              Some b \<Rightarrow> b | None \<Rightarrow> default_require_hybrid_peer_payload_signatures os)),
      wp_trusted_validator_addresses =
        (case trusted of Some xs \<Rightarrow> xs | None \<Rightarrow> default_trusted_validator_addresses os)\<rparr>)"

definition WalletPolicy_default :: "os_env \<Rightarrow> WalletPolicy" where
  "WalletPolicy_default os = WalletPolicy_make os None None None None"

text \<open>\<open>policy or WalletPolicy()\<close>\<close>

definition active_wallet_policy :: "os_env \<Rightarrow> WalletPolicy option \<Rightarrow> WalletPolicy" where
  "active_wallet_policy os p = (case p of Some w \<Rightarrow> w | None \<Rightarrow> WalletPolicy_default os)"

section \<open>Network model policy\<close>

record NetworkModelPolicy =
  np_network_default_model_id :: string
  np_network_execution_model_ids :: "string list"
  np_minimum_worker_shards :: int
  np_allow_single_node_private_inference :: bool

definition LEGACY_PRIVATE_NETWORK_MODEL_ID :: string where
  "LEGACY_PRIVATE_NETWORK_MODEL_ID = ''cai-network/qwen3-0.6b-4bit''"

definition normalize_network_model_id :: "string \<Rightarrow> NetworkModelPolicy \<Rightarrow> string" where
  "normalize_network_model_id model_id p =
     (if model_id = LEGACY_PRIVATE_NETWORK_MODEL_ID then np_network_default_model_id p else model_id)"

definition effective_private_worker_shard_minimum :: "NetworkModelPolicy \<Rightarrow> int option \<Rightarrow> int" where
  "effective_private_worker_shard_minimum p available =
     (if np_allow_single_node_private_inference p
         \<and> (case available of None \<Rightarrow> False | Some n \<Rightarrow> 0 < n)
      then 1 else max 1 (np_minimum_worker_shards p))"

section \<open>Lemmas\<close>

lemma chain_network_value_inject [simp]:
  "chain_network_value a = chain_network_value b \<longleftrightarrow> a = b"
  by (cases a; cases b) auto

lemma chain_network_value_nonempty [simp]: "chain_network_value n \<noteq> []"
  by (cases n) auto

lemma MoneyPolicy_for_simps [simp]:
  "mp_chain_network (MoneyPolicy_for os n) = n"
  "mp_decimals (MoneyPolicy_for os n) = 8"
  "mp_total_supply_coins (MoneyPolicy_for os n) = 1000000000"
  "mp_compute_reserve_coins (MoneyPolicy_for os n) = 850000000"
  "mp_developer_treasury_coins (MoneyPolicy_for os n) = 50000000"
  "mp_developer_contribution_fund_coins (MoneyPolicy_for os n) = 100000000"
  "mp_developer_treasury_address (MoneyPolicy_for os n) = default_developer_treasury_address os"
  "mp_developer_treasury_wallet_id (MoneyPolicy_for os n) = default_developer_treasury_wallet_id os"
  "mp_reward_token_code (MoneyPolicy_for os n) = ''CAICN''"
  "mp_validator_settlement_fee_bps (MoneyPolicy_for os n) = 200"
  "mp_ai_development_fee_bps (MoneyPolicy_for os n) = 0"
  by (simp_all add: MoneyPolicy_for_def)

end
