(* ===== verification/Money.thy ===== *)
theory Money
  imports Policy
begin

text \<open>
  The amount and address helpers of \<open>src/src/cai_compute_chain/wallet.py\<close>: decimal coin
  texts and the atomic integers the ledger counts in, and the normal form of an address.
\<close>

definition coins_to_atomic :: "string \<Rightarrow> MoneyPolicy \<Rightarrow> (py_error, int) res" where
  "coins_to_atomic v mp =
    (let (whole0, fraction0) = py_partition CHR ''.'' v;
         whole = str_or whole0 ''0'';
         fraction = take (mp_decimals mp) (fraction0 @ replicate (mp_decimals mp) CHR ''0'');
         sign = (if py_startswith whole ''-'' then - 1 else 1 :: int);
         whole_digits = (if sign < 0 then tl whole else whole)
     in rbind (py_int_str whole_digits) (\<lambda>w.
        rbind (py_int_str (str_or fraction ''0'')) (\<lambda>f.
        Inr (sign * (w * 10 ^ mp_decimals mp + f)))))"

definition atomic_to_coins :: "int \<Rightarrow> MoneyPolicy \<Rightarrow> string" where
  "atomic_to_coins v mp =
    (let sign = (if v < 0 then ''-'' else []);
         abs_value = \<bar>v\<bar>;
         scale = 10 ^ mp_decimals mp;
         whole = abs_value div scale;
         fraction = abs_value mod scale
     in sign @ show_nat (nat whole) @ ''.'' @ pad_zero (mp_decimals mp) (show_nat (nat fraction)))"

definition normalize_address :: "string \<Rightarrow> string" where
  "normalize_address address =
    (let normalized = py_lower (py_strip address)
     in if py_startswith normalized ''cai_'' then drop 4 normalized else normalized)"

text \<open>
  Normalising once more changes nothing. The chain normalises an address each time it builds,
  stores, loads or hashes a transaction, so its results agree only on such addresses.
\<close>

definition address_stable :: "string \<Rightarrow> bool" where
  "address_stable a \<longleftrightarrow> normalize_address a = a"

text \<open>
  \<open>coins_to_atomic(str(n), policy)\<close> for an integer \<open>n\<close>, which never raises
  (\<open>coins_to_atomic_show_int\<close> below).
\<close>

definition whole_coins_to_atomic :: "int \<Rightarrow> MoneyPolicy \<Rightarrow> int" where
  "whole_coins_to_atomic n mp = (case coins_to_atomic (show_int n) mp of Inl _ \<Rightarrow> 0 | Inr v \<Rightarrow> v)"

section \<open>Lemmas\<close>

lemma py_partition_dot:
  "CHR ''.'' \<notin> set a \<Longrightarrow> py_partition CHR ''.'' (a @ CHR ''.'' # b) = (a, b)"
  by (auto simp: py_partition_def takeWhile_append dropWhile_append)

lemma show_nat_no_dot: "CHR ''.'' \<notin> set (show_nat n)"
  by (metis digit_char_simps(6) show_nat_digits)

lemma show_nat_not_minus: "\<not> py_startswith (show_nat n) ''-''"
proof -
  obtain d cs where "show_nat n = digit_char d # cs" and "d < 10"
    by (metis list.exhaust list.set_intros(1) show_nat_digits show_nat_nonempty)
  then show ?thesis by (simp add: py_startswith_def)
qed

lemma pad_zero_nonempty [simp]: "pad_zero w (show_nat n) \<noteq> []"
  by (simp add: pad_zero_def)

lemma fraction_text:
  assumes "n < 10 ^ d"
  shows "py_int_str (str_or (take d (pad_zero d (show_nat n) @ replicate d CHR ''0'')) ''0'')
    = Inr (int n)"
proof (cases "d = 0")
  case True
  with assms have "n = 0" by simp
  moreover have "py_int_str ''0'' = Inr 0" by code_simp
  ultimately show ?thesis using True by (simp add: str_or_def)
next
  case False
  then have "length (pad_zero d (show_nat n)) = d"
    using assms by (intro length_pad_zero length_show_nat_bound) auto
  then have "take d (pad_zero d (show_nat n) @ replicate d CHR ''0'') = pad_zero d (show_nat n)"
    by simp
  then show ?thesis using False by (simp add: str_or_def py_int_str_pad_zero)
qed

lemma coins_to_atomic_parts:
  assumes "n < 10 ^ mp_decimals mp"
  shows "coins_to_atomic (show_nat w @ ''.'' @ pad_zero (mp_decimals mp) (show_nat n)) mp
      = Inr (int w * 10 ^ mp_decimals mp + int n)"
    and "coins_to_atomic (''-'' @ show_nat w @ ''.'' @ pad_zero (mp_decimals mp) (show_nat n)) mp
      = Inr (- (int w * 10 ^ mp_decimals mp + int n))"
proof -
  show "coins_to_atomic (show_nat w @ ''.'' @ pad_zero (mp_decimals mp) (show_nat n)) mp
      = Inr (int w * 10 ^ mp_decimals mp + int n)"
    using fraction_text [OF assms] py_partition_dot [OF show_nat_no_dot]
    by (simp add: coins_to_atomic_def show_nat_not_minus str_or_def Let_def)
  have "CHR ''.'' \<notin> set (CHR ''-'' # show_nat w)" by (simp add: show_nat_no_dot)
  from py_partition_dot [OF this]
  show "coins_to_atomic (''-'' @ show_nat w @ ''.'' @ pad_zero (mp_decimals mp) (show_nat n)) mp
      = Inr (- (int w * 10 ^ mp_decimals mp + int n))"
    using fraction_text [OF assms]
    by (simp add: coins_to_atomic_def py_startswith_def str_or_def Let_def)
qed

text \<open>The text of an amount of whole coins is its decimal digits: \<open>str(n)\<close> has no point.\<close>

lemma py_partition_none: "c \<notin> set a \<Longrightarrow> py_partition c a = (a, [])"
  by (induction a) (auto simp: py_partition_def)

lemma zeros_value: "py_int_str (str_or (replicate d CHR ''0'') ''0'') = Inr 0"
proof -
  have "replicate d CHR ''0'' = pad_zero d (show_nat 0)" if "0 < d"
    using that by (cases d) (auto simp: pad_zero_def show_nat.simps digit_char_0 replicate_append_same [symmetric])
  moreover have "py_int_str ''0'' = Inr 0" by code_simp
  ultimately show ?thesis
    by (cases "d = 0") (auto simp: str_or_def py_int_str_pad_zero)
qed

lemma coins_to_atomic_show_int: "coins_to_atomic (show_int n) mp = Inr (n * 10 ^ mp_decimals mp)"
proof (cases "n < 0")
  case True
  have "CHR ''.'' \<notin> set (CHR ''-'' # show_nat (nat (- n)))" by (simp add: show_nat_no_dot)
  from py_partition_none [OF this] show ?thesis
    using True zeros_value [of "mp_decimals mp"]
    by (simp add: coins_to_atomic_def show_int_def py_startswith_def str_or_def Let_def split: if_splits)
next
  case False
  then show ?thesis
    using zeros_value [of "mp_decimals mp"]
    by (simp add: coins_to_atomic_def show_int_def show_nat_not_minus py_partition_none show_nat_no_dot
        str_or_def Let_def split: if_splits)
qed

lemma whole_coins_to_atomic_eq [simp]: "whole_coins_to_atomic n mp = n * 10 ^ mp_decimals mp"
  by (simp add: whole_coins_to_atomic_def coins_to_atomic_show_int)

end
