(* ===== verification/Signing.thy ===== *)
theory Signing
  imports Money
begin

text \<open>
  \<open>src/src/cai_compute_chain/wallet_signing.py\<close>: address derivation and signature checks. The
  hash function, base64 and the two signature schemes are library code. They enter as the
  fields of \<open>crypto\<close>, with no assumption on them here:
  \<^item> \<open>sha256_hex t\<close> is \<open>hashlib.sha256(t.encode("utf-8")).hexdigest()\<close>;
  \<^item> \<open>key_digest k\<close> is the hex digest of the base64-decoded key \<open>k\<close>, or \<open>None\<close> where
    \<open>base64.b64decode\<close> raises;
  \<^item> \<open>ed25519_verify k s m\<close> and \<open>mldsa65_verify k s m\<close> say whether the library accepts
    signature \<open>s\<close> on text \<open>m\<close> under key \<open>k\<close> (a library exception counts as no, as in
    the source).
\<close>

record crypto =
  sha256_hex :: "string \<Rightarrow> string"
  key_digest :: "string \<Rightarrow> string option"
  ed25519_verify :: "string \<Rightarrow> string \<Rightarrow> string \<Rightarrow> bool"
  mldsa65_verify :: "string \<Rightarrow> string \<Rightarrow> string \<Rightarrow> bool"

definition SIGNING_SCHEME_ML_DSA_65 :: string where
  "SIGNING_SCHEME_ML_DSA_65 = ''ml-dsa-65-v1''"

definition SIGNING_SCHEME_HYBRID :: string where
  "SIGNING_SCHEME_HYBRID = ''hybrid-ed25519-ml-dsa-65-v1''"

definition ADDRESS_SCHEME_ED25519 :: string where
  "ADDRESS_SCHEME_ED25519 = ''ed25519-pubkey-sha256-v1''"

definition ADDRESS_SCHEME_HYBRID :: string where
  "ADDRESS_SCHEME_HYBRID = ''hybrid-ed25519-ml-dsa-65-sha256-v1''"

definition ADDRESS_SCHEME_HYBRID_256 :: string where
  "ADDRESS_SCHEME_HYBRID_256 = ''hybrid-ed25519-ml-dsa-65-sha256-256-v1''"

definition HYBRID_ADDRESS_SCHEMES :: "string list" where
  "HYBRID_ADDRESS_SCHEMES = [ADDRESS_SCHEME_HYBRID, ADDRESS_SCHEME_HYBRID_256]"

definition ADDRESS_SCHEME_FIXED :: string where
  "ADDRESS_SCHEME_FIXED = ''fixed-wallet-id-sha256-v1''"

lemmas scheme_defs = SIGNING_SCHEME_ML_DSA_65_def SIGNING_SCHEME_HYBRID_def
  ADDRESS_SCHEME_ED25519_def ADDRESS_SCHEME_HYBRID_def ADDRESS_SCHEME_HYBRID_256_def
  HYBRID_ADDRESS_SCHEMES_def ADDRESS_SCHEME_FIXED_def

definition address_from_public_key_b64 :: "('a) crypto_scheme \<Rightarrow> string \<Rightarrow> (py_error, string) res" where
  "address_from_public_key_b64 E k =
     (case key_digest E k of None \<Rightarrow> Inl ValueError | Some d \<Rightarrow> Inr (take 32 d))"

definition hybrid_address_from_public_keys_b64 ::
  "('a) crypto_scheme \<Rightarrow> string \<Rightarrow> string \<Rightarrow> string \<Rightarrow> (py_error, string) res" where
  "hybrid_address_from_public_keys_b64 E ed pq scheme =
     (let s = py_strip scheme in
      if s \<notin> set HYBRID_ADDRESS_SCHEMES then Inl ValueError
      else let digest = sha256_hex E (canonical (JObj
               [(''address_scheme'', JStr s),
                (''ed25519_public_key_b64'', JStr (py_strip ed)),
                (''pq_public_key_b64'', JStr (py_strip pq))]))
           in Inr (if s = ADDRESS_SCHEME_HYBRID then take 32 digest else digest))"

definition verify_payload_signature ::
  "('a) crypto_scheme \<Rightarrow> string \<Rightarrow> string \<Rightarrow> json \<Rightarrow> bool" where
  "verify_payload_signature E k s payload = ed25519_verify E k s (canonical payload)"

definition verify_payload_mldsa65_signature ::
  "('a) crypto_scheme \<Rightarrow> string \<Rightarrow> string \<Rightarrow> json \<Rightarrow> bool" where
  "verify_payload_mldsa65_signature E k s payload = mldsa65_verify E k s (canonical payload)"

definition verify_hybrid_payload_signature ::
  "('a) crypto_scheme \<Rightarrow> string \<Rightarrow> string \<Rightarrow> string \<Rightarrow> string \<Rightarrow> json \<Rightarrow> bool" where
  "verify_hybrid_payload_signature E edk eds pqk pqs payload \<longleftrightarrow>
     verify_payload_signature E edk eds payload
     \<and> verify_payload_mldsa65_signature E pqk pqs payload"

section \<open>Lemmas\<close>

lemma scheme_strip [simp]: "s \<in> set HYBRID_ADDRESS_SCHEMES \<Longrightarrow> py_strip s = s"
  unfolding HYBRID_ADDRESS_SCHEMES_def ADDRESS_SCHEME_HYBRID_def ADDRESS_SCHEME_HYBRID_256_def
  by (auto simp: py_strip_def py_isspace_def)

lemma schemes_distinct [simp]:
  "ADDRESS_SCHEME_ED25519 \<notin> set HYBRID_ADDRESS_SCHEMES"
  "ADDRESS_SCHEME_FIXED \<notin> set HYBRID_ADDRESS_SCHEMES"
  "ADDRESS_SCHEME_FIXED \<noteq> ADDRESS_SCHEME_ED25519"
  "ADDRESS_SCHEME_ED25519 \<noteq> []" "ADDRESS_SCHEME_FIXED \<noteq> []"
  "ADDRESS_SCHEME_HYBRID_256 \<noteq> ADDRESS_SCHEME_HYBRID"
  by (simp_all add: scheme_defs)

lemma hybrid_address_total:
  "s \<in> set HYBRID_ADDRESS_SCHEMES \<Longrightarrow> \<exists>a. hybrid_address_from_public_keys_b64 E ed pq s = Inr a"
  by (simp add: hybrid_address_from_public_keys_b64_def Let_def)

end
