(* ===== verification/Chain.thy ===== *)
theory Chain
  imports Signing
begin

text \<open>
  The data model of \<open>src/src/cai_compute_chain/chain.py\<close>: transactions and blocks, the payloads
  under their hashes, their JSON form and its parsing, transaction signatures, and the replay
  of the chain into balances and locked validator bonds. Fields the parser copies from JSON
  without a conversion (\<open>settlement_id\<close>, \<open>payout_id\<close>, \<open>wallet_id\<close>, \<open>note\<close>,
  \<open>validator_id\<close>) hold a JSON value. The clock is an argument \<open>now\<close>, read once per operation.
\<close>

definition GENESIS_PREVIOUS_HASH :: string where
  "GENESIS_PREVIOUS_HASH = replicate 64 CHR ''0''"

definition GENESIS_CREATED_AT :: string where
  "GENESIS_CREATED_AT = ''2026-01-01T00:00:00+00:00''"

definition CHAIN_SCHEMA_VERSION :: int where
  "CHAIN_SCHEMA_VERSION = 1"

text \<open>The library functions together with the process environment.\<close>

record chain_env = crypto +
  getenv :: os_env

record ChainTransaction =
  tx_id :: string
  tx_created_at :: string
  tx_type :: string
  tx_address :: string
  tx_delta_atomic :: int
  tx_settlement_id :: json
  tx_payout_id :: json
  tx_wallet_id :: json
  tx_counterparty_address :: "string option"
  tx_note :: json
  tx_nonce :: "string option"
  tx_chain_id :: string
  tx_schema_version :: int
  tx_public_key_b64 :: "string option"
  tx_signature_b64 :: "string option"
  tx_metadata :: obj

record ChainBlock =
  blk_id :: string
  blk_height :: int
  blk_created_at :: string
  blk_previous_hash :: string
  blk_validator_id :: json
  blk_transactions :: "ChainTransaction list"
  blk_hash :: string
  blk_chain_id :: string
  blk_schema_version :: int
  blk_tx_root :: string
  blk_state_root :: string
  blk_validator_public_key_b64 :: "string option"
  blk_validator_signature_b64 :: "string option"

definition money_policy_for_wallet_policy ::
  "os_env \<Rightarrow> WalletPolicy option \<Rightarrow> MoneyPolicy option \<Rightarrow> MoneyPolicy" where
  "money_policy_for_wallet_policy os wp mp =
     (case mp of Some m \<Rightarrow> m
      | None \<Rightarrow> (case wp of Some w \<Rightarrow> MoneyPolicy_for os (wp_chain_network w)
                 | None \<Rightarrow> MoneyPolicy_default os))"

definition default_chain_id :: "os_env \<Rightarrow> string" where
  "default_chain_id os = chain_network_value (mp_chain_network (MoneyPolicy_default os))"

text \<open>The chain id a policy stands for, \<open>_money_policy_for_wallet_policy(policy).chain_network.value\<close>.\<close>

abbreviation active_chain_id :: "chain_env \<Rightarrow> WalletPolicy option \<Rightarrow> string" where
  "active_chain_id E p \<equiv>
     chain_network_value (mp_chain_network (money_policy_for_wallet_policy (getenv E) p None))"

section \<open>Payloads and hashes\<close>

text \<open>\<open>asdict(tx)\<close>\<close>

definition transaction_asdict :: "ChainTransaction \<Rightarrow> obj" where
  "transaction_asdict tx =
    [(''tx_id'', JStr (tx_id tx)),
     (''created_at'', JStr (tx_created_at tx)),
     (''tx_type'', JStr (tx_type tx)),
     (''address'', JStr (tx_address tx)),
     (''delta_atomic'', JInt (tx_delta_atomic tx)),
     (''settlement_id'', tx_settlement_id tx),
     (''payout_id'', tx_payout_id tx),
     (''wallet_id'', tx_wallet_id tx),
     (''counterparty_address'', jopt (tx_counterparty_address tx)),
     (''note'', tx_note tx),
     (''nonce'', jopt (tx_nonce tx)),
     (''chain_id'', JStr (tx_chain_id tx)),
     (''schema_version'', JInt (tx_schema_version tx)),
     (''public_key_b64'', jopt (tx_public_key_b64 tx)),
     (''signature_b64'', jopt (tx_signature_b64 tx)),
     (''metadata'', JObj (tx_metadata tx))]"

definition int_or :: "int \<Rightarrow> int \<Rightarrow> int" where
  "int_or a b = (if a = 0 then b else a)"

text \<open>\<open>normalize_address(x) if x else x\<close>\<close>

definition normalize_optional :: "string option \<Rightarrow> string option" where
  "normalize_optional x = map_option (\<lambda>s. if s = [] then s else normalize_address s) x"

text \<open>The transaction as it is hashed: \<open>_transaction_payload\<close> rewrites four of its fields.\<close>

definition transaction_hashed :: "os_env \<Rightarrow> ChainTransaction \<Rightarrow> ChainTransaction" where
  "transaction_hashed os tx = tx
    \<lparr>tx_address := normalize_address (tx_address tx),
     tx_counterparty_address := normalize_optional (tx_counterparty_address tx),
     tx_chain_id := str_or (tx_chain_id tx) (default_chain_id os),
     tx_schema_version := int_or (tx_schema_version tx) CHAIN_SCHEMA_VERSION\<rparr>"

definition transaction_payload :: "os_env \<Rightarrow> ChainTransaction \<Rightarrow> obj" where
  "transaction_payload os tx = transaction_asdict (transaction_hashed os tx)"

definition transaction_signing_payload :: "os_env \<Rightarrow> ChainTransaction \<Rightarrow> obj" where
  "transaction_signing_payload os tx = transaction_asdict ((transaction_hashed os tx)
    \<lparr>tx_signature_b64 := None,
     tx_metadata := AList.delete ''pq_signature_b64'' (tx_metadata tx)\<rparr>)"

definition sha256_json :: "('a) crypto_scheme \<Rightarrow> json \<Rightarrow> string" where
  "sha256_json E payload = sha256_hex E (canonical payload)"

definition deterministic_tx_id ::
  "chain_env \<Rightarrow> string \<Rightarrow> string \<Rightarrow> int \<Rightarrow> json \<Rightarrow> json \<Rightarrow> json \<Rightarrow> string option \<Rightarrow> string option
   \<Rightarrow> string option \<Rightarrow> string option \<Rightarrow> int \<Rightarrow> string" where
  "deterministic_tx_id E typ address delta sid pid wid cp nonce pk cid schema =
    take 32 (sha256_json E (JObj
      [(''chain_id'', JStr (case cid of None \<Rightarrow> default_chain_id (getenv E)
                              | Some c \<Rightarrow> str_or c (default_chain_id (getenv E)))),
       (''schema_version'', JInt schema),
       (''tx_type'', JStr typ),
       (''address'', JStr (normalize_address address)),
       (''delta_atomic'', JInt delta),
       (''settlement_id'', sid),
       (''payout_id'', pid),
       (''wallet_id'', wid),
       (''counterparty_address'', (case cp of Some c \<Rightarrow> if c = [] then JNull else JStr (normalize_address c)
                                     | None \<Rightarrow> JNull)),
       (''nonce'', jopt nonce),
       (''public_key_b64'', (case pk of Some k \<Rightarrow> if k = [] then JNull else JStr k | None \<Rightarrow> JNull))]))"

text \<open>The keyword arguments of \<open>make_chain_transaction\<close>.\<close>

record TxArgs =
  ta_tx_type :: string
  ta_address :: string
  ta_delta_atomic :: int
  ta_settlement_id :: json
  ta_payout_id :: json
  ta_wallet_id :: json
  ta_counterparty_address :: "string option"
  ta_note :: json
  ta_nonce :: "string option"
  ta_public_key_b64 :: "string option"
  ta_signature_b64 :: "string option"
  ta_metadata :: obj
  ta_tx_id :: "string option"
  ta_created_at :: "string option"
  ta_chain_id :: "string option"
  ta_schema_version :: int

definition tx_args :: "string \<Rightarrow> string \<Rightarrow> int \<Rightarrow> TxArgs" where
  "tx_args typ address delta =
    \<lparr>ta_tx_type = typ, ta_address = address, ta_delta_atomic = delta, ta_settlement_id = JNull,
     ta_payout_id = JNull, ta_wallet_id = JNull, ta_counterparty_address = None, ta_note = JNull,
     ta_nonce = None, ta_public_key_b64 = None, ta_signature_b64 = None, ta_metadata = [],
     ta_tx_id = None, ta_created_at = None, ta_chain_id = None,
     ta_schema_version = CHAIN_SCHEMA_VERSION\<rparr>"

text \<open>\<open>x or y\<close> and \<open>str(x) if x else None\<close> on optional text\<close>

definition opt_or :: "string option \<Rightarrow> string \<Rightarrow> string" where
  "opt_or x y = (case x of None \<Rightarrow> y | Some s \<Rightarrow> str_or s y)"

definition some_if_text :: "string option \<Rightarrow> string option" where
  "some_if_text x = (case x of Some s \<Rightarrow> if s = [] then None else Some s | None \<Rightarrow> None)"

definition make_chain_transaction :: "chain_env \<Rightarrow> string \<Rightarrow> TxArgs \<Rightarrow> ChainTransaction" where
  "make_chain_transaction E now a =
    (let normalized_address = normalize_address (ta_address a);
         resolved_chain_id = opt_or (ta_chain_id a)
           (str_of_or (jget (ta_metadata a) ''network'') (default_chain_id (getenv E)));
         resolved_tx_id = opt_or (ta_tx_id a)
           (deterministic_tx_id E (ta_tx_type a) normalized_address (ta_delta_atomic a)
              (ta_settlement_id a) (ta_payout_id a) (ta_wallet_id a) (ta_counterparty_address a)
              (ta_nonce a) (ta_public_key_b64 a) (Some resolved_chain_id) (ta_schema_version a))
     in \<lparr>tx_id = resolved_tx_id,
         tx_created_at = opt_or (ta_created_at a) now,
         tx_type = ta_tx_type a,
         tx_address = normalized_address,
         tx_delta_atomic = ta_delta_atomic a,
         tx_settlement_id = ta_settlement_id a,
         tx_payout_id = ta_payout_id a,
         tx_wallet_id = ta_wallet_id a,
         tx_counterparty_address = map_option normalize_address (some_if_text (ta_counterparty_address a)),
         tx_note = ta_note a,
         tx_nonce = ta_nonce a,
         tx_chain_id = resolved_chain_id,
         tx_schema_version = ta_schema_version a,
         tx_public_key_b64 = some_if_text (ta_public_key_b64 a),
         tx_signature_b64 = some_if_text (ta_signature_b64 a),
         tx_metadata = ta_metadata a\<rparr>)"

definition block_hash_payload :: "os_env \<Rightarrow> ChainBlock \<Rightarrow> obj" where
  "block_hash_payload os b =
    [(''chain_id'', JStr (str_or (blk_chain_id b) (default_chain_id os))),
     (''schema_version'', JInt (int_or (blk_schema_version b) CHAIN_SCHEMA_VERSION)),
     (''block_id'', JStr (blk_id b)),
     (''height'', JInt (blk_height b)),
     (''created_at'', JStr (blk_created_at b)),
     (''previous_hash'', JStr (blk_previous_hash b)),
     (''validator_id'', blk_validator_id b),
     (''transactions'', JList (map (\<lambda>tx. JObj (transaction_payload os tx)) (blk_transactions b)))]"

definition compute_block_hash :: "chain_env \<Rightarrow> ChainBlock \<Rightarrow> string" where
  "compute_block_hash E b = sha256_json E (JObj (block_hash_payload (getenv E) b))"

definition compute_transaction_root :: "chain_env \<Rightarrow> ChainTransaction list \<Rightarrow> string" where
  "compute_transaction_root E txs =
     sha256_json E (JList (map (\<lambda>tx. JObj (transaction_payload (getenv E) tx)) txs))"

definition compute_state_root_from_balances :: "chain_env \<Rightarrow> int dict \<Rightarrow> string" where
  "compute_state_root_from_balances E balances =
     sha256_json E (JList (map (\<lambda>(a, v). JObj [(''address'', JStr (normalize_address a)),
                                                (''balance_atomic'', JInt v)])
        (filter (\<lambda>(a, v). v \<noteq> 0) (dsorted balances))))"

section \<open>Replaying the chain\<close>

text \<open>
  \<open>chain_balance_index(blocks=...)\<close>: each transaction id counts once, its delta goes to its
  normalised address. The state of the loop is the list of ids seen and the dictionary.
\<close>

definition balance_step :: "string list \<times> int dict \<Rightarrow> ChainTransaction \<Rightarrow> string list \<times> int dict" where
  "balance_step s tx =
     (if tx_id tx \<in> set (fst s) then s
      else (tx_id tx # fst s, bump (normalize_address (tx_address tx)) (tx_delta_atomic tx) (snd s)))"

definition chain_txs :: "ChainBlock list \<Rightarrow> ChainTransaction list" where
  "chain_txs bs = concat (map blk_transactions bs)"

definition replay_balances :: "ChainTransaction list \<Rightarrow> int dict" where
  "replay_balances txs = snd (fold (\<lambda>tx s. balance_step s tx) txs ([], []))"

definition chain_balance_index :: "ChainBlock list \<Rightarrow> int dict" where
  "chain_balance_index bs = replay_balances (chain_txs bs)"

definition validator_id_from_bond_metadata :: "ChainTransaction \<Rightarrow> string option" where
  "validator_id_from_bond_metadata tx =
    (let raw = py_or (jget (tx_metadata tx) ''validator_id'')
                 (py_or (jget (tx_metadata tx) ''validator_address'')
                   (jget (tx_metadata tx) ''validatorAddress''))
     in if raw = JNull then None
        else some_if_text (Some (normalize_address (py_str raw))))"

text \<open>
  The entry a bond transaction adds to the index, \<open>None\<close> where the loop goes on without one:
  another type, no validator, or nothing to add.
\<close>

definition bond_entry :: "ChainTransaction \<Rightarrow> (string \<times> int) option" where
  "bond_entry tx =
    (if tx_type tx \<notin> {''validator_bond_lock'', ''validator_bond_pool_debit''} then None
     else case validator_id_from_bond_metadata tx of None \<Rightarrow> None
       | Some v \<Rightarrow>
          (let delta = (if tx_type tx = ''validator_bond_lock'' then max 0 (- tx_delta_atomic tx)
                        else tx_delta_atomic tx)
           in if delta = 0 then None else Some (v, delta)))"

definition apply_validator_bond_index_delta :: "int dict \<Rightarrow> ChainTransaction \<Rightarrow> int dict" where
  "apply_validator_bond_index_delta bonds tx =
     (case bond_entry tx of None \<Rightarrow> bonds | Some (v, delta) \<Rightarrow> bump v delta bonds)"

definition bond_step :: "string list \<times> int dict \<Rightarrow> ChainTransaction \<Rightarrow> string list \<times> int dict" where
  "bond_step s tx =
     (if tx_id tx \<in> set (fst s) then s
      else (tx_id tx # fst s, apply_validator_bond_index_delta (snd s) tx))"

definition replay_bonds :: "ChainTransaction list \<Rightarrow> int dict" where
  "replay_bonds txs = snd (fold (\<lambda>tx s. bond_step s tx) txs ([], []))"

definition validator_locked_bond_index :: "ChainBlock list \<Rightarrow> int dict" where
  "validator_locked_bond_index bs = replay_bonds (chain_txs bs)"

definition compute_chain_state_root :: "chain_env \<Rightarrow> ChainBlock list \<Rightarrow> string" where
  "compute_chain_state_root E bs = compute_state_root_from_balances E (chain_balance_index bs)"

section \<open>The replay interface\<close>

text \<open>
  Both indexes are instances of one contract: a dictionary built by reading a list of
  transactions from left to right, in which an id that was read before adds nothing and a new
  one adds its entry. Everything the chain proves about balances and bonds follows from it.
\<close>

fun first_occurrences :: "('t \<Rightarrow> 'i) \<Rightarrow> 't list \<Rightarrow> 't list" where
  "first_occurrences f [] = []"
| "first_occurrences f (t # ts) = t # filter (\<lambda>u. f u \<noteq> f t) (first_occurrences f ts)"

definition entry_delta :: "('t \<Rightarrow> ('k \<times> int) option) \<Rightarrow> 't \<Rightarrow> int" where
  "entry_delta e t = (case e t of None \<Rightarrow> 0 | Some (_, d) \<Rightarrow> d)"

definition entry_delta_at :: "('t \<Rightarrow> ('k \<times> int) option) \<Rightarrow> 'k \<Rightarrow> 't \<Rightarrow> int" where
  "entry_delta_at e k t = (case e t of None \<Rightarrow> 0 | Some (k', d) \<Rightarrow> if k' = k then d else 0)"

lemma first_occurrences_distinct: "distinct (map f ts) \<Longrightarrow> first_occurrences f ts = ts"
proof (induction ts)
  case (Cons t ts)
  then have "f t \<notin> f ` set ts" by simp
  then have "\<forall>u \<in> set ts. f u \<noteq> f t" by (metis imageI)
  then have "filter (\<lambda>u. f u \<noteq> f t) ts = ts" by (rule filter_True)
  with Cons show ?case by simp
qed simp

lemma first_occurrences_snoc:
  "first_occurrences f (ts @ [t]) =
     (if f t \<in> f ` set ts then first_occurrences f ts else first_occurrences f ts @ [t])"
  by (induction ts) auto

locale replay_index =
  fixes ident :: "'t \<Rightarrow> 'i"
    and entry :: "'t \<Rightarrow> ('k \<times> int) option"
    and replay :: "'t list \<Rightarrow> ('k \<times> int) list"
  assumes replay_Nil: "replay [] = []"
    and replay_seen: "ident t \<in> ident ` set ts \<Longrightarrow> replay (ts @ [t]) = replay ts"
    and replay_new: "ident t \<notin> ident ` set ts \<Longrightarrow>
      replay (ts @ [t]) = (case entry t of None \<Rightarrow> replay ts | Some (k, d) \<Rightarrow> bump k d (replay ts))"
begin

lemma replay_dict_ok: "dict_ok (replay ts)"
proof (induction ts rule: rev_induct)
  case (snoc t ts)
  then show ?case
    by (cases "ident t \<in> ident ` set ts") (auto simp: replay_seen replay_new split: option.splits)
qed (simp add: replay_Nil)

lemma replay_keys: "fst ` set (replay ts) \<subseteq> {k. \<exists>t \<in> set ts. \<exists>d. entry t = Some (k, d)}"
proof (induction ts rule: rev_induct)
  case (snoc t ts)
  then show ?case
    by (cases "ident t \<in> ident ` set ts") (auto simp: replay_seen replay_new split: option.splits)
qed (simp add: replay_Nil)

lemma replay_total: "dsum (replay ts) = sum_list (map (entry_delta entry) (first_occurrences ident ts))"
proof (induction ts rule: rev_induct)
  case (snoc t ts)
  then show ?case
    by (cases "ident t \<in> ident ` set ts")
      (auto simp: replay_seen replay_new first_occurrences_snoc replay_dict_ok entry_delta_def
        split: option.splits)
qed (simp add: replay_Nil)

lemma replay_at: "dget (replay ts) k 0 =
  sum_list (map (entry_delta_at entry k) (first_occurrences ident ts))"
proof (induction ts rule: rev_induct)
  case (snoc t ts)
  then show ?case
    by (cases "ident t \<in> ident ` set ts")
      (auto simp: replay_seen replay_new first_occurrences_snoc entry_delta_at_def
        split: option.splits)
qed (simp add: replay_Nil)

lemma replay_again: "ident ` set us \<subseteq> ident ` set ts \<Longrightarrow> replay (ts @ us) = replay ts"
proof (induction us rule: rev_induct)
  case (snoc u us)
  then have "ident u \<in> ident ` set (ts @ us)" by auto
  from replay_seen [OF this] snoc show ?case by simp
qed simp

lemma replay_total_distinct:
  "distinct (map ident ts) \<Longrightarrow> dsum (replay ts) = sum_list (map (entry_delta entry) ts)"
  by (simp add: replay_total first_occurrences_distinct)

lemma replay_at_distinct:
  "distinct (map ident ts) \<Longrightarrow> dget (replay ts) k 0 = sum_list (map (entry_delta_at entry k) ts)"
  by (simp add: replay_at first_occurrences_distinct)

text \<open>Where no id repeats, the order of the transactions does not matter to any entry.\<close>

lemma replay_order:
  assumes "mset ts = mset us" and "distinct (map ident ts)"
  shows "dget (replay ts) k 0 = dget (replay us) k 0"
proof -
  have "distinct (map ident us)"
    using assms by (metis mset_eq_imp_distinct_iff mset_map)
  with assms(2) show ?thesis
    by (simp add: replay_at_distinct)
      (metis assms(1) mset_map sum_mset_sum_list)
qed

end

definition balance_entry :: "ChainTransaction \<Rightarrow> (string \<times> int) option" where
  "balance_entry tx = Some (normalize_address (tx_address tx), tx_delta_atomic tx)"

lemma fold_seen_ids:
  assumes "\<And>s t. fst (step s t) = (if ident t \<in> set (fst s) then fst s else ident t # fst s)"
  shows "set (fst (fold (\<lambda>t s. step s t) ts (seen, d))) = ident ` set ts \<union> set seen"
  by (induction ts rule: rev_induct) (auto simp: assms)

lemma balance_step_cases:
  "tx_id tx \<in> set (fst s) \<Longrightarrow> balance_step s tx = s"
  "tx_id tx \<notin> set (fst s) \<Longrightarrow> balance_step s tx =
     (tx_id tx # fst s, bump (normalize_address (tx_address tx)) (tx_delta_atomic tx) (snd s))"
  by (simp_all add: balance_step_def)

lemma bond_step_cases:
  "tx_id tx \<in> set (fst s) \<Longrightarrow> bond_step s tx = s"
  "tx_id tx \<notin> set (fst s) \<Longrightarrow> bond_step s tx =
     (tx_id tx # fst s, apply_validator_bond_index_delta (snd s) tx)"
  by (simp_all add: bond_step_def)

interpretation bal: replay_index tx_id balance_entry replay_balances
proof
  have seen: "set (fst (fold (\<lambda>tx s. balance_step s tx) ts ([], []))) = tx_id ` set ts" for ts
    using fold_seen_ids [of balance_step tx_id ts "[]" "[]"] by (simp add: balance_step_def)
  show "replay_balances [] = []"
    by (simp add: replay_balances_def)
  fix t ts
  show "tx_id t \<in> tx_id ` set ts \<Longrightarrow> replay_balances (ts @ [t]) = replay_balances ts"
    by (simp add: replay_balances_def balance_step_cases seen)
  show "tx_id t \<notin> tx_id ` set ts \<Longrightarrow> replay_balances (ts @ [t]) =
      (case balance_entry t of None \<Rightarrow> replay_balances ts | Some (k, d) \<Rightarrow> bump k d (replay_balances ts))"
    by (simp add: replay_balances_def balance_step_cases balance_entry_def seen)
qed

interpretation bond: replay_index tx_id bond_entry replay_bonds
proof
  have seen: "set (fst (fold (\<lambda>tx s. bond_step s tx) ts ([], []))) = tx_id ` set ts" for ts
    using fold_seen_ids [of bond_step tx_id ts "[]" "[]"] by (simp add: bond_step_def)
  show "replay_bonds [] = []"
    by (simp add: replay_bonds_def)
  fix t ts
  show "tx_id t \<in> tx_id ` set ts \<Longrightarrow> replay_bonds (ts @ [t]) = replay_bonds ts"
    by (simp add: replay_bonds_def bond_step_cases seen)
  show "tx_id t \<notin> tx_id ` set ts \<Longrightarrow> replay_bonds (ts @ [t]) =
      (case bond_entry t of None \<Rightarrow> replay_bonds ts | Some (k, d) \<Rightarrow> bump k d (replay_bonds ts))"
    by (simp add: replay_bonds_def bond_step_cases apply_validator_bond_index_delta_def seen
        split: option.split)
qed

lemma entry_delta_balance [simp]: "entry_delta balance_entry = tx_delta_atomic"
  by (simp add: fun_eq_iff entry_delta_def balance_entry_def)

lemma chain_txs_simps [simp]:
  "chain_txs [] = []" "chain_txs (b # bs) = blk_transactions b @ chain_txs bs"
  "chain_txs (bs @ cs) = chain_txs bs @ chain_txs cs"
  by (simp_all add: chain_txs_def)

lemma in_chain_txs: "tx \<in> set (chain_txs bs) \<longleftrightarrow> (\<exists>b \<in> set bs. tx \<in> set (blk_transactions b))"
  by (auto simp: chain_txs_def)

end
