(* ===== verification/ChainSig.thy ===== *)
theory ChainSig
  imports Chain
begin

text \<open>
  Transaction signatures, \<open>verify_chain_transaction_signature\<close> of
  \<open>src/src/cai_compute_chain/chain.py\<close>. The source returns a pair of a flag and a message; here
  \<open>Inr None\<close> is success, \<open>Inr (Some e)\<close> the refusal with message \<open>e\<close>, and \<open>Inl\<close> an
  exception that leaves the function (a public key that is not base64).
\<close>

datatype sig_error =
    MissingPublicKey
  | MissingSignature
  | MissingAddressScheme
  | RequiresPostQuantum
  | PublicKeyDoesNotMatchAddress
  | UnsupportedPostQuantumScheme
  | MissingPostQuantumSignature
  | PublicKeysDoNotMatchAddress
  | InvalidHybridSignature
  | FixedAddressRequiresHybridScheme
  | UnsupportedAddressScheme
  | InvalidSignature

text \<open>The message the source returns for the refused transaction with id \<open>i\<close>.\<close>

definition sig_error_text :: "string \<Rightarrow> sig_error \<Rightarrow> string" where
  "sig_error_text i e = ''transaction '' @ i @ (case e of
      MissingPublicKey \<Rightarrow> '' is missing public_key_b64''
    | MissingSignature \<Rightarrow> '' is missing signature_b64''
    | MissingAddressScheme \<Rightarrow> '' is missing address scheme''
    | RequiresPostQuantum \<Rightarrow> '' requires a post-quantum signature''
    | PublicKeyDoesNotMatchAddress \<Rightarrow> '' public key does not match address''
    | UnsupportedPostQuantumScheme \<Rightarrow> '' has unsupported post-quantum signature scheme''
    | MissingPostQuantumSignature \<Rightarrow> '' is missing post-quantum signature''
    | PublicKeysDoNotMatchAddress \<Rightarrow> '' public keys do not match address''
    | InvalidHybridSignature \<Rightarrow> '' has invalid hybrid signature''
    | FixedAddressRequiresHybridScheme \<Rightarrow> '' fixed address requires hybrid signing scheme''
    | UnsupportedAddressScheme \<Rightarrow> '' has unsupported address scheme''
    | InvalidSignature \<Rightarrow> '' has invalid signature'')"

definition signable_wallet_transaction_types :: "string list" where
  "signable_wallet_transaction_types = [''wallet_transfer_debit'']"

text \<open>\<open>str(metadata.get(k) or "").strip()\<close>\<close>

definition meta_text :: "obj \<Rightarrow> string \<Rightarrow> string" where
  "meta_text md k = py_strip (str_of_or (jget md k) [])"

definition verify_chain_transaction_signature ::
  "chain_env \<Rightarrow> WalletPolicy option \<Rightarrow> ChainTransaction \<Rightarrow> (py_error, sig_error option) res" where
  "verify_chain_transaction_signature E p tx =
    (let md = tx_metadata tx;
         signature_required = truthy (jget md ''signature_required'')
           \<or> tx_type tx \<in> set signable_wallet_transaction_types
     in if \<not> signature_required then Inr None
        else case some_if_text (tx_public_key_b64 tx) of None \<Rightarrow> Inr (Some MissingPublicKey)
        | Some pk \<Rightarrow>
       (case some_if_text (tx_signature_b64 tx) of None \<Rightarrow> Inr (Some MissingSignature)
        | Some sig \<Rightarrow>
       (let address_scheme = meta_text md ''address_scheme'';
            requires_post_quantum =
              wp_require_post_quantum_wallet_signatures (active_wallet_policy (getenv E) p);
            pq_public_key = meta_text md ''pq_public_key_b64'';
            pq_signature = meta_text md ''pq_signature_b64'';
            pq_scheme = meta_text md ''pq_signature_scheme'';
            payload = JObj (transaction_signing_payload (getenv E) tx)
        in if address_scheme = [] then Inr (Some MissingAddressScheme)
           else if address_scheme = ADDRESS_SCHEME_ED25519 then
             (if requires_post_quantum then Inr (Some RequiresPostQuantum)
              else rbind (address_from_public_key_b64 E pk) (\<lambda>expected_address.
                if normalize_address (tx_address tx) \<noteq> expected_address
                then Inr (Some PublicKeyDoesNotMatchAddress)
                else if \<not> verify_payload_signature E pk sig payload
                then Inr (Some InvalidSignature)
                else Inr None))
           else if address_scheme \<in> set HYBRID_ADDRESS_SCHEMES then
             (if pq_scheme \<noteq> [] \<and> pq_scheme \<noteq> SIGNING_SCHEME_ML_DSA_65
              then Inr (Some UnsupportedPostQuantumScheme)
              else if pq_public_key = [] \<or> pq_signature = []
              then Inr (Some MissingPostQuantumSignature)
              else rbind (hybrid_address_from_public_keys_b64 E pk pq_public_key address_scheme)
                (\<lambda>expected_address.
                if normalize_address (tx_address tx) \<noteq> expected_address
                then Inr (Some PublicKeysDoNotMatchAddress)
                else if \<not> verify_hybrid_payload_signature E pk sig pq_public_key pq_signature payload
                then Inr (Some InvalidHybridSignature)
                else Inr None))
           else if address_scheme = ADDRESS_SCHEME_FIXED then
             (if meta_text md ''signing_scheme'' \<noteq> SIGNING_SCHEME_HYBRID
              then Inr (Some FixedAddressRequiresHybridScheme)
              else if pq_scheme \<noteq> SIGNING_SCHEME_ML_DSA_65
              then Inr (Some UnsupportedPostQuantumScheme)
              else if pq_public_key = [] \<or> pq_signature = []
              then Inr (Some MissingPostQuantumSignature)
              else if \<not> verify_hybrid_payload_signature E pk sig pq_public_key pq_signature payload
              then Inr (Some InvalidHybridSignature)
              else Inr None)
           else Inr (Some UnsupportedAddressScheme))))"

section \<open>What an accepted signature means\<close>

text \<open>
  The key that signed is bound to the debited address: under the plain scheme by the digest of
  the public key, under a hybrid scheme by the digest of both keys.
\<close>

definition key_bound_to_address :: "chain_env \<Rightarrow> ChainTransaction \<Rightarrow> bool" where
  "key_bound_to_address E tx \<longleftrightarrow>
    (let md = tx_metadata tx; pk = opt_or (tx_public_key_b64 tx) [] in
     address_from_public_key_b64 E pk = Inr (normalize_address (tx_address tx))
     \<or> (meta_text md ''address_scheme'' \<in> set HYBRID_ADDRESS_SCHEMES
        \<and> hybrid_address_from_public_keys_b64 E pk (meta_text md ''pq_public_key_b64'')
            (meta_text md ''address_scheme'') = Inr (normalize_address (tx_address tx))))"

definition signed_by_ed25519 :: "chain_env \<Rightarrow> ChainTransaction \<Rightarrow> bool" where
  "signed_by_ed25519 E tx \<longleftrightarrow>
    verify_payload_signature E (opt_or (tx_public_key_b64 tx) []) (opt_or (tx_signature_b64 tx) [])
      (JObj (transaction_signing_payload (getenv E) tx))"

definition signed_by_mldsa65 :: "chain_env \<Rightarrow> ChainTransaction \<Rightarrow> bool" where
  "signed_by_mldsa65 E tx \<longleftrightarrow>
    verify_payload_mldsa65_signature E (meta_text (tx_metadata tx) ''pq_public_key_b64'')
      (meta_text (tx_metadata tx) ''pq_signature_b64'')
      (JObj (transaction_signing_payload (getenv E) tx))"

definition signature_required :: "ChainTransaction \<Rightarrow> bool" where
  "signature_required tx \<longleftrightarrow> truthy (jget (tx_metadata tx) ''signature_required'')
     \<or> tx_type tx \<in> set signable_wallet_transaction_types"

lemma some_if_text_Some: "some_if_text x = Some s \<longleftrightarrow> x = Some s \<and> s \<noteq> []"
  by (auto simp: some_if_text_def split: option.splits if_splits)

lemma opt_or_Some_text: "some_if_text x = Some s \<Longrightarrow> opt_or x y = s"
  by (auto simp: some_if_text_Some opt_or_def str_or_def)

text \<open>An accepted signature required one, and the library accepted it.\<close>

lemma verify_signature_accepts:
  assumes "verify_chain_transaction_signature E p tx = Inr None" and "signature_required tx"
  obtains (ed25519) pk sig where "some_if_text (tx_public_key_b64 tx) = Some pk"
      "some_if_text (tx_signature_b64 tx) = Some sig"
      "meta_text (tx_metadata tx) ''address_scheme'' = ADDRESS_SCHEME_ED25519"
      "\<not> wp_require_post_quantum_wallet_signatures (active_wallet_policy (getenv E) p)"
      "address_from_public_key_b64 E pk = Inr (normalize_address (tx_address tx))"
      "signed_by_ed25519 E tx"
    | (hybrid) pk sig where "some_if_text (tx_public_key_b64 tx) = Some pk"
      "some_if_text (tx_signature_b64 tx) = Some sig"
      "meta_text (tx_metadata tx) ''address_scheme'' \<in> set HYBRID_ADDRESS_SCHEMES"
      "hybrid_address_from_public_keys_b64 E pk (meta_text (tx_metadata tx) ''pq_public_key_b64'')
         (meta_text (tx_metadata tx) ''address_scheme'') = Inr (normalize_address (tx_address tx))"
      "signed_by_ed25519 E tx" "signed_by_mldsa65 E tx"
    | (fixed) pk sig where "some_if_text (tx_public_key_b64 tx) = Some pk"
      "some_if_text (tx_signature_b64 tx) = Some sig"
      "meta_text (tx_metadata tx) ''address_scheme'' = ADDRESS_SCHEME_FIXED"
      "signed_by_ed25519 E tx" "signed_by_mldsa65 E tx"
proof -
  from assms(2) obtain pk where pk: "some_if_text (tx_public_key_b64 tx) = Some pk"
    using assms(1)
    by (auto simp: verify_chain_transaction_signature_def signature_required_def Let_def
        split: option.splits)
  from assms pk obtain sig where sig: "some_if_text (tx_signature_b64 tx) = Some sig"
    by (auto simp: verify_chain_transaction_signature_def signature_required_def Let_def
        split: option.splits)
  let ?s = "meta_text (tx_metadata tx) ''address_scheme''"
  note unfolds = verify_chain_transaction_signature_def signature_required_def pk sig
    rbind_Inr_iff signed_by_ed25519_def signed_by_mldsa65_def verify_hybrid_payload_signature_def
    opt_or_Some_text [OF pk] opt_or_Some_text [OF sig]
  consider "?s = ADDRESS_SCHEME_ED25519" | "?s \<in> set HYBRID_ADDRESS_SCHEMES"
    | "?s = ADDRESS_SCHEME_FIXED"
    using assms by (auto simp: unfolds Let_def split: if_splits)
  then show thesis
  proof cases
    case 1
    with assms show thesis
      by (intro ed25519 [OF pk sig]) (auto simp: unfolds Let_def split: if_splits)
  next
    case 2
    then have "?s \<noteq> ADDRESS_SCHEME_ED25519" "?s \<noteq> []"
      by (auto simp: scheme_defs)
    with 2 assms show thesis
      by (intro hybrid [OF pk sig]) (auto simp: unfolds Let_def split: if_splits)
  next
    case 3
    with assms show thesis
      by (intro fixed [OF pk sig]) (auto simp: unfolds Let_def split: if_splits)
  qed
qed

end
