(* ===== verification/ChainCodec.thy ===== *)
theory ChainCodec
  imports Chain
begin

text \<open>
  Reading and writing the chain as JSON: \<open>_coerce_transaction\<close>, \<open>_coerce_block\<close>,
  \<open>_fill_missing_block_roots\<close>, \<open>list_chain_blocks\<close> and the document that
  \<open>save_chain_blocks\<close> writes (\<open>src/src/cai_compute_chain/chain.py\<close>). The main result is the
  round trip: what is written is read back unchanged, for blocks whose addresses are stable
  under normalisation.
\<close>

text \<open>\<open>raw[k]\<close>\<close>

definition jreq :: "obj \<Rightarrow> string \<Rightarrow> (py_error, json) res" where
  "jreq d k = (case map_of d k of None \<Rightarrow> Inl (KeyError k) | Some v \<Rightarrow> Inr v)"

text \<open>\<open>str(x) if x is not None else None\<close>\<close>

definition opt_text :: "json \<Rightarrow> string option" where
  "opt_text v = (if v = JNull then None else Some (py_str v))"

text \<open>\<open>normalize_address(str(x)) if x else None\<close>\<close>

definition coerce_counterparty :: "json \<Rightarrow> string option" where
  "coerce_counterparty v = (if truthy v then Some (normalize_address (py_str v)) else None)"

definition coerce_transaction ::
  "os_env \<Rightarrow> string \<Rightarrow> string \<Rightarrow> json \<Rightarrow> (py_error, ChainTransaction) res" where
  "coerce_transaction os now default_cid raw0 =
    rbind (py_dict raw0) (\<lambda>raw.
    rbind (py_dict (py_or (jget raw ''metadata'') (JObj []))) (\<lambda>metadata.
    rbind (jreq raw ''tx_id'') (\<lambda>tid.
    rbind (jreq raw ''tx_type'') (\<lambda>typ.
    rbind (jreq raw ''address'') (\<lambda>address.
    rbind (jreq raw ''delta_atomic'') (\<lambda>delta0.
    rbind (py_int delta0) (\<lambda>delta.
    rbind (py_int (py_or (jget raw ''schema_version'') (JInt CHAIN_SCHEMA_VERSION))) (\<lambda>schema.
    Inr \<lparr>tx_id = py_str tid,
         tx_created_at = str_of_or (jget raw ''created_at'') now,
         tx_type = py_str typ,
         tx_address = normalize_address (py_str address),
         tx_delta_atomic = delta,
         tx_settlement_id = jget raw ''settlement_id'',
         tx_payout_id = jget raw ''payout_id'',
         tx_wallet_id = jget raw ''wallet_id'',
         tx_counterparty_address = coerce_counterparty (jget raw ''counterparty_address''),
         tx_note = jget raw ''note'',
         tx_nonce = opt_text (jget raw ''nonce''),
         tx_chain_id = str_of_or (jget raw ''chain_id'')
           (str_of_or (jget metadata ''network'') (str_or default_cid (default_chain_id os))),
         tx_schema_version = schema,
         tx_public_key_b64 = opt_text (jget raw ''public_key_b64''),
         tx_signature_b64 = opt_text (jget raw ''signature_b64''),
         tx_metadata = metadata\<rparr>))))))))"

definition coerce_block ::
  "chain_env \<Rightarrow> string \<Rightarrow> string \<Rightarrow> json \<Rightarrow> (py_error, ChainBlock) res" where
  "coerce_block E now default_cid raw0 =
    (case raw0 of JObj raw \<Rightarrow>
      (let chain_id = str_of_or (jget raw ''chain_id'') (str_or default_cid (default_chain_id (getenv E))) in
       rbind (jreq raw ''block_id'') (\<lambda>bid.
       rbind (jreq raw ''height'') (\<lambda>height0.
       rbind (py_int height0) (\<lambda>height.
       rbind (py_list (py_or (jget raw ''transactions'') (JList []))) (\<lambda>items.
       rbind (rmap (coerce_transaction (getenv E) now chain_id) items) (\<lambda>txs.
       rbind (py_int (py_or (jget raw ''schema_version'') (JInt CHAIN_SCHEMA_VERSION))) (\<lambda>schema.
       let block =
         \<lparr>blk_id = py_str bid,
          blk_height = height,
          blk_created_at = str_of_or (jget raw ''created_at'') now,
          blk_previous_hash = str_of_or (jget raw ''previous_hash'') GENESIS_PREVIOUS_HASH,
          blk_validator_id = jget raw ''validator_id'',
          blk_transactions = txs,
          blk_hash = str_of_or (jget raw ''block_hash'') [],
          blk_chain_id = chain_id,
          blk_schema_version = schema,
          blk_tx_root = str_of_or (py_or (jget raw ''tx_root'') (jget raw ''txRoot'')) [],
          blk_state_root = str_of_or (py_or (jget raw ''state_root'') (jget raw ''stateRoot'')) [],
          blk_validator_public_key_b64 = None,
          blk_validator_signature_b64 = None\<rparr>
       in Inr (if blk_hash block = [] then block\<lparr>blk_hash := compute_block_hash E block\<rparr> else block)))))))
     )
     | _ \<Rightarrow> Inl AttributeError)"

text \<open>\<open>asdict(block)\<close>\<close>

definition block_asdict :: "ChainBlock \<Rightarrow> obj" where
  "block_asdict b =
    [(''block_id'', JStr (blk_id b)),
     (''height'', JInt (blk_height b)),
     (''created_at'', JStr (blk_created_at b)),
     (''previous_hash'', JStr (blk_previous_hash b)),
     (''validator_id'', blk_validator_id b),
     (''transactions'', JList (map (\<lambda>tx. JObj (transaction_asdict tx)) (blk_transactions b))),
     (''block_hash'', JStr (blk_hash b)),
     (''chain_id'', JStr (blk_chain_id b)),
     (''schema_version'', JInt (blk_schema_version b)),
     (''tx_root'', JStr (blk_tx_root b)),
     (''state_root'', JStr (blk_state_root b)),
     (''validator_public_key_b64'', jopt (blk_validator_public_key_b64 b)),
     (''validator_signature_b64'', jopt (blk_validator_signature_b64 b))]"

text \<open>The document \<open>save_chain_blocks\<close> writes.\<close>

definition chain_document :: "ChainBlock list \<Rightarrow> obj" where
  "chain_document bs = [(''blocks'', JList (map (\<lambda>b. JObj (block_asdict b)) bs))]"

fun fill_missing_block_roots :: "chain_env \<Rightarrow> ChainBlock list \<Rightarrow> ChainBlock list \<Rightarrow> ChainBlock list" where
  "fill_missing_block_roots E pre [] = []"
| "fill_missing_block_roots E pre (b # bs) =
    (let b1 = (if blk_tx_root b = []
               then b\<lparr>blk_tx_root := compute_transaction_root E (blk_transactions b)\<rparr> else b);
         b2 = (if blk_state_root b1 = []
               then b1\<lparr>blk_state_root := compute_chain_state_root E (pre @ [b1])\<rparr> else b1)
     in b2 # fill_missing_block_roots E (pre @ [b2]) bs)"

definition block_sort_key :: "ChainBlock \<Rightarrow> int \<times> string \<times> string" where
  "block_sort_key b = (blk_height b, blk_created_at b, blk_hash b)"

definition order_blocks :: "ChainBlock list \<Rightarrow> ChainBlock list" where
  "order_blocks bs = sort_key block_sort_key bs"

text \<open>
  \<open>list_chain_blocks\<close> on the content of the chain file; \<open>None\<close> is a file that does not exist.
\<close>

definition list_chain_blocks ::
  "chain_env \<Rightarrow> WalletPolicy option \<Rightarrow> string \<Rightarrow> obj option \<Rightarrow> (py_error, ChainBlock list) res" where
  "list_chain_blocks E p now content =
    (case content of None \<Rightarrow> Inr []
     | Some raw \<Rightarrow>
        rbind (py_list (py_or (jget raw ''blocks'') (JList []))) (\<lambda>items.
        rbind (rmap (coerce_block E now (active_chain_id E p)) items) (\<lambda>blocks.
        Inr (fill_missing_block_roots E [] (order_blocks blocks)))))"

section \<open>Blocks that survive being written and read\<close>

definition tx_storable :: "ChainTransaction \<Rightarrow> bool" where
  "tx_storable tx \<longleftrightarrow> tx_created_at tx \<noteq> [] \<and> address_stable (tx_address tx)
     \<and> (case tx_counterparty_address tx of None \<Rightarrow> True | Some a \<Rightarrow> a \<noteq> [] \<and> address_stable a)
     \<and> tx_chain_id tx \<noteq> [] \<and> tx_schema_version tx \<noteq> 0"

definition block_storable :: "ChainBlock \<Rightarrow> bool" where
  "block_storable b \<longleftrightarrow> blk_created_at b \<noteq> [] \<and> blk_previous_hash b \<noteq> [] \<and> blk_hash b \<noteq> []
     \<and> blk_chain_id b \<noteq> [] \<and> blk_schema_version b \<noteq> 0 \<and> blk_tx_root b \<noteq> [] \<and> blk_state_root b \<noteq> []
     \<and> blk_validator_public_key_b64 b = None \<and> blk_validator_signature_b64 b = None
     \<and> (\<forall>tx \<in> set (blk_transactions b). tx_storable tx)"

section \<open>Lemmas\<close>

lemma opt_text_jopt [simp]: "opt_text (jopt x) = x"
  by (cases x) (auto simp: opt_text_def jopt_def)

lemma str_of_or_JStr [simp]: "str_of_or (JStr s) d = (if s = [] then d else s)"
  by (simp add: str_of_or_def)

lemma py_or_JInt [simp]: "i \<noteq> 0 \<Longrightarrow> py_or (JInt i) v = JInt i"
  by (simp add: py_or_def)

lemma py_or_JList: "py_or (JList xs) (JList []) = JList xs"
  by (auto simp: py_or_def)

lemma py_or_JObj: "py_or (JObj d) (JObj []) = JObj d"
  by (auto simp: py_or_def)

lemma str_of_or_py_or_JStr: "str_of_or (py_or (JStr s) v) [] = (if s = [] then str_of_or v [] else s)"
  by (simp add: str_of_or_def py_or_def)

lemma truthy_jopt: "truthy (jopt x) \<longleftrightarrow> (\<exists>s. x = Some s \<and> s \<noteq> [])"
  by (cases x) (auto simp: jopt_def)

lemma coerce_counterparty_jopt:
  "(case x of None \<Rightarrow> True | Some a \<Rightarrow> a \<noteq> [] \<and> address_stable a) \<Longrightarrow> coerce_counterparty (jopt x) = x"
  by (cases x) (auto simp: coerce_counterparty_def jopt_def address_stable_def)

lemma coerce_transaction_asdict:
  assumes "tx_storable tx"
  shows "coerce_transaction os now cid (JObj (transaction_asdict tx)) = Inr tx"
proof -
  have "coerce_counterparty (jopt (tx_counterparty_address tx)) = tx_counterparty_address tx"
    using assms by (intro coerce_counterparty_jopt) (simp add: tx_storable_def)
  then show ?thesis
    using assms
    by (cases tx) (simp add: coerce_transaction_def transaction_asdict_def jreq_def py_or_JObj
        tx_storable_def address_stable_def)
qed

lemma coerce_block_asdict:
  assumes "block_storable b"
  shows "coerce_block E now cid (JObj (block_asdict b)) = Inr b"
proof -
  have "rmap (coerce_transaction (getenv E) now (blk_chain_id b))
      (map (\<lambda>tx. JObj (transaction_asdict tx)) (blk_transactions b)) = Inr (blk_transactions b)"
    using assms
    by (intro rmap_map_inverse coerce_transaction_asdict) (simp add: block_storable_def)
  then show ?thesis
    using assms
    by (cases b) (simp add: coerce_block_def block_asdict_def jreq_def block_storable_def py_or_JList
        str_of_or_py_or_JStr)
qed

lemma fill_missing_block_roots_id:
  "\<forall>b \<in> set bs. blk_tx_root b \<noteq> [] \<and> blk_state_root b \<noteq> [] \<Longrightarrow>
   fill_missing_block_roots E pre bs = bs"
  by (induction bs arbitrary: pre) auto

lemma mset_order_blocks [simp]: "mset (order_blocks bs) = mset bs"
  by (simp add: order_blocks_def)

lemma set_order_blocks [simp]: "set (order_blocks bs) = set bs"
  by (simp add: order_blocks_def)

lemma order_blocks_sorted: "sorted (map block_sort_key bs) \<Longrightarrow> order_blocks bs = bs"
  by (simp add: order_blocks_def sort_key_id_if_sorted)

lemma sorted_order_blocks [simp]: "sorted (map block_sort_key (order_blocks bs))"
  by (simp add: order_blocks_def)

lemma order_blocks_idem [simp]: "order_blocks (order_blocks bs) = order_blocks bs"
  by (simp add: order_blocks_sorted)

lemma list_chain_blocks_document:
  assumes "\<forall>b \<in> set bs. block_storable b"
  shows "list_chain_blocks E p now (Some (chain_document bs)) = Inr (order_blocks bs)"
proof -
  have "rmap (coerce_block E now (active_chain_id E p)) (map (\<lambda>b. JObj (block_asdict b)) bs) = Inr bs"
    using assms by (intro rmap_map_inverse coerce_block_asdict) auto
  moreover have "fill_missing_block_roots E [] (order_blocks bs) = order_blocks bs"
    using assms by (intro fill_missing_block_roots_id) (auto simp: block_storable_def)
  ultimately show ?thesis
    by (simp add: list_chain_blocks_def chain_document_def py_or_JList)
qed

end
