(* ===== verification/Genesis.thy ===== *)
theory Genesis
  imports Chain
begin

text \<open>
  The first block of a network (\<open>src/src/cai_compute_chain/chain.py\<close>): the system addresses,
  the three genesis allocations, \<open>make_genesis_block\<close> and the total supply the chain is
  checked against.
\<close>

definition system_chain_address :: "string \<Rightarrow> MoneyPolicy \<Rightarrow> string" where
  "system_chain_address pre mp =
     normalize_address (pre @ '':'' @ chain_network_value (mp_chain_network mp))"

definition compute_reserve_chain_address :: "MoneyPolicy \<Rightarrow> string" where
  "compute_reserve_chain_address = system_chain_address ''system:compute-reserve''"

definition developer_contribution_fund_chain_address :: "MoneyPolicy \<Rightarrow> string" where
  "developer_contribution_fund_chain_address = system_chain_address ''system:developer-contribution-fund''"

definition tx_fee_pool_chain_address :: "MoneyPolicy \<Rightarrow> string" where
  "tx_fee_pool_chain_address = system_chain_address ''system:tx-fee-pool''"

definition validator_settlement_fee_pool_chain_address :: "MoneyPolicy \<Rightarrow> string" where
  "validator_settlement_fee_pool_chain_address = system_chain_address ''system:validator-settlement-fee-pool''"

definition validator_bond_pool_chain_address :: "MoneyPolicy \<Rightarrow> string" where
  "validator_bond_pool_chain_address = system_chain_address ''system:validator-bond-pool''"

definition validator_slash_pool_chain_address :: "MoneyPolicy \<Rightarrow> string" where
  "validator_slash_pool_chain_address = system_chain_address ''system:validator-slash-pool''"

text \<open>The metadata, time stamp and chain id every genesis transaction carries.\<close>

definition genesis_args :: "MoneyPolicy \<Rightarrow> string \<Rightarrow> string \<Rightarrow> int \<Rightarrow> string \<Rightarrow> string \<Rightarrow> TxArgs" where
  "genesis_args mp typ address delta wid note = (tx_args typ address delta)
    \<lparr>ta_wallet_id := JStr wid,
     ta_note := JStr note,
     ta_metadata := [(''network'', JStr (chain_network_value (mp_chain_network mp))),
                     (''reward_token_code'', JStr (mp_reward_token_code mp))],
     ta_created_at := Some GENESIS_CREATED_AT,
     ta_chain_id := Some (chain_network_value (mp_chain_network mp))\<rparr>"

definition genesis_chain_transactions :: "chain_env \<Rightarrow> MoneyPolicy \<Rightarrow> ChainTransaction list" where
  "genesis_chain_transactions E mp =
    (let net = chain_network_value (mp_chain_network mp) in
     map (make_chain_transaction E [])
      [genesis_args mp ''genesis_compute_reserve_credit'' (compute_reserve_chain_address mp)
         (whole_coins_to_atomic (mp_compute_reserve_coins mp) mp)
         (''system-compute-reserve-'' @ net)
         ''Genesis allocation for the CAI compute reserve. This is the chain source of reserve-funded jobs.'',
       genesis_args mp ''genesis_developer_contribution_fund_credit''
         (developer_contribution_fund_chain_address mp)
         (whole_coins_to_atomic (mp_developer_contribution_fund_coins mp) mp)
         (''system-developer-contribution-fund-'' @ net)
         ''Genesis allocation for the developer contribution fund. Distribution is governed by the public contribution rules.'',
       genesis_args mp ''genesis_developer_treasury_credit'' (mp_developer_treasury_address mp)
         (whole_coins_to_atomic (mp_developer_treasury_coins mp) mp)
         (mp_developer_treasury_wallet_id mp)
         ''Genesis allocation for the fixed founder treasury wallet.''])"

text \<open>
  The last steps of building a block on a chain: its state root, then its hash.
\<close>

definition seal_block :: "chain_env \<Rightarrow> ChainBlock list \<Rightarrow> ChainBlock \<Rightarrow> ChainBlock" where
  "seal_block E blocks b =
    (let b1 = b\<lparr>blk_state_root := compute_chain_state_root E (blocks @ [b])\<rparr>
     in b1\<lparr>blk_hash := compute_block_hash E b1\<rparr>)"

definition make_genesis_block :: "chain_env \<Rightarrow> MoneyPolicy \<Rightarrow> ChainBlock" where
  "make_genesis_block E mp =
    (let transactions = genesis_chain_transactions E mp;
         net = chain_network_value (mp_chain_network mp);
         block_id = take 32 (sha256_json E (JObj
           [(''kind'', JStr ''genesis''),
            (''network'', JStr net),
            (''height'', JInt 0),
            (''created_at'', JStr GENESIS_CREATED_AT),
            (''previous_hash'', JStr GENESIS_PREVIOUS_HASH),
            (''validator_id'', JStr ''genesis''),
            (''tx_ids'', JList (map (\<lambda>tx. JStr (tx_id tx)) transactions))]));
         block0 =
           \<lparr>blk_id = block_id, blk_height = 0, blk_created_at = GENESIS_CREATED_AT,
            blk_previous_hash = GENESIS_PREVIOUS_HASH, blk_validator_id = JStr ''genesis'',
            blk_transactions = transactions, blk_hash = [], blk_chain_id = net,
            blk_schema_version = CHAIN_SCHEMA_VERSION,
            blk_tx_root = compute_transaction_root E transactions, blk_state_root = [],
            blk_validator_public_key_b64 = None, blk_validator_signature_b64 = None\<rparr>
     in seal_block E [] block0)"

definition expected_genesis_hash :: "chain_env \<Rightarrow> WalletPolicy option \<Rightarrow> string" where
  "expected_genesis_hash E p =
     blk_hash (make_genesis_block E (money_policy_for_wallet_policy (getenv E) p None))"

definition expected_total_supply_atomic :: "chain_env \<Rightarrow> WalletPolicy option \<Rightarrow> int" where
  "expected_total_supply_atomic E p =
    (let mp = money_policy_for_wallet_policy (getenv E) p None
     in whole_coins_to_atomic (mp_total_supply_coins mp) mp)"

section \<open>Lemmas\<close>

text \<open>A hash or root depends only on the fields that enter its payload.\<close>

lemma compute_block_hash_roots [simp]:
  "compute_block_hash E (b\<lparr>blk_state_root := r\<rparr>) = compute_block_hash E b"
  "compute_block_hash E (b\<lparr>blk_tx_root := r\<rparr>) = compute_block_hash E b"
  "compute_block_hash E (b\<lparr>blk_hash := h\<rparr>) = compute_block_hash E b"
  by (simp_all add: compute_block_hash_def block_hash_payload_def)

lemma chain_state_root_transactions:
  "map blk_transactions bs = map blk_transactions cs \<Longrightarrow>
   compute_chain_state_root E bs = compute_chain_state_root E cs"
  by (simp add: compute_chain_state_root_def chain_balance_index_def chain_txs_def)

lemma seal_block_fields [simp]:
  "blk_id (seal_block E bs b) = blk_id b"
  "blk_height (seal_block E bs b) = blk_height b"
  "blk_created_at (seal_block E bs b) = blk_created_at b"
  "blk_previous_hash (seal_block E bs b) = blk_previous_hash b"
  "blk_validator_id (seal_block E bs b) = blk_validator_id b"
  "blk_transactions (seal_block E bs b) = blk_transactions b"
  "blk_chain_id (seal_block E bs b) = blk_chain_id b"
  "blk_schema_version (seal_block E bs b) = blk_schema_version b"
  "blk_tx_root (seal_block E bs b) = blk_tx_root b"
  "blk_validator_public_key_b64 (seal_block E bs b) = blk_validator_public_key_b64 b"
  "blk_validator_signature_b64 (seal_block E bs b) = blk_validator_signature_b64 b"
  by (simp_all add: seal_block_def Let_def)

lemma seal_block_hash [simp]: "compute_block_hash E (seal_block E bs b) = blk_hash (seal_block E bs b)"
  by (simp add: seal_block_def Let_def)

lemma seal_block_state_root [simp]:
  "blk_state_root (seal_block E bs b) = compute_chain_state_root E (bs @ [seal_block E bs b])"
proof -
  have "blk_state_root (seal_block E bs b) = compute_chain_state_root E (bs @ [b])"
    by (simp add: seal_block_def Let_def)
  also have "\<dots> = compute_chain_state_root E (bs @ [seal_block E bs b])"
    by (rule chain_state_root_transactions) simp
  finally show ?thesis .
qed

lemma genesis_block_fields [simp]:
  "blk_height (make_genesis_block E mp) = 0"
  "blk_previous_hash (make_genesis_block E mp) = GENESIS_PREVIOUS_HASH"
  "blk_validator_id (make_genesis_block E mp) = JStr ''genesis''"
  "blk_transactions (make_genesis_block E mp) = genesis_chain_transactions E mp"
  "blk_chain_id (make_genesis_block E mp) = chain_network_value (mp_chain_network mp)"
  "blk_schema_version (make_genesis_block E mp) = CHAIN_SCHEMA_VERSION"
  "blk_tx_root (make_genesis_block E mp) = compute_transaction_root E (genesis_chain_transactions E mp)"
  "blk_created_at (make_genesis_block E mp) = GENESIS_CREATED_AT"
  "blk_validator_public_key_b64 (make_genesis_block E mp) = None"
  "blk_validator_signature_b64 (make_genesis_block E mp) = None"
  by (simp_all add: make_genesis_block_def Let_def)

lemma genesis_block_hash [simp]:
  "compute_block_hash E (make_genesis_block E mp) = blk_hash (make_genesis_block E mp)"
  by (simp only: make_genesis_block_def Let_def seal_block_hash)

lemma genesis_block_state_root:
  "blk_state_root (make_genesis_block E mp) = compute_chain_state_root E [make_genesis_block E mp]"
  by (simp only: make_genesis_block_def Let_def seal_block_state_root append_Nil)

lemma genesis_transactions_fields:
  assumes "tx \<in> set (genesis_chain_transactions E mp)"
  shows "tx_chain_id tx = chain_network_value (mp_chain_network mp)"
    and "tx_schema_version tx = CHAIN_SCHEMA_VERSION" and "tx_nonce tx = None"
    and "tx_public_key_b64 tx = None" and "py_startswith (tx_type tx) ''genesis_''"
    and "tx_created_at tx = GENESIS_CREATED_AT" and "tx_counterparty_address tx = None"
    and "jget (tx_metadata tx) ''signature_required'' = JNull"
  using assms
  by (auto simp: genesis_chain_transactions_def Let_def make_chain_transaction_def genesis_args_def
      tx_args_def opt_or_def str_or_def py_startswith_def GENESIS_CREATED_AT_def some_if_text_def)

lemma genesis_deltas:
  "map tx_delta_atomic (genesis_chain_transactions E mp) =
    [mp_compute_reserve_coins mp * 10 ^ mp_decimals mp,
     mp_developer_contribution_fund_coins mp * 10 ^ mp_decimals mp,
     mp_developer_treasury_coins mp * 10 ^ mp_decimals mp]"
  by (simp add: genesis_chain_transactions_def Let_def make_chain_transaction_def genesis_args_def
      tx_args_def)

lemma money_policy_for_wallet_policy_cases:
  obtains n where "money_policy_for_wallet_policy os p None = MoneyPolicy_for os n"
  by (cases p) (auto simp: money_policy_for_wallet_policy_def MoneyPolicy_default_def)

end
