(* ===== verification/ChainValidate.thy ===== *)
theory ChainValidate
  imports ChainSig ChainCodec Genesis
begin

text \<open>
  \<open>validate_chain_blocks\<close> of \<open>src/src/cai_compute_chain/chain.py\<close>: the function that decides
  whether a list of blocks is a chain. It returns the list of everything it finds wrong; one
  constructor of \<open>chain_error\<close> stands for one of its messages, with the values the message
  names. The second part states what a valid chain is without the loop, and shows that the
  checker accepts exactly those.
\<close>

datatype chain_error =
    EmptyChainId nat
  | MismatchedChainId nat
  | UnsupportedSchemaVersion nat
  | EmptyBlockHash nat
  | DuplicateBlockHash nat string
  | InvalidBlockHash nat
  | MustStartAtHeightZero nat
  | InvalidGenesisPreviousHash nat
  | GenesisHashMismatch nat string string
  | HeightDoesNotFollow nat int int
  | PreviousHashMismatch nat
  | NoTransactions nat
  | EmptyTransactionId nat
  | DuplicateTransactionIds nat
  | EmptyTxRoot nat
  | InvalidTxRoot nat
  | TxEmptyChainId string
  | TxChainIdMismatch string
  | TxUnsupportedSchemaVersion string
  | TxSignature string sig_error
  | TxNonceReused string string string
  | TxInMultipleBlocks string
  | EmptyStateRoot nat
  | InvalidStateRoot nat
  | NegativeBalance string
  | SupplyInvariantFailed int int
  | NegativeLockedBond string

primrec chain_error_text :: "chain_error \<Rightarrow> string" where
  "chain_error_text (EmptyChainId i) = ''block['' @ show_nat i @ ''] has empty chain_id''"
| "chain_error_text (MismatchedChainId i) = ''block['' @ show_nat i @ ''] has mismatched chain_id''"
| "chain_error_text (UnsupportedSchemaVersion i) = ''block['' @ show_nat i @ ''] has unsupported schema_version''"
| "chain_error_text (EmptyBlockHash i) = ''block['' @ show_nat i @ ''] has empty block_hash''"
| "chain_error_text (DuplicateBlockHash i h) = ''block['' @ show_nat i @ ''] duplicates block_hash '' @ h"
| "chain_error_text (InvalidBlockHash i) = ''block['' @ show_nat i @ ''] has invalid block_hash''"
| "chain_error_text (MustStartAtHeightZero i) = ''block['' @ show_nat i @ ''] must start at height 0''"
| "chain_error_text (InvalidGenesisPreviousHash i) =
     ''block['' @ show_nat i @ ''] has invalid genesis previous_hash''"
| "chain_error_text (GenesisHashMismatch i h e) =
     ''block['' @ show_nat i @ ''] genesis_hash '' @ h @ '' does not match expected '' @ e"
| "chain_error_text (HeightDoesNotFollow i h q) =
     ''block['' @ show_nat i @ ''] height '' @ show_int h @ '' does not follow '' @ show_int q"
| "chain_error_text (PreviousHashMismatch i) =
     ''block['' @ show_nat i @ ''] previous_hash does not match parent''"
| "chain_error_text (NoTransactions i) = ''block['' @ show_nat i @ ''] has no transactions''"
| "chain_error_text (EmptyTransactionId i) = ''block['' @ show_nat i @ ''] has empty transaction id''"
| "chain_error_text (DuplicateTransactionIds i) =
     ''block['' @ show_nat i @ ''] has duplicate transaction ids''"
| "chain_error_text (EmptyTxRoot i) = ''block['' @ show_nat i @ ''] has empty tx_root''"
| "chain_error_text (InvalidTxRoot i) = ''block['' @ show_nat i @ ''] has invalid tx_root''"
| "chain_error_text (TxEmptyChainId t) = ''transaction '' @ t @ '' has empty chain_id''"
| "chain_error_text (TxChainIdMismatch t) = ''transaction '' @ t @ '' chain_id does not match block''"
| "chain_error_text (TxUnsupportedSchemaVersion t) =
     ''transaction '' @ t @ '' has unsupported schema_version''"
| "chain_error_text (TxSignature t e) = sig_error_text t e"
| "chain_error_text (TxNonceReused t n a) =
     ''transaction '' @ t @ '' reuses nonce '' @ n @ '' for address '' @ a"
| "chain_error_text (TxInMultipleBlocks t) = ''transaction '' @ t @ '' appears in multiple blocks''"
| "chain_error_text (EmptyStateRoot i) = ''block['' @ show_nat i @ ''] has empty state_root''"
| "chain_error_text (InvalidStateRoot i) = ''block['' @ show_nat i @ ''] has invalid state_root''"
| "chain_error_text (NegativeBalance a) = ''address '' @ a @ '' has negative balance''"
| "chain_error_text (SupplyInvariantFailed t e) =
     ''chain total supply invariant failed: total_balance_atomic='' @ show_int t
       @ '' expected_total_supply_atomic='' @ show_int e"
| "chain_error_text (NegativeLockedBond v) = ''validator '' @ v @ '' has negative locked bond''"

text \<open>The variables of the loop.\<close>

record vstate =
  vs_seen_block_hashes :: "string list"
  vs_seen_tx_ids :: "string list"
  vs_seen_nonces :: "(string \<times> string) list"
  vs_prefix_blocks :: "ChainBlock list"
  vs_previous_block :: "ChainBlock option"

definition nonce_key :: "ChainTransaction \<Rightarrow> (string \<times> string) option" where
  "nonce_key tx = map_option (\<lambda>n. (normalize_address (tx_address tx), n)) (tx_nonce tx)"

fun validate_transactions ::
  "chain_env \<Rightarrow> WalletPolicy option \<Rightarrow> ChainBlock \<Rightarrow> (string \<times> string) list \<Rightarrow> ChainTransaction list
   \<Rightarrow> (py_error, chain_error list \<times> (string \<times> string) list) res" where
  "validate_transactions E p b seen [] = Inr ([], seen)"
| "validate_transactions E p b seen (tx # txs) =
    rbind (verify_chain_transaction_signature E p tx) (\<lambda>sig.
      let es1 = (if py_strip (tx_chain_id tx) = [] then [TxEmptyChainId (tx_id tx)]
                 else if tx_chain_id tx \<noteq> blk_chain_id b then [TxChainIdMismatch (tx_id tx)] else []);
          es2 = (if tx_schema_version tx \<noteq> CHAIN_SCHEMA_VERSION
                 then [TxUnsupportedSchemaVersion (tx_id tx)] else []);
          es3 = (case sig of None \<Rightarrow> [] | Some e \<Rightarrow> [TxSignature (tx_id tx) e]);
          (es4, seen') = (case nonce_key tx of None \<Rightarrow> ([], seen)
             | Some k \<Rightarrow> (if k \<in> set seen then [TxNonceReused (tx_id tx) (snd k) (tx_address tx)] else [],
                          k # seen))
      in rbind (validate_transactions E p b seen' txs) (\<lambda>(es, seen'').
         Inr (es1 @ es2 @ es3 @ es4 @ es, seen'')))"

fun validate_tx_ids :: "string list \<Rightarrow> string list \<Rightarrow> chain_error list \<times> string list" where
  "validate_tx_ids seen [] = ([], seen)"
| "validate_tx_ids seen (i # ids) =
    (let (es, seen') = validate_tx_ids (i # seen) ids
     in (if i \<in> set seen then TxInMultipleBlocks i # es else es, seen'))"

definition validate_link ::
  "string \<Rightarrow> nat \<Rightarrow> ChainBlock option \<Rightarrow> ChainBlock \<Rightarrow> chain_error list" where
  "validate_link genesis_hash index previous b =
    (if index = 0 then
       (if blk_height b \<noteq> 0 then [MustStartAtHeightZero index] else [])
       @ (if blk_previous_hash b \<noteq> GENESIS_PREVIOUS_HASH then [InvalidGenesisPreviousHash index] else [])
       @ (if blk_hash b \<noteq> genesis_hash then [GenesisHashMismatch index (blk_hash b) genesis_hash] else [])
     else case previous of None \<Rightarrow> []
       | Some q \<Rightarrow>
         (if blk_height b \<noteq> blk_height q + 1
          then [HeightDoesNotFollow index (blk_height b) (blk_height q)] else [])
         @ (if blk_previous_hash b \<noteq> blk_hash q then [PreviousHashMismatch index] else []))"

definition validate_block ::
  "chain_env \<Rightarrow> WalletPolicy option \<Rightarrow> nat \<Rightarrow> vstate \<Rightarrow> ChainBlock
   \<Rightarrow> (py_error, chain_error list \<times> vstate) res" where
  "validate_block E p index st b =
    (let es1 = (if py_strip (blk_chain_id b) = [] then [EmptyChainId index]
                else if blk_chain_id b \<noteq> active_chain_id E p then [MismatchedChainId index] else []);
         es2 = (if blk_schema_version b \<noteq> CHAIN_SCHEMA_VERSION then [UnsupportedSchemaVersion index] else [])
     in if py_strip (blk_hash b) = [] then Inr (es1 @ es2 @ [EmptyBlockHash index], st)
        else
     (let es3 = (if blk_hash b \<in> set (vs_seen_block_hashes st)
                 then [DuplicateBlockHash index (blk_hash b)] else []);
          es4 = (if compute_block_hash E b \<noteq> blk_hash b then [InvalidBlockHash index] else []);
          es5 = validate_link (expected_genesis_hash E p) index (vs_previous_block st) b;
          tx_ids = map (\<lambda>tx. py_strip (tx_id tx)) (blk_transactions b);
          es6 = (if tx_ids = [] then [NoTransactions index] else [])
                @ (if [] \<in> set tx_ids then [EmptyTransactionId index] else [])
                @ (if \<not> distinct tx_ids then [DuplicateTransactionIds index] else []);
          expected_tx_root = compute_transaction_root E (blk_transactions b);
          es7 = (if py_strip (blk_tx_root b) = [] then [EmptyTxRoot index]
                 else if blk_tx_root b \<noteq> expected_tx_root then [InvalidTxRoot index] else []);
          (es9, seen_ids) = validate_tx_ids (vs_seen_tx_ids st) tx_ids;
          expected_state_root = compute_chain_state_root E (vs_prefix_blocks st @ [b]);
          es10 = (if py_strip (blk_state_root b) = [] then [EmptyStateRoot index]
                  else if blk_state_root b \<noteq> expected_state_root then [InvalidStateRoot index] else [])
      in rbind (validate_transactions E p b (vs_seen_nonces st) (blk_transactions b)) (\<lambda>(es8, seen_nonces).
         Inr (es1 @ es2 @ es3 @ es4 @ es5 @ es6 @ es7 @ es8 @ es9 @ es10,
              \<lparr>vs_seen_block_hashes = blk_hash b # vs_seen_block_hashes st,
               vs_seen_tx_ids = seen_ids,
               vs_seen_nonces = seen_nonces,
               vs_prefix_blocks = vs_prefix_blocks st @ [b],
               vs_previous_block = Some b\<rparr>))))"

fun validate_loop ::
  "chain_env \<Rightarrow> WalletPolicy option \<Rightarrow> nat \<Rightarrow> vstate \<Rightarrow> ChainBlock list \<Rightarrow> (py_error, chain_error list) res" where
  "validate_loop E p index st [] = Inr []"
| "validate_loop E p index st (b # bs) =
    rbind (validate_block E p index st b) (\<lambda>(es, st').
    rbind (validate_loop E p (Suc index) st' bs) (\<lambda>es'. Inr (es @ es')))"

definition vstate_init :: vstate where
  "vstate_init = \<lparr>vs_seen_block_hashes = [], vs_seen_tx_ids = [], vs_seen_nonces = [],
     vs_prefix_blocks = [], vs_previous_block = None\<rparr>"

definition validate_chain_supply_invariant ::
  "chain_env \<Rightarrow> WalletPolicy option \<Rightarrow> ChainBlock list \<Rightarrow> chain_error option" where
  "validate_chain_supply_invariant E p bs =
    (if bs = [] then None
     else let total = dsum (chain_balance_index bs); expected = expected_total_supply_atomic E p
          in if total \<noteq> expected then Some (SupplyInvariantFailed total expected) else None)"

definition validate_chain_blocks ::
  "chain_env \<Rightarrow> WalletPolicy option \<Rightarrow> ChainBlock list \<Rightarrow> (py_error, chain_error list) res" where
  "validate_chain_blocks E p bs =
    (if bs = [] then Inr []
     else let ordered = order_blocks bs in
       rbind (validate_loop E p 0 vstate_init ordered) (\<lambda>es.
       Inr (es
         @ map (\<lambda>(a, _). NegativeBalance a) (filter (\<lambda>(_, v). v < 0) (dsorted (chain_balance_index ordered)))
         @ (case validate_chain_supply_invariant E p ordered of None \<Rightarrow> [] | Some e \<Rightarrow> [e])
         @ map (\<lambda>(a, _). NegativeLockedBond a)
             (filter (\<lambda>(_, v). v < 0) (dsorted (validator_locked_bond_index ordered))))))"

section \<open>What a valid chain is\<close>

definition tx_ok :: "chain_env \<Rightarrow> WalletPolicy option \<Rightarrow> ChainTransaction \<Rightarrow> bool" where
  "tx_ok E p tx \<longleftrightarrow> tx_chain_id tx = active_chain_id E p \<and> tx_schema_version tx = CHAIN_SCHEMA_VERSION
     \<and> verify_chain_transaction_signature E p tx = Inr None"

definition stripped_ids :: "ChainTransaction list \<Rightarrow> string list" where
  "stripped_ids txs = map (\<lambda>tx. py_strip (tx_id tx)) txs"

definition tx_nonces :: "ChainTransaction list \<Rightarrow> (string \<times> string) list" where
  "tx_nonces txs = List.map_filter nonce_key txs"

text \<open>The block by itself, on the blocks \<open>pre\<close> before it.\<close>

definition block_ok :: "chain_env \<Rightarrow> WalletPolicy option \<Rightarrow> ChainBlock list \<Rightarrow> ChainBlock \<Rightarrow> bool" where
  "block_ok E p pre b \<longleftrightarrow>
     blk_chain_id b = active_chain_id E p \<and> blk_schema_version b = CHAIN_SCHEMA_VERSION
     \<and> py_strip (blk_hash b) \<noteq> [] \<and> compute_block_hash E b = blk_hash b
     \<and> blk_transactions b \<noteq> [] \<and> [] \<notin> set (stripped_ids (blk_transactions b))
     \<and> py_strip (blk_tx_root b) \<noteq> []
     \<and> blk_tx_root b = compute_transaction_root E (blk_transactions b)
     \<and> (\<forall>tx \<in> set (blk_transactions b). tx_ok E p tx)
     \<and> py_strip (blk_state_root b) \<noteq> []
     \<and> blk_state_root b = compute_chain_state_root E (pre @ [b])"

text \<open>The block is the child of the last one before it, or the genesis block.\<close>

definition link_ok :: "chain_env \<Rightarrow> WalletPolicy option \<Rightarrow> ChainBlock list \<Rightarrow> ChainBlock \<Rightarrow> bool" where
  "link_ok E p pre b \<longleftrightarrow>
    (if pre = [] then blk_height b = 0 \<and> blk_previous_hash b = GENESIS_PREVIOUS_HASH
       \<and> blk_hash b = expected_genesis_hash E p
     else blk_height b = blk_height (last pre) + 1 \<and> blk_previous_hash b = blk_hash (last pre))"

text \<open>Neither its hash, nor a transaction id, nor a nonce occurred before.\<close>

definition fresh_ok :: "ChainBlock list \<Rightarrow> ChainBlock \<Rightarrow> bool" where
  "fresh_ok pre b \<longleftrightarrow> blk_hash b \<notin> set (map blk_hash pre)
     \<and> distinct (stripped_ids (blk_transactions b))
     \<and> set (stripped_ids (blk_transactions b)) \<inter> set (stripped_ids (chain_txs pre)) = {}
     \<and> distinct (tx_nonces (blk_transactions b))
     \<and> set (tx_nonces (blk_transactions b)) \<inter> set (tx_nonces (chain_txs pre)) = {}"

fun extends_ok :: "chain_env \<Rightarrow> WalletPolicy option \<Rightarrow> ChainBlock list \<Rightarrow> ChainBlock list \<Rightarrow> bool" where
  "extends_ok E p pre [] = True"
| "extends_ok E p pre (b # bs) \<longleftrightarrow>
     block_ok E p pre b \<and> link_ok E p pre b \<and> fresh_ok pre b \<and> extends_ok E p (pre @ [b]) bs"

text \<open>The ledger the blocks add up to: the whole supply, and nobody below zero.\<close>

definition ledger_ok :: "chain_env \<Rightarrow> WalletPolicy option \<Rightarrow> ChainBlock list \<Rightarrow> bool" where
  "ledger_ok E p bs \<longleftrightarrow>
     (\<forall>(a, v) \<in> set (chain_balance_index bs). 0 \<le> v)
     \<and> dsum (chain_balance_index bs) = expected_total_supply_atomic E p
     \<and> (\<forall>(a, v) \<in> set (validator_locked_bond_index bs). 0 \<le> v)"

definition valid_chain :: "chain_env \<Rightarrow> WalletPolicy option \<Rightarrow> ChainBlock list \<Rightarrow> bool" where
  "valid_chain E p bs \<longleftrightarrow> bs = [] \<or>
     (extends_ok E p [] (order_blocks bs) \<and> ledger_ok E p (order_blocks bs))"

section \<open>The checker decides validity\<close>

definition vstate_of :: "ChainBlock list \<Rightarrow> vstate" where
  "vstate_of pre = \<lparr>vs_seen_block_hashes = rev (map blk_hash pre),
     vs_seen_tx_ids = rev (stripped_ids (chain_txs pre)),
     vs_seen_nonces = rev (tx_nonces (chain_txs pre)),
     vs_prefix_blocks = pre,
     vs_previous_block = (if pre = [] then None else Some (last pre))\<rparr>"

lemma stripped_ids_simps [simp]:
  "stripped_ids [] = []" "stripped_ids (tx # txs) = py_strip (tx_id tx) # stripped_ids txs"
  "stripped_ids (txs @ us) = stripped_ids txs @ stripped_ids us"
  by (simp_all add: stripped_ids_def)

lemma tx_nonces_simps [simp]:
  "tx_nonces [] = []"
  "tx_nonces (tx # txs) = (case nonce_key tx of None \<Rightarrow> tx_nonces txs | Some k \<Rightarrow> k # tx_nonces txs)"
  "tx_nonces (txs @ us) = tx_nonces txs @ tx_nonces us"
proof -
  show "tx_nonces [] = []" by (simp add: tx_nonces_def map_filter_simps)
  show c: "tx_nonces (tx # txs) = (case nonce_key tx of None \<Rightarrow> tx_nonces txs | Some k \<Rightarrow> k # tx_nonces txs)"
    for tx txs by (simp add: tx_nonces_def map_filter_simps split: option.split)
  show "tx_nonces (txs @ us) = tx_nonces txs @ tx_nonces us"
    by (induction txs) (simp_all add: c tx_nonces_def map_filter_simps split: option.split)
qed

lemma validate_tx_ids_clean:
  "fst (validate_tx_ids seen ids) = [] \<longleftrightarrow> distinct ids \<and> set ids \<inter> set seen = {}"
  by (induction ids arbitrary: seen) (auto simp: Let_def case_prod_beta)

lemma validate_tx_ids_seen: "snd (validate_tx_ids seen ids) = rev ids @ seen"
  by (induction ids arbitrary: seen) (auto simp: Let_def case_prod_beta)

lemma chain_network_value_strip [simp]: "py_strip (chain_network_value n) = chain_network_value n"
  by (cases n) (simp_all add: py_strip_def py_isspace_def)

lemma validate_transactions_clean:
  assumes "blk_chain_id b = active_chain_id E p"
  shows "(\<exists>seen'. validate_transactions E p b seen txs = Inr ([], seen')) \<longleftrightarrow>
    (\<forall>tx \<in> set txs. tx_ok E p tx) \<and> distinct (tx_nonces txs) \<and> set (tx_nonces txs) \<inter> set seen = {}"
proof (induction txs arbitrary: seen)
  case Nil
  then show ?case by simp
next
  case (Cons tx txs)
  show ?case
    using Cons assms
    by (auto simp: tx_ok_def Let_def rbind_Inr_iff split: option.splits)
qed

lemma validate_transactions_seen:
  "validate_transactions E p b seen txs = Inr (es, seen') \<Longrightarrow> seen' = rev (tx_nonces txs) @ seen"
  by (induction txs arbitrary: seen es) (auto simp: Let_def rbind_Inr_iff split: option.splits)

lemma validate_link_clean:
  "validate_link (expected_genesis_hash E p) (length pre) (vs_previous_block (vstate_of pre)) b = []
   \<longleftrightarrow> link_ok E p pre b"
  by (simp add: validate_link_def link_ok_def vstate_of_def)

definition step_ok :: "chain_env \<Rightarrow> WalletPolicy option \<Rightarrow> ChainBlock list \<Rightarrow> ChainBlock \<Rightarrow> bool" where
  "step_ok E p pre b \<longleftrightarrow> block_ok E p pre b \<and> link_ok E p pre b \<and> fresh_ok pre b"

lemma validate_block_step:
  assumes "step_ok E p pre b"
  shows "validate_block E p (length pre) (vstate_of pre) b = Inr ([], vstate_of (pre @ [b]))"
proof -
  have ok: "block_ok E p pre b" "link_ok E p pre b" "fresh_ok pre b"
    using assms by (simp_all add: step_ok_def)
  have cid: "blk_chain_id b = active_chain_id E p"
    using ok by (simp add: block_ok_def)
  obtain seen' where
    txs: "validate_transactions E p b (rev (tx_nonces (chain_txs pre))) (blk_transactions b) = Inr ([], seen')"
    using validate_transactions_clean [OF cid, of "rev (tx_nonces (chain_txs pre))" "blk_transactions b"] ok
    by (auto simp: block_ok_def fresh_ok_def)
  note seen' = validate_transactions_seen [OF this]
  have ids: "validate_tx_ids (rev (stripped_ids (chain_txs pre))) (stripped_ids (blk_transactions b))
      = ([], rev (stripped_ids (blk_transactions b)) @ rev (stripped_ids (chain_txs pre)))"
    using ok validate_tx_ids_clean validate_tx_ids_seen
    by (simp add: fresh_ok_def prod_eq_iff)
  show ?thesis
    using ok txs ids seen' validate_link_clean [of E p pre b]
    by (clarsimp simp: validate_block_def block_ok_def fresh_ok_def stripped_ids_def vstate_of_def Let_def)
qed

lemma validate_block_clean:
  assumes "validate_block E p (length pre) (vstate_of pre) b = Inr ([], st)"
  shows "step_ok E p pre b"
proof -
  have hash: "py_strip (blk_hash b) \<noteq> []"
    using assms by (auto simp: validate_block_def Let_def split: if_splits)
  obtain seen' where
    txs: "validate_transactions E p b (rev (tx_nonces (chain_txs pre))) (blk_transactions b) = Inr ([], seen')"
    and cid: "blk_chain_id b = active_chain_id E p"
    and ids: "fst (validate_tx_ids (rev (stripped_ids (chain_txs pre))) (stripped_ids (blk_transactions b))) = []"
    and link: "validate_link (expected_genesis_hash E p) (length pre) (vs_previous_block (vstate_of pre)) b = []"
    and rest: "blk_schema_version b = CHAIN_SCHEMA_VERSION" "compute_block_hash E b = blk_hash b"
      "blk_transactions b \<noteq> []" "[] \<notin> set (stripped_ids (blk_transactions b))"
      "py_strip (blk_tx_root b) \<noteq> []" "blk_tx_root b = compute_transaction_root E (blk_transactions b)"
      "py_strip (blk_state_root b) \<noteq> []" "blk_state_root b = compute_chain_state_root E (pre @ [b])"
      "blk_hash b \<notin> set (map blk_hash pre)"
    using assms hash
    by (auto simp: validate_block_def Let_def rbind_Inr_iff case_prod_beta stripped_ids_def vstate_of_def
        split: if_splits)
  show ?thesis
    using hash rest link [unfolded validate_link_clean] ids [unfolded validate_tx_ids_clean] cid
      iffD1 [OF validate_transactions_clean [OF cid] exI, OF txs]
    by (simp add: step_ok_def block_ok_def fresh_ok_def)
qed

lemma validate_loop_clean:
  "validate_loop E p (length pre) (vstate_of pre) bs = Inr [] \<longleftrightarrow> extends_ok E p pre bs"
proof (induction bs arbitrary: pre)
  case (Cons b bs)
  have "validate_loop E p (length pre) (vstate_of pre) (b # bs) = Inr [] \<longleftrightarrow>
      (\<exists>st. validate_block E p (length pre) (vstate_of pre) b = Inr ([], st)
         \<and> validate_loop E p (Suc (length pre)) st bs = Inr [])"
    by (auto simp: rbind_Inr_iff)
  also have "\<dots> \<longleftrightarrow> step_ok E p pre b
      \<and> validate_loop E p (length (pre @ [b])) (vstate_of (pre @ [b])) bs = Inr []"
    using validate_block_step [of E p pre b] validate_block_clean [of E p pre b] by auto
  finally show ?case
    using Cons [of "pre @ [b]"] by (simp add: step_ok_def)
qed simp

lemma negative_entries_none:
  "filter (\<lambda>(_, v). v < (0::int)) (dsorted d) = [] \<longleftrightarrow> (\<forall>(a, v) \<in> set d. 0 \<le> v)"
  by (auto simp: filter_empty_conv)

theorem validate_chain_blocks_valid:
  "validate_chain_blocks E p bs = Inr [] \<longleftrightarrow> valid_chain E p bs"
proof (cases "bs = []")
  case False
  then have "order_blocks bs \<noteq> []"
    by (metis mset_order_blocks mset_zero_iff)
  moreover have "vstate_init = vstate_of []"
    by (simp add: vstate_init_def vstate_of_def)
  ultimately show ?thesis
    using False validate_loop_clean [of E p "[]" "order_blocks bs"]
    by (simp add: validate_chain_blocks_def valid_chain_def ledger_ok_def rbind_Inr_iff Let_def
        validate_chain_supply_invariant_def negative_entries_none split: if_splits)
qed (simp add: validate_chain_blocks_def valid_chain_def)

section \<open>What validity gives\<close>

lemma extends_ok_append:
  "extends_ok E p pre (bs @ cs) \<longleftrightarrow> extends_ok E p pre bs \<and> extends_ok E p (pre @ bs) cs"
  by (induction bs arbitrary: pre) auto

lemma extends_ok_distinct:
  assumes "extends_ok E p pre bs"
    and "distinct (map blk_hash pre)" "distinct (stripped_ids (chain_txs pre))" "distinct (tx_nonces (chain_txs pre))"
  shows "distinct (map blk_hash (pre @ bs)) \<and> distinct (stripped_ids (chain_txs (pre @ bs)))
    \<and> distinct (tx_nonces (chain_txs (pre @ bs)))"
  using assms
proof (induction bs arbitrary: pre)
  case (Cons b bs)
  have "distinct (map blk_hash ((pre @ [b]) @ bs)) \<and> distinct (stripped_ids (chain_txs ((pre @ [b]) @ bs)))
      \<and> distinct (tx_nonces (chain_txs ((pre @ [b]) @ bs)))"
    by (rule Cons.IH) (use Cons.prems in \<open>simp_all add: fresh_ok_def Int_commute\<close>)
  then show ?case by (simp del: distinct_append)
qed simp

lemma extends_ok_nth:
  assumes "extends_ok E p pre bs" "i < length bs"
  shows "block_ok E p (pre @ take i bs) (bs ! i) \<and> link_ok E p (pre @ take i bs) (bs ! i)
    \<and> fresh_ok (pre @ take i bs) (bs ! i)"
  using assms
proof (induction bs arbitrary: pre i)
  case (Cons b bs)
  then show ?case
    using Cons.IH [of "pre @ [b]" "i - 1"] by (cases i) auto
qed simp

lemma extends_ok_link:
  assumes "extends_ok E p [] bs" "Suc i < length bs"
  shows "blk_height (bs ! Suc i) = blk_height (bs ! i) + 1 \<and> blk_previous_hash (bs ! Suc i) = blk_hash (bs ! i)"
  using extends_ok_nth [OF assms] assms(2) by (simp add: link_ok_def take_Suc_conv_app_nth split: if_splits)

lemma extends_ok_height:
  assumes "extends_ok E p [] bs" "i < length bs"
  shows "blk_height (bs ! i) = int i"
  using assms(2)
proof (induction i)
  case 0
  then show ?case
    using extends_ok_nth [OF assms(1), of 0] by (simp add: link_ok_def)
next
  case (Suc i)
  then show ?case
    using extends_ok_link [OF assms(1), of i] by simp
qed

end
