(* ===== verification/ChainIndex.thy ===== *)
theory ChainIndex
  imports ChainValidate
begin

text \<open>
  The derived index and snapshot documents of \<open>src/src/cai_compute_chain/chain.py\<close>:
  \<open>_build_chain_index_payloads\<close> walks the chain once and keeps balances, locked bonds, a
  transaction index and the two histories side by side. The lemmas show that each of them is
  what the functions that scan the chain directly compute.
\<close>

definition CHAIN_INDEX_SCHEMA_VERSION :: int where
  "CHAIN_INDEX_SCHEMA_VERSION = 1"

definition CHAIN_SNAPSHOT_SCHEMA_VERSION :: int where
  "CHAIN_SNAPSHOT_SCHEMA_VERSION = 1"

definition DEFAULT_CHAIN_SNAPSHOT_INTERVAL :: int where
  "DEFAULT_CHAIN_SNAPSHOT_INTERVAL = 100"

definition chain_snapshot_interval :: "os_env \<Rightarrow> int" where
  "chain_snapshot_interval os =
    (let raw = py_strip (getenv_or os ''CAI_CHAIN_SNAPSHOT_INTERVAL'' [])
     in if raw = [] then DEFAULT_CHAIN_SNAPSHOT_INTERVAL
        else case py_int_str raw of Inr n \<Rightarrow> max 1 n | Inl _ \<Rightarrow> DEFAULT_CHAIN_SNAPSHOT_INTERVAL)"

text \<open>\<open>d.setdefault(k, []).append(x)\<close>\<close>

definition dpush :: "'k \<Rightarrow> 'v \<Rightarrow> ('k \<times> 'v list) list \<Rightarrow> ('k \<times> 'v list) list" where
  "dpush k x d = AList.update k (dget d k [] @ [x]) d"

definition int_dict_json :: "int dict \<Rightarrow> json" where
  "int_dict_json d = JObj (map (\<lambda>(k, v). (k, JInt v)) d)"

definition chain_transaction_history_entry :: "ChainBlock \<Rightarrow> ChainTransaction \<Rightarrow> int option \<Rightarrow> obj" where
  "chain_transaction_history_entry b tx balance_after =
    transaction_asdict tx
    @ [(''block_height'', JInt (blk_height b)),
       (''block_hash'', JStr (blk_hash b)),
       (''block_created_at'', JStr (blk_created_at b))]
    @ (case balance_after of None \<Rightarrow> [] | Some v \<Rightarrow> [(''balance_after_atomic'', JInt v)])"

definition build_chain_snapshot_payload ::
  "os_env \<Rightarrow> ChainBlock \<Rightarrow> int dict \<Rightarrow> int dict \<Rightarrow> nat \<Rightarrow> obj" where
  "build_chain_snapshot_payload os b balances bonds tx_count =
    [(''schemaVersion'', JInt CHAIN_SNAPSHOT_SCHEMA_VERSION),
     (''chainSchemaVersion'', JInt CHAIN_SCHEMA_VERSION),
     (''chainId'', JStr (str_or (blk_chain_id b) (default_chain_id os))),
     (''height'', JInt (blk_height b)),
     (''blockHash'', JStr (blk_hash b)),
     (''createdAt'', JStr (blk_created_at b)),
     (''stateRoot'', JStr (blk_state_root b)),
     (''txRoot'', JStr (blk_tx_root b)),
     (''transactionCount'', JInt (int tx_count)),
     (''balanceAddressCount'', JInt (int (length balances))),
     (''nonZeroBalanceAddressCount'', JInt (int (length (filter (\<lambda>(_, v). v \<noteq> 0) balances)))),
     (''totalBalanceAtomic'', JInt (dsum balances)),
     (''balancesAtomic'', int_dict_json (dsorted balances)),
     (''validatorLockedBondAtomic'', int_dict_json (dsorted bonds))]"

section \<open>The index pass\<close>

record index_state =
  ix_balances :: "int dict"
  ix_bonds :: "int dict"
  ix_seen :: "string list"
  ix_transactions :: obj
  ix_address_history :: "obj list dict"
  ix_settlement_history :: "obj list dict"
  ix_snapshots :: "obj list"

definition index_init :: index_state where
  "index_init = \<lparr>ix_balances = [], ix_bonds = [], ix_seen = [], ix_transactions = [],
     ix_address_history = [], ix_settlement_history = [], ix_snapshots = []\<rparr>"

definition index_transaction :: "ChainBlock \<Rightarrow> index_state \<Rightarrow> nat \<times> ChainTransaction \<Rightarrow> index_state" where
  "index_transaction b st itx =
    (let (i, tx) = itx in
     if tx_id tx \<in> set (ix_seen st) then st
     else
       let address = normalize_address (tx_address tx);
           balances = bump address (tx_delta_atomic tx) (ix_balances st);
           entry = chain_transaction_history_entry b tx (Some (dget balances address 0))
       in \<lparr>ix_balances = balances,
           ix_bonds = apply_validator_bond_index_delta (ix_bonds st) tx,
           ix_seen = tx_id tx # ix_seen st,
           ix_transactions = AList.update (tx_id tx) (JObj
             [(''blockHeight'', JInt (blk_height b)),
              (''blockHash'', JStr (blk_hash b)),
              (''blockCreatedAt'', JStr (blk_created_at b)),
              (''txIndex'', JInt (int i)),
              (''address'', JStr address),
              (''txType'', JStr (tx_type tx)),
              (''settlementId'', tx_settlement_id tx)]) (ix_transactions st),
           ix_address_history = dpush address entry (ix_address_history st),
           ix_settlement_history =
             (if truthy (tx_settlement_id tx)
              then dpush (py_str (tx_settlement_id tx)) (chain_transaction_history_entry b tx None)
                     (ix_settlement_history st)
              else ix_settlement_history st),
           ix_snapshots = ix_snapshots st\<rparr>)"

definition index_block_transactions :: "index_state \<Rightarrow> ChainBlock \<Rightarrow> index_state" where
  "index_block_transactions st b =
     fold (\<lambda>itx s. index_transaction b s itx) (List.enumerate 0 (blk_transactions b)) st"

definition push_snapshot :: "os_env \<Rightarrow> ChainBlock \<Rightarrow> index_state \<Rightarrow> index_state" where
  "push_snapshot os b st = st\<lparr>ix_snapshots := ix_snapshots st @
     [build_chain_snapshot_payload os b (ix_balances st) (ix_bonds st) (length (ix_seen st))]\<rparr>"

fun index_blocks :: "os_env \<Rightarrow> int \<Rightarrow> index_state \<Rightarrow> ChainBlock list \<Rightarrow> index_state" where
  "index_blocks os interval st [] = st"
| "index_blocks os interval st (b # bs) =
    (let st1 = index_block_transactions st b;
         st2 = (if blk_height b mod interval = 0 \<or> bs = [] then push_snapshot os b st1 else st1)
     in index_blocks os interval st2 bs)"

definition histories_json :: "obj list dict \<Rightarrow> json" where
  "histories_json d = JObj (map (\<lambda>(k, es). (k, JList (map JObj es))) (dsorted d))"

definition jopt_obj :: "obj option \<Rightarrow> json" where
  "jopt_obj x = (case x of None \<Rightarrow> JNull | Some d \<Rightarrow> JObj d)"

text \<open>\<open>xs[-1] if xs else None\<close>\<close>

definition last_opt :: "'a list \<Rightarrow> 'a option" where
  "last_opt xs = (if xs = [] then None else Some (last xs))"

definition tip_field :: "(ChainBlock \<Rightarrow> json) \<Rightarrow> ChainBlock option \<Rightarrow> json" where
  "tip_field f tip = (case tip of None \<Rightarrow> JNull | Some b \<Rightarrow> f b)"

definition snapshot_field :: "string \<Rightarrow> obj option \<Rightarrow> json" where
  "snapshot_field k snap = (case snap of None \<Rightarrow> JNull | Some d \<Rightarrow> jget d k)"

definition build_chain_index_payloads ::
  "chain_env \<Rightarrow> WalletPolicy option \<Rightarrow> string \<Rightarrow> json \<Rightarrow> ChainBlock list \<Rightarrow> (py_error, obj \<times> obj) res" where
  "build_chain_index_payloads E p now stat blocks =
    (let active = active_chain_id E p;
         interval = chain_snapshot_interval (getenv E);
         ordered = order_blocks blocks;
         tip = last_opt ordered;
         st = index_blocks (getenv E) interval index_init ordered;
         latest = last_opt (ix_snapshots st)
     in rbind (validate_chain_blocks E p ordered) (\<lambda>errors.
     Inr
      ([(''schemaVersion'', JInt CHAIN_INDEX_SCHEMA_VERSION),
        (''chainSchemaVersion'', JInt CHAIN_SCHEMA_VERSION),
        (''chainId'', JStr active),
        (''indexedAt'', JStr now),
        (''chainFile'', stat),
        (''blockCount'', JInt (int (length ordered))),
        (''transactionCount'', JInt (int (length (ix_seen st)))),
        (''tipHeight'', tip_field (\<lambda>b. JInt (blk_height b)) tip),
        (''tipHash'', tip_field (\<lambda>b. JStr (blk_hash b)) tip),
        (''tipCreatedAt'', tip_field (\<lambda>b. JStr (blk_created_at b)) tip),
        (''tipTxRoot'', tip_field (\<lambda>b. JStr (blk_tx_root b)) tip),
        (''tipStateRoot'', tip_field (\<lambda>b. JStr (blk_state_root b)) tip),
        (''valid'', JBool (errors = [])),
        (''validationErrors'', JList (map (\<lambda>e. JStr (chain_error_text e)) (take 20 errors))),
        (''balancesAtomic'', int_dict_json (dsorted (ix_balances st))),
        (''validatorLockedBondAtomic'', int_dict_json (dsorted (ix_bonds st))),
        (''transactionIndex'', JObj (dsorted (ix_transactions st))),
        (''addressHistory'', histories_json (ix_address_history st)),
        (''settlementHistory'', histories_json (ix_settlement_history st)),
        (''snapshotInterval'', JInt interval),
        (''snapshotCount'', JInt (int (length (ix_snapshots st)))),
        (''latestSnapshotHeight'', snapshot_field ''height'' latest),
        (''latestSnapshotHash'', snapshot_field ''blockHash'' latest),
        (''latestSnapshotStateRoot'', snapshot_field ''stateRoot'' latest)],
       [(''schemaVersion'', JInt CHAIN_SNAPSHOT_SCHEMA_VERSION),
        (''chainSchemaVersion'', JInt CHAIN_SCHEMA_VERSION),
        (''chainId'', JStr active),
        (''createdAt'', JStr now),
        (''chainFile'', stat),
        (''snapshotInterval'', JInt interval),
        (''latest'', jopt_obj latest),
        (''snapshots'', JList (map JObj (ix_snapshots st)))])))"

section \<open>Reading an index\<close>

text \<open>\<open>_int_mapping\<close>: entries whose value is no integer and entries with an empty key are skipped.\<close>

definition int_mapping_step :: "int dict \<Rightarrow> string \<times> json \<Rightarrow> int dict" where
  "int_mapping_step d kv =
    (let k = normalize_address (fst kv) in
     if k = [] then d
     else case py_int (snd kv) of Inr n \<Rightarrow> AList.update k n d | Inl _ \<Rightarrow> d)"

definition int_mapping :: "json \<Rightarrow> int dict" where
  "int_mapping raw = (case raw of JObj kvs \<Rightarrow> foldl int_mapping_step [] kvs | _ \<Rightarrow> [])"

definition chain_index_balances :: "obj \<Rightarrow> int dict" where
  "chain_index_balances payload = int_mapping (jget payload ''balancesAtomic'')"

definition chain_index_validator_locked_bonds :: "obj \<Rightarrow> int dict" where
  "chain_index_validator_locked_bonds payload = int_mapping (jget payload ''validatorLockedBondAtomic'')"

text \<open>\<open>history.reverse()\<close> when the newest come first, then \<open>history[:max(0, limit)]\<close>\<close>

definition present_history :: "bool \<Rightarrow> int option \<Rightarrow> obj list \<Rightarrow> obj list" where
  "present_history newest_first limit h =
    (let h1 = (if newest_first then rev h else h)
     in case limit of None \<Rightarrow> h1 | Some n \<Rightarrow> take (nat (max 0 n)) h1)"

definition obj_items :: "json list \<Rightarrow> obj list" where
  "obj_items xs = List.map_filter (\<lambda>x. case x of JObj d \<Rightarrow> Some d | _ \<Rightarrow> None) xs"

definition indexed_history :: "obj \<Rightarrow> string \<Rightarrow> string \<Rightarrow> obj list option" where
  "indexed_history payload section key =
    (case jget payload section of JObj d \<Rightarrow>
       (case jget d key of JList xs \<Rightarrow> Some (obj_items xs) | _ \<Rightarrow> None)
     | _ \<Rightarrow> None)"

definition type_allowed :: "string list option \<Rightarrow> obj \<Rightarrow> bool" where
  "type_allowed types item = (case types of None \<Rightarrow> True
     | Some ts \<Rightarrow> str_of_or (py_or (jget item ''tx_type'') (jget item ''txType'')) [] \<in> set ts)"

text \<open>The scan of \<open>chain_address_history\<close>, used where the index has no entry.\<close>

definition address_scan_step ::
  "string \<Rightarrow> string list option \<Rightarrow> string list \<times> int \<times> obj list \<Rightarrow> ChainBlock \<times> ChainTransaction
   \<Rightarrow> string list \<times> int \<times> obj list" where
  "address_scan_step a types s btx =
    (let (seen, bal, h) = s; (b, tx) = btx in
     if tx_id tx \<in> set seen then s
     else if normalize_address (tx_address tx) \<noteq> a then (tx_id tx # seen, bal, h)
     else let bal' = bal + tx_delta_atomic tx in
       (tx_id tx # seen, bal',
        if (case types of None \<Rightarrow> True | Some ts \<Rightarrow> tx_type tx \<in> set ts)
        then h @ [chain_transaction_history_entry b tx (Some bal')] else h))"

definition block_txs :: "ChainBlock list \<Rightarrow> (ChainBlock \<times> ChainTransaction) list" where
  "block_txs bs = concat (map (\<lambda>b. map (Pair b) (blk_transactions b)) bs)"

definition address_history_scan :: "string \<Rightarrow> string list option \<Rightarrow> ChainBlock list \<Rightarrow> obj list" where
  "address_history_scan a types bs = snd (snd (foldl (address_scan_step a types) ([], 0, []) (block_txs bs)))"

definition settlement_scan_step ::
  "string \<Rightarrow> string list \<times> obj list \<Rightarrow> ChainBlock \<times> ChainTransaction \<Rightarrow> string list \<times> obj list" where
  "settlement_scan_step sid s btx =
    (let (seen, h) = s; (b, tx) = btx in
     if tx_id tx \<in> set seen then s
     else if py_strip (str_of_or (tx_settlement_id tx) []) \<noteq> sid then (tx_id tx # seen, h)
     else (tx_id tx # seen, h @ [chain_transaction_history_entry b tx None]))"

definition settlement_history_scan :: "string \<Rightarrow> ChainBlock list \<Rightarrow> obj list" where
  "settlement_history_scan sid bs = snd (foldl (settlement_scan_step sid) ([], []) (block_txs bs))"

section \<open>The index is the replay of the chain\<close>

lemma index_transaction_seen:
  "tx_id tx \<in> set (ix_seen st) \<Longrightarrow> index_transaction b st (i, tx) = st"
  by (simp add: index_transaction_def)

lemma index_transaction_fields:
  assumes "tx_id tx \<notin> set (ix_seen st)"
  shows "ix_balances (index_transaction b st (i, tx)) =
      bump (normalize_address (tx_address tx)) (tx_delta_atomic tx) (ix_balances st)"
    "ix_bonds (index_transaction b st (i, tx)) = apply_validator_bond_index_delta (ix_bonds st) tx"
    "ix_seen (index_transaction b st (i, tx)) = tx_id tx # ix_seen st"
    "ix_address_history (index_transaction b st (i, tx)) =
      (let a = normalize_address (tx_address tx) in
       dpush a (chain_transaction_history_entry b tx
         (Some (dget (ix_balances st) a 0 + tx_delta_atomic tx))) (ix_address_history st))"
    "ix_snapshots (index_transaction b st (i, tx)) = ix_snapshots st"
  using assms by (simp_all add: index_transaction_def Let_def dget_bump)

lemma index_transaction_balance_step:
  "(ix_seen (index_transaction b st (i, tx)), ix_balances (index_transaction b st (i, tx))) =
   balance_step (ix_seen st, ix_balances st) tx"
  by (cases "tx_id tx \<in> set (ix_seen st)")
    (simp_all add: index_transaction_seen index_transaction_fields balance_step_cases)

lemma index_transaction_bond_step:
  "(ix_seen (index_transaction b st (i, tx)), ix_bonds (index_transaction b st (i, tx))) =
   bond_step (ix_seen st, ix_bonds st) tx"
  by (cases "tx_id tx \<in> set (ix_seen st)")
    (simp_all add: index_transaction_seen index_transaction_fields bond_step_cases)

text \<open>
  A view of the index state that follows its own step function on every transaction follows
  it along the whole chain.
\<close>

lemma index_view_txs:
  assumes step: "\<And>st b i tx. view (index_transaction b st (i, tx)) = f (view st) (b, tx)"
  shows "view (fold (\<lambda>itx s. index_transaction b s itx) (List.enumerate n txs) st) =
    foldl f (view st) (map (Pair b) txs)"
  by (induction txs arbitrary: n st) (simp_all add: step)

lemma index_view:
  assumes step: "\<And>st b i tx. view (index_transaction b st (i, tx)) = f (view st) (b, tx)"
    and snap: "\<And>st snaps. view (st\<lparr>ix_snapshots := snaps\<rparr>) = view st"
  shows "view (index_blocks os interval st bs) = foldl f (view st) (block_txs bs)"
  using index_view_txs [of view f, OF step]
  by (induction bs arbitrary: st)
    (simp_all add: block_txs_def index_block_transactions_def push_snapshot_def snap Let_def)

lemma map_snd_block_txs: "map snd (block_txs bs) = chain_txs bs"
  by (induction bs) (simp_all add: block_txs_def comp_def)

lemma foldl_block_txs: "foldl (\<lambda>s btx. step s (snd btx)) s (block_txs bs) = fold (\<lambda>tx s. step s tx) (chain_txs bs) s"
  by (simp add: foldl_conv_fold fold_map comp_def flip: map_snd_block_txs)

lemma ix_balances_replay:
  "ix_balances (index_blocks os interval index_init bs) = chain_balance_index bs"
  using index_view [of "\<lambda>st. (ix_seen st, ix_balances st)" "\<lambda>s btx. balance_step s (snd btx)" os interval index_init bs]
  by (simp add: index_transaction_balance_step foldl_block_txs chain_balance_index_def
      replay_balances_def index_init_def prod_eq_iff)

lemma ix_bonds_replay:
  "ix_bonds (index_blocks os interval index_init bs) = validator_locked_bond_index bs"
  using index_view [of "\<lambda>st. (ix_seen st, ix_bonds st)" "\<lambda>s btx. bond_step s (snd btx)" os interval index_init bs]
  by (simp add: index_transaction_bond_step foldl_block_txs validator_locked_bond_index_def
      replay_bonds_def index_init_def prod_eq_iff)

lemma dget_dpush: "dget (dpush k x d) k' [] = (if k' = k then dget d k [] @ [x] else dget d k' [])"
  by (simp add: dpush_def dget_update)

lemma index_transaction_address_step:
  "(ix_seen (index_transaction b st (i, tx)), dget (ix_balances (index_transaction b st (i, tx))) a 0,
    dget (ix_address_history (index_transaction b st (i, tx))) a []) =
   address_scan_step a None (ix_seen st, dget (ix_balances st) a 0, dget (ix_address_history st) a []) (b, tx)"
  by (cases "tx_id tx \<in> set (ix_seen st)")
    (auto simp: index_transaction_seen index_transaction_fields address_scan_step_def dget_dpush dget_bump Let_def)

lemma ix_address_history_scan:
  "dget (ix_address_history (index_blocks os interval index_init bs)) a [] = address_history_scan a None bs"
  using index_view [of "\<lambda>st. (ix_seen st, dget (ix_balances st) a 0, dget (ix_address_history st) a [])"
      "address_scan_step a None" os interval index_init bs]
  by (simp add: index_transaction_address_step address_history_scan_def index_init_def prod_eq_iff)

section \<open>Reading an index gives back what was indexed\<close>

lemma int_mapping_foldl:
  assumes "dict_ok (acc @ d)" "\<forall>k \<in> fst ` set d. address_stable k \<and> k \<noteq> []"
  shows "foldl int_mapping_step acc (map (\<lambda>(k, v). (k, JInt v)) d) = acc @ d"
  using assms
proof (induction d arbitrary: acc)
  case (Cons kv d)
  obtain k v where kv: "kv = (k, v)" by (cases kv)
  have "k \<notin> fst ` set acc" using Cons.prems(1) kv by auto
  then have "int_mapping_step acc (k, JInt v) = acc @ [(k, v)]"
    using Cons.prems(2) by (simp add: int_mapping_step_def kv address_stable_def update_new)
  with Cons.IH [of "acc @ [(k, v)]"] Cons.prems show ?case
    by (simp add: kv)
qed simp

lemma int_mapping_dict:
  "dict_ok d \<Longrightarrow> \<forall>k \<in> fst ` set d. address_stable k \<and> k \<noteq> [] \<Longrightarrow> int_mapping (int_dict_json d) = d"
  using int_mapping_foldl [of "[]" d] by (simp add: int_mapping_def int_dict_json_def)

lemma obj_items_map [simp]: "obj_items (map JObj es) = es"
  by (induction es) (simp_all add: obj_items_def map_filter_simps)

lemma map_of_histories:
  "dict_ok d \<Longrightarrow> map_of (map (\<lambda>(k, es). (k, JList (map JObj es))) (dsorted d)) a =
    map_option (\<lambda>es. JList (map JObj es)) (map_of d a)"
  by (simp add: map_of_map map_of_dsorted)

lemma type_allowed_entry:
  "type_allowed types (chain_transaction_history_entry b tx bal) =
    (case types of None \<Rightarrow> True | Some ts \<Rightarrow> tx_type tx \<in> set ts)"
  by (auto simp: type_allowed_def chain_transaction_history_entry_def transaction_asdict_def jget_def
      dget_def py_or_def str_of_or_def split: option.split)

lemma address_scan_types:
  "foldl (address_scan_step a types) (seen, bal, filter (type_allowed types) h) btxs =
    (case foldl (address_scan_step a None) (seen, bal, h) btxs of
       (seen', bal', h') \<Rightarrow> (seen', bal', filter (type_allowed types) h'))"
proof (induction btxs arbitrary: seen bal h)
  case (Cons btx btxs)
  obtain b tx where "btx = (b, tx)" by (cases btx)
  then show ?case
    using Cons [of seen bal h] Cons [of "tx_id tx # seen" bal h]
      Cons [of "tx_id tx # seen" "bal + tx_delta_atomic tx"
        "h @ [chain_transaction_history_entry b tx (Some (bal + tx_delta_atomic tx))]"]
    by (cases "case types of None \<Rightarrow> True | Some ts \<Rightarrow> tx_type tx \<in> set ts")
      (auto simp: address_scan_step_def Let_def type_allowed_entry)
qed simp

lemma address_history_scan_types:
  "address_history_scan a types bs = filter (type_allowed types) (address_history_scan a None bs)"
  using address_scan_types [of a types "[]" 0 "[]" "block_txs bs"]
  by (simp add: address_history_scan_def split: prod.splits)

lemma index_invariant:
  assumes "\<And>st b itx. P st \<Longrightarrow> P (index_transaction b st itx)"
    and "\<And>st snaps. P st \<Longrightarrow> P (st\<lparr>ix_snapshots := snaps\<rparr>)" and "P st"
  shows "P (index_blocks os interval st bs)"
proof -
  have txs: "P st \<Longrightarrow> P (fold (\<lambda>itx s. index_transaction b s itx) itxs st)" for st b itxs
    by (induction itxs arbitrary: st) (simp_all add: assms(1))
  show ?thesis
    using assms(3)
    by (induction bs arbitrary: st)
      (simp_all add: Let_def index_block_transactions_def push_snapshot_def txs assms(2))
qed

lemma ix_address_history_dict_ok: "dict_ok (ix_address_history (index_blocks os interval index_init bs))"
proof (rule index_invariant)
  fix st :: index_state and b itx
  assume "dict_ok (ix_address_history st)"
  then show "dict_ok (ix_address_history (index_transaction b st itx))"
    by (cases itx; cases "tx_id (snd itx) \<in> set (ix_seen st)")
      (simp_all add: index_transaction_seen index_transaction_fields dpush_def Let_def)
qed (simp_all add: index_init_def)

text \<open>
  The indexed history of an address, filtered by type, is the history a scan of the chain
  finds; an address the index does not hold has none.
\<close>

lemma indexed_address_history:
  assumes "jget payload ''addressHistory'' =
    histories_json (ix_address_history (index_blocks os interval index_init bs))"
  shows "(case indexed_history payload ''addressHistory'' a of
      Some h \<Rightarrow> filter (type_allowed types) h
    | None \<Rightarrow> address_history_scan a types bs) = address_history_scan a types bs"
proof -
  let ?hist = "ix_address_history (index_blocks os interval index_init bs)"
  have "indexed_history payload ''addressHistory'' a = map_of ?hist a"
    using map_of_histories [OF ix_address_history_dict_ok, of os interval bs a]
    unfolding indexed_history_def assms histories_json_def
    by (simp add: jget_def dget_def split: option.split)
  then show ?thesis
    using ix_address_history_scan [of os interval bs a] address_history_scan_types [of a types bs]
    by (auto simp: dget_def split: option.splits)
qed

text \<open>
  Reading the balances and bonds of an index: addresses that are stable under normalisation
  and not empty are read back as they were written.
\<close>

definition readable_addresses :: "ChainBlock list \<Rightarrow> bool" where
  "readable_addresses bs \<longleftrightarrow> (\<forall>tx \<in> set (chain_txs bs).
     address_stable (normalize_address (tx_address tx)) \<and> normalize_address (tx_address tx) \<noteq> [])"

lemma indexed_balances:
  assumes "jget payload ''balancesAtomic'' =
      int_dict_json (dsorted (ix_balances (index_blocks os interval index_init bs)))"
    and "readable_addresses bs"
  shows "chain_index_balances payload = dsorted (chain_balance_index bs)"
proof -
  have "address_stable k \<and> k \<noteq> []" if k: "k \<in> fst ` set (chain_balance_index bs)" for k
  proof -
    obtain tx where "tx \<in> set (chain_txs bs)" "k = normalize_address (tx_address tx)"
      using subsetD [OF bal.replay_keys k [unfolded chain_balance_index_def]] by (auto simp: balance_entry_def)
    with assms(2) show ?thesis by (simp add: readable_addresses_def)
  qed
  moreover have "dict_ok (dsorted (chain_balance_index bs))"
    by (simp add: dict_ok_dsorted chain_balance_index_def bal.replay_dict_ok)
  ultimately show ?thesis
    by (simp add: chain_index_balances_def assms(1) ix_balances_replay int_mapping_dict)
qed

end
