(* ===== verification/ChainStore.thy ===== *)
theory ChainStore
  imports ChainIndex
begin

text \<open>
  The operations of \<open>src/src/cai_compute_chain/chain.py\<close> on the stored chain: loading and
  saving it, the index cache beside it, \<open>append_chain_block\<close>, \<open>ensure_chain_genesis\<close>,
  \<open>record_chain_transaction\<close>, \<open>export_chain_payload\<close> and the queries.

  The state is the content of the three files. A file is the JSON object its last write put
  there; the chain file also has the size and modification time that \<open>stat\<close> reports and the
  cache check compares. What an operation reads from outside is the record \<open>io\<close>: the clock,
  the random token, and what \<open>stat\<close> will report for a file written now.
\<close>

record io =
  io_now :: string
  io_token_hex :: string
  io_mtime_ns :: int
  io_file_size :: "obj \<Rightarrow> int"
  io_chain_file_name :: string

record chain_store =
  cs_chain :: "(obj \<times> int \<times> int) option"
  cs_index :: "obj option"
  cs_snapshots :: "obj option"

definition chain_file_stat_payload :: "io \<Rightarrow> chain_store \<Rightarrow> json" where
  "chain_file_stat_payload w s =
    (case cs_chain s of
       None \<Rightarrow> JObj [(''path'', JStr (io_chain_file_name w)), (''exists'', JBool False),
                     (''size'', JInt 0), (''mtimeNs'', JInt 0)]
     | Some (_, sz, mtime) \<Rightarrow>
         JObj [(''path'', JStr (io_chain_file_name w)), (''exists'', JBool True),
               (''size'', JInt sz), (''mtimeNs'', JInt mtime)])"

definition index_matches_current_chain_file ::
  "chain_env \<Rightarrow> WalletPolicy option \<Rightarrow> chain_store \<Rightarrow> obj \<Rightarrow> (py_error, bool) res" where
  "index_matches_current_chain_file E p s payload =
    rbind (py_int (py_or (jget payload ''schemaVersion'') (JInt 0))) (\<lambda>v.
    if v \<noteq> CHAIN_INDEX_SCHEMA_VERSION then Inr False else
    rbind (py_int (py_or (jget payload ''chainSchemaVersion'') (JInt 0))) (\<lambda>cv.
    if cv \<noteq> CHAIN_SCHEMA_VERSION then Inr False
    else if str_of_or (jget payload ''chainId'') [] \<noteq> active_chain_id E p then Inr False
    else case cs_chain s of None \<Rightarrow> Inr False
      | Some (_, sz, mtime) \<Rightarrow>
        (let recorded = obj_or_empty (jget payload ''chainFile'') in
         if \<not> truthy (jget recorded ''exists'') then Inr False else
         rbind (py_int (py_or (jget recorded ''size'') (JInt (- 1)))) (\<lambda>n.
         if n \<noteq> sz then Inr False else
         rbind (py_int (py_or (jget recorded ''mtimeNs'') (JInt (- 1)))) (\<lambda>m.
         Inr (m = mtime))))))"

definition load_blocks ::
  "chain_env \<Rightarrow> WalletPolicy option \<Rightarrow> io \<Rightarrow> (chain_store, py_error, ChainBlock list) sres" where
  "load_blocks E p w s = (list_chain_blocks E p (io_now w) (map_option fst (cs_chain s)), s)"

definition rebuild_chain_indexes ::
  "chain_env \<Rightarrow> WalletPolicy option \<Rightarrow> io \<Rightarrow> ChainBlock list option \<Rightarrow> (chain_store, py_error, obj) sres" where
  "rebuild_chain_indexes E p w blocks =
    sbind (case blocks of None \<Rightarrow> load_blocks E p w | Some bs \<Rightarrow> slift (Inr bs)) (\<lambda>resolved s.
    sbind (slift (build_chain_index_payloads E p (io_now w) (chain_file_stat_payload w s) resolved))
      (\<lambda>(index_payload, snapshots_payload) s.
        (Inr index_payload, s\<lparr>cs_snapshots := Some snapshots_payload, cs_index := Some index_payload\<rparr>)) s)"

definition load_chain_index :: "chain_store \<Rightarrow> obj" where
  "load_chain_index s = (case cs_index s of None \<Rightarrow> [] | Some d \<Rightarrow> d)"

text \<open>\<open>load_or_rebuild_chain_index(policy)\<close>\<close>

definition load_or_rebuild_chain_index ::
  "chain_env \<Rightarrow> WalletPolicy option \<Rightarrow> io \<Rightarrow> (chain_store, py_error, obj) sres" where
  "load_or_rebuild_chain_index E p w s =
    sbind (slift (index_matches_current_chain_file E p s (load_chain_index s))) (\<lambda>fresh s.
      if fresh then (Inr (load_chain_index s), s)
      else if cs_chain s = None then (Inr [], s)
      else sbind (load_blocks E p w) (\<lambda>blocks.
        if blocks = [] then slift (Inr []) else rebuild_chain_indexes E p w (Some blocks)) s) s"

definition save_chain_blocks ::
  "chain_env \<Rightarrow> WalletPolicy option \<Rightarrow> io \<Rightarrow> ChainBlock list \<Rightarrow> (chain_store, py_error, unit) sres" where
  "save_chain_blocks E p w bs s =
    (let doc = chain_document bs;
         s1 = s\<lparr>cs_chain := Some (doc, io_file_size w doc, io_mtime_ns w)\<rparr>
     in sbind (rebuild_chain_indexes E p w (Some bs)) (\<lambda>_. slift (Inr ())) s1)"

definition chain_transaction_ids ::
  "chain_env \<Rightarrow> WalletPolicy option \<Rightarrow> io \<Rightarrow> (chain_store, py_error, string list) sres" where
  "chain_transaction_ids E p w =
    sbind (load_blocks E p w) (\<lambda>bs. slift (Inr (map tx_id (chain_txs bs))))"

section \<open>Appending a block\<close>

definition chain_transaction_nonces :: "ChainBlock list \<Rightarrow> (string \<times> string) list" where
  "chain_transaction_nonces bs = List.map_filter nonce_key (chain_txs bs)"

text \<open>
  The loop of \<open>append_chain_block\<close> over the new transactions: an empty chain id is filled in,
  everything else that is wrong raises. \<open>used\<close> holds the nonces of the chain and of the
  transactions before.
\<close>

fun admit_transactions ::
  "chain_env \<Rightarrow> WalletPolicy option \<Rightarrow> (string \<times> string) list \<Rightarrow> ChainTransaction list
   \<Rightarrow> (py_error, ChainTransaction list) res" where
  "admit_transactions E p used [] = Inr []"
| "admit_transactions E p used (tx0 # txs) =
    (let tx = (if tx_chain_id tx0 = [] then tx0\<lparr>tx_chain_id := active_chain_id E p\<rparr> else tx0) in
     if tx_chain_id tx \<noteq> active_chain_id E p then Inl ValueError
     else if tx_schema_version tx \<noteq> CHAIN_SCHEMA_VERSION then Inl ValueError
     else rbind (verify_chain_transaction_signature E p tx) (\<lambda>sig.
       if sig \<noteq> None then Inl ValueError
       else case nonce_key tx of
           None \<Rightarrow> rbind (admit_transactions E p used txs) (\<lambda>rest. Inr (tx # rest))
         | Some k \<Rightarrow> if k \<in> set used then Inl ValueError
             else rbind (admit_transactions E p (k # used) txs) (\<lambda>rest. Inr (tx # rest))))"

definition next_block ::
  "chain_env \<Rightarrow> WalletPolicy option \<Rightarrow> io \<Rightarrow> json \<Rightarrow> ChainBlock list \<Rightarrow> ChainTransaction list \<Rightarrow> ChainBlock" where
  "next_block E p w validator_id blocks txs =
    (let active = active_chain_id E p;
         previous_hash = (if blocks = [] then GENESIS_PREVIOUS_HASH else blk_hash (last blocks));
         height = (if blocks = [] then 0 else blk_height (last blocks) + 1);
         block_id = take 32 (sha256_json E (JObj
           [(''height'', JInt height),
            (''chain_id'', JStr active),
            (''schema_version'', JInt CHAIN_SCHEMA_VERSION),
            (''previous_hash'', JStr previous_hash),
            (''tx_ids'', JList (map (\<lambda>tx. JStr (tx_id tx)) txs)),
            (''nonce'', JStr (io_token_hex w))]))
     in seal_block E blocks
          \<lparr>blk_id = block_id, blk_height = height, blk_created_at = io_now w,
           blk_previous_hash = previous_hash, blk_validator_id = validator_id,
           blk_transactions = txs, blk_hash = [], blk_chain_id = active,
           blk_schema_version = CHAIN_SCHEMA_VERSION,
           blk_tx_root = compute_transaction_root E txs, blk_state_root = [],
           blk_validator_public_key_b64 = None, blk_validator_signature_b64 = None\<rparr>)"

definition append_chain_block ::
  "chain_env \<Rightarrow> WalletPolicy option \<Rightarrow> io \<Rightarrow> json \<Rightarrow> ChainTransaction list
   \<Rightarrow> (chain_store, py_error, ChainBlock option) sres" where
  "append_chain_block E p w validator_id transactions =
    (if transactions = [] then slift (Inr None) else
     sbind (load_blocks E p w) (\<lambda>blocks.
     let existing = map tx_id (chain_txs blocks);
         fresh = filter (\<lambda>tx. tx_id tx \<notin> set existing) transactions
     in if fresh = [] then slift (Inr None) else
     sbind (slift (admit_transactions E p (chain_transaction_nonces blocks) fresh)) (\<lambda>new_transactions.
     let block = next_block E p w validator_id blocks new_transactions;
         blocks' = blocks @ [block]
     in if validate_chain_supply_invariant E p blocks' \<noteq> None then slift (Inl ValueError)
        else sbind (slift (validate_chain_blocks E p blocks')) (\<lambda>errors.
          if errors \<noteq> [] then slift (Inl ValueError)
          else sbind (save_chain_blocks E p w blocks') (\<lambda>_. slift (Inr (Some block)))))))"

section \<open>The genesis block on disk\<close>

definition is_stale_genesis_only_chain :: "ChainBlock list \<Rightarrow> ChainBlock \<Rightarrow> bool" where
  "is_stale_genesis_only_chain local_blocks expected =
    (case local_blocks of [g] \<Rightarrow>
       \<not> (blk_height g \<noteq> 0 \<or> blk_previous_hash g \<noteq> GENESIS_PREVIOUS_HASH
          \<or> blk_validator_id g \<noteq> JStr ''genesis'' \<or> blk_hash g = blk_hash expected)
       \<and> (\<forall>tx \<in> set (blk_transactions g). py_startswith (tx_type tx) ''genesis_'')
     | _ \<Rightarrow> False)"

definition ensure_chain_genesis ::
  "chain_env \<Rightarrow> WalletPolicy option \<Rightarrow> MoneyPolicy option \<Rightarrow> io \<Rightarrow> (chain_store, py_error, nat) sres" where
  "ensure_chain_genesis E p mp w =
    (let genesis_block = make_genesis_block E (money_policy_for_wallet_policy (getenv E) p mp);
         genesis_tx_ids = set (map tx_id (blk_transactions genesis_block))
     in sbind (load_blocks E p w) (\<lambda>existing.
       case existing of
         [] \<Rightarrow> sbind (save_chain_blocks E p w [genesis_block])
                 (\<lambda>_. slift (Inr (length (blk_transactions genesis_block))))
       | g # rest \<Rightarrow>
         if rest = [] \<and> is_stale_genesis_only_chain existing genesis_block
         then sbind (save_chain_blocks E p w [genesis_block]) (\<lambda>_. slift (Inr 0))
         else if rest = [] \<and> blk_height g = 0 \<and> blk_previous_hash g = GENESIS_PREVIOUS_HASH
            \<and> blk_validator_id g = JStr ''genesis''
            \<and> set (map tx_id (blk_transactions g)) = genesis_tx_ids
         then (if blk_hash g \<noteq> blk_hash genesis_block
               then sbind (save_chain_blocks E p w [genesis_block]) (\<lambda>_. slift (Inr 0))
               else slift (Inr 0))
         else if blk_hash g \<noteq> blk_hash genesis_block then slift (Inl ValueError)
         else sbind (chain_transaction_ids E p w) (\<lambda>existing_ids.
           sbind (append_chain_block E p w (JStr ''genesis'')
                (filter (\<lambda>tx. tx_id tx \<notin> set existing_ids) (blk_transactions genesis_block)))
             (\<lambda>block. slift (Inr (case block of None \<Rightarrow> 0 | Some b \<Rightarrow> length (blk_transactions b)))))))"

definition record_chain_transaction ::
  "chain_env \<Rightarrow> WalletPolicy option \<Rightarrow> io \<Rightarrow> json \<Rightarrow> ChainTransaction \<Rightarrow> (chain_store, py_error, bool) sres" where
  "record_chain_transaction E p w validator_id tx =
    sbind (if py_startswith (tx_type tx) ''genesis_'' then slift (Inr 0)
           else ensure_chain_genesis E p None w) (\<lambda>_.
    sbind (chain_transaction_ids E p w) (\<lambda>ids.
    if tx_id tx \<in> set ids then slift (Inr False)
    else sbind (append_chain_block E p w validator_id [tx]) (\<lambda>b. slift (Inr (b \<noteq> None)))))"

definition export_chain_payload ::
  "chain_env \<Rightarrow> WalletPolicy option \<Rightarrow> io \<Rightarrow> (chain_store, py_error, obj) sres" where
  "export_chain_payload E p w =
    (let mp = money_policy_for_wallet_policy (getenv E) p None;
         net = JStr (chain_network_value (mp_chain_network mp))
     in sbind (ensure_chain_genesis E p (Some mp) w) (\<lambda>_.
        sbind (load_blocks E p w) (\<lambda>blocks.
        let genesis_hash = JStr (if blocks = [] then blk_hash (make_genesis_block E mp) else blk_hash (hd blocks));
            tip = last_opt blocks
        in slift (Inr
          [(''exported_at'', JStr (io_now w)),
           (''network'', net),
           (''chain_id'', net),
           (''genesis_hash'', genesis_hash),
           (''schema_version'', JInt CHAIN_SCHEMA_VERSION),
           (''chain'', JObj
             [(''blocks'', JList (map (\<lambda>b. JObj (block_asdict b)) blocks)),
              (''block_count'', JInt (int (length blocks))),
              (''transaction_count'', JInt (int (length (chain_txs blocks)))),
              (''tip_hash'', tip_field (\<lambda>b. JStr (blk_hash b)) tip),
              (''tip_tx_root'', tip_field (\<lambda>b. JStr (blk_tx_root b)) tip),
              (''tip_state_root'', tip_field (\<lambda>b. JStr (blk_state_root b)) tip),
              (''network'', net),
              (''chain_id'', net),
              (''genesis_hash'', genesis_hash),
              (''schema_version'', JInt CHAIN_SCHEMA_VERSION)])]))))"

section \<open>Queries\<close>

text \<open>\<open>chain_balance_index(policy)\<close> and \<open>validator_locked_bond_index(policy)\<close>: from the index cache
  when there is one, by replaying the chain otherwise.\<close>

definition stored_balance_index ::
  "chain_env \<Rightarrow> WalletPolicy option \<Rightarrow> io \<Rightarrow> (chain_store, py_error, int dict) sres" where
  "stored_balance_index E p w =
    sbind (load_or_rebuild_chain_index E p w) (\<lambda>payload.
    if payload \<noteq> [] then slift (Inr (chain_index_balances payload))
    else sbind (load_blocks E p w) (\<lambda>bs. slift (Inr (chain_balance_index bs))))"

definition stored_locked_bond_index ::
  "chain_env \<Rightarrow> WalletPolicy option \<Rightarrow> io \<Rightarrow> (chain_store, py_error, int dict) sres" where
  "stored_locked_bond_index E p w =
    sbind (load_or_rebuild_chain_index E p w) (\<lambda>payload.
    if payload \<noteq> [] then slift (Inr (chain_index_validator_locked_bonds payload))
    else sbind (load_blocks E p w) (\<lambda>bs. slift (Inr (validator_locked_bond_index bs))))"

definition chain_balance_atomic ::
  "chain_env \<Rightarrow> WalletPolicy option \<Rightarrow> io \<Rightarrow> string \<Rightarrow> (chain_store, py_error, int) sres" where
  "chain_balance_atomic E p w address =
    sbind (stored_balance_index E p w) (\<lambda>d. slift (Inr (dget d (normalize_address address) 0)))"

definition chain_address_history ::
  "chain_env \<Rightarrow> WalletPolicy option \<Rightarrow> io \<Rightarrow> string \<Rightarrow> string list option \<Rightarrow> int option \<Rightarrow> bool
   \<Rightarrow> (chain_store, py_error, obj list) sres" where
  "chain_address_history E p w address tx_types limit newest_first =
    (let a = normalize_address address in
     sbind (load_or_rebuild_chain_index E p w) (\<lambda>payload.
     case indexed_history payload ''addressHistory'' a of
       Some h \<Rightarrow> slift (Inr (present_history newest_first limit (filter (type_allowed tx_types) h)))
     | None \<Rightarrow> sbind (load_blocks E p w) (\<lambda>bs.
         slift (Inr (present_history newest_first limit (address_history_scan a tx_types bs))))))"

definition chain_settlement_history ::
  "chain_env \<Rightarrow> WalletPolicy option \<Rightarrow> io \<Rightarrow> string \<Rightarrow> int option \<Rightarrow> bool
   \<Rightarrow> (chain_store, py_error, obj list) sres" where
  "chain_settlement_history E p w settlement_id limit newest_first =
    (let sid = py_strip settlement_id in
     sbind (load_or_rebuild_chain_index E p w) (\<lambda>payload.
     case indexed_history payload ''settlementHistory'' sid of
       Some h \<Rightarrow> slift (Inr (present_history newest_first limit h))
     | None \<Rightarrow> sbind (load_blocks E p w) (\<lambda>bs.
         slift (Inr (present_history newest_first limit (settlement_history_scan sid bs))))))"

definition chain_is_initialized ::
  "chain_env \<Rightarrow> WalletPolicy option \<Rightarrow> io \<Rightarrow> (chain_store, py_error, bool) sres" where
  "chain_is_initialized E p w =
    sbind (load_or_rebuild_chain_index E p w) (\<lambda>payload.
    sbind (slift (py_int (py_or (jget payload ''blockCount'') (JInt 0)))) (\<lambda>n. slift (Inr (n > 0))))"

definition wallet_balance_source ::
  "chain_env \<Rightarrow> WalletPolicy option \<Rightarrow> io \<Rightarrow> (chain_store, py_error, string) sres" where
  "wallet_balance_source E p w =
    sbind (chain_is_initialized E p w) (\<lambda>b. slift (Inr (if b then ''chain'' else ''local'')))"

definition has_chain_activity_for_address ::
  "chain_env \<Rightarrow> WalletPolicy option \<Rightarrow> io \<Rightarrow> string \<Rightarrow> (chain_store, py_error, bool) sres" where
  "has_chain_activity_for_address E p w address =
    sbind (load_blocks E p w) (\<lambda>bs. slift (Inr
      (list_ex (\<lambda>tx. normalize_address (tx_address tx) = normalize_address address) (chain_txs bs))))"

text \<open>The wallet enters through its address and its local balance; \<open>None\<close> is no wallet.\<close>

definition wallet_chain_balance_or_local_atomic ::
  "chain_env \<Rightarrow> WalletPolicy option \<Rightarrow> io \<Rightarrow> (string \<times> int) option \<Rightarrow> (chain_store, py_error, int) sres" where
  "wallet_chain_balance_or_local_atomic E p w wallet =
    (case wallet of None \<Rightarrow> slift (Inr 0)
     | Some (address, spendable) \<Rightarrow>
       sbind (load_or_rebuild_chain_index E p w) (\<lambda>payload.
       sbind (slift (py_int (py_or (jget payload ''blockCount'') (JInt 0)))) (\<lambda>n.
       if n > 0 then slift (Inr (dget (chain_index_balances payload) (normalize_address address) 0))
       else slift (Inr spendable))))"

end
