(* ===== verification/ChainStoreProofs.thy ===== *)
theory ChainStoreProofs
  imports ChainStore
begin

text \<open>
  The stored chain as an abstract object: a list of blocks. \<open>store_ok E p s bs\<close> says that the
  files \<open>s\<close> hold the blocks \<open>bs\<close> and that the index cache, where the code would trust it, was
  built from them. Every operation of \<open>ChainStore\<close> is described by what it does to \<open>bs\<close>.
\<close>

definition stored_chain :: "chain_store \<Rightarrow> ChainBlock list \<Rightarrow> bool" where
  "stored_chain s bs \<longleftrightarrow>
    (case cs_chain s of None \<Rightarrow> bs = []
     | Some (doc, _, _) \<Rightarrow> doc = chain_document bs \<and> sorted (map block_sort_key bs)
         \<and> (\<forall>b \<in> set bs. block_storable b))"

definition index_of :: "chain_env \<Rightarrow> ChainBlock list \<Rightarrow> obj \<Rightarrow> bool" where
  "index_of E bs payload \<longleftrightarrow>
    (let st = index_blocks (getenv E) (chain_snapshot_interval (getenv E)) index_init bs in
     jget payload ''balancesAtomic'' = int_dict_json (dsorted (ix_balances st))
     \<and> jget payload ''validatorLockedBondAtomic'' = int_dict_json (dsorted (ix_bonds st))
     \<and> jget payload ''addressHistory'' = histories_json (ix_address_history st)
     \<and> jget payload ''blockCount'' = JInt (int (length bs)))"

definition cache_ok :: "chain_env \<Rightarrow> WalletPolicy option \<Rightarrow> chain_store \<Rightarrow> ChainBlock list \<Rightarrow> bool" where
  "cache_ok E p s bs \<longleftrightarrow>
    (case index_matches_current_chain_file E p s (load_chain_index s) of
       Inl _ \<Rightarrow> False | Inr True \<Rightarrow> index_of E bs (load_chain_index s) | Inr False \<Rightarrow> True)"

definition store_ok :: "chain_env \<Rightarrow> WalletPolicy option \<Rightarrow> chain_store \<Rightarrow> ChainBlock list \<Rightarrow> bool" where
  "store_ok E p s bs \<longleftrightarrow> stored_chain s bs \<and> cache_ok E p s bs"

lemma load_blocks_stored [simp]: "stored_chain s bs \<Longrightarrow> load_blocks E p w s = (Inr bs, s)"
  using list_chain_blocks_document [of bs E p "io_now w"]
  by (auto simp: load_blocks_def stored_chain_def list_chain_blocks_def order_blocks_sorted split: option.splits)

lemma build_index_of:
  assumes "build_chain_index_payloads E p now stat bs = Inr (idx, snaps)" "sorted (map block_sort_key bs)"
  shows "index_of E bs idx" "idx \<noteq> []" "jget idx ''schemaVersion'' = JInt CHAIN_INDEX_SCHEMA_VERSION"
    "jget idx ''chainSchemaVersion'' = JInt CHAIN_SCHEMA_VERSION" "jget idx ''chainId'' = JStr (active_chain_id E p)"
    "jget idx ''chainFile'' = stat"
  using assms
  by (auto simp: build_chain_index_payloads_def Let_def rbind_Inr_iff index_of_def order_blocks_sorted)

lemma build_index_total:
  "validate_chain_blocks E p bs = Inr errors \<Longrightarrow> sorted (map block_sort_key bs) \<Longrightarrow>
   \<exists>idx snaps. build_chain_index_payloads E p now stat bs = Inr (idx, snaps)"
  by (auto simp: build_chain_index_payloads_def Let_def order_blocks_sorted)

section \<open>Saving\<close>

lemma index_matches_built:
  assumes "build_chain_index_payloads E p now (chain_file_stat_payload w s) bs = Inr (idx, snaps)"
    and "sorted (map block_sort_key bs)"
  shows "\<exists>fresh. index_matches_current_chain_file E p (s\<lparr>cs_snapshots := x, cs_index := y\<rparr>) idx = Inr fresh"
proof (cases "cs_chain s")
  case None
  then show ?thesis
    by (auto simp: index_matches_current_chain_file_def build_index_of [OF assms]
        CHAIN_INDEX_SCHEMA_VERSION_def CHAIN_SCHEMA_VERSION_def)
next
  case (Some c)
  then show ?thesis
    by (cases c) (auto simp: index_matches_current_chain_file_def build_index_of [OF assms] Let_def
        CHAIN_INDEX_SCHEMA_VERSION_def CHAIN_SCHEMA_VERSION_def chain_file_stat_payload_def
        obj_or_empty_def jget_Cons py_or_def)
qed

lemma rebuild_stored:
  assumes "stored_chain s bs" "sorted (map block_sort_key bs)" "validate_chain_blocks E p bs = Inr errors"
  shows "\<exists>idx s'. rebuild_chain_indexes E p w (Some bs) s = (Inr idx, s') \<and> store_ok E p s' bs
    \<and> index_of E bs idx \<and> idx \<noteq> []"
proof -
  obtain idx snaps where built:
    "build_chain_index_payloads E p (io_now w) (chain_file_stat_payload w s) bs = Inr (idx, snaps)"
    using build_index_total [OF assms(3,2)] by blast
  let ?s = "s\<lparr>cs_snapshots := Some snaps, cs_index := Some idx\<rparr>"
  have "rebuild_chain_indexes E p w (Some bs) s = (Inr idx, ?s)"
    by (simp add: rebuild_chain_indexes_def built sbind_def slift_def)
  moreover have "stored_chain ?s bs"
    using assms(1) by (simp add: stored_chain_def)
  moreover have "cache_ok E p ?s bs"
    using index_matches_built [OF built assms(2), where x = "Some snaps" and y = "Some idx"] build_index_of(1) [OF built assms(2)]
    by (auto simp: cache_ok_def load_chain_index_def split: sum.split bool.split)
  ultimately show ?thesis
    using build_index_of [OF built assms(2)] by (auto simp: store_ok_def)
qed

lemma save_stored:
  assumes "sorted (map block_sort_key bs)" "\<forall>b \<in> set bs. block_storable b"
    "validate_chain_blocks E p bs = Inr errors"
  shows "\<exists>s'. save_chain_blocks E p w bs s = (Inr (), s') \<and> store_ok E p s' bs"
proof -
  let ?s = "s\<lparr>cs_chain := Some (chain_document bs, io_file_size w (chain_document bs), io_mtime_ns w)\<rparr>"
  have "stored_chain ?s bs"
    using assms by (simp add: stored_chain_def)
  from rebuild_stored [OF this assms(1,3), of w] obtain idx s' where
    "rebuild_chain_indexes E p w (Some bs) ?s = (Inr idx, s')" "store_ok E p s' bs" by blast
  then show ?thesis
    by (simp add: save_chain_blocks_def Let_def)
qed

section \<open>Appending\<close>

lemma seal_block_hash_pos: "block_ok E p pre b \<Longrightarrow> blk_hash b \<noteq> [] \<and> blk_tx_root b \<noteq> [] \<and> blk_state_root b \<noteq> []"
  by (auto simp: block_ok_def py_strip_def)

lemma valid_chain_sorted:
  assumes "valid_chain E p bs" "sorted (map block_sort_key bs)" "bs \<noteq> []"
  shows "extends_ok E p [] bs" "ledger_ok E p bs"
  using assms by (auto simp: valid_chain_def order_blocks_sorted)

lemma next_block_fields [simp]:
  "blk_height (next_block E p w vid bs txs) = (if bs = [] then 0 else blk_height (last bs) + 1)"
  "blk_previous_hash (next_block E p w vid bs txs) =
     (if bs = [] then GENESIS_PREVIOUS_HASH else blk_hash (last bs))"
  "blk_transactions (next_block E p w vid bs txs) = txs"
  "blk_created_at (next_block E p w vid bs txs) = io_now w"
  "blk_chain_id (next_block E p w vid bs txs) = active_chain_id E p"
  "blk_schema_version (next_block E p w vid bs txs) = CHAIN_SCHEMA_VERSION"
  "blk_validator_public_key_b64 (next_block E p w vid bs txs) = None"
  "blk_validator_signature_b64 (next_block E p w vid bs txs) = None"
  "blk_validator_id (next_block E p w vid bs txs) = vid"
  by (simp_all add: next_block_def Let_def)

lemma sorted_snoc_block:
  assumes "sorted (map block_sort_key bs)" "bs \<noteq> [] \<Longrightarrow> blk_height b = blk_height (last bs) + 1"
  shows "sorted (map block_sort_key (bs @ [b]))"
proof (cases "bs = []")
  case False
  have "block_sort_key c \<le> block_sort_key b" if "c \<in> set bs" for c
  proof -
    have "block_sort_key c \<le> block_sort_key (last bs)"
      using sorted_le_last [OF assms(1), of "block_sort_key c"] that False by (simp add: last_map)
    also have "\<dots> \<le> block_sort_key b"
      using assms(2) [OF False] by (simp add: block_sort_key_def)
    finally show ?thesis .
  qed
  with assms(1) show ?thesis by (auto simp: sorted_append)
qed simp

text \<open>What \<open>append_chain_block\<close> makes of a transaction: the same one, on the active chain.\<close>

definition on_active_chain :: "chain_env \<Rightarrow> WalletPolicy option \<Rightarrow> ChainTransaction \<Rightarrow> ChainTransaction" where
  "on_active_chain E p tx = (if tx_chain_id tx = [] then tx\<lparr>tx_chain_id := active_chain_id E p\<rparr> else tx)"

lemma admit_transactions_result:
  "admit_transactions E p used txs = Inr txs' \<Longrightarrow> txs' = map (on_active_chain E p) txs"
  by (induction txs arbitrary: used txs')
    (auto simp: Let_def on_active_chain_def rbind_Inr_iff split: if_splits option.splits)

lemma admit_transactions_nonces:
  "admit_transactions E p used txs = Inr txs' \<Longrightarrow>
   distinct (tx_nonces txs') \<and> set (tx_nonces txs') \<inter> set used = {}"
  by (induction txs arbitrary: used txs')
    (fastforce simp: Let_def rbind_Inr_iff split: if_splits option.splits)+

definition fresh_transactions :: "ChainBlock list \<Rightarrow> ChainTransaction list \<Rightarrow> ChainTransaction list" where
  "fresh_transactions bs txs = filter (\<lambda>tx. tx_id tx \<notin> tx_id ` set (chain_txs bs)) txs"

lemma append_accepted:
  assumes stored: "stored_chain s bs" and now: "io_now w \<noteq> []"
    and txs: "\<forall>tx \<in> set txs. tx_storable (on_active_chain E p tx)"
    and app: "admit_transactions E p (chain_transaction_nonces bs) (fresh_transactions bs txs) = Inr new"
    and b: "b = next_block E p w vid bs new"
    and valid: "validate_chain_blocks E p (bs @ [b]) = Inr []"
  shows "sorted (map block_sort_key (bs @ [b])) \<and> (\<forall>c \<in> set (bs @ [b]). block_storable c)
    \<and> valid_chain E p (bs @ [b])"
proof -
  have sorted: "sorted (map block_sort_key (bs @ [b]))"
    using stored by (intro sorted_snoc_block) (auto simp: b stored_chain_def split: option.splits)
  have vc: "valid_chain E p (bs @ [b])"
    using valid by (simp add: validate_chain_blocks_valid)
  then have bok: "block_ok E p bs b"
    using valid_chain_sorted(1) [OF _ sorted] by (simp add: extends_ok_append)
  have "tx_storable tx" if "tx \<in> set new" for tx
    using that txs by (auto simp: admit_transactions_result [OF app] fresh_transactions_def)
  moreover have "blk_previous_hash b \<noteq> []"
    using stored by (auto simp: b stored_chain_def GENESIS_PREVIOUS_HASH_def block_storable_def split: option.splits)
  ultimately have "block_storable b"
    using seal_block_hash_pos [OF bok] now
    by (simp add: block_storable_def b CHAIN_SCHEMA_VERSION_def)
  with sorted vc stored show ?thesis
    by (auto simp: stored_chain_def split: option.splits)
qed

lemma append_chain_block_cases:
  assumes stored: "stored_chain s bs" and now: "io_now w \<noteq> []"
    and txs: "\<forall>tx \<in> set txs. tx_storable (on_active_chain E p tx)"
    and app: "append_chain_block E p w vid txs s = (r, s')"
  obtains (raised) e where "r = Inl e" "s' = s"
  | (known) "r = Inr None" "s' = s" "fresh_transactions bs txs = []"
  | (appended) b where "r = Inr (Some b)" "store_ok E p s' (bs @ [b])" "valid_chain E p (bs @ [b])"
      "blk_transactions b = map (on_active_chain E p) (fresh_transactions bs txs)"
      "fresh_transactions bs txs \<noteq> []"
proof -
  let ?fresh = "fresh_transactions bs txs"
  consider "?fresh = []" | (raise) e where "?fresh \<noteq> []"
      "admit_transactions E p (chain_transaction_nonces bs) ?fresh = Inl e"
    | (go) new where "?fresh \<noteq> []" "admit_transactions E p (chain_transaction_nonces bs) ?fresh = Inr new"
    by (cases "admit_transactions E p (chain_transaction_nonces bs) ?fresh") auto
  then show thesis
  proof cases
    case 1
    then have "r = Inr None" "s' = s"
      using app stored
      by (auto simp: append_chain_block_def sbind_def slift_def fresh_transactions_def split: if_splits)
    then show thesis by (rule known) (rule 1)
  next
    case raise
    then have "r = Inl e" "s' = s"
      using app stored
      by (auto simp: append_chain_block_def sbind_def slift_def fresh_transactions_def split: if_splits)
    then show thesis by (rule raised)
  next
    case go
    let ?b = "next_block E p w vid bs new"
    have step: "append_chain_block E p w vid txs s =
      (if validate_chain_supply_invariant E p (bs @ [?b]) \<noteq> None then slift (Inl ValueError)
       else sbind (slift (validate_chain_blocks E p (bs @ [?b]))) (\<lambda>errors.
          if errors \<noteq> [] then slift (Inl ValueError)
          else sbind (save_chain_blocks E p w (bs @ [?b])) (\<lambda>_. slift (Inr (Some ?b))))) s"
      using go stored
      by (auto simp: append_chain_block_def sbind_def slift_def fresh_transactions_def Let_def)
    show thesis
    proof (cases "validate_chain_supply_invariant E p (bs @ [?b]) = None
        \<and> validate_chain_blocks E p (bs @ [?b]) = Inr []")
      case True
      from append_accepted [OF stored now txs go(2) refl] True
      have ok: "sorted (map block_sort_key (bs @ [?b]))" "\<forall>c \<in> set (bs @ [?b]). block_storable c"
        "valid_chain E p (bs @ [?b])" by blast+
      from save_stored [OF ok(1,2)] True obtain s1 where
        s1: "save_chain_blocks E p w (bs @ [?b]) s = (Inr (), s1)" "store_ok E p s1 (bs @ [?b])"
        by blast
      have "(r, s') = (Inr (Some ?b), s1)"
        using app step True s1(1) by (simp add: sbind_def slift_def)
      then show thesis
        using s1(2) ok(3) admit_transactions_result [OF go(2)] go(1) by (intro appended [of ?b]) auto
    next
      case False
      then have "\<exists>e. (r, s') = (Inl e, s)"
        using app step
        by (cases "validate_chain_blocks E p (bs @ [?b])") (auto simp: slift_def split: if_splits)
      then show thesis using raised by blast
    qed
  qed
qed

text \<open>
  When a block of new transactions keeps the ledger: the deltas cancel, and no account and no
  locked bond falls below zero.
\<close>

lemma distinct_ids_stripped: "distinct (stripped_ids txs) \<Longrightarrow> distinct (map tx_id txs)"
  by (auto simp: stripped_ids_def distinct_map comp_def intro: inj_on_imageI2 [of py_strip])

lemma nonneg_entries:
  assumes "dict_ok d"
  shows "(\<forall>(k, v) \<in> set d. 0 \<le> v) \<longleftrightarrow> (\<forall>k. 0 \<le> dget d k (0::int))"
proof
  assume l: "\<forall>(k, v) \<in> set d. 0 \<le> v"
  show "\<forall>k. 0 \<le> dget d k 0"
  proof
    fix k
    show "0 \<le> dget d k 0"
      using l by (cases "map_of d k") (auto simp: dget_def dest: map_of_SomeD)
  qed
next
  assume "\<forall>k. 0 \<le> dget d k 0"
  then show "\<forall>(k, v) \<in> set d. 0 \<le> v"
    using dget_in_set [OF assms] by (metis case_prodI2)
qed

lemma ledger_extend:
  assumes "ledger_ok E p bs" and dist: "distinct (map tx_id (chain_txs bs @ blk_transactions b))"
    and zero: "sum_list (map tx_delta_atomic (blk_transactions b)) = 0"
    and bals: "\<And>a. 0 \<le> dget (chain_balance_index bs) a 0
        + sum_list (map (entry_delta_at balance_entry a) (blk_transactions b))"
    and bonds: "\<And>v. 0 \<le> dget (validator_locked_bond_index bs) v 0
        + sum_list (map (entry_delta_at bond_entry v) (blk_transactions b))"
  shows "ledger_ok E p (bs @ [b])"
proof -
  have dist': "distinct (map tx_id (chain_txs bs))" using dist by simp
  have "dsum (chain_balance_index (bs @ [b])) = dsum (chain_balance_index bs)"
    using bal.replay_total_distinct [OF dist] bal.replay_total_distinct [OF dist'] zero
    by (simp add: chain_balance_index_def)
  moreover have "dget (chain_balance_index (bs @ [b])) a 0 = dget (chain_balance_index bs) a 0
      + sum_list (map (entry_delta_at balance_entry a) (blk_transactions b))" for a
    using bal.replay_at_distinct [OF dist] bal.replay_at_distinct [OF dist']
    by (simp add: chain_balance_index_def)
  moreover have "dget (validator_locked_bond_index (bs @ [b])) v 0 = dget (validator_locked_bond_index bs) v 0
      + sum_list (map (entry_delta_at bond_entry v) (blk_transactions b))" for v
    using bond.replay_at_distinct [OF dist] bond.replay_at_distinct [OF dist']
    by (simp add: validator_locked_bond_index_def)
  moreover have "dict_ok (chain_balance_index cs)" "dict_ok (validator_locked_bond_index cs)" for cs
    by (simp_all add: chain_balance_index_def validator_locked_bond_index_def bal.replay_dict_ok bond.replay_dict_ok)
  ultimately show ?thesis
    using assms(1) bals bonds by (simp add: ledger_ok_def nonneg_entries)
qed

text \<open>The transactions a block needs to be accepted on top of \<open>bs\<close>.\<close>

definition acceptable_transactions ::
  "chain_env \<Rightarrow> WalletPolicy option \<Rightarrow> ChainBlock list \<Rightarrow> ChainTransaction list \<Rightarrow> bool" where
  "acceptable_transactions E p bs txs \<longleftrightarrow> txs \<noteq> []
     \<and> (\<forall>tx \<in> set txs. tx_ok E p tx \<and> tx_storable tx)
     \<and> [] \<notin> set (stripped_ids txs) \<and> distinct (stripped_ids (chain_txs bs @ txs))
     \<and> distinct (tx_nonces (chain_txs bs @ txs))
     \<and> sum_list (map tx_delta_atomic txs) = 0
     \<and> (\<forall>a \<in> (\<lambda>tx. normalize_address (tx_address tx)) ` set txs.
          0 \<le> dget (chain_balance_index bs) a 0 + sum_list (map (entry_delta_at balance_entry a) txs))
     \<and> (\<forall>v. 0 \<le> dget (validator_locked_bond_index bs) v 0 + sum_list (map (entry_delta_at bond_entry v) txs))"

lemma chain_transaction_nonces_eq: "chain_transaction_nonces bs = tx_nonces (chain_txs bs)"
  by (simp add: chain_transaction_nonces_def tx_nonces_def)

lemma admit_transactions_ok:
  assumes "\<forall>tx \<in> set txs. tx_ok E p tx" "distinct (tx_nonces txs)" "set (tx_nonces txs) \<inter> set used = {}"
  shows "admit_transactions E p used txs = Inr txs"
  using assms
  by (induction txs arbitrary: used) (auto simp: tx_ok_def Let_def split: option.splits)

section \<open>The genesis chain\<close>

text \<open>What \<open>hashlib\<close> promises of a SHA-256 digest in hexadecimal.\<close>

definition hex_digest :: "string \<Rightarrow> bool" where
  "hex_digest d \<longleftrightarrow> length d = 64
     \<and> (\<forall>c \<in> set d. let n = of_char c :: nat in (48 \<le> n \<and> n \<le> 57) \<or> (97 \<le> n \<and> n \<le> 102))"

definition sha256_ok :: "('a) crypto_scheme \<Rightarrow> bool" where
  "sha256_ok E \<longleftrightarrow> (\<forall>t. hex_digest (sha256_hex E t))"

lemma hex_digest_take_strip:
  assumes "hex_digest d"
  shows "py_strip (take n d) = take n d"
proof -
  have "\<not> py_isspace c" if "c \<in> set (take n d)" for c
    using assms in_set_takeD [OF that] by (auto simp: hex_digest_def py_isspace_def Let_def)
  then show ?thesis by (rule py_strip_clean)
qed

lemma hex_digest_strip: "hex_digest d \<Longrightarrow> py_strip d \<noteq> []"
  using hex_digest_take_strip [of d 64] by (auto simp: hex_digest_def)

lemma sha256_json_strip: "sha256_ok E \<Longrightarrow> py_strip (sha256_json E j) \<noteq> []"
  by (simp add: sha256_ok_def sha256_json_def hex_digest_strip)

lemma genesis_ids:
  assumes "sha256_ok E" "tx \<in> set (genesis_chain_transactions E mp)"
  shows "py_strip (tx_id tx) = tx_id tx" "tx_id tx \<noteq> []"
proof -
  obtain t where "tx_id tx = take 32 (sha256_hex E t)"
    using assms(2)
    by (auto simp: genesis_chain_transactions_def make_chain_transaction_def genesis_args_def tx_args_def
        opt_or_def deterministic_tx_id_def sha256_json_def Let_def)
  moreover have "hex_digest (sha256_hex E t)"
    using assms(1) by (simp add: sha256_ok_def)
  ultimately show "py_strip (tx_id tx) = tx_id tx" "tx_id tx \<noteq> []"
    by (auto simp: hex_digest_take_strip hex_digest_def)
qed

lemma genesis_transactions_nonempty [simp]: "genesis_chain_transactions E mp \<noteq> []"
  by (simp add: genesis_chain_transactions_def Let_def)

lemma genesis_bonds: "validator_locked_bond_index [make_genesis_block E mp] = []"
proof -
  have none: "bond_entry tx = None" if "tx \<in> set (genesis_chain_transactions E mp)" for tx
    using that
    by (auto simp: genesis_chain_transactions_def make_chain_transaction_def genesis_args_def tx_args_def
        bond_entry_def Let_def)
  have "fst ` set (replay_bonds (genesis_chain_transactions E mp)) \<subseteq> {}"
    using bond.replay_keys [of "genesis_chain_transactions E mp"] none by auto
  then show ?thesis by (simp add: validator_locked_bond_index_def)
qed

lemma bal_entry_delta_at: "entry_delta_at balance_entry k t =
    (if normalize_address (tx_address t) = k then tx_delta_atomic t else 0)"
  by (simp add: entry_delta_at_def balance_entry_def)

lemma genesis_ledger:
  assumes "distinct (map tx_id (genesis_chain_transactions E (MoneyPolicy_for os n)))"
  shows "dsum (chain_balance_index [make_genesis_block E (MoneyPolicy_for os n)]) = 10 ^ 17"
    and "\<forall>(a, v) \<in> set (chain_balance_index [make_genesis_block E (MoneyPolicy_for os n)]). 0 \<le> v"
proof -
  let ?txs = "genesis_chain_transactions E (MoneyPolicy_for os n)"
  let ?d = "chain_balance_index [make_genesis_block E (MoneyPolicy_for os n)]"
  have d: "?d = replay_balances ?txs"
    by (simp add: chain_balance_index_def)
  show "dsum ?d = 10 ^ 17"
    using bal.replay_total_distinct [OF assms] by (simp add: d genesis_deltas)
  have pos: "0 \<le> tx_delta_atomic tx" if "tx \<in> set ?txs" for tx
  proof -
    have "tx_delta_atomic tx \<in> set (map tx_delta_atomic ?txs)" using that by simp
    then show ?thesis by (auto simp: genesis_deltas)
  qed
  have "0 \<le> v" if "(a, v) \<in> set ?d" for a v
  proof -
    have "v = dget ?d a 0"
      using that by (simp add: dget_in_set d bal.replay_dict_ok)
    also have "\<dots> = sum_list (map (entry_delta_at balance_entry a) ?txs)"
      using bal.replay_at_distinct [OF assms] by (simp add: d)
    also have "\<dots> \<ge> 0"
      by (rule sum_list_nonneg) (auto simp: bal_entry_delta_at pos)
    finally show ?thesis .
  qed
  then show "\<forall>(a, v) \<in> set ?d. 0 \<le> v" by auto
qed

text \<open>The two facts about the hash function on which the genesis chain depends.\<close>

definition genesis_env_ok :: "chain_env \<Rightarrow> WalletPolicy option \<Rightarrow> bool" where
  "genesis_env_ok E p \<longleftrightarrow> sha256_ok E \<and>
     distinct (map tx_id (genesis_chain_transactions E (money_policy_for_wallet_policy (getenv E) p None)))"

abbreviation genesis_of :: "chain_env \<Rightarrow> WalletPolicy option \<Rightarrow> ChainBlock" where
  "genesis_of E p \<equiv> make_genesis_block E (money_policy_for_wallet_policy (getenv E) p None)"

lemma genesis_tx_ok:
  assumes "tx \<in> set (genesis_chain_transactions E (money_policy_for_wallet_policy (getenv E) p None))"
  shows "tx_ok E p tx"
proof -
  note f = genesis_transactions_fields [OF assms]
  have "tx_type tx \<noteq> ''wallet_transfer_debit''"
    using f(5) by (auto simp: py_startswith_def)
  then show ?thesis
    using f by (simp add: tx_ok_def verify_chain_transaction_signature_def Let_def
        signable_wallet_transaction_types_def)
qed

lemma genesis_nonces: "tx_nonces (genesis_chain_transactions E mp) = []"
proof -
  have "tx_nonces txs = []" if "\<forall>tx \<in> set txs. tx_nonce tx = None" for txs
    using that by (induction txs) (simp_all add: nonce_key_def)
  then show ?thesis using genesis_transactions_fields(3) by blast
qed

lemma genesis_valid:
  assumes "genesis_env_ok E p"
  shows "valid_chain E p [genesis_of E p]"
proof -
  let ?mp = "money_policy_for_wallet_policy (getenv E) p None"
  let ?txs = "genesis_chain_transactions E ?mp"
  have sha: "sha256_ok E" and dist: "distinct (map tx_id ?txs)"
    using assms by (simp_all add: genesis_env_ok_def)
  have ids: "stripped_ids ?txs = map tx_id ?txs"
    using genesis_ids(1) [OF sha] by (auto simp: stripped_ids_def)
  have nonempty: "[] \<notin> set (stripped_ids ?txs)"
    using genesis_ids(2) [OF sha] by (force simp: ids)
  have "block_ok E p [] (genesis_of E p)"
    using genesis_tx_ok nonempty sha
    by (auto simp: block_ok_def genesis_block_state_root compute_transaction_root_def sha256_json_strip
        compute_chain_state_root_def compute_state_root_from_balances_def compute_block_hash_def
        simp flip: genesis_block_hash)
  moreover have "link_ok E p [] (genesis_of E p)"
    by (simp add: link_ok_def expected_genesis_hash_def)
  moreover have "fresh_ok [] (genesis_of E p)"
    using dist by (simp add: fresh_ok_def ids genesis_nonces)
  moreover have "ledger_ok E p [genesis_of E p]"
  proof -
    obtain n where mp: "?mp = MoneyPolicy_for (getenv E) n"
      by (rule money_policy_for_wallet_policy_cases)
    show ?thesis
      using genesis_ledger [of E "getenv E" n] dist
      by (simp add: ledger_ok_def mp genesis_bonds expected_total_supply_atomic_def)
  qed
  ultimately show ?thesis
    by (simp add: valid_chain_def order_blocks_def)
qed

lemma genesis_addresses:
  "tx \<in> set (genesis_chain_transactions E mp) \<Longrightarrow>
   tx_address tx \<in> {normalize_address (compute_reserve_chain_address mp),
     normalize_address (developer_contribution_fund_chain_address mp),
     normalize_address (mp_developer_treasury_address mp)}"
  by (auto simp: genesis_chain_transactions_def make_chain_transaction_def genesis_args_def tx_args_def Let_def)

lemma system_address_stable:
  "address_stable (normalize_address (compute_reserve_chain_address mp))"
  "address_stable (normalize_address (developer_contribution_fund_chain_address mp))"
  by (cases "mp_chain_network mp"; simp add: compute_reserve_chain_address_def
      developer_contribution_fund_chain_address_def system_chain_address_def address_stable_def
      normalize_address_def py_strip_def py_isspace_def py_lower_def py_lower_char_def py_startswith_def
      Let_def)+

lemma genesis_storable:
  assumes "genesis_env_ok E p" "address_stable (normalize_address (default_developer_treasury_address (getenv E)))"
  shows "block_storable (genesis_of E p)"
proof -
  obtain n where mp: "money_policy_for_wallet_policy (getenv E) p None = MoneyPolicy_for (getenv E) n"
    by (rule money_policy_for_wallet_policy_cases)
  have sys: "address_stable (normalize_address (compute_reserve_chain_address (MoneyPolicy_for (getenv E) n)))"
    "address_stable (normalize_address (developer_contribution_fund_chain_address (MoneyPolicy_for (getenv E) n)))"
    by (simp_all only: system_address_stable)
  have "tx_storable tx" if tx: "tx \<in> set (genesis_chain_transactions E (MoneyPolicy_for (getenv E) n))" for tx
    using genesis_transactions_fields [OF tx] genesis_addresses [OF tx] sys assms(2)
    by (auto simp: tx_storable_def GENESIS_CREATED_AT_def CHAIN_SCHEMA_VERSION_def)
  moreover have "block_ok E p [] (genesis_of E p)"
    using genesis_valid [OF assms(1)] by (simp add: valid_chain_def order_blocks_def)
  ultimately show ?thesis
    using seal_block_hash_pos [of E p "[]" "genesis_of E p"]
    by (simp add: block_storable_def mp GENESIS_CREATED_AT_def GENESIS_PREVIOUS_HASH_def
        CHAIN_SCHEMA_VERSION_def)
qed

lemma ensure_genesis_empty:
  assumes "genesis_env_ok E p" "address_stable (normalize_address (default_developer_treasury_address (getenv E)))"
    and "stored_chain s []"
  shows "\<exists>s'. ensure_chain_genesis E p None w s = (Inr 3, s') \<and> store_ok E p s' [genesis_of E p]"
proof -
  have "validate_chain_blocks E p [genesis_of E p] = Inr []"
    using genesis_valid [OF assms(1)] by (simp add: validate_chain_blocks_valid)
  from save_stored [OF _ _ this, of w s] genesis_storable [OF assms(1,2)]
  obtain s' where s': "save_chain_blocks E p w [genesis_of E p] s = (Inr (), s')" "store_ok E p s' [genesis_of E p]"
    by auto
  have "length (genesis_chain_transactions E mp) = 3" for mp
    by (simp add: genesis_chain_transactions_def Let_def)
  then have "ensure_chain_genesis E p None w s = (Inr 3, s')"
    using s'(1) load_blocks_stored [OF assms(3), of E p w]
    by (simp add: ensure_chain_genesis_def Let_def sbind_def slift_def)
  with s'(2) show ?thesis by blast
qed

lemma ensure_genesis_again:
  assumes "stored_chain s (genesis_of E p # rest)"
  shows "ensure_chain_genesis E p None w s = (Inr 0, s)"
proof -
  let ?g = "genesis_of E p"
  have stale: "\<not> is_stale_genesis_only_chain (?g # rest) ?g"
    by (auto simp: is_stale_genesis_only_chain_def split: list.split)
  have none: "filter (\<lambda>tx. tx_id tx \<notin> set (map tx_id (chain_txs (?g # rest)))) (blk_transactions ?g) = []"
    by (auto simp: filter_empty_conv)
  show ?thesis
    using stale none load_blocks_stored [OF assms, of E p w]
    by (auto simp: ensure_chain_genesis_def Let_def sbind_def slift_def chain_transaction_ids_def
        append_chain_block_def)
qed

section \<open>Queries\<close>

lemma index_of_nonempty: "index_of E bs payload \<Longrightarrow> payload \<noteq> []"
  by (auto simp: index_of_def Let_def int_dict_json_def)

lemma load_or_rebuild_ok:
  assumes ok: "store_ok E p s bs" and val: "validate_chain_blocks E p bs = Inr errors"
  shows "\<exists>payload s'. load_or_rebuild_chain_index E p w s = (Inr payload, s') \<and> store_ok E p s' bs
    \<and> (payload = [] \<and> bs = [] \<or> index_of E bs payload)"
proof -
  have st: "stored_chain s bs" using ok by (simp add: store_ok_def)
  obtain fresh where fresh: "index_matches_current_chain_file E p s (load_chain_index s) = Inr fresh"
    "fresh \<Longrightarrow> index_of E bs (load_chain_index s)"
    using ok by (auto simp: store_ok_def cache_ok_def split: sum.splits bool.splits)
  show ?thesis
  proof (cases "fresh \<or> bs = []")
    case True
    then show ?thesis
      using fresh ok load_blocks_stored [OF st, of E p w]
      by (cases fresh) (auto simp: load_or_rebuild_chain_index_def sbind_def slift_def)
  next
    case False
    then have sorted: "sorted (map block_sort_key bs)" and some: "cs_chain s \<noteq> None"
      using st by (auto simp: stored_chain_def split: option.splits)
    from rebuild_stored [OF st sorted val, of w] obtain idx s' where
      "rebuild_chain_indexes E p w (Some bs) s = (Inr idx, s')" "store_ok E p s' bs" "index_of E bs idx"
      by blast
    with False fresh(1) some load_blocks_stored [OF st, of E p w] show ?thesis
      by (auto simp: load_or_rebuild_chain_index_def sbind_def slift_def)
  qed
qed

lemma stored_balance_index_ok:
  assumes "store_ok E p s bs" "validate_chain_blocks E p bs = Inr errors" "readable_addresses bs"
  shows "\<exists>s'. stored_balance_index E p w s = (Inr (dsorted (chain_balance_index bs)), s') \<and> store_ok E p s' bs"
proof -
  from load_or_rebuild_ok [OF assms(1,2), of w] obtain payload s' where
    l: "load_or_rebuild_chain_index E p w s = (Inr payload, s')" "store_ok E p s' bs"
      "payload = [] \<and> bs = [] \<or> index_of E bs payload" by blast
  have st: "load_blocks E p w s' = (Inr bs, s')"
    using l(2) by (simp add: store_ok_def)
  from l(3) show ?thesis
  proof
    assume "payload = [] \<and> bs = []"
    with l st show ?thesis
      by (simp add: stored_balance_index_def chain_balance_index_def bal.replay_Nil dsorted_def)
  next
    assume i: "index_of E bs payload"
    then have "chain_index_balances payload = dsorted (chain_balance_index bs)"
      using indexed_balances assms(3) by (auto simp: index_of_def Let_def)
    with l index_of_nonempty [OF i] show ?thesis
      by (simp add: stored_balance_index_def)
  qed
qed

lemma chain_address_history_ok:
  assumes "store_ok E p s bs" "validate_chain_blocks E p bs = Inr errors"
  shows "\<exists>s'. chain_address_history E p w address types limit newest s =
      (Inr (present_history newest limit (address_history_scan (normalize_address address) types bs)), s')
    \<and> store_ok E p s' bs"
proof -
  from load_or_rebuild_ok [OF assms, of w] obtain payload s' where
    l: "load_or_rebuild_chain_index E p w s = (Inr payload, s')" "store_ok E p s' bs"
      "payload = [] \<and> bs = [] \<or> index_of E bs payload" by blast
  have st: "load_blocks E p w s' = (Inr bs, s')"
    using l(2) by (simp add: store_ok_def)
  let ?scan = "address_history_scan (normalize_address address) types bs"
  have "(case indexed_history payload ''addressHistory'' (normalize_address address) of
      Some h \<Rightarrow> filter (type_allowed types) h | None \<Rightarrow> ?scan) = ?scan"
    using l(3)
  proof
    assume "payload = [] \<and> bs = []"
    then show ?thesis by (simp add: indexed_history_def)
  next
    assume "index_of E bs payload"
    then show ?thesis
      by (intro indexed_address_history) (auto simp: index_of_def Let_def)
  qed
  with l st show ?thesis
    by (cases "indexed_history payload ''addressHistory'' (normalize_address address)")
      (simp_all add: chain_address_history_def Let_def)
qed

section \<open>Appending succeeds\<close>

lemma next_block_ok:
  assumes "acceptable_transactions E p bs txs" "sha256_ok E"
  shows "block_ok E p bs (next_block E p w vid bs txs)"
proof -
  let ?b = "next_block E p w vid bs txs"
  have "compute_block_hash E ?b = blk_hash ?b" "blk_state_root ?b = compute_chain_state_root E (bs @ [?b])"
    "blk_tx_root ?b = compute_transaction_root E txs"
    by (simp_all only: next_block_def Let_def seal_block_hash seal_block_state_root seal_block_fields ChainBlock.simps)
  moreover from this have "py_strip (blk_hash ?b) \<noteq> []"
    using sha256_json_strip [OF assms(2)] by (metis compute_block_hash_def)
  ultimately show ?thesis
    using assms
    by (auto simp: block_ok_def acceptable_transactions_def compute_transaction_root_def sha256_json_strip
        compute_chain_state_root_def compute_state_root_from_balances_def)
qed

lemma next_block_valid:
  assumes valid: "valid_chain E p bs" "sorted (map block_sort_key bs)" "bs \<noteq> []"
    and acc: "acceptable_transactions E p bs txs" and sha: "sha256_ok E"
    and fresh: "blk_hash (next_block E p w vid bs txs) \<notin> blk_hash ` set bs"
  shows "valid_chain E p (bs @ [next_block E p w vid bs txs])"
proof -
  let ?b = "next_block E p w vid bs txs"
  note v = valid_chain_sorted [OF valid]
  have nonces: "distinct (tx_nonces txs)" "set (tx_nonces txs) \<inter> set (tx_nonces (chain_txs bs)) = {}"
    and ids: "distinct (stripped_ids txs)" "set (stripped_ids txs) \<inter> set (stripped_ids (chain_txs bs)) = {}"
    using acc by (auto simp: acceptable_transactions_def)
  have "extends_ok E p [] (bs @ [?b])"
    using v(1) next_block_ok [OF acc sha] fresh nonces ids valid(3)
    by (simp add: extends_ok_append link_ok_def fresh_ok_def)
  moreover have "ledger_ok E p (bs @ [?b])"
  proof (rule ledger_extend [OF v(2)])
    show "distinct (map tx_id (chain_txs bs @ blk_transactions ?b))"
      using acc distinct_ids_stripped [of "chain_txs bs @ txs"] by (simp add: acceptable_transactions_def)
    show "sum_list (map tx_delta_atomic (blk_transactions ?b)) = 0"
      using acc by (simp add: acceptable_transactions_def)
    fix a
    show "0 \<le> dget (chain_balance_index bs) a 0
        + sum_list (map (entry_delta_at balance_entry a) (blk_transactions ?b))"
    proof (cases "a \<in> (\<lambda>tx. normalize_address (tx_address tx)) ` set txs")
      case False
      then have "map (entry_delta_at balance_entry a) txs = map (\<lambda>_. 0) txs"
        by (auto simp: bal_entry_delta_at)
      then have "sum_list (map (entry_delta_at balance_entry a) txs) = 0" by (simp only: sum_list_0)
      moreover have "0 \<le> dget (chain_balance_index bs) a 0"
        using v(2) nonneg_entries [of "chain_balance_index bs"]
        by (simp add: ledger_ok_def chain_balance_index_def bal.replay_dict_ok)
      ultimately show ?thesis by simp
    qed (use acc in \<open>auto simp: acceptable_transactions_def\<close>)
    show "0 \<le> dget (validator_locked_bond_index bs) a 0
        + sum_list (map (entry_delta_at bond_entry a) (blk_transactions ?b))"
      using acc by (simp add: acceptable_transactions_def)
  qed
  moreover have "sorted (map block_sort_key (bs @ [?b]))"
    using valid by (intro sorted_snoc_block) auto
  ultimately show ?thesis
    by (simp add: valid_chain_def order_blocks_sorted)
qed

lemma append_chain_block_total:
  assumes ok: "store_ok E p s bs" and valid: "valid_chain E p bs" "bs \<noteq> []"
    and acc: "acceptable_transactions E p bs txs" and sha: "sha256_ok E" and now: "io_now w \<noteq> []"
    and fresh: "blk_hash (next_block E p w vid bs txs) \<notin> blk_hash ` set bs"
  shows "\<exists>s'. append_chain_block E p w vid txs s = (Inr (Some (next_block E p w vid bs txs)), s')
    \<and> store_ok E p s' (bs @ [next_block E p w vid bs txs])"
proof -
  let ?b = "next_block E p w vid bs txs"
  have st: "stored_chain s bs" using ok by (simp add: store_ok_def)
  then have sorted: "sorted (map block_sort_key bs)"
    by (auto simp: stored_chain_def split: option.splits)
  have "tx_id tx \<notin> tx_id ` set (chain_txs bs)" if tx: "tx \<in> set txs" for tx
  proof
    assume "tx_id tx \<in> tx_id ` set (chain_txs bs)"
    then have "py_strip (tx_id tx) \<in> set (stripped_ids (chain_txs bs)) \<inter> set (stripped_ids txs)"
      using tx by (auto simp: stripped_ids_def)
    with acc show False by (auto simp: acceptable_transactions_def)
  qed
  then have news: "fresh_transactions bs txs = txs"
    by (simp add: fresh_transactions_def filter_id_conv)
  have adm: "admit_transactions E p (chain_transaction_nonces bs) txs = Inr txs"
    using acc by (intro admit_transactions_ok)
      (auto simp: acceptable_transactions_def chain_transaction_nonces_eq)
  have vc: "valid_chain E p (bs @ [?b])"
    by (rule next_block_valid [OF valid(1) sorted valid(2) acc sha fresh])
  then have val: "validate_chain_blocks E p (bs @ [?b]) = Inr []"
    by (simp add: validate_chain_blocks_valid)
  have sup: "validate_chain_supply_invariant E p (bs @ [?b]) = None"
    using valid_chain_sorted(2) [OF vc] sorted_snoc_block [OF sorted, of ?b] valid(2)
    by (simp add: validate_chain_supply_invariant_def ledger_ok_def)
  have acc': "\<forall>tx \<in> set txs. tx_storable (on_active_chain E p tx)"
    using acc by (auto simp: acceptable_transactions_def tx_ok_def on_active_chain_def)
  from append_accepted [OF st now acc' _ refl val] adm news
  have "sorted (map block_sort_key (bs @ [?b]))" "\<forall>c \<in> set (bs @ [?b]). block_storable c"
    by auto
  from save_stored [OF this val] obtain s' where
    "save_chain_blocks E p w (bs @ [?b]) s = (Inr (), s')" "store_ok E p s' (bs @ [?b])" by blast
  then show ?thesis
    using st adm news acc val sup
    by (auto simp: append_chain_block_def sbind_def slift_def fresh_transactions_def Let_def
        acceptable_transactions_def)
qed

end
