(* ===== verification/Demo.thy ===== *)
theory Demo
  imports ChainStoreProofs
begin

text \<open>
  A small concrete world in which the properties are instantiated: a hash that is the
  length of its argument in decimal digits, a signature scheme whose signature is the key
  itself, an empty process environment, a fixed clock and an empty data directory.
\<close>

definition demo_sha256 :: "string \<Rightarrow> string" where
  "demo_sha256 t = take 64 (pad_zero 32 (show_nat (length t)) @ replicate 64 CHR ''0'')"

definition demo_env :: chain_env where
  "demo_env = \<lparr>sha256_hex = demo_sha256, key_digest = (\<lambda>k. Some k),
     ed25519_verify = (\<lambda>k s m. s = k), mldsa65_verify = (\<lambda>k s m. s = k), getenv = (\<lambda>_. None)\<rparr>"

definition demo_io :: io where
  "demo_io = \<lparr>io_now = ''2026-02-01'', io_token_hex = ''00ff'', io_mtime_ns = 7,
     io_file_size = (\<lambda>_. 42), io_chain_file_name = ''chain.json''\<rparr>"

definition empty_store :: chain_store where
  "empty_store = \<lparr>cs_chain = None, cs_index = None, cs_snapshots = None\<rparr>"

definition demo_tx :: "string \<Rightarrow> string \<Rightarrow> int \<Rightarrow> ChainTransaction" where
  "demo_tx i address delta =
    \<lparr>tx_id = i, tx_created_at = ''2026-02-01'', tx_type = ''compute_reserve_payment'', tx_address = address,
     tx_delta_atomic = delta, tx_settlement_id = JNull, tx_payout_id = JNull, tx_wallet_id = JNull,
     tx_counterparty_address = None, tx_note = JNull, tx_nonce = None, tx_chain_id = ''mainnet'',
     tx_schema_version = 1, tx_public_key_b64 = None, tx_signature_b64 = None, tx_metadata = []\<rparr>"

definition demo_txs :: "ChainTransaction list" where
  "demo_txs = [demo_tx ''t1'' ''system:compute-reserve:mainnet'' (-5), demo_tx ''t2'' ''bob'' 5]"

lemma demo_env_hash: "sha256_hex demo_env = demo_sha256"
  by (simp add: demo_env_def)

lemma demo_sha256_ok: "sha256_ok demo_env"
proof -
  have "\<exists>d < 10. c = digit_char d" if "c \<in> set (demo_sha256 t)" for c t
    using in_set_takeD [OF that [unfolded demo_sha256_def]] show_nat_digits
    by (auto simp: pad_zero_def digit_char_0 [symmetric] intro: exI [of _ "0 :: nat"])
  then have "48 \<le> (of_char c :: nat) \<and> (of_char c :: nat) \<le> 57" if "c \<in> set (demo_sha256 t)" for c t
    using that by fastforce
  moreover have "length (demo_sha256 t) = 64" for t
    by (simp add: demo_sha256_def)
  ultimately show ?thesis
    by (auto simp: sha256_ok_def hex_digest_def demo_env_def Let_def)
qed

lemma length_py_join: "length (py_join [c] xs) = sum_list (map length xs) + (length xs - 1)"
  by (induction "[c]" xs rule: py_join.induct) simp_all

lemma sum_list_dsorted: "sum_list (map f (dsorted d)) = sum_list (map f d)"
  for f :: "_ \<Rightarrow> nat"
  by (metis mset_dsorted mset_map sum_mset_sum_list)

lemma length_canonical [simp]:
  "length (canonical (JObj kvs)) =
    2 + sum_list (map (\<lambda>kv. length (json_quote (fst kv)) + 1 + length (canonical (snd kv))) kvs) + (length kvs - 1)"
  "length (canonical (JList xs)) = 2 + sum_list (map (\<lambda>v. length (canonical v)) xs) + (length xs - 1)"
  by (simp_all add: length_py_join comp_def case_prod_beta sum_list_dsorted length_dsorted)

lemma length_canonical_atoms:
  "length (canonical JNull) = 4" "length (canonical (JStr t)) = length (json_quote t)"
  "length (canonical (JInt i)) = length (show_int i)" "length (canonical (jopt None)) = 4"
  by (simp_all add: jopt_def)

lemma json_escape_char_plain:
  assumes "digit5 c \<or> digit6 c" "c \<noteq> CHR 0x22" "c \<noteq> CHR 0x5C"
  shows "json_escape_char c = [c]"
proof -
  have big: "32 \<le> (of_char c :: nat)"
    using assms(1) by (cases c) (auto simp: of_char_Char split: if_splits)
  have "(of_char c :: nat) \<noteq> of_char (CHR 0x22)" "(of_char c :: nat) \<noteq> of_char (CHR 0x5C)"
    using assms(2,3) by (simp_all only: of_char_eq_iff not_False_eq_True)
  with big show ?thesis by (auto simp: json_escape_char_def Let_def)
qed

lemma length_json_quote:
  "list_all (\<lambda>c. (digit5 c \<or> digit6 c) \<and> c \<noteq> CHR 0x22 \<and> c \<noteq> CHR 0x5C) s
   \<Longrightarrow> length (json_quote s) = length s + 2"
  by (induction s) (auto simp: json_quote_def json_escape_char_plain)

text \<open>The lengths of canonical texts do not depend on the order of the keys.\<close>

lemmas demo_lengths = length_canonical length_canonical_atoms length_json_quote

definition demo_id :: "nat \<Rightarrow> string" where
  "demo_id n = take 32 (pad_zero 32 (show_nat n))"

lemma demo_id_sha256: "take 32 (sha256_json demo_env j) = demo_id (length (canonical j))"
  by (simp add: sha256_json_def demo_env_def demo_sha256_def demo_id_def pad_zero_def)

abbreviation demo_policy :: MoneyPolicy where
  "demo_policy \<equiv> MoneyPolicy_for (\<lambda>_. None) MAINNET"

lemma demo_money_policy: "money_policy_for_wallet_policy (getenv demo_env) None None = demo_policy"
proof -
  have "resolve_active_chain_network (\<lambda>_. None) NetNone = MAINNET" by code_simp
  then show ?thesis
    by (simp add: money_policy_for_wallet_policy_def MoneyPolicy_default_def demo_env_def)
qed

lemma demo_reserve_address:
  "normalize_address (normalize_address (compute_reserve_chain_address demo_policy)) =
    ''system:compute-reserve:mainnet''"
  by code_simp

lemma demo_fund_address:
  "normalize_address (normalize_address (developer_contribution_fund_chain_address demo_policy)) =
     ''system:developer-contribution-fund:mainnet''"
  by code_simp

lemma demo_fund_normal:
  "normalize_address ''system:developer-contribution-fund:mainnet'' = ''system:developer-contribution-fund:mainnet''"
  by code_simp

lemma demo_treasury:
  "default_developer_treasury_address (\<lambda>_. None) =
     ''6d9c5fc0ab4f5ad786881d1848800f778dc8f21473ebcff514181dfb50023881''"
  "default_developer_treasury_wallet_id (\<lambda>_. None) = ''f566089781403edca18c2d06c9c0af8a''"
  by code_simp+

lemma demo_treasury_normal:
  "normalize_address (''6d9c5fc0ab4f5ad786881d1848800f778dc8f21473ebcff514181dfb50023881'') =
     ''6d9c5fc0ab4f5ad786881d1848800f778dc8f21473ebcff514181dfb50023881''"
  by code_simp

lemma length_show_nat: "length (show_nat n) = (if n < 10 then 1 else Suc (length (show_nat (n div 10))))"
  by (subst show_nat.simps) simp

lemma demo_int_lengths:
  "length (show_int 1) = 1" "length (show_int 85000000000000000) = 17"
  "length (show_int 10000000000000000) = 17" "length (show_int 5000000000000000) = 16"
  by (simp_all add: show_int_def length_show_nat)

lemma demo_genesis_ids:
  "map tx_id (genesis_chain_transactions demo_env demo_policy) = [demo_id 306, demo_id 342, demo_id 344]"
  by (simp add: genesis_chain_transactions_def make_chain_transaction_def genesis_args_def tx_args_def
      opt_or_def str_or_def deterministic_tx_id_def Let_def demo_id_sha256 demo_lengths demo_reserve_address
      demo_fund_address demo_treasury demo_treasury_normal demo_int_lengths CHAIN_SCHEMA_VERSION_def
      del: canonical.simps)

lemma demo_genesis_ok: "genesis_env_ok demo_env None"
proof -
  have "distinct [demo_id 306, demo_id 342, demo_id 344]" by code_simp
  then show ?thesis
    by (simp add: genesis_env_ok_def demo_sha256_ok demo_money_policy demo_genesis_ids)
qed

lemma demo_treasury_stable: "address_stable (normalize_address (default_developer_treasury_address (getenv demo_env)))"
  by (simp add: demo_env_def demo_treasury demo_treasury_normal address_stable_def)

lemma length_json_quote_hex:
  assumes "hex_digest d"
  shows "length (json_quote (take n d)) = min n 64 + 2"
proof -
  have "json_escape_char c = [c]" if "c \<in> set d" for c
    using assms that by (auto simp: hex_digest_def Let_def json_escape_char_def)
  then have "map json_escape_char (take n d) = map (\<lambda>c. [c]) (take n d)"
    by (auto dest: in_set_takeD)
  then have "concat (map json_escape_char (take n d)) = take n d"
    by (simp only: concat_map_singleton) simp
  then show ?thesis
    using assms by (simp add: json_quote_def hex_digest_def)
qed

lemmas demo_payload_defs = block_hash_payload_def transaction_payload_def transaction_asdict_def
  transaction_hashed_def normalize_optional_def str_or_def int_or_def

lemma demo_id_hex: "length (json_quote (take 32 (sha256_json demo_env j))) = 34"
  "length (json_quote (sha256_json demo_env j)) = 66"
  using length_json_quote_hex [of "sha256_json demo_env j" 32] length_json_quote_hex [of "sha256_json demo_env j" 64]
    demo_sha256_ok
  by (auto simp: sha256_ok_def sha256_json_def hex_digest_def)

lemma demo_block_ids:
  "length (json_quote (blk_id (make_genesis_block demo_env mp))) = 34"
  "length (json_quote (blk_id (next_block demo_env p w vid bs txs))) = 34"
  "length (json_quote (blk_hash (make_genesis_block demo_env mp))) = 66"
proof -
  show "length (json_quote (blk_hash (make_genesis_block demo_env mp))) = 66"
    by (metis genesis_block_hash compute_block_hash_def demo_id_hex(2))
qed (simp_all only: make_genesis_block_def next_block_def Let_def seal_block_fields ChainBlock.simps demo_id_hex)

lemma demo_more_lengths: "length (show_int 0) = 1" "length (show_int 5) = 1" "length (show_int (-5)) = 2"
  "length (json_quote GENESIS_PREVIOUS_HASH) = 66"
  by (simp_all add: show_int_def show_nat.simps GENESIS_PREVIOUS_HASH_def length_json_quote list_all_iff)

lemma demo_genesis_length:
  "length (canonical (JObj (block_hash_payload (getenv demo_env) (make_genesis_block demo_env demo_policy)))) = 2054"
  by (simp add: demo_payload_defs genesis_chain_transactions_def make_chain_transaction_def genesis_args_def tx_args_def
    demo_lengths demo_int_lengths demo_more_lengths CHAIN_SCHEMA_VERSION_def Let_def opt_or_def some_if_text_def
    deterministic_tx_id_def demo_id_hex demo_block_ids demo_reserve_address demo_fund_address
    demo_treasury demo_treasury_normal GENESIS_CREATED_AT_def del: canonical.simps)

lemma demo_norm: "normalize_address ''system:compute-reserve:mainnet'' = ''system:compute-reserve:mainnet''" "normalize_address ''bob'' = ''bob''"
  by code_simp+

lemma demo_next_length: "length (canonical (JObj (block_hash_payload (getenv demo_env) (next_block demo_env None demo_io JNull [make_genesis_block demo_env demo_policy] demo_txs)))) = 902"
  by (simp add: demo_payload_defs demo_txs_def demo_tx_def demo_money_policy demo_norm
    demo_lengths demo_int_lengths demo_more_lengths demo_block_ids CHAIN_SCHEMA_VERSION_def demo_io_def del: canonical.simps)

text \<open>The hash separates texts of different lengths.\<close>

lemma demo_sha256_length:
  assumes "demo_sha256 a = demo_sha256 b" "length a < 10 ^ 32" "length b < 10 ^ 32"
  shows "length a = length b"
proof -
  have l: "length (pad_zero 32 (show_nat n)) = 32" if "n < 10 ^ 32" for n :: nat
    using that by (intro length_pad_zero length_show_nat_bound) auto
  have "take 32 (demo_sha256 a) = take 32 (demo_sha256 b)" using assms(1) by simp
  then have "pad_zero 32 (show_nat (length a)) = pad_zero 32 (show_nat (length b))"
    using l [OF assms(2)] l [OF assms(3)] by (simp add: demo_sha256_def)
  then have "py_int_str (pad_zero 32 (show_nat (length a))) = py_int_str (pad_zero 32 (show_nat (length b)))"
    by simp
  then show ?thesis by (simp add: py_int_str_pad_zero)
qed

lemma demo_next_fresh:
  "blk_hash (next_block demo_env None demo_io JNull [make_genesis_block demo_env demo_policy] demo_txs)
    \<noteq> blk_hash (make_genesis_block demo_env demo_policy)"
proof
  let ?b = "next_block demo_env None demo_io JNull [make_genesis_block demo_env demo_policy] demo_txs"
  assume "blk_hash ?b = blk_hash (make_genesis_block demo_env demo_policy)"
  moreover have "compute_block_hash demo_env ?b = blk_hash ?b"
    by (simp only: next_block_def Let_def seal_block_hash)
  ultimately have "compute_block_hash demo_env ?b = compute_block_hash demo_env (make_genesis_block demo_env demo_policy)"
    by simp
  then have eq: "demo_sha256 (canonical (JObj (block_hash_payload (getenv demo_env) ?b))) =
      demo_sha256 (canonical (JObj (block_hash_payload (getenv demo_env) (make_genesis_block demo_env demo_policy))))"
    by (simp only: compute_block_hash_def sha256_json_def demo_env_hash)
  have "(902::nat) < 10 ^ 32" "(2054::nat) < 10 ^ 32" by simp_all
  then show False
    using demo_sha256_length [OF eq] by (simp only: demo_genesis_length demo_next_length) simp
qed

lemma demo_genesis_readable: "readable_addresses [make_genesis_block demo_env demo_policy]"
  by (simp add: readable_addresses_def genesis_chain_transactions_def
      make_chain_transaction_def genesis_args_def tx_args_def Let_def demo_reserve_address demo_fund_address
      demo_treasury demo_treasury_normal address_stable_def demo_norm demo_fund_normal)

text \<open>The same world with an explicit policy for the main network.\<close>

definition demo_wallet_policy :: WalletPolicy where
  "demo_wallet_policy = \<lparr>wp_chain_network = MAINNET, wp_require_post_quantum_wallet_signatures = False,
     wp_require_hybrid_peer_payload_signatures = False, wp_trusted_validator_addresses = []\<rparr>"

lemma demo_explicit_policy:
  "money_policy_for_wallet_policy (getenv demo_env) (Some demo_wallet_policy) None = demo_policy"
  by (simp add: money_policy_for_wallet_policy_def demo_wallet_policy_def demo_env_def)

lemma demo_explicit_genesis_ok: "genesis_env_ok demo_env (Some demo_wallet_policy)"
  using demo_genesis_ok by (simp add: genesis_env_ok_def demo_explicit_policy demo_money_policy)

lemma demo_explicit_store:
  obtains c where "store_ok demo_env (Some demo_wallet_policy) c [make_genesis_block demo_env demo_policy]"
    "validate_chain_blocks demo_env (Some demo_wallet_policy) [make_genesis_block demo_env demo_policy] = Inr []"
  using ensure_genesis_empty [OF demo_explicit_genesis_ok demo_treasury_stable, of empty_store demo_io]
    genesis_valid [OF demo_explicit_genesis_ok]
  by (auto simp: stored_chain_def empty_store_def demo_explicit_policy validate_chain_blocks_valid)

end
