(* ===== verification/ChainProps.thy ===== *)
theory ChainProps
  imports Demo
begin

text \<open>
  The properties of the chain: what the validator decides, what appending, creating and
  reading a chain do, and what an accepted signature means. Each property that has
  hypotheses is followed by an instance in the world of \<open>Demo\<close>.
\<close>

lemma extends_ok_global:
  "extends_ok E p [] bs \<longleftrightarrow>
    (\<forall>i < length bs. block_ok E p (take i bs) (bs ! i) \<and> link_ok E p (take i bs) (bs ! i))
    \<and> distinct (map blk_hash bs) \<and> distinct (stripped_ids (chain_txs bs))
    \<and> distinct (tx_nonces (chain_txs bs))"
proof (induction bs rule: rev_induct)
  case (snoc b bs)
  have "(\<forall>i < length (bs @ [b]). block_ok E p (take i (bs @ [b])) ((bs @ [b]) ! i)
        \<and> link_ok E p (take i (bs @ [b])) ((bs @ [b]) ! i))
      \<longleftrightarrow> (\<forall>i < length bs. block_ok E p (take i bs) (bs ! i) \<and> link_ok E p (take i bs) (bs ! i))
        \<and> block_ok E p bs b \<and> link_ok E p bs b"
    by (auto simp: less_Suc_eq nth_append)
  with snoc show ?case
    by (auto simp: extends_ok_append fresh_ok_def)
qed simp

lemma demo_genesis_store:
  obtains s where "ensure_chain_genesis demo_env None None demo_io empty_store = (Inr 3, s)"
    "store_ok demo_env None s [genesis_of demo_env None]"
  using ensure_genesis_empty [OF demo_genesis_ok demo_treasury_stable, of empty_store demo_io]
  by (auto simp: stored_chain_def empty_store_def)

text \<open>
  C1. The validator of the chain, \<open>validate_chain_blocks\<close>, reports no error exactly on the
  lists of blocks that form a chain: ordered by height, every block carries the hash of its
  own content, the root of its transactions and the root of the balances up to it, belongs to
  the active network and holds properly signed transactions of that network; the first block
  is the genesis block of the network and every other one names the hash and the height of
  its predecessor; no block hash, transaction id or (address, nonce) pair occurs twice; no
  balance and no locked bond is negative; and the balances add up to the total supply.
\<close>

theorem validate_chain_blocks_correct:
  "validate_chain_blocks E p bs = Inr [] \<longleftrightarrow>
    (bs = [] \<or> (let os = order_blocks bs in
      (\<forall>i < length os. block_ok E p (take i os) (os ! i) \<and> link_ok E p (take i os) (os ! i))
      \<and> distinct (map blk_hash os)
      \<and> distinct (map (\<lambda>tx. py_strip (tx_id tx)) (chain_txs os))
      \<and> distinct (List.map_filter nonce_key (chain_txs os))
      \<and> (\<forall>(a, v) \<in> set (chain_balance_index os). 0 \<le> v)
      \<and> dsum (chain_balance_index os) = expected_total_supply_atomic E p
      \<and> (\<forall>(a, v) \<in> set (validator_locked_bond_index os). 0 \<le> v)))"
  unfolding validate_chain_blocks_valid valid_chain_def extends_ok_global ledger_ok_def Let_def
    stripped_ids_def tx_nonces_def
  by blast

theorem validate_chain_blocks_correct_witness:
  "validate_chain_blocks demo_env None [genesis_of demo_env None] = Inr []"
proof -
  let ?g = "genesis_of demo_env None"
  have os: "order_blocks [?g] = [?g]" by (simp add: order_blocks_def)
  have "extends_ok demo_env None [] [?g]" "ledger_ok demo_env None [?g]"
    using genesis_valid [OF demo_genesis_ok] by (simp_all add: valid_chain_def os)
  then show ?thesis
    unfolding validate_chain_blocks_correct Let_def os extends_ok_global ledger_ok_def
      stripped_ids_def tx_nonces_def
    by blast
qed

text \<open>
  C4. What validation buys: on a validated chain the blocks sit at heights 0, 1, 2, ... without
  a gap, each names the hash of the one before, every transaction id is used once, and the
  balance of an address is the sum of all its deltas on the chain, which is never negative.
\<close>

theorem validated_chain_is_a_ledger:
  assumes "validate_chain_blocks E p bs = Inr []" and "bs \<noteq> []"
  shows "map blk_height (order_blocks bs) = map int [0 ..< length bs]
    \<and> (\<forall>i. Suc i < length bs \<longrightarrow>
        blk_previous_hash (order_blocks bs ! Suc i) = blk_hash (order_blocks bs ! i))
    \<and> blk_hash (order_blocks bs ! 0) = expected_genesis_hash E p
    \<and> distinct (map tx_id (chain_txs (order_blocks bs)))
    \<and> (\<forall>a. dget (chain_balance_index (order_blocks bs)) a 0 =
          sum_list (map tx_delta_atomic
            (filter (\<lambda>tx. normalize_address (tx_address tx) = a) (chain_txs (order_blocks bs))))
        \<and> 0 \<le> dget (chain_balance_index (order_blocks bs)) a 0)"
proof -
  let ?os = "order_blocks bs"
  have len: "length ?os = length bs" by (metis mset_order_blocks size_mset)
  have ext: "extends_ok E p [] ?os" and led: "ledger_ok E p ?os"
    using assms by (simp_all add: validate_chain_blocks_valid valid_chain_def)
  have "map blk_height ?os = map int [0 ..< length bs]"
    using extends_ok_height [OF ext] by (intro nth_equalityI) (simp_all add: len)
  moreover have "blk_hash (?os ! 0) = expected_genesis_hash E p"
    using extends_ok_nth [OF ext, of 0] assms(2) by (simp add: len link_ok_def)
  moreover have dist: "distinct (map tx_id (chain_txs ?os))"
    using ext by (intro distinct_ids_stripped) (simp add: extends_ok_global)
  moreover have "dget (chain_balance_index ?os) a 0 = sum_list (map tx_delta_atomic
      (filter (\<lambda>tx. normalize_address (tx_address tx) = a) (chain_txs ?os)))" for a
    using bal.replay_at_distinct [OF dist, of a]
    by (simp add: chain_balance_index_def sum_list_map_filter' bal_entry_delta_at cong: map_cong)
  moreover have "0 \<le> dget (chain_balance_index ?os) a 0" for a
    using led nonneg_entries [of "chain_balance_index ?os"]
    by (simp add: ledger_ok_def chain_balance_index_def bal.replay_dict_ok)
  ultimately show ?thesis
    using extends_ok_link [OF ext] by (simp add: len)
qed

theorem validated_chain_is_a_ledger_witness:
  "map blk_height (order_blocks [genesis_of demo_env None]) = [0]"
  using validated_chain_is_a_ledger [of demo_env None "[genesis_of demo_env None]"]
    genesis_valid [OF demo_genesis_ok]
  by (simp add: validate_chain_blocks_valid)

text \<open>
  C2. Appending is all or nothing. On files that hold a chain, \<open>append_chain_block\<close> either
  raises and leaves the files as they are; or finds every transaction id already recorded,
  returns nothing and leaves the files as they are; or returns a block that holds the
  transactions whose ids are new, after which the files hold the old chain followed by that
  block, with an index that agrees with it, and the longer chain is valid.
\<close>

theorem append_chain_block_outcome:
  assumes "store_ok E p s bs" and "io_now w \<noteq> []"
    and "\<forall>tx \<in> set txs. tx_storable (on_active_chain E p tx)"
    and "append_chain_block E p w vid txs s = (r, s')"
  shows "case r of
      Inl e \<Rightarrow> s' = s
    | Inr None \<Rightarrow> s' = s \<and> tx_id ` set txs \<subseteq> tx_id ` set (chain_txs bs)
    | Inr (Some b) \<Rightarrow> store_ok E p s' (bs @ [b]) \<and> validate_chain_blocks E p (bs @ [b]) = Inr []
        \<and> map tx_id (blk_transactions b) =
            filter (\<lambda>i. i \<notin> tx_id ` set (chain_txs bs)) (map tx_id txs)"
proof -
  have "stored_chain s bs" using assms(1) by (simp add: store_ok_def)
  from append_chain_block_cases [OF this assms(2-4)] show ?thesis
  proof cases
    case 2
    then show ?thesis by (auto simp: fresh_transactions_def filter_empty_conv)
  next
    case (3 b)
    have "tx_id (on_active_chain E p tx) = tx_id tx" for tx by (simp add: on_active_chain_def)
    with 3 show ?thesis
      by (simp add: validate_chain_blocks_valid fresh_transactions_def filter_map comp_def)
  qed simp
qed

theorem append_chain_block_outcome_witness:
  "\<exists>s. store_ok demo_env None s [genesis_of demo_env None]
    \<and> (case fst (append_chain_block demo_env None demo_io JNull [demo_tx ''t1'' ''bob'' 5] s) of
        Inl _ \<Rightarrow> snd (append_chain_block demo_env None demo_io JNull [demo_tx ''t1'' ''bob'' 5] s) = s
      | Inr _ \<Rightarrow> True)"
proof -
  obtain s where s: "store_ok demo_env None s [genesis_of demo_env None]" by (rule demo_genesis_store)
  have "\<forall>tx \<in> set [demo_tx ''t1'' ''bob'' 5]. tx_storable (on_active_chain demo_env None tx)"
    by (simp add: demo_tx_def on_active_chain_def tx_storable_def address_stable_def demo_norm)
  from append_chain_block_outcome [OF s _ this, of demo_io JNull, OF _ surjective_pairing] s show ?thesis
    by (intro exI [of _ s]) (simp add: demo_io_def split: sum.splits)
qed

text \<open>
  C3. Appending succeeds where it should. On files that hold a valid chain, transactions that
  are signed as required, have new ids and new nonces, cancel out in total and overdraw no
  account and no locked bond are appended, and the block returned is the next block of the
  chain, provided its hash is not one the chain has already.
\<close>

theorem append_chain_block_succeeds:
  assumes "store_ok E p s bs" and "validate_chain_blocks E p bs = Inr []" and "bs \<noteq> []"
    and "acceptable_transactions E p bs txs" and "sha256_ok E" and "io_now w \<noteq> []"
    and "blk_hash (next_block E p w vid bs txs) \<notin> blk_hash ` set bs"
  shows "\<exists>s'. append_chain_block E p w vid txs s = (Inr (Some (next_block E p w vid bs txs)), s')
    \<and> store_ok E p s' (bs @ [next_block E p w vid bs txs])
    \<and> validate_chain_blocks E p (bs @ [next_block E p w vid bs txs]) = Inr []"
proof -
  have "valid_chain E p bs" using assms(2) by (simp add: validate_chain_blocks_valid)
  from append_chain_block_total [OF assms(1) this assms(3-7)] obtain s' where
    s': "append_chain_block E p w vid txs s = (Inr (Some (next_block E p w vid bs txs)), s')"
      "store_ok E p s' (bs @ [next_block E p w vid bs txs])" by blast
  moreover have "sorted (map block_sort_key bs)"
    using assms(1) by (auto simp: store_ok_def stored_chain_def split: option.splits)
  ultimately show ?thesis
    using next_block_valid [OF \<open>valid_chain E p bs\<close> _ assms(3-5,7)]
    by (auto simp: validate_chain_blocks_valid)
qed

lemma demo_bond_entry: "tx \<in> set demo_txs \<Longrightarrow> bond_entry tx = None"
  by (auto simp: demo_txs_def demo_tx_def bond_entry_def)

lemma demo_genesis_entries:
  "map (entry_delta_at balance_entry a) (genesis_chain_transactions demo_env demo_policy) =
    [if ''system:compute-reserve:mainnet'' = a then 85000000000000000 else 0,
     if ''system:developer-contribution-fund:mainnet'' = a then 10000000000000000 else 0,
     if ''6d9c5fc0ab4f5ad786881d1848800f778dc8f21473ebcff514181dfb50023881'' = a then 5000000000000000 else 0]"
  by (simp add: genesis_chain_transactions_def make_chain_transaction_def genesis_args_def tx_args_def Let_def
      bal_entry_delta_at demo_reserve_address demo_fund_address demo_treasury demo_treasury_normal)

lemma demo_acceptable: "acceptable_transactions demo_env None [genesis_of demo_env None] demo_txs"
proof -
  let ?g = "genesis_of demo_env None"
  let ?txs = "genesis_chain_transactions demo_env demo_policy"
  have dist: "distinct (map tx_id ?txs)"
    using demo_genesis_ok by (simp add: genesis_env_ok_def demo_money_policy)
  have ids: "stripped_ids ?txs = [demo_id 306, demo_id 342, demo_id 344]"
    using genesis_ids(1) [OF demo_sha256_ok, of _ demo_policy] demo_genesis_ids
    by (auto simp: stripped_ids_def cong: map_cong)
  have "distinct ([demo_id 306, demo_id 342, demo_id 344] @ stripped_ids demo_txs)" "[] \<notin> set (stripped_ids demo_txs)"
    by code_simp+
  moreover have "tx_nonces demo_txs = []" by code_simp
  moreover have "tx_ok demo_env None tx \<and> tx_storable tx" if "tx \<in> set demo_txs" for tx
    using that by (auto simp: demo_txs_def demo_tx_def tx_ok_def demo_money_policy CHAIN_SCHEMA_VERSION_def
        verify_chain_transaction_signature_def signable_wallet_transaction_types_def tx_storable_def
        address_stable_def demo_norm)
  moreover have "0 \<le> dget (chain_balance_index [?g]) a 0 + sum_list (map (entry_delta_at balance_entry a) demo_txs)"
    if "a \<in> (\<lambda>tx. normalize_address (tx_address tx)) ` set demo_txs" for a
  proof -
    have "dget (chain_balance_index [?g]) ''system:compute-reserve:mainnet'' 0 = 85000000000000000"
      "dget (chain_balance_index [?g]) ''bob'' 0 = 0"
      by (simp_all add: demo_money_policy chain_balance_index_def bal.replay_at_distinct [OF dist] demo_genesis_entries)
    then show ?thesis
      using that by (auto simp: demo_txs_def demo_tx_def bal_entry_delta_at demo_norm)
  qed
  moreover have "0 \<le> dget (validator_locked_bond_index [?g]) v 0 + sum_list (map (entry_delta_at bond_entry v) demo_txs)" for v
  proof -
    have "map (entry_delta_at bond_entry v) demo_txs = map (\<lambda>_. 0) demo_txs"
      using demo_bond_entry by (auto simp: entry_delta_at_def)
    then show ?thesis by (simp only: genesis_bonds dget_Nil sum_list_0)
  qed
  ultimately show ?thesis
    by (simp add: acceptable_transactions_def ids genesis_nonces demo_money_policy, simp add: demo_txs_def demo_tx_def)
qed

theorem append_chain_block_succeeds_witness:
  "\<exists>s s'. append_chain_block demo_env None demo_io JNull demo_txs s =
     (Inr (Some (next_block demo_env None demo_io JNull [genesis_of demo_env None] demo_txs)), s')"
proof -
  obtain s where s: "store_ok demo_env None s [genesis_of demo_env None]" by (rule demo_genesis_store)
  have "validate_chain_blocks demo_env None [genesis_of demo_env None] = Inr []"
    using genesis_valid [OF demo_genesis_ok] by (simp add: validate_chain_blocks_valid)
  from append_chain_block_succeeds [OF s this _ demo_acceptable demo_sha256_ok, of demo_io JNull]
  show ?thesis using demo_next_fresh by (auto simp: demo_io_def demo_money_policy)
qed

text \<open>
  C5. Starting a chain. On an empty data directory \<open>ensure_chain_genesis\<close> writes the genesis
  block with its three allocations; that chain is valid, so its balances are the whole supply;
  and calling it again on the files it left changes nothing. This holds for every hash
  function that yields hexadecimal digests and gives the three allocations different ids, and
  every configured treasury address that normalisation leaves alone.
\<close>

theorem ensure_chain_genesis_creates:
  assumes "genesis_env_ok E p"
    and "address_stable (normalize_address (default_developer_treasury_address (getenv E)))"
    and "cs_chain s = None"
  shows "\<exists>s'. ensure_chain_genesis E p None w s = (Inr 3, s')
    \<and> store_ok E p s' [make_genesis_block E (money_policy_for_wallet_policy (getenv E) p None)]
    \<and> validate_chain_blocks E p [make_genesis_block E (money_policy_for_wallet_policy (getenv E) p None)] = Inr []
    \<and> ensure_chain_genesis E p None w' s' = (Inr 0, s')"
proof -
  have "stored_chain s []" using assms(3) by (simp add: stored_chain_def)
  from ensure_genesis_empty [OF assms(1,2) this, of w] obtain s' where
    s': "ensure_chain_genesis E p None w s = (Inr 3, s')" "store_ok E p s' [genesis_of E p]" by blast
  moreover have "ensure_chain_genesis E p None w' s' = (Inr 0, s')"
    using s'(2) by (intro ensure_genesis_again [of _ _ _ "[]"]) (simp add: store_ok_def)
  ultimately show ?thesis
    using genesis_valid [OF assms(1)] by (auto simp: validate_chain_blocks_valid)
qed

theorem ensure_chain_genesis_creates_witness:
  "\<exists>s'. ensure_chain_genesis demo_env None None demo_io empty_store = (Inr 3, s')"
  using ensure_chain_genesis_creates [OF demo_genesis_ok demo_treasury_stable, of empty_store demo_io demo_io]
  by (auto simp: empty_store_def)

text \<open>
  C6. The balance a node serves is the balance of the chain. On files whose index cache agrees
  with the chain, \<open>chain_balance_atomic\<close> returns the sum of all deltas the chain records for
  the address, whether it reads the cache or rebuilds it, and leaves chain and cache in
  agreement. The addresses on the chain must be non-empty and stable under normalisation.
\<close>

theorem chain_balance_atomic_is_chain_sum:
  assumes "store_ok E p s bs" and "validate_chain_blocks E p bs = Inr []" and "readable_addresses bs"
  shows "\<exists>s'. chain_balance_atomic E p w address s =
      (Inr (sum_list (map tx_delta_atomic
         (filter (\<lambda>tx. normalize_address (tx_address tx) = normalize_address address) (chain_txs bs)))), s')
    \<and> store_ok E p s' bs"
proof -
  have sorted: "sorted (map block_sort_key bs)"
    using assms(1) by (auto simp: store_ok_def stored_chain_def split: option.splits)
  have dist: "distinct (map tx_id (chain_txs bs))"
  proof (cases "bs = []")
    case False
    then show ?thesis
      using assms(2) valid_chain_sorted(1) [OF _ sorted]
      by (intro distinct_ids_stripped) (simp add: validate_chain_blocks_valid extends_ok_global)
  qed simp
  have "dget (dsorted (chain_balance_index bs)) a 0 = sum_list (map tx_delta_atomic
      (filter (\<lambda>tx. normalize_address (tx_address tx) = a) (chain_txs bs)))" for a
    using bal.replay_at_distinct [OF dist, of a]
    by (simp add: chain_balance_index_def dget_dsorted bal.replay_dict_ok sum_list_map_filter'
        bal_entry_delta_at cong: map_cong)
  then show ?thesis
    using stored_balance_index_ok [OF assms, of w] by (auto simp: chain_balance_atomic_def sbind_def slift_def)
qed

theorem chain_balance_atomic_is_chain_sum_witness:
  "\<exists>s s'. chain_balance_atomic demo_env None demo_io ''bob'' s = (Inr 0, s')"
proof -
  obtain s where s: "store_ok demo_env None s [genesis_of demo_env None]" by (rule demo_genesis_store)
  have valid: "validate_chain_blocks demo_env None [genesis_of demo_env None] = Inr []"
    using genesis_valid [OF demo_genesis_ok] by (simp add: validate_chain_blocks_valid)
  have read: "readable_addresses [genesis_of demo_env None]"
    using demo_genesis_readable by (simp add: demo_money_policy)
  have "filter (\<lambda>tx. normalize_address (tx_address tx) = ''bob'') (chain_txs [genesis_of demo_env None]) = []"
    by (simp add: demo_money_policy genesis_chain_transactions_def
        make_chain_transaction_def genesis_args_def tx_args_def Let_def demo_reserve_address demo_fund_address
        demo_treasury demo_treasury_normal)
  with chain_balance_atomic_is_chain_sum [OF s valid read, of demo_io "''bob''"] show ?thesis
    by (auto simp: demo_norm)
qed

text \<open>
  C7. The history a node serves from its index is the history a scan of the chain finds, for
  every address, every filter on transaction types, every limit and either direction.
\<close>

theorem chain_address_history_is_scan:
  assumes "store_ok E p s bs" and "validate_chain_blocks E p bs = Inr errors"
  shows "\<exists>s'. chain_address_history E p w address types limit newest_first s =
      (Inr (present_history newest_first limit
         (address_history_scan (normalize_address address) types bs)), s')
    \<and> store_ok E p s' bs"
  by (rule chain_address_history_ok [OF assms])

theorem chain_address_history_is_scan_witness:
  "\<exists>s s'. chain_address_history demo_env None demo_io ''bob'' None (Some 0) True s = (Inr [], s')"
proof -
  obtain s where s: "store_ok demo_env None s [genesis_of demo_env None]" by (rule demo_genesis_store)
  have "validate_chain_blocks demo_env None [genesis_of demo_env None] = Inr []"
    using genesis_valid [OF demo_genesis_ok] by (simp add: validate_chain_blocks_valid)
  from chain_address_history_is_scan [OF s this, of demo_io "''bob''" None "Some 0" True] show ?thesis
    by (auto simp: present_history_def)
qed

text \<open>
  C18. What is saved is what is loaded: after \<open>save_chain_blocks\<close>, \<open>list_chain_blocks\<close> returns
  the same blocks, field for field, in chain order. The blocks must have the fields the code
  always fills in, no validator signature (the loader drops it), and addresses that are stable
  under normalisation (the loader normalises them again).
\<close>

theorem save_then_load:
  assumes "\<forall>b \<in> set bs. block_storable b"
  shows "fst (load_blocks E p w (snd (save_chain_blocks E p w' bs s))) = Inr (order_blocks bs)"
proof -
  have "\<exists>sz mt. cs_chain (snd (save_chain_blocks E p w' bs s)) = Some (chain_document bs, sz, mt)"
    by (auto simp: save_chain_blocks_def rebuild_chain_indexes_def sbind_def slift_def Let_def
        split: sum.split prod.split)
  then show ?thesis
    using list_chain_blocks_document [OF assms, of E p "io_now w"] by (auto simp: load_blocks_def)
qed

theorem save_then_load_witness:
  "fst (load_blocks demo_env None demo_io (snd (save_chain_blocks demo_env None demo_io
     [genesis_of demo_env None] empty_store))) = Inr [genesis_of demo_env None]"
  using save_then_load [of "[genesis_of demo_env None]" demo_env None demo_io demo_io empty_store]
    genesis_storable [OF demo_genesis_ok demo_treasury_stable]
  by (simp add: order_blocks_def)

text \<open>
  C16. A wallet can only be debited by its keys. When the chain accepts the signature of a
  transaction that needs one, and the transaction does not claim the fixed-wallet scheme, the
  Ed25519 signature on the canonical text of the transaction is good, the signing key is the
  one the debited address is derived from, and a policy that asks for post-quantum signatures
  got a good ML-DSA-65 signature as well.
\<close>

theorem accepted_signature_binds_key:
  assumes "verify_chain_transaction_signature E p tx = Inr None"
    and "tx_type tx = ''wallet_transfer_debit'' \<or> truthy (jget (tx_metadata tx) ''signature_required'')"
    and "meta_text (tx_metadata tx) ''address_scheme'' \<noteq> ADDRESS_SCHEME_FIXED"
  shows "signed_by_ed25519 E tx \<and> key_bound_to_address E tx
    \<and> (wp_require_post_quantum_wallet_signatures (active_wallet_policy (getenv E) p) \<longrightarrow> signed_by_mldsa65 E tx)"
proof -
  have "signature_required tx"
    using assms(2) by (auto simp: signature_required_def signable_wallet_transaction_types_def)
  from verify_signature_accepts [OF assms(1) this] show ?thesis
    using assms(3)
    by cases (auto simp: key_bound_to_address_def Let_def opt_or_Some_text)
qed

definition demo_signed_tx :: "string \<Rightarrow> string \<Rightarrow> obj \<Rightarrow> ChainTransaction" where
  "demo_signed_tx key address md = (demo_tx ''t3'' address (- 1))
     \<lparr>tx_type := ''wallet_transfer_debit'', tx_public_key_b64 := Some key, tx_signature_b64 := Some key,
      tx_metadata := md\<rparr>"

theorem accepted_signature_binds_key_witness:
  "key_bound_to_address demo_env (demo_signed_tx ''alice'' ''alice''
     [(''address_scheme'', JStr ''ed25519-pubkey-sha256-v1'')])"
proof -
  let ?p = "Some (WalletPolicy_make (\<lambda>_. None) None (Some False) None None)"
  let ?tx = "demo_signed_tx ''alice'' ''alice'' [(''address_scheme'', JStr ''ed25519-pubkey-sha256-v1'')]"
  have meta: "meta_text (tx_metadata ?tx) k = (if k = ''address_scheme'' then ''ed25519-pubkey-sha256-v1'' else [])" for k
    by (simp add: demo_signed_tx_def meta_text_def jget_Cons str_of_or_def py_strip_def py_isspace_def)
  have f: "tx_public_key_b64 ?tx = Some ''alice''" "tx_signature_b64 ?tx = Some ''alice''"
    "tx_type ?tx = ''wallet_transfer_debit''" "tx_address ?tx = ''alice''"
    by (simp_all add: demo_signed_tx_def demo_tx_def)
  have pq: "\<not> wp_require_post_quantum_wallet_signatures (active_wallet_policy os ?p)" for os
    by (simp add: active_wallet_policy_def WalletPolicy_make_def)
  have "normalize_address ''alice'' = ''alice''" by code_simp
  then have "verify_chain_transaction_signature demo_env ?p ?tx = Inr None"
    by (simp add: verify_chain_transaction_signature_def Let_def meta f pq scheme_defs some_if_text_def
        address_from_public_key_b64_def verify_payload_signature_def demo_env_def
        signable_wallet_transaction_types_def)
  from accepted_signature_binds_key [OF this] show ?thesis
    by (simp add: meta f scheme_defs)
qed

text \<open>
  C17. Under the fixed-wallet scheme nothing binds the key to the address: such a transaction
  is accepted exactly when it names the hybrid signing scheme and carries two good signatures
  by whatever keys it names itself. The address it debits plays no part.
\<close>

theorem fixed_scheme_accepts_any_keys:
  assumes "signature_required tx" and "meta_text (tx_metadata tx) ''address_scheme'' = ADDRESS_SCHEME_FIXED"
    and "some_if_text (tx_public_key_b64 tx) = Some pk" and "some_if_text (tx_signature_b64 tx) = Some sig"
  shows "verify_chain_transaction_signature E p tx = Inr None \<longleftrightarrow>
    meta_text (tx_metadata tx) ''signing_scheme'' = SIGNING_SCHEME_HYBRID
    \<and> meta_text (tx_metadata tx) ''pq_signature_scheme'' = SIGNING_SCHEME_ML_DSA_65
    \<and> meta_text (tx_metadata tx) ''pq_public_key_b64'' \<noteq> [] \<and> meta_text (tx_metadata tx) ''pq_signature_b64'' \<noteq> []
    \<and> signed_by_ed25519 E tx \<and> signed_by_mldsa65 E tx"
  using assms
  by (auto simp: verify_chain_transaction_signature_def signature_required_def Let_def
      signed_by_ed25519_def signed_by_mldsa65_def verify_hybrid_payload_signature_def
      opt_or_Some_text [OF assms(3)] opt_or_Some_text [OF assms(4)])

definition demo_fixed_meta :: obj where
  "demo_fixed_meta = [(''address_scheme'', JStr ''fixed-wallet-id-sha256-v1''),
     (''signing_scheme'', JStr ''hybrid-ed25519-ml-dsa-65-v1''), (''pq_signature_scheme'', JStr ''ml-dsa-65-v1''),
     (''pq_public_key_b64'', JStr ''mallory''), (''pq_signature_b64'', JStr ''mallory'')]"

theorem fixed_scheme_accepts_any_keys_witness:
  "verify_chain_transaction_signature demo_env None (demo_signed_tx ''mallory'' ''bob'' demo_fixed_meta) = Inr None
   \<and> \<not> key_bound_to_address demo_env (demo_signed_tx ''mallory'' ''bob'' demo_fixed_meta)"
proof -
  let ?tx = "demo_signed_tx ''mallory'' ''bob'' demo_fixed_meta"
  have meta: "meta_text (tx_metadata ?tx) ''address_scheme'' = ADDRESS_SCHEME_FIXED"
    "meta_text (tx_metadata ?tx) ''signing_scheme'' = SIGNING_SCHEME_HYBRID"
    "meta_text (tx_metadata ?tx) ''pq_signature_scheme'' = SIGNING_SCHEME_ML_DSA_65"
    "meta_text (tx_metadata ?tx) ''pq_public_key_b64'' = ''mallory''"
    "meta_text (tx_metadata ?tx) ''pq_signature_b64'' = ''mallory''"
    by (simp_all add: demo_signed_tx_def demo_fixed_meta_def meta_text_def jget_Cons str_of_or_def py_strip_def
        py_isspace_def scheme_defs)
  have f: "tx_public_key_b64 ?tx = Some ''mallory''" "tx_signature_b64 ?tx = Some ''mallory''"
    "signature_required ?tx" "tx_address ?tx = ''bob''"
    by (simp_all add: demo_signed_tx_def demo_tx_def signature_required_def signable_wallet_transaction_types_def)
  have "signed_by_ed25519 demo_env ?tx" "signed_by_mldsa65 demo_env ?tx"
    by (simp_all add: signed_by_ed25519_def signed_by_mldsa65_def verify_payload_signature_def
        verify_payload_mldsa65_signature_def f meta opt_or_def str_or_def) (simp_all add: demo_env_def)
  moreover have "\<not> key_bound_to_address demo_env ?tx"
    by (simp add: key_bound_to_address_def Let_def meta f opt_or_def str_or_def demo_norm)
      (simp add: address_from_public_key_b64_def demo_env_def)
  ultimately show ?thesis
    using fixed_scheme_accepts_any_keys [of ?tx "''mallory''" "''mallory''" demo_env None] meta f
    by (simp add: some_if_text_def)
qed

text \<open>
  The decimal text of an amount is read back as the same number of atomic units, for
  every amount, negative ones included, and every number of decimals.
\<close>

theorem coins_text_round_trip: "coins_to_atomic (atomic_to_coins v mp) mp = Inr v"
proof -
  let ?s = "10 ^ mp_decimals mp :: int"
  have "nat (\<bar>v\<bar> mod ?s) < 10 ^ mp_decimals mp"
    by (simp add: nat_less_iff)
  note parts = coins_to_atomic_parts [OF this, of "nat (\<bar>v\<bar> div ?s)"]
  have sum: "\<bar>v\<bar> div ?s * ?s + \<bar>v\<bar> mod ?s = \<bar>v\<bar>" by (rule div_mult_mod_eq)
  have nats: "int (nat (\<bar>v\<bar> div ?s)) = \<bar>v\<bar> div ?s" "int (nat (\<bar>v\<bar> mod ?s)) = \<bar>v\<bar> mod ?s"
    by (simp_all add: pos_imp_zdiv_nonneg_iff)
  show ?thesis
    using parts unfolding nats sum by (cases "v < 0") (simp_all add: atomic_to_coins_def Let_def)
qed

end
