(* ===== verification/Validators.thy ===== *)
theory Validators
  imports ChainStoreProofs
begin

text \<open>
  The validator registry of \<open>src/src/cai_compute_chain/validators.py\<close>: records, the registry
  file, stake that counts only as far as the chain has it locked, quorum, committee selection
  and the division of a fee among validators in proportion to their stake.

  Time stamps stay texts; \<open>datetime.fromisoformat\<close> is a parameter \<open>from_iso\<close> that reads one
  as an instant with or without a time zone. The registry file is the list of its records,
  typed as the dataclass declares them.
\<close>

record ValidatorRecord =
  v_validator_id :: string
  v_wallet_id :: "string option"
  v_address :: string
  v_state :: string
  v_bonded_atomic :: int
  v_static_ip_confirmed :: bool
  v_current_node_id :: "string option"
  v_advertised_api_host :: "string option"
  v_advertised_data_host :: "string option"
  v_activated_at :: "string option"
  v_ha_enabled :: bool
  v_active_replica_node_id :: "string option"
  v_active_replica_lease_until :: "string option"
  v_replica_node_ids :: "string list"
  v_unbonding_started_at :: "string option"
  v_unbonding_available_at :: "string option"
  v_jailed_at :: "string option"
  v_unjail_available_at :: "string option"
  v_last_slash_atomic :: int
  v_total_slashed_atomic :: int
  v_source :: string
  v_source_url :: "string option"
  v_last_seen_at :: "string option"
  v_updated_at :: "string option"

record ValidatorCommitteeSnapshot =
  vc_validator_ids :: "string list"
  vc_bonded_atomic_by_validator_id :: "int dict"
  vc_total_bonded_atomic :: int
  vc_quorum_bond_atomic :: int

record ValidatorFeeShare =
  fs_validator_id :: string
  fs_bonded_atomic :: int
  fs_amount_atomic :: int

section \<open>The registry\<close>

definition state_rank :: "string \<Rightarrow> nat" where
  "state_rank s = (if s = validator_state_value BONDED then 0
     else if s = validator_state_value UNBONDING then 1
     else if s = validator_state_value JAILED then 2
     else if s = validator_state_value UNBONDED then 3 else 99)"

text \<open>\<open>list_validator_records\<close>: the records of the file, bonded ones first, then by id.\<close>

definition list_validator_records :: "ValidatorRecord list \<Rightarrow> ValidatorRecord list" where
  "list_validator_records file = sort_key (\<lambda>r. (state_rank (v_state r), v_validator_id r)) file"

definition get_validator_record :: "string \<Rightarrow> ValidatorRecord list \<Rightarrow> ValidatorRecord option" where
  "get_validator_record i file = List.find (\<lambda>r. v_validator_id r = i) (list_validator_records file)"

definition normalize_validator_id :: "string \<Rightarrow> string" where
  "normalize_validator_id v =
    (let n = py_lower (py_strip v) in if py_startswith n ''cai_'' then drop 4 n else n)"

text \<open>\<open>_merged_replica_node_ids\<close> on groups that are lists of texts.\<close>

definition merged_replica_node_ids :: "string list list \<Rightarrow> string list" where
  "merged_replica_node_ids groups = dedup_first (filter (\<lambda>v. v \<noteq> []) (map py_strip (concat groups)))"

text \<open>A single optional id as a group: \<open>None\<close> adds nothing, a text is itself.\<close>

definition id_group :: "string option \<Rightarrow> string list" where
  "id_group v = (case v of None \<Rightarrow> [] | Some s \<Rightarrow> [s])"

text \<open>\<open>v if v is not None else (previous.f if previous else None)\<close>\<close>

definition or_prev :: "'v option \<Rightarrow> ('r \<Rightarrow> 'v option) \<Rightarrow> 'r option \<Rightarrow> 'v option" where
  "or_prev v f prev = (case v of Some x \<Rightarrow> Some x | None \<Rightarrow> (case prev of None \<Rightarrow> None | Some r \<Rightarrow> f r))"

text \<open>
  The keyword arguments of \<open>sync_validator_record\<close> are a record of the same shape and the two
  that are not fields, \<open>ha_role\<close> and the optional \<open>ha_enabled\<close>; the fields \<open>v_activated_at\<close>
  and \<open>v_ha_enabled\<close> of the argument record are not read.
\<close>

definition validator_record_of ::
  "string \<Rightarrow> string \<Rightarrow> bool option \<Rightarrow> ValidatorRecord option \<Rightarrow> ValidatorRecord \<Rightarrow> ValidatorRecord" where
  "validator_record_of now ha_role ha_enabled previous a =
    (let activated0 = (case previous of None \<Rightarrow> None | Some r \<Rightarrow> v_activated_at r);
         activated = (if v_state a = validator_state_value BONDED \<and> activated0 = None
                      then Some now else activated0);
         role = py_lower (py_strip ha_role);
         ha = (case (ha_enabled, previous) of
                 (None, Some r) \<Rightarrow> v_ha_enabled r | (None, None) \<Rightarrow> False | (Some h, _) \<Rightarrow> h);
         node0 = or_prev (v_current_node_id a) v_current_node_id previous;
         replicas = (if ha then merged_replica_node_ids
                       [case previous of None \<Rightarrow> [] | Some r \<Rightarrow> v_replica_node_ids r,
                        v_replica_node_ids a,
                        id_group (v_current_node_id a),
                        case previous of None \<Rightarrow> [] | Some r \<Rightarrow> id_group (v_current_node_id r)]
                     else []);
         active0 = (if ha then or_prev (v_active_replica_node_id a) v_active_replica_node_id previous else None);
         lease0 = (if ha then or_prev (v_active_replica_lease_until a) v_active_replica_lease_until previous
                   else None);
         (node, active, lease) =
           (case previous of
              Some r \<Rightarrow> if ha \<and> role = ''passive''
                then (v_current_node_id r, v_active_replica_node_id r, v_active_replica_lease_until r)
                else (node0, active0, lease0)
            | None \<Rightarrow> (node0, active0, lease0))
     in a\<lparr>v_bonded_atomic := max 0 (v_bonded_atomic a),
         v_current_node_id := node,
         v_advertised_api_host := or_prev (v_advertised_api_host a) v_advertised_api_host previous,
         v_advertised_data_host := or_prev (v_advertised_data_host a) v_advertised_data_host previous,
         v_activated_at := activated,
         v_ha_enabled := ha,
         v_active_replica_node_id := active,
         v_active_replica_lease_until := lease,
         v_replica_node_ids := replicas,
         v_last_slash_atomic := max 0 (v_last_slash_atomic a),
         v_total_slashed_atomic := max (v_total_slashed_atomic a)
           (case previous of None \<Rightarrow> 0 | Some r \<Rightarrow> v_total_slashed_atomic r),
         v_last_seen_at := Some (opt_or (v_last_seen_at a) now),
         v_updated_at := Some (opt_or (v_updated_at a) now)\<rparr>)"

text \<open>\<open>existing[index] = record\<close> at the first record with the id, or \<open>append\<close>.\<close>

fun put_record :: "ValidatorRecord \<Rightarrow> ValidatorRecord list \<Rightarrow> ValidatorRecord list" where
  "put_record r [] = [r]"
| "put_record r (x # xs) =
     (if v_validator_id x = v_validator_id r then r # xs else x # put_record r xs)"

definition sync_validator_record ::
  "string \<Rightarrow> string \<Rightarrow> bool option \<Rightarrow> ValidatorRecord \<Rightarrow> ValidatorRecord list
   \<Rightarrow> ValidatorRecord \<times> ValidatorRecord list" where
  "sync_validator_record now ha_role ha_enabled a file =
    (let existing = list_validator_records file;
         previous = List.find (\<lambda>r. v_validator_id r = v_validator_id a) existing;
         r = validator_record_of now ha_role ha_enabled previous a
     in (r, put_record r existing))"

section \<open>Stake that the chain backs\<close>

definition chain_backed_validator_record :: "int dict \<Rightarrow> ValidatorRecord \<Rightarrow> ValidatorRecord" where
  "chain_backed_validator_record locked r =
    (if v_state r \<noteq> validator_state_value BONDED then r
     else if v_bonded_atomic r > 0
        \<and> dget locked (normalize_validator_id (v_validator_id r)) 0 \<ge> v_bonded_atomic r then r
     else r\<lparr>v_state := validator_state_value UNBONDED, v_bonded_atomic := 0\<rparr>)"

text \<open>\<open>{f(k): g(v) for k, v in items}\<close>\<close>

definition dict_of :: "('k \<times> 'v) list \<Rightarrow> ('k \<times> 'v) list" where
  "dict_of kvs = foldl (\<lambda>d (k, v). AList.update k v d) [] kvs"

definition chain_locked_bonds_by_validator ::
  "chain_env \<Rightarrow> WalletPolicy option \<Rightarrow> io \<Rightarrow> (chain_store, py_error, int dict) sres" where
  "chain_locked_bonds_by_validator E p w =
    sbind (stored_locked_bond_index E p w) (\<lambda>index.
    let locked = dict_of (map (\<lambda>(k, v). (normalize_validator_id k, max 0 v)) index);
        total = dsum locked
    in if total \<le> 0 then slift (Inr [])
       else sbind (chain_balance_atomic E p w (validator_bond_pool_chain_address
              (MoneyPolicy_for (getenv E) (wp_chain_network (active_wallet_policy (getenv E) p))))) (\<lambda>pool.
         slift (Inr (if pool \<noteq> total then [] else locked))))"

definition list_effective_validator_records ::
  "chain_env \<Rightarrow> WalletPolicy option \<Rightarrow> io \<Rightarrow> ValidatorRecord list
   \<Rightarrow> (chain_store, py_error, ValidatorRecord list) sres" where
  "list_effective_validator_records E p w file =
    sbind (chain_locked_bonds_by_validator E p w) (\<lambda>locked.
    slift (Inr (map (chain_backed_validator_record locked) (list_validator_records file))))"

definition is_bonded :: "ValidatorRecord \<Rightarrow> bool" where
  "is_bonded r \<longleftrightarrow> v_state r = validator_state_value BONDED \<and> v_bonded_atomic r > 0"

definition list_bonded_validators ::
  "chain_env \<Rightarrow> WalletPolicy option \<Rightarrow> io \<Rightarrow> ValidatorRecord list
   \<Rightarrow> (chain_store, py_error, ValidatorRecord list) sres" where
  "list_bonded_validators E p w file =
    sbind (list_effective_validator_records E p w file) (\<lambda>rs. slift (Inr (filter is_bonded rs)))"

definition quorum_bond_atomic :: "int \<Rightarrow> int" where
  "quorum_bond_atomic bonded = (if bonded \<le> 0 then 0 else (2 * bonded + 2) div 3)"

section \<open>Sharing a fee\<close>

text \<open>The bonds that count, by normalised id, in the order of first occurrence.\<close>

definition bonded_step :: "int dict \<Rightarrow> int dict \<Rightarrow> string \<Rightarrow> int dict" where
  "bonded_step raw_bonds d raw_id =
    (let i = normalize_validator_id raw_id in
     if i = [] then d
     else let bond0 = (case map_of raw_bonds raw_id of Some b \<Rightarrow> b | None \<Rightarrow> dget raw_bonds i 0);
              bond = max 0 bond0
          in if bond \<le> 0 then d else bump i bond d)"

definition bonded_by_validator :: "int dict \<Rightarrow> string list option \<Rightarrow> int dict" where
  "bonded_by_validator raw_bonds validator_ids =
    (let candidates = (case validator_ids of Some (i # is) \<Rightarrow> i # is | _ \<Rightarrow> map fst raw_bonds)
     in foldl (bonded_step raw_bonds) [] candidates)"

text \<open>The floor shares with their remainders, in the order of the ids.\<close>

record fee_part =
  fp_validator_id :: string
  fp_bonded_atomic :: int
  fp_amount_atomic :: int
  fp_remainder :: int

definition floor_parts :: "int \<Rightarrow> int \<Rightarrow> int dict \<Rightarrow> fee_part list" where
  "floor_parts amount tot bonds =
     map (\<lambda>(i, b). \<lparr>fp_validator_id = i, fp_bonded_atomic = b,
        fp_amount_atomic = amount * b div tot, fp_remainder = amount * b mod tot\<rparr>) (dsorted bonds)"

text \<open>The indices that get one unit more: those with the largest remainders, ties by id.\<close>

definition bumped_indices :: "fee_part list \<Rightarrow> int \<Rightarrow> nat list" where
  "bumped_indices parts left = take (nat left)
     (sort_key (\<lambda>i. (- fp_remainder (parts ! i), fp_validator_id (parts ! i))) [0 ..< length parts])"

definition bump_parts :: "fee_part list \<Rightarrow> nat list \<Rightarrow> fee_part list" where
  "bump_parts parts is = map (\<lambda>i. if i \<in> set is
     then (parts ! i)\<lparr>fp_amount_atomic := fp_amount_atomic (parts ! i) + 1\<rparr> else parts ! i) [0 ..< length parts]"

definition split_amount_by_validator_bond :: "int \<Rightarrow> int dict \<Rightarrow> string list option \<Rightarrow> ValidatorFeeShare list" where
  "split_amount_by_validator_bond amount0 raw_bonds validator_ids =
    (let amount = max 0 amount0 in
     if amount \<le> 0 then []
     else let bonds = bonded_by_validator raw_bonds validator_ids;
              total = dsum bonds
          in if total \<le> 0 then []
             else let parts = floor_parts amount total bonds;
                      left = amount - sum_list (map fp_amount_atomic parts);
                      parts' = bump_parts parts (bumped_indices parts left)
                  in map (\<lambda>f. \<lparr>fs_validator_id = fp_validator_id f, fs_bonded_atomic = fp_bonded_atomic f,
                               fs_amount_atomic = fp_amount_atomic f\<rparr>)
                       (filter (\<lambda>f. fp_amount_atomic f > 0) parts'))"

section \<open>Committees\<close>

definition committee_of :: "ValidatorRecord list \<Rightarrow> ValidatorCommitteeSnapshot" where
  "committee_of rs =
    (let bonded_map = dict_of (map (\<lambda>r. (v_validator_id r, v_bonded_atomic r)) rs);
         total = dsum bonded_map
     in \<lparr>vc_validator_ids = map fst (dsorted bonded_map),
         vc_bonded_atomic_by_validator_id = bonded_map,
         vc_total_bonded_atomic = total,
         vc_quorum_bond_atomic = quorum_bond_atomic total\<rparr>)"

definition build_validator_committee_snapshot ::
  "chain_env \<Rightarrow> WalletPolicy option \<Rightarrow> io \<Rightarrow> ValidatorRecord list
   \<Rightarrow> (chain_store, py_error, ValidatorCommitteeSnapshot) sres" where
  "build_validator_committee_snapshot E p w file =
    sbind (list_bonded_validators E p w file) (\<lambda>rs. slift (Inr (committee_of rs)))"

text \<open>
  \<open>_select_weighted_committee\<close>: \<open>key seed id weight\<close> is the double
  \<open>math.log(_deterministic_uniform(seed, id)) / float(weight)\<close>, a rational number. Python's
  \<open>sort(reverse=True)\<close> keeps the order of equal entries.
\<close>

definition select_weighted_committee ::
  "(string \<Rightarrow> string \<Rightarrow> int \<Rightarrow> rat) \<Rightarrow> string \<Rightarrow> nat \<Rightarrow> ValidatorRecord list \<Rightarrow> ValidatorRecord list" where
  "select_weighted_committee key seed desired bonded =
    take desired (rev (sort_key (\<lambda>r. (key seed (v_validator_id r) (max 1 (v_bonded_atomic r)), v_validator_id r))
      (rev bonded)))"

definition select_validator_committee_snapshot ::
  "(string \<Rightarrow> string \<Rightarrow> int \<Rightarrow> rat) \<Rightarrow> chain_env \<Rightarrow> WalletPolicy option \<Rightarrow> io \<Rightarrow> ValidatorRecord list
   \<Rightarrow> string \<Rightarrow> MoneyPolicy option \<Rightarrow> int option \<Rightarrow> (chain_store, py_error, ValidatorCommitteeSnapshot) sres" where
  "select_validator_committee_snapshot key E p w file seed mp target_size =
    sbind (list_bonded_validators E p w file) (\<lambda>bonded.
    if bonded = [] then slift (Inr (committee_of []))
    else
      let policy = (case mp of Some m \<Rightarrow> m | None \<Rightarrow> MoneyPolicy_default (getenv E));
          desired0 = (case target_size of Some n \<Rightarrow> n | None \<Rightarrow> mp_validator_committee_target_size policy);
          n = int (length bonded);
          desired = min (if desired0 \<le> 0 then n else desired0) n;
          selected = (if desired \<ge> n then bonded
                      else select_weighted_committee key seed (nat desired) bonded)
      in slift (Inr (committee_of selected)))"

section \<open>Time stamps, leases and conflicting records\<close>

datatype iso_time = Naive int | Aware int

text \<open>\<open>_parse_iso_datetime\<close>: a missing, empty or malformed value is none.\<close>

definition parse_iso_datetime :: "(string \<Rightarrow> iso_time option) \<Rightarrow> string option \<Rightarrow> iso_time option" where
  "parse_iso_datetime from_iso v = Option.bind (some_if_text v) from_iso"

text \<open>\<open>a > b\<close> on instants: Python refuses to compare one with and one without a time zone.\<close>

fun iso_greater :: "iso_time \<Rightarrow> iso_time \<Rightarrow> (py_error, bool) res" where
  "iso_greater (Naive a) (Naive b) = Inr (a > b)"
| "iso_greater (Aware a) (Aware b) = Inr (a > b)"
| "iso_greater _ _ = Inl TypeError"

text \<open>\<open>replace(tzinfo=UTC)\<close> on an instant without a time zone\<close>

fun in_utc :: "iso_time \<Rightarrow> int" where
  "in_utc (Naive a) = a"
| "in_utc (Aware a) = a"

definition validator_ha_lease_is_active ::
  "(string \<Rightarrow> iso_time option) \<Rightarrow> iso_time \<Rightarrow> ValidatorRecord option \<Rightarrow> bool" where
  "validator_ha_lease_is_active from_iso now r =
    (case r of None \<Rightarrow> False
     | Some r \<Rightarrow>
       if \<not> v_ha_enabled r \<or> some_if_text (v_active_replica_node_id r) = None then False
       else case parse_iso_datetime from_iso (v_active_replica_lease_until r) of
           None \<Rightarrow> False | Some lease \<Rightarrow> in_utc lease > in_utc now)"

definition severity :: "string \<Rightarrow> int" where
  "severity s = (if s = validator_state_value JAILED then 3
     else if s = validator_state_value UNBONDING then 2
     else if s = validator_state_value BONDED then 1
     else if s = validator_state_value UNBONDED then 0 else - 1)"

definition should_replace_record ::
  "(string \<Rightarrow> iso_time option) \<Rightarrow> ValidatorRecord \<Rightarrow> ValidatorRecord \<Rightarrow> (py_error, bool) res" where
  "should_replace_record from_iso existing incoming =
    (if v_source existing = ''local'' \<and> v_source incoming \<noteq> ''local'' then Inr False
     else if v_source incoming = ''local'' \<and> v_source existing \<noteq> ''local'' then Inr True
     else
       let slashed = v_total_slashed_atomic incoming > v_total_slashed_atomic existing;
           fallback = slashed \<or> severity (v_state incoming) \<ge> severity (v_state existing)
       in case (parse_iso_datetime from_iso (v_updated_at existing), parse_iso_datetime from_iso (v_updated_at incoming)) of
         (Some e, Some i) \<Rightarrow>
           rbind (iso_greater i e) (\<lambda>newer. if newer then Inr True
             else rbind (iso_greater e i) (\<lambda>older. if older then Inr False else Inr fallback))
       | _ \<Rightarrow> Inr fallback)"

definition should_merge_remote_ha_lease ::
  "(string \<Rightarrow> iso_time option) \<Rightarrow> ValidatorRecord \<Rightarrow> ValidatorRecord \<Rightarrow> (py_error, bool) res" where
  "should_merge_remote_ha_lease from_iso existing incoming =
    (if v_source incoming = ''local'' \<or> \<not> v_ha_enabled incoming then Inr False
     else if v_state incoming \<noteq> validator_state_value BONDED then Inr False
     else if some_if_text (v_active_replica_node_id incoming) = None
       \<or> some_if_text (v_active_replica_lease_until incoming) = None then Inr False
     else if \<not> v_ha_enabled existing \<and> v_source existing = ''local'' then Inr False
     else case parse_iso_datetime from_iso (v_active_replica_lease_until incoming) of None \<Rightarrow> Inr False
       | Some i \<Rightarrow> (case parse_iso_datetime from_iso (v_active_replica_lease_until existing) of None \<Rightarrow> Inr True
         | Some e \<Rightarrow> rbind (iso_greater e i) (\<lambda>later. Inr (\<not> later))))"

text \<open>A penalty that other nodes decided, applied to a record that is not this node's own.\<close>

definition apply_remote_validator_penalty_to_registry ::
  "string \<Rightarrow> string \<Rightarrow> int \<Rightarrow> bool \<Rightarrow> string option \<Rightarrow> string option \<Rightarrow> ValidatorRecord list
   \<Rightarrow> bool \<times> ValidatorRecord list" where
  "apply_remote_validator_penalty_to_registry now validator_id slash jailed observed_at source_url file =
    (let i = py_lower (py_strip validator_id) in
     if i = [] then (False, file)
     else case get_validator_record i file of None \<Rightarrow> (False, file)
     | Some e \<Rightarrow>
       if v_source e = ''local'' then (False, file)
       else
         let s = max 0 slash;
             t = e\<lparr>v_state := (if jailed then validator_state_value JAILED else v_state e),
                   v_bonded_atomic := (if jailed then 0
                     else if s > 0 then max 0 (v_bonded_atomic e - s) else v_bonded_atomic e),
                   v_unbonding_started_at := (if jailed then None else v_unbonding_started_at e),
                   v_unbonding_available_at := (if jailed then None else v_unbonding_available_at e),
                   v_jailed_at := (if jailed
                     then (case some_if_text observed_at of Some t \<Rightarrow> Some t | None \<Rightarrow> v_jailed_at e)
                     else v_jailed_at e),
                   v_last_slash_atomic := (if s > 0 then s else v_last_slash_atomic e),
                   v_total_slashed_atomic := (if s > 0 then v_total_slashed_atomic e + s
                     else v_total_slashed_atomic e)\<rparr>
         in if t = e then (False, file)
            else (True, snd (sync_validator_record now ''standalone'' None
              (t\<lparr>v_active_replica_node_id := None, v_active_replica_lease_until := None,
                 v_replica_node_ids := [],
                 v_source_url := (case some_if_text (v_source_url e) of Some u \<Rightarrow> Some u | None \<Rightarrow> source_url),
                 v_updated_at := None\<rparr>) file)))"

section \<open>Quorums\<close>

text \<open>
  The contract of a stake quorum: it asks for two thirds of the stake and never for more than
  there is. Any two groups that reach it share at least a third of the stake.
\<close>

locale stake_quorum =
  fixes quorum :: "int \<Rightarrow> int"
  assumes two_thirds: "0 < t \<Longrightarrow> 2 * t \<le> 3 * quorum t"
    and reachable: "0 < t \<Longrightarrow> quorum t \<le> t"
begin

lemma overlap:
  fixes weight :: "'v \<Rightarrow> int"
  assumes fin: "finite M" and sub: "A \<subseteq> M" "B \<subseteq> M" and nonneg: "\<And>v. v \<in> M \<Longrightarrow> 0 \<le> weight v"
    and pos: "0 < sum weight M"
    and a: "quorum (sum weight M) \<le> sum weight A" and b: "quorum (sum weight M) \<le> sum weight B"
  shows "sum weight M \<le> 3 * sum weight (A \<inter> B)"
proof -
  have "finite A" "finite B" using fin sub finite_subset by blast+
  then have "sum weight A + sum weight B = sum weight (A \<union> B) + sum weight (A \<inter> B)"
    by (rule sum.union_inter [symmetric])
  moreover have "sum weight (A \<union> B) \<le> sum weight M"
    using fin sub nonneg by (intro sum_mono2) auto
  ultimately show ?thesis
    using two_thirds [OF pos] a b by linarith
qed

lemma no_two_disjoint:
  fixes weight :: "'v \<Rightarrow> int"
  assumes "finite M" "A \<subseteq> M" "B \<subseteq> M" "\<And>v. v \<in> M \<Longrightarrow> 0 \<le> weight v" "0 < sum weight M"
    "quorum (sum weight M) \<le> sum weight A" "quorum (sum weight M) \<le> sum weight B"
  shows "A \<inter> B \<noteq> {}"
  using overlap [OF assms] assms(5) by auto

end

interpretation bond_quorum: stake_quorum quorum_bond_atomic
  by unfold_locales (auto simp: quorum_bond_atomic_def)

section \<open>Dictionaries from comprehensions\<close>

lemma dict_of_ok [simp]: "dict_ok (dict_of kvs)"
proof -
  have "dict_ok d \<Longrightarrow> dict_ok (foldl (\<lambda>d (k, v). AList.update k v d) d kvs)" for d
    by (induction kvs arbitrary: d) (auto split: prod.split)
  then show ?thesis by (simp add: dict_of_def)
qed

lemma dict_of_distinct: "dict_ok kvs \<Longrightarrow> dict_of kvs = kvs"
proof -
  have "dict_ok (d @ kvs) \<Longrightarrow> foldl (\<lambda>d (k, v). AList.update k v d) d kvs = d @ kvs" for d
  proof (induction kvs arbitrary: d)
    case (Cons kv kvs)
    obtain k v where kv: "kv = (k, v)" by (cases kv)
    then have "AList.update k v d = d @ [(k, v)]"
      using Cons.prems by (intro update_new) auto
    with Cons.IH [of "d @ [(k, v)]"] Cons.prems kv show ?case by simp
  qed simp
  then show "dict_ok kvs \<Longrightarrow> dict_of kvs = kvs" by (simp add: dict_of_def)
qed

section \<open>The registry keeps one record per validator\<close>

lemma ids_put_record:
  "set (map v_validator_id (put_record r xs)) = insert (v_validator_id r) (set (map v_validator_id xs))"
  by (induction xs) auto

lemma distinct_put_record:
  "distinct (map v_validator_id xs) \<Longrightarrow> distinct (map v_validator_id (put_record r xs))"
  by (induction xs) (use ids_put_record in auto)

lemma in_put_record:
  "distinct (map v_validator_id xs) \<Longrightarrow>
   x \<in> set (put_record r xs) \<longleftrightarrow> x = r \<or> (x \<in> set xs \<and> v_validator_id x \<noteq> v_validator_id r)"
  by (induction xs) (auto simp: image_iff)

lemma mset_list_validator_records [simp]: "mset (list_validator_records file) = mset file"
  by (simp add: list_validator_records_def)

lemma set_list_validator_records [simp]: "set (list_validator_records file) = set file"
  by (simp add: list_validator_records_def)

lemma distinct_list_validator_records [simp]:
  "distinct (map v_validator_id (list_validator_records file)) = distinct (map v_validator_id file)"
  by (metis mset_eq_imp_distinct_iff mset_list_validator_records mset_map)

lemma get_validator_record_Some:
  assumes "distinct (map v_validator_id file)"
  shows "get_validator_record i file = Some r \<longleftrightarrow> r \<in> set file \<and> v_validator_id r = i"
proof -
  have "List.find (\<lambda>r. v_validator_id r = i) xs = Some r \<longleftrightarrow> r \<in> set xs \<and> v_validator_id r = i"
    if "distinct (map v_validator_id xs)" for xs
    using that by (induction xs) auto
  from this [of "list_validator_records file"] assms show ?thesis
    by (simp add: get_validator_record_def)
qed

lemma validator_record_of_fields [simp]:
  "v_validator_id (validator_record_of now role ha prev a) = v_validator_id a"
  "v_state (validator_record_of now role ha prev a) = v_state a"
  "v_bonded_atomic (validator_record_of now role ha prev a) = max 0 (v_bonded_atomic a)"
  "v_source (validator_record_of now role ha prev a) = v_source a"
  "v_last_slash_atomic (validator_record_of now role ha prev a) = max 0 (v_last_slash_atomic a)"
  "v_total_slashed_atomic (validator_record_of now role ha prev a) =
     max (v_total_slashed_atomic a) (case prev of None \<Rightarrow> 0 | Some r \<Rightarrow> v_total_slashed_atomic r)"
  by (simp_all add: validator_record_of_def Let_def split: prod.split)

lemma sync_validator_record_file:
  assumes "distinct (map v_validator_id file)"
  shows "distinct (map v_validator_id (snd (sync_validator_record now role ha a file)))"
    and "get_validator_record i (snd (sync_validator_record now role ha a file)) =
      (if i = v_validator_id a then Some (fst (sync_validator_record now role ha a file))
       else get_validator_record i file)"
proof -
  let ?r = "fst (sync_validator_record now role ha a file)"
  have file': "snd (sync_validator_record now role ha a file) = put_record ?r (list_validator_records file)"
    and id: "v_validator_id ?r = v_validator_id a"
    by (simp_all add: sync_validator_record_def Let_def)
  show d: "distinct (map v_validator_id (snd (sync_validator_record now role ha a file)))"
    using assms by (simp add: file' distinct_put_record)
  have "get_validator_record i (put_record ?r (list_validator_records file)) = Some r \<longleftrightarrow>
      (if i = v_validator_id a then Some ?r else get_validator_record i file) = Some r" for r
    using assms d id
    by (auto simp: get_validator_record_Some file' in_put_record)
  then show "get_validator_record i (snd (sync_validator_record now role ha a file)) =
      (if i = v_validator_id a then Some ?r else get_validator_record i file)"
    unfolding file' by (metis option.exhaust)
qed

section \<open>Largest remainders\<close>

lemma bonded_by_validator_ok:
  "dict_ok (bonded_by_validator raw ids)" "\<forall>(k, b) \<in> set (bonded_by_validator raw ids). 0 < b"
proof -
  let ?P = "\<lambda>d :: int dict. dict_ok d \<and> (\<forall>k. 0 \<le> dget d k 0) \<and> (\<forall>(k, b) \<in> set d. 0 < b)"
  have pos_bump: "\<forall>(k', b') \<in> set (bump k b d). 0 < b'"
    if "dict_ok d" "\<forall>k. 0 \<le> dget d k 0" "\<forall>(k, b) \<in> set d. 0 < b" "0 < b" for k b and d :: "int dict"
  proof -
    have val: "v = dget (bump k b d) k' 0" if "(k', v) \<in> set (bump k b d)" for k' v
      using that \<open>dict_ok d\<close> by (simp add: dget_in_set del: dget_bump)
    have pos: "0 < dget (bump k b d) k' 0" if k': "k' \<in> fst ` set (bump k b d)" for k'
    proof (cases "k' = k")
      case True
      then show ?thesis using \<open>0 < b\<close> \<open>\<forall>k. 0 \<le> dget d k 0\<close> by (simp add: add_nonneg_pos)
    next
      case False
      then obtain v where "(k', v) \<in> set d" using k' by auto
      with False \<open>dict_ok d\<close> \<open>\<forall>(k, b) \<in> set d. 0 < b\<close> show ?thesis
        by (auto simp: dget_in_set)
    qed
    have "0 < v" if "(k', v) \<in> set (bump k b d)" for k' v
      unfolding val [OF that] by (rule pos) (rule image_eqI [OF _ that], simp)
    then show ?thesis by blast
  qed
  have step: "?P (bonded_step raw d i)" if P: "?P d" for d i
  proof -
    have "bonded_step raw d i = d \<or> (\<exists>k b. 0 < b \<and> bonded_step raw d i = bump k b d)"
      by (fastforce simp: bonded_step_def Let_def not_le)
    moreover have "?P (bump k b d)" if "0 < b" for k b
      using P that pos_bump [of d b k] by simp
    ultimately show ?thesis using P by (elim disjE exE conjE) simp_all
  qed
  have "?P (foldl (bonded_step raw) d is)" if "?P d" for d "is"
    using that
  proof (induction "is" arbitrary: d)
    case (Cons i "is")
    from Cons.IH [OF step [OF Cons.prems]] show ?case by simp
  qed simp
  from this [of "[]"] show "dict_ok (bonded_by_validator raw ids)"
    "\<forall>(k, b) \<in> set (bonded_by_validator raw ids). 0 < b"
    by (simp_all add: bonded_by_validator_def Let_def)
qed

lemma length_floor_parts [simp]: "length (floor_parts amount tot bonds) = length bonds"
  by (simp add: floor_parts_def length_dsorted)

lemma sum_list_dsorted_int: "sum_list (map f (dsorted d)) = sum_list (map f d)"
  for f :: "_ \<Rightarrow> int"
  by (metis mset_dsorted mset_map sum_mset_sum_list)

text \<open>The floor shares leave less than one unit per validator.\<close>

lemma floor_parts_left:
  assumes "0 < dsum bonds" "0 \<le> amount"
  shows "0 \<le> amount - sum_list (map fp_amount_atomic (floor_parts amount (dsum bonds) bonds))"
    and "amount - sum_list (map fp_amount_atomic (floor_parts amount (dsum bonds) bonds)) \<le> int (length bonds)"
proof -
  let ?T = "dsum bonds"
  let ?q = "\<lambda>kb. amount * snd kb div ?T" and ?r = "\<lambda>kb. amount * snd kb mod ?T"
  have amounts: "sum_list (map fp_amount_atomic (floor_parts amount ?T bonds)) = sum_list (map ?q bonds)"
    by (simp add: floor_parts_def comp_def case_prod_beta sum_list_dsorted_int)
  have split: "sum_list (map ?q ds) * ?T + sum_list (map ?r ds) = amount * dsum ds" for ds :: "int dict"
    by (induction ds) (simp_all add: algebra_simps)
  have "0 \<le> sum_list (map ?r ds) \<and> sum_list (map ?r ds) \<le> int (length ds) * ?T" for ds :: "int dict"
  proof (induction ds)
    case (Cons d ds)
    have "0 \<le> ?r d" "?r d < ?T" using assms(1) by simp_all
    with Cons show ?case by (simp add: algebra_simps)
  qed simp
  note rems = this [of bonds]
  have "0 \<le> (amount - sum_list (map ?q bonds)) * ?T"
    "(amount - sum_list (map ?q bonds)) * ?T \<le> int (length bonds) * ?T"
    unfolding left_diff_distrib using split [of bonds] rems by linarith+
  then show "0 \<le> amount - sum_list (map fp_amount_atomic (floor_parts amount ?T bonds))"
    "amount - sum_list (map fp_amount_atomic (floor_parts amount ?T bonds)) \<le> int (length bonds)"
    using assms(1) by (simp_all add: amounts zero_le_mult_iff)
qed

lemma bumped_indices_ok:
  "distinct (bumped_indices parts n)" "set (bumped_indices parts n) \<subseteq> {0 ..< length parts}"
  "0 \<le> n \<Longrightarrow> n \<le> int (length parts) \<Longrightarrow> int (length (bumped_indices parts n)) = n"
  using set_take_subset by (fastforce simp: bumped_indices_def distinct_take)+

lemma sum_bump_parts:
  assumes "distinct is" "set is \<subseteq> {0 ..< length parts}"
  shows "sum_list (map fp_amount_atomic (bump_parts parts is)) =
    sum_list (map fp_amount_atomic parts) + int (length is)"
proof -
  have "sum_list (map fp_amount_atomic (bump_parts parts is)) =
      (\<Sum>i \<in> {0 ..< length parts}. fp_amount_atomic (parts ! i) + (if i \<in> set is then 1 else 0))"
    by (simp add: bump_parts_def comp_def interv_sum_list_conv_sum_set_nat if_distrib cong: if_cong)
  also have "\<dots> = (\<Sum>i \<in> {0 ..< length parts}. fp_amount_atomic (parts ! i)) + int (card (set is))"
    using assms(2) by (simp add: sum.distrib sum.If_cases inf.absorb2)
  also have "\<dots> = sum_list (map fp_amount_atomic parts) + int (length is)"
    using assms(1) by (simp add: distinct_card sum_list_sum_nth)
  finally show ?thesis .
qed

text \<open>The shares before the empty ones are dropped.\<close>

definition fee_parts :: "int \<Rightarrow> int dict \<Rightarrow> fee_part list" where
  "fee_parts amount bonds =
    (let parts = floor_parts amount (dsum bonds) bonds
     in bump_parts parts (bumped_indices parts (amount - sum_list (map fp_amount_atomic parts))))"

lemma nth_bump_parts:
  "i < length parts \<Longrightarrow> bump_parts parts is ! i =
    (if i \<in> set is then (parts ! i)\<lparr>fp_amount_atomic := fp_amount_atomic (parts ! i) + 1\<rparr> else parts ! i)"
  by (simp add: bump_parts_def)

lemma length_bump_parts [simp]: "length (bump_parts parts is) = length parts"
  by (simp add: bump_parts_def)

lemma length_fee_parts [simp]: "length (fee_parts amount bonds) = length bonds"
  by (simp add: fee_parts_def Let_def)

lemma sum_fee_parts:
  assumes "0 < dsum bonds" "0 \<le> amount"
  shows "sum_list (map fp_amount_atomic (fee_parts amount bonds)) = amount"
proof -
  let ?parts = "floor_parts amount (dsum bonds) bonds"
  let ?left = "amount - sum_list (map fp_amount_atomic ?parts)"
  have "int (length (bumped_indices ?parts ?left)) = ?left"
    using floor_parts_left [OF assms] by (intro bumped_indices_ok(3)) simp_all
  then show ?thesis
    using sum_bump_parts [OF bumped_indices_ok(1,2), of ?parts ?left]
    by (simp add: fee_parts_def Let_def)
qed

lemma nth_fee_parts:
  assumes "i < length bonds"
  shows "fp_validator_id (fee_parts amount bonds ! i) = fst (dsorted bonds ! i)"
    "fp_bonded_atomic (fee_parts amount bonds ! i) = snd (dsorted bonds ! i)"
    "fp_amount_atomic (fee_parts amount bonds ! i) \<in>
       {amount * snd (dsorted bonds ! i) div dsum bonds, amount * snd (dsorted bonds ! i) div dsum bonds + 1}"
proof -
  have "i < length (dsorted bonds)" using assms by (simp add: length_dsorted)
  then have "floor_parts amount (dsum bonds) bonds ! i =
      \<lparr>fp_validator_id = fst (dsorted bonds ! i), fp_bonded_atomic = snd (dsorted bonds ! i),
       fp_amount_atomic = amount * snd (dsorted bonds ! i) div dsum bonds,
       fp_remainder = amount * snd (dsorted bonds ! i) mod dsum bonds\<rparr>"
    by (simp add: floor_parts_def case_prod_beta)
  then show "fp_validator_id (fee_parts amount bonds ! i) = fst (dsorted bonds ! i)"
    "fp_bonded_atomic (fee_parts amount bonds ! i) = snd (dsorted bonds ! i)"
    "fp_amount_atomic (fee_parts amount bonds ! i) \<in>
       {amount * snd (dsorted bonds ! i) div dsum bonds, amount * snd (dsorted bonds ! i) div dsum bonds + 1}"
    using assms by (simp_all add: fee_parts_def Let_def nth_bump_parts)
qed

lemma sum_list_filter_pos: "(\<And>x. x \<in> set xs \<Longrightarrow> 0 \<le> f x) \<Longrightarrow>
    sum_list (map f (filter (\<lambda>x. 0 < f x) xs)) = sum_list (map f xs)"
  for f :: "_ \<Rightarrow> int"
  by (induction xs) fastforce+

lemma fee_parts_nonneg:
  assumes "0 < dsum bonds" "0 \<le> amount" "\<forall>(k, b) \<in> set bonds. 0 < b" "f \<in> set (fee_parts amount bonds)"
  shows "0 \<le> fp_amount_atomic f"
proof -
  obtain i where i: "i < length bonds" "f = fee_parts amount bonds ! i"
    using assms(4) by (auto simp: in_set_conv_nth)
  have "dsorted bonds ! i \<in> set bonds"
    using i(1) nth_mem [of i "dsorted bonds"] by (simp add: length_dsorted)
  then have "0 < snd (dsorted bonds ! i)" using assms(3) by (auto simp: case_prod_beta)
  then have "0 \<le> amount * snd (dsorted bonds ! i) div dsum bonds"
    using assms(1,2) by (simp add: pos_imp_zdiv_nonneg_iff)
  then show ?thesis using nth_fee_parts(3) [OF i(1), of amount] i(2) by auto
qed

lemma split_amount_unfold:
  assumes "0 < amount" "0 < dsum (bonded_by_validator raw ids)"
  shows "split_amount_by_validator_bond amount raw ids =
    map (\<lambda>f. \<lparr>fs_validator_id = fp_validator_id f, fs_bonded_atomic = fp_bonded_atomic f,
              fs_amount_atomic = fp_amount_atomic f\<rparr>)
      (filter (\<lambda>f. fp_amount_atomic f > 0) (fee_parts amount (bonded_by_validator raw ids)))"
  using assms by (simp add: split_amount_by_validator_bond_def fee_parts_def Let_def)

lemma split_amount_total:
  assumes "0 < amount" "0 < dsum (bonded_by_validator raw ids)"
  shows "sum_list (map fs_amount_atomic (split_amount_by_validator_bond amount raw ids)) = amount"
proof -
  let ?parts = "fee_parts amount (bonded_by_validator raw ids)"
  have "sum_list (map fp_amount_atomic (filter (\<lambda>f. 0 < fp_amount_atomic f) ?parts)) =
      sum_list (map fp_amount_atomic ?parts)"
    using assms bonded_by_validator_ok(2) by (intro sum_list_filter_pos fee_parts_nonneg) auto
  then show ?thesis
    using assms by (simp add: split_amount_unfold comp_def sum_fee_parts)
qed

lemma split_amount_member:
  assumes "0 < amount" "0 < dsum (bonded_by_validator raw ids)"
    and "s \<in> set (split_amount_by_validator_bond amount raw ids)"
  shows "(fs_validator_id s, fs_bonded_atomic s) \<in> set (bonded_by_validator raw ids)"
    "0 < fs_amount_atomic s"
    "fs_amount_atomic s \<in>
      {amount * fs_bonded_atomic s div dsum (bonded_by_validator raw ids),
       amount * fs_bonded_atomic s div dsum (bonded_by_validator raw ids) + 1}"
proof -
  let ?bonds = "bonded_by_validator raw ids"
  obtain f where f: "f \<in> set (fee_parts amount ?bonds)" "0 < fp_amount_atomic f"
    "s = \<lparr>fs_validator_id = fp_validator_id f, fs_bonded_atomic = fp_bonded_atomic f,
          fs_amount_atomic = fp_amount_atomic f\<rparr>"
    using assms by (auto simp: split_amount_unfold)
  then obtain i where i: "i < length ?bonds" "f = fee_parts amount ?bonds ! i"
    by (auto simp: in_set_conv_nth)
  have "dsorted ?bonds ! i \<in> set ?bonds"
    using i(1) nth_mem [of i "dsorted ?bonds"] by (simp add: length_dsorted)
  then show "(fs_validator_id s, fs_bonded_atomic s) \<in> set ?bonds"
    using nth_fee_parts [OF i(1), of amount] i(2) f(3) by simp
  show "0 < fs_amount_atomic s" using f by simp
  show "fs_amount_atomic s \<in> {amount * fs_bonded_atomic s div dsum ?bonds,
       amount * fs_bonded_atomic s div dsum ?bonds + 1}"
    using nth_fee_parts [OF i(1), of amount] i(2) f(3) by simp
qed

text \<open>More stake never earns less.\<close>

lemma fee_parts_monotone:
  assumes "0 < dsum bonds" "0 < amount" "i < length bonds" "j < length bonds"
    and more: "snd (dsorted bonds ! j) < snd (dsorted bonds ! i)"
  shows "fp_amount_atomic (fee_parts amount bonds ! j) \<le> fp_amount_atomic (fee_parts amount bonds ! i)"
proof -
  let ?T = "dsum bonds" and ?bi = "snd (dsorted bonds ! i)" and ?bj = "snd (dsorted bonds ! j)"
  let ?parts = "floor_parts amount ?T bonds"
  let ?is = "bumped_indices ?parts (amount - sum_list (map fp_amount_atomic ?parts))"
  let ?key = "\<lambda>i. (- fp_remainder (?parts ! i), fp_validator_id (?parts ! i))"
  have nth: "?parts ! k = \<lparr>fp_validator_id = fst (dsorted bonds ! k), fp_bonded_atomic = snd (dsorted bonds ! k),
       fp_amount_atomic = amount * snd (dsorted bonds ! k) div ?T,
       fp_remainder = amount * snd (dsorted bonds ! k) mod ?T\<rparr>" if "k < length bonds" for k
    using that by (simp add: floor_parts_def case_prod_beta length_dsorted)
  have prod: "amount * ?bj < amount * ?bi" using assms(2) more by simp
  then have floors: "amount * ?bj div ?T \<le> amount * ?bi div ?T"
    using assms(1) by (intro zdiv_mono1) auto
  have amt: "fp_amount_atomic (fee_parts amount bonds ! k) =
      amount * snd (dsorted bonds ! k) div ?T + (if k \<in> set ?is then 1 else 0)" if "k < length bonds" for k
    using that by (simp add: fee_parts_def Let_def nth_bump_parts nth)
  show ?thesis
  proof (rule ccontr)
    assume "\<not> ?thesis"
    then have same: "amount * ?bj div ?T = amount * ?bi div ?T" and "i \<notin> set ?is" "j \<in> set ?is"
      using floors amt [OF assms(3)] amt [OF assms(4)] by (auto split: if_splits)
    moreover have "i \<in> set (sort_key ?key [0 ..< length ?parts])" using assms(3) by simp
    ultimately have "?key j \<le> ?key i"
      unfolding bumped_indices_def by (intro sorted_take_le) auto
    moreover have "amount * ?bj mod ?T < amount * ?bi mod ?T"
      using prod div_mult_mod_eq [of "amount * ?bi" ?T] div_mult_mod_eq [of "amount * ?bj" ?T]
      unfolding same by linarith
    ultimately show False using nth [OF assms(3)] nth [OF assms(4)] by auto
  qed
qed

section \<open>Committees do not depend on the order of the registry\<close>

lemma select_weighted_committee_order:
  assumes "mset rs = mset rs'" "distinct (map v_validator_id rs)"
  shows "select_weighted_committee key seed n rs = select_weighted_committee key seed n rs'"
proof -
  have "inj_on (\<lambda>r. (key seed (v_validator_id r) (max 1 (v_bonded_atomic r)), v_validator_id r)) (set (rev rs))"
    using assms(2) by (auto simp: distinct_map inj_on_def)
  from sort_key_unique [OF _ this, of "rev rs'"] assms(1) show ?thesis
    by (simp add: select_weighted_committee_def)
qed

lemma select_weighted_committee_subset:
  "set (select_weighted_committee key seed n rs) \<subseteq> set rs"
  "length (select_weighted_committee key seed n rs) = min (length rs) n"
  using set_take_subset by (fastforce simp: select_weighted_committee_def)+

lemma select_weighted_committee_distinct:
  assumes "distinct (map v_validator_id rs)"
  shows "distinct (map v_validator_id (select_weighted_committee key seed n rs))"
proof -
  let ?s = "sort_key (\<lambda>r. (key seed (v_validator_id r) (max 1 (v_bonded_atomic r)), v_validator_id r)) (rev rs)"
  have "mset (map v_validator_id (rev ?s)) = mset (map v_validator_id rs)" by simp
  then have "distinct (map v_validator_id (rev ?s))"
    using assms mset_eq_imp_distinct_iff by blast
  then show ?thesis
    by (simp add: select_weighted_committee_def take_map [symmetric])
qed

lemma committee_of_distinct:
  assumes "distinct (map v_validator_id rs)"
  shows "vc_bonded_atomic_by_validator_id (committee_of rs) = map (\<lambda>r. (v_validator_id r, v_bonded_atomic r)) rs"
    "vc_total_bonded_atomic (committee_of rs) = sum_list (map v_bonded_atomic rs)"
    "set (vc_validator_ids (committee_of rs)) = v_validator_id ` set rs"
    "vc_quorum_bond_atomic (committee_of rs) = quorum_bond_atomic (sum_list (map v_bonded_atomic rs))"
proof -
  have "dict_of (map (\<lambda>r. (v_validator_id r, v_bonded_atomic r)) rs) = map (\<lambda>r. (v_validator_id r, v_bonded_atomic r)) rs"
    using assms by (intro dict_of_distinct) (simp add: comp_def)
  then show "vc_bonded_atomic_by_validator_id (committee_of rs) = map (\<lambda>r. (v_validator_id r, v_bonded_atomic r)) rs"
    "vc_total_bonded_atomic (committee_of rs) = sum_list (map v_bonded_atomic rs)"
    "set (vc_validator_ids (committee_of rs)) = v_validator_id ` set rs"
    "vc_quorum_bond_atomic (committee_of rs) = quorum_bond_atomic (sum_list (map v_bonded_atomic rs))"
    by (auto simp: committee_of_def Let_def dsum_def comp_def image_image)
qed

section \<open>Stake that counts is locked on the chain\<close>

lemma chain_backed_bonded:
  assumes "is_bonded (chain_backed_validator_record locked r)"
  shows "chain_backed_validator_record locked r = r" "is_bonded r"
    "v_bonded_atomic r \<le> dget locked (normalize_validator_id (v_validator_id r)) 0"
  using assms by (auto simp: is_bonded_def chain_backed_validator_record_def split: if_splits)

lemma bonded_sum_le_locked:
  assumes "dict_ok locked" "\<forall>(k, v) \<in> set locked. 0 \<le> v"
    and "distinct (map (\<lambda>r. normalize_validator_id (v_validator_id r)) rs)"
    and "\<forall>r \<in> set rs. v_bonded_atomic r \<le> dget locked (normalize_validator_id (v_validator_id r)) 0"
  shows "sum_list (map v_bonded_atomic rs) \<le> dsum locked"
proof -
  let ?f = "\<lambda>r. normalize_validator_id (v_validator_id r)"
  have nonneg: "0 \<le> dget locked k 0" for k
    using assms(1,2) nonneg_entries by blast
  have "sum_list (map v_bonded_atomic rs) \<le> sum_list (map (\<lambda>r. dget locked (?f r) 0) rs)"
    using assms(4) by (intro sum_list_mono) auto
  also have "\<dots> = (\<Sum>k \<in> set (map ?f rs). dget locked k 0)"
    using sum_list_distinct_conv_sum_set [OF assms(3), of "\<lambda>k. dget locked k 0"] by (simp add: comp_def)
  also have "\<dots> \<le> (\<Sum>k \<in> set (map ?f rs) \<union> fst ` set locked. dget locked k 0)"
    by (intro sum_mono2) (auto simp: nonneg)
  also have "\<dots> = (\<Sum>k \<in> fst ` set locked. dget locked k 0)"
    by (intro sum.mono_neutral_right) (auto simp: dget_absent)
  also have "\<dots> = dsum locked"
  proof -
    have "dsum locked = sum_list (map (\<lambda>k. dget locked k 0) (map fst locked))"
      unfolding dsum_def map_map comp_def
      using assms(1) by (intro arg_cong [where f = sum_list] map_cong) (auto simp: dget_in_set)
    also have "\<dots> = (\<Sum>k \<in> set (map fst locked). dget locked k 0)"
      by (rule sum_list_distinct_conv_sum_set [OF assms(1)])
    finally show ?thesis by simp
  qed
  finally show ?thesis .
qed

end
