(* ===== verification/ValidatorProps.thy ===== *)
theory ValidatorProps
  imports Validators Demo
begin

text \<open>
  The properties of the validator registry: exact division of fees, overlapping quorums,
  committees that every node computes alike, and a lock that counts for two records.
\<close>

text \<open>
  C24. A fee is divided exactly. With a positive amount and some stake, the shares add up to the
  amount; every share is positive, belongs to a validator with stake, and is the proportional
  share rounded down or one unit more; no validator gets two shares; and more stake never
  earns less.
\<close>

theorem split_amount_exact:
  assumes "0 < amount" and "0 < dsum (bonded_by_validator raw_bonds ids)"
  shows "sum_list (map fs_amount_atomic (split_amount_by_validator_bond amount raw_bonds ids)) = amount
    \<and> (\<forall>s \<in> set (split_amount_by_validator_bond amount raw_bonds ids).
        0 < fs_amount_atomic s
        \<and> (fs_validator_id s, fs_bonded_atomic s) \<in> set (bonded_by_validator raw_bonds ids)
        \<and> fs_amount_atomic s - amount * fs_bonded_atomic s div dsum (bonded_by_validator raw_bonds ids) \<in> {0, 1})
    \<and> distinct (map fs_validator_id (split_amount_by_validator_bond amount raw_bonds ids))
    \<and> (\<forall>s \<in> set (split_amount_by_validator_bond amount raw_bonds ids).
       \<forall>t \<in> set (split_amount_by_validator_bond amount raw_bonds ids).
        fs_bonded_atomic t < fs_bonded_atomic s \<longrightarrow> fs_amount_atomic t \<le> fs_amount_atomic s)"
proof -
  let ?bonds = "bonded_by_validator raw_bonds ids"
  let ?shares = "split_amount_by_validator_bond amount raw_bonds ids"
  have idx: "\<exists>i < length ?bonds. s = \<lparr>fs_validator_id = fp_validator_id (fee_parts amount ?bonds ! i),
      fs_bonded_atomic = fp_bonded_atomic (fee_parts amount ?bonds ! i),
      fs_amount_atomic = fp_amount_atomic (fee_parts amount ?bonds ! i)\<rparr>" if "s \<in> set ?shares" for s
    using that assms by (fastforce simp: split_amount_unfold in_set_conv_nth)
  have "map fp_validator_id (fee_parts amount ?bonds) = map fst (dsorted ?bonds)"
    by (rule nth_equalityI) (simp_all add: length_dsorted nth_fee_parts)
  then have "distinct (map fp_validator_id (fee_parts amount ?bonds))"
    using bonded_by_validator_ok(1) by (simp add: dict_ok_dsorted)
  then have "distinct (map fs_validator_id ?shares)"
    using assms by (simp add: split_amount_unfold comp_def distinct_map_filter)
  moreover have "fs_amount_atomic t \<le> fs_amount_atomic s"
    if "s \<in> set ?shares" "t \<in> set ?shares" "fs_bonded_atomic t < fs_bonded_atomic s" for s t
    using idx [OF that(1)] idx [OF that(2)] that(3) fee_parts_monotone [OF assms(2,1)]
    by (auto simp: nth_fee_parts)
  ultimately show ?thesis
    using split_amount_total [OF assms] split_amount_member [OF assms] by fastforce
qed

theorem split_amount_exact_witness:
  "sum_list (map fs_amount_atomic (split_amount_by_validator_bond 100 [(''a'', 1), (''b'', 2)] None)) = 100"
proof -
  have "dsum (bonded_by_validator [(''a'', 1), (''b'', 2)] None) = 3" by code_simp
  then show ?thesis
    using split_amount_exact [of 100 "[(''a'', 1), (''b'', 2)]" None] by simp
qed

text \<open>
  C25. Two groups of committee members that each reach the quorum share at least a third of the
  committee's stake, so a committee cannot confirm two contradicting decisions without
  members of a third of the stake voting for both.
\<close>

theorem committee_quorums_overlap:
  assumes "distinct (map v_validator_id rs)" and "\<forall>r \<in> set rs. 0 < v_bonded_atomic r" and "rs \<noteq> []"
    and "A \<subseteq> set rs" and "B \<subseteq> set rs"
    and "vc_quorum_bond_atomic (committee_of rs) \<le> sum v_bonded_atomic A"
    and "vc_quorum_bond_atomic (committee_of rs) \<le> sum v_bonded_atomic B"
  shows "vc_total_bonded_atomic (committee_of rs) \<le> 3 * sum v_bonded_atomic (A \<inter> B) \<and> A \<inter> B \<noteq> {}"
proof -
  have "distinct rs" using assms(1) distinct_map by blast
  then have t: "sum_list (map v_bonded_atomic rs) = sum v_bonded_atomic (set rs)"
    by (rule sum_list_distinct_conv_sum_set)
  have pos: "0 < sum v_bonded_atomic (set rs)"
    using assms(2,3) by (intro sum_pos) auto
  have "0 \<le> v_bonded_atomic r" if "r \<in> set rs" for r using assms(2) that by (simp add: less_imp_le)
  note facts = finite_set assms(4,5) this pos assms(6) [unfolded committee_of_distinct(4) [OF assms(1)] t]
    assms(7) [unfolded committee_of_distinct(4) [OF assms(1)] t]
  show ?thesis
    using bond_quorum.overlap [OF facts] bond_quorum.no_two_disjoint [OF facts]
    by (simp add: committee_of_distinct(2) [OF assms(1)] t)
qed

definition demo_validator :: "string \<Rightarrow> int \<Rightarrow> ValidatorRecord" where
  "demo_validator i bond = \<lparr>v_validator_id = i, v_wallet_id = None, v_address = i, v_state = ''bonded'',
     v_bonded_atomic = bond, v_static_ip_confirmed = True, v_current_node_id = None,
     v_advertised_api_host = None, v_advertised_data_host = None, v_activated_at = None, v_ha_enabled = False,
     v_active_replica_node_id = None, v_active_replica_lease_until = None, v_replica_node_ids = [],
     v_unbonding_started_at = None, v_unbonding_available_at = None, v_jailed_at = None,
     v_unjail_available_at = None, v_last_slash_atomic = 0, v_total_slashed_atomic = 0, v_source = ''peer'',
     v_source_url = None, v_last_seen_at = None, v_updated_at = None\<rparr>"

text \<open>Stakes of 3, 3, 3 and 1: two groups of exactly the quorum of 7 share 4 of the 10.\<close>

theorem committee_quorums_overlap_witness:
  "let a = demo_validator ''a'' 3; b = demo_validator ''b'' 3; c = demo_validator ''c'' 3; d = demo_validator ''d'' 1;
       committee = committee_of [a, b, c, d]
   in vc_total_bonded_atomic committee = 10 \<and> vc_quorum_bond_atomic committee = 7
      \<and> sum v_bonded_atomic {a, b, d} = 7 \<and> sum v_bonded_atomic {b, c, d} = 7
      \<and> vc_total_bonded_atomic committee \<le> 3 * sum v_bonded_atomic ({a, b, d} \<inter> {b, c, d})"
proof -
  let ?a = "demo_validator ''a'' 3" and ?b = "demo_validator ''b'' 3" and ?c = "demo_validator ''c'' 3" and ?d = "demo_validator ''d'' 1"
  let ?rs = "[?a, ?b, ?c, ?d]"
  have d: "distinct (map v_validator_id ?rs)" by (simp add: demo_validator_def)
  have t: "vc_total_bonded_atomic (committee_of ?rs) = 10"
    unfolding committee_of_distinct(2) [OF d] by (simp add: demo_validator_def)
  have q: "vc_quorum_bond_atomic (committee_of ?rs) = 7"
    unfolding committee_of_distinct(4) [OF d] by (simp add: quorum_bond_atomic_def demo_validator_def)
  have sums: "sum v_bonded_atomic {?a, ?b, ?d} = 7" "sum v_bonded_atomic {?b, ?c, ?d} = 7"
    by (simp_all add: demo_validator_def)
  have "vc_total_bonded_atomic (committee_of ?rs) \<le> 3 * sum v_bonded_atomic ({?a, ?b, ?d} \<inter> {?b, ?c, ?d}) \<and> {?a, ?b, ?d} \<inter> {?b, ?c, ?d} \<noteq> {}"
    by (rule committee_quorums_overlap [OF d]) (use q sums in \<open>simp_all add: demo_validator_def\<close>)
  then show ?thesis using t q sums by (simp only: Let_def)
qed

lemma select_snapshot_cases:
  assumes "select_validator_committee_snapshot key E p w file seed mp (Some n) s = (Inr c, s')" and "0 < n"
  obtains bonded where "list_bonded_validators E p w file s = (Inr bonded, s')"
    and "c = committee_of (if length bonded \<le> nat n then bonded
       else select_weighted_committee key seed (nat n) bonded)"
proof -
  obtain bonded s1 where b: "list_bonded_validators E p w file s = (Inr bonded, s1)"
    using assms(1) by (auto simp: select_validator_committee_snapshot_def sbind_def split: prod.splits sum.splits)
  have le: "int (length bonded) \<le> min n (int (length bonded)) \<longleftrightarrow> length bonded \<le> nat n"
    using assms(2) by auto
  have "min n (int (length bonded)) = n" if "\<not> length bonded \<le> nat n" using that by auto
  then have "s1 = s'" "c = committee_of (if length bonded \<le> nat n then bonded
       else select_weighted_committee key seed (nat n) bonded)"
    using assms b le
    by (auto simp: select_validator_committee_snapshot_def sbind_def slift_def Let_def split: if_splits)
  with b show thesis by (intro that) simp_all
qed

text \<open>
  C27. Every node that holds the same records computes the same committee, in whatever order its
  registry file lists them; the members are bonded validators, there are at most as many as
  asked for, and the committee is everybody where fewer are bonded.
\<close>

theorem committee_selection_agrees:
  assumes "mset file = mset file'" and "distinct (map v_validator_id file)"
    and "select_validator_committee_snapshot key E p w file seed mp (Some n) s = (Inr c, s')" and "0 < n"
  shows "select_validator_committee_snapshot key E p w file' seed mp (Some n) s = (Inr c, s')
    \<and> (\<exists>bonded. list_bonded_validators E p w file s = (Inr bonded, s')
        \<and> set (vc_validator_ids c) \<subseteq> v_validator_id ` set bonded
        \<and> length (vc_validator_ids c) = min (length bonded) (nat n))"
proof -
  have "inj_on (\<lambda>r. (state_rank (v_state r), v_validator_id r)) (set file)"
    using assms(2) by (auto simp: distinct_map inj_on_def)
  then have same: "list_validator_records file = list_validator_records file'"
    unfolding list_validator_records_def by (rule sort_key_unique [OF assms(1)])
  then have first: "select_validator_committee_snapshot key E p w file' seed mp (Some n) s = (Inr c, s')"
    using assms(3) unfolding select_validator_committee_snapshot_def list_bonded_validators_def
      list_effective_validator_records_def same by simp
  obtain bonded where b: "list_bonded_validators E p w file s = (Inr bonded, s')"
    and c: "c = committee_of (if length bonded \<le> nat n then bonded
       else select_weighted_committee key seed (nat n) bonded)"
    by (rule select_snapshot_cases [OF assms(3,4)])
  have "distinct (map v_validator_id (list_validator_records file))" using assms(2) by simp
  moreover have "v_validator_id (chain_backed_validator_record locked r) = v_validator_id r" for locked r
    by (simp add: chain_backed_validator_record_def)
  ultimately have db: "distinct (map v_validator_id bonded)"
    using b by (auto simp: list_bonded_validators_def list_effective_validator_records_def comp_def
        intro!: distinct_map_filter)
  note ds = select_weighted_committee_distinct [OF db]
  have len: "length (vc_validator_ids (committee_of rs)) = length rs" if "distinct (map v_validator_id rs)" for rs
    using that by (simp add: committee_of_def Let_def dict_of_distinct comp_def length_dsorted)
  have "set (vc_validator_ids c) \<subseteq> v_validator_id ` set bonded
      \<and> length (vc_validator_ids c) = min (length bonded) (nat n)"
    using c assms(4) committee_of_distinct(3) [OF db] committee_of_distinct(3) [OF ds] len [OF db] len [OF ds]
      select_weighted_committee_subset
    by (fastforce simp: min_def split: if_splits)
  with first b show ?thesis by blast
qed

text \<open>A store whose index records a lock of 5 for one validator and of 4 for another.\<close>

definition demo_bonded_store :: chain_store where
  "demo_bonded_store = \<lparr>cs_chain = Some ([], 1, 1),
     cs_index = Some [(''schemaVersion'', JInt CHAIN_INDEX_SCHEMA_VERSION),
       (''chainSchemaVersion'', JInt CHAIN_SCHEMA_VERSION), (''chainId'', JStr (active_chain_id demo_env None)),
       (''chainFile'', JObj [(''exists'', JBool True), (''size'', JInt 1), (''mtimeNs'', JInt 1)]),
       (''balancesAtomic'', JObj [(validator_bond_pool_chain_address
          (MoneyPolicy_for (getenv demo_env) (wp_chain_network (active_wallet_policy (getenv demo_env) None))), JInt 9)]),
       (''validatorLockedBondAtomic'', JObj [(''cai_a'', JInt 5), (''cai_b'', JInt 4)])],
     cs_snapshots = None\<rparr>"

abbreviation demo_records :: "ValidatorRecord list" where
  "demo_records \<equiv> [demo_validator ''a'' 5, demo_validator ''b'' 4]"

lemma demo_bonded:
  "list_bonded_validators demo_env None demo_io demo_records demo_bonded_store = (Inr demo_records, demo_bonded_store)"
  by code_simp

theorem committee_selection_agrees_witness:
  "select_validator_committee_snapshot (\<lambda>_ _ w. of_int w) demo_env None demo_io
     (rev demo_records) ''seed'' None (Some 1) demo_bonded_store
   = (Inr (committee_of [demo_validator ''a'' 5]), demo_bonded_store)"
proof -
  have "select_weighted_committee (\<lambda>_ _ w. of_int w) ''seed'' (nat 1) demo_records = [demo_validator ''a'' 5]"
    by (simp add: select_weighted_committee_def demo_validator_def)
  then have "select_validator_committee_snapshot (\<lambda>_ _ w. of_int w) demo_env None demo_io
     demo_records ''seed'' None (Some 1) demo_bonded_store
     = (Inr (committee_of [demo_validator ''a'' 5]), demo_bonded_store)"
    by (simp add: select_validator_committee_snapshot_def sbind_def slift_def demo_bonded)
  from committee_selection_agrees [OF _ _ this, of "rev demo_records"] show ?thesis
    by (simp add: demo_validator_def)
qed

text \<open>
  C28. One lock counts for every spelling of its account: a record whose id differs from another's
  only by what the normalisation removes, such as the address prefix, is bonded on the lock
  that already backs the other, whatever that lock was made for.
\<close>

theorem one_lock_backs_two_records:
  assumes "is_bonded (chain_backed_validator_record locked r)"
    and "normalize_validator_id (v_validator_id r') = normalize_validator_id (v_validator_id r)"
    and "is_bonded r'" and "v_bonded_atomic r' \<le> v_bonded_atomic r"
  shows "is_bonded (chain_backed_validator_record locked r') \<and> chain_backed_validator_record locked r' = r'"
  using chain_backed_bonded [OF assms(1)] assms(2-)
  by (auto simp: chain_backed_validator_record_def is_bonded_def)

theorem one_lock_backs_two_records_witness:
  "chain_backed_validator_record [(''a'', 5)] (demo_validator ''cai_a'' 5) = demo_validator ''cai_a'' 5"
proof -
  have "normalize_validator_id ''a'' = ''a''" "normalize_validator_id ''cai_a'' = ''a''" by code_simp+
  then show ?thesis
    using one_lock_backs_two_records [of "[(''a'', 5)]" "demo_validator ''a'' 5" "demo_validator ''cai_a'' 5"]
    by (simp add: demo_validator_def is_bonded_def chain_backed_validator_record_def dget_def)
qed

text \<open>
  The registry keeps one record per validator. Writing a record makes it the one found under
  its id and leaves every other id alone; its stake is never negative and the amount it has
  been slashed never goes down.
\<close>

theorem sync_validator_record_registry:
  assumes "distinct (map v_validator_id file)"
    and "sync_validator_record now ha_role ha_enabled a file = (r, file')"
  shows "distinct (map v_validator_id file')
    \<and> get_validator_record i file' = (if i = v_validator_id a then Some r else get_validator_record i file)
    \<and> v_validator_id r = v_validator_id a \<and> v_state r = v_state a \<and> 0 \<le> v_bonded_atomic r
    \<and> (\<forall>old. get_validator_record (v_validator_id a) file = Some old
         \<longrightarrow> v_total_slashed_atomic old \<le> v_total_slashed_atomic r)"
proof -
  have r: "r = validator_record_of now ha_role ha_enabled (get_validator_record (v_validator_id a) file) a"
    using assms(2) by (auto simp: sync_validator_record_def get_validator_record_def Let_def)
  show ?thesis
    using sync_validator_record_file(1) [OF assms(1), of now ha_role ha_enabled a]
      sync_validator_record_file(2) [OF assms(1), of i now ha_role ha_enabled a] assms(2)
    by (simp add: r)
qed

theorem sync_validator_record_registry_witness:
  "get_validator_record ''a'' (snd (sync_validator_record ''now'' ''standalone'' None (demo_validator ''a'' 7) demo_records))
   = Some (fst (sync_validator_record ''now'' ''standalone'' None (demo_validator ''a'' 7) demo_records))"
  using sync_validator_record_registry [of demo_records "''now''" "''standalone''" None "demo_validator ''a'' 7", OF _ prod.collapse [symmetric], of "''a''"]
  by (simp add: demo_validator_def)

text \<open>
  A penalty decided elsewhere never touches this node's own record or another validator's; a
  jailed validator loses its stake and can be no committee member, a slash takes at most the
  stake, and the total slashed grows by exactly the slash.
\<close>

theorem remote_penalty_effect:
  assumes "distinct (map v_validator_id file)"
    and "apply_remote_validator_penalty_to_registry now i slash jailed observed url file = (changed, file')"
  shows "distinct (map v_validator_id file') \<and> (\<not> changed \<longrightarrow> file' = file)
    \<and> (\<forall>j. j \<noteq> py_lower (py_strip i) \<longrightarrow> get_validator_record j file' = get_validator_record j file)
    \<and> (\<forall>r. get_validator_record (py_lower (py_strip i)) file = Some r \<longrightarrow>
        (if v_source r = ''local'' then get_validator_record (py_lower (py_strip i)) file' = Some r
         else changed \<longrightarrow> (\<exists>r'. get_validator_record (py_lower (py_strip i)) file' = Some r'
           \<and> v_source r' = v_source r
           \<and> v_total_slashed_atomic r' = v_total_slashed_atomic r + max 0 slash
           \<and> v_bonded_atomic r' = (if jailed then 0 else max 0 (v_bonded_atomic r - max 0 slash))
           \<and> (jailed \<longrightarrow> \<not> is_bonded r' \<and> v_state r' = validator_state_value JAILED))))"
proof -
  let ?i = "py_lower (py_strip i)"
  show ?thesis
  proof (cases changed)
    case False
    then have "file' = file"
      using assms(2) by (auto simp: apply_remote_validator_penalty_to_registry_def Let_def
          split: if_splits option.splits)
    then show ?thesis using assms(1) False by auto
  next
    case True
    obtain r a where r: "get_validator_record ?i file = Some r" "v_source r \<noteq> ''local''"
      and a: "file' = snd (sync_validator_record now ''standalone'' None a file)"
        "v_validator_id a = v_validator_id r" "v_source a = v_source r"
        "v_state a = (if jailed then validator_state_value JAILED else v_state r)"
        "v_bonded_atomic a = (if jailed then 0 else if max 0 slash > 0 then max 0 (v_bonded_atomic r - max 0 slash)
           else v_bonded_atomic r)"
        "v_total_slashed_atomic a = v_total_slashed_atomic r + max 0 slash"
      using assms(2) True
      by (auto simp: apply_remote_validator_penalty_to_registry_def Let_def split: if_splits option.splits)
    have i: "v_validator_id r = ?i" using r(1) get_validator_record_Some [OF assms(1)] by auto
    note sync = sync_validator_record_file(1) [OF assms(1), of now "''standalone''" None a]
      sync_validator_record_file(2) [OF assms(1), of _ now "''standalone''" None a]
    have new: "fst (sync_validator_record now ''standalone'' None a file)
        = validator_record_of now ''standalone'' None (Some r) a"
      using r(1) a(2) i by (simp add: sync_validator_record_def get_validator_record_def Let_def)
    show ?thesis
      using sync a r i True by (auto simp: new is_bonded_def)
  qed
qed

theorem remote_penalty_effect_witness:
  "get_validator_record ''b'' (snd (apply_remote_validator_penalty_to_registry ''now'' ''a'' 2 True None None demo_records))
   = Some (demo_validator ''b'' 4)"
proof -
  have "py_lower (py_strip ''a'') = ''a''" by code_simp
  then show ?thesis
    using remote_penalty_effect [of demo_records "''now''" "''a''" 2 True None None, OF _ prod.collapse [symmetric]]
    by (simp add: get_validator_record_Some demo_validator_def)
qed

end
