(* ===== verification/Runs.thy ===== *)
theory Runs
  imports Prelude
begin

text \<open>
  A small calculus for operations on files. \<open>runs m s Q\<close> says that running \<open>m\<close> on the files
  \<open>s\<close> ends with a result or an exception, and files, that satisfy \<open>Q\<close>. The rules follow the
  structure of an operation, so that a proof about a handler is a proof about its steps.
\<close>

definition runs :: "('s, 'e, 'a) sres \<Rightarrow> 's \<Rightarrow> (('e, 'a) res \<Rightarrow> 's \<Rightarrow> bool) \<Rightarrow> bool" where
  "runs m s Q \<longleftrightarrow> (case m s of (r, s') \<Rightarrow> Q r s')"

named_theorems runs_intros \<open>rules for the steps of an operation\<close>

lemma runsI: "(\<And>r s'. m s = (r, s') \<Longrightarrow> Q r s') \<Longrightarrow> runs m s Q"
  by (auto simp: runs_def split: prod.split)

lemma runsD: "runs m s Q \<Longrightarrow> m s = (r, s') \<Longrightarrow> Q r s'"
  by (simp add: runs_def)

lemma runs_mono: "runs m s P \<Longrightarrow> (\<And>r s'. P r s' \<Longrightarrow> Q r s') \<Longrightarrow> runs m s Q"
  by (auto simp: runs_def)

lemma runs_sbind [runs_intros]:
  "runs m s (\<lambda>r s1. case r of Inl e \<Rightarrow> Q (Inl e) s1 | Inr x \<Rightarrow> runs (f x) s1 Q) \<Longrightarrow> runs (sbind m f) s Q"
  by (auto simp: runs_def sbind_def split: prod.splits sum.splits)

lemma runs_slift [runs_intros]: "Q r s \<Longrightarrow> runs (slift r) s Q"
  by (simp add: runs_def slift_def)

lemma runs_if [runs_intros]:
  "(c \<Longrightarrow> runs a s Q) \<Longrightarrow> (\<not> c \<Longrightarrow> runs b s Q) \<Longrightarrow> runs (if c then a else b) s Q"
  by simp

lemma runs_pure: "m s = (r, s') \<Longrightarrow> Q r s' \<Longrightarrow> runs m s Q"
  by (simp add: runs_def)

lemma runs_unfold: "m s = m' s \<Longrightarrow> runs m' s Q \<Longrightarrow> runs m s Q"
  by (simp add: runs_def)

text \<open>The same rules as equations, for operations that simplification can run through.\<close>

named_theorems runs_simps \<open>equations for the steps of an operation\<close>

lemma runs_sbind_iff [runs_simps]:
  "runs (sbind m f) s Q \<longleftrightarrow> runs m s (\<lambda>r s1. case r of Inl e \<Rightarrow> Q (Inl e) s1 | Inr x \<Rightarrow> runs (f x) s1 Q)"
  by (auto simp: runs_def sbind_def split: prod.splits sum.splits)

lemma runs_slift_iff [runs_simps]: "runs (slift r) s Q \<longleftrightarrow> Q r s"
  by (simp add: runs_def slift_def)

lemma runs_if_iff [runs_simps]: "runs (if c then a else b) s Q \<longleftrightarrow> (if c then runs a s Q else runs b s Q)"
  by simp

end
