(* ===== verification/ChainFrame.thy ===== *)
theory ChainFrame
  imports Validators Runs
begin

text \<open>
  What the readers of the chain leave alone. An operation \<open>keeps\<close> the chain when files that
  hold a valid chain hold the same chain afterwards, whatever it returns or raises: it may
  rebuild the index cache, nothing else. The property is closed under sequencing, so the
  compound readers, from balances to committee selection, have it by composition.
\<close>

definition keeps :: "chain_env \<Rightarrow> WalletPolicy option \<Rightarrow> (chain_store, py_error, 'a) sres \<Rightarrow> bool" where
  "keeps E p m \<longleftrightarrow> (\<forall>s bs. store_ok E p s bs \<longrightarrow> validate_chain_blocks E p bs = Inr []
     \<longrightarrow> store_ok E p (snd (m s)) bs)"

named_theorems keeps_intros \<open>operations that keep the chain\<close>

lemma keepsD: "keeps E p m \<Longrightarrow> store_ok E p s bs \<Longrightarrow> validate_chain_blocks E p bs = Inr [] \<Longrightarrow> m s = (r, s')
    \<Longrightarrow> store_ok E p s' bs"
  by (fastforce simp: keeps_def)

lemma keeps_slift [keeps_intros]: "keeps E p (slift r)"
  by (simp add: keeps_def slift_def)

lemma keeps_sbind [keeps_intros]:
  assumes "keeps E p m" "\<And>x. keeps E p (f x)"
  shows "keeps E p (sbind m f)"
  unfolding keeps_def
proof (intro allI impI)
  fix s bs
  assume s: "store_ok E p s bs" "validate_chain_blocks E p bs = Inr []"
  obtain r s1 where m: "m s = (r, s1)" by (cases "m s")
  with assms(1) s have s1: "store_ok E p s1 bs" by (blast dest: keepsD)
  show "store_ok E p (snd (sbind m f s)) bs"
  proof (cases r)
    case (Inr x)
    obtain r2 s2 where "f x s1 = (r2, s2)" by (cases "f x s1")
    with assms(2) s(2) s1 show ?thesis
      using m Inr by (auto simp: sbind_def dest: keepsD)
  qed (use m s1 in \<open>simp add: sbind_def\<close>)
qed

lemma keeps_if [keeps_intros]: "(c \<Longrightarrow> keeps E p a) \<Longrightarrow> (\<not> c \<Longrightarrow> keeps E p b) \<Longrightarrow> keeps E p (if c then a else b)"
  by simp

lemma keeps_load_blocks [keeps_intros]: "keeps E p (load_blocks E p w)"
  by (simp add: keeps_def load_blocks_def)

lemma keeps_load_or_rebuild [keeps_intros]: "keeps E p (load_or_rebuild_chain_index E p w)"
  unfolding keeps_def
proof (intro allI impI)
  fix s bs
  assume "store_ok E p s bs" "validate_chain_blocks E p bs = Inr []"
  from load_or_rebuild_ok [OF this, of w] show "store_ok E p (snd (load_or_rebuild_chain_index E p w s)) bs"
    by auto
qed

lemma keeps_chain_is_initialized [keeps_intros]: "keeps E p (chain_is_initialized E p w)"
  unfolding chain_is_initialized_def by (intro keeps_intros)

lemma keeps_stored_balance_index [keeps_intros]: "keeps E p (stored_balance_index E p w)"
  unfolding stored_balance_index_def by (intro keeps_intros)

lemma keeps_chain_balance [keeps_intros]: "keeps E p (chain_balance_atomic E p w a)"
  unfolding chain_balance_atomic_def by (intro keeps_intros)

lemma keeps_locked_bonds [keeps_intros]: "keeps E p (chain_locked_bonds_by_validator E p w)"
  unfolding chain_locked_bonds_by_validator_def stored_locked_bond_index_def Let_def by (intro keeps_intros)

lemma keeps_list_bonded [keeps_intros]: "keeps E p (list_bonded_validators E p w file)"
  unfolding list_bonded_validators_def list_effective_validator_records_def by (intro keeps_intros)

lemma keeps_select_committee [keeps_intros]:
  "keeps E p (select_validator_committee_snapshot key E p w file seed mp n)"
  unfolding select_validator_committee_snapshot_def Let_def by (intro keeps_intros)

text \<open>The balance a reader gets is the balance of the chain it reads.\<close>

lemma valid_distinct_ids:
  assumes "store_ok E p s bs" "validate_chain_blocks E p bs = Inr []"
  shows "distinct (map tx_id (chain_txs bs))"
proof (cases "bs = []")
  case False
  have "sorted (map block_sort_key bs)"
    using assms(1) by (auto simp: store_ok_def stored_chain_def split: option.splits)
  then have "extends_ok E p [] bs"
    using False assms(2) valid_chain_sorted(1) by (auto simp: validate_chain_blocks_valid)
  then show ?thesis using extends_ok_distinct [of E p "[]" bs] by (intro distinct_ids_stripped) simp
qed simp

definition chain_sum :: "ChainBlock list \<Rightarrow> string \<Rightarrow> int" where
  "chain_sum bs a = sum_list (map tx_delta_atomic
     (filter (\<lambda>tx. normalize_address (tx_address tx) = a) (chain_txs bs)))"

lemma chain_sum_snoc: "chain_sum (bs @ [b]) a = chain_sum bs a + sum_list (map tx_delta_atomic
     (filter (\<lambda>tx. normalize_address (tx_address tx) = a) (blk_transactions b)))"
  by (simp add: chain_sum_def)

lemma chain_balance_is_sum:
  assumes "store_ok E p s bs" "validate_chain_blocks E p bs = Inr []" "readable_addresses bs"
    and "chain_balance_atomic E p w address s = (r, s')"
  shows "r = Inr (chain_sum bs (normalize_address address))" "store_ok E p s' bs"
proof -
  have "dget (dsorted (chain_balance_index bs)) a 0 = chain_sum bs a" for a
    using bal.replay_at_distinct [OF valid_distinct_ids [OF assms(1,2)], of a]
    by (simp add: chain_balance_index_def dget_dsorted bal.replay_dict_ok sum_list_map_filter'
        bal_entry_delta_at chain_sum_def cong: map_cong)
  then show "r = Inr (chain_sum bs (normalize_address address))" "store_ok E p s' bs"
    using stored_balance_index_ok [OF assms(1-3), of w] assms(4)
    by (auto simp: chain_balance_atomic_def sbind_def slift_def)
qed

lemma chain_is_initialized_result:
  assumes "store_ok E p s bs" "validate_chain_blocks E p bs = Inr []"
    and "chain_is_initialized E p w s = (r, s')"
  shows "r = Inr (bs \<noteq> [])" "store_ok E p s' bs"
proof -
  from load_or_rebuild_ok [OF assms(1,2), of w] obtain payload s1 where
    l: "load_or_rebuild_chain_index E p w s = (Inr payload, s1)" "store_ok E p s1 bs"
    "payload = [] \<and> bs = [] \<or> index_of E bs payload" by blast
  have "py_int (py_or (jget payload ''blockCount'') (JInt 0)) = Inr (int (length bs))"
    using l(3) by (cases "bs = []") (auto simp: py_or_def index_of_def Let_def)
  then show "r = Inr (bs \<noteq> [])" "store_ok E p s' bs"
    using assms(3) l(1,2) by (auto simp: chain_is_initialized_def sbind_def slift_def)
qed

lemma runs_keeps:
  "keeps E p m \<Longrightarrow> store_ok E p s bs \<Longrightarrow> validate_chain_blocks E p bs = Inr [] \<Longrightarrow> runs m s (\<lambda>_ s'. store_ok E p s' bs)"
  by (rule runsI) (rule keepsD)

end
