(* ===== verification/StakeProps.thy ===== *)
theory StakeProps
  imports ValidatorProps ChainFrame ChainProps
begin

text \<open>
  Stake and the chain: what a bonded validator may count as its stake is locked by transactions of
  the chain, and the bond pool holds it. The witness is a chain of two blocks, the second of
  which locks a bond.
\<close>

section \<open>The index of locked bonds\<close>

text \<open>The validator ids that bond transactions name are stable under normalisation.\<close>

definition readable_bonds :: "ChainBlock list \<Rightarrow> bool" where
  "readable_bonds bs \<longleftrightarrow> (\<forall>tx \<in> set (chain_txs bs). \<forall>v d. bond_entry tx = Some (v, d) \<longrightarrow> address_stable v)"

lemma bond_entry_named: "bond_entry tx = Some (v, d) \<Longrightarrow> v \<noteq> []"
  by (auto simp: bond_entry_def validator_id_from_bond_metadata_def some_if_text_def Let_def split: if_splits)

lemma stored_bond_index_ok:
  assumes "store_ok E p s bs" "validate_chain_blocks E p bs = Inr errors" "readable_bonds bs"
  shows "\<exists>s'. stored_locked_bond_index E p w s = (Inr (dsorted (validator_locked_bond_index bs)), s') \<and> store_ok E p s' bs"
proof -
  from load_or_rebuild_ok [OF assms(1,2), of w] obtain payload s' where
    l: "load_or_rebuild_chain_index E p w s = (Inr payload, s')" "store_ok E p s' bs"
      "payload = [] \<and> bs = [] \<or> index_of E bs payload" by blast
  have st: "load_blocks E p w s' = (Inr bs, s')" using l(2) by (simp add: store_ok_def)
  from l(3) show ?thesis
  proof
    assume "payload = [] \<and> bs = []"
    with l st show ?thesis
      by (simp add: stored_locked_bond_index_def validator_locked_bond_index_def bond.replay_Nil dsorted_def)
  next
    assume i: "index_of E bs payload"
    have "address_stable k \<and> k \<noteq> []" if k: "k \<in> fst ` set (validator_locked_bond_index bs)" for k
      using subsetD [OF bond.replay_keys k [unfolded validator_locked_bond_index_def]] assms(3) bond_entry_named
      unfolding readable_bonds_def by blast
    moreover have "dict_ok (dsorted (validator_locked_bond_index bs))"
      by (simp add: dict_ok_dsorted validator_locked_bond_index_def bond.replay_dict_ok)
    ultimately have "chain_index_validator_locked_bonds payload = dsorted (validator_locked_bond_index bs)"
      using i by (simp add: index_of_def Let_def chain_index_validator_locked_bonds_def ix_bonds_replay int_mapping_dict)
    with l index_of_nonempty [OF i] show ?thesis by (simp add: stored_locked_bond_index_def)
  qed
qed

abbreviation bond_pool_address :: "chain_env \<Rightarrow> WalletPolicy option \<Rightarrow> string" where
  "bond_pool_address E p \<equiv> validator_bond_pool_chain_address
    (MoneyPolicy_for (getenv E) (wp_chain_network (active_wallet_policy (getenv E) p)))"

lemma dict_of_nonneg: "\<forall>(k, v) \<in> set kvs. 0 \<le> (v :: int) \<Longrightarrow> (k, v) \<in> set (dict_of kvs) \<Longrightarrow> 0 \<le> v"
proof -
  have "\<forall>(k, v) \<in> set (d @ kvs). 0 \<le> v
      \<Longrightarrow> \<forall>(k, v) \<in> set (foldl (\<lambda>d (k, v). AList.update k v d) d kvs). 0 \<le> v" for d :: "(_ \<times> int) list"
  proof (induction kvs arbitrary: d)
    case (Cons kv kvs)
    obtain k v where "kv = (k, v)" by (cases kv)
    moreover have "set (AList.update k v d) \<subseteq> insert (k, v) (set d)" by (induction d) auto
    ultimately have "\<forall>(k, v) \<in> set (AList.update k v d @ kvs). 0 \<le> v"
      using Cons.prems by fastforce
    from Cons.IH [OF this] show ?case using \<open>kv = (k, v)\<close> by simp
  qed simp
  from this [of "[]"] show "\<forall>(k, v) \<in> set kvs. 0 \<le> v \<Longrightarrow> (k, v) \<in> set (dict_of kvs) \<Longrightarrow> 0 \<le> v"
    by (auto simp: dict_of_def)
qed


lemma dict_of_subset: "set (dict_of kvs) \<subseteq> set kvs"
proof -
  have "set (foldl (\<lambda>d (k, v). AList.update k v d) d kvs) \<subseteq> set d \<union> set kvs" for d :: "('k \<times> 'v) list" and kvs
  proof (induction kvs arbitrary: d)
    case (Cons kv kvs)
    obtain k v where kv: "kv = (k, v)" by (cases kv)
    have "set (AList.update k v d) \<subseteq> insert (k, v) (set d)" by (induction d) auto
    then show ?case using Cons.IH [of "AList.update k v d"] kv by auto
  qed simp
  from this [of "[]"] show ?thesis by (simp add: dict_of_def)
qed

text \<open>What the transactions of the chain lock for the validator id \<open>v\<close>.\<close>

definition locked_on_chain :: "ChainBlock list \<Rightarrow> string \<Rightarrow> int" where
  "locked_on_chain bs v = sum_list (map (entry_delta_at bond_entry v) (chain_txs bs))"

lemma locked_bonds_of_chain:
  assumes ok: "store_ok E p s bs" "validate_chain_blocks E p bs = Inr []" "readable_addresses bs" "readable_bonds bs"
    and l: "chain_locked_bonds_by_validator E p w s = (Inr locked, s')" and some: "locked \<noteq> []"
  shows "dict_ok locked" "\<forall>(k, v) \<in> set locked. 0 \<le> v" "store_ok E p s' bs"
    "dsum locked = chain_sum bs (normalize_address (bond_pool_address E p))"
    "\<And>k x. (k, x) \<in> set locked \<Longrightarrow> 0 < x \<Longrightarrow> \<exists>v. normalize_validator_id v = k \<and> x = locked_on_chain bs v"
proof -
  obtain s1 where i: "stored_locked_bond_index E p w s = (Inr (dsorted (validator_locked_bond_index bs)), s1)" "store_ok E p s1 bs"
    using stored_bond_index_ok [OF ok(1,2,4)] by blast
  let ?kvs = "map (\<lambda>(k, v). (normalize_validator_id k, max 0 v)) (dsorted (validator_locked_bond_index bs))"
  define d where "d = dict_of ?kvs"
  obtain r2 s2 where b: "chain_balance_atomic E p w (bond_pool_address E p) s1 = (r2, s2)" by fastforce
  note bal = chain_balance_is_sum [OF i(2) ok(2,3) b]
  have step: "(if dsum d \<le> 0 then (Inr [], s1)
      else sbind (chain_balance_atomic E p w (bond_pool_address E p)) (\<lambda>pool.
         slift (Inr (if pool \<noteq> dsum d then [] else d))) s1) = (Inr locked, s')"
    using l unfolding chain_locked_bonds_by_validator_def sbind_step [where m = "stored_locked_bond_index E p w", OF i(1)]
      Let_def d_def [symmetric] by (cases "dsum d \<le> 0") (simp_all add: slift_def)
  then have eq: "locked = d" "s' = s2" "dsum d = chain_sum bs (normalize_address (bond_pool_address E p))"
    using some b bal(1) by (auto simp: sbind_def slift_def split: if_splits)
  show "dict_ok locked" by (simp add: eq(1) d_def)
  show "\<forall>(k, v) \<in> set locked. 0 \<le> v" using dict_of_subset [of ?kvs] by (auto simp: eq(1) d_def)
  show "store_ok E p s' bs" using bal(2) eq(2) by simp
  show "dsum locked = chain_sum bs (normalize_address (bond_pool_address E p))" using eq by simp
  show "\<exists>v. normalize_validator_id v = k \<and> x = locked_on_chain bs v" if kx: "(k, x) \<in> set locked" "0 < x" for k x
  proof -
    obtain v y where v: "(v, y) \<in> set (dsorted (validator_locked_bond_index bs))" "k = normalize_validator_id v" "x = max 0 y"
      using subsetD [OF dict_of_subset kx(1) [unfolded eq(1) d_def]] by auto
    have "dict_ok (validator_locked_bond_index bs)" by (simp add: validator_locked_bond_index_def bond.replay_dict_ok)
    then have "dget (validator_locked_bond_index bs) v 0 = y"
      using v(1) dget_in_set [of "dsorted (validator_locked_bond_index bs)" v y 0] by simp
    then have "y = locked_on_chain bs v"
      using bond.replay_at_distinct [OF valid_distinct_ids [OF ok(1,2)], of v]
      by (simp add: validator_locked_bond_index_def locked_on_chain_def)
    then show ?thesis using v kx(2) by auto
  qed
qed

text \<open>
  C26. Stake that counts is locked on the chain and held by the bond pool. On files that hold a
  valid chain, the stake of every bonded validator is positive and at most what the transactions of the
  chain lock for a spelling of its id; and where no two of the records are spellings of one id,
  the balance of the bond pool on the chain covers the stake of all of them together (for two
  spellings of one id it need not). Reading leaves the chain as it was. The addresses and
  validator ids on the chain must be stable under normalisation.
\<close>

theorem bonded_stake_is_locked:
  assumes ok: "store_ok E p s bs" "validate_chain_blocks E p bs = Inr []" "readable_addresses bs" "readable_bonds bs"
    and "list_bonded_validators E p w file s = (Inr rs, s')" and "rs \<noteq> []"
  shows "(\<forall>r \<in> set rs. 0 < v_bonded_atomic r \<and> (\<exists>v. normalize_validator_id v = normalize_validator_id (v_validator_id r)
            \<and> v_bonded_atomic r \<le> locked_on_chain bs v))
    \<and> (distinct (map (\<lambda>r. normalize_validator_id (v_validator_id r)) rs)
         \<longrightarrow> sum_list (map v_bonded_atomic rs) \<le> chain_sum bs (normalize_address (bond_pool_address E p)))
    \<and> store_ok E p s' bs"
proof -
  obtain locked where l: "chain_locked_bonds_by_validator E p w s = (Inr locked, s')"
    and rs: "rs = filter is_bonded (map (chain_backed_validator_record locked) (list_validator_records file))"
    using assms(5) unfolding list_bonded_validators_def list_effective_validator_records_def sbind_def slift_def
    by (auto split: prod.splits sum.splits)
  have each: "0 < v_bonded_atomic r \<and> v_bonded_atomic r \<le> dget locked (normalize_validator_id (v_validator_id r)) 0"
    if r: "r \<in> set rs" for r
  proof -
    obtain q where "r = chain_backed_validator_record locked q" "is_bonded r" using r unfolding rs by auto
    then show ?thesis using chain_backed_bonded [of locked q] by (simp add: is_bonded_def)
  qed
  from each [of "hd rs"] have "locked \<noteq> []" using assms(6) by (auto simp: dget_def)
  note chain = locked_bonds_of_chain [OF ok l this]
  have "\<exists>v. normalize_validator_id v = normalize_validator_id (v_validator_id r) \<and> v_bonded_atomic r \<le> locked_on_chain bs v"
    if r: "r \<in> set rs" for r
  proof -
    let ?k = "normalize_validator_id (v_validator_id r)"
    have "0 < dget locked ?k 0" using each [OF r] by simp
    then have "(?k, dget locked ?k 0) \<in> set locked" by (auto simp: dget_def dest: map_of_SomeD split: option.splits)
    from chain(5) [OF this] each [OF r] show ?thesis by fastforce
  qed
  moreover have "distinct (map (\<lambda>r. normalize_validator_id (v_validator_id r)) rs) \<longrightarrow> sum_list (map v_bonded_atomic rs) \<le> dsum locked"
    using bonded_sum_le_locked [OF chain(1,2)] each by blast
  ultimately show ?thesis using each chain(3,4) by simp
qed

section \<open>A chain with a bond\<close>

definition demo_bond_txs :: "ChainTransaction list" where
  "demo_bond_txs =
    [(demo_tx ''t1'' ''system:compute-reserve:mainnet'' (-5))
       \<lparr>tx_type := ''validator_bond_lock'', tx_metadata := [(''validator_id'', JStr ''a'')]\<rparr>,
     (demo_tx ''t2'' ''system:validator-bond-pool:mainnet'' 5)\<lparr>tx_type := ''validator_bond_pool_credit''\<rparr>]"

lemma demo_pool: "normalize_address ''system:validator-bond-pool:mainnet'' = ''system:validator-bond-pool:mainnet''"
  "normalize_address (bond_pool_address demo_env None) = ''system:validator-bond-pool:mainnet''" "normalize_address ''a'' = ''a''"
  by code_simp+

lemma demo_bond_entries: "map bond_entry demo_bond_txs = [Some (''a'', 5), None]"
  by code_simp

lemma demo_bond_acceptable: "acceptable_transactions demo_env None [genesis_of demo_env None] demo_bond_txs"
proof -
  let ?g = "genesis_of demo_env None"
  let ?txs = "genesis_chain_transactions demo_env demo_policy"
  have dist: "distinct (map tx_id ?txs)"
    using demo_genesis_ok by (simp add: genesis_env_ok_def demo_money_policy)
  have ids: "stripped_ids ?txs = [demo_id 306, demo_id 342, demo_id 344]"
    using genesis_ids(1) [OF demo_sha256_ok, of _ demo_policy] demo_genesis_ids
    by (auto simp: stripped_ids_def cong: map_cong)
  have "distinct ([demo_id 306, demo_id 342, demo_id 344] @ stripped_ids demo_bond_txs)" "[] \<notin> set (stripped_ids demo_bond_txs)"
    by code_simp+
  moreover have "tx_nonces demo_bond_txs = []" by code_simp
  moreover have "tx_ok demo_env None tx \<and> tx_storable tx" if "tx \<in> set demo_bond_txs" for tx
    using that by (auto simp: demo_bond_txs_def demo_tx_def tx_ok_def demo_money_policy CHAIN_SCHEMA_VERSION_def
        verify_chain_transaction_signature_def signable_wallet_transaction_types_def tx_storable_def
        address_stable_def demo_norm demo_pool jget_def dget_def)
  moreover have "0 \<le> dget (chain_balance_index [?g]) a 0 + sum_list (map (entry_delta_at balance_entry a) demo_bond_txs)"
    if "a \<in> (\<lambda>tx. normalize_address (tx_address tx)) ` set demo_bond_txs" for a
  proof -
    have "dget (chain_balance_index [?g]) ''system:compute-reserve:mainnet'' 0 = 85000000000000000"
      "dget (chain_balance_index [?g]) ''system:validator-bond-pool:mainnet'' 0 = 0"
      by (simp_all add: demo_money_policy chain_balance_index_def bal.replay_at_distinct [OF dist] demo_genesis_entries)
    then show ?thesis
      using that by (auto simp: demo_bond_txs_def demo_tx_def bal_entry_delta_at demo_norm demo_pool)
  qed
  moreover have "0 \<le> dget (validator_locked_bond_index [?g]) v 0 + sum_list (map (entry_delta_at bond_entry v) demo_bond_txs)" for v
    using demo_bond_entries by (auto simp: demo_bond_txs_def entry_delta_at_def genesis_bonds)
  ultimately show ?thesis
    by (simp add: acceptable_transactions_def ids genesis_nonces demo_money_policy, simp add: demo_bond_txs_def demo_tx_def)
qed

lemma demo_bond_length: "length (canonical (JObj (block_hash_payload (getenv demo_env)
    (next_block demo_env None demo_io JNull [make_genesis_block demo_env demo_policy] demo_bond_txs)))) = 950"
  by (simp add: demo_payload_defs demo_bond_txs_def demo_tx_def demo_money_policy demo_norm demo_pool
    demo_lengths demo_int_lengths demo_more_lengths demo_block_ids CHAIN_SCHEMA_VERSION_def demo_io_def del: canonical.simps)

lemma demo_bond_fresh:
  "blk_hash (next_block demo_env None demo_io JNull [make_genesis_block demo_env demo_policy] demo_bond_txs)
    \<noteq> blk_hash (make_genesis_block demo_env demo_policy)"
proof
  let ?b = "next_block demo_env None demo_io JNull [make_genesis_block demo_env demo_policy] demo_bond_txs"
  assume "blk_hash ?b = blk_hash (make_genesis_block demo_env demo_policy)"
  moreover have "compute_block_hash demo_env ?b = blk_hash ?b"
    by (simp only: next_block_def Let_def seal_block_hash)
  ultimately have "compute_block_hash demo_env ?b = compute_block_hash demo_env (make_genesis_block demo_env demo_policy)"
    by simp
  then have eq: "demo_sha256 (canonical (JObj (block_hash_payload (getenv demo_env) ?b))) =
      demo_sha256 (canonical (JObj (block_hash_payload (getenv demo_env) (make_genesis_block demo_env demo_policy))))"
    by (simp only: compute_block_hash_def sha256_json_def demo_env_hash)
  have "(950::nat) < 10 ^ 32" "(2054::nat) < 10 ^ 32" by simp_all
  then show False
    using demo_sha256_length [OF eq] by (simp only: demo_genesis_length demo_bond_length) simp
qed

text \<open>The chain of the genesis block and the block with the bond, on disk.\<close>

abbreviation demo_bond_chain :: "ChainBlock list" where
  "demo_bond_chain \<equiv> [genesis_of demo_env None,
     next_block demo_env None demo_io JNull [genesis_of demo_env None] demo_bond_txs]"

lemma demo_bond_store:
  obtains s where "store_ok demo_env None s demo_bond_chain" "validate_chain_blocks demo_env None demo_bond_chain = Inr []"
    "readable_addresses demo_bond_chain" "readable_bonds demo_bond_chain"
proof -
  obtain s where s: "store_ok demo_env None s [genesis_of demo_env None]" by (rule demo_genesis_store)
  have valid: "valid_chain demo_env None [genesis_of demo_env None]" by (rule genesis_valid [OF demo_genesis_ok])
  have fresh: "blk_hash (next_block demo_env None demo_io JNull [genesis_of demo_env None] demo_bond_txs)
      \<notin> blk_hash ` set [genesis_of demo_env None]"
    using demo_bond_fresh by (simp add: demo_money_policy)
  have now: "io_now demo_io \<noteq> []" by (simp add: demo_io_def)
  obtain s' where s': "store_ok demo_env None s' demo_bond_chain"
    using append_chain_block_total [OF s valid _ demo_bond_acceptable demo_sha256_ok now fresh] by auto
  have sorted: "sorted (map block_sort_key [genesis_of demo_env None])" by simp
  have "valid_chain demo_env None ([genesis_of demo_env None] @ [next_block demo_env None demo_io JNull [genesis_of demo_env None] demo_bond_txs])"
    by (rule next_block_valid [OF valid sorted _ demo_bond_acceptable demo_sha256_ok fresh]) simp
  then have "validate_chain_blocks demo_env None demo_bond_chain = Inr []" by (simp add: validate_chain_blocks_valid)
  moreover have "readable_addresses demo_bond_chain"
    using demo_genesis_readable
    by (simp add: readable_addresses_def demo_money_policy) (simp add: demo_bond_txs_def demo_tx_def address_stable_def demo_norm demo_pool)
  moreover have "bond_entry tx = None" if "tx \<in> set (genesis_chain_transactions demo_env demo_policy)" for tx
    using that by (auto simp: genesis_chain_transactions_def make_chain_transaction_def genesis_args_def tx_args_def bond_entry_def Let_def)
  then have "readable_bonds demo_bond_chain"
    using demo_bond_entries by (auto simp: readable_bonds_def demo_money_policy demo_bond_txs_def address_stable_def demo_pool)
  ultimately show ?thesis using that s' by blast
qed

lemma demo_bond_index: "validator_locked_bond_index demo_bond_chain = [(''a'', 5)]"
proof -
  let ?txs = "genesis_chain_transactions demo_env demo_policy"
  let ?t1 = "demo_bond_txs ! 0" and ?t2 = "demo_bond_txs ! 1"
  have two: "demo_bond_txs = [?t1, ?t2]" by (simp add: demo_bond_txs_def)
  have ids: "tx_id ` set ?txs = {demo_id 306, demo_id 342, demo_id 344}"
    using arg_cong [OF demo_genesis_ids, of set] by simp
  have "tx_id ?t1 \<notin> {demo_id 306, demo_id 342, demo_id 344}"
    "tx_id ?t2 \<notin> insert (tx_id ?t1) {demo_id 306, demo_id 342, demo_id 344}"
    by code_simp+
  then have new: "tx_id ?t1 \<notin> tx_id ` set ?txs" "tx_id ?t2 \<notin> tx_id ` set (?txs @ [?t1])"
    by (simp_all only: ids set_append image_Un image_insert image_empty list.set Un_insert_right Un_empty_right not_False_eq_True)
  have entries: "bond_entry ?t1 = Some (''a'', 5)" "bond_entry ?t2 = None" by code_simp+
  have "replay_bonds ?txs = []" using genesis_bonds [of demo_env demo_policy] by (simp add: validator_locked_bond_index_def)
  then have "replay_bonds ((?txs @ [?t1]) @ [?t2]) = [(''a'', 5)]"
    by (simp only: bond.replay_new [OF new(1)] bond.replay_new [OF new(2)] entries option.case prod.case) (simp add: bump_def)
  then show ?thesis using two by (simp add: validator_locked_bond_index_def demo_money_policy)
qed

lemma demo_bond_pool: "chain_sum demo_bond_chain ''system:validator-bond-pool:mainnet'' = 5"
proof -
  have "chain_sum [genesis_of demo_env None] ''system:validator-bond-pool:mainnet'' = 0"
    using arg_cong [OF demo_genesis_entries [of "''system:validator-bond-pool:mainnet''"], of sum_list]
    by (simp add: chain_sum_def demo_money_policy sum_list_map_filter' bal_entry_delta_at cong: map_cong)
  then show ?thesis
    using chain_sum_snoc [of "[genesis_of demo_env None]" "demo_bond_chain ! 1" "''system:validator-bond-pool:mainnet''"]
    by (simp add: demo_bond_txs_def demo_tx_def demo_norm demo_pool)
qed

theorem bonded_stake_is_locked_witness:
  "\<exists>s s'. list_bonded_validators demo_env None demo_io [demo_validator ''a'' 5] s = (Inr [demo_validator ''a'' 5], s')
     \<and> (\<exists>v. normalize_validator_id v = ''a'' \<and> 5 \<le> locked_on_chain demo_bond_chain v)
     \<and> 5 \<le> chain_sum demo_bond_chain ''system:validator-bond-pool:mainnet''"
proof -
  obtain s where ok: "store_ok demo_env None s demo_bond_chain" "validate_chain_blocks demo_env None demo_bond_chain = Inr []"
    "readable_addresses demo_bond_chain" "readable_bonds demo_bond_chain" by (rule demo_bond_store)
  obtain s1 where i: "stored_locked_bond_index demo_env None demo_io s = (Inr [(''a'', 5)], s1)"
    "store_ok demo_env None s1 demo_bond_chain"
    using stored_bond_index_ok [OF ok(1,2,4), of demo_io] by (auto simp: demo_bond_index dsorted_def)
  obtain r s2 where b: "chain_balance_atomic demo_env None demo_io (bond_pool_address demo_env None) s1 = (r, s2)" by fastforce
  have r: "r = Inr 5"
    using chain_balance_is_sum(1) [OF i(2) ok(2,3) b] by (simp only: demo_pool demo_bond_pool)
  have a: "normalize_validator_id ''a'' = ''a''" by code_simp
  have "chain_locked_bonds_by_validator demo_env None demo_io s = (Inr [(''a'', 5)], s2)"
    using b by (simp add: chain_locked_bonds_by_validator_def sbind_def i(1) r a dict_of_def dsum_def slift_def)
  then have l: "list_bonded_validators demo_env None demo_io [demo_validator ''a'' 5] s = (Inr [demo_validator ''a'' 5], s2)"
    by (simp add: list_bonded_validators_def list_effective_validator_records_def sbind_def slift_def list_validator_records_def
        chain_backed_validator_record_def is_bonded_def dget_def a) (simp add: demo_validator_def a)
  from bonded_stake_is_locked [OF ok l] have
    "\<exists>v. normalize_validator_id v = ''a'' \<and> 5 \<le> locked_on_chain demo_bond_chain v"
    "5 \<le> chain_sum demo_bond_chain ''system:validator-bond-pool:mainnet''"
    by (simp_all add: demo_validator_def a demo_pool)
  with l show ?thesis by blast
qed

end
