(* ===== verification/SeedPhrase.thy ===== *)
theory SeedPhrase
  imports Signing
begin

text \<open>
  \<open>src/src/cai_compute_chain/seed_phrase.py\<close>: the word list, the normal form and the check of
  a seed phrase, and the wallet identity derived from it. A generated phrase names each random
  byte by one word of a list of 256; the theorem says that the phrase passes the check, that
  the bytes can be read back from it, and that no two byte strings share a phrase.
\<close>

definition SUPPORTED_SEED_WORD_COUNTS :: "nat list" where
  "SUPPORTED_SEED_WORD_COUNTS = [12, 32]"

definition PREFIXES :: "string list" where
  "PREFIXES = [''al'', ''be'', ''cor'', ''den'', ''el'', ''far'', ''gan'', ''hal'', ''is'', ''jor'',
     ''kel'', ''lor'', ''mor'', ''nel'', ''or'', ''pra'']"

definition SUFFIXES :: "string list" where
  "SUFFIXES = [''ba'', ''den'', ''fin'', ''gor'', ''hal'', ''ian'', ''jor'', ''kel'', ''lin'', ''mor'',
     ''nor'', ''or'', ''pra'', ''quil'', ''ran'', ''sor'']"

definition SEED_WORDS :: "string list" where
  "SEED_WORDS = [p @ s. p \<leftarrow> PREFIXES, s \<leftarrow> SUFFIXES]"

text \<open>\<open>text.split()\<close>: the maximal runs of characters that are not white space.\<close>

function py_split :: "string \<Rightarrow> string list" where
  "py_split s =
    (case dropWhile py_isspace s of [] \<Rightarrow> []
     | c # cs \<Rightarrow> (c # takeWhile (\<lambda>x. \<not> py_isspace x) cs) # py_split (dropWhile (\<lambda>x. \<not> py_isspace x) cs))"
  by pat_completeness auto
termination
proof (relation "measure length")
  fix s c cs
  assume "dropWhile py_isspace s = c # cs"
  then have "length (c # cs) \<le> length s" by (metis length_dropWhile_le)
  then show "(dropWhile (\<lambda>x. \<not> py_isspace x) cs, s) \<in> measure length"
    using length_dropWhile_le [of "\<lambda>x. \<not> py_isspace x" cs] by simp
qed simp

declare py_split.simps [simp del]

definition normalize_seed_phrase :: "string \<Rightarrow> string" where
  "normalize_seed_phrase seed = py_join '' '' (py_split (py_lower (py_strip seed)))"

definition validate_seed_phrase :: "string \<Rightarrow> nat option \<Rightarrow> (py_error, string) res" where
  "validate_seed_phrase seed word_count =
    (let normalized = normalize_seed_phrase seed;
         words = py_split normalized;
         allowed = (case word_count of Some n \<Rightarrow> [n] | None \<Rightarrow> SUPPORTED_SEED_WORD_COUNTS)
     in if length words \<notin> set allowed then Inl ValueError
        else if filter (\<lambda>x. x \<notin> set SEED_WORDS) words \<noteq> [] then Inl ValueError
        else Inr normalized)"

text \<open>The argument is what \<open>secrets.token_bytes\<close> returns: bytes, so numbers below 256.\<close>

definition generate_seed_phrase :: "nat list \<Rightarrow> string" where
  "generate_seed_phrase token = py_join '' '' (map (\<lambda>i. SEED_WORDS ! i) token)"

definition seed_fingerprint :: "'a crypto_scheme \<Rightarrow> string \<Rightarrow> (py_error, string) res" where
  "seed_fingerprint C seed =
    rbind (validate_seed_phrase seed None) (\<lambda>normalized. Inr (take 16 (sha256_hex C normalized)))"

definition derive_seed_wallet_id :: "'a crypto_scheme \<Rightarrow> string \<Rightarrow> (py_error, string) res" where
  "derive_seed_wallet_id C seed =
    rbind (validate_seed_phrase seed None) (\<lambda>normalized.
      Inr (take 32 (sha256_hex C (''cai-seed-v1:'' @ normalized))))"

section \<open>Lemmas\<close>

definition plain_word :: "string \<Rightarrow> bool" where
  "plain_word w \<longleftrightarrow> w \<noteq> [] \<and> list_all (\<lambda>c. \<not> py_isspace c \<and> py_lower_char c = c) w"

lemma prefixes_plain: "list_all plain_word PREFIXES" "list_all plain_word SUFFIXES"
  by (simp_all add: PREFIXES_def SUFFIXES_def plain_word_def py_isspace_def py_lower_char_def)

lemma seed_words_product: "SEED_WORDS = map (\<lambda>(p, s). p @ s) (List.product PREFIXES SUFFIXES)"
  by (simp add: SEED_WORDS_def product_concat_map map_concat comp_def)

lemma seed_words_plain: "w \<in> set SEED_WORDS \<Longrightarrow> plain_word w"
  using prefixes_plain by (auto simp: seed_words_product list_all_iff plain_word_def)

text \<open>No prefix of the list starts another, so a word tells where its prefix ends.\<close>

lemma prefixes_code: "inj_on (take 2) (set PREFIXES)" "p \<in> set PREFIXES \<Longrightarrow> 2 \<le> length p"
proof -
  have "distinct (map (take 2) PREFIXES)" by (simp add: PREFIXES_def)
  then show "inj_on (take 2) (set PREFIXES)" by (simp add: distinct_map)
  have "list_all (\<lambda>p. 2 \<le> length p) PREFIXES" by (simp add: PREFIXES_def)
  then show "p \<in> set PREFIXES \<Longrightarrow> 2 \<le> length p" by (simp add: list_all_iff)
qed

lemma seed_words_distinct: "distinct SEED_WORDS" "length SEED_WORDS = 256"
proof -
  have inj: "p = p' \<and> s = s'" if "p @ s = p' @ s'" "p \<in> set PREFIXES" "p' \<in> set PREFIXES" for p p' s s'
  proof -
    have "take 2 (p @ s) = take 2 (p' @ s')" using that(1) by simp
    then have "take 2 p = take 2 p'"
      using prefixes_code(2) [OF that(2)] prefixes_code(2) [OF that(3)] by simp
    then have "p = p'" using prefixes_code(1) that(2,3) by (auto dest: inj_onD)
    then show ?thesis using that(1) by simp
  qed
  have "inj_on (\<lambda>(p, s). p @ s) (set (List.product PREFIXES SUFFIXES))"
  proof (rule inj_onI)
    fix x y
    assume xy: "x \<in> set (List.product PREFIXES SUFFIXES)" "y \<in> set (List.product PREFIXES SUFFIXES)"
      "(case x of (p, s) \<Rightarrow> p @ s) = (case y of (p, s) \<Rightarrow> p @ s)"
    then show "x = y" using inj [of "fst x" "snd x" "fst y" "snd y"]
      by (simp add: case_prod_beta mem_Times_iff prod_eq_iff)
  qed
  moreover have "distinct PREFIXES" "distinct SUFFIXES" by (simp_all add: PREFIXES_def SUFFIXES_def)
  ultimately show "distinct SEED_WORDS"
    by (simp add: seed_words_product distinct_map distinct_product)
  show "length SEED_WORDS = 256"
    by (simp add: seed_words_product length_product PREFIXES_def SUFFIXES_def)
qed

lemma py_split_Nil [simp]: "py_split [] = []"
  by (simp add: py_split.simps)

lemma py_split_word_end: "plain_word w \<Longrightarrow> py_split w = [w]"
proof -
  assume "plain_word w"
  then obtain c cs where c: "w = c # cs" "\<not> py_isspace c" "\<And>x. x \<in> set cs \<Longrightarrow> \<not> py_isspace x"
    by (cases w) (auto simp: plain_word_def list_all_iff)
  then have "takeWhile (\<lambda>x. \<not> py_isspace x) cs = cs" "dropWhile (\<lambda>x. \<not> py_isspace x) cs = []" by simp_all
  then show ?thesis using c(1,2) by (simp add: py_split.simps [of "c # cs"] del: dropWhile_eq_Nil_conv takeWhile_eq_all_conv)
qed

lemma space_is_space [simp]: "py_isspace CHR '' ''" "py_lower_char CHR '' '' = CHR '' ''"
  by code_simp+

lemma py_split_space: "py_split (CHR '' '' # s) = py_split s"
  by (simp add: py_split.simps [of "CHR '' '' # s"] py_split.simps [of s])

lemma py_split_word: "plain_word w \<Longrightarrow> py_split (w @ '' '' @ s) = w # py_split s"
proof -
  assume w: "plain_word w"
  then obtain c cs where c: "w = c # cs" "\<not> py_isspace c" "\<And>x. x \<in> set cs \<Longrightarrow> \<not> py_isspace x"
    by (cases w) (auto simp: plain_word_def list_all_iff)
  have "takeWhile (\<lambda>x. \<not> py_isspace x) (cs @ CHR '' '' # s) = cs"
    "dropWhile (\<lambda>x. \<not> py_isspace x) (cs @ CHR '' '' # s) = CHR '' '' # s"
    using c(3) by (simp_all add: takeWhile_append2 dropWhile_append2)
  then show ?thesis
    using c by (simp add: py_split.simps [of "c # cs @ CHR '' '' # s"] py_split_space)
qed

lemma py_split_join: "list_all plain_word ws \<Longrightarrow> py_split (py_join '' '' ws) = ws"
proof (induction "'' ''" ws rule: py_join.induct)
  case 1
  then show ?case by (simp add: py_split.simps)
next
  case (2 x)
  then show ?case by (simp add: py_split_word_end)
next
  case (3 x y xs)
  then show ?case using py_split_word [of x] by simp
qed

lemma lower_join: "list_all plain_word ws \<Longrightarrow> py_lower (py_join '' '' ws) = py_join '' '' ws"
  by (induction "'' ''" ws rule: py_join.induct)
    (auto simp: py_lower_def plain_word_def list_all_iff map_idI)

lemma dropWhile_hd: "xs = [] \<or> \<not> P (hd xs) \<Longrightarrow> dropWhile P xs = xs"
  by (cases xs) auto

lemma join_ends:
  assumes "list_all plain_word ws" "ws \<noteq> []"
  shows "py_join '' '' ws \<noteq> []" "\<not> py_isspace (hd (py_join '' '' ws))" "\<not> py_isspace (last (py_join '' '' ws))"
  using assms
  by (induction "'' ''" ws rule: py_join.induct) (auto simp: plain_word_def list_all_iff hd_append)

lemma strip_join: "list_all plain_word ws \<Longrightarrow> py_strip (py_join '' '' ws) = py_join '' '' ws"
  using join_ends by (cases "ws = []") (simp_all add: py_strip_def dropWhile_hd hd_rev)

lemma normalize_join: "list_all plain_word ws \<Longrightarrow> normalize_seed_phrase (py_join '' '' ws) = py_join '' '' ws"
  by (simp add: normalize_seed_phrase_def strip_join lower_join py_split_join)

lemma validate_words:
  assumes "set ws \<subseteq> set SEED_WORDS"
  shows "validate_seed_phrase (py_join '' '' ws) wc =
    (if length ws \<in> set (case wc of Some n \<Rightarrow> [n] | None \<Rightarrow> SUPPORTED_SEED_WORD_COUNTS)
     then Inr (py_join '' '' ws) else Inl ValueError)"
proof -
  have "list_all plain_word ws" using assms seed_words_plain by (auto simp: list_all_iff)
  moreover have "filter (\<lambda>x. x \<notin> set SEED_WORDS) ws = []" using assms by (auto simp: filter_empty_conv)
  ultimately show ?thesis
    by (simp add: validate_seed_phrase_def normalize_join py_split_join Let_def)
qed

text \<open>The words of any text are runs of characters, and joining them loses only white space.\<close>

lemma py_split_no_space: "w \<in> set (py_split s) \<Longrightarrow> w \<noteq> [] \<and> (\<forall>c \<in> set w. \<not> py_isspace c \<and> c \<in> set s)"
proof (induction s rule: py_split.induct)
  case (1 s)
  show ?case
  proof (cases "dropWhile py_isspace s")
    case Nil
    then show ?thesis using "1.prems" by (simp add: py_split.simps [of s] del: dropWhile_eq_Nil_conv)
  next
    case (Cons c cs)
    have sub: "set (c # cs) \<subseteq> set s" by (metis Cons set_dropWhileD subsetI)
    have c: "\<not> py_isspace c" using Cons by (metis dropWhile_eq_Cons_conv)
    from "1.prems" Cons consider "w = c # takeWhile (\<lambda>x. \<not> py_isspace x) cs"
      | "w \<in> set (py_split (dropWhile (\<lambda>x. \<not> py_isspace x) cs))"
      by (auto simp: py_split.simps [of s])
    then show ?thesis
    proof cases
      case 1
      have "\<not> py_isspace d \<and> d \<in> set s" if "d \<in> set (takeWhile (\<lambda>x. \<not> py_isspace x) cs)" for d
        using set_takeWhileD [OF that] sub by auto
      with 1 show ?thesis using c sub by simp
    next
      case 2
      have "d \<in> set s" if "d \<in> set (dropWhile (\<lambda>x. \<not> py_isspace x) cs)" for d
        using set_dropWhileD [OF that] sub by auto
      with "1.IH" [OF Cons 2] show ?thesis by blast
    qed
  qed
qed

lemma normalized_words_plain:
  assumes "w \<in> set (py_split (py_lower s))"
  shows "plain_word w"
proof -
  have "py_lower_char c = c" if "c \<in> set (py_lower s)" for c
  proof -
    from that obtain d where "c = py_lower_char d" by (auto simp: py_lower_def)
    then show ?thesis by simp
  qed
  then show ?thesis using py_split_no_space [OF assms] by (auto simp: plain_word_def list_all_iff)
qed

lemma normalize_seed_phrase_words:
  "py_split (normalize_seed_phrase seed) = py_split (py_lower (py_strip seed))"
  unfolding normalize_seed_phrase_def
  by (rule py_split_join) (auto simp: list_all_iff intro: normalized_words_plain)

lemma validate_seed_phrase_words:
  assumes "validate_seed_phrase seed wc = Inr n"
  shows "n = py_join '' '' (py_split n)" "set (py_split n) \<subseteq> set SEED_WORDS"
    "length (py_split n) \<in> set (case wc of Some n \<Rightarrow> [n] | None \<Rightarrow> SUPPORTED_SEED_WORD_COUNTS)"
proof -
  have n: "n = normalize_seed_phrase seed" and
    w: "set (py_split n) \<subseteq> set SEED_WORDS"
    "length (py_split n) \<in> set (case wc of Some n \<Rightarrow> [n] | None \<Rightarrow> SUPPORTED_SEED_WORD_COUNTS)"
    using assms by (auto simp: validate_seed_phrase_def Let_def filter_empty_conv split: if_splits)
  show "n = py_join '' '' (py_split n)"
    using n normalize_seed_phrase_words [of seed] by (simp add: normalize_seed_phrase_def)
  show "set (py_split n) \<subseteq> set SEED_WORDS"
    "length (py_split n) \<in> set (case wc of Some n \<Rightarrow> [n] | None \<Rightarrow> SUPPORTED_SEED_WORD_COUNTS)"
    by (fact w)+
qed

text \<open>The byte a word stands for: its place in the list.\<close>

definition seed_word_index :: "string \<Rightarrow> nat" where
  "seed_word_index w = length (takeWhile (\<lambda>x. x \<noteq> w) SEED_WORDS)"

lemma takeWhile_distinct:
  assumes "distinct xs" "i < length xs"
  shows "takeWhile (\<lambda>x. x \<noteq> xs ! i) xs = take i xs"
  using assms
proof (induction xs arbitrary: i)
  case (Cons x xs)
  then show ?case by (cases i) auto
qed simp

lemma seed_word_index_nth: "i < 256 \<Longrightarrow> seed_word_index (SEED_WORDS ! i) = i"
  using takeWhile_distinct [OF seed_words_distinct(1), of i] seed_words_distinct(2)
  by (simp add: seed_word_index_def)

section \<open>Properties\<close>

text \<open>
  C23. A phrase generated from 12 or 32 random bytes passes the check unchanged, and the bytes can
  be read back from its words: no two byte strings give the same phrase.
\<close>

theorem generated_phrase_round_trip:
  assumes "\<forall>i \<in> set token. i < 256" and "length token \<in> {12, 32}"
  shows "validate_seed_phrase (generate_seed_phrase token) None = Inr (generate_seed_phrase token)
    \<and> map seed_word_index (py_split (generate_seed_phrase token)) = token"
proof -
  let ?ws = "map (\<lambda>i. SEED_WORDS ! i) token"
  have ws: "set ?ws \<subseteq> set SEED_WORDS" using assms(1) by (auto simp: seed_words_distinct(2))
  then have "list_all plain_word ?ws" using seed_words_plain by (auto simp: list_all_iff)
  then have words: "py_split (generate_seed_phrase token) = ?ws"
    by (simp add: generate_seed_phrase_def py_split_join)
  have "validate_seed_phrase (generate_seed_phrase token) None = Inr (generate_seed_phrase token)"
    using validate_words [OF ws, of None] assms(2)
    by (auto simp: generate_seed_phrase_def SUPPORTED_SEED_WORD_COUNTS_def)
  moreover have "map seed_word_index (py_split (generate_seed_phrase token)) = token"
    using seed_word_index_nth assms(1) by (simp add: words comp_def map_idI)
  ultimately show ?thesis by blast
qed

theorem generated_phrase_round_trip_witness:
  "validate_seed_phrase (generate_seed_phrase (replicate 12 7)) None = Inr (generate_seed_phrase (replicate 12 7))"
  using generated_phrase_round_trip [of "replicate 12 7"] by simp

text \<open>
  The check accepts a phrase up to spacing and letter case: what it returns consists of 12
  or 32 words of the list joined by single spaces, the check leaves that text as it is, and so
  the wallet id derived from the phrase as typed is the id derived from the normal form.
\<close>

theorem validated_phrase_is_normal_form:
  assumes "validate_seed_phrase seed None = Inr n"
  shows "n = py_join '' '' (py_split n) \<and> set (py_split n) \<subseteq> set SEED_WORDS
    \<and> length (py_split n) \<in> {12, 32}
    \<and> validate_seed_phrase n None = Inr n
    \<and> derive_seed_wallet_id C seed = derive_seed_wallet_id C n"
proof -
  note w = validate_seed_phrase_words [OF assms]
  have again: "validate_seed_phrase n None = Inr n"
    using validate_words [OF w(2), of None] w(1,3) by simp
  then show ?thesis
    using w assms by (simp add: SUPPORTED_SEED_WORD_COUNTS_def derive_seed_wallet_id_def)
qed

theorem validated_phrase_is_normal_form_witness:
  "\<forall>C :: crypto. derive_seed_wallet_id C ('' '' @ generate_seed_phrase (replicate 32 200))
    = derive_seed_wallet_id C (generate_seed_phrase (replicate 32 200))"
proof -
  have "set (map (\<lambda>i. SEED_WORDS ! i) (replicate 32 200)) \<subseteq> set SEED_WORDS"
    by (simp add: seed_words_distinct(2))
  from validate_words [OF this, of None]
  have "validate_seed_phrase (generate_seed_phrase (replicate 32 200)) None = Inr (generate_seed_phrase (replicate 32 200))"
    by (simp add: generate_seed_phrase_def SUPPORTED_SEED_WORD_COUNTS_def)
  moreover have "validate_seed_phrase ('' '' @ t) None = validate_seed_phrase t None" for t
    by (simp add: validate_seed_phrase_def normalize_seed_phrase_def py_strip_def)
  ultimately have "validate_seed_phrase ('' '' @ generate_seed_phrase (replicate 32 200)) None
      = Inr (generate_seed_phrase (replicate 32 200))" by simp
  then show ?thesis using validated_phrase_is_normal_form by blast
qed

end
