(* ===== verification/Wallet.thy ===== *)
theory Wallet
  imports Validators SeedPhrase
begin

text \<open>
  \<open>src/src/cai_compute_chain/wallet.py\<close> and the key handling of \<open>wallet_signing.py\<close>: wallet
  records, the session, the local ledger, the journal, and every operation that changes them.

  The state is the data directory, one field per file; a file holds the decoded records (the
  JSON codec of these files is not modelled, that of the chain file is, in \<open>ChainCodec\<close>).
  Base64, PBKDF2, AES-GCM and the signature libraries are the fields of \<open>wallet_lib\<close>; the
  number of PBKDF2 rounds, a constant of the policy, is part of that field. What
  \<open>secrets\<close> and the clock return is the record \<open>wallet_rand\<close>. The text of a raised
  exception is not modelled, its class is.
\<close>

record WalletRecord =
  w_wallet_id :: string
  w_name :: string
  w_address :: string
  w_created_at :: string
  w_password_salt_b64 :: string
  w_password_hash_b64 :: string
  w_spendable_balance_atomic :: int
  w_validator_reserved_atomic :: int
  w_seed_fingerprint :: "string option"
  w_seed_word_count :: "nat option"
  w_signing_scheme :: "string option"
  w_address_scheme :: "string option"
  w_public_key_b64 :: "string option"
  w_encrypted_private_key_b64 :: "string option"
  w_private_key_salt_b64 :: "string option"
  w_private_key_nonce_b64 :: "string option"
  w_pq_signing_scheme :: "string option"
  w_pq_public_key_b64 :: "string option"
  w_encrypted_pq_private_key_b64 :: "string option"
  w_pq_private_key_salt_b64 :: "string option"
  w_pq_private_key_nonce_b64 :: "string option"

record WalletSession =
  active_wallet_id :: "string option"
  unlocked_wallet_id :: "string option"
  unlocked_at :: "string option"

record SeedWalletIdentity =
  si_wallet_id :: string
  si_address :: string
  si_address_scheme :: string
  si_public_key_b64 :: string
  si_pq_public_key_b64 :: string

record LedgerState =
  l_compute_reserve_balance_atomic :: int
  l_project_treasury_balance_atomic :: int
  l_developer_treasury_wallet_id :: "string option"
  l_developer_treasury_address :: "string option"
  l_developer_treasury_allocated_atomic :: int
  l_developer_treasury_provisioned_locally :: bool
  l_developer_treasury_seed_file :: "string option"
  l_developer_treasury_password_file :: "string option"
  l_ai_development_wallet_id :: "string option"
  l_ai_development_address :: "string option"
  l_ai_development_provisioned_locally :: bool
  l_ai_development_seed_file :: "string option"
  l_ai_development_password_file :: "string option"
  l_ai_development_fee_pool_atomic :: int
  l_validator_fee_pool_atomic :: int
  l_validator_slashed_atomic :: int
  l_tx_fee_pool_atomic :: int
  l_worker_distributed_atomic :: int
  l_settlements_applied :: int

record JournalEntry =
  je_entry_id :: string
  je_event_type :: string
  je_created_at :: string
  je_wallet_id :: "string option"
  je_counterparty_address :: "string option"
  je_amount_atomic :: "int option"
  je_funding_source :: "string option"
  je_compute_cost_atomic :: "int option"
  je_tx_fee_atomic :: "int option"
  je_settlement_fee_atomic :: "int option"
  je_worker_reward_atomic :: "int option"
  je_note :: "string option"

text \<open>
  The files of the data directory. A secret is a pair of files, the seed phrase and the password,
  and their paths. \<open>dd_unlink_fails\<close> is a fact about the file system: whether removing the key
  file raises \<open>OSError\<close>, because the file is held open or its directory may not be written.
\<close>

record data_dir =
  dd_wallets :: "WalletRecord list"
  dd_session :: WalletSession
  dd_ledger :: "LedgerState option"
  dd_journal :: "JournalEntry list"
  dd_unlocked_key :: "obj option"
  dd_unlink_fails :: bool
  dd_treasury_seed :: "string option"
  dd_treasury_password :: "string option"
  dd_ai_seed :: "string option"
  dd_ai_password :: "string option"
  dd_validators :: "ValidatorRecord list"
  dd_chain :: chain_store

record wallet_lib =
  wl_b64_encode :: "string \<Rightarrow> string"
  wl_b64_decode :: "string \<Rightarrow> string option"
  wl_pbkdf2 :: "string \<Rightarrow> string \<Rightarrow> string"
  wl_aesgcm_encrypt :: "string \<Rightarrow> string \<Rightarrow> string \<Rightarrow> string \<Rightarrow> string"
  wl_aesgcm_decrypt :: "string \<Rightarrow> string \<Rightarrow> string \<Rightarrow> string \<Rightarrow> string option"
  wl_sha256_bytes :: "string \<Rightarrow> string"
  wl_public_key :: "string \<Rightarrow> string"
  wl_pq_keypair :: "string \<Rightarrow> string \<times> string"
  wl_sign :: "string \<Rightarrow> string \<Rightarrow> string option"
  wl_sign_pq :: "string \<Rightarrow> string \<Rightarrow> string option"

record wallet_rand =
  wr_now :: string
  wr_token :: string
  wr_salt :: string
  wr_signing_seed :: string
  wr_pq_seed :: string
  wr_key_salt :: string
  wr_key_nonce :: string
  wr_pq_key_salt :: string
  wr_pq_key_nonce :: string
  wr_entry_id :: string
  wr_next_entry_id :: string
  wr_password :: string
  wr_seed_token :: "nat list"

record wallet_paths =
  wp_treasury_seed_file :: string
  wp_treasury_password_file :: string
  wp_ai_seed_file :: string
  wp_ai_password_file :: string

text \<open>An operation on the chain files, as an operation on the data directory.\<close>

definition on_chain :: "(chain_store, 'e, 'a) sres \<Rightarrow> ('x data_dir_scheme, 'e, 'a) sres" where
  "on_chain m s = (case m (dd_chain s) of (r, c) \<Rightarrow> (r, s\<lparr>dd_chain := c\<rparr>))"

section \<open>Wallets, session, journal\<close>

definition save_wallets :: "WalletRecord list \<Rightarrow> ('x data_dir_scheme, py_error, unit) sres" where
  "save_wallets ws s = (Inr (), s\<lparr>dd_wallets := ws\<rparr>)"

text \<open>\<open>list_wallets\<close> rewrites the file when an address was not in normal form.\<close>

definition list_wallets :: "('x data_dir_scheme, py_error, WalletRecord list) sres" where
  "list_wallets s =
    (let ws = map (\<lambda>w. w\<lparr>w_address := normalize_address (w_address w)\<rparr>) (dd_wallets s);
         changed = list_ex (\<lambda>w. w_address w \<noteq> normalize_address (w_address w)) (dd_wallets s)
     in (Inr ws, if changed then s\<lparr>dd_wallets := ws\<rparr> else s))"

definition load_session :: "('x data_dir_scheme, py_error, WalletSession) sres" where
  "load_session s = (Inr (dd_session s), s)"

definition save_session :: "WalletSession \<Rightarrow> ('x data_dir_scheme, py_error, unit) sres" where
  "save_session session s = (Inr (), s\<lparr>dd_session := session\<rparr>)"

definition append_journal_entry :: "JournalEntry \<Rightarrow> ('x data_dir_scheme, py_error, unit) sres" where
  "append_journal_entry e s = (Inr (), s\<lparr>dd_journal := dd_journal s @ [e]\<rparr>)"

definition journal_entry :: "string \<Rightarrow> string \<Rightarrow> string \<Rightarrow> string \<Rightarrow> int option \<Rightarrow> string \<Rightarrow> JournalEntry" where
  "journal_entry i typ now wid amount note =
    \<lparr>je_entry_id = i, je_event_type = typ, je_created_at = now, je_wallet_id = Some wid,
     je_counterparty_address = None, je_amount_atomic = amount, je_funding_source = None,
     je_compute_cost_atomic = None, je_tx_fee_atomic = None, je_settlement_fee_atomic = None,
     je_worker_reward_atomic = None, je_note = Some note\<rparr>"

text \<open>\<open>xs[:n]\<close>: a negative \<open>n\<close> counts from the end.\<close>

definition slice_to :: "int \<Rightarrow> 'a list \<Rightarrow> 'a list" where
  "slice_to n xs = (if n \<ge> 0 then take (nat n) xs else take (length xs - nat (- n)) xs)"

text \<open>\<open>sort(reverse=True)\<close> keeps the order of equal elements.\<close>

definition list_journal_entries ::
  "string option \<Rightarrow> int option \<Rightarrow> 'x data_dir_scheme \<Rightarrow> JournalEntry list" where
  "list_journal_entries wallet_id limit s =
    (let entries = filter (\<lambda>e. wallet_id = None \<or> je_wallet_id e = wallet_id) (dd_journal s);
         newest = rev (sort_key je_created_at (rev entries))
     in case limit of None \<Rightarrow> newest | Some n \<Rightarrow> slice_to n newest)"

definition wallet_matches :: "string \<Rightarrow> WalletRecord \<Rightarrow> bool" where
  "wallet_matches selector w \<longleftrightarrow> py_lower (w_wallet_id w) = py_lower selector
     \<or> normalize_address (w_address w) = normalize_address selector
     \<or> py_lower (w_name w) = py_lower selector"

definition resolve_wallet :: "string \<Rightarrow> WalletRecord list \<Rightarrow> WalletRecord option" where
  "resolve_wallet selector wallets = List.find (wallet_matches selector) wallets"

definition find_by_id :: "string \<Rightarrow> WalletRecord list \<Rightarrow> WalletRecord option" where
  "find_by_id i ws = List.find (\<lambda>w. w_wallet_id w = i) ws"

definition find_by_address :: "string \<Rightarrow> WalletRecord list \<Rightarrow> WalletRecord option" where
  "find_by_address a ws = List.find (\<lambda>w. normalize_address (w_address w) = normalize_address a) ws"

definition find_wallet_by_id :: "string \<Rightarrow> ('x data_dir_scheme, py_error, WalletRecord option) sres" where
  "find_wallet_by_id i = sbind list_wallets (\<lambda>ws. slift (Inr (find_by_id i ws)))"

definition find_wallet_by_address :: "string \<Rightarrow> ('x data_dir_scheme, py_error, WalletRecord option) sres" where
  "find_wallet_by_address a = sbind list_wallets (\<lambda>ws. slift (Inr (find_by_address a ws)))"

definition get_active_wallet :: "('x data_dir_scheme, py_error, WalletRecord option) sres" where
  "get_active_wallet =
    sbind load_session (\<lambda>session. case active_wallet_id session of
      None \<Rightarrow> slift (Inr None)
    | Some i \<Rightarrow> sbind list_wallets (\<lambda>ws. slift (Inr (find_by_id i ws))))"

text \<open>The first element that satisfies the test is changed, as by an assignment to the object found.\<close>

fun update_first :: "('a \<Rightarrow> bool) \<Rightarrow> ('a \<Rightarrow> 'a) \<Rightarrow> 'a list \<Rightarrow> 'a list" where
  "update_first P f [] = []"
| "update_first P f (x # xs) = (if P x then f x # xs else x # update_first P f xs)"

definition update_wallet :: "WalletRecord \<Rightarrow> ('x data_dir_scheme, py_error, unit) sres" where
  "update_wallet w =
    sbind list_wallets (\<lambda>ws.
    case find_by_id (w_wallet_id w) ws of
      None \<Rightarrow> slift (Inl ValueError)
    | Some _ \<Rightarrow> save_wallets (update_first (\<lambda>x. w_wallet_id x = w_wallet_id w) (\<lambda>_. w) ws))"

definition credit_wallet ::
  "wallet_rand \<Rightarrow> string \<Rightarrow> int \<Rightarrow> ('x data_dir_scheme, py_error, WalletRecord) sres" where
  "credit_wallet R selector amount =
    sbind list_wallets (\<lambda>ws.
    case resolve_wallet selector ws of
      None \<Rightarrow> slift (Inl ValueError)
    | Some w \<Rightarrow>
      (let w' = w\<lparr>w_spendable_balance_atomic := w_spendable_balance_atomic w + amount\<rparr>
       in sbind (save_wallets (update_first (wallet_matches selector) (\<lambda>_. w') ws)) (\<lambda>_.
          sbind (append_journal_entry (journal_entry (wr_entry_id R) ''wallet_credit'' (wr_now R)
            (w_wallet_id w) (Some amount) ''Local prototype credit applied.'')) (\<lambda>_.
          slift (Inr w')))))"

section \<open>Keys\<close>

definition SIGNING_SCHEME_ED25519 :: string where
  "SIGNING_SCHEME_ED25519 = ''ed25519-v1''"

definition DEFAULT_WALLET_HYBRID_ADDRESS_SCHEME :: string where
  "DEFAULT_WALLET_HYBRID_ADDRESS_SCHEME = ADDRESS_SCHEME_HYBRID_256"

definition b64_bytes :: "wallet_lib \<Rightarrow> string \<Rightarrow> (py_error, string) res" where
  "b64_bytes L t = (case wl_b64_decode L t of None \<Rightarrow> Inl ValueError | Some b \<Rightarrow> Inr b)"

definition associated_data :: "string \<Rightarrow> string \<Rightarrow> string" where
  "associated_data wallet_id address = canonical (JObj
    [(''address'', JStr (py_lower (py_strip address))), (''wallet_id'', JStr wallet_id)])"

definition encrypt_signing_seed ::
  "wallet_lib \<Rightarrow> string \<Rightarrow> string \<Rightarrow> string \<Rightarrow> string \<Rightarrow> string \<Rightarrow> string \<Rightarrow> string \<times> string \<times> string" where
  "encrypt_signing_seed L salt nonce seed password wallet_id address =
    (wl_b64_encode L (wl_aesgcm_encrypt L (wl_pbkdf2 L password salt) nonce seed
       (associated_data wallet_id address)),
     wl_b64_encode L salt, wl_b64_encode L nonce)"

definition decrypt_signing_seed ::
  "wallet_lib \<Rightarrow> string \<Rightarrow> string \<Rightarrow> string \<Rightarrow> string \<Rightarrow> string \<Rightarrow> string \<Rightarrow> (py_error, string) res" where
  "decrypt_signing_seed L encrypted salt_b64 nonce_b64 password wallet_id address =
    rbind (b64_bytes L salt_b64) (\<lambda>salt.
    rbind (b64_bytes L nonce_b64) (\<lambda>nonce.
    rbind (b64_bytes L encrypted) (\<lambda>data.
    case wl_aesgcm_decrypt L (wl_pbkdf2 L password salt) nonce data (associated_data wallet_id address) of
      None \<Rightarrow> Inl (LibraryError ''InvalidTag'') | Some seed \<Rightarrow> Inr seed)))"

record signing_material =
  sm_address :: string
  sm_address_scheme :: string
  sm_public_key_b64 :: string
  sm_private_key :: "string \<times> string \<times> string"
  sm_pq_public_key_b64 :: string
  sm_pq_private_key :: "string \<times> string \<times> string"

definition new_wallet_signing_material ::
  "'a crypto_scheme \<Rightarrow> wallet_lib \<Rightarrow> wallet_rand \<Rightarrow> string \<Rightarrow> string \<Rightarrow> string \<Rightarrow> string option \<Rightarrow> string option
   \<Rightarrow> (py_error, signing_material) res" where
  "new_wallet_signing_material C L R wallet_id password signing_seed pq_signing_seed forced_address =
    (let public_key = wl_public_key L signing_seed;
         (pq_public, pq_private) = wl_pq_keypair L (case pq_signing_seed of None \<Rightarrow> wr_pq_seed R | Some q \<Rightarrow> q);
         fixed_address = some_if_text (map_option normalize_address (some_if_text forced_address))
     in rbind (case fixed_address of Some a \<Rightarrow> Inr a
               | None \<Rightarrow> hybrid_address_from_public_keys_b64 C public_key pq_public DEFAULT_WALLET_HYBRID_ADDRESS_SCHEME)
          (\<lambda>address.
        rbind (b64_bytes L pq_private) (\<lambda>pq_bytes.
        Inr \<lparr>sm_address = address,
             sm_address_scheme = (if fixed_address \<noteq> None then ADDRESS_SCHEME_FIXED
                                  else DEFAULT_WALLET_HYBRID_ADDRESS_SCHEME),
             sm_public_key_b64 = public_key,
             sm_private_key = encrypt_signing_seed L (wr_key_salt R) (wr_key_nonce R) signing_seed
               password wallet_id address,
             sm_pq_public_key_b64 = pq_public,
             sm_pq_private_key = encrypt_signing_seed L (wr_pq_key_salt R) (wr_pq_key_nonce R) pq_bytes
               password wallet_id address\<rparr>)))"

text \<open>The wallet that \<open>create_wallet\<close> and \<open>restore_wallet_from_seed\<close> build from the key material.\<close>

definition wallet_of_material ::
  "wallet_lib \<Rightarrow> wallet_rand \<Rightarrow> string \<Rightarrow> string \<Rightarrow> string \<Rightarrow> string option \<Rightarrow> nat option \<Rightarrow> signing_material
   \<Rightarrow> WalletRecord" where
  "wallet_of_material L R wallet_id name password fingerprint words m =
    (case (sm_private_key m, sm_pq_private_key m) of ((key, ksalt, knonce), (pq, psalt, pnonce)) \<Rightarrow>
     \<lparr>w_wallet_id = wallet_id, w_name = name, w_address = sm_address m, w_created_at = wr_now R,
      w_password_salt_b64 = wl_b64_encode L (wr_salt R),
      w_password_hash_b64 = wl_b64_encode L (wl_pbkdf2 L password (wr_salt R)),
      w_spendable_balance_atomic = 0, w_validator_reserved_atomic = 0,
      w_seed_fingerprint = fingerprint, w_seed_word_count = words,
      w_signing_scheme = Some SIGNING_SCHEME_HYBRID, w_address_scheme = Some (sm_address_scheme m),
      w_public_key_b64 = Some (sm_public_key_b64 m), w_encrypted_private_key_b64 = Some key,
      w_private_key_salt_b64 = Some ksalt, w_private_key_nonce_b64 = Some knonce,
      w_pq_signing_scheme = Some SIGNING_SCHEME_ML_DSA_65,
      w_pq_public_key_b64 = Some (sm_pq_public_key_b64 m), w_encrypted_pq_private_key_b64 = Some pq,
      w_pq_private_key_salt_b64 = Some psalt, w_pq_private_key_nonce_b64 = Some pnonce\<rparr>)"

text \<open>\<open>wallets.append(wallet)\<close> and what follows it: the selection and the journal entry.\<close>

definition add_wallet ::
  "wallet_rand \<Rightarrow> string \<Rightarrow> string \<Rightarrow> bool \<Rightarrow> WalletRecord \<Rightarrow> WalletRecord list
   \<Rightarrow> ('x data_dir_scheme, py_error, WalletRecord) sres" where
  "add_wallet R event what select wallet ws =
    sbind (save_wallets (ws @ [wallet])) (\<lambda>_.
    sbind load_session (\<lambda>session.
    sbind (if select \<or> active_wallet_id session = None
           then save_session (session\<lparr>active_wallet_id := Some (w_wallet_id wallet)\<rparr>) else slift (Inr ())) (\<lambda>_.
    sbind (append_journal_entry (journal_entry (wr_entry_id R) event (wr_now R) (w_wallet_id wallet) None
      (''Wallet '' @ [CHR 0x27] @ w_name wallet @ [CHR 0x27] @ what))) (\<lambda>_.
    slift (Inr wallet)))))"

definition create_wallet ::
  "'a crypto_scheme \<Rightarrow> wallet_lib \<Rightarrow> wallet_rand \<Rightarrow> string \<Rightarrow> string \<Rightarrow> bool
   \<Rightarrow> ('x data_dir_scheme, py_error, WalletRecord) sres" where
  "create_wallet C L R name password select =
    sbind list_wallets (\<lambda>ws.
    sbind (slift (new_wallet_signing_material C L R (wr_token R) password (wr_signing_seed R) None None)) (\<lambda>m.
    add_wallet R ''wallet_created'' '' created.'' select
      (wallet_of_material L R (wr_token R) name password None None m) ws))"

definition derive_signing_seed_from_seed_phrase :: "wallet_lib \<Rightarrow> string \<Rightarrow> string" where
  "derive_signing_seed_from_seed_phrase L seed =
    wl_sha256_bytes L (''cai-wallet-ed25519-v1:'' @ normalize_seed_phrase seed)"

definition derive_pq_signing_seed_from_seed_phrase :: "wallet_lib \<Rightarrow> string \<Rightarrow> string" where
  "derive_pq_signing_seed_from_seed_phrase L seed =
    wl_sha256_bytes L (''cai-wallet-ml-dsa-65-v1:'' @ normalize_seed_phrase seed)"

definition derive_seed_wallet_identity ::
  "'a crypto_scheme \<Rightarrow> wallet_lib \<Rightarrow> string \<Rightarrow> (py_error, SeedWalletIdentity) res" where
  "derive_seed_wallet_identity C L seed =
    rbind (validate_seed_phrase seed None) (\<lambda>normalized.
    rbind (derive_seed_wallet_id C normalized) (\<lambda>wallet_id.
    let public_key = wl_public_key L (derive_signing_seed_from_seed_phrase L normalized);
        pq_public = fst (wl_pq_keypair L (derive_pq_signing_seed_from_seed_phrase L normalized))
    in rbind (hybrid_address_from_public_keys_b64 C public_key pq_public DEFAULT_WALLET_HYBRID_ADDRESS_SCHEME)
         (\<lambda>address. Inr \<lparr>si_wallet_id = wallet_id, si_address = address,
            si_address_scheme = DEFAULT_WALLET_HYBRID_ADDRESS_SCHEME,
            si_public_key_b64 = public_key, si_pq_public_key_b64 = pq_public\<rparr>)))"

definition restore_wallet_from_seed ::
  "'a crypto_scheme \<Rightarrow> wallet_lib \<Rightarrow> wallet_rand \<Rightarrow> string \<Rightarrow> string \<Rightarrow> string \<Rightarrow> bool \<Rightarrow> string option
   \<Rightarrow> ('x data_dir_scheme, py_error, WalletRecord) sres" where
  "restore_wallet_from_seed C L R name password seed select forced_address =
    sbind list_wallets (\<lambda>ws.
    sbind (slift (validate_seed_phrase seed None)) (\<lambda>normalized.
    sbind (slift (derive_seed_wallet_id C normalized)) (\<lambda>wallet_id.
    if find_by_id wallet_id ws \<noteq> None then slift (Inl ValueError)
    else sbind (slift (new_wallet_signing_material C L R wallet_id password
        (derive_signing_seed_from_seed_phrase L normalized)
        (Some (derive_pq_signing_seed_from_seed_phrase L normalized)) forced_address)) (\<lambda>m.
      sbind (slift (seed_fingerprint C normalized)) (\<lambda>fingerprint.
      add_wallet R ''wallet_restored'' '' restored from seed phrase.'' select
        (wallet_of_material L R wallet_id name password (Some fingerprint)
          (Some (length (py_split normalized))) m) ws)))))"

definition create_seed_wallet ::
  "'a crypto_scheme \<Rightarrow> wallet_lib \<Rightarrow> wallet_rand \<Rightarrow> string \<Rightarrow> string \<Rightarrow> bool
   \<Rightarrow> ('x data_dir_scheme, py_error, WalletRecord \<times> string) sres" where
  "create_seed_wallet C L R name password select =
    (let seed = generate_seed_phrase (wr_seed_token R) in
     sbind (restore_wallet_from_seed C L R name password seed select None) (\<lambda>w.
     sbind (append_journal_entry (journal_entry (wr_next_entry_id R) ''wallet_seed_generated'' (wr_now R)
       (w_wallet_id w) None ''Seed phrase generated for wallet creation.'')) (\<lambda>_.
     slift (Inr (w, seed)))))"

section \<open>Unlocking\<close>

definition verify_wallet_password :: "wallet_lib \<Rightarrow> WalletRecord \<Rightarrow> string \<Rightarrow> (py_error, bool) res" where
  "verify_wallet_password L w password =
    rbind (b64_bytes L (w_password_salt_b64 w)) (\<lambda>salt.
    rbind (b64_bytes L (w_password_hash_b64 w)) (\<lambda>hash.
    Inr (wl_pbkdf2 L password salt = hash)))"

definition wallet_has_signing_key :: "WalletRecord \<Rightarrow> bool" where
  "wallet_has_signing_key w \<longleftrightarrow>
    (let has = (\<lambda>x. some_if_text x \<noteq> None);
         base = has (w_public_key_b64 w) \<and> has (w_encrypted_private_key_b64 w)
           \<and> has (w_private_key_salt_b64 w) \<and> has (w_private_key_nonce_b64 w)
     in if w_signing_scheme w = Some SIGNING_SCHEME_HYBRID
        then base \<and> w_pq_signing_scheme w = Some SIGNING_SCHEME_ML_DSA_65
          \<and> has (w_pq_public_key_b64 w) \<and> has (w_encrypted_pq_private_key_b64 w)
          \<and> has (w_pq_private_key_salt_b64 w) \<and> has (w_pq_private_key_nonce_b64 w)
        else w_signing_scheme w = Some SIGNING_SCHEME_ED25519 \<and> base)"

text \<open>An \<open>OSError\<close> is passed over: the caller is not told that the key file is still there.\<close>

definition delete_unlocked_signing_key :: "('x data_dir_scheme, py_error, unit) sres" where
  "delete_unlocked_signing_key s =
    (Inr (), if dd_unlink_fails s then s else s\<lparr>dd_unlocked_key := None\<rparr>)"

text \<open>The content of the key file; the arguments are the decrypted keys.\<close>

definition unlocked_payload :: "wallet_lib \<Rightarrow> string \<Rightarrow> WalletRecord \<Rightarrow> string \<Rightarrow> string option \<Rightarrow> obj" where
  "unlocked_payload L now w seed pq =
    [(''wallet_id'', JStr (w_wallet_id w)),
     (''address'', JStr (normalize_address (w_address w))),
     (''address_scheme'', jopt (w_address_scheme w)),
     (''signing_scheme'', jopt (w_signing_scheme w)),
     (''public_key_b64'', jopt (w_public_key_b64 w)),
     (''signing_seed_b64'', JStr (wl_b64_encode L seed)),
     (''unlocked_at'', JStr now)]
    @ (case pq of None \<Rightarrow> [] | Some q \<Rightarrow>
        [(''pq_signing_scheme'', jopt (w_pq_signing_scheme w)),
         (''pq_public_key_b64'', jopt (w_pq_public_key_b64 w)),
         (''pq_private_key_b64'', JStr (wl_b64_encode L q))])"

definition text_or_empty :: "string option \<Rightarrow> string" where
  "text_or_empty x = (case x of None \<Rightarrow> [] | Some t \<Rightarrow> t)"

definition write_unlocked_signing_key ::
  "wallet_lib \<Rightarrow> string \<Rightarrow> WalletRecord \<Rightarrow> string \<Rightarrow> ('x data_dir_scheme, py_error, unit) sres" where
  "write_unlocked_signing_key L now w password =
    (if \<not> wallet_has_signing_key w then delete_unlocked_signing_key
     else sbind (slift (decrypt_signing_seed L (text_or_empty (w_encrypted_private_key_b64 w))
            (text_or_empty (w_private_key_salt_b64 w)) (text_or_empty (w_private_key_nonce_b64 w))
            password (w_wallet_id w) (w_address w))) (\<lambda>seed.
       sbind (if w_signing_scheme w = Some SIGNING_SCHEME_HYBRID
              then sbind (slift (decrypt_signing_seed L (text_or_empty (w_encrypted_pq_private_key_b64 w))
                  (text_or_empty (w_pq_private_key_salt_b64 w)) (text_or_empty (w_pq_private_key_nonce_b64 w))
                  password (w_wallet_id w) (w_address w))) (\<lambda>q. slift (Inr (Some q)))
              else slift (Inr None)) (\<lambda>pq s.
       (Inr (), s\<lparr>dd_unlocked_key := Some (unlocked_payload L now w seed pq)\<rparr>))))"

definition load_unlocked_signing_key :: "WalletRecord \<Rightarrow> 'x data_dir_scheme \<Rightarrow> obj option" where
  "load_unlocked_signing_key w s =
    (case dd_unlocked_key s of None \<Rightarrow> None
     | Some payload \<Rightarrow>
       if str_of_or (jget payload ''wallet_id'') [] \<noteq> w_wallet_id w then None
       else if normalize_address (str_of_or (jget payload ''address'') []) \<noteq> normalize_address (w_address w) then None
       else Some payload)"

definition select_active_wallet :: "string \<Rightarrow> ('x data_dir_scheme, py_error, WalletRecord) sres" where
  "select_active_wallet selector =
    sbind list_wallets (\<lambda>ws.
    case resolve_wallet selector ws of None \<Rightarrow> slift (Inl ValueError)
    | Some w \<Rightarrow>
      sbind load_session (\<lambda>session.
      sbind (if unlocked_wallet_id session \<noteq> Some (w_wallet_id w)
             then sbind delete_unlocked_signing_key (\<lambda>_.
                    slift (Inr (session\<lparr>unlocked_wallet_id := None, unlocked_at := None\<rparr>)))
             else slift (Inr session)) (\<lambda>session.
      sbind (save_session (session\<lparr>active_wallet_id := Some (w_wallet_id w)\<rparr>)) (\<lambda>_.
      slift (Inr w)))))"

definition unlock_wallet ::
  "wallet_lib \<Rightarrow> string \<Rightarrow> string \<Rightarrow> string option \<Rightarrow> ('x data_dir_scheme, py_error, WalletRecord) sres" where
  "unlock_wallet L now password selector =
    sbind list_wallets (\<lambda>ws.
    sbind (case selector of Some sel \<Rightarrow> slift (Inr (resolve_wallet sel ws)) | None \<Rightarrow> get_active_wallet) (\<lambda>found.
    case found of None \<Rightarrow> slift (Inl ValueError)
    | Some w \<Rightarrow>
      sbind (slift (verify_wallet_password L w password)) (\<lambda>ok.
      if \<not> ok then slift (Inl ValueError)
      else sbind load_session (\<lambda>session.
        sbind (save_session (session\<lparr>active_wallet_id := Some (w_wallet_id w),
           unlocked_wallet_id := Some (w_wallet_id w), unlocked_at := Some now\<rparr>)) (\<lambda>_.
        sbind (write_unlocked_signing_key L now w password) (\<lambda>_.
        slift (Inr w)))))))"

definition lock_wallet :: "('x data_dir_scheme, py_error, WalletSession) sres" where
  "lock_wallet =
    sbind load_session (\<lambda>session.
    let session = session\<lparr>unlocked_wallet_id := None, unlocked_at := None\<rparr> in
    sbind (save_session session) (\<lambda>_.
    sbind delete_unlocked_signing_key (\<lambda>_.
    slift (Inr session))))"

definition logout_wallet :: "('x data_dir_scheme, py_error, WalletSession) sres" where
  "logout_wallet =
    sbind load_session (\<lambda>session.
    let session = session\<lparr>active_wallet_id := None, unlocked_wallet_id := None, unlocked_at := None\<rparr> in
    sbind (save_session session) (\<lambda>_.
    sbind delete_unlocked_signing_key (\<lambda>_.
    slift (Inr session))))"

end
