(* ===== verification/WalletTransfer.thy ===== *)
theory WalletTransfer
  imports Wallet
begin

text \<open>
  The money operations of \<open>src/src/cai_compute_chain/wallet.py\<close>: the local ledger file, the
  provisioning of the two project wallets from their seed files, and
  \<open>apply_wallet_transfer\<close>, which writes a block to the chain when there is one and moves
  local balances otherwise.
\<close>

section \<open>The local ledger\<close>

definition save_ledger :: "LedgerState \<Rightarrow> ('x data_dir_scheme, py_error, unit) sres" where
  "save_ledger l s = (Inr (), s\<lparr>dd_ledger := Some l\<rparr>)"

definition new_ledger :: "MoneyPolicy \<Rightarrow> wallet_paths \<Rightarrow> LedgerState" where
  "new_ledger mp paths =
    \<lparr>l_compute_reserve_balance_atomic = whole_coins_to_atomic (mp_compute_reserve_coins mp) mp,
     l_project_treasury_balance_atomic = 0,
     l_developer_treasury_wallet_id = Some (mp_developer_treasury_wallet_id mp),
     l_developer_treasury_address = Some (mp_developer_treasury_address mp),
     l_developer_treasury_allocated_atomic = whole_coins_to_atomic (mp_developer_treasury_coins mp) mp,
     l_developer_treasury_provisioned_locally = False,
     l_developer_treasury_seed_file = Some (wp_treasury_seed_file paths),
     l_developer_treasury_password_file = Some (wp_treasury_password_file paths),
     l_ai_development_wallet_id = Some (mp_ai_development_wallet_id mp),
     l_ai_development_address = Some (mp_ai_development_address mp),
     l_ai_development_provisioned_locally = False,
     l_ai_development_seed_file = Some (wp_ai_seed_file paths),
     l_ai_development_password_file = Some (wp_ai_password_file paths),
     l_ai_development_fee_pool_atomic = 0, l_validator_fee_pool_atomic = 0,
     l_validator_slashed_atomic = 0, l_tx_fee_pool_atomic = 0, l_worker_distributed_atomic = 0,
     l_settlements_applied = 0\<rparr>"

text \<open>\<open>x if x else y\<close> and \<open>x if x is not None else y\<close> for the fields an older file may lack\<close>

definition text_else :: "string option \<Rightarrow> string \<Rightarrow> string option" where
  "text_else x y = (case some_if_text x of Some t \<Rightarrow> Some t | None \<Rightarrow> Some y)"

definition some_else :: "'v option \<Rightarrow> 'v \<Rightarrow> 'v option" where
  "some_else x y = (case x of Some t \<Rightarrow> Some t | None \<Rightarrow> Some y)"

definition completed_ledger :: "MoneyPolicy \<Rightarrow> wallet_paths \<Rightarrow> LedgerState \<Rightarrow> LedgerState" where
  "completed_ledger mp paths l =
    (let expected = whole_coins_to_atomic (mp_developer_treasury_coins mp) mp;
         missing = l_developer_treasury_allocated_atomic l \<le> 0
     in l\<lparr>l_project_treasury_balance_atomic :=
            (if missing \<and> l_project_treasury_balance_atomic l = expected then 0
             else l_project_treasury_balance_atomic l),
          l_developer_treasury_wallet_id :=
            text_else (l_developer_treasury_wallet_id l) (mp_developer_treasury_wallet_id mp),
          l_developer_treasury_address :=
            text_else (l_developer_treasury_address l) (mp_developer_treasury_address mp),
          l_developer_treasury_allocated_atomic :=
            (if missing then expected else l_developer_treasury_allocated_atomic l),
          l_developer_treasury_seed_file :=
            some_else (l_developer_treasury_seed_file l) (wp_treasury_seed_file paths),
          l_developer_treasury_password_file :=
            some_else (l_developer_treasury_password_file l) (wp_treasury_password_file paths),
          l_ai_development_wallet_id :=
            text_else (l_ai_development_wallet_id l) (mp_ai_development_wallet_id mp),
          l_ai_development_address :=
            text_else (l_ai_development_address l) (mp_ai_development_address mp),
          l_ai_development_seed_file := some_else (l_ai_development_seed_file l) (wp_ai_seed_file paths),
          l_ai_development_password_file :=
            some_else (l_ai_development_password_file l) (wp_ai_password_file paths)\<rparr>)"

text \<open>The file is written when it was missing or some field was; writing it unchanged is no write.\<close>

definition load_or_create_ledger ::
  "MoneyPolicy \<Rightarrow> wallet_paths \<Rightarrow> ('x data_dir_scheme, py_error, LedgerState) sres" where
  "load_or_create_ledger mp paths s =
    (let l = (case dd_ledger s of None \<Rightarrow> new_ledger mp paths | Some l \<Rightarrow> completed_ledger mp paths l)
     in (Inr l, s\<lparr>dd_ledger := Some l\<rparr>))"

section \<open>The project wallets\<close>

text \<open>
  What \<open>ensure_local_developer_treasury_wallet\<close> and \<open>ensure_local_ai_development_wallet\<close> share:
  the wallet of the seed, found or restored, and the checks that it is the configured one.
\<close>

definition ensure_seed_wallet ::
  "'a crypto_scheme \<Rightarrow> wallet_lib \<Rightarrow> wallet_rand \<Rightarrow> string \<Rightarrow> string \<Rightarrow> SeedWalletIdentity \<Rightarrow> string
   \<Rightarrow> string \<Rightarrow> string \<Rightarrow> ('x data_dir_scheme, py_error, WalletRecord) sres" where
  "ensure_seed_wallet C L R name seed identity password configured_id configured =
    (let configured_address = normalize_address configured;
         forced = (if configured_address = si_address identity then None else Some configured)
     in sbind (find_wallet_by_id configured_id) (\<lambda>found.
        sbind (case found of Some w \<Rightarrow> slift (Inr w)
               | None \<Rightarrow> restore_wallet_from_seed C L R name password seed False forced) (\<lambda>w.
        if w_wallet_id w \<noteq> configured_id then slift (Inl ValueError)
        else if normalize_address (w_address w) \<noteq> configured_address then slift (Inl ValueError)
        else if forced = None \<and> w_address_scheme w \<noteq> Some (si_address_scheme identity) then slift (Inl ValueError)
        else slift (Inr w))))"

definition seed_file_text :: "('x data_dir_scheme \<Rightarrow> string option) \<Rightarrow> ('x data_dir_scheme, py_error, string) sres" where
  "seed_file_text file s = (case file s of None \<Rightarrow> (Inl ValueError, s) | Some t \<Rightarrow> (Inr (py_strip t), s))"

text \<open>The password file is read, or written with a fresh password.\<close>

definition treasury_password :: "wallet_rand \<Rightarrow> ('x data_dir_scheme, py_error, string) sres" where
  "treasury_password R s = (case dd_treasury_password s of Some t \<Rightarrow> (Inr (py_strip t), s)
     | None \<Rightarrow> (Inr (wr_password R), s\<lparr>dd_treasury_password := Some (wr_password R)\<rparr>))"

definition ai_password :: "wallet_rand \<Rightarrow> ('x data_dir_scheme, py_error, string) sres" where
  "ai_password R s = (case dd_ai_password s of Some t \<Rightarrow> (Inr (py_strip t), s)
     | None \<Rightarrow> (Inr (wr_password R), s\<lparr>dd_ai_password := Some (wr_password R)\<rparr>))"

definition provision_treasury ::
  "wallet_rand \<Rightarrow> wallet_paths \<Rightarrow> MoneyPolicy \<Rightarrow> LedgerState \<Rightarrow> WalletRecord
   \<Rightarrow> ('x data_dir_scheme, py_error, WalletRecord) sres" where
  "provision_treasury R paths mp ledger w =
    (let w' = w\<lparr>w_spendable_balance_atomic :=
                 w_spendable_balance_atomic w + l_developer_treasury_allocated_atomic ledger\<rparr>
     in sbind (update_wallet w') (\<lambda>_.
        sbind (save_ledger (ledger\<lparr>l_developer_treasury_provisioned_locally := True,
           l_developer_treasury_wallet_id := Some (w_wallet_id w),
           l_developer_treasury_address := Some (w_address w),
           l_developer_treasury_seed_file := Some (wp_treasury_seed_file paths),
           l_developer_treasury_password_file := Some (wp_treasury_password_file paths)\<rparr>)) (\<lambda>_.
        sbind (append_journal_entry (journal_entry (wr_next_entry_id R) ''developer_treasury_provisioned''
          (wr_now R) (w_wallet_id w) (Some (l_developer_treasury_allocated_atomic ledger))
          (''Developer treasury genesis allocation provisioned for ''
           @ chain_network_value (mp_chain_network mp) @ ''.''))) (\<lambda>_.
        slift (Inr w')))))"

definition ensure_local_developer_treasury_wallet ::
  "'a crypto_scheme \<Rightarrow> wallet_lib \<Rightarrow> wallet_rand \<Rightarrow> wallet_paths \<Rightarrow> MoneyPolicy
   \<Rightarrow> ('x data_dir_scheme, py_error, WalletRecord) sres" where
  "ensure_local_developer_treasury_wallet C L R paths mp =
    sbind (load_or_create_ledger mp paths) (\<lambda>ledger.
    sbind (seed_file_text dd_treasury_seed) (\<lambda>seed.
    sbind (slift (derive_seed_wallet_identity C L seed)) (\<lambda>identity.
    if si_wallet_id identity \<noteq> mp_developer_treasury_wallet_id mp then slift (Inl ValueError)
    else
      sbind (treasury_password R) (\<lambda>password.
      sbind (ensure_seed_wallet C L R
        (''Developer Treasury ('' @ chain_network_value (mp_chain_network mp) @ '')'') seed identity password
        (mp_developer_treasury_wallet_id mp) (mp_developer_treasury_address mp)) (\<lambda>w.
      if l_developer_treasury_provisioned_locally ledger then slift (Inr w)
      else provision_treasury R paths mp ledger w)))))"

definition provision_ai_development ::
  "wallet_rand \<Rightarrow> wallet_paths \<Rightarrow> MoneyPolicy \<Rightarrow> LedgerState \<Rightarrow> WalletRecord
   \<Rightarrow> ('x data_dir_scheme, py_error, WalletRecord) sres" where
  "provision_ai_development R paths mp ledger w =
    sbind (save_ledger (ledger\<lparr>l_ai_development_provisioned_locally := True,
      l_ai_development_wallet_id := Some (w_wallet_id w),
      l_ai_development_address := Some (w_address w),
      l_ai_development_seed_file := Some (wp_ai_seed_file paths),
      l_ai_development_password_file := Some (wp_ai_password_file paths)\<rparr>)) (\<lambda>_.
    sbind (append_journal_entry (journal_entry (wr_next_entry_id R) ''ai_development_wallet_provisioned''
      (wr_now R) (w_wallet_id w) (Some 0)
      (''AI development wallet provisioned for '' @ chain_network_value (mp_chain_network mp) @ ''.''))) (\<lambda>_.
    slift (Inr w)))"

definition ensure_local_ai_development_wallet ::
  "'a crypto_scheme \<Rightarrow> wallet_lib \<Rightarrow> wallet_rand \<Rightarrow> wallet_paths \<Rightarrow> MoneyPolicy
   \<Rightarrow> ('x data_dir_scheme, py_error, WalletRecord) sres" where
  "ensure_local_ai_development_wallet C L R paths mp =
    sbind (load_or_create_ledger mp paths) (\<lambda>ledger.
    sbind (seed_file_text dd_ai_seed) (\<lambda>seed.
    sbind (slift (derive_seed_wallet_identity C L seed)) (\<lambda>identity.
    if si_wallet_id identity \<noteq> mp_ai_development_wallet_id mp then slift (Inl ValueError)
    else
      sbind (ai_password R) (\<lambda>password.
      sbind (ensure_seed_wallet C L R
        (''AI Development ('' @ chain_network_value (mp_chain_network mp) @ '')'') seed identity password
        (mp_ai_development_wallet_id mp) (mp_ai_development_address mp)) (\<lambda>w.
      if l_ai_development_provisioned_locally ledger then slift (Inr w)
      else provision_ai_development R paths mp ledger w)))))"

section \<open>Transfers\<close>

definition transfer_metadata :: "MoneyPolicy \<Rightarrow> string \<Rightarrow> int \<Rightarrow> int \<Rightarrow> obj" where
  "transfer_metadata mp transfer_id amount fee =
    [(''transfer_id'', JStr transfer_id), (''amount_atomic'', JInt amount),
     (''tx_fee_atomic'', JInt fee), (''reward_token_code'', JStr (mp_reward_token_code mp))]"

definition needs_pq :: "string option \<Rightarrow> bool" where
  "needs_pq scheme \<longleftrightarrow> (case scheme of None \<Rightarrow> False
     | Some t \<Rightarrow> t \<in> set HYBRID_ADDRESS_SCHEMES \<or> t = ADDRESS_SCHEME_FIXED)"

definition signs_transfers :: "string option \<Rightarrow> bool" where
  "signs_transfers scheme \<longleftrightarrow> scheme = Some ADDRESS_SCHEME_ED25519 \<or> needs_pq scheme"

definition debit_metadata :: "obj \<Rightarrow> WalletRecord \<Rightarrow> obj option \<Rightarrow> obj" where
  "debit_metadata common sender signer =
    (case signer of None \<Rightarrow> common
     | Some payload \<Rightarrow> common @ [(''signature_required'', JBool True),
         (''address_scheme'', JStr (text_or_empty (w_address_scheme sender)))]
       @ (if w_address_scheme sender = Some ADDRESS_SCHEME_FIXED
          then [(''signing_scheme'', JStr SIGNING_SCHEME_HYBRID)] else [])
       @ (if needs_pq (w_address_scheme sender)
          then [(''pq_signature_scheme'', JStr SIGNING_SCHEME_ML_DSA_65),
                (''pq_public_key_b64'', JStr (str_of_or (jget payload ''pq_public_key_b64'') []))] else []))"

text \<open>A library call that may raise \<open>ValueError\<close>.\<close>

definition or_raise :: "'v option \<Rightarrow> (py_error, 'v) res" where
  "or_raise x = (case x of None \<Rightarrow> Inl ValueError | Some v \<Rightarrow> Inr v)"

text \<open>
  The signed debit: the Ed25519 signature is on the transaction without signatures, and so is
  the ML-DSA signature, which is put into the metadata after the first one is set.
\<close>

definition sign_debit ::
  "chain_env \<Rightarrow> wallet_lib \<Rightarrow> WalletRecord \<Rightarrow> obj option \<Rightarrow> ChainTransaction \<Rightarrow> (py_error, ChainTransaction) res" where
  "sign_debit E L sender signer tx =
    (case signer of None \<Rightarrow> Inr tx
     | Some payload \<Rightarrow>
       if str_of_or (jget payload ''public_key_b64'') [] = [] then Inr tx
       else rbind (b64_bytes L (str_of_or (jget payload ''signing_seed_b64'') [])) (\<lambda>seed.
         rbind (or_raise (wl_sign L seed (canonical (JObj (transaction_signing_payload (getenv E) tx))))) (\<lambda>sig.
         let tx1 = tx\<lparr>tx_signature_b64 := Some sig\<rparr> in
         if \<not> needs_pq (w_address_scheme sender) then Inr tx1
         else rbind (or_raise (wl_sign_pq L (str_of_or (jget payload ''pq_private_key_b64'') [])
                (canonical (JObj (transaction_signing_payload (getenv E) tx1))))) (\<lambda>pq.
           Inr (tx1\<lparr>tx_metadata := AList.update ''pq_signature_b64'' (JStr pq) (tx_metadata tx1)\<rparr>)))))"

definition fee_share_transaction ::
  "chain_env \<Rightarrow> string \<Rightarrow> string \<Rightarrow> string \<Rightarrow> obj \<Rightarrow> WalletRecord \<Rightarrow> ValidatorRecord list
   \<Rightarrow> ValidatorCommitteeSnapshot \<Rightarrow> int \<Rightarrow> ValidatorFeeShare \<Rightarrow> ChainTransaction" where
  "fee_share_transaction E now transfer_id chain_id common sender registry committee total_bonded share =
    make_chain_transaction E now
      ((tx_args ''wallet_transfer_validator_fee_payout'' (fs_validator_id share) (fs_amount_atomic share))
        \<lparr>ta_wallet_id := (case get_validator_record (fs_validator_id share) registry of
            None \<Rightarrow> JNull | Some r \<Rightarrow> jopt (v_wallet_id r)),
         ta_counterparty_address := Some (w_address sender),
         ta_nonce := Some (transfer_id @ '':validator-fee:'' @ fs_validator_id share),
         ta_metadata := common @
           [(''validator_id'', JStr (fs_validator_id share)),
            (''validator_bonded_atomic'', JInt (fs_bonded_atomic share)),
            (''committee_total_bonded_atomic'', JInt total_bonded),
            (''committee_validator_ids'', JList (map JStr (vc_validator_ids committee))),
            (''committee_quorum_bond_atomic'', JInt (vc_quorum_bond_atomic committee)),
            (''distribution'', JStr ''committee_bond_weighted'')],
         ta_chain_id := Some chain_id\<rparr>)"

definition fee_transactions ::
  "chain_env \<Rightarrow> string \<Rightarrow> MoneyPolicy \<Rightarrow> string \<Rightarrow> string \<Rightarrow> obj \<Rightarrow> WalletRecord \<Rightarrow> ValidatorRecord list
   \<Rightarrow> ValidatorCommitteeSnapshot \<Rightarrow> int \<Rightarrow> ChainTransaction list" where
  "fee_transactions E now mp transfer_id chain_id common sender registry committee fee =
    (let shares = split_amount_by_validator_bond fee (vc_bonded_atomic_by_validator_id committee)
                    (Some (vc_validator_ids committee))
     in if shares \<noteq> []
        then map (fee_share_transaction E now transfer_id chain_id common sender registry committee
               (sum_list (map fs_bonded_atomic shares))) shares
        else [make_chain_transaction E now
          ((tx_args ''wallet_transfer_fee_credit'' (tx_fee_pool_chain_address mp) fee)
            \<lparr>ta_wallet_id := JStr (''system-tx-fee-pool-'' @ chain_id),
             ta_counterparty_address := Some (w_address sender),
             ta_nonce := Some (transfer_id @ '':fee''),
             ta_metadata := common @ [(''distribution'', JStr ''legacy_pool'')],
             ta_chain_id := Some chain_id\<rparr>)])"

definition debit_transaction ::
  "chain_env \<Rightarrow> string \<Rightarrow> string \<Rightarrow> string \<Rightarrow> obj \<Rightarrow> WalletRecord \<Rightarrow> obj option \<Rightarrow> string \<Rightarrow> int \<Rightarrow> ChainTransaction" where
  "debit_transaction E now transfer_id chain_id common sender signer recipient total_debit =
    make_chain_transaction E now
      ((tx_args ''wallet_transfer_debit'' (w_address sender) (- total_debit))
        \<lparr>ta_wallet_id := JStr (w_wallet_id sender),
         ta_counterparty_address := Some recipient,
         ta_nonce := Some (transfer_id @ '':debit''),
         ta_metadata := debit_metadata common sender signer,
         ta_chain_id := Some chain_id,
         ta_public_key_b64 := map_option (\<lambda>payload. str_of_or (jget payload ''public_key_b64'') []) signer\<rparr>)"

definition credit_transaction ::
  "chain_env \<Rightarrow> string \<Rightarrow> string \<Rightarrow> string \<Rightarrow> obj \<Rightarrow> WalletRecord \<Rightarrow> string \<Rightarrow> WalletRecord option \<Rightarrow> int
   \<Rightarrow> ChainTransaction" where
  "credit_transaction E now transfer_id chain_id common sender recipient recipient_wallet amount =
    make_chain_transaction E now
      ((tx_args ''wallet_transfer_credit'' recipient amount)
        \<lparr>ta_wallet_id := (case recipient_wallet of None \<Rightarrow> JNull | Some r \<Rightarrow> JStr (w_wallet_id r)),
         ta_counterparty_address := Some (w_address sender),
         ta_nonce := Some (transfer_id @ '':credit''),
         ta_metadata := common,
         ta_chain_id := Some chain_id\<rparr>)"

text \<open>The loop that reads the new balances of the wallets a transfer touched.\<close>

fun refresh_balances ::
  "chain_env \<Rightarrow> WalletPolicy option \<Rightarrow> io \<Rightarrow> string list \<Rightarrow> WalletRecord list
   \<Rightarrow> ('x data_dir_scheme, py_error, WalletRecord list) sres" where
  "refresh_balances E p w affected [] = slift (Inr [])"
| "refresh_balances E p w affected (x # xs) =
    (if normalize_address (w_address x) \<in> set affected
     then sbind (on_chain (chain_balance_atomic E p w (w_address x))) (\<lambda>b.
          sbind (refresh_balances E p w affected xs) (\<lambda>ys.
          slift (Inr (x\<lparr>w_spendable_balance_atomic := b\<rparr> # ys))))
     else sbind (refresh_balances E p w affected xs) (\<lambda>ys. slift (Inr (x # ys))))"

text \<open>The end of a chain transfer: the block, the new balances, the wallet file.\<close>

definition write_transfer ::
  "chain_env \<Rightarrow> WalletPolicy \<Rightarrow> io \<Rightarrow> WalletRecord list \<Rightarrow> WalletRecord \<Rightarrow> string \<Rightarrow> string list
   \<Rightarrow> ChainTransaction list \<Rightarrow> ('x data_dir_scheme, py_error, WalletRecord \<times> WalletRecord option) sres" where
  "write_transfer E p w wallets sender recipient affected txs =
    sbind (on_chain (append_chain_block E (Some p) w JNull txs)) (\<lambda>_.
    sbind (refresh_balances E (Some p) w affected wallets) (\<lambda>ws.
    sbind (save_wallets ws) (\<lambda>_.
    slift (Inr (case find_by_id (w_wallet_id sender) ws of Some x \<Rightarrow> x | None \<Rightarrow> sender,
                List.find (\<lambda>x. normalize_address (w_address x) = recipient) ws)))))"

definition finish_transfer ::
  "chain_env \<Rightarrow> WalletPolicy \<Rightarrow> io \<Rightarrow> string \<Rightarrow> WalletRecord list \<Rightarrow> WalletRecord \<Rightarrow> string \<Rightarrow> WalletRecord option
   \<Rightarrow> int \<Rightarrow> int \<Rightarrow> ChainTransaction \<Rightarrow> ValidatorCommitteeSnapshot
   \<Rightarrow> ('x data_dir_scheme, py_error, WalletRecord \<times> WalletRecord option) sres" where
  "finish_transfer E p w transfer_id wallets sender recipient recipient_wallet amount fee debit committee s =
    (let mp = MoneyPolicy_for (getenv E) (wp_chain_network p);
         chain_id = chain_network_value (mp_chain_network mp);
         common = transfer_metadata mp transfer_id amount fee;
         fees = fee_transactions E (io_now w) mp transfer_id chain_id common sender (dd_validators s) committee fee;
         credit = credit_transaction E (io_now w) transfer_id chain_id common sender recipient recipient_wallet amount;
         affected = normalize_address (w_address sender) # recipient
           # map (\<lambda>tx. normalize_address (tx_address tx)) (filter (\<lambda>tx. py_strip (tx_address tx) \<noteq> []) fees)
     in write_transfer E p w wallets sender recipient affected (debit # credit # fees) s)"

text \<open>A sender whose address names a signing scheme must be unlocked; others transfer unsigned.\<close>

definition transfer_signer :: "WalletRecord \<Rightarrow> ('x data_dir_scheme, py_error, obj option) sres" where
  "transfer_signer sender s =
    (if signs_transfers (w_address_scheme sender)
     then (case load_unlocked_signing_key sender s of
             None \<Rightarrow> (Inl ValueError, s) | Some payload \<Rightarrow> (Inr (Some payload), s))
     else (Inr None, s))"

definition fee_committee ::
  "(string \<Rightarrow> string \<Rightarrow> int \<Rightarrow> rat) \<Rightarrow> chain_env \<Rightarrow> WalletPolicy \<Rightarrow> io \<Rightarrow> string
   \<Rightarrow> ('x data_dir_scheme, py_error, ValidatorCommitteeSnapshot) sres" where
  "fee_committee key E p w transfer_id s =
    on_chain (select_validator_committee_snapshot key E (Some p) w (dd_validators s) transfer_id
      (Some (MoneyPolicy_for (getenv E) (wp_chain_network p))) None) s"

definition chain_transfer ::
  "(string \<Rightarrow> string \<Rightarrow> int \<Rightarrow> rat) \<Rightarrow> chain_env \<Rightarrow> wallet_lib \<Rightarrow> WalletPolicy \<Rightarrow> io \<Rightarrow> string
   \<Rightarrow> WalletRecord list \<Rightarrow> WalletRecord \<Rightarrow> string \<Rightarrow> WalletRecord option \<Rightarrow> int \<Rightarrow> int
   \<Rightarrow> ('x data_dir_scheme, py_error, WalletRecord \<times> WalletRecord option) sres" where
  "chain_transfer key E L p w transfer_id wallets sender recipient recipient_wallet amount fee =
    (let mp = MoneyPolicy_for (getenv E) (wp_chain_network p);
         chain_id = chain_network_value (mp_chain_network mp);
         common = transfer_metadata mp transfer_id amount fee
     in sbind (on_chain (chain_balance_atomic E (Some p) w (w_address sender))) (\<lambda>sender_balance.
        if sender_balance < amount + fee then slift (Inl ValueError) else
        sbind (transfer_signer sender) (\<lambda>signer.
        sbind (slift (sign_debit E L sender signer
          (debit_transaction E (io_now w) transfer_id chain_id common sender signer recipient (amount + fee)))) (\<lambda>debit.
        sbind (fee_committee key E p w transfer_id) (\<lambda>committee.
        finish_transfer E p w transfer_id wallets sender recipient recipient_wallet amount fee debit committee)))))"

definition local_transfer ::
  "WalletRecord list \<Rightarrow> WalletRecord \<Rightarrow> string \<Rightarrow> int \<Rightarrow> int
   \<Rightarrow> ('x data_dir_scheme, py_error, WalletRecord \<times> WalletRecord option) sres" where
  "local_transfer wallets sender recipient amount fee =
    (if w_spendable_balance_atomic sender < amount + fee then slift (Inl ValueError)
     else
       let debited = update_first (\<lambda>x. w_wallet_id x = w_wallet_id sender)
             (\<lambda>x. x\<lparr>w_spendable_balance_atomic := w_spendable_balance_atomic x - (amount + fee)\<rparr>) wallets;
           ws = update_first (\<lambda>x. normalize_address (w_address x) = recipient)
             (\<lambda>x. x\<lparr>w_spendable_balance_atomic := w_spendable_balance_atomic x + amount\<rparr>) debited
       in sbind (save_wallets ws) (\<lambda>_.
          slift (Inr (case find_by_id (w_wallet_id sender) ws of Some x \<Rightarrow> x | None \<Rightarrow> sender,
                      List.find (\<lambda>x. normalize_address (w_address x) = recipient) ws))))"

definition apply_wallet_transfer ::
  "(string \<Rightarrow> string \<Rightarrow> int \<Rightarrow> rat) \<Rightarrow> chain_env \<Rightarrow> wallet_lib \<Rightarrow> WalletPolicy option \<Rightarrow> io \<Rightarrow> string
   \<Rightarrow> string \<Rightarrow> string \<Rightarrow> int \<Rightarrow> int
   \<Rightarrow> ('x data_dir_scheme, py_error, WalletRecord \<times> WalletRecord option) sres" where
  "apply_wallet_transfer key E L policy w transfer_id sender_wallet_id recipient_address amount fee =
    (let p = active_wallet_policy (getenv E) policy;
         recipient = normalize_address recipient_address
     in sbind list_wallets (\<lambda>wallets.
        case find_by_id sender_wallet_id wallets of
          None \<Rightarrow> slift (Inl ValueError)
        | Some sender \<Rightarrow>
          if amount \<le> 0 then slift (Inl ValueError)
          else
            let recipient_wallet = List.find (\<lambda>x. normalize_address (w_address x) = recipient) wallets
            in sbind (on_chain (chain_is_initialized E (Some p) w)) (\<lambda>chain_backed.
               if chain_backed
               then chain_transfer key E L p w transfer_id wallets sender recipient recipient_wallet amount fee
               else local_transfer wallets sender recipient amount fee)))"

end
