(* ===== verification/WalletProps.thy ===== *)
theory WalletProps
  imports WalletTransfer ChainFrame Demo
begin

text \<open>
  The properties of wallets: transfers that balance and end with every touched wallet at its
  chain balance, keys that open with the password they were made under and with no other,
  a session that never serves the key of a wallet it did not unlock, and a treasury that is
  paid out once.
\<close>

section \<open>Transfers\<close>

lemma on_chain_cases:
  assumes "on_chain m s = (r, s')"
  obtains c where "m (dd_chain s) = (r, c)" "s' = s\<lparr>dd_chain := c\<rparr>"
  using assms by (auto simp: on_chain_def split: prod.splits)

text \<open>An address the chain stores and reads back unchanged.\<close>

definition usable_address :: "string \<Rightarrow> bool" where
  "usable_address a \<longleftrightarrow> normalize_address a \<noteq> [] \<and> address_stable (normalize_address a)"

lemma usable_normalized: "usable_address a \<Longrightarrow> normalize_address (normalize_address a) = normalize_address a"
  by (simp add: usable_address_def address_stable_def)

lemma usable_normal [simp]: "usable_address a \<Longrightarrow> usable_address (normalize_address a)"
  by (simp add: usable_address_def address_stable_def)

lemma normalize_validator_id_address: "normalize_validator_id = normalize_address"
  by (simp add: fun_eq_iff normalize_validator_id_def normalize_address_def Let_def)

definition tx_move :: "ChainTransaction \<Rightarrow> string \<times> int" where
  "tx_move tx = (tx_address tx, tx_delta_atomic tx)"

lemma fee_moves_sum:
  "sum_list (map tx_delta_atomic
     (fee_transactions E now mp tid cid common sender registry committee fee)) = fee"
proof -
  let ?shares = "split_amount_by_validator_bond fee (vc_bonded_atomic_by_validator_id committee)
    (Some (vc_validator_ids committee))"
  have d: "tx_delta_atomic (make_chain_transaction E now a) = ta_delta_atomic a" for a
    by (simp add: make_chain_transaction_def Let_def)
  show ?thesis
  proof (cases "?shares = []")
    case False
    then have "0 < fee" "0 < dsum (bonded_by_validator (vc_bonded_atomic_by_validator_id committee)
        (Some (vc_validator_ids committee)))"
      by (auto simp: split_amount_by_validator_bond_def Let_def split: if_splits)
    from split_amount_total [OF this] False show ?thesis
      by (simp add: fee_transactions_def fee_share_transaction_def Let_def d tx_args_def comp_def)
  qed (simp add: fee_transactions_def Let_def d tx_args_def)
qed

lemma make_chain_transaction_storable:
  assumes "usable_address (ta_address a)" "now \<noteq> []" "ta_created_at a = None"
    "ta_chain_id a = Some cid" "cid \<noteq> []" "ta_schema_version a = CHAIN_SCHEMA_VERSION"
    "\<And>c. ta_counterparty_address a = Some c \<Longrightarrow> usable_address c"
  shows "tx_storable (make_chain_transaction E now a)"
  using assms
  by (auto simp: tx_storable_def make_chain_transaction_def Let_def opt_or_def str_or_def usable_address_def
      address_stable_def CHAIN_SCHEMA_VERSION_def some_if_text_def split: option.splits)

lemma sign_debit_fields:
  assumes "sign_debit E L sender signer tx = Inr tx'"
  shows "tx_address tx' = tx_address tx" "tx_delta_atomic tx' = tx_delta_atomic tx"
    "tx_storable tx' = tx_storable tx" "tx_chain_id tx' = tx_chain_id tx"
proof -
  have "tx' = tx \<or> (\<exists>sig. tx' = tx\<lparr>tx_signature_b64 := sig\<rparr>)
      \<or> (\<exists>sig m. tx' = tx\<lparr>tx_signature_b64 := sig, tx_metadata := m\<rparr>)"
    using assms unfolding sign_debit_def Let_def
    by (auto simp: rbind_Inr_iff simp del: canonical.simps split: option.split_asm if_splits)
  then show "tx_address tx' = tx_address tx" "tx_delta_atomic tx' = tx_delta_atomic tx"
    "tx_storable tx' = tx_storable tx" "tx_chain_id tx' = tx_chain_id tx"
    by (auto simp: tx_storable_def)
qed

lemma keys_foldl_bonded:
  "fst ` set (foldl (bonded_step raw) d ids) \<subseteq> fst ` set d \<union> (normalize_address ` set ids - {[]})"
proof (induction ids arbitrary: d)
  case (Cons i ids)
  have "fst ` set (bonded_step raw d i) \<subseteq> fst ` set d \<union> ({normalize_address i} - {[]})"
    by (simp add: bonded_step_def Let_def normalize_validator_id_address) blast
  with Cons.IH [of "bonded_step raw d i"] show ?case by auto
qed simp

lemma split_member_id:
  assumes "s \<in> set (split_amount_by_validator_bond fee raw ids)"
  shows "fs_validator_id s \<in> fst ` set (bonded_by_validator raw ids)"
proof -
  have "0 < fee" "0 < dsum (bonded_by_validator raw ids)"
    using assms by (auto simp: split_amount_by_validator_bond_def Let_def split: if_splits)
  from split_amount_member [OF this assms] show ?thesis by (force intro: rev_image_eqI)
qed

lemma split_ids_usable:
  assumes "\<forall>i \<in> set ids \<union> fst ` set raw. usable_address i"
    and "s \<in> set (split_amount_by_validator_bond fee raw (Some ids))"
  shows "usable_address (fs_validator_id s)"
proof -
  have "fs_validator_id s \<in> normalize_address ` (set ids \<union> fst ` set raw)"
    using split_member_id [OF assms(2)] keys_foldl_bonded [of raw "[]" ids] keys_foldl_bonded [of raw "[]" "map fst raw"]
    by (auto simp: bonded_by_validator_def Let_def split: list.splits)
  then obtain i where "i \<in> set ids \<union> fst ` set raw" "fs_validator_id s = normalize_address i" by blast
  with assms(1) show ?thesis by simp
qed

lemma keys_dict_of: "fst ` set (dict_of kvs) = fst ` set kvs"
proof -
  have "fst ` set (foldl (\<lambda>d (k, v). AList.update k v d) d kvs) = fst ` set d \<union> fst ` set kvs" for d
  proof (induction kvs arbitrary: d)
    case (Cons kv kvs)
    obtain k v where kv: "kv = (k, v)" by (cases kv)
    show ?case using Cons.IH [of "AList.update k v d"] by (simp add: kv dom_update)
  qed simp
  from this [of "[]"] show ?thesis by (simp add: dict_of_def)
qed

lemma committee_of_ids:
  "set (vc_validator_ids (committee_of rs)) = v_validator_id ` set rs"
  "fst ` set (vc_bonded_atomic_by_validator_id (committee_of rs)) = v_validator_id ` set rs"
proof -
  let ?d = "dict_of (map (\<lambda>r. (v_validator_id r, v_bonded_atomic r)) rs)"
  have k: "fst ` set ?d = v_validator_id ` set rs" by (simp add: keys_dict_of image_image)
  show "set (vc_validator_ids (committee_of rs)) = v_validator_id ` set rs"
    using k by (simp add: committee_of_def Let_def)
  show "fst ` set (vc_bonded_atomic_by_validator_id (committee_of rs)) = v_validator_id ` set rs"
    using k by (simp add: committee_of_def Let_def)
qed

lemma selected_committee_ids:
  assumes "select_validator_committee_snapshot key E p w file seed mp n s = (Inr c, s')"
  shows "set (vc_validator_ids c) \<union> fst ` set (vc_bonded_atomic_by_validator_id c) \<subseteq> v_validator_id ` set file"
proof -
  obtain bonded s1 where b: "list_bonded_validators E p w file s = (Inr bonded, s1)"
    using assms by (auto simp: select_validator_committee_snapshot_def)
  then have "v_validator_id ` set bonded \<subseteq> v_validator_id ` set file"
    by (auto simp: list_bonded_validators_def list_effective_validator_records_def chain_backed_validator_record_def)
  moreover have "\<exists>rs. c = committee_of rs \<and> set rs \<subseteq> set bonded"
    using assms select_weighted_committee_subset(1) [of key seed _ bonded]
    by (auto simp: select_validator_committee_snapshot_def b Let_def slift_def split: if_splits)
  ultimately show ?thesis by (elim exE conjE) (auto simp: committee_of_ids simp del: set_map)
qed

lemma refresh_balances_ok:
  assumes "store_ok E p (dd_chain s) bs" "validate_chain_blocks E p bs = Inr []" "readable_addresses bs"
  shows "\<exists>c. refresh_balances E p w affected ws s =
      (Inr (map (\<lambda>x. if normalize_address (w_address x) \<in> set affected
          then x\<lparr>w_spendable_balance_atomic := chain_sum bs (normalize_address (w_address x))\<rparr> else x) ws),
       s\<lparr>dd_chain := c\<rparr>) \<and> store_ok E p c bs"
  using assms(1)
proof (induction ws arbitrary: s)
  case Nil
  then show ?case by (intro exI [of _ "dd_chain s"]) (simp add: slift_def)
next
  case (Cons x ws)
  show ?case
  proof (cases "normalize_address (w_address x) \<in> set affected")
    case True
    obtain r c1 where b: "chain_balance_atomic E p w (w_address x) (dd_chain s) = (r, c1)" by (rule prod.exhaust)
    note b' = chain_balance_is_sum [OF Cons.prems assms(2,3) b]
    from Cons.IH [of "s\<lparr>dd_chain := c1\<rparr>"] b'(2) True show ?thesis
      by (auto simp: on_chain_def sbind_def slift_def b b'(1))
  next
    case False
    with Cons.IH [OF Cons.prems] show ?thesis by (auto simp: sbind_def slift_def)
  qed
qed

lemma append_on_valid:
  assumes "store_ok E p c bs" "validate_chain_blocks E p bs = Inr []" "io_now w \<noteq> []"
    and "\<forall>tx \<in> set txs. tx_storable tx" and "append_chain_block E p w vid txs c = (r, c')"
  shows "case r of Inl e \<Rightarrow> c' = c
    | Inr x \<Rightarrow> \<exists>bs'. store_ok E p c' bs' \<and> validate_chain_blocks E p bs' = Inr []
        \<and> (bs' = bs \<and> fresh_transactions bs txs = []
           \<or> (\<exists>b. bs' = bs @ [b] \<and> blk_transactions b = fresh_transactions bs txs))"
proof -
  have id: "on_active_chain E p tx = tx" if "tx_storable tx" for tx
    using that by (simp add: on_active_chain_def tx_storable_def)
  then have st: "\<forall>tx \<in> set txs. tx_storable (on_active_chain E p tx)" using assms(4) by simp
  have "map (on_active_chain E p) (fresh_transactions bs txs) = fresh_transactions bs txs"
    using assms(4) id by (intro map_idI) (auto simp: fresh_transactions_def)
  moreover have "stored_chain c bs" using assms(1) by (simp add: store_ok_def)
  ultimately show ?thesis
    using append_chain_block_cases [OF _ assms(3) st assms(5)] assms(1,2)
    by (cases rule: append_chain_block_cases [OF _ assms(3) st assms(5)])
      (auto simp: validate_chain_blocks_valid)
qed

lemma readable_append:
  assumes "readable_addresses bs" "\<forall>tx \<in> set (blk_transactions b). usable_address (tx_address tx)"
  shows "readable_addresses (bs @ [b])"
  using assms by (auto simp: readable_addresses_def usable_address_def)

text \<open>The transactions of a transfer, as moves of an amount on an address.\<close>

lemma transfer_moves:
  fixes registry :: "ValidatorRecord list" and rw :: "WalletRecord option"
  assumes "usable_address (w_address sender)" "usable_address recipient" "normalize_address recipient = recipient"
    and "now \<noteq> []" "cid \<noteq> []"
    and "\<forall>i \<in> set (vc_validator_ids committee) \<union> fst ` set (vc_bonded_atomic_by_validator_id committee). usable_address i"
    and "usable_address (tx_fee_pool_chain_address mp)"
    and debit: "sign_debit E L sender signer
      (debit_transaction E now tid cid common sender signer recipient (amount + fee)) = Inr debit"
  defines "txs \<equiv> debit # credit_transaction E now tid cid common sender recipient rw amount
      # fee_transactions E now mp tid cid common sender registry committee fee"
  shows "\<forall>tx \<in> set txs. tx_storable tx \<and> usable_address (tx_address tx)"
    and "\<exists>fees. map tx_move txs = (normalize_address (w_address sender), - (amount + fee)) # (recipient, amount) # fees
      \<and> sum_list (map snd fees) = fee"
proof -
  let ?mk = "make_chain_transaction E now"
  have addr: "tx_address (?mk a) = normalize_address (ta_address a)" "tx_delta_atomic (?mk a) = ta_delta_atomic a" for a
    by (simp_all add: make_chain_transaction_def Let_def)
  note st = make_chain_transaction_storable [where E = E and now = now and cid = cid]
  have fees: "tx_storable tx \<and> usable_address (tx_address tx)"
    if tx: "tx \<in> set (fee_transactions E now mp tid cid common sender registry committee fee)" for tx
  proof (cases "split_amount_by_validator_bond fee (vc_bonded_atomic_by_validator_id committee)
      (Some (vc_validator_ids committee)) = []")
    case True
    with tx show ?thesis
      using assms(1,4,5,7) by (auto simp: fee_transactions_def Let_def addr tx_args_def intro!: st)
  next
    case False
    with tx obtain share where
      "share \<in> set (split_amount_by_validator_bond fee (vc_bonded_atomic_by_validator_id committee)
        (Some (vc_validator_ids committee)))"
      "tx = fee_share_transaction E now tid cid common sender registry committee (sum_list (map fs_bonded_atomic
        (split_amount_by_validator_bond fee (vc_bonded_atomic_by_validator_id committee)
          (Some (vc_validator_ids committee))))) share"
      by (auto simp: fee_transactions_def Let_def)
    moreover from this(1) have "usable_address (fs_validator_id share)"
      using split_ids_usable assms(6) by blast
    ultimately show ?thesis
      using assms(1,4,5) by (auto simp: fee_share_transaction_def addr tx_args_def intro!: st)
  qed
  have d: "tx_storable debit \<and> usable_address (tx_address debit)"
    "tx_move debit = (normalize_address (w_address sender), - (amount + fee))"
    using assms(1,2,4,5) sign_debit_fields [OF debit]
    by (auto simp: debit_transaction_def addr tx_args_def tx_move_def intro!: st)
  have c: "tx_storable (credit_transaction E now tid cid common sender recipient rw amount)
      \<and> usable_address (tx_address (credit_transaction E now tid cid common sender recipient rw amount))"
    "tx_move (credit_transaction E now tid cid common sender recipient rw amount) = (recipient, amount)"
    using assms(1-5) by (auto simp: credit_transaction_def addr tx_args_def tx_move_def intro!: st)
  show "\<forall>tx \<in> set txs. tx_storable tx \<and> usable_address (tx_address tx)"
    using d(1) c(1) fees by (auto simp: txs_def)
  show "\<exists>fees. map tx_move txs = (normalize_address (w_address sender), - (amount + fee)) # (recipient, amount) # fees
      \<and> sum_list (map snd fees) = fee"
    using d(2) c(2) fee_moves_sum [of E now mp tid cid common sender registry committee fee]
    by (simp add: txs_def tx_move_def comp_def)
qed

text \<open>
  The state of the chain after a transfer: the old chain, or one block more that holds the
  moves of the transfer whose transactions are new; and the wallets touched are at their
  chain balance.
\<close>

definition transfer_done ::
  "chain_env \<Rightarrow> WalletPolicy option \<Rightarrow> ChainBlock list \<Rightarrow> string \<Rightarrow> string \<Rightarrow> int \<Rightarrow> int \<Rightarrow> 'x data_dir_scheme \<Rightarrow> bool" where
  "transfer_done E p bs a recipient amount fee s' \<longleftrightarrow>
    (\<exists>bs' txs fees. store_ok E p (dd_chain s') bs' \<and> validate_chain_blocks E p bs' = Inr []
      \<and> map tx_move txs = (a, - (amount + fee)) # (recipient, amount) # fees \<and> sum_list (map snd fees) = fee
      \<and> (bs' = bs \<and> fresh_transactions bs txs = []
         \<or> (\<exists>b. bs' = bs @ [b] \<and> blk_transactions b = fresh_transactions bs txs))
      \<and> (\<forall>x \<in> set (dd_wallets s'). normalize_address (w_address x) \<in> {a, recipient}
          \<longrightarrow> w_spendable_balance_atomic x = chain_sum bs' (normalize_address (w_address x))))"

lemma runs_on_chain: "runs m (dd_chain s) (\<lambda>r c. Q r (s\<lparr>dd_chain := c\<rparr>)) \<Longrightarrow> runs (on_chain m) s Q"
  by (auto simp: runs_def on_chain_def split: prod.splits)

lemma write_transfer_outcome:
  assumes ok: "store_ok E (Some p) (dd_chain s) bs" and valid: "validate_chain_blocks E (Some p) bs = Inr []"
    and read: "readable_addresses bs" and now: "io_now w \<noteq> []"
    and st: "\<forall>tx \<in> set txs. tx_storable tx \<and> usable_address (tx_address tx)"
    and moves: "map tx_move txs = (a, - (amount + fee)) # (recipient, amount) # fees" "sum_list (map snd fees) = fee"
    and aff: "{a, recipient} \<subseteq> set affected"
  shows "runs (write_transfer E p w ws sender recipient affected txs) s
    (\<lambda>r s'. case r of Inl e \<Rightarrow> store_ok E (Some p) (dd_chain s') bs \<and> dd_wallets s' = dd_wallets s
      | Inr _ \<Rightarrow> transfer_done E (Some p) bs a recipient amount fee s')"
proof -
  have st': "\<forall>tx \<in> set txs. tx_storable tx" using st by blast
  have fin: "runs (sbind (refresh_balances E (Some p) w affected ws) (\<lambda>ws. sbind (save_wallets ws) (\<lambda>_.
      slift (Inr (case find_by_id (w_wallet_id sender) ws of Some x \<Rightarrow> x | None \<Rightarrow> sender,
                List.find (\<lambda>x. normalize_address (w_address x) = recipient) ws))))) (s\<lparr>dd_chain := c\<rparr>)
      (\<lambda>r s'. case r of Inl e \<Rightarrow> store_ok E (Some p) (dd_chain s') bs \<and> dd_wallets s' = dd_wallets s
        | Inr _ \<Rightarrow> transfer_done E (Some p) bs a recipient amount fee s')"
    if c: "store_ok E (Some p) c bs'" "validate_chain_blocks E (Some p) bs' = Inr []"
      and bs': "bs' = bs \<and> fresh_transactions bs txs = []
        \<or> (\<exists>b. bs' = bs @ [b] \<and> blk_transactions b = fresh_transactions bs txs)" for c bs'
  proof -
    have "readable_addresses bs'"
      using bs' read st by (auto intro!: readable_append simp: fresh_transactions_def)
    from refresh_balances_ok [of E "Some p" "s\<lparr>dd_chain := c\<rparr>" bs' w affected ws] c this
    obtain c2 where r: "refresh_balances E (Some p) w affected ws (s\<lparr>dd_chain := c\<rparr>) =
      (Inr (map (\<lambda>x. if normalize_address (w_address x) \<in> set affected
          then x\<lparr>w_spendable_balance_atomic := chain_sum bs' (normalize_address (w_address x))\<rparr> else x) ws),
       s\<lparr>dd_chain := c2\<rparr>)" "store_ok E (Some p) c2 bs'" by auto
    have "transfer_done E (Some p) bs a recipient amount fee
      (s\<lparr>dd_chain := c2, dd_wallets := map (\<lambda>x. if normalize_address (w_address x) \<in> set affected
          then x\<lparr>w_spendable_balance_atomic := chain_sum bs' (normalize_address (w_address x))\<rparr> else x) ws\<rparr>)"
      unfolding transfer_done_def
      by (rule exI [of _ bs'], rule exI [of _ txs], rule exI [of _ fees])
        (use r(2) c(2) bs' moves aff in auto)
    then show ?thesis by (simp add: runs_def sbind_def slift_def save_wallets_def r(1))
  qed
  show ?thesis
    unfolding write_transfer_def
    apply (intro runs_sbind runs_on_chain)
    apply (rule runsI)
    subgoal for r c
    proof -
      assume "append_chain_block E (Some p) w JNull txs (dd_chain s) = (r, c)"
      note app = append_on_valid [OF ok valid now st' this]
      show ?thesis
      proof (cases r)
        case (Inr x)
        with app obtain bs' where "store_ok E (Some p) c bs'" "validate_chain_blocks E (Some p) bs' = Inr []"
          "bs' = bs \<and> fresh_transactions bs txs = []
           \<or> (\<exists>b. bs' = bs @ [b] \<and> blk_transactions b = fresh_transactions bs txs)" by auto
        from fin [OF this] show ?thesis unfolding Inr sum.case .
      qed (use app ok in simp)
    qed
    done
qed

lemma fee_pool_usable: "usable_address (tx_fee_pool_chain_address (MoneyPolicy_for os n))"
  by (cases n; simp add: usable_address_def tx_fee_pool_chain_address_def system_chain_address_def
      address_stable_def normalize_address_def py_strip_def py_isspace_def py_lower_def py_lower_char_def
      py_startswith_def Let_def)

text \<open>What a transfer starts from: files that hold a valid chain, and addresses the chain can store.\<close>

definition transfer_ready :: "chain_env \<Rightarrow> WalletPolicy \<Rightarrow> io \<Rightarrow> ChainBlock list \<Rightarrow> WalletRecord list \<Rightarrow> 'x data_dir_scheme \<Rightarrow> bool" where
  "transfer_ready E p w bs ws0 s \<longleftrightarrow> dd_wallets s = ws0 \<and> store_ok E (Some p) (dd_chain s) bs
    \<and> validate_chain_blocks E (Some p) bs = Inr [] \<and> readable_addresses bs \<and> io_now w \<noteq> []
    \<and> (\<forall>r \<in> set (dd_validators s). usable_address (v_validator_id r))"

definition transfer_post ::
  "chain_env \<Rightarrow> WalletPolicy \<Rightarrow> ChainBlock list \<Rightarrow> WalletRecord list \<Rightarrow> string \<Rightarrow> string \<Rightarrow> int \<Rightarrow> int
   \<Rightarrow> (py_error, 'r) res \<Rightarrow> 'x data_dir_scheme \<Rightarrow> bool" where
  "transfer_post E p bs ws0 a recipient amount fee r s' \<longleftrightarrow>
    (case r of Inl e \<Rightarrow> store_ok E (Some p) (dd_chain s') bs \<and> dd_wallets s' = ws0
     | Inr _ \<Rightarrow> transfer_done E (Some p) bs a recipient amount fee s')"

lemma transfer_post_Inl: "transfer_ready E p w bs ws0 s \<Longrightarrow> transfer_post E p bs ws0 a recipient amount fee (Inl e) s"
  by (simp add: transfer_ready_def transfer_post_def)

lemma fee_committee_ok:
  assumes "transfer_ready E p w bs ws0 s"
  shows "runs (fee_committee key E p w tid) s (\<lambda>r s'. transfer_ready E p w bs ws0 s'
    \<and> (\<forall>k. r = Inr k \<longrightarrow> (\<forall>i \<in> set (vc_validator_ids k) \<union> fst ` set (vc_bonded_atomic_by_validator_id k). usable_address i)))"
proof (rule runsI)
  fix r s'
  assume "fee_committee key E p w tid s = (r, s')"
  then obtain c where run: "select_validator_committee_snapshot key E (Some p) w (dd_validators s) tid
      (Some (MoneyPolicy_for (getenv E) (wp_chain_network p))) None (dd_chain s) = (r, c)" and s': "s' = s\<lparr>dd_chain := c\<rparr>"
    unfolding fee_committee_def by (rule on_chain_cases)
  have "store_ok E (Some p) c bs"
    using assms keepsD [OF keeps_select_committee _ _ run] by (simp add: transfer_ready_def)
  moreover have "usable_address i"
    if "r = Inr k" "i \<in> set (vc_validator_ids k) \<union> fst ` set (vc_bonded_atomic_by_validator_id k)" for k i
  proof -
    have "i \<in> v_validator_id ` set (dd_validators s)"
      using selected_committee_ids [OF run [unfolded that(1)]] that(2) by (rule subsetD)
    then show ?thesis using assms by (auto simp: transfer_ready_def)
  qed
  ultimately show "transfer_ready E p w bs ws0 s'
    \<and> (\<forall>k. r = Inr k \<longrightarrow> (\<forall>i \<in> set (vc_validator_ids k) \<union> fst ` set (vc_bonded_atomic_by_validator_id k). usable_address i))"
    using assms s' by (simp add: transfer_ready_def)
qed

lemma finish_transfer_outcome:
  fixes s :: "'x data_dir_scheme"
  assumes ready: "transfer_ready E p w bs ws0 s" and us: "usable_address (w_address sender)"
    and ur: "usable_address recipient" "normalize_address recipient = recipient"
    and uk: "\<forall>i \<in> set (vc_validator_ids k) \<union> fst ` set (vc_bonded_atomic_by_validator_id k). usable_address i"
    and debit: "sign_debit E L sender signer (debit_transaction E (io_now w) tid
      (chain_network_value (mp_chain_network (MoneyPolicy_for (getenv E) (wp_chain_network p))))
      (transfer_metadata (MoneyPolicy_for (getenv E) (wp_chain_network p)) tid amount fee)
      sender signer recipient (amount + fee)) = Inr debit"
  shows "runs (finish_transfer E p w tid ws sender recipient rw amount fee debit k) s
    (transfer_post E p bs ws0 (normalize_address (w_address sender)) recipient amount fee)"
proof -
  let ?mp = "MoneyPolicy_for (getenv E) (wp_chain_network p)"
  have ws0: "dd_wallets s = ws0" using ready by (simp add: transfer_ready_def)
  have r: "store_ok E (Some p) (dd_chain s) bs" "validate_chain_blocks E (Some p) bs = Inr []"
    "readable_addresses bs" "io_now w \<noteq> []"
    using ready by (simp_all add: transfer_ready_def)
  note m = transfer_moves [OF us ur r(4) chain_network_value_nonempty uk fee_pool_usable [of "getenv E" "wp_chain_network p"] debit, of rw "dd_validators s"]
  from m(2) obtain fees where "map tx_move (debit # credit_transaction E (io_now w) tid
        (chain_network_value (mp_chain_network ?mp)) (transfer_metadata ?mp tid amount fee) sender recipient rw amount
        # fee_transactions E (io_now w) ?mp tid (chain_network_value (mp_chain_network ?mp))
          (transfer_metadata ?mp tid amount fee) sender (dd_validators s) k fee)
      = (normalize_address (w_address sender), - (amount + fee)) # (recipient, amount) # fees"
    "sum_list (map snd fees) = fee" by (elim exE conjE) (rule that)
  note out = write_transfer_outcome [OF r(1-4) m(1) this, of _ ws sender]
  show ?thesis
    by (rule runs_unfold [OF finish_transfer_def [unfolded Let_def]], rule runs_mono [OF out])
      (auto simp: transfer_post_def ws0 split: sum.splits)
qed

lemma chain_transfer_outcome:
  fixes s :: "'x data_dir_scheme"
  assumes ready: "transfer_ready E p w bs ws0 s" and us: "usable_address (w_address sender)"
    and ur: "usable_address recipient" "normalize_address recipient = recipient"
  shows "runs (chain_transfer key E L p w tid ws sender recipient rw amount fee) s
    (transfer_post E p bs ws0 (normalize_address (w_address sender)) recipient amount fee)" (is "runs _ _ ?Q")
proof -
  note fin = transfer_post_Inl [where a = "normalize_address (w_address sender)" and recipient = recipient]
  obtain rb c1 where b: "chain_balance_atomic E (Some p) w (w_address sender) (dd_chain s) = (rb, c1)"
    by (rule prod.exhaust)
  let ?s1 = "s\<lparr>dd_chain := c1\<rparr>"
  have b': "rb = Inr (chain_sum bs (normalize_address (w_address sender)))" "transfer_ready E p w bs ws0 ?s1"
    using ready chain_balance_is_sum [OF _ _ _ b] by (simp_all add: transfer_ready_def)
  have on: "on_chain (chain_balance_atomic E (Some p) w (w_address sender)) s = (rb, ?s1)"
    using b by (simp add: on_chain_def)
  have tail: "runs (sbind (fee_committee key E p w tid)
      (finish_transfer E p w tid ws sender recipient rw amount fee debit)) ?s1 ?Q"
    if "sign_debit E L sender signer (debit_transaction E (io_now w) tid
      (chain_network_value (mp_chain_network (MoneyPolicy_for (getenv E) (wp_chain_network p))))
      (transfer_metadata (MoneyPolicy_for (getenv E) (wp_chain_network p)) tid amount fee)
      sender signer recipient (amount + fee)) = Inr debit" for signer debit
    by (rule runs_sbind, rule runs_mono [OF fee_committee_ok [OF b'(2)]])
      (auto split: sum.split intro!: fin finish_transfer_outcome [OF _ us ur _ that])
  have signer: "runs (transfer_signer sender) ?s1 (\<lambda>r s2. s2 = ?s1)"
    by (simp add: runs_def transfer_signer_def split: option.split)
  show ?thesis
    unfolding chain_transfer_def Let_def
    apply (rule runs_sbind, rule runs_pure, rule on)
    apply (simp only: b'(1) sum.case)
    apply (intro runs_if runs_slift fin [OF b'(2)])
    apply (rule runs_sbind, rule runs_mono [OF signer])
    apply (auto split: sum.split intro!: fin [OF b'(2)] runs_sbind runs_slift tail)
    done
qed

lemma list_wallets_result:
  "list_wallets s = (Inr (map (\<lambda>w. w\<lparr>w_address := normalize_address (w_address w)\<rparr>) (dd_wallets s)),
     s\<lparr>dd_wallets := map (\<lambda>w. w\<lparr>w_address := normalize_address (w_address w)\<rparr>) (dd_wallets s)\<rparr>)"
proof -
  have "map (\<lambda>w. w\<lparr>w_address := normalize_address (w_address w)\<rparr>) (dd_wallets s) = dd_wallets s"
    if "\<not> list_ex (\<lambda>w. w_address w \<noteq> normalize_address (w_address w)) (dd_wallets s)"
    using that by (intro map_idI) (auto simp: list_ex_iff)
  then show ?thesis by (simp add: list_wallets_def Let_def)
qed

lemma find_by_id_Some: "find_by_id i ws = Some x \<Longrightarrow> x \<in> set ws \<and> w_wallet_id x = i"
  by (auto simp: find_by_id_def find_Some_iff)

text \<open>
  C19. A transfer on a node with a chain. Where files hold a valid chain and the addresses are
  ones the chain can store, \<open>apply_wallet_transfer\<close> either raises, and then the chain and all
  wallet balances are as before; or returns, and then the chain is valid and holds a block
  that takes the amount and the fee from the sender, gives the amount to the recipient and
  exactly the fee to the validators or the fee pool (or had these transactions already), and
  the wallets of sender and recipient show the balance the chain gives them.
\<close>

theorem apply_wallet_transfer_outcome:
  fixes s :: "'x data_dir_scheme"
  assumes "transfer_ready E p w bs (dd_wallets s) s" and "bs \<noteq> []"
    and "\<forall>x \<in> set (dd_wallets s). usable_address (w_address x)" and "usable_address recipient_address"
    and "apply_wallet_transfer key E L (Some p) w tid sender_wallet_id recipient_address amount fee s = (r, s')"
  shows "case r of
      Inl e \<Rightarrow> store_ok E (Some p) (dd_chain s') bs
        \<and> map w_spendable_balance_atomic (dd_wallets s') = map w_spendable_balance_atomic (dd_wallets s)
    | Inr _ \<Rightarrow> 0 < amount \<and> (\<exists>x \<in> set (dd_wallets s). w_wallet_id x = sender_wallet_id
        \<and> transfer_done E (Some p) bs (normalize_address (w_address x)) (normalize_address recipient_address) amount fee s')"
proof -
  let ?ws = "map (\<lambda>w. w\<lparr>w_address := normalize_address (w_address w)\<rparr>) (dd_wallets s)"
  let ?s0 = "s\<lparr>dd_wallets := ?ws\<rparr>"
  have ready: "transfer_ready E p w bs ?ws ?s0" using assms(1) by (simp add: transfer_ready_def)
  have pol: "active_wallet_policy (getenv E) (Some p) = p" by (simp add: active_wallet_policy_def)
  have bal: "map w_spendable_balance_atomic ?ws = map w_spendable_balance_atomic (dd_wallets s)" by simp
  show ?thesis
  proof (cases "find_by_id sender_wallet_id ?ws")
    case None
    then show ?thesis
      using assms(5) ready bal
      by (auto simp: apply_wallet_transfer_def Let_def sbind_def list_wallets_result slift_def transfer_ready_def)
  next
    case (Some sender)
    then obtain x where x: "x \<in> set (dd_wallets s)" "w_wallet_id x = sender_wallet_id"
      "w_address sender = normalize_address (w_address x)" using find_by_id_Some by fastforce
    obtain ri c where i: "chain_is_initialized E (Some p) w (dd_chain s) = (ri, c)" by (rule prod.exhaust)
    have i': "ri = Inr True" "transfer_ready E p w bs ?ws (?s0\<lparr>dd_chain := c\<rparr>)"
      using ready assms(2) chain_is_initialized_result [OF _ _ i, of bs] by (simp_all add: transfer_ready_def)
    have "usable_address (w_address sender)" using x assms(3) by simp
    from chain_transfer_outcome [OF i'(2) this usable_normal [OF assms(4)] usable_normalized [OF assms(4)]]
    have post: "runs (chain_transfer key E L p w tid ?ws sender (normalize_address recipient_address)
        (List.find (\<lambda>x. normalize_address (w_address x) = normalize_address recipient_address) ?ws) amount fee)
        (?s0\<lparr>dd_chain := c\<rparr>)
        (transfer_post E p bs ?ws (normalize_address (w_address x)) (normalize_address recipient_address) amount fee)"
      using x assms(3) by (simp add: usable_normalized)
    show ?thesis
    proof (cases "amount \<le> 0")
      case True
      then show ?thesis
        using assms(5) ready bal Some
        by (auto simp: apply_wallet_transfer_def Let_def sbind_def list_wallets_result slift_def transfer_ready_def)
    next
      case False
      then have "chain_transfer key E L p w tid ?ws sender (normalize_address recipient_address)
        (List.find (\<lambda>x. normalize_address (w_address x) = normalize_address recipient_address) ?ws) amount fee
        (?s0\<lparr>dd_chain := c\<rparr>) = (r, s')"
        using assms(5) Some i i'(1)
        by (simp add: apply_wallet_transfer_def Let_def sbind_def list_wallets_result slift_def pol on_chain_def)
      from runsD [OF post this] False x show ?thesis
        by (cases r) (auto simp: transfer_post_def bal)
    qed
  qed
qed

definition demo_wallet :: "string \<Rightarrow> int \<Rightarrow> WalletRecord" where
  "demo_wallet name balance = \<lparr>w_wallet_id = name, w_name = name, w_address = name, w_created_at = ''2026-02-01'',
     w_password_salt_b64 = [], w_password_hash_b64 = [], w_spendable_balance_atomic = balance,
     w_validator_reserved_atomic = 0, w_seed_fingerprint = None, w_seed_word_count = None,
     w_signing_scheme = None, w_address_scheme = None, w_public_key_b64 = None,
     w_encrypted_private_key_b64 = None, w_private_key_salt_b64 = None, w_private_key_nonce_b64 = None,
     w_pq_signing_scheme = None, w_pq_public_key_b64 = None, w_encrypted_pq_private_key_b64 = None,
     w_pq_private_key_salt_b64 = None, w_pq_private_key_nonce_b64 = None\<rparr>"

definition demo_dir :: "WalletRecord list \<Rightarrow> chain_store \<Rightarrow> data_dir" where
  "demo_dir ws c = \<lparr>dd_wallets = ws,
     dd_session = \<lparr>active_wallet_id = None, unlocked_wallet_id = None, unlocked_at = None\<rparr>,
     dd_ledger = None, dd_journal = [], dd_unlocked_key = None, dd_unlink_fails = False, dd_treasury_seed = None,
     dd_treasury_password = None, dd_ai_seed = None, dd_ai_password = None, dd_validators = [], dd_chain = c\<rparr>"

text \<open>A library whose base64 is the identity, whose cipher keeps the text and whose keys sign with themselves.\<close>

definition demo_lib :: wallet_lib where
  "demo_lib = \<lparr>wl_b64_encode = (\<lambda>b. b), wl_b64_decode = Some, wl_pbkdf2 = (\<lambda>password salt. password @ salt),
     wl_aesgcm_encrypt = (\<lambda>k n m a. CHR ''#'' # m), wl_aesgcm_decrypt = (\<lambda>k n c a. Some (tl c)),
     wl_sha256_bytes = (\<lambda>t. t), wl_public_key = (\<lambda>seed. CHR ''P'' # seed),
     wl_pq_keypair = (\<lambda>seed. (CHR ''Q'' # seed, seed)), wl_sign = (\<lambda>k m. Some k), wl_sign_pq = (\<lambda>k m. Some k)\<rparr>"

lemma demo_usable: "usable_address ''bob''" "usable_address ''alice''"
  by code_simp+

theorem apply_wallet_transfer_outcome_witness:
  "\<exists>c. case apply_wallet_transfer (\<lambda>_ _ _. 0) demo_env demo_lib (Some demo_wallet_policy) demo_io ''t1''
        ''alice'' ''bob'' 5 0 (demo_dir [demo_wallet ''alice'' 7] c) of
      (Inl e, s') \<Rightarrow> map w_spendable_balance_atomic (dd_wallets s') = [7]
    | (Inr _, s') \<Rightarrow> transfer_done demo_env (Some demo_wallet_policy) [make_genesis_block demo_env demo_policy]
        ''alice'' ''bob'' 5 0 s'"
proof -
  obtain c where c: "store_ok demo_env (Some demo_wallet_policy) c [make_genesis_block demo_env demo_policy]"
    "validate_chain_blocks demo_env (Some demo_wallet_policy) [make_genesis_block demo_env demo_policy] = Inr []"
    by (rule demo_explicit_store)
  let ?s = "demo_dir [demo_wallet ''alice'' 7] c"
  have "transfer_ready demo_env demo_wallet_policy demo_io [make_genesis_block demo_env demo_policy] (dd_wallets ?s) ?s"
    using c demo_genesis_readable by (simp add: transfer_ready_def demo_dir_def demo_io_def)
  moreover have "normalize_address ''alice'' = ''alice''" "normalize_address ''bob'' = ''bob''" by code_simp+
  ultimately show ?thesis
    using apply_wallet_transfer_outcome [of demo_env demo_wallet_policy demo_io
        "[make_genesis_block demo_env demo_policy]" ?s "''bob''" "\<lambda>_ _ _. 0" demo_lib "''t1''" "''alice''" 5 0]
    by (intro exI [of _ c]) (auto simp: demo_dir_def demo_wallet_def demo_usable split: prod.split sum.split)
qed

end
