(* ===== verification/WalletKeyProps.thy ===== *)
theory WalletKeyProps
  imports WalletProps
begin

text \<open>
  Local transfers, wallet keys and the session. The laws of the libraries that the key
  properties use are collected in \<open>lib_laws\<close>: base64 and AES-GCM undo themselves, base64 of
  something is something, and the key generators return keys.
\<close>

section \<open>Transfers without a chain\<close>

lemma sum_update_first:
  assumes "\<And>x. f (g x) = f x + (d :: int)"
  shows "sum_list (map f (update_first P g xs)) = sum_list (map f xs) + (if \<exists>x \<in> set xs. P x then d else 0)"
  by (induction xs) (auto simp: assms)

lemma update_first_exists:
  "(\<And>x. P (g x) = P x) \<Longrightarrow> (\<And>x. Q (g x) = Q x) \<Longrightarrow> (\<exists>x \<in> set (update_first P g xs). Q x) = (\<exists>x \<in> set xs. Q x)"
  by (induction xs) auto

text \<open>
  C22. A transfer on a node without a chain takes amount and fee from the sender, who has them,
  and gives the amount to the recipient if the recipient's wallet is on this node. The fee is
  credited to nobody, and neither is the amount when the recipient is not local: the sum of
  the balances shrinks by what is not credited.
\<close>

theorem local_transfer_effect:
  assumes "store_ok E (Some p) (dd_chain s) []"
    and "apply_wallet_transfer key E L (Some p) w tid sender_wallet_id recipient_address amount fee s = (Inr (x, rcp), s')"
  shows "0 < amount \<and> (\<exists>y \<in> set (dd_wallets s). w_wallet_id y = sender_wallet_id \<and> amount + fee \<le> w_spendable_balance_atomic y)
    \<and> (let known = (\<exists>y \<in> set (dd_wallets s). normalize_address (normalize_address (w_address y)) = normalize_address recipient_address)
       in (rcp \<noteq> None \<longleftrightarrow> known)
        \<and> sum_list (map w_spendable_balance_atomic (dd_wallets s'))
          = sum_list (map w_spendable_balance_atomic (dd_wallets s)) - fee - (if known then 0 else amount))"
proof -
  let ?ws = "map (\<lambda>w. w\<lparr>w_address := normalize_address (w_address w)\<rparr>) (dd_wallets s)"
  let ?r = "normalize_address recipient_address"
  have pol: "active_wallet_policy (getenv E) (Some p) = p" by (simp add: active_wallet_policy_def)
  obtain ri c where i: "chain_is_initialized E (Some p) w (dd_chain s) = (ri, c)" by (rule prod.exhaust)
  have ri: "ri = Inr False"
    using chain_is_initialized_result(1) [OF assms(1) _ i] by (simp add: validate_chain_blocks_valid valid_chain_def)
  obtain sender where sender: "find_by_id sender_wallet_id ?ws = Some sender" "0 < amount"
    and run: "local_transfer ?ws sender ?r amount fee (s\<lparr>dd_wallets := ?ws, dd_chain := c\<rparr>) = (Inr (x, rcp), s')"
    using assms(2) i ri
    by (cases "find_by_id sender_wallet_id ?ws")
      (auto simp: apply_wallet_transfer_def Let_def sbind_def list_wallets_result slift_def pol on_chain_def split: if_splits)
  let ?debit = "\<lambda>x. x\<lparr>w_spendable_balance_atomic := w_spendable_balance_atomic x - (amount + fee)\<rparr>"
  let ?credit = "\<lambda>x. x\<lparr>w_spendable_balance_atomic := w_spendable_balance_atomic x + amount\<rparr>"
  let ?debited = "update_first (\<lambda>x. w_wallet_id x = w_wallet_id sender) ?debit ?ws"
  let ?final = "update_first (\<lambda>x. normalize_address (w_address x) = ?r) ?credit ?debited"
  have enough: "amount + fee \<le> w_spendable_balance_atomic sender" and s': "dd_wallets s' = ?final"
    and rcp: "rcp = List.find (\<lambda>x. normalize_address (w_address x) = ?r) ?final"
    using run by (auto simp: local_transfer_def Let_def sbind_def save_wallets_def slift_def split: if_splits)
  have in_ws: "sender \<in> set ?ws" "w_wallet_id sender = sender_wallet_id" using find_by_id_Some [OF sender(1)] by auto
  let ?is_r = "\<lambda>y. normalize_address (w_address y) = ?r"
  have known1: "(\<exists>y \<in> set ?debited. ?is_r y)
      \<longleftrightarrow> (\<exists>y \<in> set (dd_wallets s). normalize_address (normalize_address (w_address y)) = ?r)"
    using update_first_exists [of "\<lambda>x. w_wallet_id x = w_wallet_id sender" ?debit ?is_r ?ws] by simp
  then have known: "(\<exists>y \<in> set ?final. ?is_r y)
      \<longleftrightarrow> (\<exists>y \<in> set (dd_wallets s). normalize_address (normalize_address (w_address y)) = ?r)"
    using update_first_exists [of ?is_r ?credit ?is_r ?debited] by simp
  have "sum_list (map w_spendable_balance_atomic ?debited)
      = sum_list (map w_spendable_balance_atomic ?ws) + (if \<exists>x \<in> set ?ws. w_wallet_id x = w_wallet_id sender then - (amount + fee) else 0)"
    by (rule sum_update_first) simp
  moreover have "\<exists>x \<in> set ?ws. w_wallet_id x = w_wallet_id sender" using in_ws(1) by blast
  moreover have "sum_list (map w_spendable_balance_atomic ?final) = sum_list (map w_spendable_balance_atomic ?debited)
      + (if \<exists>x \<in> set ?debited. normalize_address (w_address x) = ?r then amount else 0)"
    by (rule sum_update_first) simp
  ultimately have "sum_list (map w_spendable_balance_atomic ?final) = sum_list (map w_spendable_balance_atomic (dd_wallets s))
      - (amount + fee) + (if \<exists>y \<in> set (dd_wallets s). normalize_address (normalize_address (w_address y)) = ?r then amount else 0)"
    by (simp add: known1 comp_def)
  moreover have "\<exists>y \<in> set (dd_wallets s). w_wallet_id y = sender_wallet_id \<and> amount + fee \<le> w_spendable_balance_atomic y"
    using in_ws enough by auto
  moreover have "rcp \<noteq> None \<longleftrightarrow> (\<exists>y \<in> set ?final. normalize_address (w_address y) = ?r)"
    unfolding rcp by (auto simp: find_None_iff)
  ultimately show ?thesis using sender(2) s' known by (simp add: Let_def)
qed

lemma demo_store_empty: "store_ok demo_env (Some demo_wallet_policy) empty_store []"
  by code_simp

theorem local_transfer_effect_witness:
  "sum_list (map w_spendable_balance_atomic (dd_wallets (snd (apply_wallet_transfer (\<lambda>_ _ _. 0) demo_env demo_lib
      (Some demo_wallet_policy) demo_io ''t1'' ''alice'' ''bob'' 5 1 (demo_dir [demo_wallet ''alice'' 7] empty_store))))) = 1"
proof -
  let ?run = "apply_wallet_transfer (\<lambda>_ _ _. 0) demo_env demo_lib
      (Some demo_wallet_policy) demo_io ''t1'' ''alice'' ''bob'' 5 1 (demo_dir [demo_wallet ''alice'' 7] empty_store)"
  have "isl (fst ?run) = False" by code_simp
  then obtain x rcp s' where "?run = (Inr (x, rcp), s')" 
    by (metis (no_types, lifting) isl_def prod.collapse surj_pair sum.exhaust_sel)
  moreover have "store_ok demo_env (Some demo_wallet_policy) (dd_chain (demo_dir [demo_wallet ''alice'' 7] empty_store)) []"
    unfolding demo_dir_def by (simp add: demo_store_empty)
  moreover have "normalize_address (normalize_address ''alice'') \<noteq> normalize_address ''bob''" by code_simp
  ultimately show ?thesis
    using local_transfer_effect [of demo_env demo_wallet_policy "demo_dir [demo_wallet ''alice'' 7] empty_store"
        "\<lambda>_ _ _. 0" demo_lib demo_io "''t1''" "''alice''" "''bob''" 5 1 x rcp s']
    by (simp add: demo_dir_def demo_wallet_def Let_def)
qed

section \<open>Keys\<close>

definition lib_laws :: "wallet_lib \<Rightarrow> bool" where
  "lib_laws L \<longleftrightarrow>
    (\<forall>b. wl_b64_decode L (wl_b64_encode L b) = Some b) \<and> (\<forall>b. wl_b64_encode L b = [] \<longleftrightarrow> b = [])
    \<and> (\<forall>k n m a. wl_aesgcm_decrypt L k n (wl_aesgcm_encrypt L k n m a) a = Some m)
    \<and> (\<forall>k n m a. wl_aesgcm_encrypt L k n m a \<noteq> [])
    \<and> (\<forall>seed. wl_public_key L seed \<noteq> []) \<and> (\<forall>seed. fst (wl_pq_keypair L seed) \<noteq> [])"

definition rand_ok :: "wallet_rand \<Rightarrow> bool" where
  "rand_ok R \<longleftrightarrow> wr_key_salt R \<noteq> [] \<and> wr_key_nonce R \<noteq> [] \<and> wr_pq_key_salt R \<noteq> [] \<and> wr_pq_key_nonce R \<noteq> []"

lemma decrypt_encrypt:
  assumes "lib_laws L" "encrypt_signing_seed L salt nonce seed password i a = (key, ksalt, knonce)"
  shows "decrypt_signing_seed L key ksalt knonce password i a = Inr seed"
  using assms by (auto simp: encrypt_signing_seed_def decrypt_signing_seed_def b64_bytes_def lib_laws_def)

lemma hex_digest_normal: "hex_digest d \<Longrightarrow> normalize_address d = d"
proof -
  assume hex: "hex_digest d"
  have low: "py_lower d = d"
    using hex unfolding py_lower_def
    by (intro map_idI) (fastforce simp: hex_digest_def py_lower_char_def Let_def)
  have strip: "py_strip d = d" using hex_digest_take_strip [OF hex, of 64] hex by (simp add: hex_digest_def)
  have "\<not> py_startswith d ''cai_''"
  proof
    assume "py_startswith d ''cai_''"
    then have "take 4 d = ''cai_''" by (simp add: py_startswith_def numeral_eq_Suc)
    then have "CHR ''i'' \<in> set d" by (metis in_set_takeD list.set_intros(1,2))
    then have "let n = of_char (CHR ''i'') :: nat in (48 \<le> n \<and> n \<le> 57) \<or> (97 \<le> n \<and> n \<le> 102)"
      using hex unfolding hex_digest_def by blast
    then show False by simp
  qed
  then show ?thesis by (simp add: normalize_address_def low strip Let_def)
qed

lemma hybrid_address_scheme:
  "py_strip DEFAULT_WALLET_HYBRID_ADDRESS_SCHEME = DEFAULT_WALLET_HYBRID_ADDRESS_SCHEME"
  "DEFAULT_WALLET_HYBRID_ADDRESS_SCHEME \<noteq> ADDRESS_SCHEME_HYBRID"
  by code_simp+

lemma new_material:
  assumes "sha256_ok C" "new_wallet_signing_material C L R i password seed pq None = Inr m"
  shows "normalize_address (sm_address m) = sm_address m"
    "sm_private_key m = encrypt_signing_seed L (wr_key_salt R) (wr_key_nonce R) seed password i (sm_address m)"
    "\<exists>q. sm_pq_private_key m = encrypt_signing_seed L (wr_pq_key_salt R) (wr_pq_key_nonce R) q password i (sm_address m)"
    "sm_public_key_b64 m = wl_public_key L seed" "\<exists>q. sm_pq_public_key_b64 m = fst (wl_pq_keypair L q)"
proof -
  obtain q where q: "rbind (hybrid_address_from_public_keys_b64 C (wl_public_key L seed) (fst (wl_pq_keypair L q))
        DEFAULT_WALLET_HYBRID_ADDRESS_SCHEME) (\<lambda>address.
      rbind (b64_bytes L (snd (wl_pq_keypair L q))) (\<lambda>pq_bytes.
        Inr \<lparr>sm_address = address, sm_address_scheme = DEFAULT_WALLET_HYBRID_ADDRESS_SCHEME,
             sm_public_key_b64 = wl_public_key L seed,
             sm_private_key = encrypt_signing_seed L (wr_key_salt R) (wr_key_nonce R) seed password i address,
             sm_pq_public_key_b64 = fst (wl_pq_keypair L q),
             sm_pq_private_key = encrypt_signing_seed L (wr_pq_key_salt R) (wr_pq_key_nonce R) pq_bytes password i address\<rparr>)) = Inr m"
    using assms(2) by (simp add: new_wallet_signing_material_def Let_def some_if_text_def case_prod_beta)
  then obtain a where a: "hybrid_address_from_public_keys_b64 C (wl_public_key L seed) (fst (wl_pq_keypair L q))
      DEFAULT_WALLET_HYBRID_ADDRESS_SCHEME = Inr a" "sm_address m = a"
    by (auto simp: rbind_Inr_iff)
  have "hex_digest a"
    using a(1) assms(1) hybrid_address_scheme
    by (auto simp: hybrid_address_from_public_keys_b64_def Let_def sha256_ok_def
        simp del: canonical.simps split: if_splits)
  then show "normalize_address (sm_address m) = sm_address m" by (simp add: a(2) hex_digest_normal)
  show "sm_private_key m = encrypt_signing_seed L (wr_key_salt R) (wr_key_nonce R) seed password i (sm_address m)"
    "\<exists>q. sm_pq_private_key m = encrypt_signing_seed L (wr_pq_key_salt R) (wr_pq_key_nonce R) q password i (sm_address m)"
    "sm_public_key_b64 m = wl_public_key L seed" "\<exists>q. sm_pq_public_key_b64 m = fst (wl_pq_keypair L q)"
    using q by (auto simp: rbind_Inr_iff)
qed

lemma lib_keys: "lib_laws L \<Longrightarrow> wl_public_key L seed \<noteq> []" "lib_laws L \<Longrightarrow> fst (wl_pq_keypair L seed) \<noteq> []"
  by (simp_all add: lib_laws_def)

lemma find_by_id_map:
  "(\<And>x. w_wallet_id (f x) = w_wallet_id x) \<Longrightarrow> find_by_id i (map f ws) = map_option f (find_by_id i ws)"
  by (induction ws) (auto simp: find_by_id_def)

lemma created_wallet:
  assumes "lib_laws L" "rand_ok R" "sha256_ok C" "create_wallet C L R name password True s = (Inr w, s1)"
    and "\<forall>x \<in> set (dd_wallets s). w_wallet_id x \<noteq> wr_token R"
  shows "find_by_id (w_wallet_id w) (map (\<lambda>w. w\<lparr>w_address := normalize_address (w_address w)\<rparr>) (dd_wallets s1)) = Some w"
    "active_wallet_id (dd_session s1) = Some (w_wallet_id w)" "normalize_address (w_address w) = w_address w"
    "wallet_has_signing_key w" "w_signing_scheme w = Some SIGNING_SCHEME_HYBRID"
    "verify_wallet_password L w attempt = Inr (wl_pbkdf2 L attempt (wr_salt R) = wl_pbkdf2 L password (wr_salt R))"
    "decrypt_signing_seed L (text_or_empty (w_encrypted_private_key_b64 w))
       (text_or_empty (w_private_key_salt_b64 w)) (text_or_empty (w_private_key_nonce_b64 w))
       password (w_wallet_id w) (w_address w) = Inr (wr_signing_seed R)"
    "\<exists>q. decrypt_signing_seed L (text_or_empty (w_encrypted_pq_private_key_b64 w))
       (text_or_empty (w_pq_private_key_salt_b64 w)) (text_or_empty (w_pq_private_key_nonce_b64 w))
       password (w_wallet_id w) (w_address w) = Inr q"
proof -
  let ?norm = "map (\<lambda>w. w\<lparr>w_address := normalize_address (w_address w)\<rparr>)"
  obtain m where m: "new_wallet_signing_material C L R (wr_token R) password (wr_signing_seed R) None None = Inr m"
    and w: "w = wallet_of_material L R (wr_token R) name password None None m"
    and s1: "dd_wallets s1 = ?norm (dd_wallets s) @ [w]" "active_wallet_id (dd_session s1) = Some (w_wallet_id w)"
    using assms(4) by (auto simp: create_wallet_def add_wallet_def list_wallets_result save_wallets_def slift_def
        load_session_def save_session_def append_journal_entry_def)
  note mat = new_material [OF assms(3) m]
  obtain k ks kn where k: "sm_private_key m = (k, ks, kn)" by (rule prod_cases3)
  obtain p ps pn where p: "sm_pq_private_key m = (p, ps, pn)" by (rule prod_cases3)
  obtain q where q: "encrypt_signing_seed L (wr_pq_key_salt R) (wr_pq_key_nonce R) q password (wr_token R) (sm_address m) = (p, ps, pn)"
    using mat(3) p by metis
  note w' = w [unfolded wallet_of_material_def k p, simplified]
  have id: "w_wallet_id w = wr_token R" "w_address w = sm_address m" by (simp_all add: w')
  show "active_wallet_id (dd_session s1) = Some (w_wallet_id w)" by (rule s1(2))
  show addr: "normalize_address (w_address w) = w_address w" by (simp add: id mat(1))
  have same: "w\<lparr>w_address := normalize_address (sm_address m)\<rparr> = w" using addr by (simp add: id)
  have "find_by_id (wr_token R) (?norm xs @ [w]) = Some w" if "\<forall>x \<in> set xs. w_wallet_id x \<noteq> wr_token R" for xs
    using that by (induction xs) (auto simp: find_by_id_def id)
  from this [of "?norm (dd_wallets s)"] show "find_by_id (w_wallet_id w) (?norm (dd_wallets s1)) = Some w"
    using assms(5) same by (simp add: s1 id comp_def)
  show "verify_wallet_password L w attempt = Inr (wl_pbkdf2 L attempt (wr_salt R) = wl_pbkdf2 L password (wr_salt R))"
    using assms(1) by (simp add: verify_wallet_password_def b64_bytes_def lib_laws_def w')
  show "decrypt_signing_seed L (text_or_empty (w_encrypted_private_key_b64 w))
       (text_or_empty (w_private_key_salt_b64 w)) (text_or_empty (w_private_key_nonce_b64 w))
       password (w_wallet_id w) (w_address w) = Inr (wr_signing_seed R)"
    using decrypt_encrypt [OF assms(1) mat(2) [unfolded k, symmetric]] by (simp add: w' text_or_empty_def)
  show "\<exists>q. decrypt_signing_seed L (text_or_empty (w_encrypted_pq_private_key_b64 w))
       (text_or_empty (w_pq_private_key_salt_b64 w)) (text_or_empty (w_pq_private_key_nonce_b64 w))
       password (w_wallet_id w) (w_address w) = Inr q"
    using decrypt_encrypt [OF assms(1) q] by (auto simp: w' text_or_empty_def)
  have "k \<noteq> [] \<and> ks \<noteq> [] \<and> kn \<noteq> [] \<and> p \<noteq> [] \<and> ps \<noteq> [] \<and> pn \<noteq> []"
    using assms(1,2) q mat(2) k by (auto simp: encrypt_signing_seed_def lib_laws_def rand_ok_def)
  moreover have "sm_public_key_b64 m \<noteq> []" "sm_pq_public_key_b64 m \<noteq> []"
    using lib_keys [OF assms(1)] mat(4,5) by metis+
  ultimately show "wallet_has_signing_key w" by (simp add: w' wallet_has_signing_key_def some_if_text_def Let_def)
  show "w_signing_scheme w = Some SIGNING_SCHEME_HYBRID" by (simp add: w')
qed

lemma str_of_or_text: "str_of_or (JStr t) [] = t"
  by (simp add: str_of_or_def)

lemma load_written_key:
  "dd_unlocked_key s = Some (unlocked_payload L now w seed q) \<Longrightarrow> normalize_address (w_address w) = w_address w
   \<Longrightarrow> load_unlocked_signing_key w s = Some (unlocked_payload L now w seed q)"
  by (simp add: load_unlocked_signing_key_def unlocked_payload_def jget_def dget_def str_of_or_text)

lemma unlock_created:
  assumes "lib_laws L" "rand_ok R" "sha256_ok C" "create_wallet C L R name password True s = (Inr w, s1)"
    and "\<forall>x \<in> set (dd_wallets s). w_wallet_id x \<noteq> wr_token R"
  shows "\<exists>s2 q. unlock_wallet L now password None s1 = (Inr w, s2)
      \<and> dd_unlocked_key s2 = Some (unlocked_payload L now w (wr_signing_seed R) (Some q))
      \<and> unlocked_wallet_id (dd_session s2) = Some (w_wallet_id w)"
    "wl_pbkdf2 L attempt (wr_salt R) \<noteq> wl_pbkdf2 L password (wr_salt R) \<Longrightarrow>
      \<exists>s2. unlock_wallet L now attempt None s1 = (Inl ValueError, s2)
        \<and> dd_session s2 = dd_session s1 \<and> dd_unlocked_key s2 = dd_unlocked_key s1"
proof -
  note cw = created_wallet [OF assms]
  obtain q where q: "decrypt_signing_seed L (text_or_empty (w_encrypted_pq_private_key_b64 w))
       (text_or_empty (w_pq_private_key_salt_b64 w)) (text_or_empty (w_pq_private_key_nonce_b64 w))
       password (w_wallet_id w) (w_address w) = Inr q" using cw(8) ..
  note ops = unlock_wallet_def get_active_wallet_def load_session_def save_session_def
    list_wallets_result slift_def sbind_def
  have again: "find_by_id (w_wallet_id w) (map (\<lambda>w. w\<lparr>w_address := normalize_address (w_address w)\<rparr>)
      (map (\<lambda>w. w\<lparr>w_address := normalize_address (w_address w)\<rparr>) (dd_wallets s1))) = Some w"
    using cw(1,3) find_by_id_map by fastforce
  show "\<exists>s2 q. unlock_wallet L now password None s1 = (Inr w, s2)
      \<and> dd_unlocked_key s2 = Some (unlocked_payload L now w (wr_signing_seed R) (Some q))
      \<and> unlocked_wallet_id (dd_session s2) = Some (w_wallet_id w)"
    using cw(2,4,5,6,7) again q by (auto simp: ops write_unlocked_signing_key_def simp del: map_map)
  show "\<exists>s2. unlock_wallet L now attempt None s1 = (Inl ValueError, s2)
        \<and> dd_session s2 = dd_session s1 \<and> dd_unlocked_key s2 = dd_unlocked_key s1"
    if "wl_pbkdf2 L attempt (wr_salt R) \<noteq> wl_pbkdf2 L password (wr_salt R)"
    using cw(2,6) again that by (simp add: ops del: map_map)
qed

text \<open>
  C20. A wallet's password opens it and no other does. Under the laws of the libraries, a wallet
  that \<open>create_wallet\<close> made and selected is unlocked by the password it was made with: the
  session names it as unlocked and the key file that the node then loads for it holds its own
  signing seed. A password with another PBKDF2 digest raises and leaves session and key file
  as they were.
\<close>

theorem created_wallet_unlocks:
  assumes "lib_laws L" "rand_ok R" "sha256_ok C" "create_wallet C L R name password True s = (Inr w, s1)"
    and "\<forall>x \<in> set (dd_wallets s). w_wallet_id x \<noteq> wr_token R"
  shows "(\<exists>s2 q. unlock_wallet L now password None s1 = (Inr w, s2)
      \<and> load_unlocked_signing_key w s2 = Some (unlocked_payload L now w (wr_signing_seed R) (Some q))
      \<and> unlocked_wallet_id (dd_session s2) = Some (w_wallet_id w))
    \<and> (\<forall>attempt. wl_pbkdf2 L attempt (wr_salt R) \<noteq> wl_pbkdf2 L password (wr_salt R) \<longrightarrow>
      (\<exists>s2. unlock_wallet L now attempt None s1 = (Inl ValueError, s2)
        \<and> dd_session s2 = dd_session s1 \<and> dd_unlocked_key s2 = dd_unlocked_key s1))"
  using unlock_created [OF assms] load_written_key created_wallet(3) [OF assms] by blast

lemma demo_lib_laws: "lib_laws demo_lib"
  by (simp add: lib_laws_def demo_lib_def)

definition demo_rand :: wallet_rand where
  "demo_rand = \<lparr>wr_now = ''now'', wr_token = ''w1'', wr_salt = ''salt'', wr_signing_seed = ''seed'', wr_pq_seed = ''pq'',
     wr_key_salt = ''a'', wr_key_nonce = ''b'', wr_pq_key_salt = ''c'', wr_pq_key_nonce = ''d'',
     wr_entry_id = ''e1'', wr_next_entry_id = ''e2'', wr_password = ''random'', wr_seed_token = [1]\<rparr>"

lemma demo_rand_ok: "rand_ok demo_rand" "\<forall>x \<in> set (dd_wallets (demo_dir [] c)). w_wallet_id x \<noteq> wr_token demo_rand"
  by (simp_all add: rand_ok_def demo_rand_def demo_dir_def)

lemma demo_created: "\<exists>w s1. create_wallet demo_env demo_lib demo_rand ''main'' ''secret'' True (demo_dir [] c) = (Inr w, s1)"
proof -
  obtain a where "hybrid_address_from_public_keys_b64 demo_env (wl_public_key demo_lib ''seed'')
      (fst (wl_pq_keypair demo_lib ''pq'')) DEFAULT_WALLET_HYBRID_ADDRESS_SCHEME = Inr a"
    using hybrid_address_total [of ADDRESS_SCHEME_HYBRID_256 demo_env "wl_public_key demo_lib ''seed''" "fst (wl_pq_keypair demo_lib ''pq'')"]
    by (auto simp: HYBRID_ADDRESS_SCHEMES_def DEFAULT_WALLET_HYBRID_ADDRESS_SCHEME_def)
  then obtain m where "new_wallet_signing_material demo_env demo_lib demo_rand ''w1'' ''secret'' ''seed'' None None = Inr m"
    by (auto simp: new_wallet_signing_material_def some_if_text_def Let_def demo_lib_def demo_rand_def b64_bytes_def)
  then show ?thesis
    by (auto simp: create_wallet_def add_wallet_def list_wallets_def sbind_def slift_def save_wallets_def
        load_session_def save_session_def append_journal_entry_def demo_rand_def Let_def)
qed

theorem created_wallet_unlocks_witness:
  "\<exists>w s1 s2. create_wallet demo_env demo_lib demo_rand ''main'' ''secret'' True (demo_dir [] empty_store) = (Inr w, s1)
    \<and> unlock_wallet demo_lib ''now'' ''secret'' None s1 = (Inr w, s2)
    \<and> fst (unlock_wallet demo_lib ''now'' ''guess'' None s1) = Inl ValueError"
proof -
  obtain w s1 where made: "create_wallet demo_env demo_lib demo_rand ''main'' ''secret'' True (demo_dir [] empty_store) = (Inr w, s1)"
    using demo_created by blast
  have "wl_pbkdf2 demo_lib ''guess'' (wr_salt demo_rand) \<noteq> wl_pbkdf2 demo_lib ''secret'' (wr_salt demo_rand)"
    by (simp add: demo_lib_def demo_rand_def)
  with created_wallet_unlocks [OF demo_lib_laws demo_rand_ok(1) demo_sha256_ok made demo_rand_ok(2), of "''now''"] made
  show ?thesis by fastforce
qed

section \<open>The session\<close>

text \<open>
  The wallet operations as steps on the data directory, with whatever arguments they are called.
  The flag tells whether the operation returned or raised.
\<close>

inductive wallet_step :: "chain_env \<Rightarrow> wallet_lib \<Rightarrow> 'x data_dir_scheme \<Rightarrow> bool \<Rightarrow> 'x data_dir_scheme \<Rightarrow> bool"
  for E L where
  create: "create_wallet E L R name password select s = (r, s') \<Longrightarrow> wallet_step E L s (\<not> isl r) s'"
| restore: "restore_wallet_from_seed E L R name password seed select forced s = (r, s') \<Longrightarrow> wallet_step E L s (\<not> isl r) s'"
| create_seed: "create_seed_wallet E L R name password select s = (r, s') \<Longrightarrow> wallet_step E L s (\<not> isl r) s'"
| credit: "credit_wallet R selector amount s = (r, s') \<Longrightarrow> wallet_step E L s (\<not> isl r) s'"
| update: "update_wallet x s = (r, s') \<Longrightarrow> wallet_step E L s (\<not> isl r) s'"
| treasury: "ensure_local_developer_treasury_wallet E L R paths mp s = (r, s') \<Longrightarrow> wallet_step E L s (\<not> isl r) s'"
| ai: "ensure_local_ai_development_wallet E L R paths mp s = (r, s') \<Longrightarrow> wallet_step E L s (\<not> isl r) s'"
| transfer: "apply_wallet_transfer key E L p w tid sender recipient amount fee s = (r, s') \<Longrightarrow> wallet_step E L s (\<not> isl r) s'"
| select: "select_active_wallet selector s = (r, s') \<Longrightarrow> wallet_step E L s (\<not> isl r) s'"
| unlock: "unlock_wallet L now password sel s = (r, s') \<Longrightarrow> wallet_step E L s (\<not> isl r) s'"
| lock: "lock_wallet s = (r, s') \<Longrightarrow> wallet_step E L s (\<not> isl r) s'"
| logout: "logout_wallet s = (r, s') \<Longrightarrow> wallet_step E L s (\<not> isl r) s'"

inductive wallet_reachable :: "chain_env \<Rightarrow> wallet_lib \<Rightarrow> 'x data_dir_scheme \<Rightarrow> bool \<Rightarrow> bool" for E L where
  init: "dd_unlocked_key s = None \<Longrightarrow> wallet_reachable E L s True"
| step: "wallet_reachable E L s ok \<Longrightarrow> wallet_step E L s returned s' \<Longrightarrow> wallet_reachable E L s' (ok \<and> returned)"

definition key_owner :: "'x data_dir_scheme \<Rightarrow> string option" where
  "key_owner s = map_option (\<lambda>payload. str_of_or (jget payload ''wallet_id'') []) (dd_unlocked_key s)"

text \<open>Operations that leave the key file and the unlocked wallet of the session alone.\<close>

definition key_frame :: "'x data_dir_scheme \<Rightarrow> 'x data_dir_scheme \<Rightarrow> bool" where
  "key_frame s s' \<longleftrightarrow> unlocked_wallet_id (dd_session s') = unlocked_wallet_id (dd_session s)
     \<and> dd_unlocked_key s' = dd_unlocked_key s \<and> dd_unlink_fails s' = dd_unlink_fails s"

definition frames_key :: "('x data_dir_scheme, 'e, 'a) sres \<Rightarrow> bool" where
  "frames_key m \<longleftrightarrow> (\<forall>s. runs m s (\<lambda>_. key_frame s))"

text \<open>What an operation does to session and key: nothing, or a change that keeps them together.\<close>

definition keeps_key :: "'x data_dir_scheme \<Rightarrow> bool \<Rightarrow> 'x data_dir_scheme \<Rightarrow> bool" where
  "keeps_key s ok s' \<longleftrightarrow> dd_unlink_fails s' = dd_unlink_fails s \<and>
    (key_frame s s' \<or> dd_unlink_fails s \<or> dd_unlocked_key s' = None
     \<or> (unlocked_wallet_id (dd_session s') \<noteq> None
        \<and> (ok \<longrightarrow> key_owner s' = unlocked_wallet_id (dd_session s'))))"

lemma runs_files [runs_simps]:
  "runs list_wallets s Q \<longleftrightarrow>
    Q (Inr (map (\<lambda>w. w\<lparr>w_address := normalize_address (w_address w)\<rparr>) (dd_wallets s)))
      (s\<lparr>dd_wallets := map (\<lambda>w. w\<lparr>w_address := normalize_address (w_address w)\<rparr>) (dd_wallets s)\<rparr>)"
  "runs load_session s Q' \<longleftrightarrow> Q' (Inr (dd_session s)) s"
  "runs (save_wallets ws) s Q'' \<longleftrightarrow> Q'' (Inr ()) (s\<lparr>dd_wallets := ws\<rparr>)"
  "runs (save_session session) s Q'' \<longleftrightarrow> Q'' (Inr ()) (s\<lparr>dd_session := session\<rparr>)"
  "runs (append_journal_entry entry) s Q'' \<longleftrightarrow> Q'' (Inr ()) (s\<lparr>dd_journal := dd_journal s @ [entry]\<rparr>)"
  "runs (save_ledger l) s Q'' \<longleftrightarrow> Q'' (Inr ()) (s\<lparr>dd_ledger := Some l\<rparr>)"
  "runs delete_unlocked_signing_key s Q'' \<longleftrightarrow> Q'' (Inr ()) (if dd_unlink_fails s then s else s\<lparr>dd_unlocked_key := None\<rparr>)"
  by (simp_all add: runs_def list_wallets_result load_session_def save_wallets_def save_session_def
      append_journal_entry_def save_ledger_def delete_unlocked_signing_key_def)

lemma same_key: "key_frame s s' \<Longrightarrow> keeps_key s ok s'"
  by (simp add: keeps_key_def key_frame_def)

lemma key_frame_refl [simp]: "key_frame s s"
  by (simp add: key_frame_def)

lemma key_frame_trans: "key_frame s s1 \<Longrightarrow> key_frame s1 s2 \<Longrightarrow> key_frame s s2"
  by (simp add: key_frame_def)

lemma frames_bind: "frames_key m \<Longrightarrow> (\<And>x. frames_key (f x)) \<Longrightarrow> frames_key (sbind m f)"
  unfolding frames_key_def runs_sbind_iff
  by (intro allI, rule runs_mono [of m], blast) (auto intro: runs_mono key_frame_trans split: sum.split)

lemma frames_if: "frames_key a \<Longrightarrow> frames_key b \<Longrightarrow> frames_key (if c then a else b)"
  by simp

lemma frames_option: "frames_key a \<Longrightarrow> (\<And>x. frames_key (f x)) \<Longrightarrow> frames_key (case opt of None \<Rightarrow> a | Some x \<Rightarrow> f x)"
  by (simp split: option.split)

lemma frames_files:
  "frames_key (slift r)" "frames_key list_wallets" "frames_key load_session" "frames_key (save_wallets ws)"
  "frames_key (append_journal_entry entry)" "frames_key (save_ledger l)" "frames_key (on_chain m)"
  by (simp_all add: frames_key_def runs_simps key_frame_def) (simp add: runs_def on_chain_def split_beta key_frame_def)

lemmas frames_rules = frames_bind frames_if frames_option frames_files

lemma frames_add_wallet: "frames_key (add_wallet R event what select w ws)"
  by (simp add: frames_key_def add_wallet_def runs_simps key_frame_def)

lemma frames_restore: "frames_key (restore_wallet_from_seed E L R name password seed select forced)"
  unfolding restore_wallet_from_seed_def Let_def by (intro frames_rules frames_add_wallet)

lemma frames_create: "frames_key (create_wallet E L R name password select)"
  unfolding create_wallet_def Let_def by (intro frames_rules frames_add_wallet)

lemma frames_create_seed: "frames_key (create_seed_wallet E L R name password select)"
  unfolding create_seed_wallet_def Let_def by (intro frames_rules frames_restore)

lemma frames_credit: "frames_key (credit_wallet R selector amount)"
  unfolding credit_wallet_def Let_def by (intro frames_rules)

lemma frames_update: "frames_key (update_wallet x)"
  unfolding update_wallet_def Let_def by (intro frames_rules)

lemma frames_secrets:
  "frames_key (load_or_create_ledger mp paths)" "frames_key (seed_file_text file)" "frames_key (treasury_password R)"
  "frames_key (ai_password R)" "frames_key (find_wallet_by_id i)"
  by (auto simp: frames_key_def runs_def load_or_create_ledger_def seed_file_text_def treasury_password_def ai_password_def
      find_wallet_by_id_def sbind_def slift_def list_wallets_result key_frame_def Let_def split: option.splits)

lemma frames_seed_wallet: "frames_key (ensure_seed_wallet E L R name seed identity password i a)"
  unfolding ensure_seed_wallet_def Let_def by (intro frames_rules frames_secrets frames_restore)

lemma frames_treasury: "frames_key (ensure_local_developer_treasury_wallet E L R paths mp)"
  unfolding ensure_local_developer_treasury_wallet_def provision_treasury_def Let_def
  by (intro frames_rules frames_secrets frames_seed_wallet frames_update)

lemma frames_ai: "frames_key (ensure_local_ai_development_wallet E L R paths mp)"
  unfolding ensure_local_ai_development_wallet_def provision_ai_development_def Let_def
  by (intro frames_rules frames_secrets frames_seed_wallet)

lemma frames_refresh: "frames_key (refresh_balances E p w affected ws)"
  by (induction ws) (simp_all only: refresh_balances.simps, (intro frames_rules | assumption)+)

lemma frames_keyD: "frames_key m \<Longrightarrow> case m s of (r, s') \<Rightarrow> key_frame s s'"
  by (simp add: frames_key_def runs_def)

lemma frames_finish: "frames_key (finish_transfer E p w tid wallets sender recipient rw amount fee debit committee)"
proof -
  have wt: "frames_key (write_transfer E p w wallets sender recipient affected txs)" for affected txs
    unfolding write_transfer_def by (intro frames_rules frames_refresh)
  show ?thesis unfolding frames_key_def runs_def finish_transfer_def Let_def by (intro allI) (rule frames_keyD [OF wt])
qed

lemma frames_signer: "frames_key (transfer_signer x)"
  by (simp add: frames_key_def runs_def transfer_signer_def split: option.split)

lemma frames_committee: "frames_key (fee_committee key E p w tid)"
  unfolding frames_key_def runs_def fee_committee_def by (intro allI) (rule frames_keyD [OF frames_files(7)])

lemma frames_transfer: "frames_key (apply_wallet_transfer key E L p w tid sender recipient amount fee)"
  unfolding apply_wallet_transfer_def chain_transfer_def local_transfer_def Let_def
  by (intro frames_rules frames_finish frames_signer frames_committee)

lemmas operations_frame_key =
  frames_create frames_restore frames_create_seed frames_credit frames_update frames_treasury frames_ai frames_transfer

lemma framed_step: "m s = (r, s') \<Longrightarrow> frames_key m \<Longrightarrow> keeps_key s ok s'"
  by (rule same_key) (simp add: frames_key_def runs_def split_beta, metis snd_conv)

lemma select_active_wallet_keeps_key: "runs (select_active_wallet selector) s (\<lambda>r. keeps_key s (\<not> isl r))"
  by (simp add: select_active_wallet_def runs_simps keeps_key_def key_frame_def split: option.split)

lemma write_key_result:
  "runs (write_unlocked_signing_key L now w password) s (\<lambda>r s'. dd_session s' = dd_session s \<and> dd_unlink_fails s' = dd_unlink_fails s
     \<and> (\<not> isl r \<longrightarrow> dd_unlink_fails s \<or> key_owner s' = None \<or> key_owner s' = Some (w_wallet_id w)))"
  by (simp add: write_unlocked_signing_key_def runs_simps key_owner_def split: sum.split)
    (simp add: runs_def unlocked_payload_def jget_def dget_def str_of_or_text)

lemma unlock_wallet_keeps_key: "runs (unlock_wallet L now password sel) s (\<lambda>r. keeps_key s (\<not> isl r))"
proof -
  have "runs (sbind (write_unlocked_signing_key L now w password) (\<lambda>_. slift (Inr w))) s' (\<lambda>r. keeps_key s (\<not> isl r))"
    if "unlocked_wallet_id (dd_session s') = Some (w_wallet_id w)" "dd_unlink_fails s' = dd_unlink_fails s" for s' w
    unfolding runs_sbind_iff
    by (rule runs_mono [OF write_key_result])
      (use that in \<open>auto simp: runs_simps keeps_key_def key_owner_def split: sum.split\<close>)
  then show ?thesis
    by (simp add: unlock_wallet_def get_active_wallet_def runs_simps keeps_key_def key_frame_def split: option.split sum.split)
qed

lemma lock_wallet_keeps_key: "runs lock_wallet s (\<lambda>r. keeps_key s (\<not> isl r))"
  by (simp add: lock_wallet_def Let_def runs_simps keeps_key_def)

lemma logout_wallet_keeps_key: "runs logout_wallet s (\<lambda>r. keeps_key s (\<not> isl r))"
  by (simp add: logout_wallet_def Let_def runs_simps keeps_key_def)

lemmas operations_keep_key =
  select_active_wallet_keeps_key unlock_wallet_keeps_key lock_wallet_keeps_key logout_wallet_keeps_key

lemma wallet_step_keeps_key: "wallet_step E L s ok s' \<Longrightarrow> keeps_key s ok s'"
  by (induction rule: wallet_step.induct)
    (erule framed_step, rule operations_frame_key | erule operations_keep_key [THEN runsD])+

text \<open>
  C21. The key file and the session stay together as long as the key file can be removed. Whatever
  sequence of wallet operations ran from a directory without a key file, also when some of them
  raised, there is a key file only while the session has an unlocked wallet; and when every
  operation returned, the key in it is that wallet's. Where removing the file raises
  \<open>OSError\<close>, locking still returns a locked session, but the key file is as before and
  transfers go on being signed with it: \<open>_delete_unlocked_signing_key\<close> passes over the error and
  signing does not ask the session.
\<close>

theorem key_file_follows_session:
  assumes "wallet_reachable E L s ok"
  shows "(\<not> dd_unlink_fails s \<longrightarrow> unlocked_wallet_id (dd_session s) = None \<longrightarrow> dd_unlocked_key s = None)
    \<and> (\<not> dd_unlink_fails s \<longrightarrow> ok \<longrightarrow> key_owner s \<noteq> None \<longrightarrow> key_owner s = unlocked_wallet_id (dd_session s))
    \<and> (dd_unlink_fails s \<longrightarrow> (\<exists>session s'. lock_wallet s = (Inr session, s') \<and> dd_session s' = session
         \<and> unlocked_wallet_id session = None \<and> dd_unlocked_key s' = dd_unlocked_key s
         \<and> (\<forall>x. fst (transfer_signer x s') = fst (transfer_signer x s))))"
  using assms
proof induction
  case (init s)
  then show ?case
    by (auto simp: key_owner_def lock_wallet_def sbind_def load_session_def save_session_def delete_unlocked_signing_key_def
        slift_def Let_def transfer_signer_def load_unlocked_signing_key_def)
next
  case (step s ok returned s')
  have "dd_unlink_fails s' \<longrightarrow> (\<exists>session s''. lock_wallet s' = (Inr session, s'') \<and> dd_session s'' = session
         \<and> unlocked_wallet_id session = None \<and> dd_unlocked_key s'' = dd_unlocked_key s'
         \<and> (\<forall>x. fst (transfer_signer x s'') = fst (transfer_signer x s')))"
    by (auto simp: lock_wallet_def sbind_def load_session_def save_session_def delete_unlocked_signing_key_def
        slift_def Let_def transfer_signer_def load_unlocked_signing_key_def split: option.splits)
  with wallet_step_keeps_key [OF step.hyps(2)] step.IH show ?case
    by (auto simp: keeps_key_def key_frame_def key_owner_def split: if_splits)
qed

theorem key_file_follows_session_witness:
  "\<exists>s. wallet_reachable demo_env demo_lib (s :: data_dir) True \<and> \<not> dd_unlink_fails s \<and> key_owner s \<noteq> None
    \<and> key_owner s = unlocked_wallet_id (dd_session s)"
proof -
  obtain w s1 where made: "create_wallet demo_env demo_lib demo_rand ''main'' ''secret'' True (demo_dir [] empty_store) = (Inr w, s1)"
    using demo_created by blast
  obtain s2 q where opened: "unlock_wallet demo_lib ''now'' ''secret'' None s1 = (Inr w, s2)"
    "dd_unlocked_key s2 = Some (unlocked_payload demo_lib ''now'' w (wr_signing_seed demo_rand) (Some q))"
    using unlock_created(1) [OF demo_lib_laws demo_rand_ok(1) demo_sha256_ok made demo_rand_ok(2)] by blast
  note steps = wallet_step.create [OF made] wallet_step.unlock [OF opened(1)]
  have "wallet_reachable demo_env demo_lib (demo_dir [] empty_store) True" by (simp add: wallet_reachable.init demo_dir_def)
  from wallet_reachable.step [OF wallet_reachable.step [OF this steps(1)] steps(2)]
  have reach: "wallet_reachable demo_env demo_lib s2 True" by simp
  moreover have "\<not> dd_unlink_fails s2"
    using steps [THEN wallet_step_keeps_key] by (simp add: keeps_key_def demo_dir_def)
  ultimately show ?thesis using key_file_follows_session [OF reach] opened(2) by (auto simp: key_owner_def)
qed

end
