(* ===== verification/SettlementData.thy ===== *)
theory SettlementData
  imports WalletTransfer
begin

text \<open>
  The files of \<open>src/src/cai_compute_chain/settlement.py\<close>: settlements, the votes of the
  validators on them, and the payouts of workers, as fields that extend the data directory.
  As for the wallet files, a file holds the decoded records; the defaults that a reader fills
  in for records of older versions are not modelled. The reward addresses come from the node
  configuration (\<open>node_config.py\<close>).
\<close>

record SettlementRecord =
  sr_settlement_id :: string
  sr_created_at :: string
  sr_source_wallet_id :: string
  sr_source_wallet_address :: string
  sr_funding_source :: string
  sr_compute_cost_atomic :: int
  sr_tx_fee_atomic :: int
  sr_settlement_fee_atomic :: int
  sr_worker_reward_atomic :: int
  sr_committee_selection_seed :: "string option"
  sr_committee_target_size :: int
  sr_committee_selection_mode :: string
  sr_committee_validator_ids :: "string list"
  sr_committee_bonded_atomic_by_validator_id :: "(string \<times> int) list"
  sr_committee_total_bonded_atomic :: int
  sr_committee_quorum_bond_atomic :: int
  sr_reward_token_code :: "string option"
  sr_ai_development_fee_atomic :: int
  sr_ai_development_wallet_id :: "string option"
  sr_ai_development_address :: "string option"
  sr_ai_development_credited_wallet_id :: "string option"
  sr_accepted_attestations :: nat
  sr_rejected_attestations :: nat
  sr_accepted_bond_atomic :: int
  sr_rejected_bond_atomic :: int
  sr_status :: string
  sr_note :: "string option"
  sr_source_wallet_debit_atomic :: int
  sr_reserve_debit_atomic :: int
  sr_reserve_limit_identity_keys :: "string list"
  sr_reserve_client_ip_hash :: "string option"
  sr_applied_at :: "string option"
  sr_applied_by_validator_id :: "string option"
  sr_balance_audit :: obj

record ValidatorAttestation =
  va_attestation_id :: string
  va_created_at :: string
  va_settlement_id :: string
  va_validator_id :: string
  va_accepted :: bool
  va_note :: "string option"

record WorkerPayoutRecord =
  po_payout_id :: string
  po_created_at :: string
  po_settlement_id :: string
  po_receipt_id :: string
  po_model_id :: string
  po_node_id :: string
  po_runner_id :: "string option"
  po_layer_start :: "int option"
  po_layer_end :: "int option"
  po_layer_count :: int
  po_share_bps :: int
  po_reward_atomic :: int
  po_reward_token_code :: "string option"
  po_recipient_address :: "string option"
  po_credited_wallet_id :: "string option"
  po_status :: string
  po_note :: "string option"

record settlement_dir = data_dir +
  sd_settlements :: "SettlementRecord list"
  sd_attestations :: "ValidatorAttestation list"
  sd_payouts :: "WorkerPayoutRecord list"
  sd_reward_addresses :: "(string \<times> string) list"

text \<open>\<open>sort(key=created_at, reverse=True)\<close> keeps the order of equal elements.\<close>

definition newest_first :: "('a \<Rightarrow> string) \<Rightarrow> 'a list \<Rightarrow> 'a list" where
  "newest_first created_at xs = rev (sort_key created_at (rev xs))"

definition list_settlements :: "'x settlement_dir_scheme \<Rightarrow> SettlementRecord list" where
  "list_settlements s = newest_first sr_created_at (sd_settlements s)"

definition save_settlements :: "SettlementRecord list \<Rightarrow> ('x settlement_dir_scheme, py_error, unit) sres" where
  "save_settlements xs s = (Inr (), s\<lparr>sd_settlements := xs\<rparr>)"

definition list_attestations ::
  "string option \<Rightarrow> int option \<Rightarrow> 'x settlement_dir_scheme \<Rightarrow> ValidatorAttestation list" where
  "list_attestations settlement_id limit s =
    (let items = newest_first va_created_at
           (filter (\<lambda>a. settlement_id = None \<or> Some (va_settlement_id a) = settlement_id) (sd_attestations s))
     in case limit of None \<Rightarrow> items | Some n \<Rightarrow> slice_to n items)"

definition append_attestation :: "ValidatorAttestation \<Rightarrow> ('x settlement_dir_scheme, py_error, unit) sres" where
  "append_attestation a s = (Inr (), s\<lparr>sd_attestations := sd_attestations s @ [a]\<rparr>)"

definition save_attestations :: "ValidatorAttestation list \<Rightarrow> ('x settlement_dir_scheme, py_error, unit) sres" where
  "save_attestations xs s = (Inr (), s\<lparr>sd_attestations := xs\<rparr>)"

definition list_worker_payouts ::
  "string option \<Rightarrow> string option \<Rightarrow> int option \<Rightarrow> 'x settlement_dir_scheme \<Rightarrow> WorkerPayoutRecord list" where
  "list_worker_payouts settlement_id receipt_id limit s =
    (let items = newest_first po_created_at
           (filter (\<lambda>x. (settlement_id = None \<or> Some (po_settlement_id x) = settlement_id)
              \<and> (receipt_id = None \<or> Some (po_receipt_id x) = receipt_id)) (sd_payouts s))
     in case limit of None \<Rightarrow> items | Some n \<Rightarrow> slice_to n items)"

definition save_worker_payouts :: "WorkerPayoutRecord list \<Rightarrow> ('x settlement_dir_scheme, py_error, unit) sres" where
  "save_worker_payouts xs s = (Inr (), s\<lparr>sd_payouts := xs\<rparr>)"

definition resolve_settlement :: "string \<Rightarrow> 'x settlement_dir_scheme \<Rightarrow> SettlementRecord option" where
  "resolve_settlement settlement_id s = List.find (\<lambda>x. sr_settlement_id x = settlement_id) (list_settlements s)"

definition resolve_worker_reward_address :: "string \<Rightarrow> 'x settlement_dir_scheme \<Rightarrow> string option" where
  "resolve_worker_reward_address node_id s = map_of (sd_reward_addresses s) node_id"

section \<open>Lemmas\<close>

lemma mset_newest_first [simp]: "mset (newest_first f xs) = mset xs"
  by (simp add: newest_first_def)

lemma set_newest_first [simp]: "set (newest_first f xs) = set xs"
  by (metis mset_newest_first set_mset_mset)

lemma distinct_newest_first [simp]: "distinct (map g (newest_first f xs)) = distinct (map g xs)"
  by (metis mset_newest_first mset_map mset_eq_imp_distinct_iff)

lemma resolve_settlement_Some:
  "resolve_settlement i s = Some x \<Longrightarrow> x \<in> set (sd_settlements s) \<and> sr_settlement_id x = i"
  by (auto simp: resolve_settlement_def find_Some_iff list_settlements_def) (metis nth_mem set_newest_first)

end
