(* ===== verification/Economics.thy ===== *)
theory Economics
  imports SettlementData
begin

text \<open>
  \<open>src/src/cai_compute_chain/economics.py\<close>: the price of a job, how a job is paid for, and
  the daily allowance of the compute reserve.

  The snapshot of the network state that the price depends on is an argument; fetching it over
  HTTP is not modelled. A CPU load is a rational, the exact value of the float. The two
  comparisons of a rounded quotient with a float constant are written as the exact condition
  on the integers: \<open>a / b <= c\<close> holds when \<open>a / b\<close> is at most the midpoint between \<open>c\<close> and
  the next float, since both constants have an even last bit. \<open>ceil(n / k)\<close> of a text length
  is the exact ceiling, as the length is below \<open>2 ^ 53\<close>. The date functions and the
  \<open>ipaddress\<close> module are the fields of \<open>econ_lib\<close>; an instant counts microseconds, so that
  its day is a quotient.
\<close>

record FeeQuote =
  fq_compute_cost_atomic :: int
  fq_tx_fee_atomic :: int
  fq_settlement_fee_atomic :: int
  fq_ai_development_fee_atomic :: int
  fq_worker_reward_atomic :: int

record FundingDecision =
  fd_can_fund :: bool
  fd_reason :: string
  fd_payment_preference :: PaymentPreference
  fd_funding_source :: "FundingSource option"
  fd_fee_quote :: FeeQuote
  fd_reserve_before_atomic :: int
  fd_reserve_after_atomic :: int
  fd_wallet_before_atomic :: int
  fd_wallet_after_atomic :: int
  fd_daily_reserve_limit_atomic :: "int option"
  fd_daily_reserve_spent_today_atomic :: int
  fd_daily_reserve_remaining_atomic :: "int option"
  fd_reserve_limit_identity_keys :: "string list"
  fd_reserve_client_ip_hash :: "string option"

record NetworkStatePricingSnapshot =
  ns_state_url :: "string option"
  ns_reachable :: bool
  ns_topology_nodes :: int
  ns_topology_connections :: int
  ns_node_system_entries :: int
  ns_average_cpu_usage :: "rat option"
  ns_error :: "string option"

record AutomaticPriceQuote =
  aq_pricing_mode :: string
  aq_pricing_basis :: string
  aq_compute_cost_atomic :: int
  aq_base_price_atomic :: int
  aq_prompt_units :: int
  aq_prompt_tokens_estimate :: "int option"
  aq_reserved_output_tokens :: "int option"
  aq_input_token_price_atomic :: "int option"
  aq_output_token_price_atomic :: "int option"
  aq_model_multiplier_bps :: int
  aq_load_multiplier_bps :: int
  aq_reserve_multiplier_bps :: int
  aq_final_multiplier_bps :: int
  aq_was_capped :: bool
  aq_snapshot :: NetworkStatePricingSnapshot
  aq_reason :: string

record ResolvedPriceQuote =
  rq_compute_cost_atomic :: int
  rq_pricing_mode :: string
  rq_pricing_basis :: string
  rq_pricing_reason :: string
  rq_automatic_quote :: "AutomaticPriceQuote option"

record TokenPricedCost =
  tc_compute_cost_atomic :: int
  tc_base_price_atomic :: int
  tc_was_capped :: bool

record econ_lib =
  el_from_iso :: "string \<Rightarrow> iso_time option"
  el_today :: int
  el_ip_text :: "string \<Rightarrow> string option"
  el_ip_prefix :: "string \<Rightarrow> string"

section \<open>Prices\<close>

definition default_tx_fee_atomic :: "MoneyPolicy \<Rightarrow> (py_error, int) res" where
  "default_tx_fee_atomic mp =
    (let (whole, fraction0) = py_partition CHR ''.'' (mp_default_tx_fee_coins mp);
         fraction = take (mp_decimals mp) (fraction0 @ replicate (mp_decimals mp) CHR ''0'')
     in rbind (py_int_str (str_or whole ''0'')) (\<lambda>w.
        rbind (py_int_str (str_or fraction ''0'')) (\<lambda>f. Inr (w * 10 ^ mp_decimals mp + f))))"

definition build_fee_quote :: "int \<Rightarrow> MoneyPolicy \<Rightarrow> int option \<Rightarrow> (py_error, FeeQuote) res" where
  "build_fee_quote compute_cost mp tx_fee =
    rbind (case tx_fee of Some f \<Rightarrow> Inr f | None \<Rightarrow> default_tx_fee_atomic mp) (\<lambda>resolved_tx_fee.
    let settlement_fee = (compute_cost * mp_validator_settlement_fee_bps mp) div 10000;
        ai_fee = (compute_cost * mp_ai_development_fee_bps mp) div 10000
    in Inr \<lparr>fq_compute_cost_atomic = compute_cost, fq_tx_fee_atomic = resolved_tx_fee,
          fq_settlement_fee_atomic = settlement_fee, fq_ai_development_fee_atomic = ai_fee,
          fq_worker_reward_atomic = max (compute_cost - settlement_fee - ai_fee) 0\<rparr>)"

definition estimate_prompt_token_upper_bound :: "string \<Rightarrow> int" where
  "estimate_prompt_token_upper_bound prompt = max (int (length (py_strip prompt))) 1"

definition resolve_reserved_output_tokens :: "int option \<Rightarrow> MoneyPolicy \<Rightarrow> int" where
  "resolve_reserved_output_tokens max_output_tokens mp =
    (case max_output_tokens of
       Some n \<Rightarrow> if n > 0 then n else max (mp_automatic_price_default_reserved_output_tokens mp) 1
     | None \<Rightarrow> max (mp_automatic_price_default_reserved_output_tokens mp) 1)"

definition given_or :: "int option \<Rightarrow> (py_error, int) res \<Rightarrow> (py_error, int) res" where
  "given_or x r = (case x of Some v \<Rightarrow> Inr v | None \<Rightarrow> r)"

definition calculate_token_priced_cost ::
  "int option \<Rightarrow> int option \<Rightarrow> int \<Rightarrow> MoneyPolicy \<Rightarrow> int option \<Rightarrow> int option \<Rightarrow> int option \<Rightarrow> int option
   \<Rightarrow> (py_error, TokenPricedCost) res" where
  "calculate_token_priced_cost prompt_tokens completion_tokens multiplier mp input_price output_price floor_atomic cap_atomic =
    rbind (given_or input_price (coins_to_atomic (mp_automatic_price_per_input_token_coins mp) mp)) (\<lambda>ip.
    rbind (given_or output_price (coins_to_atomic (mp_automatic_price_per_output_token_coins mp) mp)) (\<lambda>out.
    rbind (given_or floor_atomic (coins_to_atomic (mp_automatic_price_floor_coins mp) mp)) (\<lambda>floor.
    rbind (given_or cap_atomic (coins_to_atomic (mp_automatic_price_cap_coins mp) mp)) (\<lambda>cap.
    let n = (\<lambda>x. case x of None \<Rightarrow> 0 | Some v \<Rightarrow> max v 0);
        base_price = n prompt_tokens * ip + n completion_tokens * out;
        raw = (base_price * max multiplier 1000) div 10000
    in Inr \<lparr>tc_compute_cost_atomic = min (max raw floor) cap, tc_base_price_atomic = base_price,
            tc_was_capped = raw > cap\<rparr>))))"

definition model_multiplier_bps :: "string \<Rightarrow> MoneyPolicy \<Rightarrow> NetworkModelPolicy \<Rightarrow> int" where
  "model_multiplier_bps model_id mp np =
    (if normalize_network_model_id model_id np
        \<in> set (map (\<lambda>c. normalize_network_model_id c np) (np_network_execution_model_ids np))
     then 10000 else 10000 + mp_automatic_price_non_default_model_premium_bps mp)"

definition load_multiplier_bps ::
  "NetworkStatePricingSnapshot \<Rightarrow> MoneyPolicy \<Rightarrow> NetworkModelPolicy \<Rightarrow> int \<times> string" where
  "load_multiplier_bps snapshot mp np =
    (if \<not> ns_reachable snapshot
     then (10000 + mp_automatic_price_unreachable_safety_bps mp,
       ''Network state was unreachable, so a conservative but bounded price was used.'')
     else
       let connections = ns_topology_connections snapshot;
           min_connections = max (mp_automatic_price_target_connections mp) (np_minimum_worker_shards np);
           (factor1, reasons1) =
             (if connections < min_connections
              then (10000 + mp_automatic_price_connection_scarcity_surcharge_bps mp,
                [''Only '' @ show_int connections @ '' routable connection(s) are available, so the network applied a small scarcity surcharge.''])
              else if connections > min_connections
              then (max (10000 - mp_automatic_price_healthy_network_discount_bps mp) 1000,
                [''Healthy multi-node connectivity enabled a small protocol discount.''])
              else (10000, []));
           (factor2, reasons2) =
             (case ns_average_cpu_usage snapshot of None \<Rightarrow> (factor1, reasons1)
              | Some load \<Rightarrow>
                if load \<ge> mp_automatic_price_high_load_threshold mp
                then (factor1 + mp_automatic_price_high_load_surcharge_bps mp,
                  reasons1 @ [''Current node load is high, so the quote added a bounded load surcharge.''])
                else if load \<le> mp_automatic_price_low_load_threshold mp \<and> connections \<ge> min_connections
                then (max (factor1 - mp_automatic_price_low_load_discount_bps mp) 1000,
                  reasons1 @ [''Current node load is low, so the quote applied a small discount.''])
                else (factor1, reasons1))
       in (factor2, py_join '' ''
            (if reasons2 = [] then [''Network load stayed within the normal target range.''] else reasons2)))"

definition reserve_multiplier_bps :: "LedgerState \<Rightarrow> MoneyPolicy \<Rightarrow> int \<times> string" where
  "reserve_multiplier_bps ledger mp =
    (let initial = mp_compute_reserve_coins mp * 10 ^ mp_decimals mp;
         reserve = l_compute_reserve_balance_atomic ledger
     in if initial \<le> 0
        then (10000, ''Reserve baseline is unavailable, so no reserve adjustment was applied.'')
        else if reserve * 2 ^ 57 \<le> (2 * 7205759403792794 + 1) * initial
        then (10000 + mp_automatic_price_reserve_critical_bps mp,
          ''Compute reserve is critically low, so the quote added a bounded protection premium.'')
        else if reserve * 2 ^ 55 \<le> (2 ^ 53 + 1) * initial
        then (10000 + mp_automatic_price_reserve_guard_bps mp,
          ''Compute reserve is getting low, so the quote added a small reserve-protection premium.'')
        else (10000, ''Compute reserve is healthy, so no reserve premium was added.''))"

definition price_reason :: "bool \<Rightarrow> int \<Rightarrow> int \<Rightarrow> int \<Rightarrow> string \<Rightarrow> string \<Rightarrow> bool \<Rightarrow> string" where
  "price_reason by_tokens prompt_units prompt_tokens output_tokens load_reason reserve_reason was_capped =
    py_join '' '' (map py_strip (filter (\<lambda>t. py_strip t \<noteq> [])
      ([''Automatic network pricing keeps compute within a bounded protocol range.'',
        if by_tokens then ''Prompt and reserved output are priced by LLM token allowance.''
        else ''Prompt size contributes '' @ show_int prompt_units @ '' unit(s).'',
        load_reason, reserve_reason]
       @ (if by_tokens then [''Reserved prompt/output budget: '' @ show_int prompt_tokens
            @ '' input token(s) and '' @ show_int output_tokens @ '' output token(s).''] else [])
       @ (if was_capped then [''Protocol price cap prevented the quote from becoming too high.''] else []))))"

text \<open>The multipliers are composed in basis points and never fall below a tenth.\<close>

definition final_multiplier :: "int \<Rightarrow> int \<Rightarrow> int \<Rightarrow> int" where
  "final_multiplier model load reserve = max ((model * load * reserve) div (10000 * 10000)) 1000"

definition bounded_price :: "bool \<Rightarrow> TokenPricedCost \<Rightarrow> int \<Rightarrow> int \<Rightarrow> int \<Rightarrow> int \<Rightarrow> int \<times> bool" where
  "bounded_price by_tokens token_cost base_price multiplier lo hi =
    (if by_tokens then (tc_compute_cost_atomic token_cost, tc_was_capped token_cost)
     else let raw = (base_price * multiplier) div 10000 in (min (max raw lo) hi, raw > hi))"

definition quote_automatic_compute_price ::
  "string \<Rightarrow> string \<Rightarrow> LedgerState \<Rightarrow> int option \<Rightarrow> MoneyPolicy \<Rightarrow> NetworkModelPolicy
   \<Rightarrow> NetworkStatePricingSnapshot \<Rightarrow> (py_error, AutomaticPriceQuote) res" where
  "quote_automatic_compute_price prompt model_id ledger max_output_tokens mp np snapshot =
    rbind (coins_to_atomic (mp_automatic_price_floor_coins mp) mp) (\<lambda>floor.
    rbind (coins_to_atomic (mp_automatic_price_cap_coins mp) mp) (\<lambda>cap.
    rbind (coins_to_atomic (mp_automatic_price_per_prompt_unit_coins mp) mp) (\<lambda>per_unit.
    let by_tokens = mp_automatic_token_pricing_enabled mp;
        tokens = estimate_prompt_token_upper_bound prompt;
        reserved = resolve_reserved_output_tokens max_output_tokens mp
    in rbind (if by_tokens then coins_to_atomic (mp_automatic_price_per_input_token_coins mp) mp else Inr 0) (\<lambda>ip.
    rbind (if by_tokens then coins_to_atomic (mp_automatic_price_per_output_token_coins mp) mp else Inr 0) (\<lambda>out.
    let units = (if by_tokens then 0
          else max 1 (- ((- max (int (length (py_strip prompt))) 1) div max (mp_automatic_price_prompt_unit_chars mp) 1)));
        base_price = (if by_tokens then tokens * ip + reserved * out else floor + max (units - 1) 0 * per_unit);
        model = model_multiplier_bps model_id mp np;
        (load, load_reason) = load_multiplier_bps snapshot mp np;
        (reserve, reserve_reason) = reserve_multiplier_bps ledger mp;
        multiplier = final_multiplier model load reserve;
        known = (\<lambda>x. if by_tokens then Some x else None)
    in rbind (calculate_token_priced_cost (known tokens) (known reserved) multiplier mp (known ip) (known out)
           (Some floor) (Some cap)) (\<lambda>token_cost.
    let (cost, capped) = bounded_price by_tokens token_cost base_price multiplier floor cap
    in Inr \<lparr>aq_pricing_mode = ''network_auto'',
         aq_pricing_basis = (if by_tokens then ''llm_tokens'' else ''prompt_chars''),
         aq_compute_cost_atomic = cost, aq_base_price_atomic = base_price, aq_prompt_units = units,
         aq_prompt_tokens_estimate = known tokens, aq_reserved_output_tokens = known reserved,
         aq_input_token_price_atomic = known ip, aq_output_token_price_atomic = known out,
         aq_model_multiplier_bps = model, aq_load_multiplier_bps = load, aq_reserve_multiplier_bps = reserve,
         aq_final_multiplier_bps = multiplier, aq_was_capped = capped, aq_snapshot = snapshot,
         aq_reason = price_reason by_tokens units tokens reserved load_reason reserve_reason capped\<rparr>))))))"

definition resolve_compute_price ::
  "string option \<Rightarrow> string option \<Rightarrow> string \<Rightarrow> LedgerState \<Rightarrow> int option \<Rightarrow> MoneyPolicy \<Rightarrow> NetworkModelPolicy
   \<Rightarrow> NetworkStatePricingSnapshot \<Rightarrow> (py_error, ResolvedPriceQuote) res" where
  "resolve_compute_price compute_amount_coins prompt model_id ledger max_output_tokens mp np snapshot =
    (case compute_amount_coins of
       Some coins \<Rightarrow> rbind (coins_to_atomic coins mp) (\<lambda>cost.
         Inr \<lparr>rq_compute_cost_atomic = cost, rq_pricing_mode = ''manual'', rq_pricing_basis = ''manual'',
              rq_pricing_reason = ''Manual compute amount was provided by the user.'', rq_automatic_quote = None\<rparr>)
     | None \<Rightarrow>
       let text = (case prompt of None \<Rightarrow> [] | Some t \<Rightarrow> t) in
       if py_strip text = [] then Inl ValueError
       else rbind (quote_automatic_compute_price text model_id ledger max_output_tokens mp np snapshot) (\<lambda>q.
         Inr \<lparr>rq_compute_cost_atomic = aq_compute_cost_atomic q, rq_pricing_mode = aq_pricing_mode q,
              rq_pricing_basis = aq_pricing_basis q, rq_pricing_reason = aq_reason q, rq_automatic_quote = Some q\<rparr>))"

section \<open>The daily allowance of the reserve\<close>

definition limit_of_text :: "bool \<Rightarrow> string \<Rightarrow> MoneyPolicy \<Rightarrow> (py_error, int option) res" where
  "limit_of_text enabled coins mp =
    (if \<not> enabled then Inr None
     else if py_strip coins = [] then Inr None
     else rbind (coins_to_atomic (py_strip coins) mp) (\<lambda>v. Inr (Some (max v 0))))"

definition daily_user_reserve_limit_atomic :: "MoneyPolicy \<Rightarrow> (py_error, int option) res" where
  "daily_user_reserve_limit_atomic mp =
    limit_of_text (mp_daily_user_reserve_limit_enabled mp) (mp_daily_user_reserve_limit_coins mp) mp"

definition daily_ip_reserve_limit_atomic :: "MoneyPolicy \<Rightarrow> (py_error, int option) res" where
  "daily_ip_reserve_limit_atomic mp =
    limit_of_text (mp_daily_ip_reserve_limit_enabled mp) (mp_daily_ip_reserve_limit_coins mp) mp"

definition normalize_reserve_client_ip :: "econ_lib \<Rightarrow> string option \<Rightarrow> string option" where
  "normalize_reserve_client_ip X v =
    (let raw = py_lower (py_strip (text_or_empty v)) in
     if raw = [] \<or> raw = ''unknown'' then None
     else case el_ip_text X raw of Some t \<Rightarrow> Some t | None \<Rightarrow> Some raw)"

definition reserve_client_ip_hash :: "chain_env \<Rightarrow> econ_lib \<Rightarrow> string option \<Rightarrow> string option" where
  "reserve_client_ip_hash E X v =
    map_option (\<lambda>ip. sha256_hex E (''ip:'' @ ip)) (normalize_reserve_client_ip X v)"

definition reserve_client_ip_prefix_hash :: "chain_env \<Rightarrow> econ_lib \<Rightarrow> string option \<Rightarrow> string option" where
  "reserve_client_ip_prefix_hash E X v =
    (case normalize_reserve_client_ip X v of None \<Rightarrow> None
     | Some t \<Rightarrow> map_option (\<lambda>ip. sha256_hex E (''ip-prefix:'' @ el_ip_prefix X ip)) (el_ip_text X t))"

definition build_reserve_limit_identity_keys ::
  "chain_env \<Rightarrow> econ_lib \<Rightarrow> string \<Rightarrow> string option \<Rightarrow> MoneyPolicy \<Rightarrow> (py_error, string list) res" where
  "build_reserve_limit_identity_keys E X wallet_id client_ip mp =
    (let client = some_if_text (reserve_client_ip_hash E X client_ip);
         prefix = some_if_text (reserve_client_ip_prefix_hash E X client_ip)
     in rbind (if client = None then Inr None else daily_ip_reserve_limit_atomic mp) (\<lambda>ip_limit.
        let keys = (''wallet:'' @ py_strip wallet_id)
              # (case client of None \<Rightarrow> [] | Some h \<Rightarrow>
                   if ip_limit = None then []
                   else (''ip:'' @ h) # (case prefix of None \<Rightarrow> [] | Some g \<Rightarrow> [''ip-prefix:'' @ g]))
        in Inr (filter (\<lambda>k. k \<noteq> [] \<and> k \<noteq> ''wallet:'') keys)))"

definition daily_reserve_limit_for_identity_key :: "string \<Rightarrow> MoneyPolicy \<Rightarrow> (py_error, int option) res" where
  "daily_reserve_limit_for_identity_key k mp =
    (if py_startswith (py_strip k) ''ip:'' \<or> py_startswith (py_strip k) ''ip-prefix:''
     then daily_ip_reserve_limit_atomic mp else daily_user_reserve_limit_atomic mp)"

text \<open>The day of an instant in microseconds.\<close>

definition is_same_utc_day :: "econ_lib \<Rightarrow> string \<Rightarrow> bool" where
  "is_same_utc_day X v =
    (case parse_iso_datetime (el_from_iso X) (Some v) of None \<Rightarrow> False
     | Some t \<Rightarrow> in_utc t div 86400000000 = el_today X)"

definition reserve_limit_identity_keys_from_metadata :: "obj \<Rightarrow> string \<Rightarrow> string list" where
  "reserve_limit_identity_keys_from_metadata metadata fallback_wallet_id =
    (let keys = (case jget metadata ''reserve_limit_identity_keys'' of
                   JList xs \<Rightarrow> filter (\<lambda>t. py_strip t \<noteq> []) (map py_str xs) | _ \<Rightarrow> []);
         wallet_id = py_strip fallback_wallet_id
     in if keys \<noteq> [] then keys else if wallet_id \<noteq> [] then [''wallet:'' @ wallet_id] else [])"

definition reserve_compute_cost_from_metadata :: "obj \<Rightarrow> int \<Rightarrow> (py_error, int) res" where
  "reserve_compute_cost_from_metadata metadata fallback =
    (case py_int (jget metadata ''compute_cost_atomic'') of
       Inr v \<Rightarrow> Inr (max v 0)
     | Inl e \<Rightarrow> if e = TypeError \<or> e = ValueError then Inr (max fallback 0) else Inl e)"

definition reserve_spend_of_tx :: "econ_lib \<Rightarrow> string \<Rightarrow> ChainTransaction \<Rightarrow> (py_error, int) res" where
  "reserve_spend_of_tx X k tx =
    (if tx_type tx \<noteq> ''settlement_compute_reserve_debit'' then Inr 0
     else if k \<notin> set (reserve_limit_identity_keys_from_metadata (tx_metadata tx)
         (str_of_or (jget (tx_metadata tx) ''source_wallet_id'') [])) then Inr 0
     else if \<not> is_same_utc_day X (tx_created_at tx) then Inr 0
     else reserve_compute_cost_from_metadata (tx_metadata tx) \<bar>tx_delta_atomic tx\<bar>)"

definition daily_user_reserve_spent_today_from_chain ::
  "chain_env \<Rightarrow> econ_lib \<Rightarrow> WalletPolicy option \<Rightarrow> io \<Rightarrow> string \<Rightarrow> ('x settlement_dir_scheme, py_error, int) sres" where
  "daily_user_reserve_spent_today_from_chain E X p w k s =
    (case load_blocks E p w (dd_chain s) of
       (Inl e, _) \<Rightarrow> (if e = ValueError then Inr 0 else Inl e, s)
     | (Inr bs, _) \<Rightarrow> (rfold (\<lambda>spent tx. rbind (reserve_spend_of_tx X k tx) (\<lambda>v. Inr (spent + v))) 0 (chain_txs bs), s))"

definition reserve_spend_of_settlement :: "econ_lib \<Rightarrow> string \<Rightarrow> SettlementRecord \<Rightarrow> int" where
  "reserve_spend_of_settlement X k r =
    (let own = filter (\<lambda>t. py_strip t \<noteq> []) (sr_reserve_limit_identity_keys r);
         keys = (if own \<noteq> [] then own else [''wallet:'' @ py_strip (sr_source_wallet_id r)])
     in if k \<notin> set keys then 0
        else if py_lower (py_strip (sr_funding_source r)) \<noteq> funding_source_value RESERVE then 0
        else if \<not> is_same_utc_day X (sr_created_at r) then 0
        else sr_compute_cost_atomic r)"

definition daily_user_reserve_spent_today_from_settlements ::
  "econ_lib \<Rightarrow> string \<Rightarrow> 'x settlement_dir_scheme \<Rightarrow> int" where
  "daily_user_reserve_spent_today_from_settlements X k s =
    sum_list (map (reserve_spend_of_settlement X k) (list_settlements s))"

text \<open>The larger of the two records of a key, for every key of the caller.\<close>

definition reserve_spent_for_key ::
  "chain_env \<Rightarrow> econ_lib \<Rightarrow> WalletPolicy option \<Rightarrow> io \<Rightarrow> string \<Rightarrow> ('x settlement_dir_scheme, py_error, int) sres" where
  "reserve_spent_for_key E X p w k =
    sbind (daily_user_reserve_spent_today_from_chain E X p w k) (\<lambda>c s.
      (Inr (max c (daily_user_reserve_spent_today_from_settlements X k s)), s))"

fun smap :: "('a \<Rightarrow> ('s, 'e, 'b) sres) \<Rightarrow> 'a list \<Rightarrow> ('s, 'e, 'b list) sres" where
  "smap f [] = slift (Inr [])"
| "smap f (x # xs) = sbind (f x) (\<lambda>y. sbind (smap f xs) (\<lambda>ys. slift (Inr (y # ys))))"

definition daily_reserve_spent_today_by_identity ::
  "chain_env \<Rightarrow> econ_lib \<Rightarrow> WalletPolicy option \<Rightarrow> io \<Rightarrow> string \<Rightarrow> string list
   \<Rightarrow> ('x settlement_dir_scheme, py_error, (string \<times> int) list) sres" where
  "daily_reserve_spent_today_by_identity E X p w wallet_id keys =
    (let ks = (if keys \<noteq> [] then keys else [''wallet:'' @ py_strip wallet_id])
     in smap (\<lambda>k. sbind (reserve_spent_for_key E X p w k) (\<lambda>v. slift (Inr (k, v)))) ks)"

definition max_of :: "int list \<Rightarrow> int" where
  "max_of xs = (case xs of [] \<Rightarrow> 0 | x # r \<Rightarrow> fold max r x)"

definition daily_user_reserve_spent_today_atomic ::
  "chain_env \<Rightarrow> econ_lib \<Rightarrow> WalletPolicy option \<Rightarrow> io \<Rightarrow> string \<Rightarrow> string list
   \<Rightarrow> ('x settlement_dir_scheme, py_error, int) sres" where
  "daily_user_reserve_spent_today_atomic E X p w wallet_id keys =
    sbind (daily_reserve_spent_today_by_identity E X p w wallet_id keys) (\<lambda>d. slift (Inr (max_of (map snd d))))"

section \<open>Paying for a job\<close>

text \<open>What \<open>plan_funding\<close> finds out about the allowance before it decides.\<close>

record allowance =
  al_daily_limit :: "int option"
  al_spent_today :: int
  al_remaining :: "int option"
  al_exceeded :: bool
  al_keys :: "string list"
  al_client_hash :: "string option"

definition identity_limits :: "MoneyPolicy \<Rightarrow> string list \<Rightarrow> (py_error, (string \<times> int) list) res" where
  "identity_limits mp keys =
    rbind (rmap (\<lambda>k. rbind (daily_reserve_limit_for_identity_key k mp) (\<lambda>l. Inr (k, l))) keys) (\<lambda>ls.
    Inr (dedup_first (concat (map (\<lambda>(k, l). case l of None \<Rightarrow> [] | Some n \<Rightarrow> [(k, n)]) ls))))"

definition plan_allowance ::
  "chain_env \<Rightarrow> econ_lib \<Rightarrow> WalletPolicy option \<Rightarrow> io \<Rightarrow> MoneyPolicy \<Rightarrow> WalletRecord \<Rightarrow> int
   \<Rightarrow> string option \<Rightarrow> string list option \<Rightarrow> string option \<Rightarrow> ('x settlement_dir_scheme, py_error, allowance) sres" where
  "plan_allowance E X p w mp wallet compute_cost client_ip given_keys client_hash =
    sbind (slift (daily_user_reserve_limit_atomic mp)) (\<lambda>fallback.
    let provided = (case given_keys of None \<Rightarrow> [] | Some ks \<Rightarrow> filter (\<lambda>k. py_strip k \<noteq> []) ks) in
    sbind (slift (if provided \<noteq> [] then Inr provided
                  else build_reserve_limit_identity_keys E X (w_wallet_id wallet) client_ip mp)) (\<lambda>keys.
    let hash = (if py_strip (text_or_empty client_hash) \<noteq> [] then Some (py_strip (text_or_empty client_hash))
                else reserve_client_ip_hash E X client_ip) in
    sbind (daily_user_reserve_spent_today_atomic E X p w (w_wallet_id wallet) keys) (\<lambda>spent_today.
    sbind (daily_reserve_spent_today_by_identity E X p w (w_wallet_id wallet) keys) (\<lambda>spent.
    sbind (slift (identity_limits mp keys)) (\<lambda>limits.
    slift (Inr
      \<lparr>al_daily_limit = (if limits \<noteq> [] then Some (min_list (map snd limits)) else fallback),
       al_spent_today = spent_today,
       al_remaining = (if limits \<noteq> [] then Some (min_list (map (\<lambda>(k, l). max (l - dget spent k 0) 0) limits)) else None),
       al_exceeded = list_ex (\<lambda>(k, l). dget spent k 0 + compute_cost > l) limits,
       al_keys = keys, al_client_hash = hash\<rparr>))))))"

definition funding_result ::
  "PaymentPreference \<Rightarrow> FeeQuote \<Rightarrow> allowance \<Rightarrow> int \<Rightarrow> int \<Rightarrow> bool \<Rightarrow> string \<Rightarrow> FundingSource option
   \<Rightarrow> int \<Rightarrow> int \<Rightarrow> int option \<Rightarrow> FundingDecision" where
  "funding_result pref q al reserve_before wallet_before ok reason src reserve_after wallet_after remaining =
    \<lparr>fd_can_fund = ok, fd_reason = reason, fd_payment_preference = pref, fd_funding_source = src,
     fd_fee_quote = q, fd_reserve_before_atomic = reserve_before, fd_reserve_after_atomic = reserve_after,
     fd_wallet_before_atomic = wallet_before, fd_wallet_after_atomic = wallet_after,
     fd_daily_reserve_limit_atomic = al_daily_limit al, fd_daily_reserve_spent_today_atomic = al_spent_today al,
     fd_daily_reserve_remaining_atomic = remaining, fd_reserve_limit_identity_keys = al_keys al,
     fd_reserve_client_ip_hash = al_client_hash al\<rparr>"

definition reject_funding :: "PaymentPreference \<Rightarrow> FeeQuote \<Rightarrow> allowance \<Rightarrow> int \<Rightarrow> int \<Rightarrow> string \<Rightarrow> FundingDecision" where
  "reject_funding pref q al reserve_before wallet_before reason =
    funding_result pref q al reserve_before wallet_before False reason None reserve_before wallet_before (al_remaining al)"

definition after_reserve :: "allowance \<Rightarrow> FeeQuote \<Rightarrow> int option" where
  "after_reserve al q = map_option (\<lambda>r. max (r - fq_compute_cost_atomic q) 0) (al_remaining al)"

definition limit_reason :: "MoneyPolicy \<Rightarrow> allowance \<Rightarrow> string" where
  "limit_reason mp al =
    ''Daily reserve allowance of '' @ atomic_to_coins (case al_daily_limit al of None \<Rightarrow> 0 | Some l \<Rightarrow> l) mp
    @ '' '' @ mp_currency_code mp @ '' would be exceeded. Already reserve-funded today: ''
    @ atomic_to_coins (al_spent_today al) mp @ ''.''"

definition decide_funding ::
  "MoneyPolicy \<Rightarrow> PaymentPreference \<Rightarrow> FeeQuote \<Rightarrow> allowance \<Rightarrow> int \<Rightarrow> int \<Rightarrow> FundingDecision" where
  "decide_funding mp pref q al reserve wallet =
    (let cost = fq_compute_cost_atomic q; fee = fq_tx_fee_atomic q; needed = cost + fee;
         fund = funding_result pref q al reserve wallet True;
         reject = reject_funding pref q al reserve wallet
     in case pref of
       RESERVE_ONLY \<Rightarrow>
         if al_exceeded al then reject (limit_reason mp al)
         else if reserve < cost then reject ''Reserve balance is insufficient for the requested compute cost.''
         else if wallet < fee then reject ''Wallet balance is insufficient to pay the transaction fee.''
         else fund ''Compute is funded by reserve, tx fee by wallet.'' (Some RESERVE)
           (reserve - cost) (wallet - fee) (after_reserve al q)
     | WALLET_ONLY \<Rightarrow>
         if wallet < needed then reject ''Wallet balance is insufficient to fund compute cost and tx fee.''
         else fund ''Compute and tx fee are funded by wallet.'' (Some WALLET) reserve (wallet - needed) (al_remaining al)
     | AUTO \<Rightarrow>
         if \<not> al_exceeded al \<and> reserve \<ge> cost \<and> wallet \<ge> fee
         then fund ''Auto mode selected reserve for compute and wallet for tx fee.'' (Some RESERVE)
           (reserve - cost) (wallet - fee) (after_reserve al q)
         else if \<not> al_exceeded al \<and> reserve \<ge> needed
         then fund ''Auto mode selected reserve for compute and tx fee.'' (Some RESERVE)
           (reserve - needed) wallet (after_reserve al q)
         else if wallet \<ge> needed
         then fund (if al_exceeded al
             then ''Auto mode fell back to wallet funding after daily reserve allowance was exhausted.''
             else ''Auto mode fell back to wallet funding.'') (Some WALLET) reserve (wallet - needed) (al_remaining al)
         else reject (if al_exceeded al
             then ''Daily reserve allowance is exhausted and wallet balance is insufficient to fund this compute job.''
             else ''Neither reserve+wallet nor wallet-only path can fund this compute job.''))"

definition plan_funding ::
  "chain_env \<Rightarrow> econ_lib \<Rightarrow> WalletPolicy option \<Rightarrow> io \<Rightarrow> MoneyPolicy \<Rightarrow> LedgerState \<Rightarrow> WalletRecord \<Rightarrow> int
   \<Rightarrow> PaymentPreference \<Rightarrow> int option \<Rightarrow> string option \<Rightarrow> string list option \<Rightarrow> string option
   \<Rightarrow> ('x settlement_dir_scheme, py_error, FundingDecision) sres" where
  "plan_funding E X p w mp ledger wallet compute_cost pref tx_fee client_ip given_keys client_hash =
    sbind (slift (build_fee_quote compute_cost mp tx_fee)) (\<lambda>q.
    sbind (plan_allowance E X p w mp wallet compute_cost client_ip given_keys client_hash) (\<lambda>al.
    slift (Inr (decide_funding mp pref q al (l_compute_reserve_balance_atomic ledger)
      (w_spendable_balance_atomic wallet)))))"

definition apply_funding_decision ::
  "LedgerState \<Rightarrow> WalletRecord \<Rightarrow> FundingDecision \<Rightarrow> (py_error, LedgerState \<times> WalletRecord) res" where
  "apply_funding_decision ledger wallet d =
    (if \<not> fd_can_fund d \<or> fd_funding_source d = None then Inl ValueError
     else let q = fd_fee_quote d in
       Inr (ledger\<lparr>l_compute_reserve_balance_atomic := fd_reserve_after_atomic d,
              l_validator_fee_pool_atomic := l_validator_fee_pool_atomic ledger + fq_settlement_fee_atomic q,
              l_ai_development_fee_pool_atomic := l_ai_development_fee_pool_atomic ledger + fq_ai_development_fee_atomic q,
              l_tx_fee_pool_atomic := l_tx_fee_pool_atomic ledger + fq_tx_fee_atomic q,
              l_worker_distributed_atomic := l_worker_distributed_atomic ledger + fq_worker_reward_atomic q,
              l_settlements_applied := l_settlements_applied ledger + 1\<rparr>,
            wallet\<lparr>w_spendable_balance_atomic := fd_wallet_after_atomic d\<rparr>))"

definition save_applied_funding ::
  "LedgerState \<Rightarrow> WalletRecord \<Rightarrow> FundingDecision \<Rightarrow> ('x data_dir_scheme, py_error, LedgerState \<times> WalletRecord) sres" where
  "save_applied_funding ledger wallet d =
    sbind (slift (apply_funding_decision ledger wallet d)) (\<lambda>(l, x).
    sbind (update_wallet x) (\<lambda>_. slift (Inr (l, x))))"

section \<open>The ledger as the chain has it\<close>

definition chain_backed_ledger_snapshot ::
  "chain_env \<Rightarrow> WalletPolicy option \<Rightarrow> io \<Rightarrow> MoneyPolicy \<Rightarrow> LedgerState \<Rightarrow> ('x data_dir_scheme, py_error, LedgerState) sres" where
  "chain_backed_ledger_snapshot E p w mp ledger =
    (let bal = (\<lambda>a. on_chain (chain_balance_atomic E p w a))
     in sbind (on_chain (ensure_chain_genesis E p (Some mp) w)) (\<lambda>_.
        sbind (bal (compute_reserve_chain_address mp)) (\<lambda>reserve.
        sbind (bal (mp_developer_treasury_address mp)) (\<lambda>treasury.
        sbind (bal (mp_ai_development_address mp)) (\<lambda>ai.
        sbind (bal (validator_settlement_fee_pool_chain_address mp)) (\<lambda>validator_pool.
        sbind (bal (validator_slash_pool_chain_address mp)) (\<lambda>slashed.
        sbind (bal (tx_fee_pool_chain_address mp)) (\<lambda>fees.
        slift (Inr (ledger\<lparr>l_compute_reserve_balance_atomic := reserve, l_project_treasury_balance_atomic := treasury,
          l_ai_development_fee_pool_atomic := ai, l_validator_fee_pool_atomic := validator_pool,
          l_validator_slashed_atomic := slashed, l_tx_fee_pool_atomic := fees\<rparr>))))))))))"

end
