(* ===== verification/Rewards.thy ===== *)
theory Rewards
  imports PyValues
begin

text \<open>
  \<open>distribute_worker_reward\<close> of \<open>src/src/cai_compute_chain/job_reward_distribution.py\<close>: the
  reward of a job, divided among the workers by the number of layers they ran. The same
  division is done a second time, on the recorded payouts, by the accounting check of
  \<open>settlement.py\<close>; both are instances of \<open>split_by_weight\<close>. A participant is the decoded
  dictionary; \<open>None\<close> as its layer count is a missing entry.
\<close>

record participant =
  pt_node_id :: string
  pt_runner_id :: "string option"
  pt_layer_start :: "int option"
  pt_layer_end :: "int option"
  pt_layer_count :: "int option"

record reward_share =
  rs_node_id :: string
  rs_runner_id :: "string option"
  rs_layer_start :: "int option"
  rs_layer_end :: "int option"
  rs_layer_count :: int
  rs_share_bps :: int
  rs_reward_atomic :: int
  rs_note :: "string option"

definition layer_weight :: "int option \<Rightarrow> int" where
  "layer_weight n = max (case n of None \<Rightarrow> 1 | Some k \<Rightarrow> k) 1"

text \<open>\<open>for index in range(n): parts[index % len(parts)] += 1\<close>\<close>

definition add_units :: "nat \<Rightarrow> ('a \<times> int) list \<Rightarrow> ('a \<times> int) list" where
  "add_units n parts =
    foldl (\<lambda>ps i. ps[i mod length ps := (fst (ps ! (i mod length ps)), snd (ps ! (i mod length ps)) + 1)]) parts [0 ..< n]"

definition split_by_weight :: "int \<Rightarrow> ('a \<Rightarrow> int) \<Rightarrow> ('a \<Rightarrow> string) \<Rightarrow> 'a list \<Rightarrow> ('a \<times> int) list" where
  "split_by_weight total_reward weight node items =
    (let total_weight = sum_list (map weight items);
         parts = map (\<lambda>x. (x, total_reward * weight x div total_weight, total_reward * weight x mod total_weight)) items;
         left = total_reward - sum_list (map (\<lambda>(_, q, _). q) parts);
         ordered = sort_key (\<lambda>(x, _, r). (- r, node x)) parts
     in add_units (nat left) (map (\<lambda>(x, q, _). (x, q)) ordered))"

definition reward_share_of :: "int \<Rightarrow> participant \<times> int \<Rightarrow> reward_share" where
  "reward_share_of total_weight = (\<lambda>(x, reward).
    \<lparr>rs_node_id = pt_node_id x, rs_runner_id = pt_runner_id x, rs_layer_start = pt_layer_start x,
     rs_layer_end = pt_layer_end x, rs_layer_count = layer_weight (pt_layer_count x),
     rs_share_bps = layer_weight (pt_layer_count x) * 10000 div total_weight, rs_reward_atomic = reward,
     rs_note = Some ''Distributed by pipeline layer share.''\<rparr>)"

definition share_order :: "reward_share \<Rightarrow> bool \<times> int \<times> string" where
  "share_order x = (rs_layer_start x = None, (case rs_layer_start x of None \<Rightarrow> 10 ^ 9 | Some k \<Rightarrow> k), rs_node_id x)"

definition distribute_worker_reward :: "int \<Rightarrow> participant list \<Rightarrow> reward_share list" where
  "distribute_worker_reward total_reward participants =
    (if total_reward \<le> 0 \<or> participants = [] then []
     else let weight = (\<lambda>x. layer_weight (pt_layer_count x));
              parts = split_by_weight total_reward weight pt_node_id participants
          in sort_key share_order (map (reward_share_of (sum_list (map weight participants))) parts))"

section \<open>The largest remainders\<close>

lemma add_units_nth:
  assumes "n \<le> length parts"
  shows "add_units n parts = map (\<lambda>i. (fst (parts ! i), snd (parts ! i) + (if i < n then 1 else 0))) [0 ..< length parts]"
  using assms
proof (induction n)
  case 0
  then show ?case by (simp add: add_units_def map_nth)
next
  case (Suc n)
  then have n: "n < length parts" by simp
  have "add_units (Suc n) parts = (let ps = add_units n parts in
      ps[n mod length ps := (fst (ps ! (n mod length ps)), snd (ps ! (n mod length ps)) + 1)])"
    by (simp add: add_units_def Let_def)
  then show ?case using Suc n by (intro nth_equalityI) (auto simp: Let_def nth_list_update)
qed

lemma insort_key_map: "insort_key f (g x) (map g xs) = map g (insort_key (f \<circ> g) x xs)"
  by (induction xs) auto

lemma sort_key_map: "sort_key f (map g xs) = map g (sort_key (f \<circ> g) xs)"
  by (induction xs) (simp_all add: insort_key_map comp_def)

definition quota :: "int \<Rightarrow> ('a \<Rightarrow> int) \<Rightarrow> 'a list \<Rightarrow> 'a \<Rightarrow> int" where
  "quota total_reward weight items x = total_reward * weight x div sum_list (map weight items)"

definition remainder_order :: "int \<Rightarrow> ('a \<Rightarrow> int) \<Rightarrow> ('a \<Rightarrow> string) \<Rightarrow> 'a list \<Rightarrow> 'a \<Rightarrow> int \<times> string" where
  "remainder_order total_reward weight node items x =
    (- (total_reward * weight x mod sum_list (map weight items)), node x)"

definition units_left :: "int \<Rightarrow> ('a \<Rightarrow> int) \<Rightarrow> 'a list \<Rightarrow> int" where
  "units_left total_reward weight items = total_reward - sum_list (map (quota total_reward weight items) items)"

lemma split_by_weight_add:
  "split_by_weight total_reward weight node items = add_units (nat (units_left total_reward weight items))
     (map (\<lambda>x. (x, quota total_reward weight items x)) (sort_key (remainder_order total_reward weight node items) items))"
  by (simp add: split_by_weight_def Let_def sort_key_map comp_def remainder_order_def [abs_def]
      quota_def [abs_def] units_left_def)

lemma units_left_bounds:
  assumes "\<forall>x \<in> set items. 0 < weight x" "items \<noteq> []"
  shows "0 \<le> units_left total_reward weight items" "units_left total_reward weight items < int (length items)"
proof -
  let ?W = "sum_list (map weight items)"
  have W: "0 < ?W" using assms by (cases items) (auto intro!: add_pos_nonneg sum_list_nonneg simp: less_imp_le)
  have "?W * units_left total_reward weight items = sum_list (map (\<lambda>x. total_reward * weight x mod ?W) items)"
  proof -
    have "sum_list (map (\<lambda>x. total_reward * weight x mod ?W) items)
        = sum_list (map (\<lambda>x. total_reward * weight x - ?W * quota total_reward weight items x) items)"
      by (simp add: quota_def minus_mult_div_eq_mod [symmetric])
    also have "\<dots> = total_reward * ?W - ?W * sum_list (map (quota total_reward weight items) items)"
      by (simp add: sum_list_subtractf sum_list_const_mult)
    finally show ?thesis by (simp add: units_left_def right_diff_distrib mult.commute)
  qed
  moreover have "0 \<le> sum_list (map (\<lambda>x. total_reward * weight x mod ?W) items)"
    using W by (intro sum_list_nonneg) auto
  moreover have "sum_list (map (\<lambda>x. f x mod ?W) xs) < ?W * int (length xs)" if "xs \<noteq> []" for xs :: "'a list" and f
    using that
  proof (induction xs rule: list_nonempty_induct)
    case (cons x xs)
    have "f x mod ?W < ?W" using W by simp
    with cons.IH show ?case by (simp add: distrib_left)
  qed (use W in simp)
  ultimately have "0 \<le> ?W * units_left total_reward weight items"
    "?W * units_left total_reward weight items < ?W * int (length items)" using assms(2) by auto
  then show "0 \<le> units_left total_reward weight items" "units_left total_reward weight items < int (length items)"
    using W by (simp_all add: zero_le_mult_iff)
qed

lemma split_by_weight_nth:
  assumes "\<forall>x \<in> set items. 0 < weight x" "items \<noteq> []"
  shows "split_by_weight total_reward weight node items =
    (let xs = sort_key (remainder_order total_reward weight node items) items in
     map (\<lambda>i. (xs ! i, quota total_reward weight items (xs ! i)
       + (if int i < units_left total_reward weight items then 1 else 0))) [0 ..< length xs])"
proof -
  let ?xs = "sort_key (remainder_order total_reward weight node items) items"
  have "nat (units_left total_reward weight items) \<le> length items"
    "(i < nat (units_left total_reward weight items)) = (int i < units_left total_reward weight items)" for i
    using units_left_bounds [OF assms, of total_reward] by auto
  then show ?thesis by (simp add: split_by_weight_add add_units_nth Let_def cong: map_cong)
qed

lemma sum_units: "sum_list (map (\<lambda>i. if int i < k then 1 else (0 :: int)) [0 ..< n]) = max 0 (min k (int n))"
  by (induction n) auto

lemma split_by_weight_total:
  assumes "\<forall>x \<in> set items. 0 < weight x" "items \<noteq> []"
  shows "sum_list (map snd (split_by_weight total_reward weight node items)) = total_reward"
proof -
  let ?xs = "sort_key (remainder_order total_reward weight node items) items" and ?q = "quota total_reward weight items"
  have "sum_list (map snd (split_by_weight total_reward weight node items))
      = sum_list (map (\<lambda>i. ?q (?xs ! i)) [0 ..< length ?xs])
        + sum_list (map (\<lambda>i. if int i < units_left total_reward weight items then 1 else 0) [0 ..< length ?xs])"
    by (simp add: split_by_weight_nth [OF assms] Let_def comp_def sum_list_addf)
  also have "map (\<lambda>i. ?q (?xs ! i)) [0 ..< length ?xs] = map ?q ?xs" by (rule nth_equalityI) simp_all
  also have "sum_list (map ?q ?xs) = sum_list (map ?q items)"
    by (metis mset_map mset_sort sum_mset_sum_list)
  finally show ?thesis
    using units_left_bounds [OF assms, of total_reward] by (simp add: sum_units units_left_def)
qed

lemma split_by_weight_member:
  assumes "\<forall>x \<in> set items. 0 < weight x" "items \<noteq> []" "(x, r) \<in> set (split_by_weight total_reward weight node items)"
  shows "x \<in> set items" "r - quota total_reward weight items x \<in> {0, 1}"
proof -
  let ?xs = "sort_key (remainder_order total_reward weight node items) items"
  obtain i where "i < length ?xs" "x = ?xs ! i" "r = quota total_reward weight items x
      + (if int i < units_left total_reward weight items then 1 else 0)"
    using assms(3) by (auto simp: split_by_weight_nth [OF assms(1,2)] Let_def)
  then show "x \<in> set items" "r - quota total_reward weight items x \<in> {0, 1}"
    by (metis nth_mem set_sort, simp)
qed

lemma map_fst_split:
  assumes "\<forall>x \<in> set items. 0 < weight x" "items \<noteq> []"
  shows "map fst (split_by_weight total_reward weight node items)
    = sort_key (remainder_order total_reward weight node items) items"
  by (rule nth_equalityI) (simp_all add: split_by_weight_nth [OF assms] Let_def)

text \<open>The same items in another order are divided alike, as long as no two have the same name.\<close>

lemma split_by_weight_order:
  assumes "mset items = mset items'" "distinct (map node items)"
  shows "split_by_weight total_reward weight node items = split_by_weight total_reward weight node items'"
proof -
  have W: "sum_list (map f items) = sum_list (map f items')" for f :: "'a \<Rightarrow> int"
    using assms(1) by (metis mset_map sum_mset_sum_list)
  have "inj_on (remainder_order total_reward weight node items) (set items)"
    using assms(2) by (auto simp: inj_on_def remainder_order_def distinct_map)
  from sort_key_unique [OF assms(1) this] show ?thesis
    by (simp add: split_by_weight_add units_left_def quota_def [abs_def] remainder_order_def [abs_def] W)
qed

text \<open>Dividing again, on copies of the items that keep name and weight, gives the same parts.\<close>

lemma split_by_weight_again:
  fixes copy :: "'a \<times> int \<Rightarrow> 'b" and total_reward :: int and weight :: "'a \<Rightarrow> int" and node :: "'a \<Rightarrow> string" and items :: "'a list"
  defines "ps \<equiv> split_by_weight total_reward weight node items"
  assumes "\<forall>x \<in> set items. 0 < weight x" "items \<noteq> []"
    and "\<And>y. y \<in> set ps \<Longrightarrow> weight' (copy y) = weight (fst y)" "\<And>y. y \<in> set ps \<Longrightarrow> node' (copy y) = node (fst y)"
  shows "split_by_weight total_reward weight' node' (map copy ps) = map (\<lambda>y. (copy y, snd y)) ps"
proof -
  let ?k = "remainder_order total_reward weight node items" and ?q = "quota total_reward weight items"
  have fst_ps: "map fst ps = sort_key ?k items" unfolding ps_def by (rule map_fst_split [OF assms(2,3)])
  have sum_fst: "sum_list (map f (map fst ps)) = sum_list (map f items)" for f :: "'a \<Rightarrow> int"
    unfolding fst_ps by (metis mset_map mset_sort sum_mset_sum_list)
  have "map weight' (map copy ps) = map weight (map fst ps)" using assms(4) by simp
  then have W: "sum_list (map weight' (map copy ps)) = sum_list (map weight items)" by (simp only: sum_fst)
  have q: "quota total_reward weight' (map copy ps) (copy y) = ?q (fst y)"
    and key: "remainder_order total_reward weight' node' (map copy ps) (copy y) = ?k (fst y)" if "y \<in> set ps" for y
    using W assms(4,5) that by (simp_all add: quota_def remainder_order_def)
  have "map (quota total_reward weight' (map copy ps)) (map copy ps) = map ?q (map fst ps)" using q by simp
  then have left: "units_left total_reward weight' (map copy ps) = units_left total_reward weight items"
    by (simp only: units_left_def sum_fst)
  have "sort_key (remainder_order total_reward weight' node' (map copy ps) \<circ> copy) ps = ps"
  proof (rule sort_key_id_if_sorted)
    have "map (remainder_order total_reward weight' node' (map copy ps) \<circ> copy) ps = map ?k (map fst ps)" using key by simp
    then show "sorted (map (remainder_order total_reward weight' node' (map copy ps) \<circ> copy) ps)"
      by (simp only: fst_ps sorted_sort_key)
  qed
  then have "split_by_weight total_reward weight' node' (map copy ps)
      = add_units (nat (units_left total_reward weight items)) (map (\<lambda>y. (copy y, ?q (fst y))) ps)"
    using q by (simp add: split_by_weight_add [of _ weight'] sort_key_map left comp_def cong: map_cong)
  also have "\<dots> = map (\<lambda>y. (copy y, snd y)) ps"
  proof -
    have len: "nat (units_left total_reward weight items) \<le> length ps"
      using units_left_bounds [OF assms(2,3), of total_reward] by (simp add: ps_def split_by_weight_nth [OF assms(2,3)] Let_def)
    have "snd (ps ! i) = ?q (fst (ps ! i)) + (if i < nat (units_left total_reward weight items) then 1 else 0)" if "i < length ps" for i
      using that units_left_bounds [OF assms(2,3), of total_reward]
      by (auto simp: ps_def split_by_weight_nth [OF assms(2,3)] Let_def)
    then show ?thesis using len by (subst add_units_nth) (auto intro!: nth_equalityI)
  qed
  finally show ?thesis .
qed

end
