(* ===== verification/Settlement.thy ===== *)
theory Settlement
  imports Economics Rewards
begin

text \<open>
  \<open>src/src/cai_compute_chain/settlement.py\<close>: a job that was paid for becomes a settlement; a
  committee of validators votes on it; a settlement with a quorum is applied to the wallet
  and the ledger, and its entries are written to the chain.

  The identifiers that \<open>secrets\<close> would produce are arguments: \<open>tok n\<close> is the identifier of
  the \<open>n\<close>-th journal entry. The penalties for conflicting votes (evidence, penalty cases) and
  the exchange with other nodes are not modelled.
\<close>

section \<open>What the audit knows\<close>

definition optional_int :: "json \<Rightarrow> int option" where
  "optional_int v = (case v of JNull \<Rightarrow> None | _ \<Rightarrow> (case py_int v of Inl _ \<Rightarrow> None | Inr n \<Rightarrow> Some n))"

definition settlement_execution_pricing_audit :: "SettlementRecord \<Rightarrow> obj" where
  "settlement_execution_pricing_audit r =
    (case jget (sr_balance_audit r) ''execution'' of
       JObj execution \<Rightarrow> (case jget execution ''pricing'' of JObj pricing \<Rightarrow> pricing | _ \<Rightarrow> [])
     | _ \<Rightarrow> [])"

definition settlement_reserved_compute_atomic :: "SettlementRecord \<Rightarrow> int option" where
  "settlement_reserved_compute_atomic r =
    optional_int (jget (settlement_execution_pricing_audit r) ''reserved_compute_cost_atomic'')"

definition settlement_reservation_surplus_atomic :: "SettlementRecord \<Rightarrow> int" where
  "settlement_reservation_surplus_atomic r =
    (case optional_int (jget (settlement_execution_pricing_audit r) ''reservation_surplus_atomic'') of
       Some surplus \<Rightarrow> max 0 surplus
     | None \<Rightarrow> (case settlement_reserved_compute_atomic r of None \<Rightarrow> 0
         | Some reserved \<Rightarrow> max 0 (reserved - sr_compute_cost_atomic r)))"

definition save_settlement_balance_audit ::
  "SettlementRecord \<Rightarrow> obj \<Rightarrow> ('x settlement_dir_scheme, py_error, SettlementRecord) sres" where
  "save_settlement_balance_audit r audit s =
    (let settlements = list_settlements s;
         same = (\<lambda>x. sr_settlement_id x = sr_settlement_id r)
     in case List.find same settlements of
       None \<Rightarrow> (Inr r, s)
     | Some item \<Rightarrow>
         (let item' = item\<lparr>sr_balance_audit := audit\<rparr>
          in sbind (save_settlements (update_first same (\<lambda>_. item') settlements)) (\<lambda>_. slift (Inr item')) s))"

definition worker_payout_execution_audit_item :: "WorkerPayoutRecord \<Rightarrow> json" where
  "worker_payout_execution_audit_item x =
    (let opt_int = (\<lambda>v. case v of None \<Rightarrow> JNull | Some n \<Rightarrow> JInt n) in JObj
     [(''payout_id'', JStr (po_payout_id x)), (''node_id'', JStr (po_node_id x)), (''runner_id'', jopt (po_runner_id x)),
      (''model_id'', JStr (po_model_id x)), (''layer_start'', opt_int (po_layer_start x)),
      (''layer_end'', opt_int (po_layer_end x)), (''layer_count'', JInt (po_layer_count x)),
      (''share_bps'', JInt (po_share_bps x)), (''reward_atomic'', JInt (po_reward_atomic x)),
      (''reward_token_code'', jopt (po_reward_token_code x)), (''recipient_address'', jopt (po_recipient_address x)),
      (''credited_wallet_id'', jopt (po_credited_wallet_id x)), (''status'', JStr (po_status x))])"

text \<open>What is known about the run of a job; the keys of \<open>pricing\<close> and \<open>usage\<close> that hold numbers.\<close>

record execution_report =
  er_receipt_id :: string
  er_job_id :: string
  er_model_id :: string
  er_execution_model_id :: string
  er_pricing_mode :: string
  er_pricing_basis :: string
  er_prompt_tokens :: "int option"
  er_completion_tokens :: "int option"
  er_total_tokens :: "int option"
  er_reserved_prompt_tokens :: "int option"
  er_reserved_completion_tokens :: "int option"
  er_reserved_compute_cost_atomic :: "int option"
  er_actual_compute_cost_atomic :: "int option"
  er_reservation_surplus_atomic :: int
  er_usage_priced :: bool
  er_token_usage_source :: "string option"
  er_token_usage_audit :: obj
  er_network_audit :: obj

definition execution_audit :: "execution_report \<Rightarrow> WorkerPayoutRecord list \<Rightarrow> obj" where
  "execution_audit e payouts =
    (let opt_int = (\<lambda>v. case v of None \<Rightarrow> JNull | Some n \<Rightarrow> JInt n) in
     [(''schema_version'', JInt 1), (''receipt_id'', JStr (er_receipt_id e)), (''job_id'', JStr (er_job_id e)),
      (''model_id'', JStr (er_model_id e)), (''execution_model_id'', JStr (er_execution_model_id e)),
      (''pricing'', JObj
        [(''pricing_mode'', JStr (er_pricing_mode e)), (''pricing_basis'', JStr (er_pricing_basis e)),
         (''usage_priced'', JBool (er_usage_priced e)),
         (''reserved_compute_cost_atomic'', opt_int (er_reserved_compute_cost_atomic e)),
         (''actual_compute_cost_atomic'', opt_int (er_actual_compute_cost_atomic e)),
         (''reservation_surplus_atomic'', JInt (er_reservation_surplus_atomic e))]),
      (''usage'', JObj
        [(''prompt_tokens'', opt_int (er_prompt_tokens e)), (''completion_tokens'', opt_int (er_completion_tokens e)),
         (''total_tokens'', opt_int (er_total_tokens e)),
         (''reserved_prompt_tokens'', opt_int (er_reserved_prompt_tokens e)),
         (''reserved_completion_tokens'', opt_int (er_reserved_completion_tokens e)),
         (''source'', jopt (some_if_text (Some (py_strip (text_or_empty (er_token_usage_source e))))))]),
      (''token_usage_audit'', JObj (er_token_usage_audit e)), (''route'', JObj (er_network_audit e)),
      (''workers'', JObj
        [(''count'', JInt (int (length payouts))),
         (''participants'', JList (map worker_payout_execution_audit_item payouts))])])"

definition record_settlement_execution_audit ::
  "string \<Rightarrow> execution_report \<Rightarrow> WorkerPayoutRecord list \<Rightarrow> ('x settlement_dir_scheme, py_error, SettlementRecord option) sres" where
  "record_settlement_execution_audit settlement_id e payouts s =
    (case resolve_settlement settlement_id s of None \<Rightarrow> (Inr None, s)
     | Some r \<Rightarrow> sbind (save_settlement_balance_audit r
         (AList.update ''execution'' (JObj (execution_audit e payouts)) (sr_balance_audit r))) (\<lambda>x. slift (Inr (Some x))) s)"

section \<open>Chain entries of a settlement\<close>

definition validator_fee_payout_split :: "SettlementRecord \<Rightarrow> int option \<Rightarrow> ValidatorFeeShare list" where
  "validator_fee_payout_split r amount =
    split_amount_by_validator_bond
      (max 0 (case amount of Some a \<Rightarrow> a | None \<Rightarrow> sr_settlement_fee_atomic r))
      (sr_committee_bonded_atomic_by_validator_id r) (Some (sr_committee_validator_ids r))"

text \<open>An entry of the balance audit; the keys that are not given are \<open>None\<close>.\<close>

record audit_target =
  at_role :: string
  at_address :: string
  at_wallet_id :: json
  at_validator_id :: json
  at_node_id :: json
  at_payout_id :: json
  at_expected_delta :: int

definition target :: "string \<Rightarrow> string \<Rightarrow> json \<Rightarrow> int \<Rightarrow> audit_target" where
  "target role address wallet_id delta =
    \<lparr>at_role = role, at_address = address, at_wallet_id = wallet_id, at_validator_id = JNull,
     at_node_id = JNull, at_payout_id = JNull, at_expected_delta = delta\<rparr>"

text \<open>The transaction and the audit entry with the same address, wallet and amount.\<close>

definition entry ::
  "chain_env \<Rightarrow> string \<Rightarrow> MoneyPolicy \<Rightarrow> SettlementRecord \<Rightarrow> string \<Rightarrow> string \<Rightarrow> string \<Rightarrow> json \<Rightarrow> int
   \<Rightarrow> string \<Rightarrow> string \<Rightarrow> obj \<Rightarrow> audit_target \<times> ChainTransaction" where
  "entry E now mp r role typ address wallet_id delta note nonce metadata =
    (target role address wallet_id delta,
     make_chain_transaction E now ((tx_args typ address delta)
       \<lparr>ta_settlement_id := JStr (sr_settlement_id r), ta_wallet_id := wallet_id, ta_note := JStr note,
        ta_nonce := Some (sr_settlement_id r @ nonce), ta_metadata := metadata,
        ta_chain_id := Some (chain_network_value (mp_chain_network mp))\<rparr>))"

definition source_metadata :: "MoneyPolicy \<Rightarrow> SettlementRecord \<Rightarrow> obj" where
  "source_metadata mp r =
    [(''reward_token_code'', JStr (mp_reward_token_code mp)), (''funding_source'', JStr (sr_funding_source r)),
     (''source_wallet_id'', JStr (sr_source_wallet_id r)), (''source_wallet_address'', JStr (sr_source_wallet_address r))]"

definition wallet_debit_entry ::
  "chain_env \<Rightarrow> string \<Rightarrow> MoneyPolicy \<Rightarrow> SettlementRecord \<Rightarrow> (audit_target \<times> ChainTransaction) list" where
  "wallet_debit_entry E now mp r =
    (let debit = max 0 (sr_source_wallet_debit_atomic r); address = py_strip (sr_source_wallet_address r)
     in if debit > 0 \<and> address \<noteq> []
        then [entry E now mp r ''source_wallet'' ''settlement_wallet_debit'' address (JStr (sr_source_wallet_id r)) (- debit)
          (''Wallet debit for finalized settlement '' @ sr_settlement_id r @ ''.'') '':wallet-debit''
          [(''reward_token_code'', JStr (mp_reward_token_code mp)), (''funding_source'', JStr (sr_funding_source r))]]
        else [])"

definition surplus_entry ::
  "chain_env \<Rightarrow> string \<Rightarrow> MoneyPolicy \<Rightarrow> SettlementRecord \<Rightarrow> (audit_target \<times> ChainTransaction) list" where
  "surplus_entry E now mp r =
    (let surplus = settlement_reservation_surplus_atomic r; address = py_strip (sr_source_wallet_address r)
     in if surplus > 0 \<and> address \<noteq> []
        then [entry E now mp r ''reservation_surplus_release'' ''settlement_reservation_surplus_release'' address
          (JStr (sr_source_wallet_id r)) 0
          (''Reservation surplus released for finalized settlement '' @ sr_settlement_id r @ ''.'')
          '':reservation-surplus-release''
          [(''reward_token_code'', JStr (mp_reward_token_code mp)), (''funding_source'', JStr (sr_funding_source r)),
           (''reserved_compute_cost_atomic'', (case settlement_reserved_compute_atomic r of None \<Rightarrow> JNull | Some n \<Rightarrow> JInt n)),
           (''actual_compute_cost_atomic'', JInt (sr_compute_cost_atomic r)),
           (''reservation_surplus_atomic'', JInt surplus)]]
        else [])"

definition reserve_debit_entry ::
  "chain_env \<Rightarrow> string \<Rightarrow> MoneyPolicy \<Rightarrow> SettlementRecord \<Rightarrow> (audit_target \<times> ChainTransaction) list" where
  "reserve_debit_entry E now mp r =
    (let debit = max 0 (sr_reserve_debit_atomic r)
     in if debit > 0
        then [entry E now mp r ''compute_reserve'' ''settlement_compute_reserve_debit'' (compute_reserve_chain_address mp)
          (JStr (''system-compute-reserve-'' @ chain_network_value (mp_chain_network mp))) (- debit)
          (''Compute reserve debit for finalized settlement '' @ sr_settlement_id r @ ''.'') '':reserve-debit''
          (source_metadata mp r @
           [(''compute_cost_atomic'', JInt (sr_compute_cost_atomic r)), (''reserve_debit_atomic'', JInt debit),
            (''reserve_limit_identity_keys'', JList (map JStr (sr_reserve_limit_identity_keys r))),
            (''reserve_client_ip_hash'', jopt (sr_reserve_client_ip_hash r))])]
        else [])"

text \<open>
  A fee goes to the validators of the committee by stake, or to the pool when the committee has
  no stake or the pool was already credited by an older version.
\<close>

definition pool_credit_recorded :: "obj list \<Rightarrow> string \<Rightarrow> string \<Rightarrow> bool" where
  "pool_credit_recorded history typ pool \<longleftrightarrow> list_ex (\<lambda>item. jget item ''tx_type'' = JStr typ
     \<and> normalize_address (str_of_or (jget item ''address'') []) = normalize_address pool) history"

definition committee_metadata :: "SettlementRecord \<Rightarrow> obj" where
  "committee_metadata r =
    [(''committee_validator_ids'', JList (map JStr (sr_committee_validator_ids r))),
     (''committee_quorum_bond_atomic'', JInt (sr_committee_quorum_bond_atomic r))]"

definition validator_share_entry ::
  "chain_env \<Rightarrow> string \<Rightarrow> MoneyPolicy \<Rightarrow> SettlementRecord \<Rightarrow> ValidatorRecord list \<Rightarrow> string \<Rightarrow> string \<Rightarrow> string \<Rightarrow> string
   \<Rightarrow> int \<Rightarrow> ValidatorFeeShare \<Rightarrow> audit_target \<times> ChainTransaction" where
  "validator_share_entry E now mp r registry role typ note nonce total_bonded share =
    (let i = fs_validator_id share;
         wallet_id = (case get_validator_record i registry of None \<Rightarrow> JNull | Some v \<Rightarrow> jopt (v_wallet_id v));
         (t, tx) = entry E now mp r role typ i wallet_id (fs_amount_atomic share) note (nonce @ i)
           (source_metadata mp r @
            [(''validator_id'', JStr i), (''validator_bonded_atomic'', JInt (fs_bonded_atomic share)),
             (''committee_total_bonded_atomic'', JInt total_bonded)]
            @ committee_metadata r @ [(''distribution'', JStr ''committee_bond_weighted'')])
     in (t\<lparr>at_validator_id := JStr i\<rparr>, tx))"

definition tx_fee_entries ::
  "chain_env \<Rightarrow> string \<Rightarrow> MoneyPolicy \<Rightarrow> SettlementRecord \<Rightarrow> ValidatorRecord list \<Rightarrow> obj list
   \<Rightarrow> (audit_target \<times> ChainTransaction) list" where
  "tx_fee_entries E now mp r registry history =
    (let fee = max 0 (sr_tx_fee_atomic r); pool = tx_fee_pool_chain_address mp;
         shares = validator_fee_payout_split r (Some fee)
     in if fee \<le> 0 then []
        else if shares \<noteq> [] \<and> \<not> pool_credit_recorded history ''settlement_tx_fee_credit'' pool
        then map (validator_share_entry E now mp r registry ''validator_tx_fee'' ''validator_tx_fee_payout''
               (''Validator tx fee payout for '' @ sr_settlement_id r @ ''.'') '':tx-fee:''
               (sum_list (map fs_bonded_atomic shares))) shares
        else [entry E now mp r ''tx_fee_pool'' ''settlement_tx_fee_credit'' pool
          (JStr (''system-tx-fee-pool-'' @ chain_network_value (mp_chain_network mp))) fee
          (''Transaction fee from finalized settlement '' @ sr_settlement_id r @ ''.'') '':tx-fee''
          (source_metadata mp r @ [(''distribution'', JStr ''legacy_pool'')])])"

definition settlement_fee_entries ::
  "chain_env \<Rightarrow> string \<Rightarrow> MoneyPolicy \<Rightarrow> SettlementRecord \<Rightarrow> ValidatorRecord list \<Rightarrow> obj list
   \<Rightarrow> (audit_target \<times> ChainTransaction) list" where
  "settlement_fee_entries E now mp r registry history =
    (let fee = max 0 (sr_settlement_fee_atomic r); pool = validator_settlement_fee_pool_chain_address mp;
         shares = validator_fee_payout_split r None
     in if fee \<le> 0 then []
        else if shares \<noteq> [] \<and> \<not> pool_credit_recorded history ''settlement_validator_fee_credit'' pool
        then map (validator_share_entry E now mp r registry ''validator_settlement_fee'' ''validator_settlement_fee_payout''
               (''Validator settlement fee payout for '' @ sr_settlement_id r @ ''.'') '':validator-settlement-fee:''
               (sum_list (map fs_bonded_atomic shares))) shares
        else [entry E now mp r ''validator_settlement_fee_pool'' ''settlement_validator_fee_credit'' pool
          (JStr (''system-validator-settlement-fee-pool-'' @ chain_network_value (mp_chain_network mp))) fee
          (''Validator settlement fee from finalized settlement '' @ sr_settlement_id r @ ''.'')
          '':validator-settlement-fee''
          (source_metadata mp r @ committee_metadata r @ [(''distribution'', JStr ''legacy_pool'')])])"

definition ai_fee_entry ::
  "chain_env \<Rightarrow> string \<Rightarrow> MoneyPolicy \<Rightarrow> SettlementRecord \<Rightarrow> (audit_target \<times> ChainTransaction) list" where
  "ai_fee_entry E now mp r =
    (let fee = max 0 (sr_ai_development_fee_atomic r); address = py_strip (text_or_empty (sr_ai_development_address r))
     in if fee > 0 \<and> address \<noteq> []
        then [entry E now mp r ''ai_development_fund'' ''ai_development_fee_credit'' address
          (jopt (sr_ai_development_wallet_id r)) fee
          (''AI development fee from finalized settlement '' @ sr_settlement_id r @ ''.'') '':ai-development-fee''
          [(''reward_token_code'', JStr (mp_reward_token_code mp))]]
        else [])"

definition payout_recipient :: "'x settlement_dir_scheme \<Rightarrow> WorkerPayoutRecord \<Rightarrow> string" where
  "payout_recipient s x = opt_or (po_recipient_address x) (text_or_empty (resolve_worker_reward_address (po_node_id x) s))"

definition worker_entry ::
  "chain_env \<Rightarrow> string \<Rightarrow> MoneyPolicy \<Rightarrow> SettlementRecord \<Rightarrow> string \<Rightarrow> WorkerPayoutRecord \<Rightarrow> audit_target \<times> ChainTransaction" where
  "worker_entry E now mp r recipient x =
    (let reward = max 0 (po_reward_atomic x) in
     ((target ''worker_reward'' recipient (jopt (po_credited_wallet_id x)) reward)
        \<lparr>at_node_id := JStr (po_node_id x), at_payout_id := JStr (po_payout_id x)\<rparr>,
      make_chain_transaction E now ((tx_args ''worker_reward_credit'' recipient reward)
        \<lparr>ta_settlement_id := JStr (sr_settlement_id r), ta_payout_id := JStr (po_payout_id x),
         ta_wallet_id := jopt (po_credited_wallet_id x),
         ta_note := JStr (''Worker reward for node '' @ po_node_id x @ ''.''),
         ta_nonce := Some (sr_settlement_id r @ '':worker-reward:'' @ po_payout_id x),
         ta_metadata := [(''node_id'', JStr (po_node_id x)), (''runner_id'', jopt (po_runner_id x)),
           (''model_id'', JStr (po_model_id x)), (''share_bps'', JInt (po_share_bps x)),
           (''reward_token_code'', JStr (opt_or (po_reward_token_code x) (mp_reward_token_code mp)))],
         ta_chain_id := Some (chain_network_value (mp_chain_network mp))\<rparr>)))"

text \<open>The payouts of the settlement that have a recipient, with it.\<close>

definition payable :: "SettlementRecord \<Rightarrow> 'x settlement_dir_scheme \<Rightarrow> (string \<times> WorkerPayoutRecord) list" where
  "payable r s = filter (\<lambda>(recipient, _). recipient \<noteq> [])
     (map (\<lambda>x. (payout_recipient s x, x)) (list_worker_payouts (Some (sr_settlement_id r)) None None s))"

definition settlement_entries ::
  "chain_env \<Rightarrow> string \<Rightarrow> MoneyPolicy \<Rightarrow> SettlementRecord \<Rightarrow> obj list \<Rightarrow> 'x settlement_dir_scheme
   \<Rightarrow> (audit_target \<times> ChainTransaction) list" where
  "settlement_entries E now mp r history s =
    wallet_debit_entry E now mp r @ surplus_entry E now mp r @ reserve_debit_entry E now mp r
    @ tx_fee_entries E now mp r (dd_validators s) history
    @ settlement_fee_entries E now mp r (dd_validators s) history
    @ ai_fee_entry E now mp r
    @ map (\<lambda>(recipient, x). worker_entry E now mp r recipient x) (payable r s)"

text \<open>\<open>_record_if_missing\<close> over the candidates: those the chain does not have yet.\<close>

fun missing_transactions ::
  "string set \<Rightarrow> (string \<times> string) set \<Rightarrow> ChainTransaction list \<Rightarrow> ChainTransaction list" where
  "missing_transactions ids nonces [] = []"
| "missing_transactions ids nonces (tx # txs) =
    (let i = py_strip (tx_id tx); key = (normalize_address (tx_address tx), text_or_empty (tx_nonce tx)) in
     if i \<noteq> [] \<and> i \<in> ids then missing_transactions ids nonces txs
     else if tx_nonce tx \<noteq> None \<and> key \<in> nonces then missing_transactions ids nonces txs
     else tx # missing_transactions (if i \<noteq> [] then insert i ids else ids)
            (if tx_nonce tx \<noteq> None then insert key nonces else nonces) txs)"

definition recorded_ids :: "obj list \<Rightarrow> string set" where
  "recorded_ids history = set (filter (\<lambda>t. t \<noteq> []) (map (\<lambda>item. py_strip (str_of_or (jget item ''tx_id'') [])) history))"

definition recorded_nonces :: "obj list \<Rightarrow> (string \<times> string) set" where
  "recorded_nonces history =
    set (map (\<lambda>item. (normalize_address (py_str (jget item ''address'')), py_str (jget item ''nonce'')))
      (filter (\<lambda>item. jget item ''nonce'' \<noteq> JNull \<and> py_strip (str_of_or (jget item ''address'') []) \<noteq> []) history))"

text \<open>The recipients found on the way are written back to the payout file.\<close>

definition bind_recipients :: "SettlementRecord \<Rightarrow> ('x settlement_dir_scheme, py_error, unit) sres" where
  "bind_recipients r s =
    (let found = filter (\<lambda>(recipient, x). po_recipient_address x \<noteq> Some recipient) (payable r s)
     in if found = [] then (Inr (), s)
        else save_worker_payouts (fold (\<lambda>(recipient, x). update_first (\<lambda>y. po_payout_id y = po_payout_id x)
               (\<lambda>y. y\<lparr>po_recipient_address := Some recipient\<rparr>)) found (list_worker_payouts None None None s)) s)"

definition audit_entry :: "audit_target \<Rightarrow> int \<Rightarrow> obj" where
  "audit_entry t after =
    [(''role'', JStr (at_role t)), (''address'', JStr (py_strip (at_address t))), (''wallet_id'', at_wallet_id t),
     (''validator_id'', at_validator_id t), (''node_id'', at_node_id t), (''payout_id'', at_payout_id t),
     (''balance_before_atomic'', JInt (after - at_expected_delta t)), (''balance_after_atomic'', JInt after),
     (''expected_delta_atomic'', JInt (at_expected_delta t)),
     (''actual_delta_atomic'', JInt (after - (after - at_expected_delta t))),
     (''delta_matches_expected'', JBool (after - (after - at_expected_delta t) = at_expected_delta t))]"

definition record_settlement_chain_balance_audit ::
  "chain_env \<Rightarrow> WalletPolicy option \<Rightarrow> io \<Rightarrow> SettlementRecord \<Rightarrow> audit_target list \<Rightarrow> nat
   \<Rightarrow> ('x settlement_dir_scheme, py_error, SettlementRecord) sres" where
  "record_settlement_chain_balance_audit E p w r targets recorded =
    sbind (smap (\<lambda>t. sbind (on_chain (chain_balance_atomic E p w (py_strip (at_address t)))) (\<lambda>b. slift (Inr (audit_entry t b))))
      (filter (\<lambda>t. py_strip (at_address t) \<noteq> []) targets)) (\<lambda>entries.
    if entries = [] then slift (Inr r)
    else save_settlement_balance_audit r (AList.update ''chain_balances''
      (JObj [(''schema_version'', JInt 1), (''recorded_transactions'', JInt (int recorded)),
             (''addresses'', JList (map JObj entries)),
             (''all_expected_deltas_match'', JBool (list_all (\<lambda>e. truthy (jget e ''delta_matches_expected'')) entries))])
      (sr_balance_audit r)))"

definition record_chain_entries_for_settlement ::
  "chain_env \<Rightarrow> WalletPolicy option \<Rightarrow> io \<Rightarrow> MoneyPolicy \<Rightarrow> SettlementRecord \<Rightarrow> ('x settlement_dir_scheme, py_error, nat) sres" where
  "record_chain_entries_for_settlement E p w mp r =
    (if sr_status r \<noteq> ''applied'' \<and> some_if_text (sr_applied_at r) = None then slift (Inr 0)
     else sbind (on_chain (ensure_chain_genesis E p (Some mp) w)) (\<lambda>_.
       sbind (on_chain (chain_settlement_history E p w (sr_settlement_id r) None True)) (\<lambda>history s.
       let entries = settlement_entries E (io_now w) mp r history s;
           pending = missing_transactions (recorded_ids history) (recorded_nonces history) (map snd entries)
       in sbind (bind_recipients r) (\<lambda>_.
          sbind (on_chain (append_chain_block E p w (jopt (sr_applied_by_validator_id r)) pending)) (\<lambda>_.
          sbind (record_settlement_chain_balance_audit E p w r (map fst entries) (length pending)) (\<lambda>_.
          slift (Inr (length pending))))) s)))"

fun ssum :: "('a \<Rightarrow> ('s, 'e, nat) sres) \<Rightarrow> 'a list \<Rightarrow> ('s, 'e, nat) sres" where
  "ssum f [] = slift (Inr 0)"
| "ssum f (x # xs) = sbind (f x) (\<lambda>n. sbind (ssum f xs) (\<lambda>m. slift (Inr (n + m))))"

definition record_chain_entries_for_finalized_settlements ::
  "chain_env \<Rightarrow> WalletPolicy option \<Rightarrow> io \<Rightarrow> MoneyPolicy \<Rightarrow> bool \<Rightarrow> ('x settlement_dir_scheme, py_error, nat) sres" where
  "record_chain_entries_for_finalized_settlements E p w mp only_if_recorded s =
    ssum (\<lambda>r. if sr_status r = ''applied'' \<or> some_if_text (sr_applied_at r) \<noteq> None
        then sbind (if only_if_recorded then on_chain (chain_settlement_history E p w (sr_settlement_id r) (Some 1) True)
                    else slift (Inr [[]])) (\<lambda>history.
             if history = [] then slift (Inr 0) else record_chain_entries_for_settlement E p w mp r)
        else slift (Inr 0)) (list_settlements s) s"

section \<open>A new settlement\<close>

definition initial_settlement_balance_audit ::
  "string \<Rightarrow> string \<Rightarrow> FundingDecision \<Rightarrow> MoneyPolicy \<Rightarrow> obj option \<Rightarrow> obj" where
  "initial_settlement_balance_audit wallet_id address d mp sync_audit =
    (let q = fd_fee_quote d;
         wallet_debit = max 0 (fd_wallet_before_atomic d - fd_wallet_after_atomic d);
         reserve_debit = max 0 (fd_reserve_before_atomic d - fd_reserve_after_atomic d);
         reward_plus_fees = fq_worker_reward_atomic q + fq_settlement_fee_atomic q + fq_ai_development_fee_atomic q
     in [(''schema_version'', JInt 1),
         (''network'', JStr (chain_network_value (mp_chain_network mp))),
         (''reward_token_code'', JStr (mp_reward_token_code mp)),
         (''source_wallet_id'', JStr wallet_id), (''source_wallet_address'', JStr address),
         (''funding_source'', jopt (map_option funding_source_value (fd_funding_source d))),
         (''quote'', JObj
           [(''reserve_before_atomic'', JInt (fd_reserve_before_atomic d)),
            (''reserve_after_atomic'', JInt (fd_reserve_after_atomic d)),
            (''wallet_before_atomic'', JInt (fd_wallet_before_atomic d)),
            (''wallet_after_atomic'', JInt (fd_wallet_after_atomic d))]),
         (''debits'', JObj
           [(''source_wallet_debit_atomic'', JInt wallet_debit), (''reserve_debit_atomic'', JInt reserve_debit),
            (''reserve_limit_identity_keys'', JList (map JStr (fd_reserve_limit_identity_keys d))),
            (''reserve_client_ip_hash'', jopt (fd_reserve_client_ip_hash d))]),
         (''fees'', JObj
           [(''compute_cost_atomic'', JInt (fq_compute_cost_atomic q)), (''tx_fee_atomic'', JInt (fq_tx_fee_atomic q)),
            (''settlement_fee_atomic'', JInt (fq_settlement_fee_atomic q)),
            (''ai_development_fee_atomic'', JInt (fq_ai_development_fee_atomic q)),
            (''worker_reward_atomic'', JInt (fq_worker_reward_atomic q)),
            (''worker_reward_plus_fees_atomic'', JInt reward_plus_fees),
            (''worker_plus_validator_plus_ai_matches_compute'', JBool (reward_plus_fees = fq_compute_cost_atomic q))])]
        @ (case sync_audit of None \<Rightarrow> [] | Some a \<Rightarrow> [(''pre_settlement_validator_sync'', JObj a)]))"

definition new_settlement ::
  "string \<Rightarrow> string \<Rightarrow> string \<Rightarrow> string \<Rightarrow> FundingSource \<Rightarrow> FundingDecision \<Rightarrow> string option \<Rightarrow> MoneyPolicy
   \<Rightarrow> ValidatorCommitteeSnapshot \<Rightarrow> obj option \<Rightarrow> SettlementRecord" where
  "new_settlement settlement_id now wallet_id address src d note mp committee sync_audit =
    (let q = fd_fee_quote d in
     \<lparr>sr_settlement_id = settlement_id, sr_created_at = now, sr_source_wallet_id = wallet_id,
      sr_source_wallet_address = address, sr_funding_source = funding_source_value src,
      sr_compute_cost_atomic = fq_compute_cost_atomic q, sr_tx_fee_atomic = fq_tx_fee_atomic q,
      sr_settlement_fee_atomic = fq_settlement_fee_atomic q, sr_worker_reward_atomic = fq_worker_reward_atomic q,
      sr_committee_selection_seed = Some settlement_id,
      sr_committee_target_size = min (mp_validator_committee_target_size mp) (int (length (vc_validator_ids committee))),
      sr_committee_selection_mode = mp_validator_committee_selection_mode mp,
      sr_committee_validator_ids = vc_validator_ids committee,
      sr_committee_bonded_atomic_by_validator_id = vc_bonded_atomic_by_validator_id committee,
      sr_committee_total_bonded_atomic = vc_total_bonded_atomic committee,
      sr_committee_quorum_bond_atomic = vc_quorum_bond_atomic committee,
      sr_reward_token_code = Some (mp_reward_token_code mp),
      sr_ai_development_fee_atomic = fq_ai_development_fee_atomic q,
      sr_ai_development_wallet_id = Some (mp_ai_development_wallet_id mp),
      sr_ai_development_address = Some (mp_ai_development_address mp),
      sr_ai_development_credited_wallet_id = None,
      sr_accepted_attestations = 0, sr_rejected_attestations = 0, sr_accepted_bond_atomic = 0, sr_rejected_bond_atomic = 0,
      sr_status = ''pending'', sr_note = note,
      sr_source_wallet_debit_atomic = max 0 (fd_wallet_before_atomic d - fd_wallet_after_atomic d),
      sr_reserve_debit_atomic = max 0 (fd_reserve_before_atomic d - fd_reserve_after_atomic d),
      sr_reserve_limit_identity_keys = fd_reserve_limit_identity_keys d,
      sr_reserve_client_ip_hash = fd_reserve_client_ip_hash d,
      sr_applied_at = None, sr_applied_by_validator_id = None,
      sr_balance_audit = initial_settlement_balance_audit wallet_id address d mp sync_audit\<rparr>)"

text \<open>\<open>sync_audit\<close> is the report of the synchronisation with other nodes, if one was tried.\<close>

definition record_funding_settlement ::
  "(string \<Rightarrow> string \<Rightarrow> int \<Rightarrow> rat) \<Rightarrow> chain_env \<Rightarrow> WalletPolicy option \<Rightarrow> io \<Rightarrow> MoneyPolicy \<Rightarrow> string \<Rightarrow> string \<Rightarrow> string
   \<Rightarrow> FundingDecision \<Rightarrow> string option \<Rightarrow> obj option \<Rightarrow> ('x settlement_dir_scheme, py_error, SettlementRecord) sres" where
  "record_funding_settlement key E p w mp settlement_id wallet_id address d note sync_audit s =
    (case fd_funding_source d of None \<Rightarrow> (Inl ValueError, s)
     | Some src \<Rightarrow>
       sbind (on_chain (select_validator_committee_snapshot key E p w (dd_validators s) settlement_id (Some mp) None))
         (\<lambda>committee.
         let r = new_settlement settlement_id (io_now w) wallet_id address src d note mp committee sync_audit
         in sbind (save_settlements (list_settlements s @ [r])) (\<lambda>_. slift (Inr r))) s)"

section \<open>Votes and finality\<close>

text \<open>The votes of a settlement, newest first; the first vote of each member of the committee counts.\<close>

fun tally :: "(string \<times> int) list \<Rightarrow> string set \<Rightarrow> ValidatorAttestation list \<Rightarrow> (nat \<times> int) \<times> (nat \<times> int)" where
  "tally bonds seen [] = ((0, 0), (0, 0))"
| "tally bonds seen (a # as) =
    (let i = va_validator_id a in
     case map_of bonds i of
       None \<Rightarrow> tally bonds seen as
     | Some b \<Rightarrow>
       if i \<in> seen then tally bonds seen as
       else case tally bonds (insert i seen) as of ((na, ba), (nr, br)) \<Rightarrow>
         if va_accepted a then ((na + 1, ba + b), (nr, br)) else ((na, ba), (nr + 1, br + b)))"

definition finality_status :: "SettlementRecord \<Rightarrow> int \<Rightarrow> int \<Rightarrow> string" where
  "finality_status r accepted rejected =
    (let quorum = sr_committee_quorum_bond_atomic r in
     if quorum \<le> 0 then ''pending''
     else if accepted \<ge> quorum then (if some_if_text (sr_applied_at r) \<noteq> None then ''applied'' else ''finalized'')
     else if rejected \<ge> quorum then ''rejected'' else ''pending'')"

definition refreshed :: "ValidatorAttestation list \<Rightarrow> SettlementRecord \<Rightarrow> SettlementRecord" where
  "refreshed votes r =
    (case tally (sr_committee_bonded_atomic_by_validator_id r) {} votes of ((na, ba), (nr, br)) \<Rightarrow>
     r\<lparr>sr_accepted_attestations := na, sr_rejected_attestations := nr, sr_accepted_bond_atomic := ba,
       sr_rejected_bond_atomic := br, sr_status := finality_status r ba br\<rparr>)"

definition refresh_settlement_finality ::
  "string \<Rightarrow> ('x settlement_dir_scheme, py_error, SettlementRecord option) sres" where
  "refresh_settlement_finality settlement_id s =
    (let settlements = list_settlements s; same = (\<lambda>x. sr_settlement_id x = settlement_id)
     in case List.find same settlements of None \<Rightarrow> (Inr None, s)
     | Some item \<Rightarrow>
       (let item' = refreshed (list_attestations (Some settlement_id) None s) item
        in sbind (save_settlements (update_first same (\<lambda>_. item') settlements)) (\<lambda>_. slift (Inr (Some item'))) s))"

definition ensure_settlement_committee_record ::
  "MoneyPolicy \<Rightarrow> string \<Rightarrow> ValidatorCommitteeSnapshot \<Rightarrow> SettlementRecord \<Rightarrow> SettlementRecord" where
  "ensure_settlement_committee_record mp seed committee r =
    (let n = int (length (vc_validator_ids committee));
         wanted = (if sr_committee_target_size r \<noteq> 0 then sr_committee_target_size r else n)
     in r\<lparr>sr_committee_selection_seed := Some seed,
         sr_committee_target_size := min (max 1 wanted) n,
         sr_committee_selection_mode := mp_validator_committee_selection_mode mp,
         sr_committee_validator_ids := vc_validator_ids committee,
         sr_committee_bonded_atomic_by_validator_id := vc_bonded_atomic_by_validator_id committee,
         sr_committee_total_bonded_atomic := vc_total_bonded_atomic committee,
         sr_committee_quorum_bond_atomic := vc_quorum_bond_atomic committee\<rparr>)"

section \<open>The signed envelope\<close>

definition settlement_envelope_payload :: "MoneyPolicy \<Rightarrow> SettlementRecord \<Rightarrow> obj" where
  "settlement_envelope_payload mp r =
    (let audit = sr_balance_audit r in
     [(''schema_version'', JInt 1),
      (''chain_network'', JStr (chain_network_value (mp_chain_network mp))),
      (''reward_token_code'', JStr (opt_or (sr_reward_token_code r) (mp_reward_token_code mp))),
      (''settlement'', JObj
        [(''settlement_id'', JStr (sr_settlement_id r)), (''created_at'', JStr (sr_created_at r)),
         (''source_wallet_id'', JStr (sr_source_wallet_id r)),
         (''source_wallet_address'', JStr (normalize_address (sr_source_wallet_address r))),
         (''funding_source'', JStr (sr_funding_source r)),
         (''compute_cost_atomic'', JInt (sr_compute_cost_atomic r)), (''tx_fee_atomic'', JInt (sr_tx_fee_atomic r)),
         (''settlement_fee_atomic'', JInt (sr_settlement_fee_atomic r)),
         (''ai_development_fee_atomic'', JInt (sr_ai_development_fee_atomic r)),
         (''worker_reward_atomic'', JInt (sr_worker_reward_atomic r)),
         (''source_wallet_debit_atomic'', JInt (sr_source_wallet_debit_atomic r)),
         (''reserve_debit_atomic'', JInt (sr_reserve_debit_atomic r)),
         (''reserve_limit_identity_keys'', JList (map JStr (sr_reserve_limit_identity_keys r))),
         (''reserve_client_ip_hash'', jopt (sr_reserve_client_ip_hash r)),
         (''ai_development_wallet_id'', jopt (sr_ai_development_wallet_id r)),
         (''ai_development_address'', jopt (map_option normalize_address (some_if_text (sr_ai_development_address r))))]),
      (''committee'', JObj
        [(''selection_seed'', jopt (sr_committee_selection_seed r)), (''target_size'', JInt (sr_committee_target_size r)),
         (''selection_mode'', JStr (sr_committee_selection_mode r)),
         (''validator_ids'', JList (map JStr (sr_committee_validator_ids r))),
         (''bonded_atomic_by_validator_id'', JObj (map (\<lambda>(i, b). (i, JInt b)) (sr_committee_bonded_atomic_by_validator_id r))),
         (''total_bonded_atomic'', JInt (sr_committee_total_bonded_atomic r)),
         (''quorum_bond_atomic'', JInt (sr_committee_quorum_bond_atomic r))]),
      (''quote'', jget audit ''quote''), (''fees'', jget audit ''fees''), (''debits'', jget audit ''debits''),
      (''execution'', jget audit ''execution''), (''payouts'', jget audit ''payouts'')])"

definition settlement_envelope_hash :: "'a crypto_scheme \<Rightarrow> obj \<Rightarrow> string" where
  "settlement_envelope_hash C payload = sha256_hex C (canonical (JObj payload))"

definition unsigned_envelope :: "'a crypto_scheme \<Rightarrow> MoneyPolicy \<Rightarrow> SettlementRecord \<Rightarrow> obj" where
  "unsigned_envelope C mp r =
    [(''schema_version'', JInt 1),
     (''payload_hash'', JStr (settlement_envelope_hash C (settlement_envelope_payload mp r))),
     (''source_wallet_id'', JStr (sr_source_wallet_id r)),
     (''source_wallet_address'', JStr (normalize_address (sr_source_wallet_address r))),
     (''required'', JBool False), (''scheme'', JNull), (''address_scheme'', JNull), (''public_key_b64'', JNull),
     (''signature_b64'', JNull), (''signature_valid'', JBool False), (''status'', JStr ''unsigned''), (''signed_at'', JNull)]"

definition set_status :: "string \<Rightarrow> obj \<Rightarrow> obj" where
  "set_status status envelope = AList.update ''status'' (JStr status) envelope"

definition wallet_uses_ed25519 :: "WalletRecord \<Rightarrow> bool" where
  "wallet_uses_ed25519 x \<longleftrightarrow> w_signing_scheme x = Some SIGNING_SCHEME_ED25519 \<and> w_address_scheme x = Some ADDRESS_SCHEME_ED25519"

definition wallet_uses_hybrid :: "WalletRecord \<Rightarrow> bool" where
  "wallet_uses_hybrid x \<longleftrightarrow> w_signing_scheme x = Some SIGNING_SCHEME_HYBRID \<and> needs_pq (w_address_scheme x)"

text \<open>The signatures, checked at once; the library calls may raise.\<close>

definition sign_envelope ::
  "'a crypto_scheme \<Rightarrow> wallet_lib \<Rightarrow> string \<Rightarrow> obj \<Rightarrow> bool \<Rightarrow> obj \<Rightarrow> obj \<Rightarrow> (py_error, obj) res" where
  "sign_envelope C L now payload hybrid signer envelope =
    (let public_key = str_of_or (jget signer ''public_key_b64'') [];
         pq_public = str_of_or (jget signer ''pq_public_key_b64'') [] in
     rbind (b64_bytes L (str_of_or (jget signer ''signing_seed_b64'') [])) (\<lambda>seed.
     rbind (or_raise (wl_sign L seed (canonical (JObj payload)))) (\<lambda>signature.
     let e1 = AList.update ''signature_b64'' (JStr signature) (AList.update ''public_key_b64'' (JStr public_key) envelope) in
     rbind (if hybrid
            then rbind (or_raise (wl_sign_pq L (str_of_or (jget signer ''pq_private_key_b64'') []) (canonical (JObj payload)))) (\<lambda>pq.
              Inr (AList.update ''pq_signature_b64'' (JStr pq) (AList.update ''pq_public_key_b64'' (JStr pq_public)
                     (AList.update ''pq_scheme'' (JStr SIGNING_SCHEME_ML_DSA_65) e1)),
                   verify_hybrid_payload_signature C public_key signature pq_public pq (JObj payload)))
            else Inr (e1, verify_payload_signature C public_key signature (JObj payload))) (\<lambda>(e2, valid).
     Inr (AList.update ''signed_at'' (JStr now)
       (set_status (if valid then ''signed'' else ''invalid'') (AList.update ''signature_valid'' (JBool valid) e2)))))))"

definition sign_settlement_envelope ::
  "'a crypto_scheme \<Rightarrow> wallet_lib \<Rightarrow> string \<Rightarrow> MoneyPolicy \<Rightarrow> string
   \<Rightarrow> ('x settlement_dir_scheme, py_error, SettlementRecord option) sres" where
  "sign_settlement_envelope C L now mp settlement_id s =
    (case resolve_settlement settlement_id s of None \<Rightarrow> (Inr None, s)
     | Some r \<Rightarrow>
       let e0 = unsigned_envelope C mp r;
           save = (\<lambda>e. sbind (save_settlement_balance_audit r
             (AList.update ''signed_envelope'' (JObj e) (sr_balance_audit r))) (\<lambda>x. slift (Inr (Some x))))
       in sbind (find_wallet_by_id (sr_source_wallet_id r)) (\<lambda>found.
       case found of None \<Rightarrow> save (set_status ''source_wallet_not_found'' e0)
       | Some x \<Rightarrow>
         let e1 = AList.update ''scheme'' (jopt (w_signing_scheme x)) (AList.update ''address_scheme'' (jopt (w_address_scheme x)) e0);
             hybrid = wallet_uses_hybrid x
         in if \<not> wallet_uses_ed25519 x \<and> \<not> hybrid then save (set_status ''legacy_wallet_unsigned'' e1)
            else let e2 = AList.update ''required'' (JBool True) e1 in (\<lambda>s1.
              case load_unlocked_signing_key x s1 of None \<Rightarrow> save (set_status ''missing_unlocked_signer'' e2) s1
              | Some signer \<Rightarrow>
                if Some (str_of_or (jget signer ''public_key_b64'') []) \<noteq> w_public_key_b64 x
                then save (set_status ''public_key_mismatch'' e2) s1
                else if hybrid \<and> str_of_or (jget signer ''pq_public_key_b64'') [] \<noteq> text_or_empty (w_pq_public_key_b64 x)
                then save (set_status ''pq_public_key_mismatch'' e2) s1
                else if normalize_address (w_address x) \<noteq> normalize_address (sr_source_wallet_address r)
                then save (set_status ''source_wallet_address_mismatch'' e2) s1
                else sbind (slift (sign_envelope C L now (settlement_envelope_payload mp r) hybrid signer e2)) save s1)) s)"

definition verify_settlement_envelope :: "'a crypto_scheme \<Rightarrow> MoneyPolicy \<Rightarrow> SettlementRecord \<Rightarrow> bool \<times> string option" where
  "verify_settlement_envelope C mp r =
    (case jget (sr_balance_audit r) ''signed_envelope'' of
       JObj envelope \<Rightarrow>
         if \<not> truthy (jget envelope ''required'') then (True, None)
         else let payload = settlement_envelope_payload mp r;
                  public_key = str_of_or (jget envelope ''public_key_b64'') [];
                  signature = str_of_or (jget envelope ''signature_b64'') [];
                  pq_public = str_of_or (jget envelope ''pq_public_key_b64'') [];
                  pq_signature = str_of_or (jget envelope ''pq_signature_b64'') []
              in if jget envelope ''payload_hash'' \<noteq> JStr (settlement_envelope_hash C payload)
              then (False, Some ''settlement signed envelope payload hash does not match'')
              else if public_key = [] \<or> signature = []
              then (False, Some ''settlement signed envelope signature is missing'')
              else if jget envelope ''scheme'' = JStr SIGNING_SCHEME_HYBRID
              then (if str_of_or (jget envelope ''pq_scheme'') [] \<noteq> SIGNING_SCHEME_ML_DSA_65
                    then (False, Some ''settlement signed envelope PQ signature scheme is unsupported'')
                    else if pq_public = [] \<or> pq_signature = []
                    then (False, Some ''settlement signed envelope PQ signature is missing'')
                    else if \<not> verify_hybrid_payload_signature C public_key signature pq_public pq_signature (JObj payload)
                    then (False, Some ''settlement signed envelope hybrid signature is invalid'') else (True, None))
              else if \<not> verify_payload_signature C public_key signature (JObj payload)
              then (False, Some ''settlement signed envelope signature is invalid'') else (True, None)
     | _ \<Rightarrow> (False, Some ''settlement signed envelope is missing''))"

section \<open>Committee and retry\<close>

definition ensure_settlement_committee ::
  "(string \<Rightarrow> string \<Rightarrow> int \<Rightarrow> rat) \<Rightarrow> chain_env \<Rightarrow> wallet_lib \<Rightarrow> WalletPolicy option \<Rightarrow> io \<Rightarrow> MoneyPolicy \<Rightarrow> string
   \<Rightarrow> ('x settlement_dir_scheme, py_error, SettlementRecord option) sres" where
  "ensure_settlement_committee key E L p w mp settlement_id s =
    (let settlements = list_settlements s; same = (\<lambda>x. sr_settlement_id x = settlement_id)
     in case List.find same settlements of None \<Rightarrow> (Inr None, s)
     | Some item \<Rightarrow>
       if sr_committee_validator_ids item \<noteq> [] \<and> sr_committee_quorum_bond_atomic item > 0 then (Inr (Some item), s)
       else let seed = opt_or (sr_committee_selection_seed item) (sr_settlement_id item)
         in sbind (on_chain (select_validator_committee_snapshot key E p w (dd_validators s) seed (Some mp)
              (if sr_committee_target_size item > 0 then Some (sr_committee_target_size item) else None))) (\<lambda>committee.
            if vc_validator_ids committee = [] then slift (Inr (Some item))
            else let item' = ensure_settlement_committee_record mp seed committee item
              in sbind (save_settlements (update_first same (\<lambda>_. item') settlements)) (\<lambda>_.
                 sbind (sign_settlement_envelope E L (io_now w) mp (sr_settlement_id item)) (\<lambda>signed.
                 slift (Inr (Some (case signed of Some x \<Rightarrow> x | None \<Rightarrow> item')))))) s)"

definition retryable_rejection_notes :: "string list" where
  "retryable_rejection_notes = [''settlement signed envelope payload hash does not match'',
     ''settlement signed envelope is missing'']"

definition cleared :: "SettlementRecord \<Rightarrow> SettlementRecord" where
  "cleared r = r\<lparr>sr_accepted_attestations := 0, sr_rejected_attestations := 0, sr_accepted_bond_atomic := 0,
     sr_rejected_bond_atomic := 0, sr_status := ''pending'', sr_applied_at := None, sr_applied_by_validator_id := None\<rparr>"

definition signed_status :: "SettlementRecord option \<Rightarrow> bool" where
  "signed_status r \<longleftrightarrow> (case r of None \<Rightarrow> False
     | Some x \<Rightarrow> (case jget (sr_balance_audit x) ''signed_envelope'' of
         JObj e \<Rightarrow> jget e ''status'' = JStr ''signed'' | _ \<Rightarrow> False))"

definition reset_retryable_settlement_rejection ::
  "'a crypto_scheme \<Rightarrow> wallet_lib \<Rightarrow> string \<Rightarrow> MoneyPolicy \<Rightarrow> string
   \<Rightarrow> ('x settlement_dir_scheme, py_error, SettlementRecord option) sres" where
  "reset_retryable_settlement_rejection C L now mp settlement_id s =
    (let found = resolve_settlement settlement_id s; votes = list_attestations (Some settlement_id) None s
     in case found of None \<Rightarrow> (Inr None, s)
     | Some r \<Rightarrow>
       if sr_status r \<noteq> ''rejected'' then (Inr found, s)
       else if votes = [] \<or> list_ex va_accepted votes then (Inr found, s)
       else if list_ex (\<lambda>a. py_lower (py_strip (text_or_empty (va_note a))) \<notin> set retryable_rejection_notes) votes
       then (Inr found, s)
       else sbind (sign_settlement_envelope C L now mp settlement_id) (\<lambda>signed.
         if \<not> signed_status signed then slift (Inr found)
         else (\<lambda>s1. sbind (save_attestations (filter (\<lambda>a. va_settlement_id a \<noteq> settlement_id) (list_attestations None None s1)))
           (\<lambda>_ s2.
             let settlements = list_settlements s2; same = (\<lambda>x. sr_settlement_id x = settlement_id)
             in case List.find same settlements of None \<Rightarrow> (Inr found, s2)
             | Some item \<Rightarrow>
               sbind (save_settlements (update_first same (\<lambda>_. cleared item) settlements)) (\<lambda>_.
               sbind (sign_settlement_envelope C L now mp settlement_id) (\<lambda>signed2.
               slift (Inr (Some (case signed2 of Some x \<Rightarrow> x | None \<Rightarrow> cleared item))))) s2) s1)) s)"

section \<open>Applying a settlement\<close>

definition journal ::
  "(nat \<Rightarrow> string) \<Rightarrow> string \<Rightarrow> string \<Rightarrow> string \<Rightarrow> int \<Rightarrow> string \<Rightarrow> ('x data_dir_scheme, py_error, unit) sres" where
  "journal tok now event wallet_id amount note s =
    append_journal_entry (journal_entry (tok (length (dd_journal s))) event now wallet_id (Some amount) note) s"

definition credit_and_log ::
  "(nat \<Rightarrow> string) \<Rightarrow> string \<Rightarrow> string \<Rightarrow> string \<Rightarrow> int \<Rightarrow> WalletRecord \<Rightarrow> ('x data_dir_scheme, py_error, unit) sres" where
  "credit_and_log tok now event note amount x =
    sbind (update_wallet (x\<lparr>w_spendable_balance_atomic := w_spendable_balance_atomic x + amount\<rparr>)) (\<lambda>_.
    journal tok now event (w_wallet_id x) amount note)"

definition apply_finalized_ai_development_fee ::
  "(nat \<Rightarrow> string) \<Rightarrow> string \<Rightarrow> SettlementRecord \<Rightarrow> ('x data_dir_scheme, py_error, SettlementRecord option) sres" where
  "apply_finalized_ai_development_fee tok now r =
    (let amount = max 0 (sr_ai_development_fee_atomic r) in
     if amount \<le> 0 \<or> some_if_text (sr_ai_development_credited_wallet_id r) \<noteq> None then slift (Inr None)
     else sbind (case some_if_text (sr_ai_development_wallet_id r) of None \<Rightarrow> slift (Inr None)
                 | Some i \<Rightarrow> find_wallet_by_id i) (\<lambda>by_id.
       sbind (case by_id of Some x \<Rightarrow> slift (Inr (Some x))
              | None \<Rightarrow> (case some_if_text (sr_ai_development_address r) of None \<Rightarrow> slift (Inr None)
                  | Some a \<Rightarrow> find_wallet_by_address a)) (\<lambda>found.
       case found of None \<Rightarrow> slift (Inr None)
       | Some x \<Rightarrow>
         sbind (credit_and_log tok now ''ai_development_fee_credit''
           (''AI development fee credited from finalized settlement '' @ sr_settlement_id r @ ''.'') amount x) (\<lambda>_.
         slift (Inr (Some (r\<lparr>sr_ai_development_credited_wallet_id := Some (w_wallet_id x)\<rparr>)))))))"

definition apply_finalized_worker_payout_record ::
  "(nat \<Rightarrow> string) \<Rightarrow> string \<Rightarrow> bool \<Rightarrow> WorkerPayoutRecord \<Rightarrow> ('x data_dir_scheme, py_error, WorkerPayoutRecord) sres" where
  "apply_finalized_worker_payout_record tok now reconciled x =
    (case po_recipient_address x of
       None \<Rightarrow> slift (Inr (x\<lparr>po_status := ''unbound'', po_credited_wallet_id := None\<rparr>))
     | Some a \<Rightarrow> sbind (find_wallet_by_address a) (\<lambda>found.
       case found of
         None \<Rightarrow> slift (Inr (x\<lparr>po_credited_wallet_id := None, po_status := ''recorded_external_address''\<rparr>))
       | Some y \<Rightarrow>
         if po_credited_wallet_id x = Some (w_wallet_id y)
         then slift (Inr (x\<lparr>po_status := ''credited_local_wallet''\<rparr>))
         else sbind (credit_and_log tok now ''worker_reward_credit''
             (''Worker reward '' @ (if reconciled then ''reconciled'' else ''credited'') @ '' for node '' @ po_node_id x
              @ '' from finalized settlement '' @ po_settlement_id x @ ''.'') (po_reward_atomic x) y) (\<lambda>_.
           slift (Inr (x\<lparr>po_credited_wallet_id := Some (w_wallet_id y), po_status := ''credited_local_wallet''\<rparr>)))))"

text \<open>One step of the loop: whether the payout was handled, and the payout after it.\<close>

definition apply_worker_payout ::
  "(nat \<Rightarrow> string) \<Rightarrow> string \<Rightarrow> string \<Rightarrow> WorkerPayoutRecord \<Rightarrow> ('x settlement_dir_scheme, py_error, bool \<times> WorkerPayoutRecord) sres" where
  "apply_worker_payout tok now settlement_id x s =
    (if po_settlement_id x \<noteq> settlement_id \<or> po_status x = ''credited_local_wallet'' then (Inr (False, x), s)
     else let bound = (if po_recipient_address x = None
            then x\<lparr>po_recipient_address := resolve_worker_reward_address (po_node_id x) s\<rparr> else x)
       in sbind (apply_finalized_worker_payout_record tok now False bound) (\<lambda>y. slift (Inr (True, y))) s)"

definition apply_finalized_worker_payouts ::
  "(nat \<Rightarrow> string) \<Rightarrow> string \<Rightarrow> SettlementRecord \<Rightarrow> ('x settlement_dir_scheme, py_error, WorkerPayoutRecord list) sres" where
  "apply_finalized_worker_payouts tok now r s =
    sbind (smap (apply_worker_payout tok now (sr_settlement_id r)) (list_worker_payouts None None None s)) (\<lambda>steps.
      if list_ex fst steps
      then sbind (save_worker_payouts (map snd steps)) (\<lambda>_. slift (Inr (map snd (filter fst steps))))
      else slift (Inr [])) s"

definition jint_opt :: "int option \<Rightarrow> json" where
  "jint_opt x = (case x of None \<Rightarrow> JNull | Some n \<Rightarrow> JInt n)"

definition int_or_zero :: "json \<Rightarrow> (py_error, int) res" where
  "int_or_zero v = py_int (py_or v (JInt 0))"

definition with_applied_balance_audit ::
  "SettlementRecord \<Rightarrow> int \<Rightarrow> int \<Rightarrow> int option \<Rightarrow> int option \<Rightarrow> (py_error, obj) res" where
  "with_applied_balance_audit r reserve_before reserve_after wallet_before wallet_after =
    (let audit = sr_balance_audit r;
         quote = obj_or_empty (jget audit ''quote''); debits = obj_or_empty (jget audit ''debits'')
     in rbind (int_or_zero (jget debits ''reserve_debit_atomic'')) (\<lambda>reserve_debit.
        rbind (if wallet_before = None \<or> wallet_after = None then Inr 0 else int_or_zero (jget debits ''source_wallet_debit_atomic'')) (\<lambda>wallet_debit.
        rbind (int_or_zero (jget quote ''reserve_after_atomic'')) (\<lambda>quote_reserve.
        rbind (if quote = [] \<or> wallet_after = None then Inr 0 else int_or_zero (jget quote ''wallet_after_atomic'')) (\<lambda>quote_wallet.
        let delta = (case (wallet_before, wallet_after) of (Some b, Some a) \<Rightarrow> Some (a - b) | _ \<Rightarrow> None)
        in Inr (AList.update ''applied'' (JObj
          [(''reserve_before_atomic'', JInt reserve_before), (''reserve_after_atomic'', JInt reserve_after),
           (''source_wallet_before_atomic'', jint_opt wallet_before), (''source_wallet_after_atomic'', jint_opt wallet_after),
           (''reserve_delta_atomic'', JInt (reserve_after - reserve_before)),
           (''source_wallet_delta_atomic'', jint_opt delta),
           (''reserve_delta_matches_debit'', JBool (reserve_before - reserve_after = reserve_debit)),
           (''source_wallet_delta_matches_debit'', JBool (delta = None \<or> delta = Some (- wallet_debit))),
           (''quote_reserve_after_matches_applied'', JBool (quote = [] \<or> quote_reserve = reserve_after)),
           (''quote_wallet_after_matches_applied'',
             JBool (quote = [] \<or> wallet_after = None \<or> wallet_after = Some quote_wallet))]) audit))))))"

text \<open>
  The debit of the paying wallet: a wallet of another node is only checked on the chain; a
  local wallet with entries on the chain is debited; a local wallet without entries is neither
  checked nor debited. The result is the balance before and after.
\<close>

definition debit_source_wallet ::
  "chain_env \<Rightarrow> WalletPolicy option \<Rightarrow> io \<Rightarrow> MoneyPolicy \<Rightarrow> (nat \<Rightarrow> string) \<Rightarrow> SettlementRecord \<Rightarrow> int
   \<Rightarrow> ('x data_dir_scheme, py_error, (int \<times> int) option) sres" where
  "debit_source_wallet E p w mp tok r debit =
    (if debit \<le> 0 then slift (Inr None)
     else sbind (find_wallet_by_id (sr_source_wallet_id r)) (\<lambda>by_id.
       sbind (case by_id of Some x \<Rightarrow> slift (Inr (Some x)) | None \<Rightarrow> find_wallet_by_address (sr_source_wallet_address r)) (\<lambda>found.
       sbind (on_chain (ensure_chain_genesis E p (Some mp) w)) (\<lambda>_.
       case found of
         None \<Rightarrow> sbind (on_chain (chain_balance_atomic E p w (sr_source_wallet_address r))) (\<lambda>before.
           if before < debit then slift (Inl ValueError) else slift (Inr (Some (before, before - debit))))
       | Some x \<Rightarrow> sbind (on_chain (has_chain_activity_for_address E p w (w_address x))) (\<lambda>active.
           if \<not> active then slift (Inr None)
           else sbind (on_chain (chain_balance_atomic E p w (w_address x))) (\<lambda>before.
             if before < debit then slift (Inl ValueError)
             else sbind (update_wallet (x\<lparr>w_spendable_balance_atomic := before - debit\<rparr>)) (\<lambda>_.
               sbind (journal tok (io_now w) ''validator_settlement_debit'' (w_wallet_id x) debit
                 (''Validator-applied debit for settlement '' @ sr_settlement_id r @ ''.'')) (\<lambda>_.
               slift (Inr (Some (before, before - debit)))))))))))"

definition settled_ledger :: "SettlementRecord \<Rightarrow> LedgerState \<Rightarrow> LedgerState" where
  "settled_ledger r l =
    l\<lparr>l_compute_reserve_balance_atomic := l_compute_reserve_balance_atomic l - max 0 (sr_reserve_debit_atomic r),
      l_validator_fee_pool_atomic := l_validator_fee_pool_atomic l
        + (if validator_fee_payout_split r None = [] then sr_settlement_fee_atomic r else 0),
      l_ai_development_fee_pool_atomic := l_ai_development_fee_pool_atomic l + sr_ai_development_fee_atomic r,
      l_tx_fee_pool_atomic := l_tx_fee_pool_atomic l
        + (if validator_fee_payout_split r (Some (sr_tx_fee_atomic r)) = [] then sr_tx_fee_atomic r else 0),
      l_worker_distributed_atomic := l_worker_distributed_atomic l + sr_worker_reward_atomic r,
      l_settlements_applied := l_settlements_applied l + 1\<rparr>"

definition apply_funding ::
  "chain_env \<Rightarrow> WalletPolicy option \<Rightarrow> io \<Rightarrow> MoneyPolicy \<Rightarrow> wallet_paths \<Rightarrow> (nat \<Rightarrow> string) \<Rightarrow> string option
   \<Rightarrow> SettlementRecord \<Rightarrow> ('x data_dir_scheme, py_error, SettlementRecord) sres" where
  "apply_funding E p w mp paths tok validator_id r =
    sbind (load_or_create_ledger mp paths) (\<lambda>stored.
    sbind (chain_backed_ledger_snapshot E p w mp stored) (\<lambda>ledger.
    let reserve = l_compute_reserve_balance_atomic ledger; ledger' = settled_ledger r ledger in
    if max 0 (sr_reserve_debit_atomic r) > reserve then slift (Inl ValueError)
    else sbind (debit_source_wallet E p w mp tok r (max 0 (sr_source_wallet_debit_atomic r))) (\<lambda>moved.
      sbind (save_ledger ledger') (\<lambda>_.
      sbind (slift (with_applied_balance_audit r reserve (l_compute_reserve_balance_atomic ledger')
        (map_option fst moved) (map_option snd moved))) (\<lambda>audit.
      slift (Inr (r\<lparr>sr_applied_at := Some (io_now w), sr_applied_by_validator_id := validator_id,
        sr_status := ''applied'', sr_balance_audit := audit\<rparr>)))))))"

definition apply_finalized_settlement ::
  "chain_env \<Rightarrow> WalletPolicy option \<Rightarrow> io \<Rightarrow> MoneyPolicy \<Rightarrow> wallet_paths \<Rightarrow> (nat \<Rightarrow> string) \<Rightarrow> string \<Rightarrow> string option
   \<Rightarrow> ('x settlement_dir_scheme, py_error, SettlementRecord option) sres" where
  "apply_finalized_settlement E p w mp paths tok settlement_id validator_id s =
    (let settlements = list_settlements s; same = (\<lambda>x. sr_settlement_id x = settlement_id);
         save = (\<lambda>r. save_settlements (update_first same (\<lambda>_. r) settlements))
     in case List.find same settlements of None \<Rightarrow> (Inr None, s)
     | Some r \<Rightarrow>
       if sr_status r \<noteq> ''finalized'' \<and> sr_status r \<noteq> ''applied'' then (Inr (Some r), s)
       else sbind (if some_if_text (sr_applied_at r) = None
                   then sbind (apply_funding E p w mp paths tok validator_id r) (\<lambda>x. sbind (save x) (\<lambda>_. slift (Inr x)))
                   else if sr_status r \<noteq> ''applied''
                   then sbind (save (r\<lparr>sr_status := ''applied''\<rparr>)) (\<lambda>_. slift (Inr (r\<lparr>sr_status := ''applied''\<rparr>)))
                   else slift (Inr r)) (\<lambda>r1.
         sbind (apply_finalized_ai_development_fee tok (io_now w) r1) (\<lambda>credited.
         sbind (case credited of None \<Rightarrow> slift (Inr r1) | Some x \<Rightarrow> sbind (save x) (\<lambda>_. slift (Inr x))) (\<lambda>r2.
         sbind (apply_finalized_worker_payouts tok (io_now w) r2) (\<lambda>_.
         sbind (record_chain_entries_for_settlement E p w mp r2) (\<lambda>_.
         slift (Inr (Some r2))))))) s)"

text \<open>A vote. A second vote of the same validator must be the same vote.\<close>

datatype attestation_error = PyError py_error | ConflictingAttestation ValidatorAttestation

definition py :: "('s, py_error, 'a) sres \<Rightarrow> ('s, attestation_error, 'a) sres" where
  "py m s = (case m s of (Inl e, s') \<Rightarrow> (Inl (PyError e), s') | (Inr x, s') \<Rightarrow> (Inr x, s'))"

definition refresh_and_apply ::
  "chain_env \<Rightarrow> WalletPolicy option \<Rightarrow> io \<Rightarrow> wallet_paths \<Rightarrow> (nat \<Rightarrow> string) \<Rightarrow> string \<Rightarrow> string \<Rightarrow> bool
   \<Rightarrow> ('x settlement_dir_scheme, py_error, unit) sres" where
  "refresh_and_apply E p w paths tok settlement_id validator_id apply_on_finalize =
    sbind (refresh_settlement_finality settlement_id) (\<lambda>r.
    if apply_on_finalize \<and> r \<noteq> None \<and> sr_status (the r) = ''finalized''
    then sbind (apply_finalized_settlement E p w (MoneyPolicy_default (getenv E)) paths tok settlement_id (Some validator_id)) (\<lambda>_. slift (Inr ()))
    else slift (Inr ()))"

definition record_validator_attestation ::
  "chain_env \<Rightarrow> WalletPolicy option \<Rightarrow> io \<Rightarrow> wallet_paths \<Rightarrow> (nat \<Rightarrow> string) \<Rightarrow> string \<Rightarrow> string \<Rightarrow> string
   \<Rightarrow> bool \<Rightarrow> string option \<Rightarrow> bool \<Rightarrow> ('x settlement_dir_scheme, attestation_error, ValidatorAttestation) sres" where
  "record_validator_attestation E p w paths tok attestation_id settlement_id validator_id accepted note apply_on_finalize s =
    (let committee = (case resolve_settlement settlement_id s of None \<Rightarrow> [] | Some r \<Rightarrow> sr_committee_validator_ids r);
         existing = filter (\<lambda>a. va_validator_id a = validator_id) (list_attestations (Some settlement_id) None s);
         settle = py (refresh_and_apply E p w paths tok settlement_id validator_id apply_on_finalize)
     in if committee \<noteq> [] \<and> validator_id \<notin> set committee then (Inl (PyError ValueError), s)
        else case existing of
          a # _ \<Rightarrow> if va_accepted a = accepted then sbind settle (\<lambda>_. slift (Inr a)) s
                   else (Inl (ConflictingAttestation a), s)
        | [] \<Rightarrow>
          let a = \<lparr>va_attestation_id = attestation_id, va_created_at = io_now w, va_settlement_id = settlement_id,
                   va_validator_id = validator_id, va_accepted = accepted, va_note = note\<rparr>
          in sbind (py (append_attestation a)) (\<lambda>_. sbind settle (\<lambda>_. slift (Inr a))) s)"

section \<open>Worker payouts\<close>

definition payout_sort_key :: "WorkerPayoutRecord \<Rightarrow> bool \<times> int \<times> string \<times> string" where
  "payout_sort_key x = (po_layer_start x = None, (case po_layer_start x of None \<Rightarrow> 10 ^ 9 | Some k \<Rightarrow> k),
     po_node_id x, text_or_empty (po_runner_id x))"

text \<open>The payouts with the reward that the division by layers gives them.\<close>

definition deterministic_worker_payout_split :: "int \<Rightarrow> WorkerPayoutRecord list \<Rightarrow> (WorkerPayoutRecord \<times> int) list" where
  "deterministic_worker_payout_split total_reward payouts =
    (if total_reward \<le> 0 \<or> payouts = [] then []
     else sort_key (payout_sort_key \<circ> fst)
       (split_by_weight total_reward (\<lambda>x. max (po_layer_count x) 1) po_node_id payouts))"

definition split_audit_entry :: "WorkerPayoutRecord \<times> int \<Rightarrow> json" where
  "split_audit_entry = (\<lambda>(x, expected). JObj
    [(''payout_id'', JStr (po_payout_id x)), (''node_id'', JStr (po_node_id x)), (''runner_id'', jopt (po_runner_id x)),
     (''layer_start'', jint_opt (po_layer_start x)), (''layer_end'', jint_opt (po_layer_end x)),
     (''layer_count'', JInt (po_layer_count x)), (''share_bps'', JInt (po_share_bps x)),
     (''expected_reward_atomic'', JInt expected), (''recorded_reward_atomic'', JInt (po_reward_atomic x)),
     (''reward_matches_expected'', JBool (po_reward_atomic x = expected))])"

record accounting =
  ac_expected_reward :: int
  ac_recorded_reward :: int
  ac_settlement_fee :: int
  ac_ai_fee :: int
  ac_compute_cost :: int
  ac_expected_settlement_fee :: int
  ac_expected_ai_fee :: int
  ac_split :: "(WorkerPayoutRecord \<times> int) list"

definition payout_accounting :: "MoneyPolicy \<Rightarrow> SettlementRecord \<Rightarrow> WorkerPayoutRecord list \<Rightarrow> accounting" where
  "payout_accounting mp r payouts =
    (let cost = max 0 (sr_compute_cost_atomic r); reward = max 0 (sr_worker_reward_atomic r) in
     \<lparr>ac_expected_reward = reward,
      ac_recorded_reward = sum_list (map (\<lambda>x. max 0 (po_reward_atomic x)) payouts),
      ac_settlement_fee = max 0 (sr_settlement_fee_atomic r),
      ac_ai_fee = max 0 (sr_ai_development_fee_atomic r),
      ac_compute_cost = cost,
      ac_expected_settlement_fee = cost * mp_validator_settlement_fee_bps mp div 10000,
      ac_expected_ai_fee = cost * mp_ai_development_fee_bps mp div 10000,
      ac_split = deterministic_worker_payout_split reward payouts\<rparr>)"

definition split_matches :: "accounting \<Rightarrow> bool" where
  "split_matches a \<longleftrightarrow> (if ac_split a \<noteq> [] then list_all (\<lambda>(x, e). po_reward_atomic x = e) (ac_split a)
     else ac_expected_reward a = 0)"

definition worker_plus_fees :: "accounting \<Rightarrow> int" where
  "worker_plus_fees a = ac_recorded_reward a + ac_settlement_fee a + ac_ai_fee a"

definition settlement_worker_payout_accounting :: "MoneyPolicy \<Rightarrow> SettlementRecord \<Rightarrow> WorkerPayoutRecord list \<Rightarrow> obj" where
  "settlement_worker_payout_accounting mp r payouts =
    (let a = payout_accounting mp r payouts in
     [(''schema_version'', JInt 1),
      (''reward_token_code'', JStr (opt_or (sr_reward_token_code r) (mp_reward_token_code mp))),
      (''settlement_id'', JStr (sr_settlement_id r)), (''payout_count'', JInt (int (length payouts))),
      (''payout_ids'', JList (map JStr (sort (map po_payout_id payouts)))),
      (''participant_node_ids'', JList (map JStr (sort (dedup_first (map po_node_id payouts))))),
      (''deterministic_split'', JList (map split_audit_entry (ac_split a))),
      (''expected_worker_reward_atomic'', JInt (ac_expected_reward a)),
      (''recorded_worker_reward_atomic'', JInt (ac_recorded_reward a)),
      (''settlement_fee_atomic'', JInt (ac_settlement_fee a)), (''ai_development_fee_atomic'', JInt (ac_ai_fee a)),
      (''expected_settlement_fee_atomic'', JInt (ac_expected_settlement_fee a)),
      (''expected_ai_development_fee_atomic'', JInt (ac_expected_ai_fee a)),
      (''compute_cost_atomic'', JInt (ac_compute_cost a)),
      (''worker_plus_validator_plus_ai_atomic'', JInt (worker_plus_fees a)),
      (''settlement_fee_matches_policy'', JBool (ac_settlement_fee a = ac_expected_settlement_fee a)),
      (''ai_development_fee_matches_policy'', JBool (ac_ai_fee a = ac_expected_ai_fee a)),
      (''deterministic_split_matches'', JBool (split_matches a)),
      (''worker_reward_matches_payouts'', JBool (ac_recorded_reward a = ac_expected_reward a)),
      (''worker_plus_validator_plus_ai_matches_compute'', JBool (worker_plus_fees a = ac_compute_cost a))])"

datatype accounting_error =
  RewardTotal | RewardSplit | CostTotal | SettlementFee | AiFee

definition validate_settlement_accounting ::
  "MoneyPolicy \<Rightarrow> SettlementRecord \<Rightarrow> WorkerPayoutRecord list \<Rightarrow> accounting_error list" where
  "validate_settlement_accounting mp r payouts =
    (let a = payout_accounting mp r payouts in
     (if ac_recorded_reward a \<noteq> ac_expected_reward a then [RewardTotal] else [])
     @ (if \<not> split_matches a then [RewardSplit] else [])
     @ (if worker_plus_fees a \<noteq> ac_compute_cost a then [CostTotal] else [])
     @ (if ac_settlement_fee a \<noteq> ac_expected_settlement_fee a then [SettlementFee] else [])
     @ (if ac_ai_fee a \<noteq> ac_expected_ai_fee a then [AiFee] else []))"

definition save_payout_audit ::
  "MoneyPolicy \<Rightarrow> SettlementRecord option \<Rightarrow> WorkerPayoutRecord list \<Rightarrow> ('x settlement_dir_scheme, py_error, SettlementRecord option) sres" where
  "save_payout_audit mp r payouts =
    (case r of None \<Rightarrow> slift (Inr None)
     | Some x \<Rightarrow> sbind (save_settlement_balance_audit x (AList.update ''payouts''
         (JObj (settlement_worker_payout_accounting mp x payouts)) (sr_balance_audit x))) (\<lambda>y. slift (Inr (Some y))))"

definition is_applied :: "SettlementRecord option \<Rightarrow> bool" where
  "is_applied r \<longleftrightarrow> (case r of None \<Rightarrow> False | Some x \<Rightarrow> sr_status x = ''applied'' \<or> some_if_text (sr_applied_at x) \<noteq> None)"

definition new_payout ::
  "MoneyPolicy \<Rightarrow> string \<Rightarrow> (nat \<Rightarrow> string) \<Rightarrow> string \<Rightarrow> string \<Rightarrow> string \<Rightarrow> 'x settlement_dir_scheme \<Rightarrow> nat \<Rightarrow> reward_share
   \<Rightarrow> WorkerPayoutRecord" where
  "new_payout mp now payout_id settlement_id receipt_id model_id s i x =
    (let recipient = resolve_worker_reward_address (rs_node_id x) s in
     \<lparr>po_payout_id = payout_id i, po_created_at = now, po_settlement_id = settlement_id, po_receipt_id = receipt_id,
      po_model_id = model_id, po_node_id = rs_node_id x, po_runner_id = rs_runner_id x,
      po_layer_start = rs_layer_start x, po_layer_end = rs_layer_end x, po_layer_count = rs_layer_count x,
      po_share_bps = rs_share_bps x, po_reward_atomic = rs_reward_atomic x,
      po_reward_token_code = Some (mp_reward_token_code mp), po_recipient_address = recipient,
      po_credited_wallet_id = None, po_status = (if recipient \<noteq> None then ''pending_settlement'' else ''unbound''),
      po_note = rs_note x\<rparr>)"

definition record_worker_payouts ::
  "MoneyPolicy \<Rightarrow> string \<Rightarrow> (nat \<Rightarrow> string) \<Rightarrow> (nat \<Rightarrow> string) \<Rightarrow> string \<Rightarrow> string \<Rightarrow> string \<Rightarrow> reward_share list
   \<Rightarrow> ('x settlement_dir_scheme, py_error, WorkerPayoutRecord list) sres" where
  "record_worker_payouts mp now tok payout_id settlement_id receipt_id model_id participants s =
    (let r = resolve_settlement settlement_id s;
         before = list_worker_payouts (Some settlement_id) (Some receipt_id) None s;
         finish = (\<lambda>r1 payouts. if is_applied r1
           then sbind (apply_finalized_worker_payouts tok now (the r1)) (\<lambda>_ s1.
             (Inr (list_worker_payouts (Some settlement_id) (Some receipt_id) None s1), s1))
           else slift (Inr payouts))
     in if before \<noteq> [] then sbind (save_payout_audit mp r before) (\<lambda>r1. finish r1 before) s
        else let records = map2 (new_payout mp now payout_id settlement_id receipt_id model_id s)
                   [0 ..< length participants] participants
          in if r \<noteq> None \<and> validate_settlement_accounting mp (the r) records \<noteq> [] then (Inl ValueError, s)
             else sbind (save_worker_payouts (list_worker_payouts None None None s @ records)) (\<lambda>_.
               sbind (save_payout_audit mp r records) (\<lambda>r1. finish r1 records)) s)"

definition reconcile_payout ::
  "(nat \<Rightarrow> string) \<Rightarrow> string \<Rightarrow> WorkerPayoutRecord \<Rightarrow> ('x settlement_dir_scheme, py_error, bool \<times> WorkerPayoutRecord) sres" where
  "reconcile_payout tok now x s =
    (if po_status x = ''credited_local_wallet'' then (Inr (False, x), s)
     else case resolve_worker_reward_address (po_node_id x) s of None \<Rightarrow> (Inr (False, x), s)
     | Some a \<Rightarrow>
       let y = x\<lparr>po_recipient_address := Some a\<rparr> in
       if is_applied (List.find (\<lambda>r. sr_settlement_id r = po_settlement_id x) (rev (list_settlements s)))
       then sbind (apply_finalized_worker_payout_record tok now True y) (\<lambda>z. slift (Inr (True, z))) s
       else (Inr (True, y\<lparr>po_status := ''pending_settlement'', po_credited_wallet_id := None\<rparr>), s))"

definition reconcile_worker_payouts ::
  "(nat \<Rightarrow> string) \<Rightarrow> string \<Rightarrow> ('x settlement_dir_scheme, py_error, WorkerPayoutRecord list) sres" where
  "reconcile_worker_payouts tok now s =
    sbind (smap (reconcile_payout tok now) (list_worker_payouts None None None s)) (\<lambda>steps.
      if list_ex fst steps
      then sbind (save_worker_payouts (map snd steps)) (\<lambda>_. slift (Inr (map snd (filter fst steps))))
      else slift (Inr [])) s"

end
