(* ===== verification/EconomicsProps.thy ===== *)
theory EconomicsProps
  imports Economics WalletProps
begin

text \<open>Properties of prices, of the funding of a job and of the daily allowance.\<close>

section \<open>Prices\<close>

lemma div_mono_int: "(a :: int) \<le> b \<Longrightarrow> 0 < c \<Longrightarrow> a div c \<le> b div c"
  by (rule zdiv_mono1)

lemma token_cost_result:
  assumes "calculate_token_priced_cost x y m mp ip out (Some f) (Some c) = Inr t"
  shows "\<exists>raw. tc_compute_cost_atomic t = min (max raw f) c \<and> tc_was_capped t = (raw > c)"
  using assms by (auto simp: calculate_token_priced_cost_def given_or_def rbind_Inr_iff Let_def)

lemma quote_result:
  assumes "quote_automatic_compute_price prompt model ledger out mp np snapshot = Inr q"
    and "coins_to_atomic (mp_automatic_price_floor_coins mp) mp = Inr lo"
    and "coins_to_atomic (mp_automatic_price_cap_coins mp) mp = Inr hi"
  shows "\<exists>raw. aq_compute_cost_atomic q = min (max raw lo) hi \<and> aq_was_capped q = (raw > hi)"
    "1000 \<le> aq_final_multiplier_bps q"
proof -
  obtain l lr where l: "load_multiplier_bps snapshot mp np = (l, lr)" by (rule prod.exhaust)
  obtain r rr where r: "reserve_multiplier_bps ledger mp = (r, rr)" by (rule prod.exhaust)
  have "\<exists>t x y m ip o' b base. calculate_token_priced_cost x y m mp ip o' (Some lo) (Some hi) = Inr t
      \<and> aq_compute_cost_atomic q = fst (bounded_price b t base m lo hi)
      \<and> aq_was_capped q = snd (bounded_price b t base m lo hi) \<and> 1000 \<le> aq_final_multiplier_bps q"
    using assms unfolding quote_automatic_compute_price_def rbind_Inr_iff Let_def l r
    by (clarsimp simp: rbind_Inr_iff final_multiplier_def case_prod_beta) blast
  then obtain t x y m ip o' b base where t: "calculate_token_priced_cost x y m mp ip o' (Some lo) (Some hi) = Inr t"
    "aq_compute_cost_atomic q = fst (bounded_price b t base m lo hi)"
    "aq_was_capped q = snd (bounded_price b t base m lo hi)" "1000 \<le> aq_final_multiplier_bps q" by blast
  show "1000 \<le> aq_final_multiplier_bps q" by (rule t(4))
  show "\<exists>raw. aq_compute_cost_atomic q = min (max raw lo) hi \<and> aq_was_capped q = (raw > hi)"
    using token_cost_result [OF t(1)] t(2,3) by (cases b) (simp_all add: bounded_price_def Let_def, blast)
qed

text \<open>
  The automatic price of a job lies between the floor and the cap of the policy, whatever
  the prompt, the load of the network and the level of the reserve are; the quote says that it
  was capped only if the price is the cap.
\<close>

theorem automatic_price_bounded:
  assumes "quote_automatic_compute_price prompt model ledger out mp np snapshot = Inr q"
    and "coins_to_atomic (mp_automatic_price_floor_coins mp) mp = Inr lo"
    and "coins_to_atomic (mp_automatic_price_cap_coins mp) mp = Inr hi" and "lo \<le> hi"
  shows "lo \<le> aq_compute_cost_atomic q \<and> aq_compute_cost_atomic q \<le> hi
    \<and> (aq_was_capped q \<longrightarrow> aq_compute_cost_atomic q = hi) \<and> 1000 \<le> aq_final_multiplier_bps q"
  using quote_result [OF assms(1-3)] assms(4) by auto

definition demo_ledger :: "int \<Rightarrow> LedgerState" where
  "demo_ledger reserve = \<lparr>l_compute_reserve_balance_atomic = reserve, l_project_treasury_balance_atomic = 0,
     l_developer_treasury_wallet_id = None, l_developer_treasury_address = None, l_developer_treasury_allocated_atomic = 0,
     l_developer_treasury_provisioned_locally = False, l_developer_treasury_seed_file = None,
     l_developer_treasury_password_file = None, l_ai_development_wallet_id = None, l_ai_development_address = None,
     l_ai_development_provisioned_locally = False, l_ai_development_seed_file = None,
     l_ai_development_password_file = None, l_ai_development_fee_pool_atomic = 0, l_validator_fee_pool_atomic = 0,
     l_validator_slashed_atomic = 0, l_tx_fee_pool_atomic = 0, l_worker_distributed_atomic = 0, l_settlements_applied = 0\<rparr>"

definition demo_snapshot :: NetworkStatePricingSnapshot where
  "demo_snapshot = \<lparr>ns_state_url = None, ns_reachable = True, ns_topology_nodes = 3, ns_topology_connections = 1,
     ns_node_system_entries = 3, ns_average_cpu_usage = Some (9 / 10), ns_error = None\<rparr>"

definition demo_model_policy :: NetworkModelPolicy where
  "demo_model_policy = \<lparr>np_network_default_model_id = ''m'', np_network_execution_model_ids = [''m''],
     np_minimum_worker_shards = 1, np_allow_single_node_private_inference = False\<rparr>"

lemma demo_quote:
  "map_sum id (\<lambda>q. (aq_compute_cost_atomic q, aq_was_capped q)) (quote_automatic_compute_price ''hello'' ''m'' (demo_ledger 0) None demo_policy
     demo_model_policy demo_snapshot) = Inr (109385, False)"
  by code_simp

theorem automatic_price_bounded_witness:
  "\<exists>q. quote_automatic_compute_price ''hello'' ''m'' (demo_ledger 0) None demo_policy demo_model_policy demo_snapshot = Inr q
    \<and> 100000 \<le> aq_compute_cost_atomic q \<and> aq_compute_cost_atomic q \<le> 500000"
proof -
  obtain q where q: "quote_automatic_compute_price ''hello'' ''m'' (demo_ledger 0) None demo_policy demo_model_policy demo_snapshot = Inr q"
    using demo_quote
    by (cases "quote_automatic_compute_price ''hello'' ''m'' (demo_ledger 0) None demo_policy demo_model_policy demo_snapshot")
      simp_all
  moreover have "coins_to_atomic (mp_automatic_price_floor_coins demo_policy) demo_policy = Inr 100000"
    "coins_to_atomic (mp_automatic_price_cap_coins demo_policy) demo_policy = Inr 500000" by code_simp+
  ultimately show ?thesis using automatic_price_bounded [OF q] by simp
qed

section \<open>Funding\<close>

lemma fee_quote_sum:
  assumes "build_fee_quote cost mp fee = Inr q" "0 \<le> cost" "0 \<le> mp_validator_settlement_fee_bps mp"
    "0 \<le> mp_ai_development_fee_bps mp" "mp_validator_settlement_fee_bps mp + mp_ai_development_fee_bps mp \<le> 10000"
  shows "fq_compute_cost_atomic q = cost"
    "fq_settlement_fee_atomic q + fq_ai_development_fee_atomic q + fq_worker_reward_atomic q = cost"
    "0 \<le> fq_settlement_fee_atomic q" "0 \<le> fq_ai_development_fee_atomic q" "0 \<le> fq_worker_reward_atomic q"
proof -
  have "cost * mp_validator_settlement_fee_bps mp div 10000 * 10000 \<le> cost * mp_validator_settlement_fee_bps mp"
    "cost * mp_ai_development_fee_bps mp div 10000 * 10000 \<le> cost * mp_ai_development_fee_bps mp"
    by (simp_all add: minus_mod_eq_div_mult [symmetric])
  moreover have "cost * (mp_validator_settlement_fee_bps mp + mp_ai_development_fee_bps mp) \<le> cost * 10000"
    using assms(2,5) by (intro mult_left_mono)
  ultimately have "cost * mp_validator_settlement_fee_bps mp div 10000 + cost * mp_ai_development_fee_bps mp div 10000 \<le> cost"
    by (simp add: distrib_left)
  then show "fq_compute_cost_atomic q = cost"
    "fq_settlement_fee_atomic q + fq_ai_development_fee_atomic q + fq_worker_reward_atomic q = cost"
    "0 \<le> fq_settlement_fee_atomic q" "0 \<le> fq_ai_development_fee_atomic q" "0 \<le> fq_worker_reward_atomic q"
    using assms(1-4) by (auto simp: build_fee_quote_def rbind_Inr_iff Let_def pos_imp_zdiv_nonneg_iff)
qed

definition money_in_play :: "LedgerState \<Rightarrow> WalletRecord \<Rightarrow> int" where
  "money_in_play l x = l_compute_reserve_balance_atomic l + w_spendable_balance_atomic x
    + l_validator_fee_pool_atomic l + l_ai_development_fee_pool_atomic l + l_tx_fee_pool_atomic l
    + l_worker_distributed_atomic l"

lemma decide_funding_cases:
  assumes "decide_funding mp pref q al reserve wallet = d" "fd_can_fund d"
  shows "fd_reserve_before_atomic d = reserve" "fd_wallet_before_atomic d = wallet" "fd_fee_quote d = q"
    "fd_reserve_after_atomic d + fd_wallet_after_atomic d + fq_compute_cost_atomic q + fq_tx_fee_atomic q = reserve + wallet"
    "fd_reserve_after_atomic d = reserve \<or> 0 \<le> fd_reserve_after_atomic d"
    "fd_wallet_after_atomic d = wallet \<or> 0 \<le> fd_wallet_after_atomic d"
    "fd_funding_source d = Some RESERVE \<longrightarrow> \<not> al_exceeded al \<and> pref \<noteq> WALLET_ONLY"
    "fd_funding_source d = Some WALLET \<longrightarrow> fd_reserve_after_atomic d = reserve \<and> pref \<noteq> RESERVE_ONLY"
    "fd_reserve_limit_identity_keys d = al_keys al" "fd_funding_source d \<noteq> None"
  using assms by (cases pref; auto simp: decide_funding_def Let_def funding_result_def reject_funding_def split: if_splits)+

lemma plan_funding_decides:
  assumes "plan_funding E X p w mp ledger wallet cost pref fee ip keys hash s = (Inr d, s')"
  obtains q al where "build_fee_quote cost mp fee = Inr q"
    "plan_allowance E X p w mp wallet cost ip keys hash s = (Inr al, s')"
    "decide_funding mp pref q al (l_compute_reserve_balance_atomic ledger) (w_spendable_balance_atomic wallet) = d"
  using assms by (auto simp: plan_funding_def slift_def)

text \<open>
  C31. Paying for a job neither makes nor loses money. When \<open>plan_funding\<close> says that a job can
  be paid for and \<open>apply_funding_decision\<close> applies that, reserve, wallet, fee pools and worker
  rewards together hold what they held before; neither the reserve nor the wallet is overdrawn;
  and a payer who asked for one source is not charged on the other for the computation.
\<close>

theorem funding_conserves_money:
  assumes "plan_funding E X p w mp ledger wallet cost pref fee ip keys hash s = (Inr d, s')"
    and "apply_funding_decision ledger wallet d = Inr (ledger', wallet')"
    and "0 \<le> cost" "0 \<le> mp_validator_settlement_fee_bps mp" "0 \<le> mp_ai_development_fee_bps mp"
    and "mp_validator_settlement_fee_bps mp + mp_ai_development_fee_bps mp \<le> 10000"
  shows "money_in_play ledger' wallet' = money_in_play ledger wallet
    \<and> (0 \<le> l_compute_reserve_balance_atomic ledger \<longrightarrow> 0 \<le> l_compute_reserve_balance_atomic ledger')
    \<and> (0 \<le> w_spendable_balance_atomic wallet \<longrightarrow> 0 \<le> w_spendable_balance_atomic wallet')
    \<and> (pref = WALLET_ONLY \<longrightarrow> l_compute_reserve_balance_atomic ledger' = l_compute_reserve_balance_atomic ledger)
    \<and> (pref = RESERVE_ONLY \<longrightarrow>
        w_spendable_balance_atomic wallet' = w_spendable_balance_atomic wallet - fq_tx_fee_atomic (fd_fee_quote d))"
proof -
  obtain q al where q: "build_fee_quote cost mp fee = Inr q"
    and d: "decide_funding mp pref q al (l_compute_reserve_balance_atomic ledger) (w_spendable_balance_atomic wallet) = d"
    using assms(1) by (rule plan_funding_decides)
  have ok: "fd_can_fund d" using assms(2) by (auto simp: apply_funding_decision_def split: if_splits)
  note split = fee_quote_sum [OF q assms(3-6)] and c = decide_funding_cases [OF d ok]
  have after: "l_compute_reserve_balance_atomic ledger' = fd_reserve_after_atomic d"
    "w_spendable_balance_atomic wallet' = fd_wallet_after_atomic d"
    "money_in_play ledger' wallet' = money_in_play ledger wallet
      - l_compute_reserve_balance_atomic ledger - w_spendable_balance_atomic wallet
      + fd_reserve_after_atomic d + fd_wallet_after_atomic d + cost + fq_tx_fee_atomic q"
    using assms(2) split(2) c(3)
    by (auto simp: apply_funding_decision_def money_in_play_def Let_def split: if_splits)
  moreover have "fd_wallet_after_atomic d = w_spendable_balance_atomic wallet - fq_tx_fee_atomic q" if "pref = RESERVE_ONLY"
    using d ok that by (auto simp: decide_funding_def Let_def funding_result_def reject_funding_def split: if_splits)
  moreover have "pref = WALLET_ONLY \<longrightarrow> fd_reserve_after_atomic d = l_compute_reserve_balance_atomic ledger"
    using c(7,8,10) by (cases "the (fd_funding_source d)") auto
  ultimately show ?thesis using c(3-6) split(1) by auto
qed

section \<open>The daily allowance\<close>

lemma reserve_spent_state: "reserve_spent_for_key E X p w k s = (r, s') \<Longrightarrow> s' = s"
  by (auto simp: reserve_spent_for_key_def daily_user_reserve_spent_today_from_chain_def sbind_def
      split: prod.splits sum.splits if_splits)

lemma smap_reads:
  assumes "\<And>x r s'. f x s = (r, s') \<Longrightarrow> s' = s" "smap f xs s = (Inr ys, s')"
  shows "s' = s \<and> list_all2 (\<lambda>x y. f x s = (Inr y, s)) xs ys"
  using assms(2)
proof (induction xs arbitrary: ys s')
  case (Cons x xs)
  then obtain y zs where y: "f x s = (Inr y, s)" "smap f xs s = (Inr zs, s')" "ys = y # zs"
    using assms(1) by (fastforce simp: slift_def)
  with Cons.IH [OF y(2)] show ?case by simp
qed (simp add: slift_def)

lemma spent_by_identity_at:
  assumes "daily_reserve_spent_today_by_identity E X p w i keys s = (Inr d, s')" "k \<in> set keys"
  shows "s' = s" "reserve_spent_for_key E X p w k s = (Inr (dget d k 0), s)"
proof -
  let ?f = "\<lambda>k. sbind (reserve_spent_for_key E X p w k) (\<lambda>v. slift (Inr (k, v)))"
  have keys: "keys \<noteq> []" using assms(2) by auto
  have all: "s' = s \<and> list_all2 (\<lambda>k y. ?f k s = (Inr y, s)) keys d"
  proof (rule smap_reads)
    show "s1 = s" if "?f k s = (r, s1)" for k r s1
      using that reserve_spent_state by (auto simp: sbind_def slift_def split: prod.splits sum.splits)
    show "smap ?f keys s = (Inr d, s')"
      using assms(1) keys by (simp add: daily_reserve_spent_today_by_identity_def)
  qed
  then show "s' = s" by simp
  have at_key: "reserve_spent_for_key E X p w a s = (Inr v, s) \<and> a = k'" if "?f k' s = (Inr (a, v), s)" for a v k'
    using that by (auto simp: slift_def)
  from all have "list_all2 (\<lambda>k y. reserve_spent_for_key E X p w k s = (Inr (snd y), s) \<and> fst y = k) keys d"
    by (auto elim!: list_all2_mono dest: at_key)
  then show "reserve_spent_for_key E X p w k s = (Inr (dget d k 0), s)"
    using assms(2) by (induction keys d rule: list_all2_induct) (auto simp: dget_def)
qed

lemma identity_limits_at:
  assumes "identity_limits mp keys = Inr limits" "k \<in> set keys" "daily_reserve_limit_for_identity_key k mp = Inr (Some l)"
  shows "(k, l) \<in> set limits"
proof -
  let ?f = "\<lambda>k. rbind (daily_reserve_limit_for_identity_key k mp) (\<lambda>l. Inr (k, l))"
  obtain ls where ls: "rmap ?f keys = Inr ls"
    "limits = dedup_first (concat (map (\<lambda>(k, l). case l of None \<Rightarrow> [] | Some n \<Rightarrow> [(k, n)]) ls))"
    using assms(1) by (auto simp: identity_limits_def rbind_Inr_iff)
  have "?f k = Inr (k, Some l)" using assms(3) by simp
  moreover have "\<exists>y \<in> set ls. ?f k = Inr y"
    using ls(1) assms(2) by (induction keys arbitrary: ls) (auto simp: rbind_Inr_iff)
  ultimately have "(k, Some l) \<in> set ls" by auto
  then show ?thesis by (force simp: ls(2) set_dedup_first)
qed

lemma plan_allowance_within:
  assumes "plan_allowance E X p w mp wallet cost ip given hash s = (Inr al, s')" "\<not> al_exceeded al"
    and "k \<in> set (al_keys al)" "daily_reserve_limit_for_identity_key k mp = Inr (Some l)"
  shows "\<exists>v. reserve_spent_for_key E X p w k s = (Inr v, s) \<and> v + cost \<le> l"
proof -
  obtain keys d limits s1 s2 where run: "daily_user_reserve_spent_today_atomic E X p w (w_wallet_id wallet) keys s = (Inr (al_spent_today al), s1)"
    "daily_reserve_spent_today_by_identity E X p w (w_wallet_id wallet) keys s1 = (Inr d, s2)"
    "identity_limits mp keys = Inr limits" "al_keys al = keys"
    "al_exceeded al = list_ex (\<lambda>(k, l). dget d k 0 + cost > l) limits"
    using assms(1) by (auto simp: plan_allowance_def slift_def Let_def)
  obtain d' where "daily_reserve_spent_today_by_identity E X p w (w_wallet_id wallet) keys s = (Inr d', s1)"
    using run(1) by (auto simp: daily_user_reserve_spent_today_atomic_def slift_def)
  then have "s1 = s" using spent_by_identity_at(1) assms(3) run(4) by metis
  then have "reserve_spent_for_key E X p w k s = (Inr (dget d k 0), s)"
    using spent_by_identity_at(2) run(2,4) assms(3) by metis
  moreover have "(k, l) \<in> set limits" using identity_limits_at [OF run(3)] assms(3,4) run(4) by simp
  ultimately show ?thesis using assms(2) run(5) by (fastforce simp: list_ex_iff)
qed

definition demo_econ :: econ_lib where
  "demo_econ = \<lparr>el_from_iso = (\<lambda>_. Some (Aware 0)), el_today = 0, el_ip_text = (\<lambda>_. None), el_ip_prefix = (\<lambda>t. t)\<rparr>"

definition demo_settlement_dir :: "WalletRecord list \<Rightarrow> chain_store \<Rightarrow> settlement_dir" where
  "demo_settlement_dir ws c = data_dir.extend (demo_dir ws c)
     \<lparr>sd_settlements = [], sd_attestations = [], sd_payouts = [], sd_reward_addresses = []\<rparr>"

lemma demo_plan:
  "map_sum id (\<lambda>d. fd_can_fund d \<and> fd_funding_source d = Some RESERVE) (fst (plan_funding demo_env demo_econ (Some demo_wallet_policy) demo_io
     demo_policy (demo_ledger 1000) (demo_wallet ''alice'' 700) 500 AUTO (Some 10) None None None (demo_settlement_dir [] empty_store))) = Inr True"
  by code_simp

theorem funding_conserves_money_witness:
  "\<exists>d s' ledger' wallet'. plan_funding demo_env demo_econ (Some demo_wallet_policy) demo_io demo_policy (demo_ledger 1000)
      (demo_wallet ''alice'' 700) 500 AUTO (Some 10) None None None (demo_settlement_dir [] empty_store) = (Inr d, s')
    \<and> apply_funding_decision (demo_ledger 1000) (demo_wallet ''alice'' 700) d = Inr (ledger', wallet')
    \<and> money_in_play ledger' wallet' = 1700"
proof -
  let ?plan = "plan_funding demo_env demo_econ (Some demo_wallet_policy) demo_io demo_policy (demo_ledger 1000)
      (demo_wallet ''alice'' 700) 500 AUTO (Some 10) None None None (demo_settlement_dir [] empty_store)"
  obtain d where d: "fst ?plan = Inr d" "fd_can_fund d" "fd_funding_source d = Some RESERVE"
    using demo_plan by (cases "fst ?plan") auto
  then obtain ledger' wallet' where applied:
    "apply_funding_decision (demo_ledger 1000) (demo_wallet ''alice'' 700) d = Inr (ledger', wallet')"
    by (auto simp: apply_funding_decision_def Let_def)
  have plan: "?plan = (Inr d, snd ?plan)" by (rule prod_eqI) (simp_all add: d(1))
  have "money_in_play (demo_ledger 1000) (demo_wallet ''alice'' 700) = 1700"
    by (simp add: money_in_play_def demo_ledger_def demo_wallet_def)
  moreover have "mp_validator_settlement_fee_bps demo_policy = 200" "mp_ai_development_fee_bps demo_policy = 0"
    by (simp_all add: MoneyPolicy_for_def)
  ultimately have "money_in_play ledger' wallet' = 1700"
    using funding_conserves_money [OF plan applied] by simp
  with plan applied show ?thesis by blast
qed

end
