(* ===== verification/SettlementProps.thy ===== *)
theory SettlementProps
  imports Settlement EconomicsProps WalletKeyProps
begin

text \<open>
  Properties of settlements: rewards are divided exactly and the accounting check accepts the
  division, the chain entries of a settlement balance, a signed envelope verifies, and the
  votes of the committee decide.
\<close>

section \<open>Rewards\<close>

lemma layer_weight_pos: "0 < layer_weight n"
  by (simp add: layer_weight_def)

text \<open>
  The reward of a job is divided without loss among its workers: the shares add up to the
  reward, every share goes to one of the participants, and each is the quota by layers rounded
  down or one unit more.
\<close>

theorem reward_split_exact:
  assumes "0 < total_reward" "participants \<noteq> []"
  shows "sum_list (map rs_reward_atomic (distribute_worker_reward total_reward participants)) = total_reward
    \<and> length (distribute_worker_reward total_reward participants) = length participants
    \<and> (\<forall>x \<in> set (distribute_worker_reward total_reward participants).
        rs_node_id x \<in> set (map pt_node_id participants)
        \<and> rs_reward_atomic x - total_reward * rs_layer_count x
            div sum_list (map (\<lambda>p. layer_weight (pt_layer_count p)) participants) \<in> {0, 1})"
proof -
  let ?w = "\<lambda>p. layer_weight (pt_layer_count p)" and ?W = "sum_list (map (\<lambda>p. layer_weight (pt_layer_count p)) participants)"
  let ?ps = "split_by_weight total_reward ?w pt_node_id participants"
  have pos: "\<forall>x \<in> set participants. 0 < ?w x" by (simp add: layer_weight_pos)
  have eq: "mset (distribute_worker_reward total_reward participants) = mset (map (reward_share_of ?W) ?ps)"
    using assms by (simp add: distribute_worker_reward_def Let_def)
  have "rs_reward_atomic \<circ> reward_share_of ?W = snd" by (auto simp: reward_share_of_def)
  then have "sum_list (map rs_reward_atomic (map (reward_share_of ?W) ?ps)) = sum_list (map snd ?ps)" by simp
  then have "sum_list (map rs_reward_atomic (distribute_worker_reward total_reward participants)) = sum_list (map snd ?ps)"
    using eq by (metis mset_map sum_mset_sum_list)
  moreover have "length (distribute_worker_reward total_reward participants) = length (map fst ?ps)"
    using eq by (metis length_map size_mset)
  moreover have "set (distribute_worker_reward total_reward participants) = reward_share_of ?W ` set ?ps"
    using eq by (metis list.set_map mset_eq_setD)
  ultimately show ?thesis
    using split_by_weight_total [OF pos assms(2)] map_fst_split [OF pos assms(2)] split_by_weight_member [OF pos assms(2)]
    by (fastforce simp: reward_share_of_def quota_def)
qed

definition demo_participants :: "participant list" where
  "demo_participants =
    [\<lparr>pt_node_id = ''b'', pt_runner_id = None, pt_layer_start = Some 10, pt_layer_end = Some 20, pt_layer_count = Some 10\<rparr>,
     \<lparr>pt_node_id = ''a'', pt_runner_id = None, pt_layer_start = Some 0, pt_layer_end = Some 10, pt_layer_count = Some 5\<rparr>,
     \<lparr>pt_node_id = ''c'', pt_runner_id = None, pt_layer_start = None, pt_layer_end = None, pt_layer_count = None\<rparr>]"

theorem reward_split_exact_witness:
  "sum_list (map rs_reward_atomic (distribute_worker_reward 98 demo_participants)) = 98"
  using reward_split_exact [of 98 demo_participants] by (simp add: demo_participants_def)

text \<open>Payouts that repeat node, layers and reward of the distributed shares.\<close>

definition payouts_of_shares :: "reward_share list \<Rightarrow> WorkerPayoutRecord list \<Rightarrow> bool" where
  "payouts_of_shares shares records \<longleftrightarrow>
    map (\<lambda>x. (po_node_id x, po_layer_count x, po_reward_atomic x)) records
    = map (\<lambda>x. (rs_node_id x, rs_layer_count x, rs_reward_atomic x)) shares"

lemma new_payouts_of_shares:
  "payouts_of_shares shares (map2 (new_payout mp now payout_id settlement_id receipt_id model_id s) [0 ..< length shares] shares)"
  unfolding payouts_of_shares_def by (rule nth_equalityI) (simp_all add: new_payout_def Let_def)

lemma payouts_rewards: "payouts_of_shares shares records \<Longrightarrow> map po_reward_atomic records = map rs_reward_atomic shares"
  unfolding payouts_of_shares_def by (drule arg_cong [of _ _ "map (snd \<circ> snd)"]) (simp add: comp_def)

lemma mset_map_arrange: "mset (map f xs) = mset ys \<Longrightarrow> \<exists>zs. mset zs = mset xs \<and> map f zs = ys"
proof (induction ys arbitrary: xs)
  case (Cons y ys)
  then obtain x where x: "x \<in> set xs" "f x = y" by (metis image_iff list.set_intros(1) list.set_map mset_eq_setD)
  then have "mset (map f (remove1 x xs)) = mset ys" using Cons.prems by (simp add: image_mset_Diff)
  from Cons.IH [OF this] obtain zs where "mset zs = mset (remove1 x xs)" "map f zs = ys" by blast
  then show ?case using x by (intro exI [of _ "x # zs"]) simp
qed simp

lemma arrange_copy:
  assumes "distinct ps" "mset (map key records) = mset (map key' ps)"
  obtains copy where "mset (map copy ps) = mset records" "\<And>y. y \<in> set ps \<Longrightarrow> key (copy y) = key' y"
proof -
  obtain zs where zs: "mset zs = mset records" "map key zs = map key' ps"
    using mset_map_arrange [OF assms(2)] by blast
  then have len: "length zs = length ps" using map_eq_imp_length_eq by blast
  define copy where "copy y = the (map_of (zip ps zs) y)" for y
  have copy: "map copy ps = zs"
    using assms(1) len by (intro nth_equalityI) (simp_all add: copy_def map_of_zip_nth)
  have "map (key \<circ> copy) ps = map key' ps" using zs(2) by (simp only: map_map [symmetric] copy)
  then have "key (copy y) = key' y" if "y \<in> set ps" for y using that by (simp add: map_eq_conv)
  with that [of copy] show thesis using zs(1) copy by simp
qed

lemma distribution_keys:
  assumes "0 < total_reward" "participants \<noteq> []"
    and "payouts_of_shares (distribute_worker_reward total_reward participants) records"
  shows "mset (map (\<lambda>x. (po_node_id x, po_layer_count x, po_reward_atomic x)) records)
    = mset (map (\<lambda>(p, r). (pt_node_id p, layer_weight (pt_layer_count p), r))
        (split_by_weight total_reward (\<lambda>p. layer_weight (pt_layer_count p)) pt_node_id participants))"
proof -
  let ?W = "sum_list (map (\<lambda>p. layer_weight (pt_layer_count p)) participants)"
  let ?ps = "split_by_weight total_reward (\<lambda>p. layer_weight (pt_layer_count p)) pt_node_id participants"
  let ?key = "\<lambda>x. (rs_node_id x, rs_layer_count x, rs_reward_atomic x)"
  have "mset (distribute_worker_reward total_reward participants) = mset (map (reward_share_of ?W) ?ps)"
    using assms(1,2) by (simp add: distribute_worker_reward_def Let_def)
  then have "mset (map ?key (distribute_worker_reward total_reward participants)) = mset (map ?key (map (reward_share_of ?W) ?ps))"
    by (metis mset_map)
  moreover have "?key \<circ> reward_share_of ?W = (\<lambda>(p, r). (pt_node_id p, layer_weight (pt_layer_count p), r))"
    by (auto simp: reward_share_of_def)
  ultimately show ?thesis using assms(3) by (simp add: payouts_of_shares_def)
qed

lemma audit_split_of_distribution:
  assumes "0 < total_reward" "participants \<noteq> []" "distinct (map pt_node_id participants)"
    and "payouts_of_shares (distribute_worker_reward total_reward participants) records"
    and "(x, e) \<in> set (deterministic_worker_payout_split total_reward records)"
  shows "po_reward_atomic x = e"
proof -
  let ?w = "\<lambda>p. layer_weight (pt_layer_count p)"
  let ?ps = "split_by_weight total_reward ?w pt_node_id participants"
  have pos: "\<forall>x \<in> set participants. 0 < ?w x" by (simp add: layer_weight_pos)
  have names: "distinct (map pt_node_id (map fst ?ps))"
    using assms(3) map_fst_split [OF pos assms(2)] by (metis mset_eq_imp_distinct_iff mset_map mset_sort)
  then have "distinct ?ps" by (metis distinct_map)
  then obtain copy where copy: "mset (map copy ?ps) = mset records"
    and "\<And>y. y \<in> set ?ps \<Longrightarrow> (po_node_id (copy y), po_layer_count (copy y), po_reward_atomic (copy y))
      = (\<lambda>(p, r). (pt_node_id p, ?w p, r)) y"
    by (rule arrange_copy [OF _ distribution_keys [OF assms(1,2,4)]]) blast
  then have agree: "po_node_id (copy y) = pt_node_id (fst y)" "po_layer_count (copy y) = ?w (fst y)"
    "po_reward_atomic (copy y) = snd y" if "y \<in> set ?ps" for y using that by (auto simp: case_prod_beta)
  have "map po_node_id (map copy ?ps) = map pt_node_id (map fst ?ps)" using agree(1) by simp
  then have "distinct (map po_node_id (map copy ?ps))" using names by (simp only:)
  from split_by_weight_order [OF copy this]
  have "split_by_weight total_reward (\<lambda>x. max (po_layer_count x) 1) po_node_id records
      = split_by_weight total_reward (\<lambda>x. max (po_layer_count x) 1) po_node_id (map copy ?ps)" by simp
  also have "\<dots> = map (\<lambda>y. (copy y, snd y)) ?ps"
    by (rule split_by_weight_again [OF pos assms(2)]) (simp_all add: agree layer_weight_def)
  finally have "(x, e) \<in> (\<lambda>y. (copy y, snd y)) ` set ?ps"
    using assms(5) by (auto simp: deterministic_worker_payout_split_def split: if_splits)
  then show ?thesis using agree(3) by auto
qed

lemma distribution_rewards:
  assumes "0 < total_reward" "participants \<noteq> []"
  shows "sum_list (map rs_reward_atomic (distribute_worker_reward total_reward participants)) = total_reward"
    "x \<in> set (distribute_worker_reward total_reward participants) \<Longrightarrow> 0 \<le> rs_reward_atomic x"
proof -
  let ?w = "\<lambda>p. layer_weight (pt_layer_count p)"
  let ?ps = "split_by_weight total_reward ?w pt_node_id participants"
  let ?shares = "map (reward_share_of (sum_list (map ?w participants))) ?ps"
  have pos: "\<forall>x \<in> set participants. 0 < ?w x" by (simp add: layer_weight_pos)
  have eq: "mset (distribute_worker_reward total_reward participants) = mset ?shares"
    using assms by (simp add: distribute_worker_reward_def Let_def)
  have "map rs_reward_atomic ?shares = map snd ?ps" by (auto simp: reward_share_of_def)
  then have "sum_list (map rs_reward_atomic ?shares) = total_reward" using split_by_weight_total [OF pos assms(2)] by metis
  then show "sum_list (map rs_reward_atomic (distribute_worker_reward total_reward participants)) = total_reward"
    using eq by (metis mset_map sum_mset_sum_list)
  assume "x \<in> set (distribute_worker_reward total_reward participants)"
  then have "x \<in> set ?shares" using eq by (metis mset_eq_setD)
  then obtain p r where pr: "(p, r) \<in> set ?ps" "rs_reward_atomic x = r" by (auto simp: reward_share_of_def)
  have "0 < sum_list (map ?w participants)"
    using pos assms(2) by (cases participants) (auto intro!: add_pos_nonneg sum_list_nonneg simp: less_imp_le)
  then have "0 \<le> quota total_reward ?w participants p"
    using assms(1) layer_weight_pos [of "pt_layer_count p"] by (simp add: quota_def pos_imp_zdiv_nonneg_iff)
  then show "0 \<le> rs_reward_atomic x" using split_by_weight_member(2) [OF pos assms(2) pr(1)] pr(2) by auto
qed

lemma fee_quote_fields:
  "build_fee_quote cost mp fee = Inr q \<Longrightarrow> fq_compute_cost_atomic q = cost
    \<and> fq_settlement_fee_atomic q = cost * mp_validator_settlement_fee_bps mp div 10000
    \<and> fq_ai_development_fee_atomic q = cost * mp_ai_development_fee_bps mp div 10000"
  by (auto simp: build_fee_quote_def rbind_Inr_iff Let_def)

lemma split_not_empty:
  assumes "0 < total_reward" "payouts \<noteq> []"
  shows "deterministic_worker_payout_split total_reward payouts \<noteq> []"
proof -
  have "\<forall>x \<in> set payouts. 0 < max (po_layer_count x) 1" by (simp add: less_max_iff_disj)
  from map_fst_split [OF this assms(2), of total_reward po_node_id]
  have "split_by_weight total_reward (\<lambda>x. max (po_layer_count x) 1) po_node_id payouts \<noteq> []"
    using assms(2) by (metis list.simps(8) mset_sort mset_zero_iff_right)
  then have "length (sort_key (payout_sort_key \<circ> fst)
      (split_by_weight total_reward (\<lambda>x. max (po_layer_count x) 1) po_node_id payouts)) \<noteq> 0"
    unfolding length_sort by simp
  moreover have "deterministic_worker_payout_split total_reward payouts = sort_key (payout_sort_key \<circ> fst)
      (split_by_weight total_reward (\<lambda>x. max (po_layer_count x) 1) po_node_id payouts)"
    using assms by (simp add: deterministic_worker_payout_split_def)
  ultimately show ?thesis by (metis list.size(3))
qed

text \<open>
  C30. The accounting of a settlement accepts the rewards of its own job. For the fee quote of
  the policy, a settlement recorded from it, and workers on different nodes, the payouts that
  \<open>record_worker_payouts\<close> makes from the distributed reward pass every check: rewards and fees
  add up to the price, and each reward is the one the division by layers gives.
\<close>

theorem distributed_rewards_accepted:
  assumes "build_fee_quote cost mp fee = Inr (fd_fee_quote d)" "0 \<le> cost" "0 \<le> mp_validator_settlement_fee_bps mp"
    and "0 \<le> mp_ai_development_fee_bps mp" "mp_validator_settlement_fee_bps mp + mp_ai_development_fee_bps mp \<le> 10000"
    and "r = new_settlement settlement_id t wallet_id address src d note mp committee sync"
    and "participants \<noteq> []" "distinct (map pt_node_id participants)"
    and "shares = distribute_worker_reward (sr_worker_reward_atomic r) participants"
  shows "validate_settlement_accounting mp r
    (map2 (new_payout mp now payout_id settlement_id receipt_id model_id s) [0 ..< length shares] shares) = []"
proof -
  let ?records = "map2 (new_payout mp now payout_id settlement_id receipt_id model_id s) [0 ..< length shares] shares"
  let ?a = "payout_accounting mp r ?records"
  note q = fee_quote_sum [OF assms(1-5)]
  have fields: "sr_worker_reward_atomic r = fq_worker_reward_atomic (fd_fee_quote d)"
    "sr_settlement_fee_atomic r = cost * mp_validator_settlement_fee_bps mp div 10000"
    "sr_ai_development_fee_atomic r = cost * mp_ai_development_fee_bps mp div 10000"
    "sr_compute_cost_atomic r = cost"
    "sr_settlement_fee_atomic r = fq_settlement_fee_atomic (fd_fee_quote d)"
    "sr_ai_development_fee_atomic r = fq_ai_development_fee_atomic (fd_fee_quote d)"
    using fee_quote_fields [OF assms(1)] by (simp_all add: assms(6) new_settlement_def Let_def)
  have po: "payouts_of_shares shares ?records" by (rule new_payouts_of_shares)
  then have rewards: "map po_reward_atomic ?records = map rs_reward_atomic shares" by (rule payouts_rewards)
  have "ac_recorded_reward ?a = sr_worker_reward_atomic r \<and> split_matches ?a"
  proof (cases "0 < sr_worker_reward_atomic r")
    case True
    have "map (\<lambda>x. max 0 (po_reward_atomic x)) ?records = map (max 0) (map rs_reward_atomic shares)"
      unfolding rewards [symmetric] by simp
    also have "\<dots> = map rs_reward_atomic shares"
      using distribution_rewards(2) [OF True assms(7)] by (simp add: assms(9))
    finally have "ac_recorded_reward ?a = sr_worker_reward_atomic r"
      using distribution_rewards(1) [OF True assms(7)] by (simp add: payout_accounting_def Let_def assms(9))
    moreover have "shares \<noteq> []" using distribution_rewards(1) [OF True assms(7)] True by (auto simp: assms(9))
    then have "ac_split ?a \<noteq> []"
      using split_not_empty [OF True, of ?records] True by (simp add: payout_accounting_def Let_def max_def)
    moreover have "po_reward_atomic x = e" if "(x, e) \<in> set (ac_split ?a)" for x e
      using audit_split_of_distribution [OF True assms(7,8)] po that True
      by (simp add: assms(9) payout_accounting_def Let_def max_def)
    ultimately show ?thesis by (auto simp: split_matches_def list_all_iff)
  next
    case False
    then have "sr_worker_reward_atomic r = 0" using q(5) fields(1) by simp
    then show ?thesis
      by (simp add: assms(9) distribute_worker_reward_def payout_accounting_def Let_def split_matches_def
          deterministic_worker_payout_split_def)
  qed
  moreover have "ac_expected_reward ?a = sr_worker_reward_atomic r" "ac_settlement_fee ?a = sr_settlement_fee_atomic r"
    "ac_ai_fee ?a = sr_ai_development_fee_atomic r" "ac_compute_cost ?a = cost"
    "ac_expected_settlement_fee ?a = sr_settlement_fee_atomic r" "ac_expected_ai_fee ?a = sr_ai_development_fee_atomic r"
    using q fields assms(2) by (simp_all add: payout_accounting_def Let_def)
  ultimately show ?thesis
    using q(2) fields by (simp add: validate_settlement_accounting_def Let_def worker_plus_fees_def)
qed

theorem distributed_rewards_accepted_witness:
  "\<exists>d shares. build_fee_quote 100 demo_policy (Some 10) = Inr (fd_fee_quote d) \<and> shares = distribute_worker_reward 98 demo_participants
    \<and> validate_settlement_accounting demo_policy (new_settlement ''s1'' ''now'' ''alice'' ''alice'' RESERVE d None demo_policy (committee_of []) None)
        (map2 (new_payout demo_policy ''now'' (\<lambda>_. ''p'') ''s1'' ''r1'' ''m'' (demo_settlement_dir [] empty_store)) [0 ..< length shares] shares) = []"
proof -
  let ?d = "funding_result AUTO \<lparr>fq_compute_cost_atomic = 100, fq_tx_fee_atomic = 10, fq_settlement_fee_atomic = 2,
      fq_ai_development_fee_atomic = 0, fq_worker_reward_atomic = 98\<rparr>
    \<lparr>al_daily_limit = None, al_spent_today = 0, al_remaining = None, al_exceeded = False, al_keys = [], al_client_hash = None\<rparr>
    1000 700 True ''ok'' (Some RESERVE) 900 690 None"
  have q: "build_fee_quote 100 demo_policy (Some 10) = Inr (fd_fee_quote ?d)"
    by (simp add: build_fee_quote_def MoneyPolicy_for_def funding_result_def)
  have "distinct (map pt_node_id demo_participants)" "demo_participants \<noteq> []" by (simp_all add: demo_participants_def)
  moreover have "sr_worker_reward_atomic (new_settlement ''s1'' ''now'' ''alice'' ''alice'' RESERVE ?d None demo_policy (committee_of []) None) = 98"
    by (simp add: new_settlement_def funding_result_def)
  moreover have "mp_validator_settlement_fee_bps demo_policy = 200" "mp_ai_development_fee_bps demo_policy = 0"
    by (simp_all add: MoneyPolicy_for_def)
  ultimately show ?thesis
    using distributed_rewards_accepted [OF q _ _ _ _ refl, of demo_participants "distribute_worker_reward 98 demo_participants"
        "''s1''" "''now''" "''alice''" "''alice''" RESERVE None "committee_of []" None] q
    by (intro exI [of _ ?d] exI [of _ "distribute_worker_reward 98 demo_participants"]) simp
qed

section \<open>Chain entries\<close>

definition deltas :: "(audit_target \<times> ChainTransaction) list \<Rightarrow> int" where
  "deltas entries = sum_list (map (\<lambda>(_, tx). tx_delta_atomic tx) entries)"

lemma deltas_simps [simp]:
  "deltas [] = 0" "deltas (x # xs) = tx_delta_atomic (snd x) + deltas xs" "deltas (xs @ ys) = deltas xs + deltas ys"
  by (simp_all add: deltas_def case_prod_beta)

lemma make_tx_delta [simp]: "tx_delta_atomic (make_chain_transaction E now a) = ta_delta_atomic a"
  by (simp add: make_chain_transaction_def Let_def)

lemma tx_args_delta [simp]: "ta_delta_atomic (tx_args typ a d) = d"
  by (simp add: tx_args_def)

lemma entry_delta [simp]: "tx_delta_atomic (snd (entry E now mp r role typ a i d note nonce m)) = d"
  by (simp add: entry_def)

lemma validator_share_delta:
  "tx_delta_atomic (snd (validator_share_entry E now mp r reg role typ note nonce tot share)) = fs_amount_atomic share"
  by (simp add: validator_share_entry_def Let_def entry_def)

lemma shares_total: "split_amount_by_validator_bond amount bonds ids \<noteq> [] \<Longrightarrow>
    sum_list (map fs_amount_atomic (split_amount_by_validator_bond amount bonds ids)) = max 0 amount"
proof -
  assume some: "split_amount_by_validator_bond amount bonds ids \<noteq> []"
  then have "0 < amount" "0 < dsum (bonded_by_validator bonds ids)"
    by (auto simp: split_amount_by_validator_bond_def Let_def max_def split: if_splits)
  from split_amount_total [OF this] this(1) show ?thesis by simp
qed

lemma share_entries_delta:
  "deltas (map (validator_share_entry E now mp r reg role typ note nonce tot) shares) = sum_list (map fs_amount_atomic shares)"
  by (induction shares) (simp_all add: validator_share_delta)

lemma fee_entries_delta:
  "deltas (tx_fee_entries E now mp r reg h) = max 0 (sr_tx_fee_atomic r)"
  "deltas (settlement_fee_entries E now mp r reg h) = max 0 (sr_settlement_fee_atomic r)"
  using shares_total [of "max 0 (sr_tx_fee_atomic r)"] shares_total [of "max 0 (sr_settlement_fee_atomic r)"]
  by (auto simp: tx_fee_entries_def settlement_fee_entries_def validator_fee_payout_split_def Let_def share_entries_delta)

lemma debit_entries_delta:
  assumes "0 < sr_source_wallet_debit_atomic r \<Longrightarrow> py_strip (sr_source_wallet_address r) \<noteq> []"
    and "0 < sr_ai_development_fee_atomic r \<Longrightarrow> py_strip (text_or_empty (sr_ai_development_address r)) \<noteq> []"
  shows "deltas (wallet_debit_entry E now mp r) = - max 0 (sr_source_wallet_debit_atomic r)"
    "deltas (surplus_entry E now mp r) = 0"
    "deltas (reserve_debit_entry E now mp r) = - max 0 (sr_reserve_debit_atomic r)"
    "deltas (ai_fee_entry E now mp r) = max 0 (sr_ai_development_fee_atomic r)"
  using assms by (auto simp: wallet_debit_entry_def surplus_entry_def reserve_debit_entry_def ai_fee_entry_def Let_def max_def)

definition unpayable_rewards :: "SettlementRecord \<Rightarrow> 'x settlement_dir_scheme \<Rightarrow> int" where
  "unpayable_rewards r s = sum_list (map (\<lambda>x. max 0 (po_reward_atomic x))
    (filter (\<lambda>x. payout_recipient s x = []) (list_worker_payouts (Some (sr_settlement_id r)) None None s)))"

lemma worker_entries_delta:
  "deltas (map (\<lambda>(recipient, x). worker_entry E now mp r recipient x) (payable r s)) + unpayable_rewards r s
    = sum_list (map (\<lambda>x. max 0 (po_reward_atomic x)) (list_worker_payouts (Some (sr_settlement_id r)) None None s))"
proof -
  have "deltas (map (\<lambda>(recipient, x). worker_entry E now mp r recipient x)
        (filter (\<lambda>(recipient, _). recipient \<noteq> []) (map (\<lambda>x. (payout_recipient s x, x)) xs)))
      + sum_list (map (\<lambda>x. max 0 (po_reward_atomic x)) (filter (\<lambda>x. payout_recipient s x = []) xs))
      = sum_list (map (\<lambda>x. max 0 (po_reward_atomic x)) xs)" for xs
    by (induction xs) (simp_all add: worker_entry_def Let_def)
  then show ?thesis by (simp add: payable_def unpayable_rewards_def)
qed

text \<open>
  C29. The chain entries of a settlement balance. Where what was taken is the price and the
  transaction fee, and the payouts pass the accounting check, the amounts of the entries add up
  to zero, so that writing them keeps the supply; except that a reward of a worker without a
  known address has no entry, and is missing from the sum.
\<close>

theorem settlement_entries_balance:
  assumes "sr_source_wallet_debit_atomic r + sr_reserve_debit_atomic r = sr_compute_cost_atomic r + sr_tx_fee_atomic r"
    and "0 \<le> sr_source_wallet_debit_atomic r" "0 \<le> sr_reserve_debit_atomic r" "0 \<le> sr_compute_cost_atomic r" "0 \<le> sr_tx_fee_atomic r"
    and "0 < sr_source_wallet_debit_atomic r \<longrightarrow> py_strip (sr_source_wallet_address r) \<noteq> []"
    and "0 < sr_ai_development_fee_atomic r \<longrightarrow> py_strip (text_or_empty (sr_ai_development_address r)) \<noteq> []"
    and "validate_settlement_accounting mp r (list_worker_payouts (Some (sr_settlement_id r)) None None s) = []"
  shows "sum_list (map (\<lambda>(_, tx). tx_delta_atomic tx) (settlement_entries E now mp r history s)) = - unpayable_rewards r s"
proof -
  have "sum_list (map (\<lambda>x. max 0 (po_reward_atomic x)) (list_worker_payouts (Some (sr_settlement_id r)) None None s))
      + max 0 (sr_settlement_fee_atomic r) + max 0 (sr_ai_development_fee_atomic r) = max 0 (sr_compute_cost_atomic r)"
    using assms(8) by (simp add: validate_settlement_accounting_def Let_def worker_plus_fees_def payout_accounting_def split: if_splits)
  moreover have "deltas (settlement_entries E now mp r history s)
      = - sr_source_wallet_debit_atomic r - sr_reserve_debit_atomic r + sr_tx_fee_atomic r + max 0 (sr_settlement_fee_atomic r)
        + max 0 (sr_ai_development_fee_atomic r)
        + deltas (map (\<lambda>(recipient, x). worker_entry E now mp r recipient x) (payable r s))"
    using assms(2-7) by (simp add: settlement_entries_def fee_entries_delta debit_entries_delta)
  ultimately show ?thesis
    using worker_entries_delta [of E now mp r s] assms(1,4) by (simp add: deltas_def)
qed

definition demo_settlement :: SettlementRecord where
  "demo_settlement =
    \<lparr>sr_settlement_id = ''s1'', sr_created_at = ''now'', sr_source_wallet_id = ''alice'', sr_source_wallet_address = ''alice'',
     sr_funding_source = ''reserve'', sr_compute_cost_atomic = 100, sr_tx_fee_atomic = 10, sr_settlement_fee_atomic = 2,
     sr_worker_reward_atomic = 98, sr_committee_selection_seed = None, sr_committee_target_size = 0,
     sr_committee_selection_mode = [], sr_committee_validator_ids = [''v1'', ''v2''],
     sr_committee_bonded_atomic_by_validator_id = [(''v1'', 70), (''v2'', 30)], sr_committee_total_bonded_atomic = 100,
     sr_committee_quorum_bond_atomic = 67, sr_reward_token_code = None, sr_ai_development_fee_atomic = 0,
     sr_ai_development_wallet_id = None, sr_ai_development_address = None, sr_ai_development_credited_wallet_id = None,
     sr_accepted_attestations = 0, sr_rejected_attestations = 0, sr_accepted_bond_atomic = 0, sr_rejected_bond_atomic = 0,
     sr_status = ''pending'', sr_note = None, sr_source_wallet_debit_atomic = 10, sr_reserve_debit_atomic = 100,
     sr_reserve_limit_identity_keys = [], sr_reserve_client_ip_hash = None, sr_applied_at = None,
     sr_applied_by_validator_id = None, sr_balance_audit = []\<rparr>"

definition demo_payout :: WorkerPayoutRecord where
  "demo_payout =
    \<lparr>po_payout_id = ''p1'', po_created_at = ''now'', po_settlement_id = ''s1'', po_receipt_id = ''r1'', po_model_id = ''m'',
     po_node_id = ''n1'', po_runner_id = None, po_layer_start = None, po_layer_end = None, po_layer_count = 1,
     po_share_bps = 10000, po_reward_atomic = 98, po_reward_token_code = None, po_recipient_address = Some ''bob'',
     po_credited_wallet_id = None, po_status = ''pending_settlement'', po_note = None\<rparr>"

definition demo_settled :: settlement_dir where
  "demo_settled = (demo_settlement_dir [] empty_store)\<lparr>sd_settlements := [demo_settlement], sd_payouts := [demo_payout]\<rparr>"

lemma demo_settled_accounting:
  "validate_settlement_accounting demo_policy demo_settlement (list_worker_payouts (Some ''s1'') None None demo_settled) = []"
  "unpayable_rewards demo_settlement demo_settled = 0"
  by code_simp+

theorem settlement_entries_balance_witness:
  "sum_list (map (\<lambda>(_, tx). tx_delta_atomic tx) (settlement_entries demo_env ''now'' demo_policy demo_settlement [] demo_settled)) = 0"
  using settlement_entries_balance [of demo_settlement demo_policy demo_settled demo_env "''now''" "[]"] demo_settled_accounting
  by (simp add: demo_settlement_def py_strip_def py_lstrip_def py_isspace_def)

section \<open>The signed envelope\<close>

lemma envelope_payload_audit:
  "settlement_envelope_payload mp (r\<lparr>sr_balance_audit := AList.update ''signed_envelope'' e (sr_balance_audit r)\<rparr>)
    = settlement_envelope_payload mp r"
  by (simp add: settlement_envelope_payload_def jget_def dget_def update_conv Let_def)

lemma find_saved_audit:
  assumes "save_settlement_balance_audit r audit s = (Inr x, s')" "resolve_settlement i s = Some r"
  shows "x = r\<lparr>sr_balance_audit := audit\<rparr>"
proof -
  have "sr_settlement_id r = i" using resolve_settlement_Some [OF assms(2)] by simp
  then show ?thesis using assms
    by (auto simp: save_settlement_balance_audit_def resolve_settlement_def Let_def sbind_def save_settlements_def slift_def)
qed

definition empty_never_verifies :: "'a crypto_scheme \<Rightarrow> bool" where
  "empty_never_verifies C \<longleftrightarrow> (\<forall>k m. \<not> ed25519_verify C k [] m \<and> \<not> ed25519_verify C [] k m)
     \<and> (\<forall>k m. \<not> mldsa65_verify C k [] m \<and> \<not> mldsa65_verify C [] k m)"

definition envelope_status :: "SettlementRecord \<Rightarrow> json" where
  "envelope_status r = jget (obj_or_empty (jget (sr_balance_audit r) ''signed_envelope'')) ''status''"

definition with_envelope :: "obj \<Rightarrow> SettlementRecord \<Rightarrow> SettlementRecord" where
  "with_envelope e r = r\<lparr>sr_balance_audit := AList.update ''signed_envelope'' (JObj e) (sr_balance_audit r)\<rparr>"

lemma with_envelope_simps:
  "envelope_status (with_envelope e r) = jget e ''status''"
  "jget (sr_balance_audit (with_envelope e r)) ''signed_envelope'' = JObj e"
  "settlement_envelope_payload mp (with_envelope e r) = settlement_envelope_payload mp r"
  by (simp_all add: envelope_status_def with_envelope_def jget_update obj_or_empty_def envelope_payload_audit)

lemma verify_not_required: "\<not> truthy (jget e ''required'') \<Longrightarrow> fst (verify_settlement_envelope C mp (with_envelope e r))"
  by (simp add: verify_settlement_envelope_def with_envelope_simps)

lemma verify_without_key:
  "truthy (jget e ''required'') \<Longrightarrow> \<not> truthy (jget e ''public_key_b64'') \<Longrightarrow> \<not> fst (verify_settlement_envelope C mp (with_envelope e r))"
  by (auto simp: verify_settlement_envelope_def with_envelope_simps Let_def str_of_or_def)

lemma sign_envelope_fields:
  assumes "sign_envelope C L now payload hybrid signer e0 = Inr e"
  shows "\<exists>signature pq valid. jget e ''required'' = jget e0 ''required'' \<and> jget e ''scheme'' = jget e0 ''scheme''
    \<and> jget e ''payload_hash'' = jget e0 ''payload_hash''
    \<and> jget e ''public_key_b64'' = JStr (str_of_or (jget signer ''public_key_b64'') [])
    \<and> jget e ''signature_b64'' = JStr signature
    \<and> jget e ''status'' = JStr (if valid then ''signed'' else ''invalid'')
    \<and> (hybrid \<longrightarrow> jget e ''pq_scheme'' = JStr SIGNING_SCHEME_ML_DSA_65
        \<and> jget e ''pq_public_key_b64'' = JStr (str_of_or (jget signer ''pq_public_key_b64'') []) \<and> jget e ''pq_signature_b64'' = JStr pq
        \<and> valid = verify_hybrid_payload_signature C (str_of_or (jget signer ''public_key_b64'') []) signature
            (str_of_or (jget signer ''pq_public_key_b64'') []) pq (JObj payload))
    \<and> (\<not> hybrid \<longrightarrow> valid = verify_payload_signature C (str_of_or (jget signer ''public_key_b64'') []) signature (JObj payload))"
  using assms by (cases hybrid) (auto simp: sign_envelope_def Let_def rbind_Inr_iff set_status_def jget_update simp del: canonical.simps)

lemma verify_signed:
  assumes "sign_envelope C L now (settlement_envelope_payload mp r) hybrid signer e0 = Inr e" "empty_never_verifies C"
    and "jget e0 ''required'' = JBool True" "jget e0 ''payload_hash'' = JStr (settlement_envelope_hash C (settlement_envelope_payload mp r))"
    and "jget e0 ''scheme'' = JStr (if hybrid then SIGNING_SCHEME_HYBRID else SIGNING_SCHEME_ED25519)"
  shows "fst (verify_settlement_envelope C mp (with_envelope e r)) \<longleftrightarrow> jget e ''status'' = JStr ''signed''"
proof -
  have schemes: "SIGNING_SCHEME_ED25519 \<noteq> SIGNING_SCHEME_HYBRID" "SIGNING_SCHEME_ML_DSA_65 \<noteq> []"
    by (simp_all add: SIGNING_SCHEME_ED25519_def SIGNING_SCHEME_HYBRID_def SIGNING_SCHEME_ML_DSA_65_def)
  obtain signature pq valid where "jget e ''required'' = JBool True" "jget e ''payload_hash'' = JStr (settlement_envelope_hash C (settlement_envelope_payload mp r))"
    "jget e ''scheme'' = JStr (if hybrid then SIGNING_SCHEME_HYBRID else SIGNING_SCHEME_ED25519)"
    "jget e ''public_key_b64'' = JStr (str_of_or (jget signer ''public_key_b64'') [])" "jget e ''signature_b64'' = JStr signature"
    "jget e ''status'' = JStr (if valid then ''signed'' else ''invalid'')"
    "hybrid \<Longrightarrow> jget e ''pq_scheme'' = JStr SIGNING_SCHEME_ML_DSA_65
        \<and> jget e ''pq_public_key_b64'' = JStr (str_of_or (jget signer ''pq_public_key_b64'') []) \<and> jget e ''pq_signature_b64'' = JStr pq
        \<and> valid = verify_hybrid_payload_signature C (str_of_or (jget signer ''public_key_b64'') []) signature
            (str_of_or (jget signer ''pq_public_key_b64'') []) pq (JObj (settlement_envelope_payload mp r))"
    "\<not> hybrid \<Longrightarrow> valid = verify_payload_signature C (str_of_or (jget signer ''public_key_b64'') []) signature (JObj (settlement_envelope_payload mp r))"
    using sign_envelope_fields [OF assms(1)] assms(3-5) by auto
  then show ?thesis
    using assms(2) schemes
    by (cases hybrid) (auto simp: verify_settlement_envelope_def with_envelope_simps Let_def str_of_or_text empty_never_verifies_def
        verify_hybrid_payload_signature_def verify_payload_signature_def verify_payload_mldsa65_signature_def simp del: canonical.simps)
qed

text \<open>What \<open>sign_settlement_envelope\<close> can leave in the audit.\<close>

definition unsigned_outcome :: "obj \<Rightarrow> bool" where
  "unsigned_outcome e \<longleftrightarrow> \<not> truthy (jget e ''required'')
     \<and> jget e ''status'' \<in> {JStr ''source_wallet_not_found'', JStr ''legacy_wallet_unsigned''}"

definition refused_outcome :: "obj \<Rightarrow> bool" where
  "refused_outcome e \<longleftrightarrow> truthy (jget e ''required'') \<and> \<not> truthy (jget e ''public_key_b64'')
     \<and> jget e ''status'' \<in> JStr ` {''missing_unlocked_signer'', ''public_key_mismatch'', ''pq_public_key_mismatch'',
         ''source_wallet_address_mismatch''}"

definition signed_outcome :: "'a crypto_scheme \<Rightarrow> wallet_lib \<Rightarrow> string \<Rightarrow> MoneyPolicy \<Rightarrow> SettlementRecord \<Rightarrow> obj \<Rightarrow> bool" where
  "signed_outcome C L now mp r e \<longleftrightarrow> (\<exists>hybrid signer e0.
     sign_envelope C L now (settlement_envelope_payload mp r) hybrid signer e0 = Inr e
     \<and> jget e0 ''required'' = JBool True
     \<and> jget e0 ''payload_hash'' = JStr (settlement_envelope_hash C (settlement_envelope_payload mp r))
     \<and> jget e0 ''scheme'' = JStr (if hybrid then SIGNING_SCHEME_HYBRID else SIGNING_SCHEME_ED25519))"

lemmas envelope_fields = unsigned_envelope_def set_status_def jget_update jget_Cons unsigned_outcome_def refused_outcome_def

lemma saved_envelope:
  assumes "sbind (save_settlement_balance_audit r (AList.update ''signed_envelope'' (JObj e) (sr_balance_audit r)))
      (\<lambda>x. slift (Inr (Some x))) s = (Inr (Some x), s')" "resolve_settlement i s = Some r"
  shows "x = with_envelope e r"
  using assms find_saved_audit [OF _ assms(2)] by (auto simp: slift_def with_envelope_def)

lemma sign_settlement_cases:
  assumes "sign_settlement_envelope C L now mp i s = (Inr (Some x), s')"
  shows "\<exists>r e. x = with_envelope e r \<and> (unsigned_outcome e \<or> refused_outcome e \<or> signed_outcome C L now mp r e)"
proof -
  obtain r where r: "resolve_settlement i s = Some r"
    using assms by (cases "resolve_settlement i s") (auto simp: sign_settlement_envelope_def)
  let ?s1 = "s\<lparr>dd_wallets := map (\<lambda>w. w\<lparr>w_address := normalize_address (w_address w)\<rparr>) (dd_wallets s)\<rparr>"
  have r1: "resolve_settlement i ?s1 = Some r" using r by (simp add: resolve_settlement_def list_settlements_def)
  note saved = saved_envelope [OF _ r1]
  have find: "find_wallet_by_id (sr_source_wallet_id r) s = (Inr (find_by_id (sr_source_wallet_id r) (dd_wallets ?s1)), ?s1)"
    by (simp add: find_wallet_by_id_def sbind_def list_wallets_result slift_def)
  show ?thesis
  proof (cases "find_by_id (sr_source_wallet_id r) (dd_wallets ?s1)")
    case None
    with assms r find have "x = with_envelope (set_status ''source_wallet_not_found'' (unsigned_envelope C mp r)) r"
      by (intro saved) (simp add: sign_settlement_envelope_def sbind_def [of "find_wallet_by_id _"] Let_def)
    moreover have "unsigned_outcome (set_status ''source_wallet_not_found'' (unsigned_envelope C mp r))" by (simp add: envelope_fields)
    ultimately show ?thesis by blast
  next
    case (Some y)
    let ?e1 = "AList.update ''scheme'' (jopt (w_signing_scheme y)) (AList.update ''address_scheme'' (jopt (w_address_scheme y)) (unsigned_envelope C mp r))"
    let ?e2 = "AList.update ''required'' (JBool True) ?e1"
    let ?save = "\<lambda>e. sbind (save_settlement_balance_audit r (AList.update ''signed_envelope'' (JObj e) (sr_balance_audit r)))
        (\<lambda>x. slift (Inr (Some x))) ?s1 = (Inr (Some x), s')"
    have "?save (set_status ''legacy_wallet_unsigned'' ?e1) \<or> (\<exists>t. refused_outcome (set_status t ?e2) \<and> ?save (set_status t ?e2))
      \<or> (\<exists>signer e. (wallet_uses_ed25519 y \<or> wallet_uses_hybrid y) \<and> ?save e
          \<and> sign_envelope C L now (settlement_envelope_payload mp r) (wallet_uses_hybrid y) signer ?e2 = Inr e)"
      using assms r find Some
      by (simp add: sign_settlement_envelope_def sbind_def [of "find_wallet_by_id _"] Let_def split: option.splits if_splits)
        (auto simp: envelope_fields slift_def)
    then consider (legacy) "?save (set_status ''legacy_wallet_unsigned'' ?e1)"
      | (refused) t where "refused_outcome (set_status t ?e2)" "?save (set_status t ?e2)"
      | (signed) signer e where "wallet_uses_ed25519 y \<or> wallet_uses_hybrid y" "?save e"
          "sign_envelope C L now (settlement_envelope_payload mp r) (wallet_uses_hybrid y) signer ?e2 = Inr e" by blast
    then show ?thesis
    proof cases
      case legacy
      moreover have "unsigned_outcome (set_status ''legacy_wallet_unsigned'' ?e1)" by (simp add: envelope_fields)
      ultimately show ?thesis using saved by blast
    next
      case refused
      then show ?thesis using saved by blast
    next
      case signed
      then have "jget ?e2 ''scheme'' = JStr (if wallet_uses_hybrid y then SIGNING_SCHEME_HYBRID else SIGNING_SCHEME_ED25519)"
        by (auto simp: envelope_fields wallet_uses_hybrid_def wallet_uses_ed25519_def jopt_def)
      moreover have "jget ?e2 ''required'' = JBool True"
        "jget ?e2 ''payload_hash'' = JStr (settlement_envelope_hash C (settlement_envelope_payload mp r))"
        by (simp_all add: envelope_fields)
      ultimately have "signed_outcome C L now mp r e" using signed(3) unfolding signed_outcome_def by blast
      then show ?thesis using saved [OF signed(2)] by blast
    qed
  qed
qed

text \<open>
  C32. A settlement that the payer's wallet signed verifies, and only such a one or one that no
  wallet of the node can sign. After \<open>sign_settlement_envelope\<close>, \<open>verify_settlement_envelope\<close>
  accepts the stored settlement exactly if the envelope's status is \<open>signed\<close>, or the payer's
  wallet is unknown here or has no signing keys.
\<close>

theorem sign_then_verify:
  assumes "sign_settlement_envelope C L now mp i s = (Inr (Some x), s')" "empty_never_verifies C"
  shows "fst (verify_settlement_envelope C mp x) \<longleftrightarrow>
    envelope_status x \<in> {JStr ''signed'', JStr ''source_wallet_not_found'', JStr ''legacy_wallet_unsigned''}"
proof -
  obtain r e where x: "x = with_envelope e r" and "unsigned_outcome e \<or> refused_outcome e \<or> signed_outcome C L now mp r e"
    using sign_settlement_cases [OF assms(1)] by blast
  then consider "unsigned_outcome e" | "refused_outcome e" | "signed_outcome C L now mp r e" by blast
  then show ?thesis
  proof cases
    case 1
    then show ?thesis using verify_not_required by (auto simp: x with_envelope_simps unsigned_outcome_def)
  next
    case 2
    then show ?thesis using verify_without_key by (auto simp: x with_envelope_simps refused_outcome_def)
  next
    case 3
    then obtain hybrid signer e0 where sig: "sign_envelope C L now (settlement_envelope_payload mp r) hybrid signer e0 = Inr e"
      "jget e0 ''required'' = JBool True"
      "jget e0 ''payload_hash'' = JStr (settlement_envelope_hash C (settlement_envelope_payload mp r))"
      "jget e0 ''scheme'' = JStr (if hybrid then SIGNING_SCHEME_HYBRID else SIGNING_SCHEME_ED25519)"
      unfolding signed_outcome_def by blast
    have "jget e ''status'' \<in> {JStr ''signed'', JStr ''invalid''}" using sign_envelope_fields [OF sig(1)] by (auto split: if_splits)
    then show ?thesis using verify_signed [OF sig(1) assms(2) sig(2-4)] by (auto simp: x with_envelope_simps)
  qed
qed

definition demo_signer :: WalletRecord where
  "demo_signer = (demo_wallet ''alice'' 0)\<lparr>w_signing_scheme := Some SIGNING_SCHEME_ED25519,
     w_address_scheme := Some ADDRESS_SCHEME_ED25519, w_public_key_b64 := Some ''k''\<rparr>"

definition demo_crypto :: chain_env where
  "demo_crypto = demo_env\<lparr>ed25519_verify := (\<lambda>k s m. k = ''k'' \<and> s = ''seed''), mldsa65_verify := (\<lambda>k s m. False)\<rparr>"

definition demo_key :: obj where
  "demo_key = [(''wallet_id'', JStr ''alice''), (''address'', JStr ''alice''), (''public_key_b64'', JStr ''k''),
     (''signing_seed_b64'', JStr ''seed'')]"

definition demo_signed_dir :: settlement_dir where
  "demo_signed_dir = demo_settled\<lparr>dd_wallets := [demo_signer], dd_unlocked_key := Some demo_key\<rparr>"

lemma demo_signature:
  "\<exists>e'. sign_envelope demo_crypto demo_lib now payload False demo_key e = Inr e' \<and> jget e' ''status'' = JStr ''signed''"
  by (simp add: sign_envelope_def Let_def b64_bytes_def or_raise_def demo_lib_def demo_crypto_def demo_key_def set_status_def
      jget_update jget_Cons str_of_or_text verify_payload_signature_def del: canonical.simps)

lemma saved_envelope_ok:
  assumes "resolve_settlement i s = Some r"
  shows "\<exists>s'. sbind (save_settlement_balance_audit r (AList.update ''signed_envelope'' (JObj e) (sr_balance_audit r)))
      (\<lambda>x. slift (Inr (Some x))) s = (Inr (Some (with_envelope e r)), s')"
proof -
  have "sr_settlement_id r = i" using resolve_settlement_Some [OF assms] by simp
  then show ?thesis using assms
    by (auto simp: save_settlement_balance_audit_def resolve_settlement_def Let_def sbind_def save_settlements_def slift_def with_envelope_def)
qed

lemma demo_signing:
  "\<exists>x s'. sign_settlement_envelope demo_crypto demo_lib ''now'' demo_policy ''s1'' demo_signed_dir = (Inr (Some x), s')
    \<and> envelope_status x = JStr ''signed''"
proof -
  have found: "resolve_settlement ''s1'' demo_signed_dir = Some demo_settlement"
    and wallet: "find_wallet_by_id (sr_source_wallet_id demo_settlement) demo_signed_dir = (Inr (Some demo_signer), demo_signed_dir)"
    and key: "load_unlocked_signing_key demo_signer demo_signed_dir = Some demo_key"
    and scheme: "wallet_uses_ed25519 demo_signer" "\<not> wallet_uses_hybrid demo_signer"
    and same: "Some (str_of_or (jget demo_key ''public_key_b64'') []) = w_public_key_b64 demo_signer"
      "normalize_address (w_address demo_signer) = normalize_address (sr_source_wallet_address demo_settlement)"
    by code_simp+
  let ?e = "AList.update ''required'' (JBool True) (AList.update ''scheme'' (jopt (w_signing_scheme demo_signer))
    (AList.update ''address_scheme'' (jopt (w_address_scheme demo_signer)) (unsigned_envelope demo_crypto demo_policy demo_settlement)))"
  obtain e where e: "sign_envelope demo_crypto demo_lib ''now'' (settlement_envelope_payload demo_policy demo_settlement) False demo_key ?e
      = Inr e" "jget e ''status'' = JStr ''signed''"
    using demo_signature by blast
  obtain s' where "sbind (save_settlement_balance_audit demo_settlement
      (AList.update ''signed_envelope'' (JObj e) (sr_balance_audit demo_settlement)))
      (\<lambda>x. slift (Inr (Some x))) demo_signed_dir = (Inr (Some (with_envelope e demo_settlement)), s')"
    using saved_envelope_ok [OF found] by blast
  then have "sign_settlement_envelope demo_crypto demo_lib ''now'' demo_policy ''s1'' demo_signed_dir
      = (Inr (Some (with_envelope e demo_settlement)), s')"
    using e(1) found key scheme same
    by (simp add: sign_settlement_envelope_def sbind_def [of "find_wallet_by_id _"] sbind_def [of "slift _"] slift_def Let_def wallet)
  then show ?thesis using e(2) by (auto simp: with_envelope_simps)
qed

theorem sign_then_verify_witness:
  "\<exists>x s'. sign_settlement_envelope demo_crypto demo_lib ''now'' demo_policy ''s1'' demo_signed_dir = (Inr (Some x), s')
    \<and> fst (verify_settlement_envelope demo_crypto demo_policy x)"
proof -
  have "empty_never_verifies demo_crypto" by (simp add: empty_never_verifies_def demo_crypto_def)
  then show ?thesis using demo_signing sign_then_verify [of demo_crypto demo_lib "''now''" demo_policy "''s1''" demo_signed_dir] by blast
qed

text \<open>
  C33. What \<open>verify_settlement_envelope\<close> does not check. A settlement with an empty envelope is
  accepted, whoever pays; and so is one that any key signed, whether or not the payer's address
  belongs to that key.
\<close>

theorem envelope_accepts_any_key:
  "verify_settlement_envelope C mp (with_envelope [] r) = (True, None)
   \<and> (verify_payload_signature C k sg (JObj (settlement_envelope_payload mp r)) \<and> k \<noteq> [] \<and> sg \<noteq> [] \<longrightarrow>
       verify_settlement_envelope C mp (with_envelope [(''required'', JBool True), (''public_key_b64'', JStr k),
         (''signature_b64'', JStr sg), (''scheme'', JStr SIGNING_SCHEME_ED25519),
         (''payload_hash'', JStr (settlement_envelope_hash C (settlement_envelope_payload mp r)))] r) = (True, None))"
  by (auto simp: SIGNING_SCHEME_ED25519_def SIGNING_SCHEME_HYBRID_def verify_settlement_envelope_def with_envelope_simps Let_def jget_Cons str_of_or_text)

theorem envelope_accepts_any_key_witness:
  "verify_settlement_envelope demo_crypto demo_policy (with_envelope [(''required'', JBool True), (''public_key_b64'', JStr ''k''),
     (''signature_b64'', JStr ''seed''), (''scheme'', JStr SIGNING_SCHEME_ED25519), (''payload_hash'',
       JStr (settlement_envelope_hash demo_crypto (settlement_envelope_payload demo_policy demo_settlement)))] demo_settlement) = (True, None)"
proof -
  have "verify_payload_signature demo_crypto ''k'' ''seed'' (JObj (settlement_envelope_payload demo_policy demo_settlement))"
    by (simp add: verify_payload_signature_def demo_crypto_def del: canonical.simps)
  then show ?thesis using envelope_accepts_any_key [of demo_crypto demo_policy demo_settlement "''k''" "''seed''"] by simp
qed

end
