(* ===== verification/EventBuffer.thy ===== *)
theory EventBuffer
  imports Prelude
begin

text \<open>
  The buffers that put events back into the order of their indices
  (\<open>cai/src/cai/utils/event_buffer.py\<close>). A dictionary is an association list; the loop of
  \<open>drain\<close> runs while the next index is stored, and every round removes an entry. An
  \<open>assert\<close> that fails is the error \<open>AssertionError\<close>.

  The interface of a resequencing buffer is the locale \<open>resequencer\<close>: whatever the order in
  which the entries of one log arrive, and however often, what has been released is a prefix of
  the log. Both buffers of the source interpret it.
\<close>

datatype runtime_error = AssertionError | IndexError | OverflowError | RtTypeError | RtValueError string | RtKeyError string

section \<open>One source\<close>

record 'a OrderedBuffer =
  ob_store :: "(int \<times> 'a) list"
  ob_next_idx_to_release :: int

definition new_ordered_buffer :: "'a OrderedBuffer" where
  "new_ordered_buffer = \<lparr>ob_store = [], ob_next_idx_to_release = 0\<rparr>"

definition ingest :: "int \<Rightarrow> 'a \<Rightarrow> 'a OrderedBuffer \<Rightarrow> (runtime_error, 'a OrderedBuffer) res" where
  "ingest idx t b =
    (if idx < ob_next_idx_to_release b then Inr b
     else case map_of (ob_store b) idx of
       Some t' \<Rightarrow> if t' = t then Inr b else Inl AssertionError
     | None \<Rightarrow> Inr (b\<lparr>ob_store := AList.update idx t (ob_store b)\<rparr>))"

text \<open>One round of the loop: the next entry and the buffer without it.\<close>

definition release :: "'a \<Rightarrow> 'a OrderedBuffer \<Rightarrow> 'a OrderedBuffer" where
  "release event b = b\<lparr>ob_store := AList.delete (ob_next_idx_to_release b) (ob_store b),
     ob_next_idx_to_release := ob_next_idx_to_release b + 1\<rparr>"

lemma length_delete_stored: "map_of d k = Some v \<Longrightarrow> length (AList.delete k d) < length d"
  by (induction d) (auto simp: AList.delete_eq length_filter_le less_Suc_eq_le split: if_splits)

function drain_indexed :: "'a OrderedBuffer \<Rightarrow> (int \<times> 'a) list \<times> 'a OrderedBuffer" where
  "drain_indexed b =
    (case map_of (ob_store b) (ob_next_idx_to_release b) of
       None \<Rightarrow> ([], b)
     | Some event \<Rightarrow>
         (let (ret, b') = drain_indexed (release event b) in ((ob_next_idx_to_release b, event) # ret, b')))"
  by pat_completeness auto
termination
  by (relation "measure (\<lambda>b. length (ob_store b))") (auto simp: release_def length_delete_stored)

declare drain_indexed.simps [simp del]

definition drain :: "'a OrderedBuffer \<Rightarrow> 'a list \<times> 'a OrderedBuffer" where
  "drain b = (let (ret, b') = drain_indexed b in (map snd ret, b'))"

section \<open>Several sources\<close>

type_synonym ('s, 'a) MultiSourceBuffer = "('s \<times> 'a OrderedBuffer) list"

definition multi_ingest ::
  "int \<Rightarrow> 'a \<Rightarrow> 's \<Rightarrow> ('s, 'a) MultiSourceBuffer \<Rightarrow> (runtime_error, ('s, 'a) MultiSourceBuffer) res" where
  "multi_ingest idx t source stores =
    rbind (ingest idx t (dget stores source new_ordered_buffer)) (\<lambda>b. Inr (AList.update source b stores))"

fun multi_drain :: "('s, 'a) MultiSourceBuffer \<Rightarrow> 'a list \<times> ('s, 'a) MultiSourceBuffer" where
  "multi_drain [] = ([], [])"
| "multi_drain ((s, b) # stores) =
    (let (xs, b') = drain b; (ys, stores') = multi_drain stores in (xs @ ys, (s, b') # stores'))"

section \<open>The interface of a resequencing buffer\<close>

text \<open>
  \<open>rep ev b\<close>: everything in \<open>b\<close> comes from the log \<open>ev\<close>. \<open>released b\<close> is the number of entries given
  out, \<open>held b i\<close> says that entry \<open>i\<close> is stored or was given out.
\<close>

datatype buffer_op = Put nat | Take

fun run_buffer ::
  "(nat \<Rightarrow> 'a \<Rightarrow> 'b \<Rightarrow> (runtime_error, 'b) res) \<Rightarrow> ('b \<Rightarrow> 'a list \<times> 'b) \<Rightarrow> (nat \<Rightarrow> 'a) \<Rightarrow> buffer_op list \<Rightarrow> 'b
   \<Rightarrow> (runtime_error, 'a list \<times> 'b) res" where
  "run_buffer put give ev [] b = Inr ([], b)"
| "run_buffer put give ev (Put i # ops) b = rbind (put i (ev i) b) (run_buffer put give ev ops)"
| "run_buffer put give ev (Take # ops) b =
    (let (xs, b1) = give b in rbind (run_buffer put give ev ops b1) (\<lambda>(ys, b2). Inr (xs @ ys, b2)))"

locale resequencer =
  fixes put :: "nat \<Rightarrow> 'a \<Rightarrow> 'b \<Rightarrow> (runtime_error, 'b) res" and give :: "'b \<Rightarrow> 'a list \<times> 'b" and new :: 'b
    and rep :: "(nat \<Rightarrow> 'a) \<Rightarrow> 'b \<Rightarrow> bool" and released :: "'b \<Rightarrow> nat" and held :: "'b \<Rightarrow> nat \<Rightarrow> bool"
  assumes new: "rep ev new" "released new = 0" "\<not> held new i"
    and put: "rep ev b \<Longrightarrow> \<exists>b'. put i (ev i) b = Inr b' \<and> rep ev b' \<and> released b' = released b
      \<and> (\<forall>j. held b' j \<longleftrightarrow> held b j \<or> j = i)"
    and give: "rep ev b \<Longrightarrow> \<exists>b'. give b = (map ev [released b ..< released b'], b') \<and> rep ev b' \<and> released b \<le> released b'
      \<and> (\<forall>j. held b' j \<longleftrightarrow> held b j) \<and> \<not> held b' (released b')"
    and held: "rep ev b \<Longrightarrow> i < released b \<Longrightarrow> held b i"
begin

lemma run_releases_prefix:
  "rep ev b \<Longrightarrow> \<exists>b'. run_buffer put give ev ops b = Inr (map ev [released b ..< released b'], b') \<and> rep ev b'
    \<and> released b \<le> released b' \<and> (\<forall>j. held b' j \<longleftrightarrow> held b j \<or> Put j \<in> set ops)"
proof (induction ops arbitrary: b)
  case (Cons x ops)
  show ?case
  proof (cases x)
    case (Put i)
    obtain b1 where b1: "put i (ev i) b = Inr b1" "rep ev b1" "released b1 = released b" "\<forall>j. held b1 j \<longleftrightarrow> held b j \<or> j = i"
      using put [OF Cons.prems] by blast
    then show ?thesis using Cons.IH [OF b1(2)] Put by auto
  next
    case Take
    obtain b1 where b1: "give b = (map ev [released b ..< released b1], b1)" "rep ev b1" "released b \<le> released b1"
      "\<forall>j. held b1 j \<longleftrightarrow> held b j" using give [OF Cons.prems] by blast
    obtain b2 where b2: "run_buffer put give ev ops b1 = Inr (map ev [released b1 ..< released b2], b2)" "rep ev b2"
      "released b1 \<le> released b2" "\<forall>j. held b2 j \<longleftrightarrow> held b1 j \<or> Put j \<in> set ops" using Cons.IH [OF b1(2)] by blast
    have "[released b ..< released b2] = [released b ..< released b1] @ [released b1 ..< released b2]"
      using b1(3) b2(3) by (metis le_add_diff_inverse upt_add_eq_append)
    then have "run_buffer put give ev (x # ops) b = Inr (map ev [released b ..< released b2], b2)"
      using b1(1) b2(1) Take by simp
    then show ?thesis using b1(3,4) b2 Take by auto
  qed
qed auto

lemma run_delivers:
  "\<exists>n b. run_buffer put give ev (ops @ [Take]) new = Inr (map ev [0 ..< n], b)
    \<and> (\<forall>i < n. Put i \<in> set ops) \<and> Put n \<notin> set ops"
proof -
  obtain b where b: "run_buffer put give ev ops new = Inr (map ev [0 ..< released b], b)" "rep ev b"
    "\<forall>j. held b j \<longleftrightarrow> Put j \<in> set ops" using run_releases_prefix [OF new(1), of ev ops] new by auto
  obtain b' where b': "give b = (map ev [released b ..< released b'], b')" "rep ev b'" "released b \<le> released b'"
    "\<forall>j. held b' j \<longleftrightarrow> held b j" "\<not> held b' (released b')" using give [OF b(2)] by blast
  have app: "run_buffer put give ev (xs @ [Take]) c = rbind (run_buffer put give ev xs c) (\<lambda>(ys, c1).
      let (zs, c2) = give c1 in Inr (ys @ zs, c2))" for xs c
  proof (induction xs arbitrary: c)
    case (Cons x xs)
    then show ?case by (cases x) (auto simp: Let_def rbind_def split: sum.splits prod.splits)
  qed (simp split: prod.splits)
  have "[0 ..< released b'] = [0 ..< released b] @ [released b ..< released b']"
    using b'(3) by (metis le_add_diff_inverse upt_add_eq_append zero_le)
  then have "run_buffer put give ev (ops @ [Take]) new = Inr (map ev [0 ..< released b'], b')" using b(1) b'(1) by (simp add: app)
  then show ?thesis using b b' held by blast
qed

end

section \<open>OrderedBuffer is a resequencing buffer\<close>

definition buffered :: "(nat \<Rightarrow> 'a) \<Rightarrow> 'a OrderedBuffer \<Rightarrow> bool" where
  "buffered ev b \<longleftrightarrow> 0 \<le> ob_next_idx_to_release b
     \<and> (\<forall>(i, t) \<in> set (ob_store b). ob_next_idx_to_release b \<le> i \<and> t = ev (nat i))"

definition ob_released :: "'a OrderedBuffer \<Rightarrow> nat" where
  "ob_released b = nat (ob_next_idx_to_release b)"

definition ob_held :: "'a OrderedBuffer \<Rightarrow> nat \<Rightarrow> bool" where
  "ob_held b i \<longleftrightarrow> int i < ob_next_idx_to_release b \<or> map_of (ob_store b) (int i) \<noteq> None"

lemma ingest_buffered:
  assumes "buffered ev b"
  shows "\<exists>b'. ingest (int i) (ev i) b = Inr b' \<and> buffered ev b' \<and> ob_next_idx_to_release b' = ob_next_idx_to_release b
    \<and> (\<forall>j. ob_held b' j \<longleftrightarrow> ob_held b j \<or> j = i)"
proof (cases "int i < ob_next_idx_to_release b \<or> map_of (ob_store b) (int i) \<noteq> None")
  case True
  have "t = ev i" if "map_of (ob_store b) (int i) = Some t" for t
    using assms map_of_SomeD [OF that] by (auto simp: buffered_def)
  then have "ingest (int i) (ev i) b = Inr b" using True by (auto simp: ingest_def split: option.splits)
  then show ?thesis using True assms by (auto simp: ob_held_def)
next
  case False
  then have "ingest (int i) (ev i) b = Inr (b\<lparr>ob_store := AList.update (int i) (ev i) (ob_store b)\<rparr>)" by (simp add: ingest_def)
  moreover have "buffered ev (b\<lparr>ob_store := AList.update (int i) (ev i) (ob_store b)\<rparr>)"
    using False assms update_new [of "int i" "ob_store b" "ev i"] by (auto simp: buffered_def map_of_eq_None_iff)
  ultimately show ?thesis by (auto simp: ob_held_def update_conv)
qed

lemma release_buffered:
  assumes "buffered ev b" "map_of (ob_store b) (ob_next_idx_to_release b) = Some t"
  shows "t = ev (ob_released b)" "buffered ev (release t b)" "ob_released (release t b) = Suc (ob_released b)"
    "ob_held (release t b) j \<longleftrightarrow> ob_held b j"
proof -
  show "t = ev (ob_released b)" using assms(1) map_of_SomeD [OF assms(2)] by (auto simp: buffered_def ob_released_def)
  have "i = k \<or> k < i" if "(i, x) \<in> set (ob_store b)" "k = ob_next_idx_to_release b" for i x k
    using assms(1) that by (force simp: buffered_def)
  then show "buffered ev (release t b)" using assms(1) by (force simp: buffered_def release_def AList.delete_eq)
  show "ob_released (release t b) = Suc (ob_released b)" using assms(1) by (auto simp: buffered_def release_def ob_released_def nat_add_distrib)
  show "ob_held (release t b) j \<longleftrightarrow> ob_held b j" using assms(2) by (auto simp: ob_held_def release_def delete_conv)
qed

lemma drain_indexed_buffered:
  "buffered ev b \<Longrightarrow> \<exists>b'. drain_indexed b = (map (\<lambda>i. (int i, ev i)) [ob_released b ..< ob_released b'], b') \<and> buffered ev b'
    \<and> ob_released b \<le> ob_released b' \<and> (\<forall>j. ob_held b' j \<longleftrightarrow> ob_held b j) \<and> \<not> ob_held b' (ob_released b')"
proof (induction b rule: drain_indexed.induct)
  case (1 b)
  show ?case
  proof (cases "map_of (ob_store b) (ob_next_idx_to_release b)")
    case None
    then show ?thesis using "1.prems" by (auto simp: drain_indexed.simps ob_held_def ob_released_def buffered_def)
  next
    case (Some t)
    note r = release_buffered [OF "1.prems" Some]
    obtain b' where b': "drain_indexed (release t b) = (map (\<lambda>i. (int i, ev i)) [ob_released (release t b) ..< ob_released b'], b')"
      "buffered ev b'" "ob_released (release t b) \<le> ob_released b'" "\<forall>j. ob_held b' j \<longleftrightarrow> ob_held (release t b) j"
      "\<not> ob_held b' (ob_released b')" using "1.IH" [OF Some r(2)] by blast
    have "[ob_released b ..< ob_released b'] = ob_released b # [ob_released (release t b) ..< ob_released b']"
      using b'(3) by (simp add: r(3) upt_conv_Cons)
    moreover have "int (ob_released b) = ob_next_idx_to_release b" using "1.prems" by (simp add: ob_released_def buffered_def)
    ultimately have "drain_indexed b = (map (\<lambda>i. (int i, ev i)) [ob_released b ..< ob_released b'], b')"
      using Some b'(1) r(1) by (subst drain_indexed.simps) simp
    then show ?thesis using b'(2-5) r(3,4) by auto
  qed
qed

interpretation ordered_buffer: resequencer "\<lambda>i. ingest (int i)" drain new_ordered_buffer buffered ob_released ob_held
proof unfold_locales
  fix ev :: "nat \<Rightarrow> 'a" and b :: "'a OrderedBuffer" and i
  show "buffered ev new_ordered_buffer" "ob_released (new_ordered_buffer :: 'a OrderedBuffer) = 0" "\<not> ob_held (new_ordered_buffer :: 'a OrderedBuffer) i"
    by (simp_all add: buffered_def new_ordered_buffer_def ob_released_def ob_held_def)
  assume b: "buffered ev b"
  show "\<exists>b'. ingest (int i) (ev i) b = Inr b' \<and> buffered ev b' \<and> ob_released b' = ob_released b \<and> (\<forall>j. ob_held b' j = (ob_held b j \<or> j = i))"
    using ingest_buffered [OF b, of i] by (auto simp: ob_released_def)
  show "\<exists>b'. drain b = (map ev [ob_released b ..< ob_released b'], b') \<and> buffered ev b' \<and> ob_released b \<le> ob_released b'
      \<and> (\<forall>j. ob_held b' j = ob_held b j) \<and> \<not> ob_held b' (ob_released b')"
    using drain_indexed_buffered [OF b] by (auto simp: drain_def comp_def)
  show "i < ob_released b \<Longrightarrow> ob_held b i" by (auto simp: ob_released_def ob_held_def)
qed

end
