(* ===== verification/Shards.thy ===== *)
theory Shards
  imports PyValues EventBuffer
begin

text \<open>
  Model cards, shards and instances (\<open>shared/types/worker/shards.py\<close>, \<open>runners.py\<close>,
  \<open>instances.py\<close>) and the policy for models of the private network
  (\<open>shared/network_model_policy.py\<close>). Fields that the code below only carries along are kept
  as one JSON value. The environment variables are read through \<open>env\<close>; the number in
  \<open>CAI_PRIVATE_NETWORK_MODEL_MIN_RAM_HEADROOM_MB\<close> is turned into bytes by the parameter
  \<open>from_mb\<close> (\<open>None\<close> when \<open>float\<close> raises).
\<close>

section \<open>Data\<close>

record ModelCard =
  mc_model_id :: string
  mc_storage_size :: int
  mc_n_layers :: int
  mc_uses_cfg :: bool
  mc_is_custom :: bool
  mc_rest :: json

datatype Sharding = Tensor | Pipeline

datatype shard_kind =
    PipelineShardMetadata
  | CfgShardMetadata (cfg_rank: int) (cfg_world_size: int) (pipeline_rank: int) (pipeline_world_size: int)
  | TensorShardMetadata

record ShardMetadata =
  sh_kind :: shard_kind
  sh_model_card :: ModelCard
  sh_device_rank :: int
  sh_world_size :: int
  sh_start_layer :: int
  sh_end_layer :: int
  sh_n_layers :: int

record ShardAssignments =
  sa_model_id :: string
  sa_runner_to_shard :: "(string \<times> ShardMetadata) list"
  sa_node_to_runner :: "(string \<times> string) list"

definition validate_runners_exist :: "ShardAssignments \<Rightarrow> (runtime_error, ShardAssignments) res" where
  "validate_runners_exist a =
    (if list_all (\<lambda>(_, r). r \<in> fst ` set (sa_runner_to_shard a)) (sa_node_to_runner a) then Inr a
     else Inl (RtValueError ''runner in node_to_runner does not exist in runner_to_shard''))"

definition is_first_layer :: "ShardMetadata \<Rightarrow> bool" where
  "is_first_layer s \<longleftrightarrow> sh_start_layer s = 0"

definition is_last_layer :: "ShardMetadata \<Rightarrow> bool" where
  "is_last_layer s \<longleftrightarrow> sh_end_layer s = sh_n_layers s"

record Instance =
  in_instance_id :: string
  in_shard_assignments :: ShardAssignments
  in_rest :: json

section \<open>Models of the private network\<close>

record PrivateNetworkModelPolicy =
  pp_model_ids :: "string set"
  pp_minimum_nodes :: int
  pp_require_pipeline_sharding :: bool
  pp_disallow_single_node_fallback :: bool
  pp_allow_single_node_bootstrap :: bool
  pp_require_filtered_downloads :: bool
  pp_minimum_ram_headroom :: int
  pp_minimum_pipeline_layers_per_node :: int

definition DEFAULT_PRIVATE_NETWORK_MODEL_IDS :: "string set" where
  "DEFAULT_PRIVATE_NETWORK_MODEL_IDS = {''cai-network/Qwen3-0.6B-GGUF''}"

definition PRIVATE_NETWORK_DOWNLOAD_REPO_IDS :: "(string \<times> string) list" where
  "PRIVATE_NETWORK_DOWNLOAD_REPO_IDS = [(''cai-network/Qwen3-0.6B-GGUF'', ''Qwen/Qwen3-0.6B-GGUF'')]"

definition env_flag :: "(string \<Rightarrow> string option) \<Rightarrow> string \<Rightarrow> bool \<Rightarrow> bool" where
  "env_flag env name dflt = (case env name of None \<Rightarrow> dflt
     | Some raw \<Rightarrow> py_lower (py_strip raw) \<in> {''1'', ''true'', ''yes'', ''on''})"

fun split_commas :: "string \<Rightarrow> string list" where
  "split_commas [] = [[]]"
| "split_commas (c # cs) =
    (if c = CHR '','' then [] # split_commas cs
     else case split_commas cs of [] \<Rightarrow> [[c]] | p # ps \<Rightarrow> (c # p) # ps)"

definition env_model_ids :: "(string \<Rightarrow> string option) \<Rightarrow> string \<Rightarrow> string set \<Rightarrow> string set" where
  "env_model_ids env name dflt = (case env name of None \<Rightarrow> dflt
     | Some raw \<Rightarrow>
       if py_strip raw = [] then dflt
       else set (filter (\<lambda>t. t \<noteq> []) (map py_strip
         (split_commas (map (\<lambda>c. if c = CHR '';'' then CHR '','' else c) raw)))))"

definition int_at_least_one :: "string \<Rightarrow> int \<Rightarrow> int" where
  "int_at_least_one raw dflt = (case py_int_str raw of Inl _ \<Rightarrow> dflt | Inr n \<Rightarrow> max 1 n)"

definition env_or :: "(string \<Rightarrow> string option) \<Rightarrow> string \<Rightarrow> string \<Rightarrow> string" where
  "env_or env name dflt = (case env name of None \<Rightarrow> dflt | Some raw \<Rightarrow> raw)"

definition get_private_network_model_policy ::
  "(string \<Rightarrow> int option) \<Rightarrow> (string \<Rightarrow> string option) \<Rightarrow> PrivateNetworkModelPolicy" where
  "get_private_network_model_policy from_mb env =
    \<lparr>pp_model_ids = env_model_ids env ''CAI_PRIVATE_NETWORK_MODEL_IDS'' DEFAULT_PRIVATE_NETWORK_MODEL_IDS,
     pp_minimum_nodes = int_at_least_one (py_strip (env_or env ''CAI_PRIVATE_NETWORK_MODEL_MIN_NODES'' ''1'')) 1,
     pp_require_pipeline_sharding = env_flag env ''CAI_PRIVATE_NETWORK_MODEL_REQUIRE_PIPELINE'' True,
     pp_disallow_single_node_fallback = env_flag env ''CAI_PRIVATE_NETWORK_MODEL_DISABLE_SINGLE_NODE'' True,
     pp_allow_single_node_bootstrap = env_flag env ''CAI_PRIVATE_NETWORK_MODEL_ALLOW_BOOTSTRAP_SINGLE_NODE'' False,
     pp_require_filtered_downloads = env_flag env ''CAI_PRIVATE_NETWORK_MODEL_FILTERED_DOWNLOADS'' True,
     pp_minimum_ram_headroom = (case from_mb (py_strip (env_or env ''CAI_PRIVATE_NETWORK_MODEL_MIN_RAM_HEADROOM_MB'' ''0'')) of
        None \<Rightarrow> 0 | Some n \<Rightarrow> n),
     pp_minimum_pipeline_layers_per_node =
       int_at_least_one (py_strip (env_or env ''CAI_PRIVATE_NETWORK_MODEL_MIN_PIPELINE_LAYERS_PER_NODE'' ''2'')) 2\<rparr>"

definition is_private_network_model ::
  "PrivateNetworkModelPolicy \<Rightarrow> string \<Rightarrow> ModelCard option \<Rightarrow> bool \<Rightarrow> bool" where
  "is_private_network_model pol model_id mcard private_override \<longleftrightarrow>
    private_override \<or> (case mcard of None \<Rightarrow> False | Some c \<Rightarrow> mc_is_custom c) \<or> model_id \<in> pp_model_ids pol"

definition private_network_model_effective_min_nodes ::
  "PrivateNetworkModelPolicy \<Rightarrow> string \<Rightarrow> ModelCard option \<Rightarrow> bool \<Rightarrow> int option \<Rightarrow> int" where
  "private_network_model_effective_min_nodes pol model_id mcard private_override available_nodes =
    (if \<not> is_private_network_model pol model_id mcard private_override then 1
     else let minimum = max 1 (pp_minimum_nodes pol) in
       case available_nodes of
         Some n \<Rightarrow> if pp_allow_single_node_bootstrap pol \<and> 0 < n \<and> n < minimum then max 1 n else minimum
       | None \<Rightarrow> minimum)"

definition private_network_download_repo_id :: "string \<Rightarrow> string" where
  "private_network_download_repo_id model_id = dget PRIVATE_NETWORK_DOWNLOAD_REPO_IDS model_id model_id"

definition private_network_model_ram_headroom ::
  "PrivateNetworkModelPolicy \<Rightarrow> string \<Rightarrow> ModelCard option \<Rightarrow> bool \<Rightarrow> int" where
  "private_network_model_ram_headroom pol model_id mcard private_override =
    (if is_private_network_model pol model_id mcard private_override then pp_minimum_ram_headroom pol else 0)"

definition private_network_model_min_pipeline_layers_per_node ::
  "PrivateNetworkModelPolicy \<Rightarrow> string \<Rightarrow> ModelCard option \<Rightarrow> bool \<Rightarrow> int" where
  "private_network_model_min_pipeline_layers_per_node pol model_id mcard private_override =
    (if is_private_network_model pol model_id mcard private_override
     then max 1 (pp_minimum_pipeline_layers_per_node pol) else 1)"

definition enforce_private_network_model_request ::
  "PrivateNetworkModelPolicy \<Rightarrow> string \<Rightarrow> Sharding \<Rightarrow> int \<Rightarrow> ModelCard option \<Rightarrow> bool \<Rightarrow> int option
   \<Rightarrow> (runtime_error, Sharding \<times> int) res" where
  "enforce_private_network_model_request pol model_id sharding min_nodes mcard private_override available_nodes =
    (if \<not> is_private_network_model pol model_id mcard private_override then Inr (sharding, min_nodes)
     else if pp_require_pipeline_sharding pol \<and> sharding \<noteq> Pipeline
     then Inl (RtValueError ''private network model requires pipeline sharding'')
     else Inr (Pipeline, max min_nodes
       (private_network_model_effective_min_nodes pol model_id mcard private_override available_nodes)))"

definition validate_private_network_instance ::
  "PrivateNetworkModelPolicy \<Rightarrow> ShardAssignments \<Rightarrow> (runtime_error, unit) res" where
  "validate_private_network_instance pol a =
    (let shards = map snd (sa_runner_to_shard a);
         mcard = (case shards of [] \<Rightarrow> None | s # _ \<Rightarrow> Some (sh_model_card s));
         node_count = int (length (sa_node_to_runner a))
     in if \<not> is_private_network_model pol (sa_model_id a) mcard False then Inr ()
        else if node_count < pp_minimum_nodes pol \<and> \<not> (pp_allow_single_node_bootstrap pol \<and> node_count = 1)
        then Inl (RtValueError ''private network model requires more nodes'')
        else rfold (\<lambda>_ s.
          if pp_require_pipeline_sharding pol \<and> sh_kind s \<noteq> PipelineShardMetadata
          then Inl (RtValueError ''private network model requires pipeline shard metadata'')
          else if sh_kind s = PipelineShardMetadata
            \<and> sh_end_layer s - sh_start_layer s < pp_minimum_pipeline_layers_per_node pol
          then Inl (RtValueError ''private network model requires more pipeline layers per node'')
          else Inr ()) () shards)"

definition requires_filtered_downloads :: "PrivateNetworkModelPolicy \<Rightarrow> ShardMetadata \<Rightarrow> bool" where
  "requires_filtered_downloads pol s \<longleftrightarrow>
    is_private_network_model pol (mc_model_id (sh_model_card s)) (Some (sh_model_card s)) False
    \<and> pp_require_filtered_downloads pol"

definition validate_private_network_shard_download ::
  "PrivateNetworkModelPolicy \<Rightarrow> ShardMetadata \<Rightarrow> bool \<Rightarrow> (runtime_error, unit) res" where
  "validate_private_network_shard_download pol s skip_download =
    (if skip_download then Inr ()
     else if \<not> is_private_network_model pol (mc_model_id (sh_model_card s)) (Some (sh_model_card s)) False then Inr ()
     else if pp_require_pipeline_sharding pol \<and> sh_kind s \<noteq> PipelineShardMetadata
     then Inl (RtValueError ''private network model requires pipeline shard downloads'')
     else if pp_disallow_single_node_fallback pol \<and> sh_world_size s < pp_minimum_nodes pol
     then if pp_allow_single_node_bootstrap pol \<and> sh_world_size s = 1 then Inr ()
          else Inl (RtValueError ''private network model requires more distributed shards'')
     else Inr ())"

end
