(* ===== verification/Placement.thy ===== *)
theory Placement
  imports Shards
begin

text \<open>
  Which layers of a model run on which node (\<open>cai/src/cai/master/placement_utils.py\<close>): the
  largest-remainder allocation by available memory, the check that every node holds its part,
  and the shard assignments of pipeline, CFG and tensor parallel instances.

  Floats are rationals; every float operation ends in the rounding \<open>fl\<close>, a parameter, so
  \<open>x / y\<close> of the source is \<open>fl (x / y)\<close>. The \<open>while\<close> loop of the allocation is a partial
  function: a result \<open>None\<close> means that it does not return. \<open>RunnerId()\<close> draws the \<open>i\<close>-th
  identifier \<open>rid i\<close>. Memory is a number of bytes.
\<close>

section \<open>Choosing nodes by memory\<close>

record MemoryUsage =
  mu_ram_total :: int
  mu_ram_available :: int
  mu_swap_total :: int
  mu_swap_available :: int

type_synonym node_memory = "(string \<times> MemoryUsage) list"

definition ram_of :: "node_memory \<Rightarrow> string \<Rightarrow> (runtime_error, int) res" where
  "ram_of mem node = (case map_of mem node of None \<Rightarrow> Inl (RtKeyError node) | Some u \<Rightarrow> Inr (mu_ram_available u))"

definition filter_cycles_by_memory :: "string list list \<Rightarrow> node_memory \<Rightarrow> int \<Rightarrow> string list list" where
  "filter_cycles_by_memory cycles mem required =
    filter (\<lambda>nodes. list_all (\<lambda>x. x \<in> fst ` set mem) nodes
      \<and> required \<le> sum_list (map (\<lambda>x. case map_of mem x of None \<Rightarrow> 0 | Some u \<Rightarrow> mu_ram_available u) nodes)) cycles"

definition get_smallest_cycles :: "string list list \<Rightarrow> (runtime_error, string list list) res" where
  "get_smallest_cycles cycles =
    (if cycles = [] then Inl (RtValueError ''min() arg is an empty sequence'')
     else Inr (filter (\<lambda>c. length c = Min (length ` set cycles)) cycles))"

section \<open>Layers per node\<close>

text \<open>A computation that may not return: \<open>None\<close>.\<close>

type_synonym 'a run = "(runtime_error, 'a) res option"

definition tbind :: "'a run \<Rightarrow> ('a \<Rightarrow> 'b run) \<Rightarrow> 'b run" where
  "tbind m f = (case m of None \<Rightarrow> None | Some (Inl e) \<Rightarrow> Some (Inl e) | Some (Inr x) \<Rightarrow> f x)"

text \<open>\<open>max(xs, key=key)\<close>: the first of the largest.\<close>

definition first_max :: "('a \<Rightarrow> 'k::linorder) \<Rightarrow> 'a list \<Rightarrow> 'a" where
  "first_max key xs = foldl (\<lambda>best x. if key best < key x then x else best) (hd xs) (tl xs)"

definition add_remainder :: "int \<Rightarrow> nat list \<Rightarrow> int list \<Rightarrow> (runtime_error, int list) res" where
  "add_remainder k by_remainder result =
    rfold (\<lambda>res i. if i < length by_remainder
       then Inr (res[by_remainder ! i := res ! (by_remainder ! i) + 1]) else Inl IndexError) result [0 ..< nat k]"

definition share_layers :: "(rat \<Rightarrow> rat) \<Rightarrow> int \<Rightarrow> rat list \<Rightarrow> (runtime_error, int list) res" where
  "share_layers fl total_layers fractions =
    (let raw = map (\<lambda>f. fl (f * of_int total_layers)) fractions;
         result = map trunc_rat raw;
         by_remainder = sort_key (\<lambda>i. - fl (raw ! i - of_int (result ! i))) [0 ..< length fractions]
     in add_remainder (total_layers - sum_list result) by_remainder result)"

text \<open>\<open>while result[i] < minimum_layers_per_node\<close>\<close>

partial_function (option) fill_up :: "rat list \<Rightarrow> int \<Rightarrow> nat \<Rightarrow> int list \<Rightarrow> int list run" where
  "fill_up fractions m i result =
    (if m \<le> result ! i then Some (Inr result)
     else let donors = filter (\<lambda>j. j \<noteq> i \<and> m < result ! j) [0 ..< length result]
          in if donors = [] then Some (Inl (RtValueError ''Cannot satisfy minimum layer allocation for every node''))
             else let k = first_max (\<lambda>j. (result ! j - m, result ! j, fractions ! j)) donors;
                      taken = result[k := result ! k - 1]
                  in fill_up fractions m i (taken[i := taken ! i + 1]))"

declare fill_up.simps [code]

fun fill_all :: "rat list \<Rightarrow> int \<Rightarrow> nat list \<Rightarrow> int list \<Rightarrow> int list run" where
  "fill_all fractions m [] result = Some (Inr result)"
| "fill_all fractions m (i # is) result = tbind (fill_up fractions m i result) (fill_all fractions m is)"

definition allocate_layers_proportionally :: "(rat \<Rightarrow> rat) \<Rightarrow> int \<Rightarrow> rat list \<Rightarrow> int \<Rightarrow> int list run" where
  "allocate_layers_proportionally fl total_layers fractions minimum =
    (let n = length fractions; m = max 1 minimum
     in if n = 0 then Some (Inl (RtValueError ''Cannot allocate layers to an empty node list''))
        else if total_layers < int n * m then Some (Inl (RtValueError ''Cannot distribute layers across nodes''))
        else tbind (Some (share_layers fl total_layers fractions)) (fill_all fractions m [0 ..< n]))"

definition compute_total_memory :: "string list \<Rightarrow> node_memory \<Rightarrow> (runtime_error, int) res" where
  "compute_total_memory nodes mem =
    rbind (rmap (ram_of mem) nodes) (\<lambda>rams.
    if sum_list rams = 0 then Inl (RtValueError ''total available memory is 0'') else Inr (sum_list rams))"

definition allocate_and_validate_layers ::
  "(rat \<Rightarrow> rat) \<Rightarrow> PrivateNetworkModelPolicy \<Rightarrow> string list \<Rightarrow> node_memory \<Rightarrow> int \<Rightarrow> ModelCard \<Rightarrow> int list run" where
  "allocate_and_validate_layers fl pol nodes mem total_memory mcard =
    tbind (Some (rmap (ram_of mem) nodes)) (\<lambda>rams.
    tbind (allocate_layers_proportionally fl (mc_n_layers mcard) (map (\<lambda>a. fl (of_int a / of_int total_memory)) rams)
      (private_network_model_min_pipeline_layers_per_node pol (mc_model_id mcard) (Some mcard) False)) (\<lambda>allocs.
    if list_all2 (\<lambda>layers ram. mc_storage_size mcard * layers div mc_n_layers mcard \<le> ram) allocs rams
    then Some (Inr allocs) else Some (Inl (RtValueError ''insufficient memory''))))"

section \<open>Shard assignments\<close>

definition validate_cycle :: "string list \<Rightarrow> (runtime_error, unit) res" where
  "validate_cycle nodes =
    (if nodes = [] then Inl (RtValueError ''Cannot create shard assignments for empty node cycle'') else Inr ())"

text \<open>One runner per node of the cycle, in order.\<close>

definition assign :: "(nat \<Rightarrow> string) \<Rightarrow> (nat \<Rightarrow> ShardMetadata) \<Rightarrow> string list \<Rightarrow> string \<Rightarrow> ShardAssignments" where
  "assign rid shard nodes model_id =
    \<lparr>sa_model_id = model_id,
     sa_runner_to_shard = foldl (\<lambda>d i. AList.update (rid i) (shard i) d) [] [0 ..< length nodes],
     sa_node_to_runner = foldl (\<lambda>d i. AList.update (nodes ! i) (rid i) d) [] [0 ..< length nodes]\<rparr>"

definition make_shard :: "shard_kind \<Rightarrow> ModelCard \<Rightarrow> nat \<Rightarrow> nat \<Rightarrow> int \<Rightarrow> int \<Rightarrow> ShardMetadata" where
  "make_shard kind mcard rank world start_layer end_layer =
    \<lparr>sh_kind = kind, sh_model_card = mcard, sh_device_rank = int rank, sh_world_size = int world,
     sh_start_layer = start_layer, sh_end_layer = end_layer, sh_n_layers = mc_n_layers mcard\<rparr>"

definition layers_before :: "int list \<Rightarrow> nat \<Rightarrow> int" where
  "layers_before allocs rank = sum_list (take rank allocs)"

definition get_shard_assignments_for_pure_pipeline ::
  "(rat \<Rightarrow> rat) \<Rightarrow> PrivateNetworkModelPolicy \<Rightarrow> (nat \<Rightarrow> string) \<Rightarrow> ModelCard \<Rightarrow> string list \<Rightarrow> node_memory \<Rightarrow> ShardAssignments run" where
  "get_shard_assignments_for_pure_pipeline fl pol rid mcard nodes mem =
    tbind (Some (validate_cycle nodes)) (\<lambda>_.
    tbind (Some (compute_total_memory nodes mem)) (\<lambda>total_memory.
    tbind (allocate_and_validate_layers fl pol nodes mem total_memory mcard) (\<lambda>allocs.
    Some (validate_runners_exist (assign rid
      (\<lambda>rank. make_shard PipelineShardMetadata mcard rank (length nodes)
         (layers_before allocs rank) (layers_before allocs rank + allocs ! rank))
      nodes (mc_model_id mcard))))))"

text \<open>The position of a device in the two rings: group 0 ascending, group 1 descending.\<close>

definition position_to_cfg_pipeline :: "nat \<Rightarrow> nat \<Rightarrow> nat \<times> nat" where
  "position_to_cfg_pipeline pipeline_world rank =
    (map (Pair 0) [0 ..< pipeline_world] @ map (Pair 1) (rev [0 ..< pipeline_world])) ! rank"

definition get_shard_assignments_for_cfg_parallel ::
  "(rat \<Rightarrow> rat) \<Rightarrow> PrivateNetworkModelPolicy \<Rightarrow> (nat \<Rightarrow> string) \<Rightarrow> ModelCard \<Rightarrow> string list \<Rightarrow> node_memory \<Rightarrow> ShardAssignments run" where
  "get_shard_assignments_for_cfg_parallel fl pol rid mcard nodes mem =
    (let pipeline_world = length nodes div 2; pipeline_nodes = take pipeline_world nodes in
    tbind (Some (validate_cycle nodes)) (\<lambda>_.
    tbind (Some (compute_total_memory pipeline_nodes mem)) (\<lambda>pipeline_memory.
    tbind (allocate_and_validate_layers fl pol pipeline_nodes mem pipeline_memory mcard) (\<lambda>allocs.
    Some (validate_runners_exist (assign rid
      (\<lambda>rank. let (group_rank, stage) = position_to_cfg_pipeline pipeline_world rank
         in make_shard (CfgShardMetadata (int group_rank) 2 (int stage) (int pipeline_world)) mcard rank (length nodes)
              (layers_before allocs stage) (layers_before allocs stage + allocs ! stage))
      nodes (mc_model_id mcard)))))))"

definition get_shard_assignments_for_pipeline_parallel ::
  "(rat \<Rightarrow> rat) \<Rightarrow> PrivateNetworkModelPolicy \<Rightarrow> (nat \<Rightarrow> string) \<Rightarrow> ModelCard \<Rightarrow> string list \<Rightarrow> node_memory \<Rightarrow> ShardAssignments run" where
  "get_shard_assignments_for_pipeline_parallel fl pol rid mcard nodes mem =
    (if mc_uses_cfg mcard \<and> 2 \<le> length nodes \<and> even (length nodes)
     then get_shard_assignments_for_cfg_parallel fl pol rid mcard nodes mem
     else get_shard_assignments_for_pure_pipeline fl pol rid mcard nodes mem)"

definition get_shard_assignments_for_tensor_parallel ::
  "(nat \<Rightarrow> string) \<Rightarrow> ModelCard \<Rightarrow> string list \<Rightarrow> (runtime_error, ShardAssignments) res" where
  "get_shard_assignments_for_tensor_parallel rid mcard nodes =
    validate_runners_exist (assign rid
      (\<lambda>rank. make_shard TensorShardMetadata mcard rank (length nodes) 0 (mc_n_layers mcard)) nodes (mc_model_id mcard))"

definition get_shard_assignments ::
  "(rat \<Rightarrow> rat) \<Rightarrow> PrivateNetworkModelPolicy \<Rightarrow> (nat \<Rightarrow> string) \<Rightarrow> ModelCard \<Rightarrow> string list \<Rightarrow> Sharding \<Rightarrow> node_memory
   \<Rightarrow> ShardAssignments run" where
  "get_shard_assignments fl pol rid mcard nodes sharding mem =
    (case sharding of
       Pipeline \<Rightarrow> get_shard_assignments_for_pipeline_parallel fl pol rid mcard nodes mem
     | Tensor \<Rightarrow> Some (get_shard_assignments_for_tensor_parallel rid mcard nodes))"

end
