(* ===== verification/PlacementProps.thy ===== *)
theory PlacementProps
  imports Placement
begin

text \<open>
  The layer allocation returns, loses no layer and respects the minimum per node, for the
  rounding of IEEE doubles; the shards of a pipeline cover the layers of the model in order.
\<close>

section \<open>The remainder and the loop\<close>

lemma sum_list_update_int: "i < length xs \<Longrightarrow> sum_list (xs[i := v]) = sum_list xs - xs ! i + (v::int)"
  by (induction xs arbitrary: i) (auto split: nat.splits)

lemma add_remainder_ok:
  assumes "k \<le> length order" "\<forall>i \<in> set order. i < length result"
  shows "\<exists>r. add_remainder (int k) order result = Inr r \<and> length r = length result
    \<and> sum_list r = sum_list result + int k"
  using assms(1)
proof (induction k)
  case 0
  then show ?case by (simp add: add_remainder_def)
next
  case (Suc k)
  then obtain r where r: "add_remainder (int k) order result = Inr r" "length r = length result"
    "sum_list r = sum_list result + int k" by auto
  have "order ! k < length r" using assms(2) Suc.prems r(2) by auto
  moreover have "add_remainder (int (Suc k)) order result = Inr (r[order ! k := r ! (order ! k) + 1])"
    using r(1) Suc.prems by (simp add: add_remainder_def nat_add_distrib rfold_append)
  ultimately show ?case using r by (simp add: sum_list_update_int)
qed

lemma first_max_in: "xs \<noteq> [] \<Longrightarrow> first_max key xs \<in> set xs"
proof -
  have "foldl (\<lambda>best x. if key best < key x then x else best) a ys \<in> insert a (set ys)" for a ys
    by (induction ys arbitrary: a) (simp, force)
  then show "xs \<noteq> [] \<Longrightarrow> ?thesis" by (cases xs) (auto simp: first_max_def)
qed

lemma sum_list_le_const: "\<forall>x \<in> set xs. x \<le> m \<Longrightarrow> sum_list xs \<le> int (length xs) * m"
  by (induction xs) (auto simp: algebra_simps)

lemma donor_exists:
  assumes "i < length xs" "xs ! i < m" "int (length xs) * m \<le> sum_list xs"
  shows "filter (\<lambda>j. j \<noteq> i \<and> m < xs ! j) [0 ..< length xs] \<noteq> []"
proof
  assume "filter (\<lambda>j. j \<noteq> i \<and> m < xs ! j) [0 ..< length xs] = []"
  then have small: "\<forall>j < length xs. xs ! j \<le> m" using assms(2) by (force simp: filter_empty_conv not_less)
  have "\<forall>x \<in> set (xs[i := m]). x \<le> m" using small assms(1) by (auto simp: set_conv_nth nth_list_update)
  then have "sum_list (xs[i := m]) \<le> int (length xs) * m" using sum_list_le_const by fastforce
  then show False using assms by (simp add: sum_list_update_int)
qed

text \<open>One round: a layer moves from a node above the minimum to node \<open>i\<close>.\<close>

lemma fill_up_step:
  assumes "i < length result" "result ! i < m" "int (length result) * m \<le> sum_list result"
  obtains new where "fill_up fractions m i result = fill_up fractions m i new" "length new = length result"
    "sum_list new = sum_list result" "new ! i = result ! i + 1" "\<forall>j < length result. m \<le> result ! j \<longrightarrow> m \<le> new ! j"
proof -
  define donors where "donors = filter (\<lambda>j. j \<noteq> i \<and> m < result ! j) [0 ..< length result]"
  define k where "k = first_max (\<lambda>j. (result ! j - m, result ! j, fractions ! j)) donors"
  define new where "new = (result[k := result ! k - 1])[i := result ! i + 1]"
  have some: "donors \<noteq> []" unfolding donors_def using donor_exists [OF assms] .
  then have "k \<in> set donors" unfolding k_def by (rule first_max_in)
  then have k: "k < length result" "k \<noteq> i" "m < result ! k" by (auto simp: donors_def)
  have "fill_up fractions m i result = fill_up fractions m i new"
    using assms(2) some k by (subst fill_up.simps) (simp add: Let_def new_def flip: donors_def k_def)
  moreover have "sum_list new = sum_list result" using k assms(1) by (simp add: new_def sum_list_update_int)
  moreover have "new ! i = result ! i + 1" using k assms(1) by (simp add: new_def)
  moreover have "\<forall>j < length result. m \<le> result ! j \<longrightarrow> m \<le> new ! j"
    using k assms(1) by (auto simp: new_def nth_list_update)
  ultimately show thesis using that [of new] by (simp add: new_def)
qed

lemma fill_up_returns:
  assumes "i < length result" "int (length result) * m \<le> sum_list result"
  shows "\<exists>r. fill_up fractions m i result = Some (Inr r) \<and> length r = length result \<and> sum_list r = sum_list result
    \<and> m \<le> r ! i \<and> (\<forall>j < length result. m \<le> result ! j \<longrightarrow> m \<le> r ! j)"
  using assms
proof (induction "nat (m - result ! i)" arbitrary: result)
  case 0
  then show ?case by (subst fill_up.simps) simp
next
  case (Suc d)
  have less: "result ! i < m" using Suc.hyps(2) by simp
  obtain new where new: "fill_up fractions m i result = fill_up fractions m i new" "length new = length result"
    "sum_list new = sum_list result" "new ! i = result ! i + 1" "\<forall>j < length result. m \<le> result ! j \<longrightarrow> m \<le> new ! j"
    using fill_up_step [OF Suc.prems(1) less Suc.prems(2)] by blast
  have "d = nat (m - new ! i)" using Suc.hyps(2) less new(4) by simp
  then obtain r where r: "fill_up fractions m i new = Some (Inr r)" "length r = length new" "sum_list r = sum_list new"
    "m \<le> r ! i" "\<forall>j < length new. m \<le> new ! j \<longrightarrow> m \<le> r ! j"
    using Suc.hyps(1) [of new] Suc.prems new(2,3) by auto
  then show ?case using new by auto
qed

lemma fill_all_returns:
  assumes "\<forall>i \<in> set is. i < length result" "int (length result) * m \<le> sum_list result"
  shows "\<exists>r. fill_all fractions m is result = Some (Inr r) \<and> length r = length result \<and> sum_list r = sum_list result
    \<and> (\<forall>j < length result. j \<in> set is \<or> m \<le> result ! j \<longrightarrow> m \<le> r ! j)"
  using assms
proof (induction "is" arbitrary: result)
  case Nil
  then show ?case by simp
next
  case (Cons i "is")
  obtain r where r: "fill_up fractions m i result = Some (Inr r)" "length r = length result" "sum_list r = sum_list result"
    "m \<le> r ! i" "\<forall>j < length result. m \<le> result ! j \<longrightarrow> m \<le> r ! j"
    using fill_up_returns [of i result m fractions] Cons.prems by auto
  obtain r' where "fill_all fractions m is r = Some (Inr r')" "length r' = length r" "sum_list r' = sum_list r"
    "\<forall>j < length r. j \<in> set is \<or> m \<le> r ! j \<longrightarrow> m \<le> r' ! j"
    using Cons.IH [of r] Cons.prems r by auto
  then show ?case using r by (auto simp: tbind_def)
qed

section \<open>Rounded fractions\<close>

text \<open>Rounding to the nearest IEEE double, away from underflow and overflow.\<close>

definition ieee_rounding :: "(rat \<Rightarrow> rat) \<Rightarrow> bool" where
  "ieee_rounding fl \<longleftrightarrow> fl 0 = 0 \<and> (\<forall>x. 1 / 2 ^ 1000 \<le> \<bar>x\<bar> \<and> \<bar>x\<bar> \<le> 2 ^ 1000 \<longrightarrow> \<bar>fl x - x\<bar> \<le> \<bar>x\<bar> / 2 ^ 53)"

lemma roundedD:
  assumes "ieee_rounding fl" "1 / 2 ^ 60 \<le> x" "x \<le> 2 ^ 60"
  shows "\<bar>fl x - x\<bar> \<le> x / 2 ^ 53"
proof -
  have "1 / 2 ^ 1000 \<le> (1::rat) / 2 ^ 60" "(2::rat) ^ 60 \<le> 2 ^ 1000" by (simp_all add: field_simps)
  then have "1 / 2 ^ 1000 \<le> \<bar>x\<bar>" "\<bar>x\<bar> \<le> 2 ^ 1000" "0 \<le> x" using assms(2,3) by (auto intro: order_trans)
  then show ?thesis using assms(1) unfolding ieee_rounding_def by (metis abs_of_nonneg)
qed

lemma share_error:
  assumes fl: "ieee_rounding fl" and a: "0 < a" "a \<le> T" and L: "0 < L" "L * T < 2 ^ 51"
  shows "\<bar>fl (fl (of_int a / of_int T) * of_int L) * of_int T - of_int (a * L)\<bar> < 1"
proof -
  define A :: rat where "A = of_int a"
  define D :: rat where "D = of_int T"
  define N :: rat where "N = of_int L"
  have "T * 1 \<le> T * L" "1 * L \<le> T * L" using a L by (auto intro: mult_left_mono mult_right_mono)
  then have "T < 2 ^ 51" "L < 2 ^ 51" using L(2) by (auto simp: mult.commute)
  then have b: "1 \<le> A" "A \<le> D" "1 \<le> D" "D \<le> 2 ^ 51" "1 \<le> N" "N \<le> 2 ^ 51" and nd: "N * D \<le> 2 ^ 51"
    using a L by (simp_all add: A_def D_def N_def flip: of_int_mult of_int_power)
  define q where "q = A / D"
  have q: "1 / 2 ^ 51 \<le> q" "q \<le> 1" using b by (simp_all add: q_def field_simps)
  have f: "\<bar>fl q - q\<bar> \<le> q / 2 ^ 53" using q by (intro roundedD [OF fl]) (auto intro: order_trans [OF _ q(1)] simp: field_simps)
  have "0 < q" by (rule less_le_trans [OF _ q(1)]) simp
  then have "q / 2 ^ 53 \<le> q / 2" by (intro divide_left_mono) auto
  then have "\<bar>fl q - q\<bar> \<le> q / 2" by (rule order_trans [OF f])
  then have fq: "q / 2 \<le> fl q" "fl q \<le> 2 * q" using \<open>0 < q\<close> by linarith+
  have g: "1 / 2 ^ 52 \<le> fl q * N" "fl q * N \<le> 2 * q * N"
  proof -
    have "1 / 2 ^ 52 * 1 \<le> fl q * N" using q fq b by (intro mult_mono) auto
    then show "1 / 2 ^ 52 \<le> fl q * N" by simp
    show "fl q * N \<le> 2 * q * N" using fq b by (intro mult_right_mono) auto
  qed
  have "2 * q * N \<le> 2 * 1 * 2 ^ 51" using q b by (intro mult_mono) auto
  then have r: "\<bar>fl (fl q * N) - fl q * N\<bar> \<le> fl q * N / 2 ^ 53"
    using g by (intro roundedD [OF fl]) (auto intro: order_trans [OF _ g(1)] order_trans [OF g(2)] simp: field_simps)
  have "\<bar>fl q * N - q * N\<bar> = \<bar>fl q - q\<bar> * N" using b by (simp add: abs_mult flip: left_diff_distrib)
  also have "\<dots> \<le> q / 2 ^ 53 * N" using f b by (intro mult_right_mono) auto
  finally have "\<bar>fl q * N - q * N\<bar> \<le> q * N / 2 ^ 53" by simp
  moreover have "fl q * N / 2 ^ 53 \<le> 2 * (q * N / 2 ^ 53)" using divide_right_mono [OF g(2), of "2 ^ 53"] by simp
  ultimately have "\<bar>fl (fl q * N) - q * N\<bar> \<le> 3 * (q * N / 2 ^ 53)" using r by linarith
  then have "\<bar>fl (fl q * N) - q * N\<bar> \<le> 3 * (q * N) / 2 ^ 53" by simp
  then have "\<bar>fl (fl q * N) - q * N\<bar> * D \<le> 3 * (q * N) / 2 ^ 53 * D" using b by (intro mult_right_mono) auto
  moreover have "\<bar>fl (fl q * N) - q * N\<bar> * D = \<bar>fl (fl q * N) * D - A * N\<bar>"
    using b by (simp add: q_def abs_mult flip: abs_mult_pos left_diff_distrib) (simp add: field_simps)
  moreover have "3 * (q * N) / 2 ^ 53 * D = 3 * (A * N) / 2 ^ 53" using b by (simp add: q_def)
  moreover have "A * N \<le> N * D" using b by (simp add: mult.commute)
  ultimately have "\<bar>fl (fl q * N) * D - A * N\<bar> \<le> 3 * (A * N) / 2 ^ 53" "A * N \<le> 2 ^ 51" using nd by (metis, linarith)
  then have "\<bar>fl (fl q * N) * D - A * N\<bar> \<le> 3 * 2 ^ 51 / 2 ^ 53" by (elim order_trans) (simp add: divide_right_mono)
  then show ?thesis by (simp add: q_def A_def D_def N_def)
qed

lemma layer_count_bounds:
  assumes "ieee_rounding fl" "0 \<le> a" "a \<le> T" "0 < T" "0 < L" "L * T < 2 ^ 51"
  defines "k \<equiv> trunc_rat (fl (fl (of_int a / of_int T) * of_int L))"
  shows "0 \<le> k" "k * T \<le> a * L" "a * L \<le> (k + 1) * T"
proof -
  let ?r = "fl (fl (of_int a / of_int T) * of_int L)"
  have "0 \<le> ?r \<and> \<bar>?r * of_int T - of_int (a * L)\<bar> < 1"
  proof (cases "a = 0")
    case True
    then show ?thesis using assms(1) by (simp add: ieee_rounding_def)
  next
    case False
    then have e: "\<bar>?r * of_int T - of_int (a * L)\<bar> < 1" using share_error assms(1-6) by simp
    have "1 * 1 \<le> a * L" using False assms(2,5) by (intro mult_mono) auto
    then have "(of_int 1 :: rat) \<le> of_int (a * L)" unfolding of_int_le_iff by simp
    then have "0 < ?r * of_int T" using e by simp
    then show ?thesis using e assms(4) by (simp add: zero_less_mult_iff)
  qed
  then have r: "0 \<le> ?r" and e: "\<bar>?r * of_int T - of_int (a * L)\<bar> < 1" by auto
  have k: "k = \<lfloor>?r\<rfloor>" using r by (simp add: k_def trunc_rat_def)
  then show "0 \<le> k" using r by simp
  have T: "0 \<le> (of_int T :: rat)" using assms(4) by simp
  have "of_int k * of_int T \<le> ?r * of_int T" unfolding k using T by (intro mult_right_mono) auto
  then have "of_int (k * T) < (of_int (a * L + 1) :: rat)" using e by simp
  then show "k * T \<le> a * L" unfolding of_int_less_iff by simp
  have "?r * of_int T \<le> (of_int k + 1) * of_int T" unfolding k using T by (intro mult_right_mono) linarith+
  then have "(of_int (a * L) :: rat) < of_int ((k + 1) * T + 1)" using e by simp
  then show "a * L \<le> (k + 1) * T" unfolding of_int_less_iff by simp
qed

lemma sum_layer_counts:
  assumes "\<forall>a \<in> set rams. k a * T \<le> a * L \<and> a * L \<le> (k a + 1) * (T::int)"
  shows "sum_list (map k rams) * T \<le> sum_list rams * L"
    "sum_list rams * L \<le> (sum_list (map k rams) + int (length rams)) * T"
  using assms by (induction rams) (auto simp: algebra_simps)

lemma share_layers_ok:
  assumes "ieee_rounding fl" "\<forall>a \<in> set rams. 0 \<le> a" "sum_list rams = T" "0 < T" "0 < L" "L * T < 2 ^ 51"
  shows "\<exists>r. share_layers fl L (map (\<lambda>a. fl (of_int a / of_int T)) rams) = Inr r \<and> length r = length rams \<and> sum_list r = L"
proof -
  define k where "k a = trunc_rat (fl (fl (of_int a / of_int T) * of_int L))" for a
  let ?fractions = "map (\<lambda>a. fl (of_int a / of_int T)) rams"
  let ?raw = "map (\<lambda>f. fl (f * of_int L)) ?fractions"
  let ?order = "sort_key (\<lambda>i. - fl (?raw ! i - of_int (map trunc_rat ?raw ! i))) [0 ..< length ?fractions]"
  have "a \<le> T" if "a \<in> set rams" for a using that assms(2,3) member_le_sum_list [of a rams] by (induction rams arbitrary: T) (auto intro: add_increasing sum_list_nonneg_int)
  then have "\<forall>a \<in> set rams. k a * T \<le> a * L \<and> a * L \<le> (k a + 1) * T"
    unfolding k_def using layer_count_bounds [OF assms(1) _ _ assms(4-6)] assms(2) by blast
  then have "sum_list (map k rams) * T \<le> T * L" "T * L \<le> (sum_list (map k rams) + int (length rams)) * T"
    using sum_layer_counts [of rams k T L] assms(3) by auto
  then have "sum_list (map k rams) \<le> L" "L \<le> sum_list (map k rams) + int (length rams)"
    using assms(4) by (simp_all add: mult.commute)
  moreover have result: "map trunc_rat ?raw = map k rams" by (simp add: k_def)
  ultimately have "\<exists>r. add_remainder (int (nat (L - sum_list (map k rams)))) ?order (map k rams) = Inr r
      \<and> length r = length (map k rams) \<and> sum_list r = sum_list (map k rams) + int (nat (L - sum_list (map k rams)))"
    by (intro add_remainder_ok) auto
  then show ?thesis using \<open>sum_list (map k rams) \<le> L\<close> by (simp add: share_layers_def Let_def comp_def k_def [abs_def])
qed

lemma allocation_ok:
  assumes "ieee_rounding fl" "rams \<noteq> []" "\<forall>a \<in> set rams. 0 \<le> a" "0 < sum_list rams"
    "int (length rams) * max 1 minimum \<le> L" "L * sum_list rams < 2 ^ 51"
  shows "\<exists>allocs. allocate_layers_proportionally fl L (map (\<lambda>a. fl (of_int a / of_int (sum_list rams))) rams) minimum
      = Some (Inr allocs)
    \<and> length allocs = length rams \<and> sum_list allocs = L \<and> (\<forall>x \<in> set allocs. max 1 minimum \<le> x)"
proof -
  let ?m = "max 1 minimum"
  let ?fractions = "map (\<lambda>a. fl (of_int a / of_int (sum_list rams))) rams"
  have "1 * 1 \<le> int (length rams) * ?m" using assms(2) by (intro mult_mono) (auto simp: Suc_le_eq)
  then have "0 < L" using assms(5) by simp
  then obtain r where r: "share_layers fl L ?fractions = Inr r" "length r = length rams" "sum_list r = L"
    using share_layers_ok [OF assms(1,3) refl assms(4)] assms(6) by blast
  obtain allocs where "fill_all ?fractions ?m [0 ..< length rams] r = Some (Inr allocs)" "length allocs = length r"
    "sum_list allocs = sum_list r" "\<forall>j < length r. ?m \<le> allocs ! j"
    using fill_all_returns [of "[0 ..< length rams]" r ?m ?fractions] r assms(5) by auto
  then show ?thesis using r assms(2,5)
    by (intro exI [of _ allocs]) (auto simp: allocate_layers_proportionally_def Let_def tbind_def in_set_conv_nth)
qed

section \<open>Termination\<close>

text \<open>
  C36. The layer allocation always returns. For any memories of the nodes, with the rounding of
  IEEE doubles, \<open>allocate_layers_proportionally\<close> terminates without an index error, every layer is
  given to exactly one node, and no node gets less than the minimum.
\<close>

theorem layer_allocation_returns:
  assumes "ieee_rounding fl" "rams \<noteq> []" "\<forall>a \<in> set rams. 0 \<le> a" "0 < sum_list rams"
    "int (length rams) * max 1 minimum \<le> L" "L * sum_list rams < 2 ^ 51"
  shows "\<exists>allocs. allocate_layers_proportionally fl L (map (\<lambda>a. fl (of_int a / of_int (sum_list rams))) rams) minimum
      = Some (Inr allocs)
    \<and> length allocs = length rams \<and> sum_list allocs = L \<and> (\<forall>x \<in> set allocs. max 1 minimum \<le> x)"
  using assms by (rule allocation_ok)

lemma ieee_rounding_exact: "ieee_rounding (\<lambda>x. x)"
  by (simp add: ieee_rounding_def)

theorem layer_allocation_returns_witness:
  "\<exists>allocs. allocate_layers_proportionally (\<lambda>x. x) 28 (map (\<lambda>a. of_int a / of_int 24) [16, 8, 0]) 2 = Some (Inr allocs)
    \<and> length allocs = 3 \<and> sum_list allocs = 28 \<and> (\<forall>x \<in> set allocs. 2 \<le> x)"
  using layer_allocation_returns [OF ieee_rounding_exact, of "[16, 8, 0]" 2 28] by (simp add: numeral_eq_Suc)

section \<open>Shards of a pipeline\<close>

lemma foldl_update_fresh:
  assumes "distinct (map k xs)" "\<forall>x \<in> set xs. k x \<notin> fst ` set d"
  shows "foldl (\<lambda>d i. AList.update (k i) (v i) d) d xs = d @ map (\<lambda>i. (k i, v i)) xs"
  using assms
proof (induction xs arbitrary: d)
  case (Cons x xs)
  then have "AList.update (k x) (v x) d = d @ [(k x, v x)]" by (intro update_new) auto
  moreover have "\<forall>y \<in> set xs. k y \<notin> fst ` set (d @ [(k x, v x)])" using Cons.prems by (auto simp: image_iff)
  ultimately show ?case using Cons.IH [of "d @ [(k x, v x)]"] Cons.prems(1) by simp
qed simp

lemma assign_fresh:
  assumes "inj rid" "distinct nodes"
  shows "sa_runner_to_shard (assign rid shard nodes mid) = map (\<lambda>i. (rid i, shard i)) [0 ..< length nodes]"
    "sa_node_to_runner (assign rid shard nodes mid) = map (\<lambda>i. (nodes ! i, rid i)) [0 ..< length nodes]"
    "validate_runners_exist (assign rid shard nodes mid) = Inr (assign rid shard nodes mid)"
proof -
  have d: "distinct (map rid [0 ..< length nodes])" using assms(1) by (auto simp: distinct_map inj_on_def inj_def)
  have n: "map ((!) nodes) [0 ..< length nodes] = nodes" by (rule map_nth)
  show 1: "sa_runner_to_shard (assign rid shard nodes mid) = map (\<lambda>i. (rid i, shard i)) [0 ..< length nodes]"
    using foldl_update_fresh [of rid "[0 ..< length nodes]" "[]" shard] d by (simp add: assign_def)
  show 2: "sa_node_to_runner (assign rid shard nodes mid) = map (\<lambda>i. (nodes ! i, rid i)) [0 ..< length nodes]"
    using foldl_update_fresh [of "(!) nodes" "[0 ..< length nodes]" "[]" rid] assms(2) n by (simp add: assign_def)
  show "validate_runners_exist (assign rid shard nodes mid) = Inr (assign rid shard nodes mid)"
    by (auto simp: validate_runners_exist_def 1 2 list_all_iff image_iff)
qed

text \<open>The layers a shard runs.\<close>

definition shard_layers :: "ShardMetadata \<Rightarrow> int list" where
  "shard_layers s = [sh_start_layer s .. sh_end_layer s - 1]"

lemma consecutive_layers:
  assumes "\<forall>x \<in> set allocs. 0 \<le> x"
  shows "concat (map (\<lambda>i. [layers_before allocs i .. layers_before allocs i + allocs ! i - 1]) [0 ..< length allocs])
    = [0 .. sum_list allocs - 1]"
  using assms
proof (induction allocs rule: rev_induct)
  case (snoc x xs)
  let ?f = "\<lambda>allocs i. [layers_before allocs i .. layers_before allocs i + allocs ! i - 1]"
  have "map (?f (xs @ [x])) [0 ..< length xs] = map (?f xs) [0 ..< length xs]"
    by (simp add: layers_before_def nth_append)
  then have "concat (map (?f (xs @ [x])) [0 ..< length xs]) = [0 .. sum_list xs - 1]" using snoc.IH snoc.prems by (metis in_set_conv_decomp_first set_append Un_iff)
  moreover have "?f (xs @ [x]) (length xs) = [sum_list xs .. sum_list xs + x - 1]" by (simp add: layers_before_def)
  moreover have "[0 .. sum_list xs - 1] @ [sum_list xs .. sum_list xs + x - 1] = [0 .. sum_list xs + x - 1]"
  proof (cases "x = 0")
    case False
    moreover have "0 \<le> sum_list xs" using snoc.prems by (intro sum_list_nonneg_int) auto
    ultimately show ?thesis using snoc.prems upto_split1 [of 0 "sum_list xs" "sum_list xs + x - 1"] by simp
  qed simp
  ultimately show ?case by simp
qed simp

lemma tbind_Some_Inr_iff: "tbind m f = Some (Inr y) \<longleftrightarrow> (\<exists>x. m = Some (Inr x) \<and> f x = Some (Inr y))"
  by (auto simp: tbind_def split: option.splits sum.splits)

definition pipeline_shard :: "ModelCard \<Rightarrow> nat \<Rightarrow> int list \<Rightarrow> nat \<Rightarrow> ShardMetadata" where
  "pipeline_shard mcard n allocs rank = make_shard PipelineShardMetadata mcard rank n
     (layers_before allocs rank) (layers_before allocs rank + allocs ! rank)"

lemma pure_pipeline_cases:
  assumes "get_shard_assignments_for_pure_pipeline fl pol rid mcard nodes mem = Some (Inr a)" "inj rid" "distinct nodes"
  obtains rams allocs where "rmap (ram_of mem) nodes = Inr rams" "nodes \<noteq> []" "sum_list rams \<noteq> 0"
    "compute_total_memory nodes mem = Inr (sum_list rams)"
    "allocate_layers_proportionally fl (mc_n_layers mcard) (map (\<lambda>r. fl (of_int r / of_int (sum_list rams))) rams)
      (private_network_model_min_pipeline_layers_per_node pol (mc_model_id mcard) (Some mcard) False) = Some (Inr allocs)"
    "list_all2 (\<lambda>layers ram. mc_storage_size mcard * layers div mc_n_layers mcard \<le> ram) allocs rams"
    "a = assign rid (pipeline_shard mcard (length nodes) allocs) nodes (mc_model_id mcard)"
  using assms(1) assign_fresh(3) [OF assms(2,3)]
  by (auto simp: get_shard_assignments_for_pure_pipeline_def tbind_Some_Inr_iff validate_cycle_def compute_total_memory_def
      allocate_and_validate_layers_def rbind_Inr_iff pipeline_shard_def [abs_def] split: if_splits)

lemma rfold_unit: "\<forall>x \<in> set xs. f () x = Inr () \<Longrightarrow> rfold f () xs = Inr ()"
  by (induction xs) auto

lemma pipeline_passes_policy:
  assumes "inj rid" "distinct nodes" "length allocs = length nodes" "nodes \<noteq> []" "pp_minimum_nodes pol \<le> int (length nodes)"
    "\<forall>x \<in> set allocs. private_network_model_min_pipeline_layers_per_node pol (mc_model_id mcard) (Some mcard) False \<le> x"
  shows "validate_private_network_instance pol (assign rid (pipeline_shard mcard (length nodes) allocs) nodes (mc_model_id mcard)) = Inr ()"
proof (cases "is_private_network_model pol (mc_model_id mcard) (Some mcard) False")
  case True
  let ?shards = "map (pipeline_shard mcard (length nodes) allocs) [0 ..< length nodes]"
  let ?check = "\<lambda>(_::unit) s. if pp_require_pipeline_sharding pol \<and> sh_kind s \<noteq> PipelineShardMetadata
      then Inl (RtValueError ''private network model requires pipeline shard metadata'')
      else if sh_kind s = PipelineShardMetadata \<and> sh_end_layer s - sh_start_layer s < pp_minimum_pipeline_layers_per_node pol
      then Inl (RtValueError ''private network model requires more pipeline layers per node'') else Inr ()"
  have "\<forall>i < length nodes. pp_minimum_pipeline_layers_per_node pol \<le> allocs ! i"
    using assms(3,6) True by (auto simp: private_network_model_min_pipeline_layers_per_node_def)
  then have "rfold ?check () ?shards = Inr ()"
    by (intro rfold_unit) (auto simp: pipeline_shard_def make_shard_def)
  moreover have "map snd (sa_runner_to_shard (assign rid (pipeline_shard mcard (length nodes) allocs) nodes (mc_model_id mcard))) = ?shards"
    "length (sa_node_to_runner (assign rid (pipeline_shard mcard (length nodes) allocs) nodes (mc_model_id mcard))) = length nodes"
    using assign_fresh [OF assms(1,2)] by simp_all
  ultimately show ?thesis using assms(5) unfolding validate_private_network_instance_def Let_def by simp
next
  case False
  have "map snd (sa_runner_to_shard (assign rid (pipeline_shard mcard (length nodes) allocs) nodes (mc_model_id mcard)))
    = pipeline_shard mcard (length nodes) allocs 0 # map (pipeline_shard mcard (length nodes) allocs) [1 ..< length nodes]"
    using assign_fresh(1) [OF assms(1,2)] assms(4) by (simp add: upt_conv_Cons)
  then show ?thesis using False
    by (simp add: validate_private_network_instance_def assign_def pipeline_shard_def make_shard_def)
qed

text \<open>
  C37. The shards of a pipeline cover the model. When the assignment succeeds, the shards in the
  order of the nodes run the layers \<open>0, 1, \<dots>\<close> up to the last without gap or overlap, each node
  has one runner and the memory for its layers, and with enough nodes the assignment passes the
  policy check of private network models.
\<close>

theorem pipeline_covers_layers:
  assumes run: "get_shard_assignments_for_pure_pipeline fl pol rid mcard nodes mem = Some (Inr a)"
    and "ieee_rounding fl" "inj rid" "distinct nodes" "\<forall>u \<in> set mem. 0 \<le> mu_ram_available (snd u)"
    and "\<forall>total_memory. compute_total_memory nodes mem = Inr total_memory \<longrightarrow> mc_n_layers mcard * total_memory < 2 ^ 51"
  shows "let shards = map snd (sa_runner_to_shard a) in
    concat (map shard_layers shards) = [0 .. mc_n_layers mcard - 1]
    \<and> map fst (sa_node_to_runner a) = nodes \<and> map snd (sa_node_to_runner a) = map fst (sa_runner_to_shard a)
    \<and> list_all2 (\<lambda>node s. \<exists>ram. ram_of mem node = Inr ram
        \<and> mc_storage_size mcard * int (length (shard_layers s)) div mc_n_layers mcard \<le> ram) nodes shards
    \<and> (pp_minimum_nodes pol \<le> int (length nodes) \<longrightarrow> validate_private_network_instance pol a = Inr ())"
proof -
  let ?min = "private_network_model_min_pipeline_layers_per_node pol (mc_model_id mcard) (Some mcard) False"
  obtain rams allocs where r: "rmap (ram_of mem) nodes = Inr rams" "nodes \<noteq> []" "sum_list rams \<noteq> 0"
    "compute_total_memory nodes mem = Inr (sum_list rams)"
    "allocate_layers_proportionally fl (mc_n_layers mcard) (map (\<lambda>r. fl (of_int r / of_int (sum_list rams))) rams) ?min = Some (Inr allocs)"
    "list_all2 (\<lambda>layers ram. mc_storage_size mcard * layers div mc_n_layers mcard \<le> ram) allocs rams"
    "a = assign rid (pipeline_shard mcard (length nodes) allocs) nodes (mc_model_id mcard)"
    using pure_pipeline_cases [OF run assms(3,4)] .
  have nth: "list_all2 (\<lambda>x y. ram_of mem x = Inr y) nodes rams" using r(1) by (simp add: rmap_Inr_iff)
  then have "\<forall>x \<in> set rams. 0 \<le> x" using assms(5)
    by (fastforce simp: ram_of_def list_all2_conv_all_nth in_set_conv_nth split: option.splits dest: map_of_SomeD)
  moreover from this have "0 < sum_list rams" using r(3) sum_list_nonneg_int [of rams] by force
  moreover have len: "length rams = length nodes" using nth by (simp add: list_all2_lengthD)
  moreover have "int (length rams) * max 1 ?min \<le> mc_n_layers mcard" "rams \<noteq> []" using r(2,5) len
    by (auto simp: allocate_layers_proportionally_def Let_def split: if_splits)
  ultimately have allocs: "length allocs = length nodes" "sum_list allocs = mc_n_layers mcard" "\<forall>x \<in> set allocs. max 1 ?min \<le> x"
    using allocation_ok [OF assms(2), of rams ?min "mc_n_layers mcard"] r(4,5) assms(6) by auto
  note fresh = assign_fresh [OF assms(3,4)]
  define shards where "shards = map snd (sa_runner_to_shard a)"
  have shards: "shards = map (pipeline_shard mcard (length nodes) allocs) [0 ..< length nodes]"
    by (simp add: shards_def r(7) fresh)
  have pos: "0 \<le> allocs ! i" if "i < length nodes" for i
    using bspec [OF allocs(3) nth_mem, of i] that allocs(1) by simp
  have "map shard_layers shards = map (\<lambda>i. [layers_before allocs i .. layers_before allocs i + allocs ! i - 1]) [0 ..< length allocs]"
    by (simp add: shards allocs(1) shard_layers_def pipeline_shard_def make_shard_def)
  then have "concat (map shard_layers shards) = [0 .. mc_n_layers mcard - 1]"
    using consecutive_layers [of allocs] allocs(2) pos allocs(1) by (simp add: all_set_conv_all_nth)
  moreover have "map fst (sa_node_to_runner a) = nodes \<and> map snd (sa_node_to_runner a) = map fst (sa_runner_to_shard a)"
    by (simp add: r(7) fresh map_nth comp_def)
  moreover have "list_all2 (\<lambda>node s. \<exists>ram. ram_of mem node = Inr ram
      \<and> mc_storage_size mcard * int (length (shard_layers s)) div mc_n_layers mcard \<le> ram) nodes shards"
    using nth r(6) pos
    by (auto simp: list_all2_conv_all_nth shards shard_layers_def pipeline_shard_def make_shard_def allocs(1) len)
  moreover have "pp_minimum_nodes pol \<le> int (length nodes) \<longrightarrow> validate_private_network_instance pol a = Inr ()"
    unfolding r(7) using pipeline_passes_policy [OF assms(3,4) allocs(1) r(2)] allocs(3) by simp
  ultimately show ?thesis unfolding Let_def shards_def by blast
qed

definition demo_private_policy :: PrivateNetworkModelPolicy where
  "demo_private_policy = get_private_network_model_policy (\<lambda>_. Some 0) (\<lambda>_. None)"

definition demo_card :: ModelCard where
  "demo_card = \<lparr>mc_model_id = ''cai-network/Qwen3-0.6B-GGUF'', mc_storage_size = 56, mc_n_layers = 28, mc_uses_cfg = False,
     mc_is_custom = False, mc_rest = JNull\<rparr>"

definition demo_node_memory :: node_memory where
  "demo_node_memory = map (\<lambda>(x, n). (x, \<lparr>mu_ram_total = n, mu_ram_available = n, mu_swap_total = 0, mu_swap_available = 0\<rparr>))
     [(''a'', 60), (''b'', 30)]"

abbreviation demo_rid :: "nat \<Rightarrow> string" where
  "demo_rid i \<equiv> replicate i CHR ''r''"

lemma demo_rid_inj: "inj demo_rid"
  by (rule injI) (metis length_replicate)

lemma demo_pipeline:
  "map_option (case_sum (\<lambda>_. []) (\<lambda>a. map (\<lambda>(_, s). (sh_start_layer s, sh_end_layer s)) (sa_runner_to_shard a)))
    (get_shard_assignments_for_pure_pipeline (\<lambda>x. x) demo_private_policy demo_rid demo_card [''a'', ''b''] demo_node_memory)
   = Some [(0, 19), (19, 28)]"
  "compute_total_memory [''a'', ''b''] demo_node_memory = Inr 90"
  by code_simp+

lemma returned_shards:
  assumes "map_option (case_sum (\<lambda>_. []) f) m = Some (y # ys)"
  obtains a where "m = Some (Inr a)"
  using assms by (auto split: sum.splits) (metis sum.exhaust)

theorem pipeline_covers_layers_witness:
  "\<exists>a. get_shard_assignments_for_pure_pipeline (\<lambda>x. x) demo_private_policy demo_rid demo_card [''a'', ''b''] demo_node_memory
      = Some (Inr a)
    \<and> concat (map shard_layers (map snd (sa_runner_to_shard a))) = [0 .. 27]
    \<and> validate_private_network_instance demo_private_policy a = Inr ()"
proof -
  obtain a where a: "get_shard_assignments_for_pure_pipeline (\<lambda>x. x) demo_private_policy demo_rid demo_card [''a'', ''b'']
      demo_node_memory = Some (Inr a)"
    using demo_pipeline(1) by (rule returned_shards)
  have "\<forall>u \<in> set demo_node_memory. 0 \<le> mu_ram_available (snd u)" "pp_minimum_nodes demo_private_policy \<le> 2" by code_simp+
  then show ?thesis using pipeline_covers_layers [OF a ieee_rounding_exact demo_rid_inj] a demo_pipeline(2)
    by (simp add: Let_def demo_card_def)
qed

section \<open>The second group of a CFG pair\<close>

text \<open>
  C38. CFG placement never looks at the memory of the second group. Two memory reports that agree
  on the first half of the nodes give the same assignment, whatever the nodes of the second half
  have, although they run the same layers.
\<close>

theorem cfg_ignores_second_group:
  assumes "\<forall>x \<in> set (take (length nodes div 2) nodes). map_of mem x = map_of mem' x"
  shows "get_shard_assignments_for_cfg_parallel fl pol rid mcard nodes mem
    = get_shard_assignments_for_cfg_parallel fl pol rid mcard nodes mem'"
proof -
  let ?first = "take (length nodes div 2) nodes"
  have "rmap (ram_of mem) xs = rmap (ram_of mem') xs" if "\<forall>x \<in> set xs. map_of mem x = map_of mem' x" for xs
    using that by (induction xs) (simp_all add: ram_of_def)
  then have "rmap (ram_of mem) ?first = rmap (ram_of mem') ?first" using assms by blast
  then have "compute_total_memory ?first mem = compute_total_memory ?first mem'"
    "allocate_and_validate_layers fl pol ?first mem n mcard = allocate_and_validate_layers fl pol ?first mem' n mcard" for n
    by (simp_all add: compute_total_memory_def allocate_and_validate_layers_def)
  then show ?thesis by (simp add: get_shard_assignments_for_cfg_parallel_def Let_def)
qed

definition demo_no_memory :: node_memory where
  "demo_no_memory = map (\<lambda>(x, u). (x, if x = ''b'' then u\<lparr>mu_ram_available := 0\<rparr> else u)) demo_node_memory"

lemma demo_cfg:
  "map_option (case_sum (\<lambda>_. []) (\<lambda>a. map (\<lambda>(_, s). (sh_start_layer s, sh_end_layer s)) (sa_runner_to_shard a)))
    (get_shard_assignments_for_cfg_parallel (\<lambda>x. x) demo_private_policy demo_rid demo_card [''a'', ''b''] demo_node_memory)
   = Some [(0, 28), (0, 28)]"
  "\<forall>x \<in> set (take (length [''a'', ''b''] div 2) [''a'', ''b'']). map_of demo_node_memory x = map_of demo_no_memory x"
  by code_simp+

theorem cfg_ignores_second_group_witness:
  "ram_of demo_no_memory ''b'' = Inr 0
   \<and> map_option (case_sum (\<lambda>_. []) (\<lambda>a. map (\<lambda>(_, s). (sh_start_layer s, sh_end_layer s)) (sa_runner_to_shard a)))
      (get_shard_assignments_for_cfg_parallel (\<lambda>x. x) demo_private_policy demo_rid demo_card [''a'', ''b''] demo_no_memory)
     = Some [(0, 28), (0, 28)]"
proof -
  have "ram_of demo_no_memory ''b'' = Inr 0" by code_simp
  then show ?thesis using cfg_ignores_second_group [OF demo_cfg(2), of "\<lambda>x. x" demo_private_policy demo_rid demo_card] demo_cfg(1) by simp
qed

end
