(* ===== verification/EventLog.thy ===== *)
theory EventLog
  imports EventBuffer "HOL-Library.Word"
begin

text \<open>
  The append-only event log on disk (\<open>cai/src/cai/utils/disk_event_log.py\<close>): a file of
  records, each four bytes of length (big-endian) and the packed event, and a bounded cache
  from event index to byte offset, least recently used first. A file handle is its position; a
  read returns what is left and moves the position. The packing of events is the pair of
  parameters \<open>ser\<close> and \<open>des\<close> (\<open>_serialize_event\<close>, \<open>_deserialize_event\<close>, both in terms of
  libraries). Rotation and compression of old files are not modelled.

  The interface the master uses is the locale \<open>event_log\<close>: a log is the list of the appended
  events, and a range read is a slice of it.
\<close>

type_synonym byte = "8 word"

definition HEADER_SIZE :: nat where "HEADER_SIZE = 4"
definition OFFSET_CACHE_SIZE :: nat where "OFFSET_CACHE_SIZE = 128"

section \<open>Records\<close>

definition pack_header :: "nat \<Rightarrow> (runtime_error, byte list) res" where
  "pack_header n = (if n < 2 ^ 32 then Inr (map (\<lambda>k. word_of_nat (n div 256 ^ k)) [3, 2, 1, 0])
     else Inl (RtValueError ''int too big to convert''))"

definition unpack_header :: "byte list \<Rightarrow> nat" where
  "unpack_header header = foldl (\<lambda>a b. a * 256 + unat b) 0 header"

definition file_read :: "byte list \<Rightarrow> nat \<Rightarrow> nat \<Rightarrow> byte list \<times> nat" where
  "file_read content pos n = (let chunk = take n (drop pos content) in (chunk, pos + length chunk))"

definition skip_record :: "byte list \<Rightarrow> nat \<Rightarrow> nat" where
  "skip_record content pos =
    (let (header, pos1) = file_read content pos HEADER_SIZE
     in if length header < HEADER_SIZE then pos1 else pos1 + unpack_header header)"

definition read_record ::
  "(byte list \<Rightarrow> (runtime_error, 'e) res) \<Rightarrow> byte list \<Rightarrow> nat \<Rightarrow> (runtime_error, 'e option \<times> nat) res" where
  "read_record des content pos =
    (let (header, pos1) = file_read content pos HEADER_SIZE
     in if length header < HEADER_SIZE then Inr (None, pos1)
        else let n = unpack_header header; (payload, pos2) = file_read content pos1 n
        in if length payload < n then Inr (None, pos2)
           else rbind (des payload) (\<lambda>e. Inr (Some e, pos2)))"

text \<open>\<open>for _ in range(n)\<close>: records until one is missing.\<close>

fun read_records ::
  "(byte list \<Rightarrow> (runtime_error, 'e) res) \<Rightarrow> byte list \<Rightarrow> nat \<Rightarrow> nat \<Rightarrow> (runtime_error, 'e list \<times> nat) res" where
  "read_records des content 0 pos = Inr ([], pos)"
| "read_records des content (Suc n) pos =
    rbind (read_record des content pos) (\<lambda>(e, pos1). case e of
      None \<Rightarrow> Inr ([], pos1)
    | Some ev \<Rightarrow> rbind (read_records des content n pos1) (\<lambda>(evs, pos2). Inr (ev # evs, pos2)))"

section \<open>The log\<close>

record DiskEventLog =
  dl_file :: "byte list"
  dl_count :: nat
  dl_offset_cache :: "(nat \<times> nat) list"

definition new_event_log :: DiskEventLog where
  "new_event_log = \<lparr>dl_file = [], dl_count = 0, dl_offset_cache = []\<rparr>"

definition move_to_end :: "nat \<Rightarrow> nat \<Rightarrow> (nat \<times> nat) list \<Rightarrow> (nat \<times> nat) list" where
  "move_to_end idx offset cache = filter (\<lambda>e. fst e \<noteq> idx) cache @ [(idx, offset)]"

definition cache_offset :: "nat \<Rightarrow> nat \<Rightarrow> DiskEventLog \<Rightarrow> DiskEventLog" where
  "cache_offset idx offset l =
    (let c = move_to_end idx offset (dl_offset_cache l)
     in l\<lparr>dl_offset_cache := if length c > OFFSET_CACHE_SIZE then tl c else c\<rparr>)"

text \<open>The last cached index before the target, in the order of the cache.\<close>

definition scan_from :: "nat \<Rightarrow> (nat \<times> nat) list \<Rightarrow> nat \<times> nat" where
  "scan_from target cache = foldl (\<lambda>best e. if fst e < target then e else best) (0, 0) cache"

definition seek_to :: "nat \<Rightarrow> DiskEventLog \<Rightarrow> nat \<times> DiskEventLog" where
  "seek_to target l =
    (case map_of (dl_offset_cache l) target of
       Some offset \<Rightarrow> (offset, l\<lparr>dl_offset_cache := move_to_end target offset (dl_offset_cache l)\<rparr>)
     | None \<Rightarrow>
       let (idx, offset) = scan_from target (dl_offset_cache l);
           pos = ((skip_record (dl_file l)) ^^ (target - idx)) offset
       in (pos, cache_offset target pos l))"

definition log_append :: "('e \<Rightarrow> byte list) \<Rightarrow> 'e \<Rightarrow> DiskEventLog \<Rightarrow> (runtime_error, DiskEventLog) res" where
  "log_append ser event l =
    (let packed = ser event
     in rbind (pack_header (length packed)) (\<lambda>header.
        Inr (l\<lparr>dl_file := dl_file l @ header @ packed, dl_count := dl_count l + 1\<rparr>)))"

definition read_range ::
  "(byte list \<Rightarrow> (runtime_error, 'e) res) \<Rightarrow> int \<Rightarrow> int \<Rightarrow> (DiskEventLog, runtime_error, 'e list) sres" where
  "read_range des start stop l =
    (let stop1 = min stop (int (dl_count l))
     in if start < 0 \<or> stop1 < 0 \<or> start \<ge> stop1 then (Inr [], l)
        else let (pos, l1) = seek_to (nat start) l
        in case read_records des (dl_file l) (nat (stop1 - start)) pos of
             Inl e \<Rightarrow> (Inl e, l1)
           | Inr (evs, pos1) \<Rightarrow>
               (Inr evs, if stop1 < int (dl_count l) then cache_offset (nat stop1) pos1 l1 else l1))"

definition read_all :: "(byte list \<Rightarrow> (runtime_error, 'e) res) \<Rightarrow> DiskEventLog \<Rightarrow> (runtime_error, 'e list) res" where
  "read_all des l =
    (if dl_count l = 0 then Inr []
     else rbind (read_records des (dl_file l) (dl_count l) 0) (\<lambda>(evs, _). Inr evs))"

section \<open>Records are read back\<close>

lemma length_pack_header: "pack_header n = Inr h \<Longrightarrow> length h = HEADER_SIZE"
  by (auto simp: pack_header_def HEADER_SIZE_def split: if_splits)

lemma unpack_pack_header: "pack_header n = Inr h \<Longrightarrow> unpack_header h = n"
proof -
  assume "pack_header n = Inr h"
  then have n: "n < 2 ^ 32" and h: "h = map (\<lambda>k. word_of_nat (n div 256 ^ k)) [3, 2, 1, 0]"
    by (auto simp: pack_header_def split: if_splits)
  have "n div 16777216 mod 256 = n div 16777216" using n by simp
  moreover have "n div 65536 = n div 65536 div 256 * 256 + n div 65536 mod 256" "n div 256 = n div 256 div 256 * 256 + n div 256 mod 256"
    "n = n div 256 * 256 + n mod 256" by simp_all
  moreover have "n div 65536 div 256 = n div 16777216" "n div 256 div 256 = n div 65536" by (simp_all flip: div_mult2_eq)
  ultimately show ?thesis unfolding h unpack_header_def by (simp add: unat_of_nat)
qed

definition packed :: "('e \<Rightarrow> byte list) \<Rightarrow> 'e \<Rightarrow> byte list" where
  "packed ser e = (case pack_header (length (ser e)) of Inl _ \<Rightarrow> [] | Inr h \<Rightarrow> h @ ser e)"

definition packable :: "('e \<Rightarrow> byte list) \<Rightarrow> 'e \<Rightarrow> bool" where
  "packable ser e \<longleftrightarrow> length (ser e) < 2 ^ 32"

lemma packable_header: "packable ser e \<Longrightarrow> \<exists>h. pack_header (length (ser e)) = Inr h"
  by (simp add: packable_def pack_header_def)

lemma record_at:
  assumes "packable ser e" "drop pos content = packed ser e @ rest" "pos \<le> length content"
  shows "skip_record content pos = pos + length (packed ser e)"
    and "des (ser e) = Inr e \<Longrightarrow> read_record des content pos = Inr (Some e, pos + length (packed ser e))"
proof -
  obtain h where h: "pack_header (length (ser e)) = Inr h" using packable_header [OF assms(1)] by blast
  note lens = length_pack_header [OF h] unpack_pack_header [OF h]
  have p: "packed ser e = h @ ser e" by (simp add: packed_def h)
  have header: "file_read content pos HEADER_SIZE = (h, pos + HEADER_SIZE)"
    using assms(2) lens(1) by (simp add: file_read_def Let_def p)
  have "drop (pos + HEADER_SIZE) content = ser e @ rest"
    using assms(2) lens(1) by (metis add.commute append.assoc append_eq_conv_conj drop_drop p)
  then have payload: "file_read content (pos + HEADER_SIZE) (length (ser e)) = (ser e, pos + HEADER_SIZE + length (ser e))"
    by (simp add: file_read_def Let_def)
  show "skip_record content pos = pos + length (packed ser e)" by (simp add: skip_record_def header lens p)
  show "read_record des content pos = Inr (Some e, pos + length (packed ser e))" if "des (ser e) = Inr e"
    using that by (simp add: read_record_def header lens payload p)
qed

section \<open>Offsets\<close>

definition offset_of :: "('e \<Rightarrow> byte list) \<Rightarrow> 'e list \<Rightarrow> nat \<Rightarrow> nat" where
  "offset_of ser evs k = length (concat (map (packed ser) (take k evs)))"

lemma offset_of_0 [simp]: "offset_of ser evs 0 = 0"
  by (simp add: offset_of_def)

lemma offset_of_Suc: "k < length evs \<Longrightarrow> offset_of ser evs (Suc k) = offset_of ser evs k + length (packed ser (evs ! k))"
  by (simp add: offset_of_def take_Suc_conv_app_nth)

lemma offset_of_append: "k \<le> length evs \<Longrightarrow> offset_of ser (evs @ evs') k = offset_of ser evs k"
  by (simp add: offset_of_def)

lemma file_at_offset:
  assumes "k < length evs"
  shows "drop (offset_of ser evs k) (concat (map (packed ser) evs)) = packed ser (evs ! k) @ concat (map (packed ser) (drop (Suc k) evs))"
    and "offset_of ser evs k \<le> length (concat (map (packed ser) evs))"
proof -
  have "evs = take k evs @ evs ! k # drop (Suc k) evs" using assms by (rule id_take_nth_drop)
  then have c: "concat (map (packed ser) evs) = concat (map (packed ser) (take k evs)) @ packed ser (evs ! k) @ concat (map (packed ser) (drop (Suc k) evs))"
    by (metis concat.simps(2) concat_append list.simps(9) map_append)
  then show "drop (offset_of ser evs k) (concat (map (packed ser) evs)) = packed ser (evs ! k) @ concat (map (packed ser) (drop (Suc k) evs))"
    by (simp add: offset_of_def)
  show "offset_of ser evs k \<le> length (concat (map (packed ser) evs))" by (subst c) (simp add: offset_of_def)
qed

definition fits :: "('e \<Rightarrow> byte list) \<Rightarrow> (byte list \<Rightarrow> (runtime_error, 'e) res) \<Rightarrow> 'e \<Rightarrow> bool" where
  "fits ser des e \<longleftrightarrow> packable ser e \<and> des (ser e) = Inr e"

lemma skip_records:
  assumes "k + n \<le> length evs" "\<forall>e \<in> set evs. packable ser e"
  shows "((skip_record (concat (map (packed ser) evs))) ^^ n) (offset_of ser evs k) = offset_of ser evs (k + n)"
  using assms(1)
proof (induction n)
  case (Suc n)
  then have "k + n < length evs" "packable ser (evs ! (k + n))" using assms(2) by auto
  then show ?case using Suc record_at(1) [OF _ file_at_offset, of ser evs "k + n"] by (simp add: offset_of_Suc)
qed simp

lemma read_records_at:
  assumes "k + n \<le> length evs" "\<forall>e \<in> set evs. fits ser des e"
  shows "read_records des (concat (map (packed ser) evs)) n (offset_of ser evs k) = Inr (take n (drop k evs), offset_of ser evs (k + n))"
  using assms(1)
proof (induction n arbitrary: k)
  case (Suc n)
  then have k: "k < length evs" "fits ser des (evs ! k)" using assms(2) by auto
  then have "read_record des (concat (map (packed ser) evs)) (offset_of ser evs k) = Inr (Some (evs ! k), offset_of ser evs (Suc k))"
    using record_at(2) [OF _ file_at_offset [OF k(1)]] by (simp add: fits_def offset_of_Suc)
  moreover have "take (Suc n) (drop k evs) = evs ! k # take n (drop (Suc k) evs)" using k(1) by (simp add: Cons_nth_drop_Suc [symmetric])
  ultimately show ?case using Suc.IH [of "Suc k"] Suc.prems by simp
qed simp

section \<open>The log is a list\<close>

definition log_rep :: "('e \<Rightarrow> byte list) \<Rightarrow> (byte list \<Rightarrow> (runtime_error, 'e) res) \<Rightarrow> 'e list \<Rightarrow> DiskEventLog \<Rightarrow> bool" where
  "log_rep ser des evs l \<longleftrightarrow> dl_file l = concat (map (packed ser) evs) \<and> dl_count l = length evs
     \<and> (\<forall>e \<in> set evs. fits ser des e) \<and> (\<forall>(k, p) \<in> set (dl_offset_cache l). k \<le> length evs \<and> p = offset_of ser evs k)"

lemma log_rep_subset:
  assumes "log_rep ser des evs l" "k \<le> length evs" "set c \<subseteq> insert (k, offset_of ser evs k) (set (dl_offset_cache l))"
  shows "log_rep ser des evs (l\<lparr>dl_offset_cache := c\<rparr>)"
  using assms unfolding log_rep_def by auto

lemma set_move_to_end: "set (move_to_end k p c) \<subseteq> insert (k, p) (set c)"
  by (auto simp: move_to_end_def)

lemma log_rep_cache:
  assumes "log_rep ser des evs l" "k \<le> length evs"
  shows "log_rep ser des evs (cache_offset k (offset_of ser evs k) l)"
    "log_rep ser des evs (l\<lparr>dl_offset_cache := move_to_end k (offset_of ser evs k) (dl_offset_cache l)\<rparr>)"
proof -
  let ?c = "move_to_end k (offset_of ser evs k) (dl_offset_cache l)"
  have "set (tl ?c) \<subseteq> set ?c" by (cases ?c) auto
  then have "set (if length ?c > OFFSET_CACHE_SIZE then tl ?c else ?c) \<subseteq> insert (k, offset_of ser evs k) (set (dl_offset_cache l))"
    using set_move_to_end [of k "offset_of ser evs k" "dl_offset_cache l"] by (simp split: if_splits) blast
  then show "log_rep ser des evs (cache_offset k (offset_of ser evs k) l)"
    unfolding cache_offset_def Let_def by (rule log_rep_subset [OF assms])
  show "log_rep ser des evs (l\<lparr>dl_offset_cache := ?c\<rparr>)" by (rule log_rep_subset [OF assms set_move_to_end])
qed

lemma scan_from_cached: "scan_from target cache \<in> insert (0, 0) (set cache)" "fst (scan_from target cache) \<le> target"
proof -
  have *: "foldl (\<lambda>best e. if fst e < target then e else best) b cache \<in> insert b {e \<in> set cache. fst e < target}" for b
    by (induction cache arbitrary: b) (simp, force)
  show "scan_from target cache \<in> insert (0, 0) (set cache)" using * [of "(0, 0)"] by (auto simp: scan_from_def)
  show "fst (scan_from target cache) \<le> target" using * [of "(0, 0)"] by (auto simp: scan_from_def)
qed

lemma seek_to_offset:
  assumes "log_rep ser des evs l" "k < length evs"
  shows "\<exists>l'. seek_to k l = (offset_of ser evs k, l') \<and> log_rep ser des evs l' \<and> dl_file l' = dl_file l \<and> dl_count l' = dl_count l"
proof (cases "map_of (dl_offset_cache l) k")
  case None
  obtain i p where ip: "scan_from k (dl_offset_cache l) = (i, p)" by fastforce
  have "i \<le> k" using scan_from_cached(2) [of k "dl_offset_cache l"] ip by simp
  moreover have "p = offset_of ser evs i" using scan_from_cached(1) [of k "dl_offset_cache l"] ip assms(1) by (auto simp: log_rep_def)
  ultimately have "((skip_record (dl_file l)) ^^ (k - i)) p = offset_of ser evs k"
    using skip_records [of i "k - i" evs ser] assms by (auto simp: log_rep_def fits_def)
  then show ?thesis using None ip log_rep_cache(1) [OF assms(1), of k] assms(2)
    by (auto simp: seek_to_def Let_def cache_offset_def)
next
  case (Some p)
  then have "p = offset_of ser evs k" using assms(1) by (auto simp: log_rep_def dest: map_of_SomeD)
  then show ?thesis using Some log_rep_cache(2) [OF assms(1), of k] assms(2) by (auto simp: seek_to_def)
qed

text \<open>Slices, as \<open>read_range\<close> clips them.\<close>

definition event_slice :: "int \<Rightarrow> int \<Rightarrow> 'e list \<Rightarrow> 'e list" where
  "event_slice start stop evs = (if start < 0 then [] else take (nat (stop - start)) (drop (nat start) evs))"

datatype 'e log_op = Append 'e | Read int int

fun run_list :: "'e list \<Rightarrow> 'e log_op list \<Rightarrow> 'e list list" where
  "run_list evs [] = []"
| "run_list evs (Append e # ops) = run_list (evs @ [e]) ops"
| "run_list evs (Read i j # ops) = event_slice i j evs # run_list evs ops"

fun run_log ::
  "('e \<Rightarrow> 'l \<Rightarrow> (runtime_error, 'l) res) \<Rightarrow> (int \<Rightarrow> int \<Rightarrow> ('l, runtime_error, 'e list) sres) \<Rightarrow> 'e log_op list
   \<Rightarrow> 'l \<Rightarrow> (runtime_error, 'e list list) res" where
  "run_log push rd [] l = Inr []"
| "run_log push rd (Append e # ops) l = rbind (push e l) (run_log push rd ops)"
| "run_log push rd (Read i j # ops) l =
    (case rd i j l of (Inl e, _) \<Rightarrow> Inl e | (Inr evs, l') \<Rightarrow> rbind (run_log push rd ops l') (\<lambda>out. Inr (evs # out)))"

locale event_log =
  fixes rep :: "'e list \<Rightarrow> 'l \<Rightarrow> bool" and ok :: "'e \<Rightarrow> bool" and push :: "'e \<Rightarrow> 'l \<Rightarrow> (runtime_error, 'l) res"
    and rd :: "int \<Rightarrow> int \<Rightarrow> ('l, runtime_error, 'e list) sres" and len :: "'l \<Rightarrow> nat"
  assumes push: "rep evs l \<Longrightarrow> ok e \<Longrightarrow> \<exists>l'. push e l = Inr l' \<and> rep (evs @ [e]) l'"
    and rd: "rep evs l \<Longrightarrow> \<exists>l'. rd i j l = (Inr (event_slice i j evs), l') \<and> rep evs l'"
    and len: "rep evs l \<Longrightarrow> len l = length evs"
begin

lemma run_is_list: "rep evs l \<Longrightarrow> \<forall>e. Append e \<in> set ops \<longrightarrow> ok e \<Longrightarrow> run_log push rd ops l = Inr (run_list evs ops)"
proof (induction evs ops arbitrary: l rule: run_list.induct)
  case (2 evs e ops)
  then show ?case using push [of evs l e] by force
next
  case (3 evs i j ops)
  then show ?case using rd [of evs l i j] by force
qed simp

end

lemma log_rep_new: "log_rep ser des [] new_event_log"
  by (simp add: log_rep_def new_event_log_def)

lemma log_rep_append:
  assumes "log_rep ser des evs l" "fits ser des e"
  shows "\<exists>l'. log_append ser e l = Inr l' \<and> log_rep ser des (evs @ [e]) l'"
proof -
  obtain h where h: "pack_header (length (ser e)) = Inr h" using packable_header [of ser e] assms(2) by (auto simp: fits_def)
  let ?l = "l\<lparr>dl_file := dl_file l @ h @ ser e, dl_count := dl_count l + 1\<rparr>"
  have "\<forall>(k, p) \<in> set (dl_offset_cache l). k \<le> length (evs @ [e]) \<and> p = offset_of ser (evs @ [e]) k"
    using assms(1) by (auto simp: log_rep_def offset_of_append)
  then have "log_rep ser des (evs @ [e]) ?l" using assms by (simp add: log_rep_def packed_def h)
  then show ?thesis by (auto simp: log_append_def h)
qed

lemma log_append_Inr: "log_append ser e l = Inr l' \<Longrightarrow> packable ser e"
  by (auto simp: log_append_def pack_header_def packable_def rbind_Inr_iff Let_def split: if_splits)

lemma log_rep_read_all: "log_rep ser des evs l \<Longrightarrow> read_all des l = Inr evs"
  using read_records_at [of 0 "length evs" evs ser des] by (auto simp: log_rep_def read_all_def)

lemma log_rep_read:
  assumes "log_rep ser des evs l"
  shows "\<exists>l'. read_range des i j l = (Inr (event_slice i j evs), l') \<and> log_rep ser des evs l'"
proof -
  let ?j = "min j (int (dl_count l))"
  have n: "dl_count l = length evs" "dl_file l = concat (map (packed ser) evs)" and f: "\<forall>e \<in> set evs. fits ser des e"
    using assms by (auto simp: log_rep_def)
  show ?thesis
  proof (cases "i < 0 \<or> ?j < 0 \<or> i \<ge> ?j")
    case True
    then have "event_slice i j evs = []" by (auto simp: event_slice_def n)
    then show ?thesis using True assms by (simp add: read_range_def Let_def)
  next
    case False
    then have "nat i < length evs" using n by linarith
    then obtain l1 where l1: "seek_to (nat i) l = (offset_of ser evs (nat i), l1)" "log_rep ser des evs l1"
      using seek_to_offset [OF assms, of "nat i"] False by auto
    have "nat i + nat (?j - i) = nat ?j" "nat ?j \<le> length evs" using False n by auto
    moreover have "take (nat (?j - i)) (drop (nat i) evs) = event_slice i j evs" using False n by (auto simp: event_slice_def min_def)
    ultimately have "read_records des (dl_file l) (nat (?j - i)) (offset_of ser evs (nat i)) = Inr (event_slice i j evs, offset_of ser evs (nat ?j))"
      using read_records_at [of "nat i" "nat (?j - i)" evs ser des] f n by simp
    then show ?thesis using False l1 log_rep_cache(1) [OF l1(2), of "nat ?j"] n by (auto simp: read_range_def Let_def)
  qed
qed

interpretation disk_log: event_log "log_rep ser des" "fits ser des" "log_append ser" "read_range des" dl_count
  for ser :: "'e \<Rightarrow> byte list" and des :: "byte list \<Rightarrow> (runtime_error, 'e) res"
  by unfold_locales (erule (1) log_rep_append, erule log_rep_read, simp add: log_rep_def)

text \<open>
  C40. The event log on disk is the list of its events. For any sequence of appends and range reads
  on a new log, every read returns the events appended so far at the indices asked for, whatever
  the offset cache holds at that moment; packing must be lossless and below four gigabytes.
\<close>

theorem event_log_is_list:
  assumes "\<forall>e. Append e \<in> set ops \<longrightarrow> des (ser e) = Inr e \<and> length (ser e) < 2 ^ 32"
  shows "run_log (log_append ser) (read_range des) ops new_event_log = Inr (run_list [] ops)"
  using assms by (intro disk_log.run_is_list [OF log_rep_new]) (simp add: fits_def packable_def)

theorem event_log_is_list_witness:
  "run_log (log_append (\<lambda>e. e)) (read_range Inr) [Append [1], Append [2, 3], Read 1 2, Append [], Read 0 9, Read 2 3] new_event_log
    = Inr [[[2, 3]], [[1], [2, 3], []], [[]]]"
  using event_log_is_list [of "[Append [1], Append [2, 3], Read 1 2, Append [], Read 0 9, Read 2 3]" Inr "\<lambda>e. e"]
  by (simp add: event_slice_def)

end
