(* ===== verification/Topology.thy ===== *)
theory Topology
  imports Shards
begin

text \<open>
  The graph of nodes and connections (\<open>cai/src/cai/shared/topology.py\<close>) and the multiaddresses
  on its edges (\<open>shared/types/multiaddr.py\<close>).

  The graph library \<open>rustworkx\<close> is outside the repository. A \<open>PyDiGraph\<close> is given by what it
  holds: payloads of nodes by node index and edges by edge index. Storing, removing and listing
  them (\<open>graph_add_node\<close> to \<open>get_all_edge_data\<close>) is written out as the library documents it:
  \<open>nodes()\<close> and \<open>weighted_edge_list()\<close> list by index, and removing a node removes its edges.
  What the documentation leaves open is a parameter: the indices handed out (\<open>rx_node_index\<close>,
  \<open>rx_edge_index\<close>) and the order and choice of the simple cycles (\<open>rx_simple_cycles\<close>); the code
  relies on an index being free when it is handed out (\<open>rx_fresh\<close>).
\<close>

section \<open>Multiaddresses\<close>

definition digits_upto :: "nat \<Rightarrow> string \<Rightarrow> (string \<times> string) option" where
  "digits_upto n s = (let d = takeWhile py_isdigit (take n s) in if d = [] then None else Some (d, drop (length d) s))"

definition expect :: "string \<Rightarrow> string \<Rightarrow> string option" where
  "expect p s = (if take (length p) s = p then Some (drop (length p) s) else None)"

definition span_nonempty :: "(char \<Rightarrow> bool) \<Rightarrow> string \<Rightarrow> (string \<times> string) option" where
  "span_nonempty P s = (let d = takeWhile P s in if d = [] then None else Some (d, drop (length d) s))"

definition is_alnum :: "char \<Rightarrow> bool" where
  "is_alnum c = (let n = of_char c :: nat in (48 \<le> n \<and> n \<le> 57) \<or> (65 \<le> n \<and> n \<le> 90) \<or> (97 \<le> n \<and> n \<le> 122))"

definition is_hex_colon :: "char \<Rightarrow> bool" where
  "is_hex_colon c = (let n = of_char c :: nat in (48 \<le> n \<and> n \<le> 58) \<or> (65 \<le> n \<and> n \<le> 70) \<or> (97 \<le> n \<and> n \<le> 102))"

text \<open>\<open>^/ip4/(\d{1,3}\.\d{1,3}\.\d{1,3}\.\d{1,3})\<close>, with the address and what follows it.\<close>

definition match_ip4 :: "string \<Rightarrow> (string \<times> string) option" where
  "match_ip4 address =
    Option.bind (expect ''/ip4/'' address) (\<lambda>s0.
    Option.bind (digits_upto 3 s0) (\<lambda>(a, s1). Option.bind (expect ''.'' s1) (\<lambda>s2.
    Option.bind (digits_upto 3 s2) (\<lambda>(b, s3). Option.bind (expect ''.'' s3) (\<lambda>s4.
    Option.bind (digits_upto 3 s4) (\<lambda>(c, s5). Option.bind (expect ''.'' s5) (\<lambda>s6.
    Option.bind (digits_upto 3 s6) (\<lambda>(d, s7). Some (a @ ''.'' @ b @ ''.'' @ c @ ''.'' @ d, s7)))))))))"

definition match_ip6 :: "string \<Rightarrow> (string \<times> string) option" where
  "match_ip6 address = Option.bind (expect ''/ip6/'' address) (span_nonempty is_hex_colon)"

definition match_dns :: "string \<Rightarrow> (string \<times> string) option" where
  "match_dns address =
    Option.bind (expect ''/dns'' address) (\<lambda>s0.
    let s1 = (case s0 of c # r \<Rightarrow> if c = CHR ''4'' \<or> c = CHR ''6'' then r else s0 | [] \<Rightarrow> s0) in
    Option.bind (expect ''/'' s1) (span_nonempty (\<lambda>c. is_alnum c \<or> c = CHR ''.'' \<or> c = CHR ''-'')))"

text \<open>\<open>(/tcp/(\d{1,5}))?(/p2p/[A-Za-z0-9]+)?$\<close>; \<open>$\<close> also matches before a final newline.\<close>

definition match_suffix :: "string \<Rightarrow> bool" where
  "match_suffix s =
    (let s1 = (case Option.bind (expect ''/tcp/'' s) (digits_upto 5) of None \<Rightarrow> s | Some (_, r) \<Rightarrow> r);
         s2 = (case Option.bind (expect ''/p2p/'' s1) (span_nonempty is_alnum) of None \<Rightarrow> s1 | Some (_, r) \<Rightarrow> r)
     in s2 = [] \<or> s2 = [CHR 0x0A])"

definition full_match :: "(string \<Rightarrow> (string \<times> string) option) \<Rightarrow> string \<Rightarrow> bool" where
  "full_match m address = (case m address of None \<Rightarrow> False | Some (_, rest) \<Rightarrow> match_suffix rest)"

definition validate_format :: "string \<Rightarrow> (runtime_error, string) res" where
  "validate_format address =
    (if full_match match_ip4 address \<or> full_match match_ip6 address \<or> full_match match_dns address then Inr address
     else Inl (RtValueError ''Invalid multiaddr format''))"

definition address_type :: "string \<Rightarrow> (runtime_error, string) res" where
  "address_type address =
    (if full_match match_ip4 address then Inr ''ip4''
     else if full_match match_ip6 address then Inr ''ip6''
     else if full_match match_dns address then Inr ''dns[46]?''
     else Inl (RtValueError ''Invalid multiaddr format''))"

definition ip_address :: "string \<Rightarrow> (runtime_error, string) res" where
  "ip_address address =
    rbind (address_type address) (\<lambda>t.
    case (if t = ''ip4'' then match_ip4 address else match_ip6 address) of
      Some (ip, _) \<Rightarrow> Inr ip | None \<Rightarrow> Inl (RtValueError ''Invalid multiaddr format''))"

section \<open>Graphs\<close>

datatype edge =
    RDMAConnection (source_rdma_iface: string) (sink_rdma_iface: string)
  | SocketConnection (sink_multiaddr: string)

definition is_rdma :: "edge \<Rightarrow> bool" where
  "is_rdma e = (case e of RDMAConnection _ _ \<Rightarrow> True | SocketConnection _ \<Rightarrow> False)"

record Connection =
  cn_source :: string
  cn_sink :: string
  cn_edge :: edge

record digraph =
  dg_nodes :: "(nat \<times> string) list"
  dg_edges :: "(nat \<times> nat \<times> nat \<times> edge) list"

record rx =
  rx_node_index :: "digraph \<Rightarrow> nat"
  rx_edge_index :: "digraph \<Rightarrow> nat"
  rx_simple_cycles :: "digraph \<Rightarrow> nat list list"

definition rx_fresh :: "rx \<Rightarrow> bool" where
  "rx_fresh R \<longleftrightarrow> (\<forall>g. rx_node_index R g \<notin> fst ` set (dg_nodes g) \<and> rx_edge_index R g \<notin> fst ` set (dg_edges g))"

definition empty_graph :: digraph where
  "empty_graph = \<lparr>dg_nodes = [], dg_edges = []\<rparr>"

definition graph_nodes :: "digraph \<Rightarrow> string list" where
  "graph_nodes g = map snd (sort_key fst (dg_nodes g))"

definition weighted_edge_list :: "digraph \<Rightarrow> (nat \<times> nat \<times> edge) list" where
  "weighted_edge_list g = map snd (sort_key fst (dg_edges g))"

definition graph_at :: "digraph \<Rightarrow> nat \<Rightarrow> string" where
  "graph_at g i = dget (dg_nodes g) i []"

definition graph_add_node :: "rx \<Rightarrow> string \<Rightarrow> digraph \<Rightarrow> nat \<times> digraph" where
  "graph_add_node R x g = (let i = rx_node_index R g in (i, g\<lparr>dg_nodes := dg_nodes g @ [(i, x)]\<rparr>))"

definition graph_add_edge :: "rx \<Rightarrow> nat \<Rightarrow> nat \<Rightarrow> edge \<Rightarrow> digraph \<Rightarrow> digraph" where
  "graph_add_edge R u v e g = g\<lparr>dg_edges := dg_edges g @ [(rx_edge_index R g, u, v, e)]\<rparr>"

definition graph_remove_node :: "nat \<Rightarrow> digraph \<Rightarrow> digraph" where
  "graph_remove_node i g = g\<lparr>dg_nodes := filter (\<lambda>(k, _). k \<noteq> i) (dg_nodes g),
     dg_edges := filter (\<lambda>(_, u, v, _). u \<noteq> i \<and> v \<noteq> i) (dg_edges g)\<rparr>"

definition graph_remove_edges :: "(nat \<times> nat \<times> edge \<Rightarrow> bool) \<Rightarrow> digraph \<Rightarrow> digraph" where
  "graph_remove_edges P g = g\<lparr>dg_edges := filter (\<lambda>(_, e). \<not> P e) (dg_edges g)\<rparr>"

definition graph_neighbors :: "digraph \<Rightarrow> nat \<Rightarrow> nat list" where
  "graph_neighbors g i = dedup_first (map (\<lambda>(_, v, _). v) (filter (\<lambda>(u, _). u = i) (weighted_edge_list g)))"

definition get_all_edge_data :: "digraph \<Rightarrow> nat \<Rightarrow> nat \<Rightarrow> edge list" where
  "get_all_edge_data g u v = map (\<lambda>(_, _, e). e) (filter (\<lambda>(a, b, _). a = u \<and> b = v) (weighted_edge_list g))"

section \<open>The topology\<close>

record Topology =
  tp_graph :: digraph
  tp_vertex_indices :: "(string \<times> nat) list"

definition new_topology :: Topology where
  "new_topology = \<lparr>tp_graph = empty_graph, tp_vertex_indices = []\<rparr>"

definition contains_node :: "string \<Rightarrow> Topology \<Rightarrow> bool" where
  "contains_node x t \<longleftrightarrow> x \<in> fst ` set (tp_vertex_indices t)"

definition add_node :: "rx \<Rightarrow> string \<Rightarrow> Topology \<Rightarrow> Topology" where
  "add_node R x t =
    (if contains_node x t then t
     else let (i, g) = graph_add_node R x (tp_graph t)
          in t\<lparr>tp_graph := g, tp_vertex_indices := AList.update x i (tp_vertex_indices t)\<rparr>)"

definition vertex_index :: "string \<Rightarrow> Topology \<Rightarrow> (runtime_error, nat) res" where
  "vertex_index x t = (case map_of (tp_vertex_indices t) x of None \<Rightarrow> Inl (RtKeyError x) | Some i \<Rightarrow> Inr i)"

definition node_is_leaf :: "string \<Rightarrow> Topology \<Rightarrow> bool" where
  "node_is_leaf x t = (case map_of (tp_vertex_indices t) x of None \<Rightarrow> False
     | Some i \<Rightarrow> length (graph_neighbors (tp_graph t) i) \<le> 1)"

definition neighbours :: "string \<Rightarrow> Topology \<Rightarrow> (runtime_error, string list) res" where
  "neighbours x t = rbind (vertex_index x t) (\<lambda>i. Inr (map (graph_at (tp_graph t)) (graph_neighbors (tp_graph t) i)))"

definition connection :: "digraph \<Rightarrow> nat \<times> nat \<times> edge \<Rightarrow> Connection" where
  "connection g = (\<lambda>(u, v, e). \<lparr>cn_source = graph_at g u, cn_sink = graph_at g v, cn_edge = e\<rparr>)"

definition out_edges :: "string \<Rightarrow> Topology \<Rightarrow> Connection list" where
  "out_edges x t = (case map_of (tp_vertex_indices t) x of None \<Rightarrow> []
     | Some i \<Rightarrow> map (connection (tp_graph t)) (filter (\<lambda>(u, _). u = i) (weighted_edge_list (tp_graph t))))"

definition get_all_connections_between :: "string \<Rightarrow> string \<Rightarrow> Topology \<Rightarrow> edge list" where
  "get_all_connections_between source sink t =
    (case (map_of (tp_vertex_indices t) source, map_of (tp_vertex_indices t) sink) of
       (Some u, Some v) \<Rightarrow> get_all_edge_data (tp_graph t) u v | _ \<Rightarrow> [])"

definition add_connection :: "rx \<Rightarrow> Connection \<Rightarrow> Topology \<Rightarrow> Topology" where
  "add_connection R conn t =
    (if cn_edge conn \<in> set (get_all_connections_between (cn_source conn) (cn_sink conn) t) then t
     else let t2 = add_node R (cn_sink conn) (add_node R (cn_source conn) t)
          in case (map_of (tp_vertex_indices t2) (cn_source conn), map_of (tp_vertex_indices t2) (cn_sink conn)) of
               (Some u, Some v) \<Rightarrow> t2\<lparr>tp_graph := graph_add_edge R u v (cn_edge conn) (tp_graph t2)\<rparr>
             | _ \<Rightarrow> t2)"

definition list_nodes :: "Topology \<Rightarrow> string list" where
  "list_nodes t = graph_nodes (tp_graph t)"

definition list_connections :: "Topology \<Rightarrow> Connection list" where
  "list_connections t = map (connection (tp_graph t)) (weighted_edge_list (tp_graph t))"

text \<open>\<open>base[source][sink].append(connection)\<close>, creating the inner dictionaries on first use.\<close>

definition map_connections :: "Topology \<Rightarrow> (string \<times> (string \<times> edge list) list) list" where
  "map_connections t =
    foldl (\<lambda>base c. let inner = dget base (cn_source c) []
       in AList.update (cn_source c) (AList.update (cn_sink c) (dget inner (cn_sink c) [] @ [cn_edge c]) inner) base)
      [] (list_connections t)"

definition topology_remove_node :: "string \<Rightarrow> Topology \<Rightarrow> Topology" where
  "topology_remove_node x t = (case map_of (tp_vertex_indices t) x of None \<Rightarrow> t
     | Some i \<Rightarrow> t\<lparr>tp_graph := graph_remove_node i (tp_graph t), tp_vertex_indices := AList.delete x (tp_vertex_indices t)\<rparr>)"

definition replace_all_out_rdma_connections ::
  "rx \<Rightarrow> string \<Rightarrow> Connection list \<Rightarrow> Topology \<Rightarrow> (runtime_error, Topology) res" where
  "replace_all_out_rdma_connections R source conns t =
    rbind (vertex_index source t) (\<lambda>i.
    Inr (foldl (\<lambda>t c. add_connection R c t)
      (t\<lparr>tp_graph := graph_remove_edges (\<lambda>(u, _, e). u = i \<and> is_rdma e) (tp_graph t)\<rparr>) conns))"

definition remove_connection :: "Connection \<Rightarrow> Topology \<Rightarrow> Topology" where
  "remove_connection conn t =
    (case (map_of (tp_vertex_indices t) (cn_source conn), map_of (tp_vertex_indices t) (cn_sink conn)) of
       (Some i, Some j) \<Rightarrow>
         t\<lparr>tp_graph := graph_remove_edges (\<lambda>(u, v, e). u = i \<and> v = j \<and> e = cn_edge conn) (tp_graph t)\<rparr>
     | _ \<Rightarrow> t)"

definition get_cycles :: "rx \<Rightarrow> Topology \<Rightarrow> string list list" where
  "get_cycles R t = map (map (graph_at (tp_graph t))) (rx_simple_cycles R (tp_graph t)) @ map (\<lambda>x. [x]) (list_nodes t)"

text \<open>
  A copy of the nodes under the indices of a new graph, with the RDMA edges under the indices of
  the old one; \<open>add_edge\<close> raises \<open>IndexError\<close> for an index that is not in use.
\<close>

definition rdma_graph :: "rx \<Rightarrow> digraph \<Rightarrow> (runtime_error, digraph) res" where
  "rdma_graph R g =
    rfold (\<lambda>h (u, v, e). if {u, v} \<subseteq> fst ` set (dg_nodes h) then Inr (graph_add_edge R u v e h) else Inl IndexError)
      (foldl (\<lambda>h x. snd (graph_add_node R x h)) empty_graph (graph_nodes g))
      (filter (\<lambda>(_, _, e). is_rdma e) (weighted_edge_list g))"

definition get_rdma_cycles :: "rx \<Rightarrow> Topology \<Rightarrow> (runtime_error, string list list) res" where
  "get_rdma_cycles R t =
    rbind (rdma_graph R (tp_graph t)) (\<lambda>h. Inr (map (map (graph_at h)) (rx_simple_cycles R h)))"

definition get_subgraph_from_nodes :: "rx \<Rightarrow> string list \<Rightarrow> Topology \<Rightarrow> Topology" where
  "get_subgraph_from_nodes R nodes t =
    foldl (\<lambda>s c. if cn_source c \<in> set nodes \<and> cn_sink c \<in> set nodes then add_connection R c s else s)
      (foldl (\<lambda>s x. add_node R x s) new_topology nodes) (list_connections t)"

definition is_rdma_cycle :: "string list \<Rightarrow> Topology \<Rightarrow> (runtime_error, bool) res" where
  "is_rdma_cycle nodes t =
    rbind (rmap (\<lambda>x. vertex_index x t) nodes) (\<lambda>idxs.
    Inr (list_all (\<lambda>i. list_all (\<lambda>j. j \<in> set idxs \<longrightarrow> list_ex is_rdma (get_all_edge_data (tp_graph t) i j))
      (graph_neighbors (tp_graph t) i)) idxs))"

record TopologySnapshot =
  ts_nodes :: "string list"
  ts_connections :: "(string \<times> (string \<times> edge list) list) list"

definition to_snapshot :: "Topology \<Rightarrow> TopologySnapshot" where
  "to_snapshot t = \<lparr>ts_nodes = list_nodes t, ts_connections = map_connections t\<rparr>"

definition from_snapshot :: "rx \<Rightarrow> TopologySnapshot \<Rightarrow> Topology" where
  "from_snapshot R s =
    foldl (\<lambda>t c. add_connection R c t) (foldl (\<lambda>t x. add_node R x t) new_topology (ts_nodes s))
      (concat (map (\<lambda>(source, inner). concat (map (\<lambda>(sink, edges).
         map (\<lambda>e. \<lparr>cn_source = source, cn_sink = sink, cn_edge = e\<rparr>) edges) inner)) (ts_connections s)))"

section \<open>Thunderbolt bridges\<close>

record NetworkInterfaceInfo =
  ni_name :: string
  ni_ip_address :: string
  ni_interface_type :: string

type_synonym NodeNetworkInfo = "NetworkInterfaceInfo list"

record ThunderboltBridgeStatus =
  tb_enabled :: bool
  tb_exists :: bool
  tb_service_name :: "string option"

definition get_ips_with_interface_type :: "string set \<Rightarrow> (string \<times> NodeNetworkInfo) list \<Rightarrow> string \<Rightarrow> string set" where
  "get_ips_with_interface_type nodes network interface_type =
    (\<Union>x\<in>nodes. ni_ip_address ` set (filter (\<lambda>f. ni_interface_type f = interface_type) (dget network x [])))"

text \<open>
  The nodes are visited in the order in which Python iterates the set \<open>enabled_nodes\<close>, which
  the parameter \<open>set_order\<close> gives. The address of a socket edge is read only if both ends are
  in the subgraph; reading it raises for a DNS multiaddress.
\<close>

definition get_thunderbolt_bridge_cycles ::
  "rx \<Rightarrow> (string set \<Rightarrow> string list) \<Rightarrow> (string \<times> ThunderboltBridgeStatus) list \<Rightarrow> (string \<times> NodeNetworkInfo) list
   \<Rightarrow> Topology \<Rightarrow> (runtime_error, string list list) res" where
  "get_thunderbolt_bridge_cycles R set_order status network t =
    (let enabled = fst ` set (filter (\<lambda>(_, b). tb_enabled b) status)
     in if card enabled < 2 then Inr []
        else let ips = get_ips_with_interface_type enabled network ''thunderbolt'';
                 nodes = filter (\<lambda>x. contains_node x t) (set_order enabled);
                 (h0, idx) = foldl (\<lambda>(h, d) x. let (i, h') = graph_add_node R x h in (h', AList.update x i d)) (empty_graph, []) nodes
        in rbind (rfold (\<lambda>h (u, v, e).
             case (map_of idx (graph_at (tp_graph t) u), map_of idx (graph_at (tp_graph t) v)) of
               (Some i, Some j) \<Rightarrow>
                 (case e of
                    RDMAConnection _ _ \<Rightarrow> Inr (graph_add_edge R i j e h)
                  | SocketConnection address \<Rightarrow>
                      rbind (ip_address address) (\<lambda>ip. Inr (if ip \<in> ips then graph_add_edge R i j e h else h)))
             | _ \<Rightarrow> Inr h) h0 (weighted_edge_list (tp_graph t))) (\<lambda>h.
           Inr (map (map (graph_at h)) (filter (\<lambda>c. 2 \<le> length c) (rx_simple_cycles R h)))))"

end
