(* ===== verification/ClusterState.thy ===== *)
theory ClusterState
  imports Placement Topology
begin

text \<open>
  The event-sourced state of the cluster: the events (\<open>cai/src/cai/shared/types/events.py\<close>), the
  state they build (\<open>shared/types/state.py\<close>) and the function that applies an event to it
  (\<open>shared/apply.py\<close>). Payloads the handlers only carry along are JSON values.

  \<open>runtime_env\<close> collects what a process brings along: the graph library, the order in which its
  interpreter iterates a set of node ids, and \<open>datetime.fromisoformat\<close> (\<open>None\<close> when it raises;
  moments are microseconds). Every process has its own.
\<close>

section \<open>Tasks, downloads and runners\<close>

datatype TaskStatus = Pending | Running | Complete | TimedOut | Failed | Cancelled

record BoundInstance =
  bi_instance :: Instance
  bi_bound_runner_id :: string
  bi_bound_node_id :: string

record TaskParams =
  pa_model :: string
  pa_rest :: json

datatype task_kind =
    CreateRunner BoundInstance
  | DownloadModel ShardMetadata
  | LoadModel
  | ConnectToGroup
  | StartWarmup
  | TextGenerationTask string TaskParams
  | CancelTask string string
  | ImageGenerationTask string TaskParams
  | ImageEditsTask string TaskParams
  | Shutdown string

text \<open>
  The two error fields exist for the generation tasks; \<open>model_copy\<close> sets them on any task.
\<close>

record Task =
  tk_task_id :: string
  tk_task_status :: TaskStatus
  tk_instance_id :: string
  tk_kind :: task_kind
  tk_error_type :: "string option"
  tk_error_message :: "string option"

datatype download_status =
    DownloadPending int int
  | DownloadCompleted int bool
  | DownloadFailed string
  | DownloadOngoing json

record DownloadProgress =
  dp_node_id :: string
  dp_shard_metadata :: ShardMetadata
  dp_model_directory :: string
  dp_status_message :: string
  dp_status :: download_status

datatype RunnerStatus =
    RunnerIdle
  | RunnerConnecting
  | RunnerConnected
  | RunnerLoading int int
  | RunnerLoaded
  | RunnerWarmingUp
  | RunnerReady
  | RunnerRunning
  | RunnerShuttingDown
  | RunnerShutdown
  | RunnerFailed "string option"

section \<open>What a node reports about itself\<close>

record AdvertisedTransportEndpoint =
  ep_purpose :: string
  ep_route_type :: string
  ep_host :: string
  ep_port :: "int option"
  ep_source :: "string option"
  ep_interface_name :: "string option"

record NodeIdentity =
  id_model_id :: string
  id_chip_id :: string
  id_friendly_name :: string
  id_os_version :: string
  id_os_build_version :: string
  id_cpu_physical_cores :: "int option"
  id_cpu_logical_cores :: "int option"
  id_total_vram_bytes :: "int option"
  id_api_host :: "string option"
  id_api_port :: "int option"
  id_data_host :: "string option"
  id_data_port :: "int option"
  id_transport_endpoints :: "AdvertisedTransportEndpoint list"
  id_worker_enabled :: "bool option"
  id_relay_enabled :: "bool option"
  id_worker_reward_address :: "string option"
  id_node_public_key_b64 :: "string option"
  id_node_public_key_address :: "string option"
  id_readiness :: json

definition new_node_identity :: NodeIdentity where
  "new_node_identity =
    \<lparr>id_model_id = ''Unknown'', id_chip_id = ''Unknown'', id_friendly_name = ''Unknown'',
     id_os_version = ''Unknown'', id_os_build_version = ''Unknown'', id_cpu_physical_cores = None,
     id_cpu_logical_cores = None, id_total_vram_bytes = None, id_api_host = None, id_api_port = None,
     id_data_host = None, id_data_port = None, id_transport_endpoints = [], id_worker_enabled = None,
     id_relay_enabled = None, id_worker_reward_address = None, id_node_public_key_b64 = None,
     id_node_public_key_address = None, id_readiness = JObj []\<rparr>"

record DiskUsage =
  du_total :: int
  du_available :: int

record ThunderboltIdentifier =
  ti_rdma_interface :: string
  ti_domain_uuid :: string
  ti_link_speed :: string

record ThunderboltConnection =
  tc_source_uuid :: string
  tc_sink_uuid :: string

type_synonym SystemPerformanceProfile = json

record StaticNodeInformation =
  sn_model :: string
  sn_chip :: string
  sn_os_version :: string
  sn_os_build_version :: string
  sn_cpu_physical_cores :: "int option"
  sn_cpu_logical_cores :: "int option"
  sn_total_vram_bytes :: "int option"

record ApiEndpointInfo =
  ae_host :: "string option"
  ae_port :: int
  ae_data_host :: "string option"
  ae_data_port :: "int option"
  ae_transport_endpoints :: "AdvertisedTransportEndpoint list"

record WorkerStateInfo =
  ws_worker_enabled :: bool
  ws_relay_enabled :: bool
  ws_worker_reward_address :: "string option"
  ws_node_public_key_b64 :: "string option"
  ws_node_public_key_address :: "string option"
  ws_readiness :: json

datatype GatheredInfo =
    MacmonMetrics SystemPerformanceProfile MemoryUsage
  | PsutilSystemMetrics SystemPerformanceProfile
  | InfoMemoryUsage MemoryUsage
  | NodeDiskUsage DiskUsage
  | NodeConfig
  | MiscData string
  | InfoApiEndpoint ApiEndpointInfo
  | InfoStaticNode StaticNodeInformation
  | InfoWorkerState WorkerStateInfo
  | NodeNetworkInterfaces "NetworkInterfaceInfo list"
  | MacThunderboltIdentifiers "ThunderboltIdentifier list"
  | MacThunderboltConnections "ThunderboltConnection list"
  | ThunderboltBridgeInfo ThunderboltBridgeStatus
  | RdmaCtlStatus bool

section \<open>Events\<close>

record TraceEventData =
  te_name :: string
  te_start_us :: int
  te_duration_us :: int
  te_rank :: int
  te_category :: string

datatype event_kind =
    TestEvent
  | TaskCreated string Task
  | TaskAcknowledged string
  | TaskDeleted string
  | TaskStatusUpdated string TaskStatus
  | TaskFailed string string string
  | InstanceCreated Instance
  | InstanceDeleted string
  | RunnerStatusUpdated string RunnerStatus
  | NodeTimedOut string
  | NodeGatheredInfo string string GatheredInfo
  | NodeDownloadProgress DownloadProgress
  | ChunkGenerated string json
  | InputChunkReceived string json
  | TopologyEdgeCreated Connection
  | TopologyEdgeDeleted Connection
  | OverlayPeerConnected string string
  | OverlayPeerDisconnected string string
  | OverlayBootstrapPeersAdvertised string "string list"
  | CustomModelCardAdded ModelCard
  | CustomModelCardDeleted string
  | TracesCollected string int "TraceEventData list"
  | TracesMerged string "TraceEventData list"

text \<open>
  The private attribute \<open>_master_time_stamp\<close> of an event is left out: it is set by the master after
  the event has left its buffers, is not serialised, and nothing reads it.
\<close>

record Event =
  ev_event_id :: string
  ev_event :: event_kind

record IndexedEvent =
  ie_idx :: int
  ie_event :: Event

section \<open>The state\<close>

text \<open>
  A \<open>datetime\<close> in microseconds: with a time zone it is an instant, without one (naive) it is the
  reading of some clock, and Python refuses to subtract it from an instant.
\<close>

datatype datetime = Aware int | Naive int

record State =
  st_instances :: "(string \<times> Instance) list"
  st_runners :: "(string \<times> RunnerStatus) list"
  st_downloads :: "(string \<times> DownloadProgress list) list"
  st_tasks :: "(string \<times> Task) list"
  st_last_seen :: "(string \<times> datetime) list"
  st_overlay_peers :: "(string \<times> string list) list"
  st_overlay_advertised_peers :: "(string \<times> string list) list"
  st_topology :: Topology
  st_last_event_applied_idx :: int
  st_node_identities :: "(string \<times> NodeIdentity) list"
  st_node_memory :: "(string \<times> MemoryUsage) list"
  st_node_disk :: "(string \<times> DiskUsage) list"
  st_node_system :: "(string \<times> SystemPerformanceProfile) list"
  st_node_network :: "(string \<times> NodeNetworkInfo) list"
  st_node_thunderbolt :: "(string \<times> ThunderboltIdentifier list) list"
  st_node_thunderbolt_bridge :: "(string \<times> ThunderboltBridgeStatus) list"
  st_node_rdma_ctl :: "(string \<times> bool) list"
  st_thunderbolt_bridge_cycles :: "string list list"

definition new_state :: State where
  "new_state = \<lparr>st_instances = [], st_runners = [], st_downloads = [], st_tasks = [], st_last_seen = [],
     st_overlay_peers = [], st_overlay_advertised_peers = [], st_topology = new_topology,
     st_last_event_applied_idx = -1, st_node_identities = [], st_node_memory = [], st_node_disk = [],
     st_node_system = [], st_node_network = [], st_node_thunderbolt = [], st_node_thunderbolt_bridge = [],
     st_node_rdma_ctl = [], st_thunderbolt_bridge_cycles = []\<rparr>"

record runtime_env =
  re_rx :: rx
  re_set_order :: "string set \<Rightarrow> string list"
  re_fromisoformat :: "string \<Rightarrow> datetime option"

section \<open>Applying an event\<close>

definition endpoint_key ::
  "AdvertisedTransportEndpoint \<Rightarrow> string \<times> string \<times> string \<times> int option \<times> string option \<times> string option" where
  "endpoint_key e = (ep_purpose e, ep_route_type e, ep_host e, ep_port e, ep_source e, ep_interface_name e)"

definition dedupe_transport_endpoints :: "AdvertisedTransportEndpoint list \<Rightarrow> AdvertisedTransportEndpoint list" where
  "dedupe_transport_endpoints endpoints =
    foldl (\<lambda>deduped e. if endpoint_key e \<in> endpoint_key ` set deduped then deduped else deduped @ [e]) [] endpoints"

definition normalized_transport_endpoints ::
  "NodeIdentity \<Rightarrow> AdvertisedTransportEndpoint list option \<Rightarrow> bool option \<Rightarrow> AdvertisedTransportEndpoint list" where
  "normalized_transport_endpoints current endpoints relay_enabled =
    (let given = (case endpoints of None \<Rightarrow> id_transport_endpoints current
                  | Some es \<Rightarrow> if es = [] then id_transport_endpoints current else es);
         base_endpoints = filter (\<lambda>e. ep_route_type e \<noteq> ''relay'') given;
         effective = (case relay_enabled of None \<Rightarrow> id_relay_enabled current = Some True | Some b \<Rightarrow> b)
     in if \<not> effective then dedupe_transport_endpoints base_endpoints
        else dedupe_transport_endpoints (base_endpoints @ map (\<lambda>e. e\<lparr>ep_route_type := ''relay''\<rparr>) base_endpoints))"

fun replace_first :: "('a \<Rightarrow> bool) \<Rightarrow> 'a \<Rightarrow> 'a list \<Rightarrow> 'a list" where
  "replace_first P y [] = [y]"
| "replace_first P y (x # xs) = (if P x then y # xs else x # replace_first P y xs)"

definition dp_model_id :: "DownloadProgress \<Rightarrow> string" where
  "dp_model_id dp = mc_model_id (sh_model_card (dp_shard_metadata dp))"

definition apply_node_download_progress :: "DownloadProgress \<Rightarrow> State \<Rightarrow> State" where
  "apply_node_download_progress dp s =
    s\<lparr>st_downloads := AList.update (dp_node_id dp)
        (replace_first (\<lambda>x. dp_model_id x = dp_model_id dp) dp (dget (st_downloads s) (dp_node_id dp) []))
        (st_downloads s)\<rparr>"

definition apply_task_created :: "string \<Rightarrow> Task \<Rightarrow> State \<Rightarrow> State" where
  "apply_task_created task_id task s = s\<lparr>st_tasks := AList.update task_id task (st_tasks s)\<rparr>"

definition apply_task_deleted :: "string \<Rightarrow> State \<Rightarrow> State" where
  "apply_task_deleted task_id s = s\<lparr>st_tasks := AList.delete task_id (st_tasks s)\<rparr>"

definition apply_task_status_updated :: "string \<Rightarrow> TaskStatus \<Rightarrow> State \<Rightarrow> State" where
  "apply_task_status_updated task_id status s =
    (case map_of (st_tasks s) task_id of None \<Rightarrow> s
     | Some task \<Rightarrow> s\<lparr>st_tasks := AList.update task_id
         (if status \<noteq> Failed then task\<lparr>tk_task_status := status, tk_error_type := None, tk_error_message := None\<rparr>
          else task\<lparr>tk_task_status := status\<rparr>) (st_tasks s)\<rparr>)"

definition apply_task_failed :: "string \<Rightarrow> string \<Rightarrow> string \<Rightarrow> State \<Rightarrow> State" where
  "apply_task_failed task_id error_type error_message s =
    (case map_of (st_tasks s) task_id of None \<Rightarrow> s
     | Some task \<Rightarrow> s\<lparr>st_tasks := AList.update task_id
         (task\<lparr>tk_error_type := Some error_type, tk_error_message := Some error_message\<rparr>) (st_tasks s)\<rparr>)"

definition apply_instance_created :: "Instance \<Rightarrow> State \<Rightarrow> State" where
  "apply_instance_created inst s = s\<lparr>st_instances := AList.update (in_instance_id inst) inst (st_instances s)\<rparr>"

definition apply_instance_deleted :: "string \<Rightarrow> State \<Rightarrow> State" where
  "apply_instance_deleted instance_id s = s\<lparr>st_instances := AList.delete instance_id (st_instances s)\<rparr>"

definition apply_runner_status_updated :: "string \<Rightarrow> RunnerStatus \<Rightarrow> State \<Rightarrow> State" where
  "apply_runner_status_updated runner_id status s =
    (if status = RunnerShutdown then s\<lparr>st_runners := AList.delete runner_id (st_runners s)\<rparr>
     else s\<lparr>st_runners := AList.update runner_id status (st_runners s)\<rparr>)"

definition bridge_cycles ::
  "runtime_env \<Rightarrow> (string \<times> ThunderboltBridgeStatus) list \<Rightarrow> (string \<times> NodeNetworkInfo) list \<Rightarrow> Topology
   \<Rightarrow> (runtime_error, string list list) res" where
  "bridge_cycles E = get_thunderbolt_bridge_cycles (re_rx E) (re_set_order E)"

definition bridge_enabled :: "(string \<times> ThunderboltBridgeStatus) list \<Rightarrow> string \<Rightarrow> bool" where
  "bridge_enabled status x = (case map_of status x of None \<Rightarrow> False | Some b \<Rightarrow> tb_enabled b)"

definition forget_peer :: "string \<Rightarrow> (string \<times> string list) list \<Rightarrow> (string \<times> string list) list" where
  "forget_peer x peers =
    map (\<lambda>(k, ps). (k, filter (\<lambda>p. p \<noteq> x) ps)) (filter (\<lambda>(k, ps). k \<noteq> x \<and> list_ex (\<lambda>p. p \<noteq> x) ps) peers)"

definition without_node :: "string \<Rightarrow> string list list \<Rightarrow> State \<Rightarrow> State" where
  "without_node x cycles s =
    s\<lparr>st_downloads := AList.delete x (st_downloads s), st_topology := topology_remove_node x (st_topology s),
      st_last_seen := AList.delete x (st_last_seen s), st_node_identities := AList.delete x (st_node_identities s),
      st_node_memory := AList.delete x (st_node_memory s), st_node_disk := AList.delete x (st_node_disk s),
      st_node_system := AList.delete x (st_node_system s), st_node_network := AList.delete x (st_node_network s),
      st_node_thunderbolt := AList.delete x (st_node_thunderbolt s),
      st_node_thunderbolt_bridge := AList.delete x (st_node_thunderbolt_bridge s),
      st_node_rdma_ctl := AList.delete x (st_node_rdma_ctl s),
      st_overlay_peers := forget_peer x (st_overlay_peers s),
      st_overlay_advertised_peers := AList.delete x (st_overlay_advertised_peers s),
      st_thunderbolt_bridge_cycles := cycles\<rparr>"

definition apply_node_timed_out :: "runtime_env \<Rightarrow> string \<Rightarrow> State \<Rightarrow> (runtime_error, State) res" where
  "apply_node_timed_out E x s =
    rbind (if bridge_enabled (st_node_thunderbolt_bridge s) x
           then bridge_cycles E (AList.delete x (st_node_thunderbolt_bridge s)) (AList.delete x (st_node_network s))
                  (topology_remove_node x (st_topology s))
           else Inr (st_thunderbolt_bridge_cycles s)) (\<lambda>cycles.
    Inr (without_node x cycles s))"

definition update_identity :: "string \<Rightarrow> (NodeIdentity \<Rightarrow> NodeIdentity) \<Rightarrow> State \<Rightarrow> State" where
  "update_identity x f s =
    s\<lparr>st_node_identities := AList.update x (f (dget (st_node_identities s) x new_node_identity)) (st_node_identities s)\<rparr>"

definition identity_api_endpoint :: "ApiEndpointInfo \<Rightarrow> NodeIdentity \<Rightarrow> NodeIdentity" where
  "identity_api_endpoint i c =
    c\<lparr>id_api_host := ae_host i, id_api_port := Some (ae_port i), id_data_host := ae_data_host i, id_data_port := ae_data_port i,
      id_transport_endpoints := normalized_transport_endpoints c (Some (ae_transport_endpoints i)) None\<rparr>"

definition identity_static :: "StaticNodeInformation \<Rightarrow> NodeIdentity \<Rightarrow> NodeIdentity" where
  "identity_static i c =
    c\<lparr>id_model_id := sn_model i, id_chip_id := sn_chip i, id_os_version := sn_os_version i,
      id_os_build_version := sn_os_build_version i, id_cpu_physical_cores := sn_cpu_physical_cores i,
      id_cpu_logical_cores := sn_cpu_logical_cores i, id_total_vram_bytes := sn_total_vram_bytes i\<rparr>"

definition identity_worker :: "WorkerStateInfo \<Rightarrow> NodeIdentity \<Rightarrow> NodeIdentity" where
  "identity_worker i c =
    c\<lparr>id_worker_enabled := Some (ws_worker_enabled i), id_relay_enabled := Some (ws_relay_enabled i),
      id_worker_reward_address := ws_worker_reward_address i, id_node_public_key_b64 := ws_node_public_key_b64 i,
      id_node_public_key_address := ws_node_public_key_address i, id_readiness := ws_readiness i,
      id_transport_endpoints := normalized_transport_endpoints c None (Some (ws_relay_enabled i))\<rparr>"

text \<open>
  The map from Thunderbolt domains to the node and interface that own them, and the connections
  whose two ends are known. A later interface with the same domain replaces an earlier one.
\<close>

definition thunderbolt_conn_map :: "(string \<times> ThunderboltIdentifier list) list \<Rightarrow> (string \<times> string \<times> string) list" where
  "thunderbolt_conn_map d =
    foldl (\<lambda>m (nid, i). AList.update (ti_domain_uuid i) (nid, ti_rdma_interface i) m) []
      (concat (map (\<lambda>(nid, is). map (\<lambda>i. (nid, i)) is) d))"

definition rdma_conns :: "string \<Rightarrow> (string \<times> string \<times> string) list \<Rightarrow> ThunderboltConnection list \<Rightarrow> Connection list" where
  "rdma_conns x m conns =
    concat (map (\<lambda>c. case (map_of m (tc_source_uuid c), map_of m (tc_sink_uuid c)) of
        (Some (_, source_iface), Some (sink, sink_iface)) \<Rightarrow>
          [\<lparr>cn_source = x, cn_sink = sink, cn_edge = RDMAConnection source_iface sink_iface\<rparr>]
      | _ \<Rightarrow> []) conns)"

fun gathered :: "runtime_env \<Rightarrow> string \<Rightarrow> GatheredInfo \<Rightarrow> State \<Rightarrow> (runtime_error, State) res" where
  "gathered E x (MacmonMetrics system memory) s =
    Inr (s\<lparr>st_node_system := AList.update x system (st_node_system s),
           st_node_memory := AList.update x memory (st_node_memory s)\<rparr>)"
| "gathered E x (PsutilSystemMetrics system) s = Inr (s\<lparr>st_node_system := AList.update x system (st_node_system s)\<rparr>)"
| "gathered E x (InfoMemoryUsage memory) s = Inr (s\<lparr>st_node_memory := AList.update x memory (st_node_memory s)\<rparr>)"
| "gathered E x (NodeDiskUsage disk) s = Inr (s\<lparr>st_node_disk := AList.update x disk (st_node_disk s)\<rparr>)"
| "gathered E x NodeConfig s = Inr s"
| "gathered E x (MiscData friendly_name) s = Inr (update_identity x (\<lambda>c. c\<lparr>id_friendly_name := friendly_name\<rparr>) s)"
| "gathered E x (InfoApiEndpoint i) s = Inr (update_identity x (identity_api_endpoint i) s)"
| "gathered E x (InfoStaticNode i) s = Inr (update_identity x (identity_static i) s)"
| "gathered E x (InfoWorkerState i) s = Inr (update_identity x (identity_worker i) s)"
| "gathered E x (NodeNetworkInterfaces ifaces) s = Inr (s\<lparr>st_node_network := AList.update x ifaces (st_node_network s)\<rparr>)"
| "gathered E x (MacThunderboltIdentifiers idents) s =
    Inr (s\<lparr>st_node_thunderbolt := AList.update x idents (st_node_thunderbolt s)\<rparr>)"
| "gathered E x (MacThunderboltConnections conns) s =
    rbind (replace_all_out_rdma_connections (re_rx E) x
      (rdma_conns x (thunderbolt_conn_map (st_node_thunderbolt s)) conns) (st_topology s)) (\<lambda>t.
    Inr (s\<lparr>st_topology := t\<rparr>))"
| "gathered E x (ThunderboltBridgeInfo status) s =
    (let bridge = AList.update x status (st_node_thunderbolt_bridge s)
     in rbind (if bridge_enabled (st_node_thunderbolt_bridge s) x \<noteq> tb_enabled status
               then bridge_cycles E bridge (st_node_network s) (st_topology s)
               else Inr (st_thunderbolt_bridge_cycles s)) (\<lambda>cycles.
        Inr (s\<lparr>st_node_thunderbolt_bridge := bridge, st_thunderbolt_bridge_cycles := cycles\<rparr>)))"
| "gathered E x (RdmaCtlStatus enabled) s = Inr (s\<lparr>st_node_rdma_ctl := AList.update x enabled (st_node_rdma_ctl s)\<rparr>)"

definition apply_node_gathered_info :: "runtime_env \<Rightarrow> string \<Rightarrow> string \<Rightarrow> GatheredInfo \<Rightarrow> State \<Rightarrow> (runtime_error, State) res" where
  "apply_node_gathered_info E x when info s =
    (case re_fromisoformat E when of
       None \<Rightarrow> Inl (RtValueError when)
     | Some time \<Rightarrow>
         gathered E x info (s\<lparr>st_last_seen := AList.update x time (st_last_seen s),
                              st_topology := add_node (re_rx E) x (st_topology s)\<rparr>))"

definition apply_topology_edge_created :: "runtime_env \<Rightarrow> Connection \<Rightarrow> State \<Rightarrow> State" where
  "apply_topology_edge_created E conn s = s\<lparr>st_topology := add_connection (re_rx E) conn (st_topology s)\<rparr>"

definition apply_topology_edge_deleted :: "Connection \<Rightarrow> State \<Rightarrow> State" where
  "apply_topology_edge_deleted conn s = s\<lparr>st_topology := remove_connection conn (st_topology s)\<rparr>"

definition peer_insert :: "(string \<times> string list) list \<Rightarrow> string \<times> string \<Rightarrow> (string \<times> string list) list" where
  "peer_insert d = (\<lambda>(source, sink).
    let current = dget d source []
    in AList.update source (if sink \<in> set current then current else sort (current @ [sink])) d)"

definition peer_remove :: "(string \<times> string list) list \<Rightarrow> string \<times> string \<Rightarrow> (string \<times> string list) list" where
  "peer_remove d = (\<lambda>(source, sink).
    let current = filter (\<lambda>p. p \<noteq> sink) (dget d source [])
    in if current \<noteq> [] then AList.update source current d else AList.delete source d)"

definition apply_overlay_peer_connected :: "string \<Rightarrow> string \<Rightarrow> State \<Rightarrow> State" where
  "apply_overlay_peer_connected a b s = s\<lparr>st_overlay_peers := foldl peer_insert (st_overlay_peers s) [(a, b), (b, a)]\<rparr>"

definition apply_overlay_peer_disconnected :: "string \<Rightarrow> string \<Rightarrow> State \<Rightarrow> State" where
  "apply_overlay_peer_disconnected a b s = s\<lparr>st_overlay_peers := foldl peer_remove (st_overlay_peers s) [(a, b), (b, a)]\<rparr>"

definition apply_overlay_bootstrap_peers_advertised :: "string \<Rightarrow> string list \<Rightarrow> State \<Rightarrow> State" where
  "apply_overlay_bootstrap_peers_advertised x peers s =
    s\<lparr>st_overlay_advertised_peers := AList.update x peers (st_overlay_advertised_peers s)\<rparr>"

fun event_apply :: "runtime_env \<Rightarrow> event_kind \<Rightarrow> State \<Rightarrow> (runtime_error, State) res" where
  "event_apply E TestEvent s = Inr s"
| "event_apply E (ChunkGenerated _ _) s = Inr s"
| "event_apply E (TaskAcknowledged _) s = Inr s"
| "event_apply E (InputChunkReceived _ _) s = Inr s"
| "event_apply E (TracesCollected _ _ _) s = Inr s"
| "event_apply E (TracesMerged _ _) s = Inr s"
| "event_apply E (CustomModelCardAdded _) s = Inr s"
| "event_apply E (CustomModelCardDeleted _) s = Inr s"
| "event_apply E (InstanceCreated inst) s = Inr (apply_instance_created inst s)"
| "event_apply E (InstanceDeleted i) s = Inr (apply_instance_deleted i s)"
| "event_apply E (NodeTimedOut x) s = apply_node_timed_out E x s"
| "event_apply E (NodeDownloadProgress dp) s = Inr (apply_node_download_progress dp s)"
| "event_apply E (NodeGatheredInfo x when info) s = apply_node_gathered_info E x when info s"
| "event_apply E (RunnerStatusUpdated r status) s = Inr (apply_runner_status_updated r status s)"
| "event_apply E (TaskCreated t task) s = Inr (apply_task_created t task s)"
| "event_apply E (TaskDeleted t) s = Inr (apply_task_deleted t s)"
| "event_apply E (TaskFailed t et em) s = Inr (apply_task_failed t et em s)"
| "event_apply E (TaskStatusUpdated t status) s = Inr (apply_task_status_updated t status s)"
| "event_apply E (TopologyEdgeCreated conn) s = Inr (apply_topology_edge_created E conn s)"
| "event_apply E (TopologyEdgeDeleted conn) s = Inr (apply_topology_edge_deleted conn s)"
| "event_apply E (OverlayPeerConnected a b) s = Inr (apply_overlay_peer_connected a b s)"
| "event_apply E (OverlayPeerDisconnected a b) s = Inr (apply_overlay_peer_disconnected a b s)"
| "event_apply E (OverlayBootstrapPeersAdvertised x peers) s = Inr (apply_overlay_bootstrap_peers_advertised x peers s)"

definition apply_event :: "runtime_env \<Rightarrow> State \<Rightarrow> IndexedEvent \<Rightarrow> (runtime_error, State) res" where
  "apply_event E s event =
    (if st_last_event_applied_idx s \<noteq> ie_idx event - 1 then Inl AssertionError
     else rbind (event_apply E (ev_event (ie_event event)) s) (\<lambda>s'.
          Inr (s'\<lparr>st_last_event_applied_idx := ie_idx event\<rparr>)))"

end
