(* ===== verification/Master.thy ===== *)
theory Master
  imports ClusterState EventLog
begin

text \<open>
  The master (\<open>cai/src/cai/master/main.py\<close>) with the pure parts of \<open>master/placement.py\<close> it
  calls for creating and deleting instances. A handler is a state transformer that may raise;
  what it sends on a channel is appended to an outbox of the state, so what was sent before an
  exception stays sent.

  \<open>master_env\<close> holds what the process brings along: the packing of events, the time read when the
  event with a given index is stamped (\<open>str(datetime.now())\<close>), fresh ids by number, the flags,
  and the search for a placement (\<open>place_instance\<close>), which only computes a new table of
  instances from the state. The loops around the handlers are channel plumbing: a handler is
  called once for every message.
\<close>

section \<open>Messages\<close>

record SessionId =
  ss_master_node_id :: string
  ss_election_clock :: int

record LocalForwarderEvent =
  lf_origin_idx :: int
  lf_origin :: string
  lf_session :: SessionId
  lf_event :: Event

record GlobalForwarderEvent =
  gf_origin_idx :: int
  gf_origin :: string
  gf_session :: SessionId
  gf_event :: Event

datatype Command =
    TestCommand
  | TextGeneration string TaskParams
  | ImageGeneration string TaskParams
  | ImageEdits string TaskParams
  | PlaceInstance ModelCard Sharding string int
  | CreateInstance Instance
  | DeleteInstance string
  | TaskCancelled string
  | TaskFinished string
  | SendInputChunk string json
  | RequestEventLog int
  | AddCustomModelCard ModelCard
  | DeleteCustomModelCard string

datatype DownloadCommand =
    StartDownload string ShardMetadata
  | DeleteDownload string string
  | CancelDownload string string

section \<open>Instances\<close>

definition add_instance_to_placements :: "Instance \<Rightarrow> (string \<times> Instance) list \<Rightarrow> (string \<times> Instance) list" where
  "add_instance_to_placements inst current = AList.update (in_instance_id inst) inst current"

definition delete_instance :: "string \<Rightarrow> (string \<times> Instance) list \<Rightarrow> (runtime_error, (string \<times> Instance) list) res" where
  "delete_instance i current =
    (if i \<in> fst ` set current then Inr (AList.delete i current) else Inl (RtValueError ''Instance not found''))"

definition get_transition_events ::
  "(string \<times> Instance) list \<Rightarrow> (string \<times> Instance) list \<Rightarrow> (string \<times> Task) list \<Rightarrow> event_kind list" where
  "get_transition_events current target tasks =
    map (\<lambda>(_, inst). InstanceCreated inst) (filter (\<lambda>(i, _). i \<notin> fst ` set current) target)
    @ concat (map (\<lambda>(i, _).
        map (\<lambda>(_, t). TaskStatusUpdated (tk_task_id t) Cancelled)
          (filter (\<lambda>(_, t). tk_instance_id t = i \<and> tk_task_status t \<in> {Pending, Running}) tasks) @ [InstanceDeleted i])
      (filter (\<lambda>(i, _). i \<notin> fst ` set target) current))"

definition is_ongoing :: "DownloadProgress \<Rightarrow> bool" where
  "is_ongoing d = (case dp_status d of DownloadOngoing _ \<Rightarrow> True | _ \<Rightarrow> False)"

definition active_models :: "(string \<times> Instance) list \<Rightarrow> (runtime_error, (string \<times> string) list) res" where
  "active_models instances =
    rmap (\<lambda>(a, node, runner). case map_of (sa_runner_to_shard a) runner of
        None \<Rightarrow> Inl (RtKeyError runner) | Some shard \<Rightarrow> Inr (node, mc_model_id (sh_model_card shard)))
      (concat (map (\<lambda>(_, inst). map (\<lambda>(n, r). (in_shard_assignments inst, n, r))
         (sa_node_to_runner (in_shard_assignments inst))) instances))"

definition cancel_unnecessary_downloads ::
  "(string \<times> Instance) list \<Rightarrow> (string \<times> DownloadProgress list) list \<Rightarrow> (runtime_error, DownloadCommand list) res" where
  "cancel_unnecessary_downloads instances downloads =
    rbind (active_models instances) (\<lambda>active.
    Inr (map (\<lambda>(node, model). CancelDownload node model)
      (filter (\<lambda>p. p \<notin> set active)
        (concat (map (\<lambda>(node, ds). map (\<lambda>d. (node, dp_model_id d)) (filter is_ongoing ds)) downloads)))))"

section \<open>The state of the master\<close>

record master_env =
  me_env :: runtime_env
  me_ser :: "Event \<Rightarrow> byte list"
  me_des :: "byte list \<Rightarrow> (runtime_error, Event) res"
  me_now :: "int \<Rightarrow> string"
  me_fresh :: "nat \<Rightarrow> string"
  me_tracing :: bool
  me_sync_batch_size :: int
  me_place_instance :: "ModelCard \<Rightarrow> Sharding \<Rightarrow> string \<Rightarrow> int \<Rightarrow> State \<Rightarrow> (runtime_error, (string \<times> Instance) list) res"

record Master =
  ma_node_id :: string
  ma_session_id :: SessionId
  ma_state :: State
  ma_command_task_mapping :: "(string \<times> string) list"
  ma_multi_buffer :: "(string, Event) MultiSourceBuffer"
  ma_event_log :: DiskEventLog
  ma_pending_traces :: "(string \<times> (int \<times> TraceEventData list) list) list"
  ma_expected_ranks :: "(string \<times> int set) list"
  ma_ids :: nat
  ma_events_sent :: "Event list"
  ma_global_sent :: "GlobalForwarderEvent list"
  ma_downloads_sent :: "DownloadCommand list"

definition new_master :: "string \<Rightarrow> SessionId \<Rightarrow> Master" where
  "new_master node_id session_id =
    \<lparr>ma_node_id = node_id, ma_session_id = session_id, ma_state = new_state, ma_command_task_mapping = [],
     ma_multi_buffer = [], ma_event_log = new_event_log, ma_pending_traces = [], ma_expected_ranks = [], ma_ids = 0,
     ma_events_sent = [], ma_global_sent = [], ma_downloads_sent = []\<rparr>"

text \<open>\<open>event_sender.send\<close> of new events: each gets a fresh event id.\<close>

definition send_events :: "master_env \<Rightarrow> event_kind list \<Rightarrow> Master \<Rightarrow> Master" where
  "send_events V ks M =
    M\<lparr>ma_events_sent := ma_events_sent M
        @ map (\<lambda>i. \<lparr>ev_event_id = me_fresh V (ma_ids M + i), ev_event = ks ! i\<rparr>) [0 ..< length ks],
      ma_ids := ma_ids M + length ks\<rparr>"

definition send_event :: "int \<Rightarrow> Event \<Rightarrow> Master \<Rightarrow> Master" where
  "send_event idx event M =
    M\<lparr>ma_global_sent := ma_global_sent M
        @ [\<lparr>gf_origin_idx = idx, gf_origin = ma_node_id M, gf_session = ma_session_id M, gf_event = event\<rparr>]\<rparr>"

section \<open>Events\<close>

definition merge_and_save_traces :: "master_env \<Rightarrow> string \<Rightarrow> Master \<Rightarrow> Master" where
  "merge_and_save_traces V task_id M =
    (send_events V [TracesMerged task_id (concat (map snd (dget (ma_pending_traces M) task_id [])))] M)
      \<lparr>ma_pending_traces := AList.delete task_id (ma_pending_traces M),
       ma_expected_ranks := AList.delete task_id (ma_expected_ranks M)\<rparr>"

definition handle_traces_collected :: "master_env \<Rightarrow> string \<Rightarrow> int \<Rightarrow> TraceEventData list \<Rightarrow> Master \<Rightarrow> Master" where
  "handle_traces_collected V task_id rank traces M =
    (let pending = AList.update rank traces (dget (ma_pending_traces M) task_id []);
         M1 = M\<lparr>ma_pending_traces := AList.update task_id pending (ma_pending_traces M)\<rparr>
     in case map_of (ma_expected_ranks M) task_id of
          None \<Rightarrow> M1
        | Some ranks \<Rightarrow> if ranks \<subseteq> fst ` set pending then merge_and_save_traces V task_id M1 else M1)"

definition stamp :: "string \<Rightarrow> Event \<Rightarrow> Event" where
  "stamp now e = (case ev_event e of NodeGatheredInfo x _ info \<Rightarrow> e\<lparr>ev_event := NodeGatheredInfo x now info\<rparr> | _ \<Rightarrow> e)"

text \<open>
  Indexing: the event is applied as it came, then stamped, then logged and sent as stamped.
\<close>

definition index_event :: "master_env \<Rightarrow> Event \<Rightarrow> (Master, runtime_error, unit) sres" where
  "index_event V event M =
    (let idx = int (dl_count (ma_event_log M))
     in case apply_event (me_env V) (ma_state M) \<lparr>ie_idx = idx, ie_event = event\<rparr> of
          Inl e \<Rightarrow> (Inl e, M)
        | Inr s \<Rightarrow>
            let M1 = M\<lparr>ma_state := s\<rparr>; stamped = stamp (me_now V idx) event
            in case log_append (me_ser V) stamped (ma_event_log M1) of
                 Inl e \<Rightarrow> (Inl e, M1)
               | Inr l \<Rightarrow> (Inr (), send_event idx stamped (M1\<lparr>ma_event_log := l\<rparr>)))"

definition process_event :: "master_env \<Rightarrow> Event \<Rightarrow> (Master, runtime_error, unit) sres" where
  "process_event V event M =
    (case ev_event event of
       TracesCollected task_id rank traces \<Rightarrow> (Inr (), handle_traces_collected V task_id rank traces M)
     | _ \<Rightarrow> index_event V event M)"

fun process_events :: "master_env \<Rightarrow> Event list \<Rightarrow> (Master, runtime_error, unit) sres" where
  "process_events V [] M = (Inr (), M)"
| "process_events V (e # es) M =
    (case process_event V e M of (Inl x, M1) \<Rightarrow> (Inl x, M1) | (Inr _, M1) \<Rightarrow> process_events V es M1)"

definition event_processor :: "master_env \<Rightarrow> LocalForwarderEvent \<Rightarrow> (Master, runtime_error, unit) sres" where
  "event_processor V le M =
    (if ss_master_node_id (lf_session le) \<noteq> ss_master_node_id (ma_session_id M) then (Inr (), M)
     else case multi_ingest (lf_origin_idx le) (lf_event le) (lf_origin le) (ma_multi_buffer M) of
       Inl e \<Rightarrow> (Inl e, M)
     | Inr b \<Rightarrow> let (events, b1) = multi_drain b in process_events V events (M\<lparr>ma_multi_buffer := b1\<rparr>))"

section \<open>Commands\<close>

text \<open>The instances that serve a model with the number of their tasks, and the least loaded one.\<close>

definition instance_task_counts :: "string \<Rightarrow> State \<Rightarrow> (string \<times> nat) list" where
  "instance_task_counts model s =
    foldl (\<lambda>d (_, inst).
        if sa_model_id (in_shard_assignments inst) = model
        then AList.update (in_instance_id inst)
               (length (filter (\<lambda>(_, t). tk_instance_id t = in_instance_id inst) (st_tasks s))) d
        else d) [] (st_instances s)"

definition select_instance :: "string \<Rightarrow> State \<Rightarrow> (runtime_error, string) res" where
  "select_instance model s =
    (case sort_key snd (instance_task_counts model s) of
       [] \<Rightarrow> Inl (RtValueError ''No instance found for model'') | (i, _) # _ \<Rightarrow> Inr i)"

text \<open>A generation command: a task on the least loaded instance, recorded under the command.\<close>

definition create_task ::
  "master_env \<Rightarrow> string \<Rightarrow> string \<Rightarrow> task_kind \<Rightarrow> bool \<Rightarrow> (Master, runtime_error, event_kind list) sres" where
  "create_task V command_id model kind traced M =
    (case select_instance model (ma_state M) of
       Inl e \<Rightarrow> (Inl e, M)
     | Inr i \<Rightarrow>
         let task_id = me_fresh V (ma_ids M);
             M1 = M\<lparr>ma_ids := ma_ids M + 1,
                    ma_command_task_mapping := AList.update command_id task_id (ma_command_task_mapping M)\<rparr>;
             M2 = (case map_of (st_instances (ma_state M)) i of
                     Some inst \<Rightarrow> if traced \<and> me_tracing V
                       then M1\<lparr>ma_expected_ranks := AList.update task_id
                         (sh_device_rank ` snd ` set (sa_runner_to_shard (in_shard_assignments inst))) (ma_expected_ranks M1)\<rparr>
                       else M1
                   | None \<Rightarrow> M1)
         in (Inr [TaskCreated task_id \<lparr>tk_task_id = task_id, tk_task_status = Pending, tk_instance_id = i,
                  tk_kind = kind, tk_error_type = None, tk_error_message = None\<rparr>], M2))"

definition transition :: "(string \<times> Instance) list \<Rightarrow> Master \<Rightarrow> event_kind list" where
  "transition target M = get_transition_events (st_instances (ma_state M)) target (st_tasks (ma_state M))"

text \<open>The replay reads a batch of the log and sends it under the old indices.\<close>

definition replay :: "master_env \<Rightarrow> int \<Rightarrow> (Master, runtime_error, unit) sres" where
  "replay V since_idx M =
    (let stop = min (since_idx + me_sync_batch_size V) (int (dl_count (ma_event_log M)))
     in case read_range (me_des V) since_idx stop (ma_event_log M) of
          (Inl e, l) \<Rightarrow> (Inl e, M\<lparr>ma_event_log := l\<rparr>)
        | (Inr events, l) \<Rightarrow>
            (Inr (), foldl (\<lambda>M (i, event). send_event i event M) (M\<lparr>ma_event_log := l\<rparr>)
               (zip (map (\<lambda>k. since_idx + int k) [0 ..< length events]) events)))"

fun command :: "master_env \<Rightarrow> Command \<Rightarrow> (Master, runtime_error, event_kind list) sres" where
  "command V TestCommand M = (Inr [], M)"
| "command V (TextGeneration c p) M = create_task V c (pa_model p) (TextGenerationTask c p) False M"
| "command V (ImageGeneration c p) M = create_task V c (pa_model p) (ImageGenerationTask c p) True M"
| "command V (ImageEdits c p) M = create_task V c (pa_model p) (ImageEditsTask c p) True M"
| "command V (DeleteInstance i) M =
    (case delete_instance i (st_instances (ma_state M)) of
       Inl e \<Rightarrow> (Inl e, M)
     | Inr placement \<Rightarrow>
         (case cancel_unnecessary_downloads placement (st_downloads (ma_state M)) of
            Inl e \<Rightarrow> (Inl e, M)
          | Inr cmds \<Rightarrow> (Inr (transition placement M), M\<lparr>ma_downloads_sent := ma_downloads_sent M @ cmds\<rparr>)))"
| "command V (PlaceInstance mcard sharding meta min_nodes) M =
    (case me_place_instance V mcard sharding meta min_nodes (ma_state M) of
       Inl e \<Rightarrow> (Inl e, M) | Inr placement \<Rightarrow> (Inr (transition placement M), M))"
| "command V (CreateInstance inst) M =
    (Inr (transition (add_instance_to_placements inst (st_instances (ma_state M))) M), M)"
| "command V (SendInputChunk c chunk) M = (Inr [InputChunkReceived c chunk], M)"
| "command V (TaskCancelled c) M =
    (case map_of (ma_command_task_mapping M) c of
       Some task_id \<Rightarrow> (Inr [TaskStatusUpdated task_id Cancelled], M) | None \<Rightarrow> (Inr [], M))"
| "command V (TaskFinished c) M =
    (case map_of (ma_command_task_mapping M) c of
       Some task_id \<Rightarrow> (Inr [TaskDeleted task_id],
         M\<lparr>ma_command_task_mapping := AList.delete c (ma_command_task_mapping M)\<rparr>)
     | None \<Rightarrow> (Inr [], M))"
| "command V (AddCustomModelCard mcard) M = (Inr [CustomModelCardAdded mcard], M)"
| "command V (DeleteCustomModelCard model) M = (Inr [CustomModelCardDeleted model], M)"
| "command V (RequestEventLog since_idx) M = sbind (replay V since_idx) (\<lambda>_ M. (Inr [], M)) M"

text \<open>A \<open>ValueError\<close> is logged and the loop goes on; any other exception ends the master.\<close>

definition command_processor :: "master_env \<Rightarrow> Command \<Rightarrow> (Master, runtime_error, unit) sres" where
  "command_processor V c M =
    (case command V c M of
       (Inr events, M1) \<Rightarrow> (Inr (), send_events V events M1)
     | (Inl (RtValueError _), M1) \<Rightarrow> (Inr (), M1)
     | (Inl e, M1) \<Rightarrow> (Inl e, M1))"

section \<open>Planning\<close>

definition live_node_ids :: "Master \<Rightarrow> string set" where
  "live_node_ids M =
    (let s = ma_state M
     in insert (ma_node_id M) (fst ` set (st_last_seen s) \<union> fst ` set (st_node_identities s) \<union> fst ` set (st_node_memory s)
          \<union> fst ` set (st_node_network s) \<union> fst ` set (st_node_disk s) \<union> fst ` set (st_overlay_peers s)
          \<union> (\<Union>(_, ps) \<in> set (st_overlay_peers s). set ps)))"

definition direct_overlay_peer_ids :: "Master \<Rightarrow> string set" where
  "direct_overlay_peer_ids M =
    set (dget (st_overlay_peers (ma_state M)) (ma_node_id M) [])
    \<union> fst ` set (filter (\<lambda>(_, ps). ma_node_id M \<in> set ps) (st_overlay_peers (ma_state M)))"

text \<open>Instances that use a node that is gone, then nodes silent for more than thirty seconds.\<close>

definition broken_instances :: "Master \<Rightarrow> string list" where
  "broken_instances M =
    map fst (filter (\<lambda>(_, inst). list_ex (\<lambda>(n, _). n \<notin> live_node_ids M) (sa_node_to_runner (in_shard_assignments inst)))
      (st_instances (ma_state M)))"

definition kill_broken_instances :: "master_env \<Rightarrow> Master \<Rightarrow> Master" where
  "kill_broken_instances V M = send_events V (map InstanceDeleted (broken_instances M)) M"

text \<open>
  The loop over a copy of \<open>last_seen\<close>. Subtracting a time without a time zone from \<open>now\<close> raises
  \<open>TypeError\<close>, after the events of the nodes before it were sent.
\<close>

fun time_out_nodes ::
  "master_env \<Rightarrow> int \<Rightarrow> string set \<Rightarrow> (string \<times> datetime) list \<Rightarrow> (Master, runtime_error, unit) sres" where
  "time_out_nodes V now direct [] M = (Inr (), M)"
| "time_out_nodes V now direct ((node, time) # rest) M =
    (if node = ma_node_id M then time_out_nodes V now direct rest M
     else case time of
       Naive _ \<Rightarrow> (Inl RtTypeError, M)
     | Aware t \<Rightarrow>
         if now - t \<le> 30 * 1000000 \<or> node \<in> direct then time_out_nodes V now direct rest M
         else time_out_nodes V now direct rest (send_events V [NodeTimedOut node] M))"

definition time_out_dead_nodes :: "master_env \<Rightarrow> int \<Rightarrow> (Master, runtime_error, unit) sres" where
  "time_out_dead_nodes V now M = time_out_nodes V now (direct_overlay_peer_ids M) (st_last_seen (ma_state M)) M"

text \<open>
  One round of the plan loop. It gives way to other tasks only where it sends an event, and each
  half reads the state before its first send, so the halves are what another task can see.
\<close>

definition plan_once :: "master_env \<Rightarrow> int \<Rightarrow> (Master, runtime_error, unit) sres" where
  "plan_once V now = sbind (\<lambda>M. (Inr (), kill_broken_instances V M)) (\<lambda>_. time_out_dead_nodes V now)"

end
