(* ===== verification/EventRouter.thy ===== *)
theory EventRouter
  imports Master
begin

text \<open>
  The event router of a node (\<open>cai/src/cai/routing/event_router.py\<close>): it numbers the events of the
  node and sends them to the master until they come back indexed, puts the indexed events of the
  master back in order, hands them to the channels of the node and asks for a replay when an
  event is missing. A coroutine is modelled by the steps between its suspension points; a send on
  a channel suspends before the item is put. While \<open>run_ext_in\<close> hands out a batch it suspends as well, but no
  other coroutine touches the buffer or the channels, so the batch is one step. Times
  are seconds. A cancel scope is a number; \<open>er_cancelled\<close> holds the scopes that were cancelled.
  \<open>er_retrying\<close> is what a pass of \<open>_simple_retry\<close> has still to visit of its copy of \<open>out_for_delivery\<close>.
\<close>

record channel =
  ch_open :: bool
  ch_sent :: "IndexedEvent list"

text \<open>A nack task: the scope it has entered, once it runs, and the index it asks for.\<close>

type_synonym nack_task = "nat option \<times> int"

record EventRouter =
  er_session_id :: SessionId
  er_buffer :: "Event OrderedBuffer"
  er_internal_outbound :: "channel list"
  er_out_for_delivery :: "(string \<times> rat \<times> LocalForwarderEvent) list"
  er_retrying :: "(string \<times> rat \<times> LocalForwarderEvent) list"
  er_next_origin_idx :: "(string \<times> int) list"
  er_nack_cancel_scope :: "nat option"
  er_nack_attempts :: nat
  er_nack_tasks :: "nack_task list"
  er_scopes :: nat
  er_cancelled :: "nat set"
  er_external_sent :: "LocalForwarderEvent list"
  er_commands_sent :: "Command list"

definition new_event_router :: "SessionId \<Rightarrow> nat \<Rightarrow> EventRouter" where
  "new_event_router session receivers =
    \<lparr>er_session_id = session, er_buffer = new_ordered_buffer,
     er_internal_outbound = replicate receivers \<lparr>ch_open = True, ch_sent = []\<rparr>, er_out_for_delivery = [], er_retrying = [],
     er_next_origin_idx = [], er_nack_cancel_scope = None, er_nack_attempts = 0, er_nack_tasks = [], er_scopes = 0,
     er_cancelled = {}, er_external_sent = [], er_commands_sent = []\<rparr>"

definition NACK_BASE_SECONDS :: rat where "NACK_BASE_SECONDS = 1 / 2"
definition NACK_CAP_SECONDS :: rat where "NACK_CAP_SECONDS = 10"

section \<open>Towards the master\<close>

definition router_ingest :: "rat \<Rightarrow> string \<Rightarrow> Event \<Rightarrow> EventRouter \<Rightarrow> EventRouter" where
  "router_ingest now system_id event r =
    (let idx = dget (er_next_origin_idx r) system_id 0;
         f = \<lparr>lf_origin_idx = idx, lf_origin = system_id, lf_session = er_session_id r, lf_event = event\<rparr>
     in r\<lparr>er_next_origin_idx := AList.update system_id (idx + 1) (er_next_origin_idx r),
          er_external_sent := er_external_sent r @ [f],
          er_out_for_delivery := AList.update (ev_event_id event) (now, f) (er_out_for_delivery r)\<rparr>)"

text \<open>
  A pass of \<open>_simple_retry\<close> starts with a shallow copy of \<open>out_for_delivery\<close> and visits its entries.
  It suspends wherever it sends, so the table can change between the visits.
\<close>

definition retry_start :: "EventRouter \<Rightarrow> EventRouter" where
  "retry_start r = (if er_retrying r = [] then r\<lparr>er_retrying := er_out_for_delivery r\<rparr> else r)"

definition retry_next :: "rat \<Rightarrow> EventRouter \<Rightarrow> EventRouter" where
  "retry_next now r =
    (case er_retrying r of [] \<Rightarrow> r
     | (event_id, time, f) # rest \<Rightarrow>
         if now > time + 5
         then r\<lparr>er_retrying := rest, er_out_for_delivery := AList.update event_id (now, f) (er_out_for_delivery r),
                er_external_sent := er_external_sent r @ [f]\<rparr>
         else r\<lparr>er_retrying := rest\<rparr>)"

section \<open>From the master\<close>

text \<open>An event goes to every open channel; a channel found closed is dropped.\<close>

definition deliver :: "channel list \<Rightarrow> int \<times> Event \<Rightarrow> channel list" where
  "deliver chans = (\<lambda>(idx, event).
    map (\<lambda>c. c\<lparr>ch_sent := ch_sent c @ [\<lparr>ie_idx = idx, ie_event = event\<rparr>]\<rparr>) (filter ch_open chans))"

definition from_master :: "GlobalForwarderEvent \<Rightarrow> EventRouter \<Rightarrow> bool" where
  "from_master g r \<longleftrightarrow> ss_master_node_id (gf_session g) = ss_master_node_id (er_session_id r)
     \<and> gf_origin g = ss_master_node_id (er_session_id r)"

definition run_ext_in :: "GlobalForwarderEvent \<Rightarrow> EventRouter \<Rightarrow> (runtime_error, EventRouter) res" where
  "run_ext_in g r =
    (if \<not> from_master g r then Inr r
     else rbind (ingest (gf_origin_idx g) (gf_event g) (er_buffer r)) (\<lambda>b.
       let (drained, b1) = drain_indexed b;
           r1 = r\<lparr>er_buffer := b1, er_out_for_delivery := AList.delete (ev_event_id (gf_event g)) (er_out_for_delivery r)\<rparr>;
           r2 = (if drained = [] then r1
                 else r1\<lparr>er_nack_attempts := 0,
                         er_cancelled := (case er_nack_cancel_scope r of None \<Rightarrow> er_cancelled r
                                          | Some k \<Rightarrow> insert k (er_cancelled r))\<rparr>)
       in Inr (if drained = [] \<and> (case er_nack_cancel_scope r2 of None \<Rightarrow> True | Some k \<Rightarrow> k \<in> er_cancelled r2)
               then r2\<lparr>er_nack_tasks := er_nack_tasks r2 @ [(None, ob_next_idx_to_release b1)]\<rparr>
               else r2\<lparr>er_internal_outbound := foldl deliver (er_internal_outbound r2) drained\<rparr>)))"

section \<open>Asking for a replay\<close>

text \<open>The power is one of floats, which raises once the exponent reaches 1024.\<close>

definition nack_delay :: "nat \<Rightarrow> (runtime_error, rat) res" where
  "nack_delay attempts =
    (if attempts \<ge> 1024 then Inl OverflowError else Inr (min NACK_CAP_SECONDS (NACK_BASE_SECONDS * 2 ^ attempts)))"

text \<open>
  A task starts: it enters a new scope and sleeps for \<open>nack_delay\<close> of the attempts so far. An
  exception here ends the router.
\<close>

definition nack_start :: "nat \<Rightarrow> EventRouter \<Rightarrow> (runtime_error, EventRouter) res" where
  "nack_start i r =
    (if i < length (er_nack_tasks r) \<and> fst (er_nack_tasks r ! i) = None
     then rbind (nack_delay (er_nack_attempts r)) (\<lambda>_.
          Inr (r\<lparr>er_nack_tasks := (er_nack_tasks r)[i := (Some (er_scopes r), max 0 (snd (er_nack_tasks r ! i)))],
            er_nack_cancel_scope := Some (er_scopes r), er_scopes := er_scopes r + 1,
            er_nack_attempts := er_nack_attempts r + 1\<rparr>))
     else Inr r)"

text \<open>It wakes up: unless its scope was cancelled it sends the request, and it clears its scope.\<close>

definition nack_finish :: "nat \<Rightarrow> EventRouter \<Rightarrow> EventRouter" where
  "nack_finish i r =
    (if i < length (er_nack_tasks r)
     then case er_nack_tasks r ! i of
            (None, _) \<Rightarrow> r
          | (Some k, since) \<Rightarrow>
              r\<lparr>er_nack_tasks := take i (er_nack_tasks r) @ drop (Suc i) (er_nack_tasks r),
                er_commands_sent := (if k \<in> er_cancelled r then er_commands_sent r
                                     else er_commands_sent r @ [RequestEventLog since]),
                er_nack_cancel_scope := (if er_nack_cancel_scope r = Some k then None else er_nack_cancel_scope r)\<rparr>
     else r)"

end
