(* ===== verification/TopologyProps.thy ===== *)
theory TopologyProps
  imports Topology
begin

text \<open>
  The representation invariant of \<open>Topology\<close>: the dictionary of vertex indices is the inverse of
  the node payloads of the graph, edges join vertices that exist, and no edge is stored twice
  between the same two vertices. Every operation keeps it, provided the graph library hands out
  free indices.
\<close>

section \<open>Dictionaries\<close>

lemma keys_update [simp]: "fst ` set (AList.update k v d) = insert k (fst ` set d)"
  by (simp add: dom_update)

lemma keys_delete [simp]: "fst ` set (AList.delete k d) = fst ` set d - {k}"
  by (auto simp: AList.delete_eq)

lemma set_update_dict: "dict_ok d \<Longrightarrow> set (AList.update k v d) = insert (k, v) {(k', v') \<in> set d. k' \<noteq> k}"
  by (induction d) (auto simp: image_iff)

lemma set_delete_dict: "set (AList.delete k d) = {(k', v') \<in> set d. k' \<noteq> k}"
  by (auto simp: AList.delete_eq)

lemma eq_snd_imp_eq: "distinct (map snd d) \<Longrightarrow> (a, v) \<in> set d \<Longrightarrow> (b, v) \<in> set d \<Longrightarrow> a = b"
  using inj_onD [of snd "set d" "(a, v)" "(b, v)"] by (simp add: distinct_map)

section \<open>The invariant\<close>

definition wf_graph :: "digraph \<Rightarrow> bool" where
  "wf_graph g \<longleftrightarrow> dict_ok (dg_nodes g) \<and> distinct (map snd (dg_nodes g)) \<and> dict_ok (dg_edges g)
     \<and> distinct (map snd (dg_edges g))
     \<and> (\<forall>(_, u, v, _) \<in> set (dg_edges g). {u, v} \<subseteq> fst ` set (dg_nodes g))"

definition wf_topology :: "Topology \<Rightarrow> bool" where
  "wf_topology t \<longleftrightarrow> wf_graph (tp_graph t) \<and> dict_ok (tp_vertex_indices t)
     \<and> set (tp_vertex_indices t) = (\<lambda>(i, x). (x, i)) ` set (dg_nodes (tp_graph t))"

definition topology_nodes :: "Topology \<Rightarrow> string set" where
  "topology_nodes t = fst ` set (tp_vertex_indices t)"

lemma wf_new_topology [simp]: "wf_topology new_topology"
  by (simp add: wf_topology_def wf_graph_def new_topology_def empty_graph_def)

lemma topology_nodes_new [simp]: "topology_nodes new_topology = {}"
  by (simp add: topology_nodes_def new_topology_def)

lemma contains_node_iff [simp]: "contains_node x t \<longleftrightarrow> x \<in> topology_nodes t"
  by (simp add: contains_node_def topology_nodes_def)

lemma vertex_iff: "wf_topology t \<Longrightarrow> (x, i) \<in> set (tp_vertex_indices t) \<longleftrightarrow> (i, x) \<in> set (dg_nodes (tp_graph t))"
  by (auto simp: wf_topology_def image_iff split: prod.splits)

lemma edge_ends:
  "wf_graph g \<Longrightarrow> (k, u, v, e) \<in> set (dg_edges g) \<Longrightarrow> u \<in> fst ` set (dg_nodes g) \<and> v \<in> fst ` set (dg_nodes g)"
  by (auto simp: wf_graph_def dest!: bspec)

lemma vertex_in_graph:
  "wf_topology t \<Longrightarrow> map_of (tp_vertex_indices t) x = Some i \<Longrightarrow> (i, x) \<in> set (dg_nodes (tp_graph t))"
  by (auto simp: wf_topology_def dest!: map_of_SomeD)

lemma vertex_known: "x \<in> topology_nodes t \<Longrightarrow> \<exists>i. map_of (tp_vertex_indices t) x = Some i"
  by (auto simp: topology_nodes_def dest: weak_map_of_SomeI)

lemma vertex_unknown: "map_of (tp_vertex_indices t) x = None \<longleftrightarrow> x \<notin> topology_nodes t"
  by (auto simp: topology_nodes_def map_of_eq_None_iff)

section \<open>Nodes\<close>

lemma topology_nodes_add_node [simp]: "topology_nodes (add_node R x t) = insert x (topology_nodes t)"
  by (auto simp: add_node_def graph_add_node_def Let_def topology_nodes_def contains_node_def)

lemma wf_add_node:
  assumes "rx_fresh R" and "wf_topology t"
  shows "wf_topology (add_node R x t)"
proof (cases "x \<in> topology_nodes t")
  case True
  then show ?thesis using assms(2) by (simp add: add_node_def)
next
  case False
  let ?g = "tp_graph t" and ?i = "rx_node_index R (tp_graph t)"
  have fresh: "?i \<notin> fst ` set (dg_nodes ?g)" using assms(1) by (simp add: rx_fresh_def)
  have new: "x \<notin> snd ` set (dg_nodes ?g)" and absent: "x \<notin> fst ` set (tp_vertex_indices t)"
    using False assms(2) by (force simp: topology_nodes_def wf_topology_def)+
  have "wf_graph (?g\<lparr>dg_nodes := dg_nodes ?g @ [(?i, x)]\<rparr>)"
    using assms(2) fresh new by (force simp: wf_topology_def wf_graph_def)
  then show ?thesis
    using False assms(2) absent
    by (simp add: add_node_def graph_add_node_def Let_def wf_topology_def update_new)
qed

lemma wf_remove_node:
  assumes "wf_topology t"
  shows "wf_topology (topology_remove_node x t)"
proof (cases "map_of (tp_vertex_indices t) x")
  case None
  then show ?thesis using assms by (simp add: topology_remove_node_def)
next
  case (Some i)
  let ?N = "dg_nodes (tp_graph t)"
  have here: "(i, x) \<in> set ?N" by (rule vertex_in_graph [OF assms Some])
  have same: "k = i \<longleftrightarrow> y = x" if "(k, y) \<in> set ?N" for k y
  proof
    show "y = x" if "k = i"
      using eq_key_imp_eq_value [of ?N i y x] \<open>(k, y) \<in> set ?N\<close> here assms that by (simp add: wf_topology_def wf_graph_def)
    show "k = i" if "y = x"
      using eq_snd_imp_eq [of ?N k x i] \<open>(k, y) \<in> set ?N\<close> here assms that by (simp add: wf_topology_def wf_graph_def)
  qed
  have ends: "{u, v} \<subseteq> fst ` set (filter (\<lambda>(k, _). k \<noteq> i) ?N)"
    if "(k, u, v, e) \<in> set (dg_edges (tp_graph t))" "u \<noteq> i" "v \<noteq> i" for k u v e
    using edge_ends [OF _ that(1)] assms that(2,3) by (auto simp: wf_topology_def)
  have "wf_graph (graph_remove_node i (tp_graph t))"
    using assms ends by (auto simp: wf_topology_def wf_graph_def graph_remove_node_def distinct_map_filter)
  moreover have "p \<in> set (AList.delete x (tp_vertex_indices t))
      \<longleftrightarrow> p \<in> (\<lambda>(k, y). (y, k)) ` set (dg_nodes (graph_remove_node i (tp_graph t)))" for p
    by (cases p) (auto simp: graph_remove_node_def set_delete_dict vertex_iff [OF assms] image_iff
        intro: bexI [of _ "(snd p, fst p)"] dest: same)
  ultimately show ?thesis
    using assms Some by (simp add: topology_remove_node_def wf_topology_def distinct_delete set_eq_iff)
qed

lemma topology_nodes_remove_node [simp]: "topology_nodes (topology_remove_node x t) = topology_nodes t - {x}"
  by (auto simp: topology_remove_node_def topology_nodes_def split: option.splits)
    (metis map_of_eq_None_iff image_eqI fst_conv)

section \<open>Edges\<close>

lemma wf_remove_edges:
  "wf_topology t \<Longrightarrow> wf_topology (t\<lparr>tp_graph := graph_remove_edges P (tp_graph t)\<rparr>)"
  by (auto simp: wf_topology_def wf_graph_def graph_remove_edges_def distinct_map_filter split_beta)

lemma topology_nodes_graph [simp]: "topology_nodes (t\<lparr>tp_graph := g\<rparr>) = topology_nodes t"
  by (simp add: topology_nodes_def)

lemma wf_remove_connection: "wf_topology t \<Longrightarrow> wf_topology (remove_connection c t)"
  by (auto simp: remove_connection_def wf_remove_edges split: option.splits)

lemma topology_nodes_remove_connection [simp]: "topology_nodes (remove_connection c t) = topology_nodes t"
  by (simp add: remove_connection_def split: option.splits)

lemma get_all_edge_data_set: "e \<in> set (get_all_edge_data g u v) \<longleftrightarrow> (u, v, e) \<in> snd ` set (dg_edges g)"
  by (force simp: get_all_edge_data_def weighted_edge_list_def)

lemma add_node_edges [simp]: "dg_edges (tp_graph (add_node R x t)) = dg_edges (tp_graph t)"
  by (simp add: add_node_def graph_add_node_def Let_def)

lemma add_node_index:
  "map_of (tp_vertex_indices (add_node R x t)) y =
    (if y = x \<and> x \<notin> topology_nodes t then Some (rx_node_index R (tp_graph t)) else map_of (tp_vertex_indices t) y)"
  by (simp add: add_node_def graph_add_node_def Let_def update_conv')

lemma topology_nodes_add_connection:
  "topology_nodes (add_connection R c t) \<subseteq> topology_nodes t \<union> {cn_source c, cn_sink c}"
  "topology_nodes t \<subseteq> topology_nodes (add_connection R c t)"
  by (auto simp: add_connection_def Let_def split: option.splits)

text \<open>An edge between two vertices, one of which is new, cannot be there already.\<close>

lemma edge_ends_known:
  assumes "wf_topology t" and "(u, v, e) \<in> snd ` set (dg_edges (tp_graph t))"
    and "(u, x) \<in> set (dg_nodes (tp_graph t))" and "(v, y) \<in> set (dg_nodes (tp_graph t))"
  shows "e \<in> set (get_all_connections_between x y t)"
proof -
  have "map_of (tp_vertex_indices t) x = Some u" "map_of (tp_vertex_indices t) y = Some v"
    using assms(1,3,4) by (auto simp: wf_topology_def intro!: map_of_is_SomeI)
  then show ?thesis using assms(2) by (simp add: get_all_connections_between_def get_all_edge_data_set)
qed

lemma wf_add_edge:
  assumes "rx_fresh R" and "wf_topology t" and "map_of (tp_vertex_indices t) x = Some u"
    and "map_of (tp_vertex_indices t) y = Some v" and "e \<notin> set (get_all_connections_between x y t)"
  shows "wf_topology (t\<lparr>tp_graph := graph_add_edge R u v e (tp_graph t)\<rparr>)"
proof -
  have ends: "(u, x) \<in> set (dg_nodes (tp_graph t))" "(v, y) \<in> set (dg_nodes (tp_graph t))"
    using vertex_in_graph [OF assms(2)] assms(3,4) by auto
  then have "{u, v} \<subseteq> fst ` set (dg_nodes (tp_graph t))" by (metis empty_subsetI fst_conv image_eqI insert_subset)
  moreover have "(u, v, e) \<notin> snd ` set (dg_edges (tp_graph t))"
    using edge_ends_known [OF assms(2) _ ends] assms(5) by blast
  moreover have "rx_edge_index R (tp_graph t) \<notin> fst ` set (dg_edges (tp_graph t))"
    using assms(1) by (simp add: rx_fresh_def)
  ultimately show ?thesis
    using assms(2) by (simp add: wf_topology_def wf_graph_def graph_add_edge_def)
qed

lemma connections_add_node:
  assumes "rx_fresh R" and "wf_topology t"
  shows "get_all_connections_between x y (add_node R z t) = get_all_connections_between x y t"
proof -
  have new: "rx_node_index R (tp_graph t) \<notin> {u, v}" if edge: "(u, v, e) \<in> snd ` set (dg_edges (tp_graph t))" for u v e
  proof -
    obtain k where "(k, u, v, e) \<in> set (dg_edges (tp_graph t))" using edge by auto
    then have "u \<in> fst ` set (dg_nodes (tp_graph t)) \<and> v \<in> fst ` set (dg_nodes (tp_graph t))"
      using edge_ends assms(2) by (simp add: wf_topology_def)
    then show ?thesis using assms(1) by (auto simp: rx_fresh_def)
  qed
  have none: "get_all_edge_data (tp_graph t) u v = []" if "rx_node_index R (tp_graph t) \<in> {u, v}" for u v
    using that new get_all_edge_data_set [of _ "tp_graph t" u v] by (metis list.set_intros(1) neq_Nil_conv)
  have same: "get_all_edge_data (tp_graph (add_node R z t)) u v = get_all_edge_data (tp_graph t) u v" for u v
    by (simp add: get_all_edge_data_def weighted_edge_list_def)
  show ?thesis
    using vertex_unknown [of t z]
    by (auto simp: get_all_connections_between_def add_node_index same none split: option.splits)
qed

lemma wf_add_connection:
  assumes "rx_fresh R" and "wf_topology t"
  shows "wf_topology (add_connection R c t)"
proof (cases "cn_edge c \<in> set (get_all_connections_between (cn_source c) (cn_sink c) t)")
  case True
  then show ?thesis using assms(2) by (simp add: add_connection_def)
next
  case False
  let ?t1 = "add_node R (cn_source c) t"
  let ?t2 = "add_node R (cn_sink c) ?t1"
  have wf1: "wf_topology ?t1" and wf2: "wf_topology ?t2" by (simp_all add: assms wf_add_node)
  have "cn_edge c \<notin> set (get_all_connections_between (cn_source c) (cn_sink c) ?t2)"
    using False by (simp add: connections_add_node assms wf1)
  moreover obtain u v where "map_of (tp_vertex_indices ?t2) (cn_source c) = Some u"
      "map_of (tp_vertex_indices ?t2) (cn_sink c) = Some v"
    using vertex_known [of "cn_source c" ?t2] vertex_known [of "cn_sink c" ?t2] by auto
  ultimately show ?thesis
    using wf_add_edge [OF assms(1) wf2] False by (simp add: add_connection_def Let_def)
qed

lemma wf_add_connections:
  "rx_fresh R \<Longrightarrow> wf_topology t \<Longrightarrow> wf_topology (foldl (\<lambda>t c. add_connection R c t) t cs)"
  by (induction cs arbitrary: t) (simp_all add: wf_add_connection)

lemma topology_nodes_add_connections: "topology_nodes t \<subseteq> topology_nodes (foldl (\<lambda>t c. add_connection R c t) t cs)"
  by (induction cs arbitrary: t) (simp, simp, metis order_trans topology_nodes_add_connection(2))

lemma wf_replace_rdma:
  assumes "rx_fresh R" and "wf_topology t" and "replace_all_out_rdma_connections R x cs t = Inr t'"
  shows "wf_topology t' \<and> topology_nodes t \<subseteq> topology_nodes t'"
proof -
  obtain P where t': "t' = foldl (\<lambda>t c. add_connection R c t) (t\<lparr>tp_graph := graph_remove_edges P (tp_graph t)\<rparr>) cs"
    using assms(3) by (auto simp: replace_all_out_rdma_connections_def rbind_Inr_iff)
  show ?thesis
    using wf_add_connections [OF assms(1) wf_remove_edges [OF assms(2)]]
      topology_nodes_add_connections [of "t\<lparr>tp_graph := graph_remove_edges P (tp_graph t)\<rparr>"] by (simp add: t')
qed

lemma replace_rdma_known:
  "x \<in> topology_nodes t \<Longrightarrow> \<exists>t'. replace_all_out_rdma_connections R x cs t = Inr t'"
  using vertex_known [of x t] by (auto simp: replace_all_out_rdma_connections_def vertex_index_def)

lemma map_of_key: "k \<in> fst ` set d \<Longrightarrow> \<exists>v. map_of d k = Some v \<and> (k, v) \<in> set d"
  by (metis map_of_SomeD map_of_eq_None_iff not_None_eq)

lemma graph_at_node: "i \<in> fst ` set (dg_nodes g) \<Longrightarrow> graph_at g i \<in> snd ` set (dg_nodes g)"
  using map_of_key [of i "dg_nodes g"] by (force simp: graph_at_def dget_def)

lemma connections_known:
  assumes "wf_topology t" and "c \<in> set (list_connections t)"
  shows "cn_source c \<in> topology_nodes t \<and> cn_sink c \<in> topology_nodes t"
proof -
  obtain k u v e where edge: "(k, u, v, e) \<in> set (dg_edges (tp_graph t))" and c: "c = connection (tp_graph t) (u, v, e)"
    using assms(2) by (auto simp: list_connections_def weighted_edge_list_def)
  have "snd ` set (dg_nodes (tp_graph t)) = topology_nodes t"
    using assms(1) by (auto simp: wf_topology_def topology_nodes_def image_image split_beta)
  then show ?thesis
    using edge_ends [OF _ edge] graph_at_node [of _ "tp_graph t"] assms(1)
    by (auto simp: c connection_def wf_topology_def)
qed

end
