(* ===== verification/ClusterStateProps.thy ===== *)
theory ClusterStateProps
  imports ClusterState TopologyProps
begin

text \<open>
  The type invariant of the cluster state, that every event keeps it, and what a node that timed
  out leaves behind. \<open>env_ok\<close> is what the code relies on of the graph library and of iterating a
  set: indices are free when handed out, a simple cycle runs through nodes of the graph, and
  iterating a set yields its elements.
\<close>

section \<open>The invariant\<close>

definition env_ok :: "runtime_env \<Rightarrow> bool" where
  "env_ok E \<longleftrightarrow> rx_fresh (re_rx E)
     \<and> (\<forall>g. \<forall>c \<in> set (rx_simple_cycles (re_rx E) g). set c \<subseteq> fst ` set (dg_nodes g))
     \<and> (\<forall>A. finite A \<longrightarrow> set (re_set_order E A) = A)"

definition wf_overlay :: "(string \<times> string list) list \<Rightarrow> bool" where
  "wf_overlay d \<longleftrightarrow> dict_ok d
     \<and> (\<forall>(x, ps) \<in> set d. ps \<noteq> [] \<and> sorted ps \<and> distinct ps \<and> (\<forall>p \<in> set ps. x \<in> set (dget d p [])))"

definition wf_downloads :: "(string \<times> DownloadProgress list) list \<Rightarrow> bool" where
  "wf_downloads d \<longleftrightarrow> dict_ok d
     \<and> (\<forall>(x, ps) \<in> set d. ps \<noteq> [] \<and> distinct (map dp_model_id ps) \<and> (\<forall>p \<in> set ps. dp_node_id p = x))"

definition wf_tables :: "State \<Rightarrow> bool" where
  "wf_tables s \<longleftrightarrow> dict_ok (st_instances s) \<and> (\<forall>(i, inst) \<in> set (st_instances s). in_instance_id inst = i)
     \<and> dict_ok (st_runners s) \<and> RunnerShutdown \<notin> snd ` set (st_runners s)
     \<and> dict_ok (st_tasks s) \<and> wf_downloads (st_downloads s)
     \<and> wf_overlay (st_overlay_peers s) \<and> dict_ok (st_overlay_advertised_peers s) \<and> -1 \<le> st_last_event_applied_idx s"

text \<open>
  Whatever is recorded about a node, the node has been seen; whoever has been seen is a vertex of
  the topology; and the Thunderbolt cycles run through nodes whose bridge is enabled.
\<close>

definition seen :: "State \<Rightarrow> string set" where
  "seen s = fst ` set (st_last_seen s)"

definition known :: "(string \<times> 'v) list \<Rightarrow> string set \<Rightarrow> bool" where
  "known d A \<longleftrightarrow> dict_ok d \<and> fst ` set d \<subseteq> A"

definition wf_nodes :: "State \<Rightarrow> bool" where
  "wf_nodes s \<longleftrightarrow> wf_topology (st_topology s) \<and> dict_ok (st_last_seen s)
     \<and> seen s \<subseteq> topology_nodes (st_topology s)
     \<and> known (st_node_identities s) (seen s) \<and> known (st_node_memory s) (seen s) \<and> known (st_node_disk s) (seen s)
     \<and> known (st_node_system s) (seen s) \<and> known (st_node_network s) (seen s) \<and> known (st_node_thunderbolt s) (seen s)
     \<and> known (st_node_thunderbolt_bridge s) (seen s) \<and> known (st_node_rdma_ctl s) (seen s)
     \<and> (\<forall>c \<in> set (st_thunderbolt_bridge_cycles s). 2 \<le> length c \<and> (\<forall>x \<in> set c. bridge_enabled (st_node_thunderbolt_bridge s) x))"

definition wf_state :: "State \<Rightarrow> bool" where
  "wf_state s \<longleftrightarrow> wf_tables s \<and> wf_nodes s"

lemma wf_new_state: "wf_state new_state"
  by (simp add: wf_state_def wf_tables_def wf_nodes_def known_def seen_def new_state_def wf_overlay_def wf_downloads_def)

section \<open>Overlay peers\<close>

text \<open>Symmetric up to the pairs in \<open>M\<close>, which an event has in progress.\<close>

definition peers :: "(string \<times> string list) list \<Rightarrow> (string \<times> string) set" where
  "peers d = {(x, y). y \<in> set (dget d x [])}"

definition tidy_peers :: "(string \<times> string list) list \<Rightarrow> bool" where
  "tidy_peers d \<longleftrightarrow> dict_ok d \<and> (\<forall>(x, ps) \<in> set d. ps \<noteq> [] \<and> sorted ps \<and> distinct ps)"

lemma dget_in: "dict_ok d \<Longrightarrow> (x, ps) \<in> set d \<Longrightarrow> dget d x v = ps"
  by (simp add: dget_def)

lemma dget_cases: "dget d x v = v \<or> (x, dget d x v) \<in> set d"
  by (auto simp: dget_def split: option.splits dest: map_of_SomeD)

lemma wf_overlay_iff: "wf_overlay d \<longleftrightarrow> tidy_peers d \<and> sym (peers d)"
proof -
  have "(\<forall>(x, ps) \<in> set d. \<forall>p \<in> set ps. x \<in> set (dget d p [])) \<longleftrightarrow> sym (peers d)" if "dict_ok d"
  proof
    assume l: "\<forall>(x, ps) \<in> set d. \<forall>p \<in> set ps. x \<in> set (dget d p [])"
    show "sym (peers d)"
    proof (rule symI)
      fix a b assume "(a, b) \<in> peers d"
      then have "b \<in> set (dget d a [])" by (simp add: peers_def)
      with l dget_cases [of d a "[]"] show "(b, a) \<in> peers d" by (auto simp: peers_def)
    qed
  next
    assume s: "sym (peers d)"
    show "\<forall>(x, ps) \<in> set d. \<forall>p \<in> set ps. x \<in> set (dget d p [])"
      using symD [OF s] by (auto simp: peers_def dget_in [OF that])
  qed
  then show ?thesis by (auto simp: wf_overlay_def tidy_peers_def)
qed

lemma tidy_get: "tidy_peers d \<Longrightarrow> sorted (dget d x []) \<and> distinct (dget d x [])"
  using dget_cases [of d x "[]"] by (auto simp: tidy_peers_def)

lemma tidy_update:
  "tidy_peers d \<Longrightarrow> ps \<noteq> [] \<Longrightarrow> sorted ps \<Longrightarrow> distinct ps \<Longrightarrow> tidy_peers (AList.update x ps d)"
  by (auto simp: tidy_peers_def set_update_dict)

lemma tidy_delete: "tidy_peers d \<Longrightarrow> tidy_peers (AList.delete x d)"
  by (auto simp: tidy_peers_def set_delete_dict distinct_delete)

lemma dget_delete [simp]: "dget (AList.delete x d) y v = (if y = x then v else dget d y v)"
  by (simp add: dget_def delete_conv')

lemma sort_eq_Nil [simp]: "sort xs = [] \<longleftrightarrow> xs = []"
  by (metis length_0_conv length_sort)

lemma peer_insert: "tidy_peers d \<Longrightarrow> tidy_peers (peer_insert d (a, b)) \<and> peers (peer_insert d (a, b)) = insert (a, b) (peers d)"
  using tidy_get [of d a]
  by (auto simp: peer_insert_def Let_def peers_def intro!: tidy_update split: if_splits)

lemma peer_remove: "tidy_peers d \<Longrightarrow> tidy_peers (peer_remove d (a, b)) \<and> peers (peer_remove d (a, b)) = peers d - {(a, b)}"
  using tidy_get [of d a]
  by (auto simp: peer_remove_def Let_def peers_def filter_empty_conv sorted_wrt_filter intro!: tidy_update tidy_delete
      split: if_splits)

lemma wf_overlay_connected: "wf_overlay d \<Longrightarrow> wf_overlay (foldl peer_insert d [(a, b), (b, a)])"
  using peer_insert [of d a b] peer_insert [of "peer_insert d (a, b)" b a]
  by (auto simp: wf_overlay_iff sym_def)

lemma wf_overlay_disconnected: "wf_overlay d \<Longrightarrow> wf_overlay (foldl peer_remove d [(a, b), (b, a)])"
  using peer_remove [of d a b] peer_remove [of "peer_remove d (a, b)" b a]
  by (auto simp: wf_overlay_iff sym_def)

lemma keys_forget: "fst ` set (forget_peer x d) \<subseteq> fst ` set d - {x}"
  by (force simp: forget_peer_def)

lemma dict_ok_forget: "dict_ok d \<Longrightarrow> dict_ok (forget_peer x d)"
  by (simp add: forget_peer_def comp_def split_beta distinct_map_filter)

lemma forget_in:
  "(k, qs) \<in> set (forget_peer x d) \<longleftrightarrow> (\<exists>ps. (k, ps) \<in> set d \<and> k \<noteq> x \<and> qs = filter (\<lambda>p. p \<noteq> x) ps \<and> qs \<noteq> [])"
  by (force simp: forget_peer_def list_ex_iff filter_empty_conv)

lemma peers_forget:
  assumes "dict_ok d"
  shows "peers (forget_peer x d) = {(a, b) \<in> peers d. a \<noteq> x \<and> b \<noteq> x}"
proof -
  have "b \<in> set (dget (forget_peer x d) a []) \<longleftrightarrow> b \<in> set (dget d a []) \<and> a \<noteq> x \<and> b \<noteq> x" for a b
  proof
    assume "b \<in> set (dget (forget_peer x d) a [])"
    moreover from this have "(a, dget (forget_peer x d) a []) \<in> set (forget_peer x d)"
      using dget_cases [of "forget_peer x d" a "[]"] by auto
    ultimately show "b \<in> set (dget d a []) \<and> a \<noteq> x \<and> b \<noteq> x"
      by (auto simp: forget_in dget_in [OF assms])
  next
    assume r: "b \<in> set (dget d a []) \<and> a \<noteq> x \<and> b \<noteq> x"
    then have "(a, dget d a []) \<in> set d" using dget_cases [of d a "[]"] by auto
    with r have "(a, filter (\<lambda>p. p \<noteq> x) (dget d a [])) \<in> set (forget_peer x d)"
      by (auto simp: forget_in filter_empty_conv)
    with r show "b \<in> set (dget (forget_peer x d) a [])"
      by (simp add: dget_in [OF dict_ok_forget [OF assms]])
  qed
  then show ?thesis by (auto simp: peers_def)
qed

lemma tidy_forget: "tidy_peers d \<Longrightarrow> tidy_peers (forget_peer x d)"
  by (fastforce simp: tidy_peers_def dict_ok_forget forget_in sorted_wrt_filter)

lemma wf_overlay_forget: "wf_overlay d \<Longrightarrow> wf_overlay (forget_peer x d)"
  using tidy_forget [of d x] by (auto simp: wf_overlay_iff peers_forget tidy_peers_def sym_def)

section \<open>Downloads\<close>

lemma replace_first_map:
  "map f (replace_first (\<lambda>x. f x = f y) y xs) = (if f y \<in> f ` set xs then map f xs else map f xs @ [f y])"
  by (induction xs) auto

lemma set_replace_first: "set (replace_first P y xs) \<subseteq> insert y (set xs)" "replace_first P y xs \<noteq> []"
  by (induction xs) auto

lemma wf_downloads_progress:
  assumes "wf_downloads d"
  shows "wf_downloads (AList.update (dp_node_id dp)
    (replace_first (\<lambda>x. dp_model_id x = dp_model_id dp) dp (dget d (dp_node_id dp) [])) d)"
proof -
  let ?xs = "dget d (dp_node_id dp) []"
  have "distinct (map dp_model_id ?xs) \<and> (\<forall>p \<in> set ?xs. dp_node_id p = dp_node_id dp)"
    using assms dget_cases [of d "dp_node_id dp" "[]"] by (auto simp: wf_downloads_def)
  then show ?thesis
    using assms set_replace_first [of _ dp ?xs]
    by (auto simp: wf_downloads_def set_update_dict replace_first_map)
qed

lemma wf_downloads_delete: "wf_downloads d \<Longrightarrow> wf_downloads (AList.delete x d)"
  by (auto simp: wf_downloads_def set_delete_dict distinct_delete)

section \<open>Thunderbolt bridges\<close>

lemma rfold_keeps_nodes:
  assumes "rfold f h xs = Inr h'" and "\<And>h x h'. f h x = Inr h' \<Longrightarrow> dg_nodes h' = dg_nodes h"
  shows "dg_nodes h' = dg_nodes h"
  by (rule rfold_invariant [OF assms(1)]) (auto simp: assms(2))

lemma new_graph_nodes:
  "foldl (\<lambda>(h, d) x. let (i, h') = graph_add_node R x h in (h', AList.update x i d)) (h, d) xs = (h', d')
   \<Longrightarrow> snd ` set (dg_nodes h') = snd ` set (dg_nodes h) \<union> set xs"
  by (induction xs arbitrary: h d) (auto simp: graph_add_node_def Let_def)

lemma bridge_enabled_iff:
  assumes "dict_ok d"
  shows "bridge_enabled d x \<longleftrightarrow> x \<in> fst ` set (filter (\<lambda>(_, b). tb_enabled b) d)"
proof (cases "map_of d x")
  case None
  then have "x \<notin> fst ` set d" by (simp add: map_of_eq_None_iff)
  then have "x \<notin> fst ` set (filter (\<lambda>(_, b). tb_enabled b) d)" by auto
  with None show ?thesis by (simp add: bridge_enabled_def)
next
  case (Some b)
  have "(x, b') \<in> set d \<longleftrightarrow> b' = b" for b' 
    using map_of_SomeD [OF Some] eq_key_imp_eq_value [OF assms] by blast
  then show ?thesis using Some by (force simp: bridge_enabled_def image_iff)
qed

lemma bridge_cycles_enabled:
  assumes "env_ok E" and "dict_ok status" and "bridge_cycles E status network t = Inr cs" and "c \<in> set cs"
  shows "2 \<le> length c \<and> (\<forall>x \<in> set c. bridge_enabled status x)"
proof -
  let ?A = "fst ` set (filter (\<lambda>(_, b). tb_enabled b) status)"
  let ?nodes = "filter (\<lambda>x. contains_node x t) (re_set_order E ?A)"
  obtain h0 idx where start: "foldl (\<lambda>(h, d) x. let (i, h') = graph_add_node (re_rx E) x h in (h', AList.update x i d))
      (empty_graph, []) ?nodes = (h0, idx)" by fastforce
  obtain h where nodes: "dg_nodes h = dg_nodes h0"
    and cs: "cs = [] \<or> cs = map (map (graph_at h)) (filter (\<lambda>c. 2 \<le> length c) (rx_simple_cycles (re_rx E) h))"
    using assms(3) start
    by (auto simp: bridge_cycles_def get_thunderbolt_bridge_cycles_def Let_def rbind_Inr_iff graph_add_edge_def
        dest!: rfold_keeps_nodes split: if_splits option.splits edge.splits prod.splits)
  obtain c' where c': "c' \<in> set (rx_simple_cycles (re_rx E) h)" "2 \<le> length c'" "c = map (graph_at h) c'"
    using cs assms(4) by auto
  have "snd ` set (dg_nodes h) \<subseteq> ?A"
    using new_graph_nodes [OF start] assms(1) nodes by (auto simp: empty_graph_def env_ok_def)
  moreover have "graph_at h i \<in> snd ` set (dg_nodes h)" if "i \<in> set c'" for i
    using that c'(1) assms(1) by (intro graph_at_node) (auto simp: env_ok_def)
  ultimately show ?thesis using c' by (auto simp: bridge_enabled_iff [OF assms(2)])
qed

section \<open>Every event keeps the invariant\<close>

lemma seen_update [simp]:
  "seen (s\<lparr>st_node_system := v0\<rparr>) = seen s"
  "seen (s\<lparr>st_node_memory := v1\<rparr>) = seen s"
  "seen (s\<lparr>st_node_disk := v2\<rparr>) = seen s"
  "seen (s\<lparr>st_node_network := v3\<rparr>) = seen s"
  "seen (s\<lparr>st_node_thunderbolt := v4\<rparr>) = seen s"
  "seen (s\<lparr>st_node_thunderbolt_bridge := v5\<rparr>) = seen s"
  "seen (s\<lparr>st_node_rdma_ctl := v6\<rparr>) = seen s"
  "seen (s\<lparr>st_thunderbolt_bridge_cycles := v7\<rparr>) = seen s"
  by (simp_all add: seen_def)

lemma known_update [simp, intro]: "known d A \<Longrightarrow> x \<in> A \<Longrightarrow> known (AList.update x v d) A"
  by (simp add: known_def)

lemma known_insert [intro]: "known d A \<Longrightarrow> known d (insert x A)"
  by (auto simp: known_def)

lemma known_delete [intro]: "known d A \<Longrightarrow> known (AList.delete x d) (A - {x})"
  by (auto simp: known_def distinct_delete)

lemma known_dict: "known d A \<Longrightarrow> dict_ok d"
  by (simp add: known_def)

lemma wf_state_topology: "wf_state s \<Longrightarrow> wf_topology (st_topology s)"
  by (simp add: wf_state_def wf_nodes_def)

lemma wf_topology_apply:
  "wf_state s \<Longrightarrow> wf_topology t \<Longrightarrow> topology_nodes (st_topology s) \<subseteq> topology_nodes t \<Longrightarrow> wf_state (s\<lparr>st_topology := t\<rparr>)"
  by (auto simp: wf_state_def wf_tables_def wf_nodes_def seen_def)

lemma wf_task_update: "wf_state s \<Longrightarrow> wf_state (s\<lparr>st_tasks := AList.update i v (st_tasks s)\<rparr>)"
  by (simp add: wf_state_def wf_tables_def wf_nodes_def seen_def)

lemma wf_identity_update:
  "wf_state s \<Longrightarrow> x \<in> seen s \<Longrightarrow> wf_state (update_identity x f s)"
  by (auto simp: update_identity_def wf_state_def wf_tables_def wf_nodes_def seen_def)

lemma wf_seen:
  assumes "env_ok E" and "wf_state s"
  shows "wf_state (s\<lparr>st_last_seen := AList.update x time (st_last_seen s), st_topology := add_node (re_rx E) x (st_topology s)\<rparr>)"
  using assms(2) wf_add_node [OF _ wf_state_topology [OF assms(2)], of "re_rx E" x] assms(1)
  by (auto simp: env_ok_def wf_state_def wf_tables_def wf_nodes_def seen_def)

lemma bridge_enabled_update:
  "bridge_enabled (AList.update x b d) y = (if y = x then tb_enabled b else bridge_enabled d y)"
  by (simp add: bridge_enabled_def update_conv')

lemma bridge_enabled_delete: "bridge_enabled (AList.delete x d) y \<longleftrightarrow> y \<noteq> x \<and> bridge_enabled d y"
  by (simp add: bridge_enabled_def delete_conv')

lemma wf_node_tables:
  assumes "wf_state s"
  shows "known d1 (seen s) \<Longrightarrow> wf_state (s\<lparr>st_node_system := d1\<rparr>)"
    and "known d2 (seen s) \<Longrightarrow> wf_state (s\<lparr>st_node_memory := d2\<rparr>)"
    and "known d3 (seen s) \<Longrightarrow> wf_state (s\<lparr>st_node_disk := d3\<rparr>)"
    and "known d4 (seen s) \<Longrightarrow> wf_state (s\<lparr>st_node_network := d4\<rparr>)"
    and "known d5 (seen s) \<Longrightarrow> wf_state (s\<lparr>st_node_thunderbolt := d5\<rparr>)"
    and "known d6 (seen s) \<Longrightarrow> wf_state (s\<lparr>st_node_rdma_ctl := d6\<rparr>)"
  using assms by (simp_all add: wf_state_def wf_tables_def wf_nodes_def)

lemma wf_known:
  assumes "wf_state s"
  shows "known (st_node_system s) (seen s)" "known (st_node_memory s) (seen s)" "known (st_node_disk s) (seen s)"
    "known (st_node_network s) (seen s)" "known (st_node_thunderbolt s) (seen s)" "known (st_node_rdma_ctl s) (seen s)"
  using assms by (simp_all add: wf_state_def wf_nodes_def)

lemma wf_bridge:
  assumes E: "env_ok E" and s: "wf_state s" and x: "x \<in> seen s"
    and g: "gathered E x (ThunderboltBridgeInfo b) s = Inr s'"
  shows "wf_state s'"
proof -
  let ?bridge = "AList.update x b (st_node_thunderbolt_bridge s)"
  obtain cs where s': "s' = s\<lparr>st_node_thunderbolt_bridge := ?bridge, st_thunderbolt_bridge_cycles := cs\<rparr>"
    and cs: "if bridge_enabled (st_node_thunderbolt_bridge s) x \<noteq> tb_enabled b
             then bridge_cycles E ?bridge (st_node_network s) (st_topology s) = Inr cs
             else cs = st_thunderbolt_bridge_cycles s"
    using g by (auto simp: Let_def rbind_Inr_iff split: if_splits)
  have ok: "dict_ok ?bridge" using s by (simp add: wf_state_def wf_nodes_def known_def)
  have "2 \<le> length c \<and> (\<forall>y \<in> set c. bridge_enabled ?bridge y)" if "c \<in> set cs" for c
  proof (cases "bridge_enabled (st_node_thunderbolt_bridge s) x = tb_enabled b")
    case True
    then show ?thesis using cs that s by (auto simp: wf_state_def wf_nodes_def bridge_enabled_update)
  next
    case False
    then show ?thesis using cs that bridge_cycles_enabled [OF E ok] by simp
  qed
  then show ?thesis using s x by (auto simp: s' wf_state_def wf_tables_def wf_nodes_def)
qed

lemma wf_gathered:
  assumes E: "env_ok E" and s: "wf_state s" and x: "x \<in> seen s"
    and g: "gathered E x info s = Inr s'"
  shows "wf_state s'"
proof (cases info)
  case (MacThunderboltConnections conns)
  then obtain t cs where "replace_all_out_rdma_connections (re_rx E) x cs (st_topology s) = Inr t"
    and s': "s' = s\<lparr>st_topology := t\<rparr>" using g by (auto simp: rbind_Inr_iff)
  then have "wf_topology t \<and> topology_nodes (st_topology s) \<subseteq> topology_nodes t"
    using wf_replace_rdma [of "re_rx E" "st_topology s"] wf_state_topology [OF s] E unfolding env_ok_def by blast
  then show ?thesis unfolding s' using wf_topology_apply [OF s] by blast
next
  case (ThunderboltBridgeInfo b)
  then show ?thesis using wf_bridge [OF E s x] g by simp
next
  case (MiscData n)
  then show ?thesis using g wf_identity_update [OF s x] by auto
next
  case (InfoApiEndpoint i)
  then show ?thesis using g wf_identity_update [OF s x] by auto
next
  case (InfoStaticNode i)
  then show ?thesis using g wf_identity_update [OF s x] by auto
next
  case (InfoWorkerState i)
  then show ?thesis using g wf_identity_update [OF s x] by auto
qed (use s x g in \<open>auto intro!: wf_node_tables wf_known\<close>)

lemma wf_timed_out:
  assumes E: "env_ok E" and s: "wf_state s" and r: "apply_node_timed_out E x s = Inr s'"
  shows "wf_state s'"
proof -
  let ?B = "AList.delete x (st_node_thunderbolt_bridge s)"
  obtain cs where s': "s' = without_node x cs s"
    and cs: "if bridge_enabled (st_node_thunderbolt_bridge s) x
             then bridge_cycles E ?B (AList.delete x (st_node_network s)) (topology_remove_node x (st_topology s)) = Inr cs
             else cs = st_thunderbolt_bridge_cycles s"
    using r by (auto simp: apply_node_timed_out_def rbind_Inr_iff split: if_splits)
  have ok: "dict_ok ?B" using s by (simp add: wf_state_def wf_nodes_def known_def distinct_delete)
  have "2 \<le> length c \<and> (\<forall>y \<in> set c. bridge_enabled ?B y)" if "c \<in> set cs" for c
  proof (cases "bridge_enabled (st_node_thunderbolt_bridge s) x")
    case True
    then show ?thesis using cs that bridge_cycles_enabled [OF E ok] by simp
  next
    case False
    then show ?thesis using cs that s by (auto simp: wf_state_def wf_nodes_def bridge_enabled_delete)
  qed
  then show ?thesis
    using s by (auto simp: s' without_node_def wf_state_def wf_tables_def wf_nodes_def wf_downloads_delete wf_overlay_forget distinct_delete
        wf_remove_node seen_def)
qed

lemma wf_instances:
  "wf_state s \<Longrightarrow> wf_state (apply_instance_created inst s)" "wf_state s \<Longrightarrow> wf_state (apply_instance_deleted i s)"
  by (auto simp: apply_instance_created_def apply_instance_deleted_def wf_state_def wf_tables_def wf_nodes_def seen_def
      set_update_dict set_delete_dict distinct_delete)

lemma wf_runners: "wf_state s \<Longrightarrow> wf_state (apply_runner_status_updated r status s)"
  by (auto simp: apply_runner_status_updated_def wf_state_def wf_tables_def wf_nodes_def seen_def
      set_update_dict set_delete_dict distinct_delete image_iff)

lemma wf_edges:
  "env_ok E \<Longrightarrow> wf_state s \<Longrightarrow> wf_state (apply_topology_edge_created E c s)"
  "wf_state s \<Longrightarrow> wf_state (apply_topology_edge_deleted c s)"
  unfolding apply_topology_edge_created_def apply_topology_edge_deleted_def
  by (auto intro!: wf_topology_apply wf_add_connection wf_remove_connection topology_nodes_add_connection(2)
      simp: env_ok_def wf_state_topology)

lemma wf_event_apply:
  assumes "env_ok E" and "wf_state s" and "event_apply E ev s = Inr s'"
  shows "wf_state s'"
proof (cases ev)
  case (NodeGatheredInfo x stamp info)
  then obtain time where "gathered E x info (s\<lparr>st_last_seen := AList.update x time (st_last_seen s),
      st_topology := add_node (re_rx E) x (st_topology s)\<rparr>) = Inr s'"
    using assms(3) by (auto simp: apply_node_gathered_info_def split: option.splits)
  then show ?thesis by (rule wf_gathered [OF assms(1) wf_seen [OF assms(1,2)], rotated]) (simp add: seen_def)
next
  case (NodeTimedOut x)
  then show ?thesis using assms wf_timed_out by simp
next
  case (NodeDownloadProgress dp)
  then show ?thesis
    using assms(2,3) wf_downloads_progress [of "st_downloads s" dp]
    by (clarsimp simp: apply_node_download_progress_def wf_state_def wf_tables_def wf_nodes_def seen_def)
next
  case (OverlayPeerConnected a b)
  then show ?thesis
    using assms(2,3) wf_overlay_connected [of "st_overlay_peers s" a b]
    by (clarsimp simp: apply_overlay_peer_connected_def wf_state_def wf_tables_def wf_nodes_def seen_def)
next
  case (OverlayPeerDisconnected a b)
  then show ?thesis
    using assms(2,3) wf_overlay_disconnected [of "st_overlay_peers s" a b]
    by (clarsimp simp: apply_overlay_peer_disconnected_def wf_state_def wf_tables_def wf_nodes_def seen_def)
next
  case (TaskDeleted t)
  then show ?thesis
    using assms(2,3) by (clarsimp simp: apply_task_deleted_def wf_state_def wf_tables_def wf_nodes_def seen_def distinct_delete)
next
  case (OverlayBootstrapPeersAdvertised x ps)
  then show ?thesis
    using assms(2,3)
    by (clarsimp simp: apply_overlay_bootstrap_peers_advertised_def wf_state_def wf_tables_def wf_nodes_def seen_def)
qed (use assms wf_instances wf_runners wf_edges in
      \<open>auto simp: apply_task_created_def apply_task_failed_def apply_task_status_updated_def
         intro!: wf_task_update split: option.splits\<close>)

lemma wf_apply_event:
  assumes "env_ok E" and "wf_state s" and "apply_event E s e = Inr s'"
  shows "wf_state s'"
proof -
  obtain s1 where idx: "st_last_event_applied_idx s = ie_idx e - 1"
    and s1: "event_apply E (ev_event (ie_event e)) s = Inr s1"
    and s': "s' = s1\<lparr>st_last_event_applied_idx := ie_idx e\<rparr>"
    using assms(3) by (auto simp: apply_event_def rbind_Inr_iff split: if_splits)
  have "-1 \<le> st_last_event_applied_idx s" using assms(2) by (simp add: wf_state_def wf_tables_def)
  then show ?thesis
    using wf_event_apply [OF assms(1,2) s1] idx by (simp add: s' wf_state_def wf_tables_def wf_nodes_def seen_def)
qed

lemma wf_log:
  assumes "env_ok E" and "rfold (apply_event E) s es = Inr s'" and "wf_state s"
  shows "wf_state s'"
  by (rule rfold_invariant [where P = wf_state, OF assms(2,3)]) (auto intro: wf_apply_event [OF assms(1)])

lemma apply_event_idx:
  "apply_event E s e = Inr s' \<Longrightarrow> ie_idx e = st_last_event_applied_idx s + 1 \<and> st_last_event_applied_idx s' = ie_idx e"
  by (auto simp: apply_event_def rbind_Inr_iff split: if_splits)

lemma applied_indices:
  "rfold (apply_event E) s es = Inr s' \<Longrightarrow>
   map ie_idx es = map (\<lambda>i. st_last_event_applied_idx s + 1 + int i) [0 ..< length es]
   \<and> st_last_event_applied_idx s' = st_last_event_applied_idx s + int (length es)"
proof (induction es arbitrary: s)
  case Nil
  then show ?case by simp
next
  case (Cons e es)
  then obtain s1 where s1: "apply_event E s e = Inr s1" and r: "rfold (apply_event E) s1 es = Inr s'"
    by (auto simp: rbind_Inr_iff)
  have "[0 ..< Suc (length es)] = 0 # map Suc [0 ..< length es]" by (simp add: map_Suc_upt upt_conv_Cons del: upt_Suc)
  then show ?case using Cons.IH [OF r] apply_event_idx [OF s1] by (simp del: upt_Suc)
qed

section \<open>Properties\<close>

text \<open>A concrete environment: a graph library that finds the cycles of length two.\<close>

definition demo_rx :: rx where
  "demo_rx = \<lparr>rx_node_index = (\<lambda>g. Suc (sum_list (map fst (dg_nodes g)))),
     rx_edge_index = (\<lambda>g. Suc (sum_list (map fst (dg_edges g)))),
     rx_simple_cycles = (\<lambda>g. map (\<lambda>(_, u, v, _). [u, v]) (filter (\<lambda>(_, u, v, _). u < v
        \<and> list_ex (\<lambda>(_, a, b, _). a = v \<and> b = u) (dg_edges g)
        \<and> u \<in> fst ` set (dg_nodes g) \<and> v \<in> fst ` set (dg_nodes g)) (dg_edges g)))\<rparr>"

definition demo_env :: runtime_env where
  "demo_env = \<lparr>re_rx = demo_rx, re_set_order = (\<lambda>A. sorted_list_of_set A),
     re_fromisoformat = (\<lambda>t. if t = [] then None else Some (Aware (int (length t))))\<rparr>"

lemma fresh_sum: "Suc (sum_list (map fst d)) \<notin> fst ` set d" for d :: "(nat \<times> 'v) list"
proof
  assume "Suc (sum_list (map fst d)) \<in> fst ` set d"
  then have "Suc (sum_list (map fst d)) \<in> set (map fst d)" by simp
  from member_le_sum_list [OF this] show False by simp
qed

lemma env_ok_demo: "env_ok demo_env"
  by (auto simp: env_ok_def demo_env_def demo_rx_def rx_fresh_def fresh_sum [unfolded image_iff] image_iff)

text \<open>
  C34. Applying a log of events to the initial state yields a well-formed state: no dictionary has
  a key twice, an instance and a download list stand under their own ids, no runner is recorded
  as shut down, overlay peers are symmetric, sorted and never empty, the topology is a proper
  graph, every node something is recorded about has been seen and is a vertex, and the
  Thunderbolt cycles run through nodes with an enabled bridge. The events were numbered from 0
  without a gap and the state carries the number of the last one.
\<close>

theorem cluster_state_well_formed:
  assumes "env_ok E" and "rfold (apply_event E) new_state es = Inr s"
  shows "wf_state s \<and> map ie_idx es = map int [0 ..< length es]
    \<and> st_last_event_applied_idx s = int (length es) - 1"
  using wf_log [OF assms wf_new_state] applied_indices [OF assms(2)] by (simp add: new_state_def)

definition demo_events :: "event_kind list" where
  "demo_events = [OverlayPeerConnected ''b'' ''a'', OverlayPeerConnected ''a'' ''c'',
     NodeGatheredInfo ''a'' ''t'' (ThunderboltBridgeInfo \<lparr>tb_enabled = True, tb_exists = True, tb_service_name = None\<rparr>),
     TopologyEdgeCreated \<lparr>cn_source = ''a'', cn_sink = ''b'', cn_edge = RDMAConnection ''i'' ''j''\<rparr>,
     TopologyEdgeCreated \<lparr>cn_source = ''b'', cn_sink = ''a'', cn_edge = RDMAConnection ''j'' ''i''\<rparr>,
     NodeGatheredInfo ''b'' ''t'' (ThunderboltBridgeInfo \<lparr>tb_enabled = True, tb_exists = True, tb_service_name = None\<rparr>),
     RunnerStatusUpdated ''r'' RunnerIdle, OverlayPeerDisconnected ''a'' ''c'', NodeTimedOut ''b'']"

definition indexed :: "event_kind list \<Rightarrow> IndexedEvent list" where
  "indexed ks = map (\<lambda>i. \<lparr>ie_idx = int i, ie_event = \<lparr>ev_event_id = [], ev_event = ks ! i\<rparr>\<rparr>) [0 ..< length ks]"

theorem cluster_state_well_formed_witness:
  "\<exists>s. rfold (apply_event demo_env) new_state (indexed demo_events) = Inr s \<and> wf_state s
     \<and> st_last_event_applied_idx s = 8 \<and> st_overlay_peers s = [] \<and> topology_nodes (st_topology s) = {''a''}"
proof -
  have run: "case rfold (apply_event demo_env) new_state (indexed demo_events) of Inl e \<Rightarrow> False
    | Inr s \<Rightarrow> st_overlay_peers s = [] \<and> fst ` set (tp_vertex_indices (st_topology s)) = {''a''}" by code_simp
  then obtain s where s: "rfold (apply_event demo_env) new_state (indexed demo_events) = Inr s"
    and "st_overlay_peers s = []" and "topology_nodes (st_topology s) = {''a''}"
    by (auto simp: topology_nodes_def split: sum.splits)
  moreover have "length (indexed demo_events) = 9" by (simp add: indexed_def demo_events_def)
  ultimately show ?thesis using cluster_state_well_formed [OF env_ok_demo s] by auto
qed

text \<open>
  C35. A node that timed out leaves the tables about nodes: it is no vertex of the topology and no
  connection touches it, no table that is keyed by node has an entry for it, it is nobody's
  overlay peer, and no Thunderbolt cycle goes through it, whether the cycles were recomputed or
  kept. What can still name it is left as it was: instances, tasks and runners, and the lists of
  bootstrap peers that the other nodes advertise.
\<close>

theorem timed_out_node_removed:
  assumes "env_ok E" and "wf_state s" and "apply_event E s e = Inr s'" and "ev_event (ie_event e) = NodeTimedOut x"
  shows "x \<notin> topology_nodes (st_topology s') \<and> (\<forall>c \<in> set (list_connections (st_topology s')). x \<notin> {cn_source c, cn_sink c})
    \<and> x \<notin> seen s' \<and> x \<notin> fst ` set (st_downloads s') \<and> x \<notin> fst ` set (st_node_identities s')
    \<and> x \<notin> fst ` set (st_node_memory s') \<and> x \<notin> fst ` set (st_node_disk s') \<and> x \<notin> fst ` set (st_node_system s')
    \<and> x \<notin> fst ` set (st_node_network s') \<and> x \<notin> fst ` set (st_node_thunderbolt s')
    \<and> x \<notin> fst ` set (st_node_thunderbolt_bridge s') \<and> x \<notin> fst ` set (st_node_rdma_ctl s')
    \<and> x \<notin> fst ` set (st_overlay_advertised_peers s') \<and> (\<forall>(y, ps) \<in> set (st_overlay_peers s'). y \<noteq> x \<and> x \<notin> set ps)
    \<and> (\<forall>c \<in> set (st_thunderbolt_bridge_cycles s'). x \<notin> set c)
    \<and> st_instances s' = st_instances s \<and> st_tasks s' = st_tasks s \<and> st_runners s' = st_runners s
    \<and> st_overlay_advertised_peers s' = AList.delete x (st_overlay_advertised_peers s)"
proof -
  have wf: "wf_state s'" by (rule wf_apply_event [OF assms(1,2,3)])
  obtain cs where s': "s' = without_node x cs s\<lparr>st_last_event_applied_idx := ie_idx e\<rparr>"
    using assms(3,4) by (auto simp: apply_event_def apply_node_timed_out_def rbind_Inr_iff split: if_splits)
  have gone: "x \<notin> topology_nodes (st_topology s')" by (simp add: s' without_node_def)
  moreover have "x \<notin> {cn_source c, cn_sink c}" if "c \<in> set (list_connections (st_topology s'))" for c
    using connections_known [OF wf_state_topology [OF wf] that] gone by auto
  moreover have "x \<notin> set c" if "c \<in> set (st_thunderbolt_bridge_cycles s')" for c
  proof -
    have "\<not> bridge_enabled (st_node_thunderbolt_bridge s') x" by (simp add: s' without_node_def bridge_enabled_delete)
    then show ?thesis using wf that by (auto simp: wf_state_def wf_nodes_def)
  qed
  ultimately show ?thesis by (auto simp: s' without_node_def seen_def forget_in)
qed

theorem timed_out_node_removed_witness:
  "\<exists>s s'. st_thunderbolt_bridge_cycles s = [[''a'', ''b'']] \<and> apply_event demo_env s (indexed demo_events ! 8) = Inr s'
     \<and> st_thunderbolt_bridge_cycles s' = [] \<and> ''b'' \<notin> topology_nodes (st_topology s')"
proof -
  have run: "case rfold (apply_event demo_env) new_state (indexed (take 8 demo_events)) of Inl e \<Rightarrow> False
    | Inr s \<Rightarrow> st_thunderbolt_bridge_cycles s = [[''a'', ''b'']]
        \<and> (case apply_event demo_env s (indexed demo_events ! 8) of Inl e \<Rightarrow> False
           | Inr s' \<Rightarrow> st_thunderbolt_bridge_cycles s' = [])" by code_simp
  then obtain s s' where s: "rfold (apply_event demo_env) new_state (indexed (take 8 demo_events)) = Inr s"
    and "st_thunderbolt_bridge_cycles s = [[''a'', ''b'']]" and s': "apply_event demo_env s (indexed demo_events ! 8) = Inr s'"
    and "st_thunderbolt_bridge_cycles s' = []" by (auto split: sum.splits)
  moreover have "ev_event (ie_event (indexed demo_events ! 8)) = NodeTimedOut ''b''"
    by (simp add: indexed_def demo_events_def)
  ultimately show ?thesis
    using timed_out_node_removed [OF env_ok_demo wf_log [OF env_ok_demo s wf_new_state] s'] by blast
qed

end
