(* ===== verification/Cluster.thy ===== *)
theory Cluster
  imports EventRouter ClusterStateProps
begin

text \<open>
  The cluster: one master, a router on every node, and the network between them. The network is
  the set of messages under way on the topics \<open>LOCAL_EVENTS\<close> and \<open>GLOBAL_EVENTS\<close>: a message can be
  received in any order, several times, or be lost; receiving does not remove it. Nodes may publish
  any event of a set \<open>A\<close> at any time, and any command may arrive at any time - a request for the event
  log only if a router has sent it, or from the start as \<open>_request_full_sync\<close> of
  \<open>cai/src/cai/main.py\<close> sends it (\<open>full_sync\<close>). The two halves of a round of the plan loop are
  steps of their own. Messages of other masters travel on the same topics. When a handler or the
  plan of the master raises, the master stops.

  What the model assumes of the network is in the rule \<open>foreign\<close>: a message that names the master
  as its origin and as the master of its session was sent by this master in this session.
\<close>

section \<open>Steps of the system\<close>

record cluster =
  cl_running :: bool
  cl_master :: Master
  cl_routers :: "string \<Rightarrow> EventRouter"
  cl_local :: "LocalForwarderEvent set"
  cl_global :: "GlobalForwarderEvent set"

definition new_cluster :: "SessionId \<Rightarrow> nat \<Rightarrow> cluster" where
  "new_cluster session receivers =
    \<lparr>cl_running = True, cl_master = new_master (ss_master_node_id session) session,
     cl_routers = (\<lambda>_. new_event_router session receivers), cl_local = {}, cl_global = {}\<rparr>"

definition claims_master :: "string \<Rightarrow> GlobalForwarderEvent \<Rightarrow> bool" where
  "claims_master m g \<longleftrightarrow> gf_origin g = m \<and> ss_master_node_id (gf_session g) = m"

definition master_turn :: "(Master, runtime_error, unit) sres \<Rightarrow> cluster \<Rightarrow> cluster" where
  "master_turn f c =
    (let (r, M) = f (cl_master c)
     in c\<lparr>cl_running := \<not> isl r, cl_master := M,
          cl_global := cl_global c \<union> set (drop (length (ma_global_sent (cl_master c))) (ma_global_sent M))\<rparr>)"

definition router_turn :: "string \<Rightarrow> EventRouter \<Rightarrow> cluster \<Rightarrow> cluster" where
  "router_turn n r c =
    c\<lparr>cl_routers := (cl_routers c)(n := r),
      cl_local := cl_local c \<union> set (drop (length (er_external_sent (cl_routers c n))) (er_external_sent r))\<rparr>"

inductive cluster_step :: "master_env \<Rightarrow> Event set \<Rightarrow> cluster \<Rightarrow> cluster \<Rightarrow> bool" for V A where
  publish: "e \<in> A \<Longrightarrow> cluster_step V A c (router_turn n (router_ingest now sys e (cl_routers c n)) c)"
| retry_begin: "cluster_step V A c (router_turn n (retry_start (cl_routers c n)) c)"
| retry: "cluster_step V A c (router_turn n (retry_next now (cl_routers c n)) c)"
| master_event: "cl_running c \<Longrightarrow> le \<in> cl_local c \<Longrightarrow> cluster_step V A c (master_turn (event_processor V le) c)"
| master_command: "cl_running c \<Longrightarrow> (\<forall>since. cmd = RequestEventLog since \<longrightarrow> (\<exists>n. cmd \<in> set (er_commands_sent (cl_routers c n))))
    \<Longrightarrow> cluster_step V A c (master_turn (command_processor V cmd) c)"
| full_sync: "cl_running c \<Longrightarrow> cluster_step V A c (master_turn (command_processor V (RequestEventLog 0)) c)"
| plan_instances: "cl_running c \<Longrightarrow> cluster_step V A c (master_turn (\<lambda>M. (Inr (), kill_broken_instances V M)) c)"
| plan_nodes: "cl_running c \<Longrightarrow> cluster_step V A c (master_turn (time_out_dead_nodes V now) c)"
| receive: "g \<in> cl_global c \<Longrightarrow> run_ext_in g (cl_routers c n) = Inr r \<Longrightarrow> cluster_step V A c (router_turn n r c)"
| nack_begin: "nack_start i (cl_routers c n) = Inr r \<Longrightarrow> cluster_step V A c (router_turn n r c)"
| nack_end: "cluster_step V A c (router_turn n (nack_finish i (cl_routers c n)) c)"
| close: "i < length (er_internal_outbound (cl_routers c n)) \<Longrightarrow>
    cluster_step V A c (router_turn n ((cl_routers c n)\<lparr>er_internal_outbound :=
      (er_internal_outbound (cl_routers c n))[i := (er_internal_outbound (cl_routers c n) ! i)\<lparr>ch_open := False\<rparr>]\<rparr>) c)"
| lose: "L \<subseteq> cl_local c \<Longrightarrow> G \<subseteq> cl_global c \<Longrightarrow> cluster_step V A c (c\<lparr>cl_local := L, cl_global := G\<rparr>)"
| foreign: "\<not> claims_master (ma_node_id (cl_master c)) g \<Longrightarrow> cluster_step V A c (c\<lparr>cl_global := insert g (cl_global c)\<rparr>)"

abbreviation cluster_steps :: "master_env \<Rightarrow> Event set \<Rightarrow> cluster \<Rightarrow> cluster \<Rightarrow> bool" where
  "cluster_steps V A \<equiv> (cluster_step V A)\<^sup>*\<^sup>*"

section \<open>The log the cluster follows\<close>

definition indexed_events :: "Event list \<Rightarrow> IndexedEvent list" where
  "indexed_events evs = map (\<lambda>i. \<lparr>ie_idx = int i, ie_event = evs ! i\<rparr>) [0 ..< length evs]"

definition sent_by_log :: "Event list \<Rightarrow> GlobalForwarderEvent \<Rightarrow> bool" where
  "sent_by_log evs g \<longleftrightarrow> (\<exists>i < length evs. gf_origin_idx g = int i \<and> gf_event g = evs ! i)"

text \<open>Packing is lossless on the events that can be logged, however they are stamped.\<close>

definition lossless :: "master_env \<Rightarrow> Event set \<Rightarrow> bool" where
  "lossless V A \<longleftrightarrow> (\<forall>e \<in> A. \<forall>t. me_des V (me_ser V (stamp t e)) = Inr (stamp t e))"

definition restamp :: "master_env \<Rightarrow> Event list \<Rightarrow> Event list" where
  "restamp V evs = map (\<lambda>i. stamp (me_now V (int i)) (evs ! i)) [0 ..< length evs]"

text \<open>
  \<open>master_rep V A m raw M\<close>: the master \<open>m\<close> has indexed the events \<open>raw\<close>; its log holds them stamped,
  everything it sent is an entry of the log under its index, and its buffers hold events of \<open>A\<close>.
\<close>

definition master_rep :: "master_env \<Rightarrow> Event set \<Rightarrow> string \<Rightarrow> Event list \<Rightarrow> Master \<Rightarrow> bool" where
  "master_rep V A m raw M \<longleftrightarrow> ma_node_id M = m \<and> ss_master_node_id (ma_session_id M) = m
     \<and> log_rep (me_ser V) (me_des V) (restamp V raw) (ma_event_log M) \<and> set raw \<subseteq> A
     \<and> (\<forall>g \<in> set (ma_global_sent M). sent_by_log (restamp V raw) g)
     \<and> (\<forall>(s, b) \<in> set (ma_multi_buffer M). snd ` set (ob_store b) \<subseteq> A)"

definition master_applied :: "master_env \<Rightarrow> Event list \<Rightarrow> Master \<Rightarrow> bool" where
  "master_applied V raw M \<longleftrightarrow> rfold (apply_event (me_env V)) new_state (indexed_events raw) = Inr (ma_state M)"

definition channel_rep :: "Event list \<Rightarrow> nat \<Rightarrow> channel \<Rightarrow> bool" where
  "channel_rep evs n ch \<longleftrightarrow> (\<exists>k \<le> n. ch_sent ch = indexed_events (take k evs) \<and> (ch_open ch \<longrightarrow> k = n))"

definition router_rep :: "string \<Rightarrow> Event set \<Rightarrow> Event list \<Rightarrow> EventRouter \<Rightarrow> bool" where
  "router_rep m A evs r \<longleftrightarrow> ss_master_node_id (er_session_id r) = m
     \<and> buffered (nth evs) (er_buffer r) \<and> (\<forall>j. ob_held (er_buffer r) j \<longrightarrow> j < length evs)
     \<and> (\<forall>ch \<in> set (er_internal_outbound r). channel_rep evs (ob_released (er_buffer r)) ch)
     \<and> lf_event ` snd ` snd ` set (er_out_for_delivery r) \<subseteq> A \<and> lf_event ` snd ` snd ` set (er_retrying r) \<subseteq> A"

definition cluster_rep :: "master_env \<Rightarrow> Event set \<Rightarrow> string \<Rightarrow> Event list \<Rightarrow> cluster \<Rightarrow> bool" where
  "cluster_rep V A m raw c \<longleftrightarrow> master_rep V A m raw (cl_master c)
     \<and> (cl_running c \<longrightarrow> master_applied V raw (cl_master c))
     \<and> (\<forall>n. router_rep m A (restamp V raw) (cl_routers c n))
     \<and> lf_event ` cl_local c \<subseteq> A
     \<and> (\<forall>g \<in> cl_global c. claims_master m g \<longrightarrow> sent_by_log (restamp V raw) g)"

lemma indexed_events_Nil [simp]: "indexed_events [] = []"
  by (simp add: indexed_events_def)

lemma indexed_events_snoc [simp]:
  "indexed_events (evs @ [e]) = indexed_events evs @ [\<lparr>ie_idx = int (length evs), ie_event = e\<rparr>]"
  by (simp add: indexed_events_def nth_append)

lemma length_restamp [simp]: "length (restamp V raw) = length raw"
  by (simp add: restamp_def)

lemma restamp_Nil [simp]: "restamp V [] = []"
  by (simp add: restamp_def)

lemma restamp_snoc [simp]: "restamp V (raw @ [e]) = restamp V raw @ [stamp (me_now V (int (length raw))) e]"
  by (simp add: restamp_def nth_append)

lemma take_indexed: "take k (indexed_events evs) = indexed_events (take k evs)"
  by (rule nth_equalityI) (simp_all add: indexed_events_def)

lemma take_restamp: "take k (restamp V raw) = restamp V (take k raw)"
  by (rule nth_equalityI) (simp_all add: restamp_def)

lemma sent_by_log_mono: "sent_by_log evs g \<Longrightarrow> sent_by_log (evs @ evs') g"
  by (auto simp: sent_by_log_def nth_append)

lemma sent_by_log_restamp: "sent_by_log (restamp V raw) g \<Longrightarrow> sent_by_log (restamp V (raw @ raw2)) g"
proof (induction raw2 rule: rev_induct)
  case (snoc e raw2)
  then show ?case using sent_by_log_mono by (metis append.assoc restamp_snoc)
qed simp

section \<open>Routers\<close>

lemma nth_buffered_append:
  assumes "buffered (nth evs) b" and "\<forall>j. ob_held b j \<longrightarrow> j < length evs"
  shows "buffered (nth (evs @ evs')) b"
proof -
  have "(evs @ evs') ! nat i = evs ! nat i" if "(i, t) \<in> set (ob_store b)" for i t
  proof -
    have "0 \<le> i" using assms(1) that by (force simp: buffered_def)
    moreover have "map_of (ob_store b) i \<noteq> None" using that by (metis map_of_eq_None_iff fst_conv image_eqI)
    ultimately show ?thesis using assms(2) by (auto simp: ob_held_def nth_append)
  qed
  then show ?thesis using assms(1) by (force simp: buffered_def)
qed

lemma released_bound: "\<forall>j. ob_held b j \<longrightarrow> j < length evs \<Longrightarrow> ob_released b \<le> length evs"
  by (metis leI less_irrefl ob_held_def ob_released_def zless_nat_conj zless_nat_eq_int_zless)

lemma channel_rep_append: "channel_rep evs n ch \<Longrightarrow> n \<le> length evs \<Longrightarrow> channel_rep (evs @ evs') n ch"
  unfolding channel_rep_def by (metis (no_types, lifting) append.right_neutral diff_is_0_eq' order_trans take_append take_eq_Nil)

lemma router_rep_append:
  assumes "router_rep m A evs r"
  shows "router_rep m A (evs @ evs') r"
proof -
  have "ob_released (er_buffer r) \<le> length evs" using assms released_bound by (auto simp: router_rep_def)
  then show ?thesis
    using assms nth_buffered_append [of evs "er_buffer r" evs'] channel_rep_append
    by (auto simp: router_rep_def intro: trans_less_add1)
qed

end
