(* ===== verification/ClusterProps.thy ===== *)
theory ClusterProps
  imports Cluster
begin

text \<open>
  The cluster follows the log of the master: every step keeps the representation invariant
  \<open>cluster_rep\<close>, so what a router hands to its node is a prefix of the log, in order and
  without a gap, whatever the network does; and a process that applies this prefix arrives at the
  state the master had, up to the times of reports and the Thunderbolt cycles.
\<close>

section \<open>Routers\<close>

lemma fst_indexed: "indexed_events (take k' evs) = indexed_events (take k evs) @ map (\<lambda>i. \<lparr>ie_idx = int i, ie_event = evs ! i\<rparr>) [k ..< k']"
  if "k \<le> k'" "k' \<le> length evs"
proof -
  have "[0 ..< k'] = [0 ..< k] @ [k ..< k']" using that(1) by (metis le_add_diff_inverse upt_add_eq_append zero_le)
  moreover have "map (\<lambda>i. \<lparr>ie_idx = int i, ie_event = take n evs ! i\<rparr>) xs = map (\<lambda>i. \<lparr>ie_idx = int i, ie_event = evs ! i\<rparr>) xs"
    if "set xs \<subseteq> {..<n}" for n and xs :: "nat list"
    using that by (intro map_cong) auto
  ultimately show ?thesis using that by (simp add: indexed_events_def)
qed

lemma deliver_all:
  "foldl deliver chans (map (\<lambda>i. (int i, f i)) xs)
   = (if xs = [] then chans else map (\<lambda>c. c\<lparr>ch_sent := ch_sent c @ map (\<lambda>i. \<lparr>ie_idx = int i, ie_event = f i\<rparr>) xs\<rparr>) (filter ch_open chans))"
proof (induction xs arbitrary: chans)
  case (Cons x xs)
  have "filter ch_open (map (\<lambda>c. c\<lparr>ch_sent := g c\<rparr>) (filter ch_open chans)) = map (\<lambda>c. c\<lparr>ch_sent := g c\<rparr>) (filter ch_open chans)" for g
    by (induction chans) auto
  then show ?case using Cons by (auto simp: deliver_def)
qed simp

lemma sent_index:
  "sent_by_log evs g \<Longrightarrow> \<exists>i < length evs. gf_origin_idx g = int i \<and> gf_event g = evs ! i"
  by (simp add: sent_by_log_def)

lemma run_ext_in_rep:
  assumes r: "router_rep m A evs r" and g: "claims_master m g \<longrightarrow> sent_by_log evs g"
  shows "\<exists>r'. run_ext_in g r = Inr r' \<and> router_rep m A evs r' \<and> er_external_sent r' = er_external_sent r
    \<and> (\<forall>j. ob_held (er_buffer r') j \<longleftrightarrow> ob_held (er_buffer r) j \<or> claims_master m g \<and> int j = gf_origin_idx g)
    \<and> \<not> (claims_master m g \<and> ob_held (er_buffer r') (ob_released (er_buffer r')))
    \<and> length (filter ch_open (er_internal_outbound r')) = length (filter ch_open (er_internal_outbound r))"
proof (cases "claims_master m g")
  case False
  then have "\<not> from_master g r" using r by (auto simp: from_master_def claims_master_def router_rep_def)
  then show ?thesis using r False by (simp add: run_ext_in_def)
next
  case True
  obtain i where i: "i < length evs" "gf_origin_idx g = int i" "gf_event g = evs ! i"
    using sent_index g True by blast
  have mine: "from_master g r" using r True by (simp add: from_master_def claims_master_def router_rep_def)
  have buf: "buffered (nth evs) (er_buffer r)" and held: "\<forall>j. ob_held (er_buffer r) j \<longrightarrow> j < length evs"
    using r by (simp_all add: router_rep_def)
  obtain b where b: "ingest (int i) (evs ! i) (er_buffer r) = Inr b" "buffered (nth evs) b"
      "ob_next_idx_to_release b = ob_next_idx_to_release (er_buffer r)" "\<forall>j. ob_held b j \<longleftrightarrow> ob_held (er_buffer r) j \<or> j = i"
    using ingest_buffered [OF buf, of i] by blast
  obtain b1 where b1: "drain_indexed b = (map (\<lambda>i. (int i, evs ! i)) [ob_released b ..< ob_released b1], b1)" "buffered (nth evs) b1"
      "ob_released b \<le> ob_released b1" "\<forall>j. ob_held b1 j \<longleftrightarrow> ob_held b j" "\<not> ob_held b1 (ob_released b1)"
    using drain_indexed_buffered [OF b(2)] by blast
  have rel: "ob_released b = ob_released (er_buffer r)" using b(3) by (simp add: ob_released_def)
  have held1: "\<forall>j. ob_held b1 j \<longrightarrow> j < length evs" using b1(4) b(4) held i(1) by auto
  obtain r' where r': "run_ext_in g r = Inr r'" "er_buffer r' = b1" "er_session_id r' = er_session_id r"
      "er_external_sent r' = er_external_sent r" "er_retrying r' = er_retrying r"
      "er_out_for_delivery r' = AList.delete (ev_event_id (gf_event g)) (er_out_for_delivery r)"
      "er_internal_outbound r' = foldl deliver (er_internal_outbound r) (map (\<lambda>i. (int i, evs ! i)) [ob_released b ..< ob_released b1])"
    using mine b(1) b1(1) by (auto simp: run_ext_in_def i Let_def)
  have chans: "channel_rep evs (ob_released b1) ch"
    if ch: "ch \<in> set (er_internal_outbound r')" for ch
  proof (cases "ob_released b = ob_released b1")
    case True
    then show ?thesis using r ch by (auto simp: r' router_rep_def rel)
  next
    case False
    then have "[ob_released b ..< ob_released b1] \<noteq> []" using b1(3) by simp
    then obtain c0 where c0: "c0 \<in> set (er_internal_outbound r)" "ch_open c0"
      and ch': "ch = c0\<lparr>ch_sent := ch_sent c0 @ map (\<lambda>i. \<lparr>ie_idx = int i, ie_event = evs ! i\<rparr>) [ob_released b ..< ob_released b1]\<rparr>"
      using ch by (auto simp: r' deliver_all)
    have "ch_sent c0 = indexed_events (take (ob_released b) evs)" using r c0 by (auto simp: router_rep_def channel_rep_def rel)
    then show ?thesis using fst_indexed [OF b1(3) released_bound [OF held1]] by (auto simp: ch' channel_rep_def)
  qed
  have "set (er_out_for_delivery r') \<subseteq> set (er_out_for_delivery r)" by (auto simp: r' set_delete_dict)
  then have "lf_event ` snd ` snd ` set (er_out_for_delivery r') \<subseteq> A"
    using r unfolding router_rep_def by (meson image_mono order_trans)
  then have "router_rep m A evs r'"
    using r chans held1 b1(2) by (simp add: router_rep_def r'(2,3,5))
  moreover have "\<forall>j. ob_held b1 j \<longleftrightarrow> ob_held (er_buffer r) j \<or> int j = gf_origin_idx g" using b1(4) b(4) by (simp add: i(2))
  moreover have "length (filter ch_open (er_internal_outbound r')) = length (filter ch_open (er_internal_outbound r))"
    by (simp add: r'(7) deliver_all filter_map comp_def)
  ultimately show ?thesis using r' b1(5) True by auto
qed

definition nack_framed :: "EventRouter \<Rightarrow> EventRouter \<Rightarrow> bool" where
  "nack_framed r r' \<longleftrightarrow> er_session_id r' = er_session_id r \<and> er_buffer r' = er_buffer r
     \<and> er_internal_outbound r' = er_internal_outbound r \<and> er_out_for_delivery r' = er_out_for_delivery r
     \<and> er_retrying r' = er_retrying r \<and> er_external_sent r' = er_external_sent r"

lemma nack_start_frame: "nack_start i r = Inr r' \<Longrightarrow> nack_framed r r'"
  by (auto simp: nack_start_def nack_framed_def rbind_Inr_iff split: if_splits)

lemma nack_finish_frame: "nack_framed r (nack_finish i r)"
  by (simp add: nack_finish_def nack_framed_def split: prod.splits option.splits)

lemma set_update_subset: "set (AList.update k v d) \<subseteq> insert (k, v) (set d)"
  by (induction d) auto

lemma router_local_steps:
  assumes "router_rep m A evs r"
  shows "e \<in> A \<Longrightarrow> router_rep m A evs (router_ingest now sys e r)" "router_rep m A evs (retry_start r)"
    "router_rep m A evs (retry_next now r)"
    "nack_framed r r' \<Longrightarrow> router_rep m A evs r'"
    "i < length (er_internal_outbound r) \<Longrightarrow>
      router_rep m A evs (r\<lparr>er_internal_outbound := (er_internal_outbound r)[i := (er_internal_outbound r ! i)\<lparr>ch_open := False\<rparr>]\<rparr>)"
proof -
  have upd: "lf_event ` snd ` snd ` set (AList.update k (t, f) d) \<subseteq> A" if "lf_event f \<in> A" "lf_event ` snd ` snd ` set d \<subseteq> A"
    for k t f and d :: "(string \<times> rat \<times> LocalForwarderEvent) list"
    using that set_update_subset [of k "(t, f)" d] by fastforce
  show "router_rep m A evs (router_ingest now sys e r)" if "e \<in> A"
    using assms that upd by (simp add: router_rep_def router_ingest_def Let_def)
  show "router_rep m A evs (retry_start r)" using assms by (simp add: router_rep_def retry_start_def)
  show "router_rep m A evs (retry_next now r)"
  proof (cases "er_retrying r")
    case (Cons x rest)
    obtain event_id time f where x: "x = (event_id, time, f)" by (cases x)
    then have f: "lf_event f \<in> A" "lf_event ` snd ` snd ` set rest \<subseteq> A" using assms Cons by (simp_all add: router_rep_def)
    moreover have "lf_event ` snd ` snd ` set (AList.update event_id (now, f) (er_out_for_delivery r)) \<subseteq> A"
      using assms by (intro upd f(1)) (simp add: router_rep_def)
    ultimately show ?thesis using assms by (simp add: router_rep_def retry_next_def Cons x)
  qed (use assms in \<open>simp add: retry_next_def\<close>)
  show "router_rep m A evs r'" if "nack_framed r r'"
    using assms that by (simp add: router_rep_def nack_framed_def)
  let ?c = "er_internal_outbound r ! i"
  show "router_rep m A evs (r\<lparr>er_internal_outbound := (er_internal_outbound r)[i := ?c\<lparr>ch_open := False\<rparr>]\<rparr>)"
    if "i < length (er_internal_outbound r)"
  proof -
    have "set ((er_internal_outbound r)[i := ?c\<lparr>ch_open := False\<rparr>]) \<subseteq> insert (?c\<lparr>ch_open := False\<rparr>) (set (er_internal_outbound r))"
      by (rule set_update_subset_insert)
    moreover have "?c \<in> set (er_internal_outbound r)" using that by simp
    moreover have "channel_rep evs k (c\<lparr>ch_open := False\<rparr>)" if "channel_rep evs k c" for k c
      using that by (auto simp: channel_rep_def)
    ultimately show ?thesis using assms unfolding router_rep_def by auto
  qed
qed

section \<open>The master\<close>

lemma master_rep_frame:
  assumes "master_rep V A m raw M" "ma_node_id M' = ma_node_id M" "ma_session_id M' = ma_session_id M"
    "ma_event_log M' = ma_event_log M" "ma_global_sent M' = ma_global_sent M" "ma_multi_buffer M' = ma_multi_buffer M"
  shows "master_rep V A m raw M'"
  using assms by (simp add: master_rep_def)

lemma send_events_frame [simp]:
  "ma_node_id (send_events V ks M) = ma_node_id M" "ma_session_id (send_events V ks M) = ma_session_id M"
  "ma_event_log (send_events V ks M) = ma_event_log M" "ma_global_sent (send_events V ks M) = ma_global_sent M"
  "ma_multi_buffer (send_events V ks M) = ma_multi_buffer M" "ma_state (send_events V ks M) = ma_state M"
  by (simp_all add: send_events_def)

lemma handle_traces_frame:
  "ma_node_id (handle_traces_collected V t r ts M) = ma_node_id M" "ma_session_id (handle_traces_collected V t r ts M) = ma_session_id M"
  "ma_event_log (handle_traces_collected V t r ts M) = ma_event_log M"
  "ma_global_sent (handle_traces_collected V t r ts M) = ma_global_sent M"
  "ma_multi_buffer (handle_traces_collected V t r ts M) = ma_multi_buffer M" "ma_state (handle_traces_collected V t r ts M) = ma_state M"
  by (simp_all add: handle_traces_collected_def merge_and_save_traces_def Let_def split: option.splits)

lemma applied_snoc:
  "master_applied V raw M \<Longrightarrow> apply_event (me_env V) (ma_state M) \<lparr>ie_idx = int (length raw), ie_event = e\<rparr> = Inr s
   \<Longrightarrow> ma_state M' = s \<Longrightarrow> master_applied V (raw @ [e]) M'"
  by (simp add: master_applied_def rfold_append)

text \<open>What a turn of the master does: it extends the log, and stays in step unless it raises.\<close>

definition turn_ok :: "master_env \<Rightarrow> Event set \<Rightarrow> string \<Rightarrow> Event list \<Rightarrow> Master \<Rightarrow> (runtime_error, unit) res \<times> Master \<Rightarrow> bool" where
  "turn_ok V A m raw M = (\<lambda>(r, M'). \<exists>raw2. master_rep V A m (raw @ raw2) M' \<and> (\<not> isl r \<longrightarrow> master_applied V (raw @ raw2) M'))"

lemma index_event_ok:
  assumes M: "master_rep V A m raw M" and ap: "master_applied V raw M" and l: "lossless V A" and e: "e \<in> A"
  shows "turn_ok V A m raw M (index_event V e M)"
proof -
  have rep: "log_rep (me_ser V) (me_des V) (restamp V raw) (ma_event_log M)" using M by (simp add: master_rep_def)
  have n: "dl_count (ma_event_log M) = length raw" using disk_log.len [OF rep] by simp
  let ?i = "int (length raw)" let ?e = "stamp (me_now V ?i) e"
  show ?thesis
  proof (cases "apply_event (me_env V) (ma_state M) \<lparr>ie_idx = ?i, ie_event = e\<rparr>")
    case (Inl x)
    then show ?thesis using M by (auto simp: index_event_def turn_ok_def n intro: exI [of _ "[]"])
  next
    case (Inr s)
    show ?thesis
    proof (cases "log_append (me_ser V) ?e (ma_event_log M)")
      case (Inl x)
      then show ?thesis using Inr M master_rep_frame [OF M, of "M\<lparr>ma_state := s\<rparr>"]
        by (auto simp: index_event_def turn_ok_def n Let_def intro: exI [of _ "[]"])
    next
      case (Inr l')
      have "fits (me_ser V) (me_des V) ?e"
        using log_append_Inr [OF Inr] l e by (simp add: fits_def lossless_def)
      then have rep': "log_rep (me_ser V) (me_des V) (restamp V (raw @ [e])) l'"
        using log_rep_append [OF rep] Inr by fastforce
      let ?M = "send_event ?i ?e (M\<lparr>ma_state := s, ma_event_log := l'\<rparr>)"
      have "\<forall>g \<in> set (ma_global_sent ?M). sent_by_log (restamp V (raw @ [e])) g"
        using M by (auto simp: send_event_def master_rep_def sent_by_log_mono) (auto simp: sent_by_log_def nth_append)
      then have "master_rep V A m (raw @ [e]) ?M" using M rep' e by (simp add: master_rep_def send_event_def)
      moreover have "master_applied V (raw @ [e]) ?M"
        by (rule applied_snoc [OF ap \<open>apply_event _ _ _ = Inr s\<close>]) (simp add: send_event_def)
      moreover have "index_event V e M = (Inr (), ?M)"
        using Inr \<open>apply_event _ _ _ = Inr s\<close> by (simp add: index_event_def n Let_def)
      ultimately show ?thesis by (auto simp: turn_ok_def)
    qed
  qed
qed

lemma process_event_ok:
  assumes M: "master_rep V A m raw M" and ap: "master_applied V raw M" and l: "lossless V A" and e: "e \<in> A"
  shows "turn_ok V A m raw M (process_event V e M)"
proof (cases "\<exists>t r ts. ev_event e = TracesCollected t r ts")
  case True
  then obtain t r ts where "ev_event e = TracesCollected t r ts" by blast
  moreover have "master_rep V A m raw (handle_traces_collected V t r ts M)"
    by (rule master_rep_frame [OF M]) (simp_all add: handle_traces_frame)
  ultimately show ?thesis
    using ap by (auto simp: process_event_def turn_ok_def master_applied_def handle_traces_frame intro: exI [of _ "[]"])
next
  case False
  then show ?thesis using index_event_ok [OF assms] by (auto simp: process_event_def split: event_kind.splits)
qed

lemma process_events_ok:
  assumes "lossless V A" "set es \<subseteq> A"
  shows "master_rep V A m raw M \<Longrightarrow> master_applied V raw M \<Longrightarrow> turn_ok V A m raw M (process_events V es M)"
  using assms(2)
proof (induction es arbitrary: raw M)
  case Nil
  then show ?case by (auto simp: turn_ok_def intro: exI [of _ "[]"])
next
  case (Cons e es)
  obtain r M1 where r: "process_event V e M = (r, M1)" by fastforce
  then obtain raw2 where raw2: "master_rep V A m (raw @ raw2) M1" "\<not> isl r \<longrightarrow> master_applied V (raw @ raw2) M1"
    using process_event_ok [OF Cons.prems(1,2) assms(1), of e] Cons.prems(3) by (auto simp: turn_ok_def r)
  show ?case
  proof (cases r)
    case (Inl x)
    then show ?thesis using r raw2 by (auto simp: turn_ok_def)
  next
    case (Inr u)
    then have "turn_ok V A m (raw @ raw2) M1 (process_events V es M1)" using Cons.IH [OF raw2(1)] raw2(2) Cons.prems(3) by simp
    then show ?thesis using r Inr by (auto simp: turn_ok_def)
  qed
qed

lemma ingest_events: "ingest i e b = Inr b' \<Longrightarrow> snd ` set (ob_store b') \<subseteq> insert e (snd ` set (ob_store b))"
  using set_update_subset [of i e "ob_store b"] by (auto simp: ingest_def split: if_splits option.splits)

lemma drain_indexed_events:
  "drain_indexed b = (xs, b') \<Longrightarrow> snd ` set xs \<union> snd ` set (ob_store b') \<subseteq> snd ` set (ob_store b)"
proof (induction b arbitrary: xs b' rule: drain_indexed.induct)
  case (1 b)
  show ?case
  proof (cases "map_of (ob_store b) (ob_next_idx_to_release b)")
    case None
    then show ?thesis using "1.prems" by (simp add: drain_indexed.simps)
  next
    case (Some e)
    obtain ys where ys: "drain_indexed (release e b) = (ys, b')" "xs = (ob_next_idx_to_release b, e) # ys"
      using "1.prems" Some by (subst (asm) drain_indexed.simps) (auto split: prod.splits)
    have "e \<in> snd ` set (ob_store b)" using map_of_SomeD [OF Some] by force
    moreover have "snd ` set (ob_store (release e b)) \<subseteq> snd ` set (ob_store b)"
      by (auto simp: release_def set_delete_dict)
    moreover have "snd ` set xs = insert e (snd ` set ys)" by (simp add: ys(2))
    ultimately show ?thesis using "1.IH" [OF Some ys(1)] by blast
  qed
qed

definition stores_in :: "Event set \<Rightarrow> (string, Event) MultiSourceBuffer \<Rightarrow> bool" where
  "stores_in A ms \<longleftrightarrow> (\<forall>(s, b) \<in> set ms. snd ` set (ob_store b) \<subseteq> A)"

lemma multi_ingest_in:
  assumes "multi_ingest i e s ms = Inr ms'" and "stores_in A ms" and "e \<in> A"
  shows "stores_in A ms'"
proof -
  let ?b = "dget ms s new_ordered_buffer"
  obtain b where b: "ingest i e ?b = Inr b" "ms' = AList.update s b ms"
    using assms(1) by (auto simp: multi_ingest_def rbind_Inr_iff)
  have "snd ` set (ob_store ?b) \<subseteq> A"
    using dget_cases [of ms s new_ordered_buffer]
  proof
    assume "?b = new_ordered_buffer"
    then show ?thesis by (simp add: new_ordered_buffer_def)
  next
    assume "(s, ?b) \<in> set ms"
    then show ?thesis using assms(2) unfolding stores_in_def by blast
  qed
  then have "snd ` set (ob_store b) \<subseteq> A" using ingest_events [OF b(1)] assms(3) by blast
  then have "snd ` set (ob_store b2) \<subseteq> A" if "(s2, b2) \<in> set ms'" for s2 b2
  proof (cases "(s2, b2) \<in> set ms")
    case True
    then show ?thesis using assms(2) unfolding stores_in_def by blast
  next
    case False
    then have "b2 = b" using that set_update_subset [of s b ms] b(2) by blast
    then show ?thesis using \<open>snd ` set (ob_store b) \<subseteq> A\<close> by simp
  qed
  then show ?thesis unfolding stores_in_def by blast
qed

lemma multi_drain_in: "multi_drain ms = (es, ms') \<Longrightarrow> stores_in A ms \<Longrightarrow> set es \<subseteq> A \<and> stores_in A ms'"
proof (induction ms arbitrary: es ms')
  case (Cons sb ms)
  obtain s b where sb: "sb = (s, b)" by fastforce
  obtain xs b' where d: "drain_indexed b = (xs, b')" by fastforce
  obtain ys ms2 where ys: "multi_drain ms = (ys, ms2)" by fastforce
  have "es = map snd xs @ ys" "ms' = (s, b') # ms2" using Cons.prems(1) by (auto simp: sb drain_def d ys)
  moreover have "set ys \<subseteq> A \<and> stores_in A ms2" using Cons.IH [OF ys] Cons.prems(2) by (simp add: stores_in_def)
  moreover have "snd ` set xs \<union> snd ` set (ob_store b') \<subseteq> A"
    using order_trans [OF drain_indexed_events [OF d], of A] Cons.prems(2) by (simp add: stores_in_def sb)
  ultimately show ?case by (simp add: stores_in_def)
qed (simp add: stores_in_def)

lemma turn_ok_same: "master_rep V A m raw M' \<Longrightarrow> master_applied V raw M' \<or> isl r \<Longrightarrow> turn_ok V A m raw M (r, M')"
  by (auto simp: turn_ok_def intro: exI [of _ "[]"])

lemma event_processor_ok:
  assumes M: "master_rep V A m raw M" and ap: "master_applied V raw M" and l: "lossless V A" and e: "lf_event le \<in> A"
  shows "turn_ok V A m raw M (event_processor V le M)"
proof (cases "ss_master_node_id (lf_session le) = ss_master_node_id (ma_session_id M)")
  case False
  then show ?thesis using M ap by (simp add: event_processor_def turn_ok_same)
next
  case same: True
  show ?thesis
  proof (cases "multi_ingest (lf_origin_idx le) (lf_event le) (lf_origin le) (ma_multi_buffer M)")
    case (Inl x)
    then show ?thesis using same M by (simp add: event_processor_def turn_ok_same)
  next
    case (Inr b)
    obtain es b1 where d: "multi_drain b = (es, b1)" by fastforce
    have "stores_in A (ma_multi_buffer M)" using M by (simp add: master_rep_def stores_in_def)
    then have in_A: "set es \<subseteq> A" "stores_in A b1" using multi_drain_in [OF d] multi_ingest_in [OF Inr _ e] by blast+
    have "master_rep V A m raw (M\<lparr>ma_multi_buffer := b1\<rparr>)" using M in_A(2) by (simp add: master_rep_def stores_in_def)
    moreover have "master_applied V raw (M\<lparr>ma_multi_buffer := b1\<rparr>)" using ap by (simp add: master_applied_def)
    ultimately show ?thesis
      using process_events_ok [OF l in_A(1), of m raw "M\<lparr>ma_multi_buffer := b1\<rparr>"] same Inr d
      by (simp add: event_processor_def turn_ok_def)
  qed
qed

section \<open>Commands\<close>

lemma foldl_send:
  "foldl (\<lambda>M (i, e). send_event i e M) M xs =
    M\<lparr>ma_global_sent := ma_global_sent M
      @ map (\<lambda>(i, e). \<lparr>gf_origin_idx = i, gf_origin = ma_node_id M, gf_session = ma_session_id M, gf_event = e\<rparr>) xs\<rparr>"
  by (induction xs arbitrary: M) (auto simp: send_event_def)

lemma event_slice_nth:
  assumes "k < length (event_slice i j evs)"
  shows "0 \<le> i" "nat i + k < length evs" "event_slice i j evs ! k = evs ! (nat i + k)" "int k < j - i"
  using assms by (auto simp: event_slice_def split: if_splits)

text \<open>What a replay sends: the entries of a batch from the given index on.\<close>

lemma replay_sends:
  assumes "master_rep V A m raw M"
  shows "\<exists>l' xs. replay V i M = (Inr (), M\<lparr>ma_event_log := l', ma_global_sent := ma_global_sent M @ xs\<rparr>)
    \<and> log_rep (me_ser V) (me_des V) (restamp V raw) l' \<and> (\<forall>g \<in> set xs. sent_by_log (restamp V raw) g \<and> claims_master m g)
    \<and> (\<forall>k. i = int k \<longrightarrow> map gf_origin_idx xs = map int [k ..< min (k + nat (me_sync_batch_size V)) (length raw)])"
proof -
  let ?evs = "restamp V raw" and ?stop = "min (i + me_sync_batch_size V) (int (dl_count (ma_event_log M)))"
  have rep: "log_rep (me_ser V) (me_des V) ?evs (ma_event_log M)" using assms by (simp add: master_rep_def)
  have n: "dl_count (ma_event_log M) = length raw" using disk_log.len [OF rep] by simp
  obtain l' where l': "read_range (me_des V) i ?stop (ma_event_log M) = (Inr (event_slice i ?stop ?evs), l')"
    and rep': "log_rep (me_ser V) (me_des V) ?evs l'" using disk_log.rd [OF rep] by blast
  let ?sl = "event_slice i ?stop ?evs"
  define xs where "xs = map (\<lambda>k. \<lparr>gf_origin_idx = i + int k, gf_origin = ma_node_id M, gf_session = ma_session_id M,
      gf_event = ?sl ! k\<rparr>) [0 ..< length ?sl]"
  have "zip (map (\<lambda>k. i + int k) [0 ..< length ?sl]) ?sl = map (\<lambda>k. (i + int k, ?sl ! k)) [0 ..< length ?sl]"
    by (rule nth_equalityI) auto
  then have "replay V i M = (Inr (), M\<lparr>ma_event_log := l', ma_global_sent := ma_global_sent M @ xs\<rparr>)"
    using l' by (simp add: replay_def foldl_send xs_def comp_def)
  moreover have "sent_by_log ?evs g \<and> claims_master m g" if "g \<in> set xs" for g
  proof -
    obtain k where k: "k < length ?sl" "gf_origin_idx g = i + int k" "gf_event g = ?sl ! k" "gf_origin g = ma_node_id M"
      "gf_session g = ma_session_id M" using \<open>g \<in> set xs\<close> by (auto simp: xs_def)
    then have "gf_origin_idx g = int (nat i + k)" using event_slice_nth(1) [OF k(1)] by simp
    then show ?thesis
      using event_slice_nth [OF k(1)] k assms by (auto simp: sent_by_log_def claims_master_def master_rep_def)
  qed
  moreover have "map gf_origin_idx xs = map int [k ..< min (k + nat (me_sync_batch_size V)) (length raw)]" if "i = int k" for k
  proof -
    have "length ?sl = min (k + nat (me_sync_batch_size V)) (length raw) - k"
      using that by (auto simp: event_slice_def n min_def)
    then show ?thesis using that by (intro nth_equalityI) (auto simp: xs_def less_diff_conv add.commute)
  qed
  ultimately show ?thesis using rep' by blast
qed

lemma command_frame:
  assumes "command V c M = (r, M')" and "\<nexists>i. c = RequestEventLog i"
  shows "ma_node_id M' = ma_node_id M \<and> ma_session_id M' = ma_session_id M \<and> ma_event_log M' = ma_event_log M
    \<and> ma_global_sent M' = ma_global_sent M \<and> ma_multi_buffer M' = ma_multi_buffer M \<and> ma_state M' = ma_state M"
  using assms by (cases c) (auto simp: create_task_def Let_def split: sum.splits option.splits if_splits)

lemma command_processor_ok:
  assumes M: "master_rep V A m raw M" and ap: "master_applied V raw M"
  shows "turn_ok V A m raw M (command_processor V c M)"
proof -
  obtain r M1 where r: "command V c M = (r, M1)" by fastforce
  have "master_rep V A m raw M1 \<and> ma_state M1 = ma_state M"
  proof (cases "\<exists>i. c = RequestEventLog i")
    case True
    then obtain i where i: "c = RequestEventLog i" by blast
    obtain l' xs where "replay V i M = (Inr (), M\<lparr>ma_event_log := l', ma_global_sent := ma_global_sent M @ xs\<rparr>)"
      "log_rep (me_ser V) (me_des V) (restamp V raw) l'" "\<forall>g \<in> set xs. sent_by_log (restamp V raw) g"
      using replay_sends [OF M, of i] by blast
    then have "M1 = M\<lparr>ma_event_log := l', ma_global_sent := ma_global_sent M @ xs\<rparr>"
      "log_rep (me_ser V) (me_des V) (restamp V raw) l'" "\<forall>g \<in> set xs. sent_by_log (restamp V raw) g"
      using r by (simp_all add: i sbind_def)
    then show ?thesis using M by (auto simp: master_rep_def)
  next
    case False
    then show ?thesis using command_frame [OF r False] master_rep_frame [OF M] by simp
  qed
  then have "master_rep V A m raw M2 \<and> master_applied V raw M2" if "M2 = M1 \<or> M2 = send_events V es M1" for M2 es
    using that ap master_rep_frame [of V A m raw M1 "send_events V es M1"] by (auto simp: master_applied_def)
  then show ?thesis
    using r by (auto simp: command_processor_def intro!: turn_ok_same split: sum.splits runtime_error.splits)
qed

lemma time_out_nodes_frame:
  "time_out_nodes V now direct entries M = (r, M') \<Longrightarrow> ma_node_id M' = ma_node_id M \<and> ma_session_id M' = ma_session_id M
    \<and> ma_event_log M' = ma_event_log M \<and> ma_global_sent M' = ma_global_sent M \<and> ma_multi_buffer M' = ma_multi_buffer M
    \<and> ma_state M' = ma_state M"
  by (induction V now direct entries M rule: time_out_nodes.induct) (auto split: if_splits datetime.splits)

lemma plan_ok:
  assumes "master_rep V A m raw M" and "master_applied V raw M"
  shows "turn_ok V A m raw M (Inr (), kill_broken_instances V M)" "turn_ok V A m raw M (time_out_dead_nodes V now M)"
proof -
  show "turn_ok V A m raw M (Inr (), kill_broken_instances V M)"
    using assms master_rep_frame [OF assms(1), of "kill_broken_instances V M"]
    by (intro turn_ok_same) (auto simp: kill_broken_instances_def master_applied_def)
  obtain r M' where r: "time_out_dead_nodes V now M = (r, M')" by fastforce
  note frame = time_out_nodes_frame [OF r [unfolded time_out_dead_nodes_def]]
  have "master_rep V A m raw M'" using master_rep_frame [OF assms(1), of M'] frame by simp
  moreover have "master_applied V raw M'" using assms(2) frame by (simp add: master_applied_def)
  ultimately show "turn_ok V A m raw M (time_out_dead_nodes V now M)" unfolding r by (intro turn_ok_same) simp_all
qed

section \<open>The cluster\<close>

lemma restamp_append: "\<exists>evs. restamp V (raw @ raw2) = restamp V raw @ evs"
proof (induction raw2 rule: rev_induct)
  case (snoc e raw2)
  then show ?case by (metis append.assoc restamp_snoc)
qed simp

lemma router_rep_restamp: "router_rep m A (restamp V raw) r \<Longrightarrow> router_rep m A (restamp V (raw @ raw2)) r"
  using restamp_append [of V raw raw2] router_rep_append by metis

lemma master_turn_rep:
  assumes c: "cluster_rep V A m raw c" and t: "turn_ok V A m raw (cl_master c) (f (cl_master c))"
  shows "\<exists>raw2. cluster_rep V A m (raw @ raw2) (master_turn f c)"
proof -
  obtain r M where f: "f (cl_master c) = (r, M)" by fastforce
  then obtain raw2 where M: "master_rep V A m (raw @ raw2) M" "\<not> isl r \<longrightarrow> master_applied V (raw @ raw2) M"
    using t by (auto simp: turn_ok_def)
  have "\<forall>g \<in> set (ma_global_sent M). sent_by_log (restamp V (raw @ raw2)) g" using M(1) by (simp add: master_rep_def)
  then have "cluster_rep V A m (raw @ raw2) (master_turn f c)"
    using c M router_rep_restamp sent_by_log_restamp
    by (auto simp: cluster_rep_def master_turn_def f dest: in_set_dropD)
  then show ?thesis by blast
qed

lemma router_turn_rep:
  assumes c: "cluster_rep V A m raw c" and r: "router_rep m A (restamp V raw) r"
    and sent: "lf_event ` set (drop (length (er_external_sent (cl_routers c n))) (er_external_sent r)) \<subseteq> A"
  shows "cluster_rep V A m raw (router_turn n r c)"
  using assms by (auto simp: cluster_rep_def router_turn_def)

lemma cluster_step_rep:
  assumes "cluster_step V A c c'" and l: "lossless V A" and c: "cluster_rep V A m raw c"
  shows "\<exists>raw2. cluster_rep V A m (raw @ raw2) c'"
proof -
  have M: "master_rep V A m raw (cl_master c)" and ap: "cl_running c \<Longrightarrow> master_applied V raw (cl_master c)"
    and r: "router_rep m A (restamp V raw) (cl_routers c n)" and loc: "lf_event ` cl_local c \<subseteq> A"
    and glob: "\<And>g. g \<in> cl_global c \<Longrightarrow> claims_master m g \<longrightarrow> sent_by_log (restamp V raw) g" for n
    using c by (simp_all add: cluster_rep_def)
  have out: "lf_event ` snd ` snd ` set (er_out_for_delivery (cl_routers c n)) \<subseteq> A" for n using r by (simp add: router_rep_def)
  have same: "\<exists>raw2. cluster_rep V A m (raw @ raw2) c'" if "cluster_rep V A m raw c'" for c'
    using that by (metis append.right_neutral)
  show ?thesis
    using assms(1)
  proof cases
    case (publish e n now sys)
    then show ?thesis
      using router_turn_rep [OF c router_local_steps(1) [OF r [of n], of e now sys], of n]
      by (intro same) (simp add: router_ingest_def Let_def)
  next
    case (retry_begin n)
    have "er_external_sent (retry_start (cl_routers c n)) = er_external_sent (cl_routers c n)" by (simp add: retry_start_def)
    then show ?thesis using router_turn_rep [OF c router_local_steps(2) [OF r [of n]], of n] retry_begin by (intro same) simp
  next
    case (retry n now)
    have "lf_event ` set (drop (length (er_external_sent (cl_routers c n))) (er_external_sent (retry_next now (cl_routers c n)))) \<subseteq> A"
      using r [of n] by (auto simp: router_rep_def retry_next_def split: list.splits)
    then show ?thesis using router_turn_rep [OF c router_local_steps(3) [OF r [of n], of now], of n] retry by (intro same) simp
  next
    case (master_event le)
    then show ?thesis using master_turn_rep [OF c, of "event_processor V le"] event_processor_ok [OF M ap l, of le] loc by auto
  next
    case (master_command cmd)
    then show ?thesis using master_turn_rep [OF c, of "command_processor V cmd"] command_processor_ok [OF M ap] by simp
  next
    case full_sync
    then show ?thesis using master_turn_rep [OF c, of "command_processor V (RequestEventLog 0)"] command_processor_ok [OF M ap] by simp
  next
    case plan_instances
    then show ?thesis using master_turn_rep [OF c, of "\<lambda>M. (Inr (), kill_broken_instances V M)"] plan_ok(1) [OF M ap] by simp
  next
    case (plan_nodes now)
    then show ?thesis using master_turn_rep [OF c, of "time_out_dead_nodes V now"] plan_ok(2) [OF M ap] by simp
  next
    case (receive g n r')
    then show ?thesis
      using router_turn_rep [OF c, of r' n] run_ext_in_rep [OF r [of n] glob, of g] by (intro same) auto
  next
    case (nack_begin i n r')
    then have "nack_framed (cl_routers c n) r'" by (intro nack_start_frame)
    then show ?thesis using router_turn_rep [OF c router_local_steps(4) [OF r [of n]], of r' n] nack_begin
      by (intro same) (simp add: nack_framed_def)
  next
    case (nack_end n i)
    moreover have "nack_framed (cl_routers c n) (nack_finish i (cl_routers c n))" by (rule nack_finish_frame)
    ultimately show ?thesis using router_turn_rep [OF c router_local_steps(4) [OF r [of n]], of "nack_finish i (cl_routers c n)" n]
      by (intro same) (simp add: nack_framed_def)
  next
    case (close i n)
    then show ?thesis using router_turn_rep [OF c router_local_steps(5) [OF r [of n], of i], of n] by (intro same) simp
  next
    case (lose L G)
    then have "lf_event ` L \<subseteq> A" using loc by blast
    then show ?thesis using lose c by (intro same) (auto simp: cluster_rep_def)
  next
    case (foreign g)
    then show ?thesis using c by (intro same) (auto simp: cluster_rep_def master_rep_def)
  qed
qed

lemma new_cluster_rep: "cluster_rep V A (ss_master_node_id session) [] (new_cluster session receivers)"
  by (auto simp: cluster_rep_def new_cluster_def master_rep_def new_master_def log_rep_new master_applied_def router_rep_def
      new_event_router_def ordered_buffer.new channel_rep_def)

lemma cluster_steps_rep:
  assumes "cluster_steps V A (new_cluster session receivers) c" and "lossless V A"
  shows "\<exists>raw. cluster_rep V A (ss_master_node_id session) raw c"
  using assms(1) by (induction rule: rtranclp_induct) (use new_cluster_rep cluster_step_rep [OF _ assms(2)] in blast)+

section \<open>The master and its replicas\<close>

text \<open>
  Another process: it iterates a set in another order, and its graph library may find the cycles
  in another order. It hands out the same indices, and reads dates alike.
\<close>

definition other_process ::
  "(digraph \<Rightarrow> nat list list) \<Rightarrow> (string set \<Rightarrow> string list) \<Rightarrow> runtime_env \<Rightarrow> runtime_env" where
  "other_process cycles order E = E\<lparr>re_rx := (re_rx E)\<lparr>rx_simple_cycles := cycles\<rparr>, re_set_order := order\<rparr>"

definition set_order_ok :: "(string set \<Rightarrow> string list) \<Rightarrow> bool" where
  "set_order_ok order \<longleftrightarrow> (\<forall>X. finite X \<longrightarrow> set (order X) = X)"

lemma other_process_simps [simp]:
  "re_rx (other_process cycles order E) = (re_rx E)\<lparr>rx_simple_cycles := cycles\<rparr>"
  "re_fromisoformat (other_process cycles order E) = re_fromisoformat E"
  by (simp_all add: other_process_def)

lemma graph_any_cycles [simp]:
  "graph_add_node (R\<lparr>rx_simple_cycles := cycles\<rparr>) = graph_add_node R"
  "graph_add_edge (R\<lparr>rx_simple_cycles := cycles\<rparr>) = graph_add_edge R"
  by (simp_all add: fun_eq_iff graph_add_node_def graph_add_edge_def)

lemma topology_any_cycles [simp]:
  "add_node (R\<lparr>rx_simple_cycles := cycles\<rparr>) = add_node R"
  "add_connection (R\<lparr>rx_simple_cycles := cycles\<rparr>) = add_connection R"
  "replace_all_out_rdma_connections (R\<lparr>rx_simple_cycles := cycles\<rparr>) = replace_all_out_rdma_connections R"
proof -
  show node: "add_node (R\<lparr>rx_simple_cycles := cycles\<rparr>) = add_node R"
    by (simp add: fun_eq_iff add_node_def)
  show conn: "add_connection (R\<lparr>rx_simple_cycles := cycles\<rparr>) = add_connection R"
    unfolding fun_eq_iff add_connection_def node graph_any_cycles by simp
  show "replace_all_out_rdma_connections (R\<lparr>rx_simple_cycles := cycles\<rparr>) = replace_all_out_rdma_connections R"
    by (simp add: fun_eq_iff replace_all_out_rdma_connections_def conn)
qed

lemma rfold_returns:
  assumes "\<And>h x. (\<exists>h'. f h x = Inr h') \<longleftrightarrow> ok x"
  shows "(\<exists>h'. rfold f h xs = Inr h') \<longleftrightarrow> (\<forall>x \<in> set xs. ok x)"
proof (induction xs arbitrary: h)
  case (Cons x xs)
  show ?case
  proof (cases "f h x")
    case (Inl e)
    then have "\<not> ok x" using assms [of h x] by simp
    then show ?thesis using Inl by simp
  next
    case (Inr h1)
    then have "ok x" using assms [of h x] by blast
    then show ?thesis using Inr Cons by simp
  qed
qed simp

lemma vertex_indices_keys:
  "fst ` set (snd (foldl (\<lambda>(h, d) x. let (i, h') = graph_add_node R x h in (h', AList.update x i d)) (h, d) xs)) = fst ` set d \<union> set xs"
proof (induction xs arbitrary: h d)
  case (Cons x xs)
  obtain i h' where "graph_add_node R x h = (i, h')" by fastforce
  then show ?case using Cons [of h' "AList.update x i d"] by (auto simp: dom_update)
qed simp

text \<open>Whether the cycles can be computed depends neither on the order of a set nor on the cycles found.\<close>

definition edge_readable :: "string set \<Rightarrow> digraph \<Rightarrow> nat \<times> nat \<times> edge \<Rightarrow> bool" where
  "edge_readable X g = (\<lambda>(u, v, e). graph_at g u \<in> X \<longrightarrow> graph_at g v \<in> X \<longrightarrow>
     (case e of RDMAConnection _ _ \<Rightarrow> True | SocketConnection address \<Rightarrow> \<not> isl (ip_address address)))"

lemma cycles_returns:
  assumes "set_order_ok order"
  shows "(\<exists>cs. get_thunderbolt_bridge_cycles R order status network t = Inr cs) \<longleftrightarrow>
    (let enabled = fst ` set (filter (\<lambda>(_, b). tb_enabled b) status)
     in card enabled < 2 \<or> (\<forall>e \<in> set (weighted_edge_list (tp_graph t)). edge_readable {x \<in> enabled. contains_node x t} (tp_graph t) e))"
proof -
  define enabled where "enabled = fst ` set (filter (\<lambda>(_, b). tb_enabled b) status)"
  let ?step = "\<lambda>(h, d) x. let (i, h') = graph_add_node R x h in (h', AList.update x i d)"
  let ?nodes = "filter (\<lambda>x. contains_node x t) (order enabled)"
  obtain h0 idx where start: "foldl ?step (empty_graph, []) ?nodes = (h0, idx)" by fastforce
  have "set (order enabled) = enabled" using assms by (simp add: set_order_ok_def enabled_def)
  then have keys: "fst ` set idx = {x \<in> enabled. contains_node x t}"
    using vertex_indices_keys [of R empty_graph "[]" ?nodes] unfolding start by auto
  let ?ips = "get_ips_with_interface_type enabled network ''thunderbolt''"
  let ?f = "\<lambda>h (u, v, e). case (map_of idx (graph_at (tp_graph t) u), map_of idx (graph_at (tp_graph t) v)) of
               (Some i, Some j) \<Rightarrow>
                 (case e of
                    RDMAConnection _ _ \<Rightarrow> Inr (graph_add_edge R i j e h)
                  | SocketConnection address \<Rightarrow>
                      rbind (ip_address address) (\<lambda>ip. Inr (if ip \<in> ?ips then graph_add_edge R i j e h else h)))
             | _ \<Rightarrow> Inr h"
  have known: "map_of idx x = None \<longleftrightarrow> x \<notin> {x \<in> enabled. contains_node x t}" for x
    unfolding keys [symmetric] by (rule map_of_eq_None_iff)
  have "(\<exists>h'. ?f h e = Inr h') \<longleftrightarrow> edge_readable {x \<in> enabled. contains_node x t} (tp_graph t) e" for h e
  proof -
    obtain u v a where e: "e = (u, v, a)" by (cases e)
    show ?thesis
      using known [of "graph_at (tp_graph t) u"] known [of "graph_at (tp_graph t) v"]
      by (cases "map_of idx (graph_at (tp_graph t) u)"; cases "map_of idx (graph_at (tp_graph t) v)"; cases a)
        (auto simp: e edge_readable_def rbind_def split: sum.splits)
  qed
  note returns = rfold_returns [where f = ?f, OF this]
  have "get_thunderbolt_bridge_cycles R order status network t = (if card enabled < 2 then Inr []
      else rbind (rfold ?f h0 (weighted_edge_list (tp_graph t)))
        (\<lambda>h. Inr (map (map (graph_at h)) (filter (\<lambda>c. 2 \<le> length c) (rx_simple_cycles R h)))))"
    unfolding get_thunderbolt_bridge_cycles_def enabled_def [symmetric] Let_def start [unfolded Let_def] prod.case by (rule refl)
  then have "(\<exists>cs. get_thunderbolt_bridge_cycles R order status network t = Inr cs)
      \<longleftrightarrow> card enabled < 2 \<or> (\<exists>h'. rfold ?f h0 (weighted_edge_list (tp_graph t)) = Inr h')"
    by (cases "rfold ?f h0 (weighted_edge_list (tp_graph t))") simp_all
  then show ?thesis unfolding returns enabled_def [symmetric] Let_def .
qed

lemma other_bridge_cycles:
  assumes "set_order_ok (re_set_order E)" "set_order_ok order" "bridge_cycles E status network t = Inr cs"
  shows "\<exists>cs'. bridge_cycles (other_process cycles order E) status network t = Inr cs'"
proof -
  have "\<exists>cs. get_thunderbolt_bridge_cycles (re_rx E) (re_set_order E) status network t = Inr cs"
    using assms(3) by (simp add: bridge_cycles_def)
  then have "\<exists>cs. get_thunderbolt_bridge_cycles ((re_rx E)\<lparr>rx_simple_cycles := cycles\<rparr>) order status network t = Inr cs"
    unfolding cycles_returns [OF assms(1)] cycles_returns [OF assms(2)] .
  then show ?thesis by (simp add: bridge_cycles_def other_process_def)
qed

text \<open>
  States that agree but for the times in \<open>last_seen\<close> and for the Thunderbolt cycles, which no handler reads.
\<close>

definition seen_alike :: "State \<Rightarrow> State \<Rightarrow> bool" where
  "seen_alike s t \<longleftrightarrow> (\<exists>L cs. t = s\<lparr>st_last_seen := L, st_thunderbolt_bridge_cycles := cs\<rparr> \<and> map fst L = map fst (st_last_seen s))"

lemma gathered_keeps_last_seen: "gathered E x info s = Inr s' \<Longrightarrow> st_last_seen s' = st_last_seen s"
  by (cases info) (auto simp: update_identity_def Let_def rbind_Inr_iff)

lemma if_returns:
  "(X = Inr c \<Longrightarrow> \<exists>c'. Y = Inr c') \<Longrightarrow> (if b then X else Inr d) = Inr c \<Longrightarrow> \<exists>c'. (if b then Y else Inr d') = Inr c'"
  by (cases b) simp_all

lemma gathered_alike:
  assumes "set_order_ok (re_set_order E)" "set_order_ok order" "gathered E x info s = Inr s'"
  shows "\<exists>cs'. gathered (other_process cycles order E) x info (s\<lparr>st_last_seen := L, st_thunderbolt_bridge_cycles := cs\<rparr>)
    = Inr (s'\<lparr>st_last_seen := L, st_thunderbolt_bridge_cycles := cs'\<rparr>)"
proof (cases info)
  case (ThunderboltBridgeInfo status)
  let ?bridge = "AList.update x status (st_node_thunderbolt_bridge s)"
  let ?changed = "bridge_enabled (st_node_thunderbolt_bridge s) x \<noteq> tb_enabled status"
  obtain cs0 where s': "s' = s\<lparr>st_node_thunderbolt_bridge := ?bridge, st_thunderbolt_bridge_cycles := cs0\<rparr>"
    and cs0: "(if ?changed then bridge_cycles E ?bridge (st_node_network s) (st_topology s) else Inr (st_thunderbolt_bridge_cycles s)) = Inr cs0"
    using assms(3) unfolding ThunderboltBridgeInfo gathered.simps Let_def rbind_Inr_iff by blast
  obtain cs' where cs': "(if ?changed then bridge_cycles (other_process cycles order E) ?bridge (st_node_network s) (st_topology s)
      else Inr cs) = Inr cs'"
    using if_returns [OF other_bridge_cycles [OF assms(1,2)] cs0] by blast
  show ?thesis
    using cs' unfolding ThunderboltBridgeInfo s' by (intro exI [of _ cs'], cases ?changed) (simp_all add: Let_def)
qed (use assms(3) in \<open>auto simp: update_identity_def rbind_def Let_def intro!: exI [of _ cs] split: sum.splits\<close>)

lemma timed_out_alike:
  assumes "set_order_ok (re_set_order E)" "set_order_ok order" "apply_node_timed_out E x s = Inr s'"
  shows "\<exists>cs'. apply_node_timed_out (other_process cycles order E) x (s\<lparr>st_last_seen := L, st_thunderbolt_bridge_cycles := cs\<rparr>)
    = Inr (s'\<lparr>st_last_seen := AList.delete x L, st_thunderbolt_bridge_cycles := cs'\<rparr>)"
proof -
  let ?args = "\<lambda>E. bridge_cycles E (AList.delete x (st_node_thunderbolt_bridge s)) (AList.delete x (st_node_network s))
    (topology_remove_node x (st_topology s))"
  let ?b = "bridge_enabled (st_node_thunderbolt_bridge s) x"
  obtain cs0 where s': "s' = without_node x cs0 s" and cs0: "(if ?b then ?args E else Inr (st_thunderbolt_bridge_cycles s)) = Inr cs0"
    using assms(3) unfolding apply_node_timed_out_def rbind_Inr_iff by blast
  obtain cs' where cs': "(if ?b then ?args (other_process cycles order E) else Inr cs) = Inr cs'"
    using if_returns [OF other_bridge_cycles [OF assms(1,2)] cs0] by blast
  show ?thesis by (rule exI [of _ cs']) (simp add: apply_node_timed_out_def cs' s' without_node_def cong: if_cong)
qed

lemma timed_out_keeps: "apply_node_timed_out E x s = Inr s' \<Longrightarrow> st_last_seen s' = AList.delete x (st_last_seen s)"
  by (auto simp: apply_node_timed_out_def without_node_def rbind_Inr_iff)

lemma keys_update_cong: "map fst L = map fst d \<Longrightarrow> map fst (AList.update x v L) = map fst (AList.update x w d)"
  by (simp add: update_keys)

lemma keys_delete_cong: "map fst L = map fst d \<Longrightarrow> map fst (AList.delete x L) = map fst (AList.delete x d)"
  by (simp add: delete_keys)

lemma quiet_event:
  assumes "\<nexists>x w info. ev = NodeGatheredInfo x w info" and "\<nexists>x. ev = NodeTimedOut x"
  shows "event_apply (other_process cycles order E) ev (s\<lparr>st_last_seen := L, st_thunderbolt_bridge_cycles := cs\<rparr>)
      = rbind (event_apply E ev s) (\<lambda>s'. Inr (s'\<lparr>st_last_seen := L, st_thunderbolt_bridge_cycles := cs\<rparr>))"
    and "event_apply E ev s = Inr s' \<Longrightarrow> st_last_seen s' = st_last_seen s"
  using assms
  by (cases ev; auto simp: apply_task_created_def apply_task_deleted_def apply_task_status_updated_def apply_task_failed_def
      apply_instance_created_def apply_instance_deleted_def apply_runner_status_updated_def apply_node_download_progress_def
      apply_topology_edge_created_def apply_topology_edge_deleted_def apply_overlay_peer_connected_def
      apply_overlay_peer_disconnected_def apply_overlay_bootstrap_peers_advertised_def split: option.splits)+

lemma event_apply_alike:
  assumes ord: "set_order_ok (re_set_order E)" "set_order_ok order" and "event_apply E (ev_event e) s = Inr s'"
    and "seen_alike s t" and now: "re_fromisoformat E now \<noteq> None"
  shows "\<exists>t'. event_apply (other_process cycles order E) (ev_event (stamp now e)) t = Inr t' \<and> seen_alike s' t'"
proof -
  let ?E = "other_process cycles order E"
  obtain L cs where t: "t = s\<lparr>st_last_seen := L, st_thunderbolt_bridge_cycles := cs\<rparr>" and keys: "map fst L = map fst (st_last_seen s)"
    using assms(4) by (auto simp: seen_alike_def)
  show ?thesis
  proof (cases "ev_event e")
    case (NodeGatheredInfo x old info)
    obtain time0 time1 where times: "re_fromisoformat E old = Some time0" "re_fromisoformat E now = Some time1"
      using assms(3) now by (auto simp: NodeGatheredInfo apply_node_gathered_info_def split: option.splits)
    let ?s = "s\<lparr>st_last_seen := AList.update x time0 (st_last_seen s), st_topology := add_node (re_rx E) x (st_topology s)\<rparr>"
    have g: "gathered E x info ?s = Inr s'"
      using assms(3) by (simp add: NodeGatheredInfo apply_node_gathered_info_def times)
    have "event_apply ?E (ev_event (stamp now e)) t
        = gathered ?E x info (?s\<lparr>st_last_seen := AList.update x time1 L, st_thunderbolt_bridge_cycles := cs\<rparr>)"
      by (simp add: stamp_def NodeGatheredInfo apply_node_gathered_info_def times t) (rule arg_cong [of _ _ "gathered ?E x info"], simp)
    moreover obtain cs' where "gathered ?E x info (?s\<lparr>st_last_seen := AList.update x time1 L, st_thunderbolt_bridge_cycles := cs\<rparr>)
        = Inr (s'\<lparr>st_last_seen := AList.update x time1 L, st_thunderbolt_bridge_cycles := cs'\<rparr>)"
      using gathered_alike [OF ord g] by blast
    moreover have "map fst (AList.update x time1 L) = map fst (st_last_seen s')"
      using gathered_keeps_last_seen [OF g] keys_update_cong [OF keys] by simp
    ultimately show ?thesis unfolding seen_alike_def by metis
  next
    case (NodeTimedOut x)
    then show ?thesis
      using assms(3) timed_out_alike [OF ord, of x s s', where L = L and cs = cs and cycles = cycles] timed_out_keeps [of E x s s'] keys_delete_cong [OF keys]
      by (auto simp: stamp_def t seen_alike_def)
  qed (use assms(3) quiet_event(1) [of "ev_event e", where E = E and cycles = cycles and order = order and s = s and L = L and cs = cs] quiet_event(2) [of "ev_event e" E s s'] keys
        in \<open>auto simp: stamp_def t seen_alike_def\<close>)
qed

lemma apply_event_alike:
  assumes "set_order_ok (re_set_order E)" "set_order_ok order"
    and "apply_event E s \<lparr>ie_idx = i, ie_event = e\<rparr> = Inr s'" and "seen_alike s t" and "re_fromisoformat E now \<noteq> None"
  shows "\<exists>t'. apply_event (other_process cycles order E) t \<lparr>ie_idx = i, ie_event = stamp now e\<rparr> = Inr t' \<and> seen_alike s' t'"
proof -
  obtain s1 where s1: "event_apply E (ev_event e) s = Inr s1" "s' = s1\<lparr>st_last_event_applied_idx := i\<rparr>"
    and idx: "st_last_event_applied_idx s = i - 1"
    using assms(3) by (auto simp: apply_event_def rbind_Inr_iff split: if_splits)
  obtain t1 where t1: "event_apply (other_process cycles order E) (ev_event (stamp now e)) t = Inr t1" "seen_alike s1 t1"
    using event_apply_alike [OF assms(1,2) s1(1) assms(4,5)] by blast
  have "st_last_event_applied_idx t = i - 1" using assms(4) idx by (auto simp: seen_alike_def)
  then have "apply_event (other_process cycles order E) t \<lparr>ie_idx = i, ie_event = stamp now e\<rparr> = Inr (t1\<lparr>st_last_event_applied_idx := i\<rparr>)"
    using t1(1) by (simp add: apply_event_def)
  moreover have "seen_alike s' (t1\<lparr>st_last_event_applied_idx := i\<rparr>)"
  proof -
    obtain L cs where L: "t1 = s1\<lparr>st_last_seen := L, st_thunderbolt_bridge_cycles := cs\<rparr>" "map fst L = map fst (st_last_seen s1)"
      using t1(2) by (auto simp: seen_alike_def)
    then have "t1\<lparr>st_last_event_applied_idx := i\<rparr> = s'\<lparr>st_last_seen := L, st_thunderbolt_bridge_cycles := cs\<rparr>" by (simp add: s1(2))
    then show ?thesis using L(2) by (auto simp: seen_alike_def s1(2))
  qed
  ultimately show ?thesis by blast
qed

lemma restamped_alike:
  assumes ord: "set_order_ok (re_set_order (me_env V))" "set_order_ok order"
    and "\<forall>i. re_fromisoformat (me_env V) (me_now V i) \<noteq> None"
  shows "rfold (apply_event (me_env V)) new_state (indexed_events raw) = Inr s \<Longrightarrow>
    \<exists>t. rfold (apply_event (other_process cycles order (me_env V))) new_state (indexed_events (restamp V raw)) = Inr t \<and> seen_alike s t"
proof (induction raw arbitrary: s rule: rev_induct)
  case Nil
  then show ?case by (auto simp: seen_alike_def intro!: exI [of _ "st_last_seen s"] exI [of _ "st_thunderbolt_bridge_cycles s"])
next
  case (snoc e raw)
  obtain s1 where s1: "rfold (apply_event (me_env V)) new_state (indexed_events raw) = Inr s1"
    "apply_event (me_env V) s1 \<lparr>ie_idx = int (length raw), ie_event = e\<rparr> = Inr s"
    using snoc.prems by (auto simp: rfold_append rbind_Inr_iff)
  obtain t1 where t1: "rfold (apply_event (other_process cycles order (me_env V))) new_state (indexed_events (restamp V raw)) = Inr t1"
      "seen_alike s1 t1"
    using snoc.IH [OF s1(1)] by blast
  show ?case
    using apply_event_alike [OF ord s1(2) t1(2), of "me_now V (int (length raw))" cycles] assms(3) t1(1) by (auto simp: rfold_append)
qed

end
