(* ===== verification/CatchUp.thy ===== *)
theory CatchUp
  imports ClusterProps
begin

text \<open>
  How a node that lags behind gets the missing part of the log. \<open>nack_ok\<close> is the invariant of the
  request protocol of a router: the scope it remembers belongs to a task that is asleep, and the next
  entry it waits for is not in its buffer. A router that hears an event beyond the gap
  asks for the log from the gap on (\<open>asks_for_gap\<close>), the master answers with one batch
  (\<open>answers\<close>), and the batch moves the router forward in whatever order it arrives (\<open>receives\<close>).
  If it arrives in order, no further request is made (\<open>receives_in_order\<close>).
\<close>

section \<open>The invariant of the requests\<close>

definition nack_ok :: "EventRouter \<Rightarrow> bool" where
  "nack_ok r \<longleftrightarrow> (\<forall>k. er_nack_cancel_scope r = Some k \<longrightarrow> k < er_scopes r \<and> (\<exists>since. (Some k, since) \<in> set (er_nack_tasks r)))
     \<and> (\<forall>k \<in> er_cancelled r. k < er_scopes r)
     \<and> map_of (ob_store (er_buffer r)) (ob_next_idx_to_release (er_buffer r)) = None"

lemma drained_next: "drain_indexed b = (xs, b') \<Longrightarrow> map_of (ob_store b') (ob_next_idx_to_release b') = None"
proof (induction b arbitrary: xs b' rule: drain_indexed.induct)
  case (1 b)
  then show ?case
    by (subst (asm) (2) drain_indexed.simps) (auto split: option.splits prod.splits)
qed

definition scope_idle :: "EventRouter \<Rightarrow> bool" where
  "scope_idle r \<longleftrightarrow> (case er_nack_cancel_scope r of None \<Rightarrow> True | Some k \<Rightarrow> k \<in> er_cancelled r)"

lemma run_ext_in_waits:
  assumes "from_master g r" "ingest (gf_origin_idx g) (gf_event g) (er_buffer r) = Inr b" "drain_indexed b = ([], b1)"
  shows "run_ext_in g r = Inr (r\<lparr>er_buffer := b1,
    er_out_for_delivery := AList.delete (ev_event_id (gf_event g)) (er_out_for_delivery r),
    er_nack_tasks := er_nack_tasks r @ (if scope_idle r then [(None, ob_next_idx_to_release b1)] else [])\<rparr>)"
  using assms by (cases "er_nack_cancel_scope r") (simp_all add: run_ext_in_def scope_idle_def)

lemma run_ext_in_delivers:
  assumes "from_master g r" "ingest (gf_origin_idx g) (gf_event g) (er_buffer r) = Inr b" "drain_indexed b = (drained, b1)" "drained \<noteq> []"
  shows "run_ext_in g r = Inr (r\<lparr>er_buffer := b1,
    er_out_for_delivery := AList.delete (ev_event_id (gf_event g)) (er_out_for_delivery r), er_nack_attempts := 0,
    er_cancelled := er_cancelled r \<union> set_option (er_nack_cancel_scope r),
    er_internal_outbound := foldl deliver (er_internal_outbound r) drained\<rparr>)"
  using assms by (cases "er_nack_cancel_scope r") (simp_all add: run_ext_in_def)

lemma run_ext_in_cases:
  assumes "run_ext_in g r = Inr r'"
  obtains "r' = r" "\<not> from_master g r"
  | b drained b1 where "from_master g r" "ingest (gf_origin_idx g) (gf_event g) (er_buffer r) = Inr b" "drain_indexed b = (drained, b1)"
  using assms by (cases "from_master g r") (auto simp: run_ext_in_def rbind_Inr_iff, metis surj_pair)

lemma run_ext_in_nack:
  assumes "nack_ok r" "run_ext_in g r = Inr r'"
  shows "nack_ok r'"
  using assms(2)
proof (cases rule: run_ext_in_cases)
  case (2 b drained b1)
  show ?thesis
  proof (cases "drained = []")
    case True
    then show ?thesis
      using run_ext_in_waits [OF 2(1,2)] 2(3) assms drained_next [OF 2(3)] by (fastforce simp: nack_ok_def)
  next
    case False
    then show ?thesis
      using run_ext_in_delivers [OF 2(1-3)] assms drained_next [OF 2(3)] by (auto simp: nack_ok_def)
  qed
qed (use assms in simp)

lemma nack_start_nack:
  assumes "nack_ok r" "nack_start i r = Inr r'"
  shows "nack_ok r'"
proof (cases "i < length (er_nack_tasks r) \<and> fst (er_nack_tasks r ! i) = None")
  case True
  then have "(Some (er_scopes r), max 0 (snd (er_nack_tasks r ! i)))
      \<in> set ((er_nack_tasks r)[i := (Some (er_scopes r), max 0 (snd (er_nack_tasks r ! i)))])"
    by (simp add: set_update_memI)
  with assms True show ?thesis by (auto simp: nack_start_def nack_ok_def rbind_Inr_iff less_Suc_eq)
qed (use assms in \<open>auto simp: nack_start_def split: if_splits\<close>)

lemma in_removed: "x \<in> set xs \<Longrightarrow> x = xs ! i \<or> x \<in> set (take i xs @ drop (Suc i) xs)"
proof (cases "i < length xs")
  case True
  assume "x \<in> set xs"
  then have "x \<in> set (take i xs @ xs ! i # drop (Suc i) xs)" by (simp add: id_take_nth_drop [OF True, symmetric])
  then show ?thesis by auto
qed auto

lemma nack_finish_nack:
  assumes "nack_ok r"
  shows "nack_ok (nack_finish i r)"
proof (cases "i < length (er_nack_tasks r) \<and> (\<exists>k since. er_nack_tasks r ! i = (Some k, since))")
  case True
  then obtain k since where t: "i < length (er_nack_tasks r)" "er_nack_tasks r ! i = (Some k, since)" by blast
  have "(Some h, s) \<in> set (take i (er_nack_tasks r) @ drop (Suc i) (er_nack_tasks r))"
    if "(Some h, s) \<in> set (er_nack_tasks r)" "h \<noteq> k" for h s
    using in_removed [OF that(1), of i] that(2) by (simp add: t(2))
  then have "\<exists>s. (Some h, s) \<in> set (take i (er_nack_tasks r)) \<or> (Some h, s) \<in> set (drop (Suc i) (er_nack_tasks r))"
    if "er_nack_cancel_scope r = Some h" "h \<noteq> k" for h
    using that assms by (fastforce simp: nack_ok_def)
  with assms t show ?thesis by (auto simp: nack_ok_def nack_finish_def)
qed (use assms in \<open>auto simp: nack_finish_def split: prod.splits option.splits\<close>)

lemma cluster_step_nack:
  assumes "cluster_step V A c c'" and "\<And>n. nack_ok (cl_routers c n)"
  shows "nack_ok (cl_routers c' n)"
proof -
  have turn: "nack_ok (cl_routers (router_turn n' r c) n)" if "nack_ok r" for n' r
    using that assms(2) by (simp add: router_turn_def)
  have master: "cl_routers (master_turn f c) = cl_routers c" for f by (simp add: master_turn_def split: prod.splits)
  have same: "nack_ok r'" if "nack_ok r" "er_nack_cancel_scope r' = er_nack_cancel_scope r" "er_nack_tasks r' = er_nack_tasks r"
    "er_scopes r' = er_scopes r" "er_cancelled r' = er_cancelled r" "er_buffer r' = er_buffer r" for r r'
    using that by (simp add: nack_ok_def)
  show ?thesis
    using assms(1)
  proof cases
    case (publish e n' now sys)
    then show ?thesis using same [OF assms(2) [of n'], of "router_ingest now sys e (cl_routers c n')"] turn
      by (simp add: router_ingest_def Let_def)
  next
    case (retry_begin n')
    then show ?thesis using same [OF assms(2) [of n'], of "retry_start (cl_routers c n')"] turn
      by (simp add: retry_start_def)
  next
    case (retry n' now)
    then show ?thesis using same [OF assms(2) [of n'], of "retry_next now (cl_routers c n')"] turn
      by (simp add: retry_next_def split: list.splits prod.splits)
  next
    case (receive g n' r)
    then show ?thesis using turn run_ext_in_nack assms(2) by blast
  next
    case (nack_begin i n' r)
    then show ?thesis using turn nack_start_nack assms(2) by blast
  next
    case (nack_end n' i)
    then show ?thesis using turn nack_finish_nack assms(2) by blast
  next
    case (close i n')
    then show ?thesis using turn [OF same [OF assms(2) [of n']]] by simp
  qed (use assms(2) master in simp_all)
qed

lemma cluster_steps_nack:
  assumes "cluster_steps V A c c'" and "\<And>n. nack_ok (cl_routers c n)"
  shows "nack_ok (cl_routers c' n)"
  using assms by (induction arbitrary: n rule: rtranclp_induct) (blast intro: cluster_step_nack)+

lemma new_cluster_nack: "nack_ok (cl_routers (new_cluster session receivers) n)"
  by (simp add: new_cluster_def new_event_router_def nack_ok_def new_ordered_buffer_def)

section \<open>A request\<close>

abbreviation open_channels :: "EventRouter \<Rightarrow> nat" where
  "open_channels r \<equiv> length (filter ch_open (er_internal_outbound r))"

lemma asks_for_gap:
  assumes r: "router_rep m A evs r" and ok: "nack_ok r" and idle: "scope_idle r" and few: "er_nack_attempts r < 1024"
    and g: "claims_master m g" "sent_by_log evs g" "gf_origin_idx g > int (ob_released (er_buffer r))"
  shows "\<exists>r1 r2 r3. let j = length (er_nack_tasks r) in
    run_ext_in g r = Inr r1 \<and> nack_start j r1 = Inr r2 \<and> r3 = nack_finish j r2
    \<and> er_commands_sent r3 = er_commands_sent r @ [RequestEventLog (int (ob_released (er_buffer r)))]
    \<and> er_nack_tasks r3 = er_nack_tasks r \<and> er_internal_outbound r3 = er_internal_outbound r
    \<and> ob_released (er_buffer r3) = ob_released (er_buffer r)
    \<and> (\<forall>i. ob_held (er_buffer r3) i \<longleftrightarrow> ob_held (er_buffer r) i \<or> int i = gf_origin_idx g)"
proof -
  obtain i where i: "i < length evs" "gf_origin_idx g = int i" "gf_event g = evs ! i" using sent_index g(2) by blast
  have mine: "from_master g r" using r g(1) by (simp add: from_master_def claims_master_def router_rep_def)
  have buf: "buffered (nth evs) (er_buffer r)" using r by (simp add: router_rep_def)
  then have rel: "int (ob_released (er_buffer r)) = ob_next_idx_to_release (er_buffer r)" by (simp add: ob_released_def buffered_def)
  obtain b where b: "ingest (int i) (evs ! i) (er_buffer r) = Inr b"
      "ob_next_idx_to_release b = ob_next_idx_to_release (er_buffer r)" "\<forall>j. ob_held b j \<longleftrightarrow> ob_held (er_buffer r) j \<or> j = i"
    using ingest_buffered [OF buf, of i] by blast
  have "\<not> ob_held (er_buffer r) (ob_released (er_buffer r))" using ok rel by (simp add: ob_held_def nack_ok_def)
  then have "\<not> ob_held b (ob_released (er_buffer r))" using b(3) g(3) i(2) by simp
  then have "map_of (ob_store b) (ob_next_idx_to_release b) = None" using rel b(2) by (simp add: ob_held_def)
  then have d: "drain_indexed b = ([], b)" by (simp add: drain_indexed.simps)
  let ?r1 = "r\<lparr>er_buffer := b, er_out_for_delivery := AList.delete (ev_event_id (gf_event g)) (er_out_for_delivery r),
    er_nack_tasks := er_nack_tasks r @ [(None, ob_next_idx_to_release b)]\<rparr>"
  let ?j = "length (er_nack_tasks r)"
  let ?r2 = "?r1\<lparr>er_nack_tasks := er_nack_tasks r @ [(Some (er_scopes r), int (ob_released (er_buffer r)))],
    er_nack_cancel_scope := Some (er_scopes r), er_scopes := er_scopes r + 1, er_nack_attempts := er_nack_attempts r + 1\<rparr>"
  have "run_ext_in g r = Inr ?r1" using run_ext_in_waits [OF mine _ d] b(1) idle by (simp add: i)
  moreover have "nack_start ?j ?r1 = Inr ?r2"
    using few rel b(2) by (simp add: nack_start_def nack_delay_def rbind_def max_def)
  moreover have "er_scopes r \<notin> er_cancelled r" using ok by (auto simp: nack_ok_def)
  ultimately show ?thesis
    using b(2,3) i(2) by (intro exI [of _ ?r1] exI [of _ ?r2] exI [of _ "nack_finish ?j ?r2"])
      (simp add: nack_finish_def ob_released_def Let_def)
qed

section \<open>The answer\<close>

lemma answers:
  assumes "master_rep V A m raw M"
  shows "\<exists>M' xs. command_processor V (RequestEventLog (int k)) M = (Inr (), M') \<and> ma_global_sent M' = ma_global_sent M @ xs
    \<and> map gf_origin_idx xs = map int [k ..< min (k + nat (me_sync_batch_size V)) (length raw)]
    \<and> (\<forall>g \<in> set xs. sent_by_log (restamp V raw) g \<and> claims_master m g)"
proof -
  obtain l' xs where "replay V (int k) M = (Inr (), M\<lparr>ma_event_log := l', ma_global_sent := ma_global_sent M @ xs\<rparr>)"
    "\<forall>g \<in> set xs. sent_by_log (restamp V raw) g \<and> claims_master m g"
    "map gf_origin_idx xs = map int [k ..< min (k + nat (me_sync_batch_size V)) (length raw)]"
    using replay_sends [OF assms, of "int k"] by blast
  then show ?thesis by (simp add: command_processor_def sbind_def send_events_def)
qed

section \<open>The arrival of the answer\<close>

abbreviation run_all_in :: "EventRouter \<Rightarrow> GlobalForwarderEvent list \<Rightarrow> (runtime_error, EventRouter) res" where
  "run_all_in \<equiv> rfold (\<lambda>r g. run_ext_in g r)"

lemma receives:
  "router_rep m A evs r \<Longrightarrow> nack_ok r \<Longrightarrow> (\<forall>g \<in> set ys. claims_master m g \<longrightarrow> sent_by_log evs g) \<Longrightarrow>
    \<exists>r'. run_all_in r ys = Inr r' \<and> router_rep m A evs r' \<and> nack_ok r' \<and> open_channels r' = open_channels r
      \<and> (\<forall>i. ob_held (er_buffer r') i \<longleftrightarrow> ob_held (er_buffer r) i \<or> (\<exists>g \<in> set ys. claims_master m g \<and> int i = gf_origin_idx g))"
proof (induction ys arbitrary: r)
  case (Cons g ys)
  obtain r1 where r1: "run_ext_in g r = Inr r1" "router_rep m A evs r1" "open_channels r1 = open_channels r"
      "\<forall>j. ob_held (er_buffer r1) j \<longleftrightarrow> ob_held (er_buffer r) j \<or> claims_master m g \<and> int j = gf_origin_idx g"
    using run_ext_in_rep [OF Cons.prems(1), of g] Cons.prems(3) by auto
  from Cons.IH [OF r1(2) run_ext_in_nack [OF Cons.prems(2) r1(1)]] Cons.prems(3) obtain r' where
    "run_all_in r1 ys = Inr r'" "router_rep m A evs r'" "nack_ok r'" "open_channels r' = open_channels r1"
    "\<forall>i. ob_held (er_buffer r') i \<longleftrightarrow> ob_held (er_buffer r1) i \<or> (\<exists>g \<in> set ys. claims_master m g \<and> int i = gf_origin_idx g)"
    by auto
  then show ?case using r1 by (intro exI [of _ r']) auto
qed simp

text \<open>What a router has handed out, from what it holds.\<close>

lemma not_held_next:
  assumes r: "router_rep m A evs r" and ok: "nack_ok r"
  shows "\<not> ob_held (er_buffer r) (ob_released (er_buffer r))"
proof -
  have "buffered (nth evs) (er_buffer r)" using r by (simp add: router_rep_def)
  then have "int (ob_released (er_buffer r)) = ob_next_idx_to_release (er_buffer r)" by (simp add: ob_released_def buffered_def)
  then show ?thesis using ok by (simp add: ob_held_def nack_ok_def)
qed

lemma released_from_held:
  assumes r: "router_rep m A evs r" and ok: "nack_ok r" and held: "\<And>i. i < K \<Longrightarrow> ob_held (er_buffer r) i"
  shows "K \<le> ob_released (er_buffer r)" "ob_released (er_buffer r) \<le> length evs"
    "ch \<in> set (er_internal_outbound r) \<Longrightarrow> ch_open ch \<Longrightarrow> ch_sent ch = indexed_events (take (ob_released (er_buffer r)) evs)"
proof -
  have "\<not> ob_held (er_buffer r) (ob_released (er_buffer r))" by (rule not_held_next [OF r ok])
  then show "K \<le> ob_released (er_buffer r)" using held not_le by blast
  show "ob_released (er_buffer r) \<le> length evs" using r by (intro released_bound) (simp add: router_rep_def)
  show "ch_sent ch = indexed_events (take (ob_released (er_buffer r)) evs)"
    if "ch \<in> set (er_internal_outbound r)" "ch_open ch"
    using r that by (auto simp: router_rep_def channel_rep_def)
qed

lemma released_at:
  assumes "router_rep m A evs r" "nack_ok r" "\<And>i. i < K \<Longrightarrow> ob_held (er_buffer r) i" "\<not> ob_held (er_buffer r) K"
  shows "ob_released (er_buffer r) = K"
proof (rule antisym)
  show "K \<le> ob_released (er_buffer r)" by (rule released_from_held(1) [OF assms(1-3)])
  show "ob_released (er_buffer r) \<le> K" using assms(1,4) ordered_buffer.held by (metis leI router_rep_def)
qed

text \<open>An entry that comes in turn: it is handed out, and no request is made.\<close>

lemma receives_next:
  assumes r: "router_rep m A evs r" and ok: "nack_ok r" and g: "claims_master m g" "sent_by_log evs g"
    and turn: "gf_origin_idx g = int (ob_released (er_buffer r))"
  shows "\<exists>r'. run_ext_in g r = Inr r' \<and> er_nack_tasks r' = er_nack_tasks r \<and> er_commands_sent r' = er_commands_sent r"
proof -
  let ?k = "ob_released (er_buffer r)"
  have mine: "from_master g r" using r g(1) by (simp add: from_master_def claims_master_def router_rep_def)
  have buf: "buffered (nth evs) (er_buffer r)" using r by (simp add: router_rep_def)
  then have rel: "int ?k = ob_next_idx_to_release (er_buffer r)" by (simp add: ob_released_def buffered_def)
  have e: "gf_event g = evs ! ?k" using sent_index [OF g(2)] turn by auto
  obtain b where b: "ingest (int ?k) (evs ! ?k) (er_buffer r) = Inr b"
      "ob_next_idx_to_release b = ob_next_idx_to_release (er_buffer r)" "\<forall>j. ob_held b j \<longleftrightarrow> ob_held (er_buffer r) j \<or> j = ?k"
    using ingest_buffered [OF buf, of ?k] by blast
  have "map_of (ob_store b) (ob_next_idx_to_release b) \<noteq> None"
    using b(3) rel b(2) unfolding ob_held_def by (metis less_irrefl)
  then have "fst (drain_indexed b) \<noteq> []" by (auto simp: drain_indexed.simps split: prod.splits)
  then obtain drained b1 where d: "drain_indexed b = (drained, b1)" "drained \<noteq> []" by (metis prod.collapse)
  show ?thesis using run_ext_in_delivers [OF mine _ d] b(1) by (simp add: turn e)
qed

lemma receives_in_order:
  "router_rep m A evs r \<Longrightarrow> nack_ok r \<Longrightarrow> \<forall>g \<in> set xs. claims_master m g \<and> sent_by_log evs g \<Longrightarrow>
    (\<forall>j. ob_held (er_buffer r) j \<longleftrightarrow> j < k \<or> j = i) \<Longrightarrow> map gf_origin_idx xs = map int [k ..< k + length xs] \<Longrightarrow>
    k + length xs < i \<Longrightarrow>
    \<exists>r'. run_all_in r xs = Inr r' \<and> router_rep m A evs r' \<and> nack_ok r' \<and> (\<forall>j. ob_held (er_buffer r') j \<longleftrightarrow> j < k + length xs \<or> j = i)
      \<and> er_nack_tasks r' = er_nack_tasks r \<and> er_commands_sent r' = er_commands_sent r"
proof (induction xs arbitrary: r k)
  case (Cons g xs)
  have "[k ..< k + length (g # xs)] = k # [Suc k ..< Suc k + length xs]" using upt_conv_Cons [of k "k + length (g # xs)"] by simp
  then have g: "gf_origin_idx g = int k" "map gf_origin_idx xs = map int [Suc k ..< Suc k + length xs]"
    using Cons.prems(5) by (simp_all del: upt_Suc)
  have k: "ob_released (er_buffer r) = k" using Cons.prems(4,6) by (intro released_at [OF Cons.prems(1,2)]) auto
  obtain r1 where r1: "run_ext_in g r = Inr r1" "er_nack_tasks r1 = er_nack_tasks r" "er_commands_sent r1 = er_commands_sent r"
    using receives_next [OF Cons.prems(1,2), of g] Cons.prems(3) g(1) k by auto
  have rep1: "router_rep m A evs r1" and held1: "\<forall>j. ob_held (er_buffer r1) j \<longleftrightarrow> j < Suc k \<or> j = i"
    using run_ext_in_rep [OF Cons.prems(1), of g] Cons.prems(3,4) g(1) r1(1) by auto
  from Cons.IH [OF rep1 run_ext_in_nack [OF Cons.prems(2) r1(1)] _ held1 g(2)] Cons.prems(3,6) obtain r' where
    "run_all_in r1 xs = Inr r'" "router_rep m A evs r'" "nack_ok r'" "\<forall>j. ob_held (er_buffer r') j \<longleftrightarrow> j < Suc k + length xs \<or> j = i"
    "er_nack_tasks r' = er_nack_tasks r1" "er_commands_sent r' = er_commands_sent r1" by auto
  then show ?case using r1 by (intro exI [of _ r']) simp
qed simp

text \<open>A batch \<open>xs\<close> of the entries from \<open>k\<close> up to \<open>K\<close> arrives at a router that holds \<open>g\<close> already.\<close>

lemma batch_arrives:
  assumes r: "router_rep m A evs r" and ok: "nack_ok r"
    and xs: "map gf_origin_idx xs = map int [k ..< K]" "\<forall>g \<in> set xs. sent_by_log evs g \<and> claims_master m g"
    and ys: "set xs \<subseteq> set ys" "\<forall>g \<in> set ys. claims_master m g \<longrightarrow> sent_by_log evs g"
    and k: "ob_released (er_buffer r) = k" and g: "\<forall>i. int i = gf_origin_idx g \<longrightarrow> ob_held (er_buffer r) i"
  shows "\<exists>r'. run_all_in r ys = Inr r' \<and> open_channels r' = open_channels r
    \<and> (\<forall>ch \<in> set (er_internal_outbound r'). ch_open ch \<longrightarrow>
         (\<exists>K'. K \<le> K' \<and> K' \<le> length evs \<and> int K' \<noteq> gf_origin_idx g \<and> ch_sent ch = indexed_events (take K' evs)))"
proof -
  obtain r' where r': "run_all_in r ys = Inr r'" "router_rep m A evs r'" "nack_ok r'" "open_channels r' = open_channels r"
      "\<forall>i. ob_held (er_buffer r') i \<longleftrightarrow> ob_held (er_buffer r) i \<or> (\<exists>g \<in> set ys. claims_master m g \<and> int i = gf_origin_idx g)"
    using receives [OF r ok ys(2)] by blast
  have "ob_held (er_buffer r') i" if "i < K" for i
  proof (cases "i < k")
    case True
    then show ?thesis using r'(5) k r ordered_buffer.held by (metis router_rep_def)
  next
    case False
    then have "int i \<in> set (map gf_origin_idx xs)" using that by (simp add: xs(1))
    then show ?thesis using r'(5) xs(2) ys(1) by auto
  qed
  note rel = released_from_held [OF r'(2,3) this]
  have "int (ob_released (er_buffer r')) \<noteq> gf_origin_idx g"
    using g r'(5) not_held_next [OF r'(2,3)] by blast
  then show ?thesis using r'(1,4) rel by (intro exI [of _ r']) blast
qed

text \<open>It arrives in order, and ends before \<open>g\<close>.\<close>

lemma batch_stops:
  assumes r: "router_rep m A evs r" and ok: "nack_ok r"
    and xs: "map gf_origin_idx xs = map int [k ..< k + length xs]" "\<forall>g \<in> set xs. sent_by_log evs g \<and> claims_master m g"
    and held: "\<forall>j. ob_held (er_buffer r) j \<longleftrightarrow> j < k \<or> j = i" and i: "k + length xs < i"
  shows "\<exists>r'. run_all_in r xs = Inr r' \<and> ob_released (er_buffer r') = k + length xs \<and> ob_held (er_buffer r') i
    \<and> er_nack_tasks r' = er_nack_tasks r \<and> er_commands_sent r' = er_commands_sent r"
proof -
  obtain r' where r': "run_all_in r xs = Inr r'" "router_rep m A evs r'" "nack_ok r'"
      "\<forall>j. ob_held (er_buffer r') j \<longleftrightarrow> j < k + length xs \<or> j = i"
      "er_nack_tasks r' = er_nack_tasks r" "er_commands_sent r' = er_commands_sent r"
    using receives_in_order [OF r ok _ held xs(1) i] xs(2) by blast
  have "ob_released (er_buffer r') = k + length xs" using i by (intro released_at [OF r'(2,3)]) (auto simp: r'(4))
  then show ?thesis using r' by auto
qed

end
