(* ===== verification/ClusterTheorems.thy ===== *)
theory ClusterTheorems
  imports CatchUp
begin

text \<open>
  The properties of the cluster as a whole, with a small cluster to witness them: a master \<open>m\<close>, a
  node \<open>b\<close> that reports itself, and a packing of its events into bytes.
\<close>

section \<open>A small cluster\<close>

definition demo_report :: "string \<Rightarrow> Event" where
  "demo_report t = \<lparr>ev_event_id = ''i'', ev_event = NodeGatheredInfo ''b'' t NodeConfig\<rparr>"

definition demo_link :: Event where
  "demo_link = \<lparr>ev_event_id = ''j'', ev_event = OverlayPeerConnected ''b'' ''m''\<rparr>"

definition demo_ser :: "Event \<Rightarrow> byte list" where
  "demo_ser e = (case ev_event e of NodeGatheredInfo _ t _ \<Rightarrow> 1 # map (\<lambda>ch. word_of_nat (of_char ch)) t | _ \<Rightarrow> [])"

definition demo_des :: "byte list \<Rightarrow> (runtime_error, Event) res" where
  "demo_des bs = (case bs of [] \<Rightarrow> Inr demo_link | _ # t \<Rightarrow> Inr (demo_report (map (\<lambda>w. char_of (unat w)) t)))"

definition demo_V :: master_env where
  "demo_V = \<lparr>me_env = demo_env, me_ser = demo_ser, me_des = demo_des, me_now = (\<lambda>_. ''now''),
     me_fresh = (\<lambda>n. replicate n CHR ''x''), me_tracing = False, me_sync_batch_size = 1,
     me_place_instance = (\<lambda>_ _ _ _ _. Inl (RtValueError ''no placement''))\<rparr>"

definition demo_A :: "Event set" where
  "demo_A = insert demo_link (range demo_report)"

definition demo_session :: SessionId where
  "demo_session = \<lparr>ss_master_node_id = ''m'', ss_election_clock = 1\<rparr>"

lemma demo_lossless: "lossless demo_V demo_A"
proof -
  have "char_of (unat (word_of_nat (of_char ch) :: 8 word)) = ch" for ch by (simp add: unat_of_nat)
  then have "demo_des (demo_ser (demo_report t)) = Inr (demo_report t)" for t
    by (simp add: demo_des_def demo_ser_def demo_report_def comp_def)
  moreover have "stamp t (demo_report u) = demo_report t" for t u by (simp add: stamp_def demo_report_def)
  moreover have "stamp t demo_link = demo_link" "demo_des (demo_ser demo_link) = Inr demo_link" for t
    by (simp_all add: stamp_def demo_link_def demo_des_def demo_ser_def)
  ultimately show ?thesis by (auto simp: lossless_def demo_A_def demo_V_def)
qed

text \<open>The node publishes two events, the master indexes both, and only the second one arrives.\<close>

definition demo_router :: EventRouter where
  "demo_router = router_ingest 0 ''w'' demo_link (router_ingest 0 ''w'' (demo_report ''then'') (new_event_router demo_session 1))"

definition demo_c1 :: cluster where
  "demo_c1 = router_turn ''b'' (router_ingest 0 ''w'' (demo_report ''then'') (new_event_router demo_session 1)) (new_cluster demo_session 1)"

definition demo_c2 :: cluster where
  "demo_c2 = router_turn ''b'' demo_router demo_c1"

definition demo_le :: "nat \<Rightarrow> LocalForwarderEvent" where
  "demo_le i = er_external_sent demo_router ! i"

definition demo_c3 :: cluster where
  "demo_c3 = master_turn (event_processor demo_V (demo_le 1)) demo_c2"

definition demo_c4 :: cluster where
  "demo_c4 = master_turn (event_processor demo_V (demo_le 0)) demo_c3"

definition demo_log :: "Event list" where
  "demo_log = [demo_report ''now'', demo_link]"

lemma demo_steps: "cluster_steps demo_V demo_A (new_cluster demo_session 1) demo_c4"
proof -
  have r: "cl_routers demo_c1 ''b'' = router_ingest 0 ''w'' (demo_report ''then'') (new_event_router demo_session 1)"
    by (simp add: demo_c1_def router_turn_def)
  have "cluster_step demo_V demo_A (new_cluster demo_session 1) demo_c1"
    unfolding demo_c1_def using publish [of "demo_report ''then''" demo_A demo_V "new_cluster demo_session 1" "''b''" 0 "''w''"]
    by (simp add: demo_A_def new_cluster_def)
  moreover have "cluster_step demo_V demo_A demo_c1 demo_c2"
    unfolding demo_c2_def demo_router_def using publish [of demo_link demo_A demo_V demo_c1 "''b''" 0 "''w''"]
    by (simp add: demo_A_def r)
  moreover have loc: "demo_le 0 \<in> cl_local demo_c2" "demo_le 1 \<in> cl_local demo_c2" "cl_running demo_c2"
    by (simp_all add: demo_le_def demo_c2_def demo_c1_def router_turn_def demo_router_def router_ingest_def Let_def
        new_event_router_def new_cluster_def)
  then have "cluster_step demo_V demo_A demo_c2 demo_c3" unfolding demo_c3_def by (intro master_event)
  moreover have "cl_running demo_c3 \<and> demo_le 0 \<in> cl_local demo_c3"
  proof -
    have "fst (event_processor demo_V (demo_le 1) (cl_master demo_c2)) = Inr ()" by code_simp
    then show ?thesis using loc by (simp add: demo_c3_def master_turn_def split_beta)
  qed
  then have "cluster_step demo_V demo_A demo_c3 demo_c4" unfolding demo_c4_def by (intro master_event) auto
  ultimately show ?thesis by (meson converse_rtranclp_into_rtranclp rtranclp.rtrancl_refl)
qed

text \<open>One event indexed: the state moves on and the log grows by the stamped event.\<close>

lemma index_event_run:
  assumes "log_rep (me_ser V) (me_des V) evs (ma_event_log M)"
    and "apply_event (me_env V) (ma_state M) \<lparr>ie_idx = int (length evs), ie_event = e\<rparr> = Inr s"
    and "fits (me_ser V) (me_des V) (stamp (me_now V (int (length evs))) e)"
    and "\<nexists>t r ts. ev_event e = TracesCollected t r ts"
  shows "\<exists>M'. process_event V e M = (Inr (), M') \<and> ma_state M' = s \<and> ma_node_id M' = ma_node_id M \<and> ma_session_id M' = ma_session_id M
    \<and> ma_global_sent M' = ma_global_sent M @ [\<lparr>gf_origin_idx = int (length evs), gf_origin = ma_node_id M,
        gf_session = ma_session_id M, gf_event = stamp (me_now V (int (length evs))) e\<rparr>]
    \<and> log_rep (me_ser V) (me_des V) (evs @ [stamp (me_now V (int (length evs))) e]) (ma_event_log M')"
proof -
  obtain l' where l': "log_append (me_ser V) (stamp (me_now V (int (length evs))) e) (ma_event_log M) = Inr l'"
    "log_rep (me_ser V) (me_des V) (evs @ [stamp (me_now V (int (length evs))) e]) l'"
    using log_rep_append [OF assms(1,3)] by blast
  have "process_event V e M = index_event V e M" using assms(4) by (auto simp: process_event_def split: event_kind.splits)
  then show ?thesis using assms(2) l' disk_log.len [OF assms(1)] by (simp add: index_event_def Let_def send_event_def)
qed

definition demo_s1 :: State where
  "demo_s1 = projr (apply_event demo_env new_state \<lparr>ie_idx = 0, ie_event = demo_report ''then''\<rparr>)"

definition demo_s2 :: State where
  "demo_s2 = projr (apply_event demo_env demo_s1 \<lparr>ie_idx = 1, ie_event = demo_link\<rparr>)"

lemma demo_applies:
  "apply_event demo_env new_state \<lparr>ie_idx = 0, ie_event = demo_report ''then''\<rparr> = Inr demo_s1"
  "apply_event demo_env demo_s1 \<lparr>ie_idx = 1, ie_event = demo_link\<rparr> = Inr demo_s2"
proof -
  have "\<not> isl (apply_event demo_env new_state \<lparr>ie_idx = 0, ie_event = demo_report ''then''\<rparr>)"
    "\<not> isl (apply_event demo_env demo_s1 \<lparr>ie_idx = 1, ie_event = demo_link\<rparr>)" by code_simp+
  then show "apply_event demo_env new_state \<lparr>ie_idx = 0, ie_event = demo_report ''then''\<rparr> = Inr demo_s1"
    "apply_event demo_env demo_s1 \<lparr>ie_idx = 1, ie_event = demo_link\<rparr> = Inr demo_s2"
    unfolding demo_s1_def demo_s2_def by (metis sum.collapse(2))+
qed

lemma demo_master: "\<exists>M. event_processor demo_V (demo_le 0) (cl_master demo_c3) = (Inr (), M) \<and> ma_state M = demo_s2
  \<and> log_rep demo_ser demo_des demo_log (ma_event_log M) \<and> ma_global_sent (cl_master demo_c3) = []
  \<and> (\<forall>i \<in> {0, 1}. \<exists>h \<in> set (ma_global_sent M). gf_origin_idx h = i \<and> claims_master ''m'' h)"
proof -
  let ?b = "[(''w'', \<lparr>ob_store = [(1, demo_link)], ob_next_idx_to_release = 0\<rparr>)]"
  let ?b2 = "[(''w'', \<lparr>ob_store = [], ob_next_idx_to_release = 2\<rparr>)]"
  have c3: "cl_master demo_c3 = (new_master ''m'' demo_session)\<lparr>ma_multi_buffer := ?b\<rparr>"
  proof -
    have "cl_master demo_c2 = new_master ''m'' demo_session"
      by (simp add: demo_c2_def demo_c1_def router_turn_def new_cluster_def demo_session_def)
    moreover have "event_processor demo_V (demo_le 1) (new_master ''m'' demo_session)
        = (Inr (), (new_master ''m'' demo_session)\<lparr>ma_multi_buffer := ?b\<rparr>)" by code_simp
    ultimately show ?thesis by (simp add: demo_c3_def master_turn_def)
  qed
  let ?M = "(new_master ''m'' demo_session)\<lparr>ma_multi_buffer := ?b2\<rparr>"
  have "(case multi_ingest (lf_origin_idx (demo_le 0)) (lf_event (demo_le 0)) (lf_origin (demo_le 0)) ?b of
      Inl e \<Rightarrow> ([], []) | Inr b \<Rightarrow> multi_drain b) = ([demo_report ''then'', demo_link], ?b2)" by code_simp
  then obtain b where "multi_ingest (lf_origin_idx (demo_le 0)) (lf_event (demo_le 0)) (lf_origin (demo_le 0)) ?b = Inr b"
    "multi_drain b = ([demo_report ''then'', demo_link], ?b2)" by (auto split: sum.splits)
  moreover have "lf_session (demo_le 0) = demo_session"
    by (simp add: demo_le_def demo_router_def router_ingest_def Let_def new_event_router_def)
  ultimately have proc: "event_processor demo_V (demo_le 0) (cl_master demo_c3)
      = process_events demo_V [demo_report ''then'', demo_link] ?M"
    by (simp add: event_processor_def c3 new_master_def)
  have stamps: "stamp t (demo_report u) = demo_report t" "stamp t demo_link = demo_link" for t u
    by (simp_all add: stamp_def demo_report_def demo_link_def)
  have "demo_des (demo_ser (demo_report ''now'')) = Inr (demo_report ''now'')" "demo_des (demo_ser demo_link) = Inr demo_link"
    using demo_lossless [unfolded lossless_def, rule_format, of "demo_report ''then''" "''now''"]
      demo_lossless [unfolded lossless_def, rule_format, of demo_link "[]"] by (simp_all add: demo_A_def demo_V_def stamps)
  then have fits: "fits demo_ser demo_des (demo_report ''now'')" "fits demo_ser demo_des demo_link"
    by (simp_all add: fits_def packable_def) (simp_all add: demo_ser_def demo_report_def demo_link_def)
  obtain M1 where M1: "process_event demo_V (demo_report ''then'') ?M = (Inr (), M1)" "ma_state M1 = demo_s1"
      "ma_node_id M1 = ''m'' \<and> ma_session_id M1 = demo_session"
      "log_rep demo_ser demo_des [demo_report ''now''] (ma_event_log M1)" "\<exists>h \<in> set (ma_global_sent M1). gf_origin_idx h = 0 \<and> claims_master ''m'' h"
    using index_event_run [of demo_V "[]" ?M "demo_report ''then''" demo_s1] log_rep_new [of demo_ser demo_des] demo_applies(1) fits(1)
    by (auto simp: demo_V_def new_master_def stamps claims_master_def demo_session_def) (auto simp: demo_report_def)
  obtain M2 where M2: "process_event demo_V demo_link M1 = (Inr (), M2)" "ma_state M2 = demo_s2"
      "log_rep demo_ser demo_des demo_log (ma_event_log M2)" "\<exists>h \<in> set (ma_global_sent M2). gf_origin_idx h = 1 \<and> claims_master ''m'' h"
      "set (ma_global_sent M1) \<subseteq> set (ma_global_sent M2)"
    using index_event_run [of demo_V "[demo_report ''now'']" M1 demo_link demo_s2] M1(2-4) demo_applies(2) fits(2)
    by (auto simp: demo_V_def stamps demo_log_def claims_master_def demo_session_def) (auto simp: demo_link_def subset_insertI)
  have "ma_global_sent (cl_master demo_c3) = []" by (simp add: c3 new_master_def)
  then show ?thesis using M1 M2 by (auto simp: proc)
qed

lemma demo_c4:
  "read_all (me_des demo_V) (ma_event_log (cl_master demo_c4)) = Inr demo_log" "cl_running demo_c4"
  "ma_state (cl_master demo_c4) = demo_s2" "dl_count (ma_event_log (cl_master demo_c4)) = 2"
  "\<exists>h \<in> cl_global demo_c4. gf_origin_idx h = 0 \<and> claims_master ''m'' h"
  "\<exists>h \<in> cl_global demo_c4. gf_origin_idx h = 1 \<and> claims_master ''m'' h"
  using demo_master log_rep_read_all [of demo_ser demo_des demo_log] disk_log.len [of demo_ser demo_des demo_log]
  by (auto simp: demo_c4_def master_turn_def demo_V_def demo_log_def)

lemma receives_steps:
  "set ys \<subseteq> cl_global c \<Longrightarrow> run_all_in (cl_routers c n) ys = Inr r \<Longrightarrow>
    \<exists>c'. cluster_steps V A c c' \<and> cl_master c' = cl_master c \<and> cl_running c' = cl_running c \<and> cl_routers c' n = r"
proof (induction ys arbitrary: c)
  case (Cons g ys)
  then obtain r1 where r1: "run_ext_in g (cl_routers c n) = Inr r1" "run_all_in r1 ys = Inr r" by (auto simp: rbind_Inr_iff)
  let ?c = "router_turn n r1 c"
  have c: "cl_master ?c = cl_master c" "cl_running ?c = cl_running c" "cl_routers ?c n = r1" "cl_global ?c = cl_global c"
    by (simp_all add: router_turn_def)
  then obtain c' where "cluster_steps V A ?c c'" "cl_master c' = cl_master c" "cl_running c' = cl_running c" "cl_routers c' n = r"
    using Cons.IH [of ?c] Cons.prems(1) r1(2) by auto
  moreover have "cluster_step V A c ?c" using r1(1) Cons.prems(1) by (intro receive) simp_all
  ultimately show ?case using converse_rtranclp_into_rtranclp [of "cluster_step V A" c ?c] by blast
qed auto

lemma demo_c5:
  "\<exists>c. cluster_steps demo_V demo_A demo_c4 c \<and> cl_master c = cl_master demo_c4 \<and> cl_running c
    \<and> (\<exists>ch \<in> set (er_internal_outbound (cl_routers c ''b'')). ch_sent ch = indexed_events demo_log)"
proof -
  let ?r = "cl_routers demo_c4 ''b''"
  obtain h0 h1 where h: "h0 \<in> cl_global demo_c4" "gf_origin_idx h0 = 0" "claims_master ''m'' h0"
      "h1 \<in> cl_global demo_c4" "gf_origin_idx h1 = 1" "claims_master ''m'' h1" using demo_c4(5,6) by blast
  obtain raw where rep: "cluster_rep demo_V demo_A ''m'' raw demo_c4"
    using cluster_steps_rep [OF demo_steps demo_lossless] by (auto simp: demo_session_def)
  then have log: "restamp demo_V raw = demo_log"
    using demo_c4(1) log_rep_read_all by (fastforce simp: cluster_rep_def master_rep_def)
  have r: "router_rep ''m'' demo_A demo_log ?r" and glob: "\<forall>g \<in> cl_global demo_c4. claims_master ''m'' g \<longrightarrow> sent_by_log demo_log g"
    using rep by (simp_all add: cluster_rep_def log)
  have ok: "nack_ok ?r" by (rule cluster_steps_nack [OF demo_steps new_cluster_nack])
  obtain r' where r': "run_all_in ?r [h0, h1] = Inr r'" "router_rep ''m'' demo_A demo_log r'" "nack_ok r'" "open_channels r' = open_channels ?r"
      "\<forall>i. ob_held (er_buffer r') i \<longleftrightarrow> ob_held (er_buffer ?r) i \<or> (\<exists>g \<in> set [h0, h1]. claims_master ''m'' g \<and> int i = gf_origin_idx g)"
    using receives [OF r ok, of "[h0, h1]"] glob h by auto
  have "\<And>i. i < 2 \<Longrightarrow> ob_held (er_buffer r') i" using r'(5) h by (auto simp: less_Suc_eq numeral_2_eq_2)
  from released_from_held [OF r'(2,3) this, where K = 2] have "ob_released (er_buffer r') = length demo_log"
    and full: "\<And>ch. ch \<in> set (er_internal_outbound r') \<Longrightarrow> ch_open ch \<Longrightarrow> ch_sent ch = indexed_events demo_log"
    by (auto simp: demo_log_def)
  moreover have "open_channels ?r = 1"
    by (simp add: demo_c4_def demo_c3_def demo_c2_def master_turn_def router_turn_def split_beta demo_router_def
        router_ingest_def Let_def new_event_router_def)
  then have "filter ch_open (er_internal_outbound r') \<noteq> []" using r'(4) by auto
  then obtain ch where "ch \<in> set (er_internal_outbound r')" "ch_open ch" by (auto simp: filter_empty_conv)
  moreover obtain c where "cluster_steps demo_V demo_A demo_c4 c" "cl_master c = cl_master demo_c4" "cl_running c" "cl_routers c ''b'' = r'"
    using receives_steps [of "[h0, h1]" demo_c4 "''b''" r' demo_V demo_A] r'(1) h(1,4) demo_c4(2) by auto
  ultimately show ?thesis by auto
qed

section \<open>Properties\<close>

lemma router_channel:
  "router_rep m A evs r \<Longrightarrow> ch \<in> set (er_internal_outbound r) \<Longrightarrow> channel_rep evs (ob_released (er_buffer r)) ch"
  by (simp add: router_rep_def)

text \<open>
  C8. Every node follows the log of the master. In every state the cluster can reach, with messages
  lost, repeated and reordered at will and messages of other masters in between, the log file of
  the master can be read back, what a router has handed to a channel of its node is a prefix of
  that log under consecutive indices, and no message under way makes a router fail. Nodes that
  apply what they are handed therefore go through the same states.
\<close>

theorem replicas_follow_log:
  assumes "lossless V A" and "cluster_steps V A (new_cluster session receivers) c"
  shows "\<exists>evs. read_all (me_des V) (ma_event_log (cl_master c)) = Inr evs
    \<and> (\<forall>n. \<forall>ch \<in> set (er_internal_outbound (cl_routers c n)). \<exists>k \<le> length evs. ch_sent ch = indexed_events (take k evs))
    \<and> (\<forall>n. \<forall>g \<in> cl_global c. \<exists>r. run_ext_in g (cl_routers c n) = Inr r)"
proof -
  let ?m = "ss_master_node_id session"
  obtain raw where rep: "cluster_rep V A ?m raw c" using cluster_steps_rep [OF assms(2,1)] by blast
  have log: "read_all (me_des V) (ma_event_log (cl_master c)) = Inr (restamp V raw)"
    using rep log_rep_read_all by (auto simp: cluster_rep_def master_rep_def)
  have r: "router_rep ?m A (restamp V raw) (cl_routers c n)" for n using rep by (simp add: cluster_rep_def)
  have "\<exists>k \<le> length (restamp V raw). ch_sent ch = indexed_events (take k (restamp V raw))"
    if "ch \<in> set (er_internal_outbound (cl_routers c n))" for n ch
  proof -
    have "ob_released (er_buffer (cl_routers c n)) \<le> length (restamp V raw)"
      using r [of n] by (intro released_bound) (simp add: router_rep_def)
    moreover have "channel_rep (restamp V raw) (ob_released (er_buffer (cl_routers c n))) ch" by (rule router_channel [OF r that])
    ultimately show ?thesis by (meson channel_rep_def order_trans)
  qed
  moreover have "\<exists>r. run_ext_in g (cl_routers c n) = Inr r" if "g \<in> cl_global c" for g n
    using run_ext_in_rep [OF r, of g n] rep that by (auto simp: cluster_rep_def)
  ultimately show ?thesis using log by blast
qed

theorem replicas_follow_log_witness:
  "\<exists>ch. er_internal_outbound (cl_routers demo_c4 ''b'') = [ch] \<and> (\<exists>k \<le> 2. ch_sent ch = indexed_events (take k demo_log))"
proof -
  have "er_internal_outbound (cl_routers demo_c4 ''b'') = er_internal_outbound demo_router"
    by (simp add: demo_c4_def demo_c3_def demo_c2_def master_turn_def router_turn_def split_beta)
  moreover have "\<exists>ch. er_internal_outbound demo_router = [ch]"
    by (simp add: demo_router_def router_ingest_def Let_def new_event_router_def)
  moreover have "length demo_log = 2" by (simp add: demo_log_def)
  moreover obtain evs where "read_all (me_des demo_V) (ma_event_log (cl_master demo_c4)) = Inr evs"
    "\<forall>ch \<in> set (er_internal_outbound (cl_routers demo_c4 ''b'')). \<exists>k \<le> length evs. ch_sent ch = indexed_events (take k evs)"
    using replicas_follow_log [OF demo_lossless demo_steps] by blast
  ultimately show ?thesis using demo_c4(1) by auto
qed



text \<open>
  C10. A node that was handed the log has the state of the master. Whatever part of the log a channel
  of any node was handed, applying it to the initial state raises nothing, in a process of its own, whose set
  order and cycle search differ from the master's; and a node that was handed the whole log
  arrives at the state of a running master, up to two things: \<open>last_seen\<close> has the same nodes
  but the times the master stamped, whereas the master keeps the times the nodes reported, and the
  Thunderbolt cycles are those this process finds. Both run the same version of the graph
  library, which hands out the same indices for the same calls.
\<close>

theorem replica_equals_master:
  assumes "lossless V A" and "cluster_steps V A (new_cluster session receivers) c" and "cl_running c"
    and "\<forall>i. re_fromisoformat (me_env V) (me_now V i) \<noteq> None"
    and ord: "set_order_ok (re_set_order (me_env V))" "set_order_ok order"
    and ch: "ch \<in> set (er_internal_outbound (cl_routers c n))"
  shows "\<exists>s. rfold (apply_event (other_process cycles order (me_env V))) new_state (ch_sent ch) = Inr s
    \<and> (length (ch_sent ch) = dl_count (ma_event_log (cl_master c)) \<longrightarrow>
        s\<lparr>st_last_seen := st_last_seen (ma_state (cl_master c)),
          st_thunderbolt_bridge_cycles := st_thunderbolt_bridge_cycles (ma_state (cl_master c))\<rparr> = ma_state (cl_master c)
        \<and> map fst (st_last_seen s) = map fst (st_last_seen (ma_state (cl_master c))))"
proof -
  obtain raw where rep: "cluster_rep V A (ss_master_node_id session) raw c" using cluster_steps_rep [OF assms(2,1)] by blast
  have count: "dl_count (ma_event_log (cl_master c)) = length raw"
    using rep disk_log.len by (metis cluster_rep_def length_restamp master_rep_def)
  have "router_rep (ss_master_node_id session) A (restamp V raw) (cl_routers c n)" using rep by (simp add: cluster_rep_def)
  from router_channel [OF this ch] obtain k where k: "ch_sent ch = indexed_events (take k (restamp V raw))"
    by (auto simp: channel_rep_def)
  have app: "rfold (apply_event (me_env V)) new_state (indexed_events raw) = Inr (ma_state (cl_master c))"
    using rep assms(3) by (simp add: cluster_rep_def master_applied_def)
  have "indexed_events raw = indexed_events (take k raw) @ drop k (indexed_events raw)" by (simp add: take_indexed [symmetric])
  then obtain s0 where "rfold (apply_event (me_env V)) new_state (indexed_events (take k raw)) = Inr s0"
    using app by (metis rbind_Inr_iff rfold_append)
  from restamped_alike [OF ord assms(4) this, of cycles] obtain s where
    s: "rfold (apply_event (other_process cycles order (me_env V))) new_state (ch_sent ch) = Inr s" by (auto simp: k take_restamp)
  moreover have "s\<lparr>st_last_seen := st_last_seen (ma_state (cl_master c)),
          st_thunderbolt_bridge_cycles := st_thunderbolt_bridge_cycles (ma_state (cl_master c))\<rparr> = ma_state (cl_master c)
        \<and> map fst (st_last_seen s) = map fst (st_last_seen (ma_state (cl_master c)))"
    if "length (ch_sent ch) = dl_count (ma_event_log (cl_master c))"
  proof -
    have "ch_sent ch = indexed_events (restamp V raw)" using that by (simp add: k count indexed_events_def)
    with restamped_alike [OF ord assms(4) app, of cycles] s have "seen_alike (ma_state (cl_master c)) s" by auto
    then show ?thesis by (auto simp: seen_alike_def)
  qed
  ultimately show ?thesis by blast
qed

lemma demo_V_env: "me_env demo_V = demo_env"
  by (simp add: demo_V_def)

text \<open>The node has received both events, and iterates its sets in the opposite order.\<close>

theorem replica_equals_master_witness:
  "\<exists>c ch s. cluster_steps demo_V demo_A (new_cluster demo_session 1) c \<and> ch \<in> set (er_internal_outbound (cl_routers c ''b''))
    \<and> ch_sent ch = indexed_events demo_log
    \<and> rfold (apply_event (other_process (\<lambda>_. []) (\<lambda>X. rev (sorted_list_of_set X)) demo_env)) new_state (ch_sent ch) = Inr s
    \<and> s\<lparr>st_last_seen := st_last_seen demo_s2, st_thunderbolt_bridge_cycles := st_thunderbolt_bridge_cycles demo_s2\<rparr> = demo_s2"
proof -
  obtain c where c: "cluster_steps demo_V demo_A demo_c4 c" "cl_master c = cl_master demo_c4" "cl_running c"
      "\<exists>ch \<in> set (er_internal_outbound (cl_routers c ''b'')). ch_sent ch = indexed_events demo_log" using demo_c5 by blast
  then obtain ch where ch: "ch \<in> set (er_internal_outbound (cl_routers c ''b''))" "ch_sent ch = indexed_events demo_log" by auto
  have steps: "cluster_steps demo_V demo_A (new_cluster demo_session 1) c" using demo_steps c(1) by (rule rtranclp_trans)
  have laws: "\<forall>i. re_fromisoformat (me_env demo_V) (me_now demo_V i) \<noteq> None" "set_order_ok (re_set_order (me_env demo_V))"
      "set_order_ok (\<lambda>X. rev (sorted_list_of_set X))"
    by (simp_all add: demo_V_def demo_env_def set_order_ok_def)
  have "length (ch_sent ch) = dl_count (ma_event_log (cl_master c))"
    by (simp add: c(2) demo_c4(4) ch(2) indexed_events_def demo_log_def)
  with replica_equals_master [OF demo_lossless steps c(3) laws ch(1), of "\<lambda>_. []"] show ?thesis
    using steps ch unfolding c(2) demo_c4(3) demo_V_env by blast
qed

text \<open>
  C11. The master dates a node by the node's own clock. When it indexes a report it applies the event
  before it stamps it: its own \<open>last_seen\<close>, which decides about timing the node out, holds the time
  the node wrote, while the log and every replica get the time of the master.
\<close>

theorem master_trusts_node_clock:
  assumes "index_event V e M = (Inr (), M')" and "ev_event e = NodeGatheredInfo x stamp0 info"
  shows "map_of (st_last_seen (ma_state M')) x = re_fromisoformat (me_env V) stamp0
    \<and> ev_event (gf_event (last (ma_global_sent M'))) = NodeGatheredInfo x (me_now V (int (dl_count (ma_event_log M)))) info
    \<and> log_append (me_ser V) (gf_event (last (ma_global_sent M'))) (ma_event_log M) = Inr (ma_event_log M')"
proof -
  let ?i = "int (dl_count (ma_event_log M))"
  obtain s where s: "apply_event (me_env V) (ma_state M) \<lparr>ie_idx = ?i, ie_event = e\<rparr> = Inr s" and M': "ma_state M' = s"
    and sent: "gf_event (last (ma_global_sent M')) = stamp (me_now V ?i) e"
    and logged: "log_append (me_ser V) (stamp (me_now V ?i) e) (ma_event_log M) = Inr (ma_event_log M')"
    using assms(1) by (auto simp: index_event_def Let_def send_event_def split: sum.splits)
  obtain time s1 where "re_fromisoformat (me_env V) stamp0 = Some time"
    and "gathered (me_env V) x info ((ma_state M)\<lparr>st_last_seen := AList.update x time (st_last_seen (ma_state M)),
      st_topology := add_node (re_rx (me_env V)) x (st_topology (ma_state M))\<rparr>) = Inr s1" "s = s1\<lparr>st_last_event_applied_idx := ?i\<rparr>"
    using s assms(2) by (auto simp: apply_event_def apply_node_gathered_info_def rbind_Inr_iff split: option.splits if_splits)
  then show ?thesis
    using gathered_keeps_last_seen sent logged assms(2) by (force simp: M' update_conv' stamp_def)
qed

theorem master_trusts_node_clock_witness:
  "\<exists>M. index_event demo_V (demo_report ''then'') (new_master ''m'' demo_session) = (Inr (), M)
    \<and> map_of (st_last_seen (ma_state M)) ''b'' = Some (Aware 4)
    \<and> ev_event (gf_event (last (ma_global_sent M))) = NodeGatheredInfo ''b'' ''now'' NodeConfig"
proof -
  let ?M = "new_master ''m'' demo_session"
  have "fits demo_ser demo_des (demo_report ''now'')"
    using demo_lossless [unfolded lossless_def, rule_format, of "demo_report ''then''" "''now''"]
    by (simp add: demo_A_def demo_V_def stamp_def demo_report_def fits_def packable_def) (simp add: demo_ser_def)
  then obtain M where M: "process_event demo_V (demo_report ''then'') ?M = (Inr (), M)"
    using index_event_run [of demo_V "[]" ?M "demo_report ''then''" demo_s1] log_rep_new [of demo_ser demo_des] demo_applies(1)
    by (auto simp: demo_V_def new_master_def stamp_def demo_report_def)
  then have "index_event demo_V (demo_report ''then'') ?M = (Inr (), M)" by (simp add: process_event_def demo_report_def)
  then show ?thesis
    using master_trusts_node_clock [of demo_V "demo_report ''then''" ?M M "''b''" "''then''" NodeConfig]
    by (simp add: demo_report_def demo_V_def demo_env_def)
qed

text \<open>
  C12. The router does not tell the sessions of one master apart: only the master's node id is
  compared, not the election clock. A message of an earlier session of the same master is handed
  to the node as if it belonged to the current one, and if it comes before its namesake of the
  current session the router fails with an assertion.
\<close>

theorem router_mixes_sessions:
  assumes "ss_master_node_id old = m" and "ss_master_node_id session = m" and "0 < i" and "e \<noteq> e'"
  shows "rbind (run_ext_in \<lparr>gf_origin_idx = i, gf_origin = m, gf_session = old, gf_event = e\<rparr> (new_event_router session k))
      (run_ext_in \<lparr>gf_origin_idx = i, gf_origin = m, gf_session = session, gf_event = e'\<rparr>) = Inl AssertionError
    \<and> rbind (run_ext_in \<lparr>gf_origin_idx = 0, gf_origin = m, gf_session = old, gf_event = e\<rparr> (new_event_router session k))
      (\<lambda>r. Inr (map ch_sent (er_internal_outbound r))) = Inr (replicate k [\<lparr>ie_idx = 0, ie_event = e\<rparr>])"
proof -
  have "drain_indexed \<lparr>ob_store = [(0, e)], ob_next_idx_to_release = 0\<rparr> = ([(0, e)], \<lparr>ob_store = [], ob_next_idx_to_release = 1\<rparr>)"
    by (subst drain_indexed.simps, simp add: release_def, subst drain_indexed.simps) simp
  moreover have "drain_indexed \<lparr>ob_store = [(i, e)], ob_next_idx_to_release = 0\<rparr> = ([], \<lparr>ob_store = [(i, e)], ob_next_idx_to_release = 0\<rparr>)"
    using assms(3) by (subst drain_indexed.simps) simp
  ultimately show ?thesis
    using assms by (simp add: run_ext_in_def from_master_def new_event_router_def new_ordered_buffer_def ingest_def Let_def
        deliver_def map_replicate_const comp_def)
qed

theorem router_mixes_sessions_witness:
  "rbind (run_ext_in \<lparr>gf_origin_idx = 1, gf_origin = ''m'', gf_session = \<lparr>ss_master_node_id = ''m'', ss_election_clock = 1\<rparr>,
      gf_event = demo_link\<rparr> (new_event_router \<lparr>ss_master_node_id = ''m'', ss_election_clock = 2\<rparr> 1))
    (run_ext_in \<lparr>gf_origin_idx = 1, gf_origin = ''m'', gf_session = \<lparr>ss_master_node_id = ''m'', ss_election_clock = 2\<rparr>,
      gf_event = demo_report ''t''\<rparr>) = Inl AssertionError"
  using router_mixes_sessions [of "\<lparr>ss_master_node_id = ''m'', ss_election_clock = 1\<rparr>" "''m''"
      "\<lparr>ss_master_node_id = ''m'', ss_election_clock = 2\<rparr>" 1 demo_link "demo_report ''t''" 1]
  by (simp add: demo_link_def demo_report_def)

section \<open>Further behaviour\<close>

text \<open>
  A report with a time that has no time zone stops the master: the entry stays in \<open>last_seen\<close> and the
  next round of the plan loop raises \<open>TypeError\<close>.
\<close>

lemma time_out_nodes_raises:
  "(x, Naive t) \<in> set entries \<Longrightarrow> x \<noteq> ma_node_id M \<Longrightarrow> fst (time_out_nodes V now direct entries M) = Inl RtTypeError"
proof (induction V now direct entries M rule: time_out_nodes.induct)
  case (2 V now direct node time rest M)
  have "ma_node_id (send_events V [NodeTimedOut node] M) = ma_node_id M" by (simp add: send_events_def)
  then show ?case using 2 by (auto split: datetime.splits)
qed simp

theorem naive_time_stops_master:
  assumes "index_event V e M = (Inr (), M')" and "ev_event e = NodeGatheredInfo x when info"
    and "re_fromisoformat (me_env V) when = Some (Naive t)" and "x \<noteq> ma_node_id M"
  shows "fst (plan_once V now M') = Inl RtTypeError"
proof -
  obtain s1 where "ma_state M' = s1\<lparr>st_last_event_applied_idx := int (dl_count (ma_event_log M))\<rparr>" "ma_node_id M' = ma_node_id M"
    "gathered (me_env V) x info ((ma_state M)\<lparr>st_last_seen := AList.update x (Naive t) (st_last_seen (ma_state M)),
      st_topology := add_node (re_rx (me_env V)) x (st_topology (ma_state M))\<rparr>) = Inr s1"
    using assms(1-3) by (auto simp: index_event_def Let_def send_event_def apply_event_def apply_node_gathered_info_def rbind_Inr_iff
        split: sum.splits if_splits)
  then have "map_of (st_last_seen (ma_state M')) x = Some (Naive t)" "ma_node_id M' = ma_node_id M"
    using gathered_keeps_last_seen by (force simp: update_conv')+
  then have "(x, Naive t) \<in> set (st_last_seen (ma_state M'))" by (simp add: map_of_SomeD)
  then show ?thesis
    using assms(4) \<open>ma_node_id M' = ma_node_id M\<close>
    by (simp add: plan_once_def sbind_def time_out_dead_nodes_def kill_broken_instances_def send_events_def time_out_nodes_raises)
qed

text \<open>
  An event that comes back while a pass of \<open>_simple_retry\<close> is under way, before the pass has
  reached it, is put back into the table of events out for delivery and sent again, though it is already
  indexed; the master drops it as old, so nothing takes it out of the table again but a replay.
\<close>

theorem late_retry_revives_event:
  assumes "er_retrying r = (ev_event_id (gf_event g), time, f) # rest" and "time + 5 < now"
    and "from_master g r" and "run_ext_in g r = Inr r1"
  shows "map_of (er_out_for_delivery r1) (ev_event_id (gf_event g)) = None
    \<and> map_of (er_out_for_delivery (retry_next now r1)) (ev_event_id (gf_event g)) = Some (now, f)
    \<and> er_external_sent (retry_next now r1) = er_external_sent r @ [f]"
proof -
  have "er_retrying r1 = er_retrying r" "er_external_sent r1 = er_external_sent r"
    "er_out_for_delivery r1 = AList.delete (ev_event_id (gf_event g)) (er_out_for_delivery r)"
    using assms(4)
  proof (atomize (full), cases rule: run_ext_in_cases)
    case (2 b drained b1)
    then show "er_retrying r1 = er_retrying r \<and> er_external_sent r1 = er_external_sent r
        \<and> er_out_for_delivery r1 = AList.delete (ev_event_id (gf_event g)) (er_out_for_delivery r)"
      using run_ext_in_waits [OF 2(1,2)] run_ext_in_delivers [OF 2] assms(4) by (cases "drained = []") auto
  qed (use assms(3) in simp)
  then show ?thesis using assms(1,2) by (simp add: retry_next_def update_conv' delete_conv')
qed

end
