(* ===== verification/Election.thy ===== *)
theory Election
  imports Master
begin

text \<open>
  The election of the master (\<open>cai/src/cai/shared/election.py\<close>). Every node runs one
  \<open>Election\<close>. A round (\<open>_campaign\<close>) broadcasts the status of the node, sleeps while the statuses
  of the others are collected, and elects the greatest message.

  The candidate lists are Python lists that a campaign shares with \<open>self._candidates\<close>, so the
  state holds a heap of lists and both hold an index into it. A campaign is a task that gives
  way at every \<open>await\<close>: it is started (\<open>Queued\<close>), may wait for the campaign before it
  (\<open>Waiting\<close>), sleeps after its broadcast (\<open>Sleeping\<close>), gives way once more after the second
  broadcast (\<open>Closing\<close>), and ends. One number names the cancel scope and the \<open>done\<close> event of a
  campaign. How long a sleep lasts is left open: any task may go on at any time. The flags read
  from the environment are the record \<open>election_env\<close>; shutting down is not modelled.
\<close>

section \<open>Messages\<close>

record ElectionMessage =
  em_clock :: int
  em_seniority :: int
  em_proposed_session :: SessionId
  em_commands_seen :: int

definition em_less :: "ElectionMessage \<Rightarrow> ElectionMessage \<Rightarrow> bool" where
  "em_less a b =
    (if em_clock a \<noteq> em_clock b then em_clock a < em_clock b
     else if em_seniority a \<noteq> em_seniority b then em_seniority a < em_seniority b
     else if em_commands_seen a \<noteq> em_commands_seen b then em_commands_seen a < em_commands_seen b
     else ss_master_node_id (em_proposed_session a) < ss_master_node_id (em_proposed_session b))"

text \<open>\<open>max\<close> of a list: the first of the greatest ones.\<close>

definition max_candidate :: "ElectionMessage list \<Rightarrow> (runtime_error, ElectionMessage) res" where
  "max_candidate cs =
    (case cs of [] \<Rightarrow> Inl (RtValueError ''max() arg is an empty sequence'')
     | c # cs \<Rightarrow> Inr (foldl (\<lambda>m x. if em_less m x then x else m) c cs))"

record ElectionResult =
  res_session_id :: SessionId
  res_won_clock :: int
  res_is_new_master :: bool

record ConnectionMessage =
  cm_node_id :: string
  cm_connected :: bool

section \<open>The state of a node\<close>

datatype campaign =
    Queued nat
  | Waiting nat int nat
  | Sleeping nat int nat ElectionMessage
  | Closing nat int nat
  | Finished

record election_env =
  ee_seniority_bonus :: int
  ee_reclaim_enabled :: bool

record Election =
  el_node_id :: string
  el_seniority :: int
  el_clock :: int
  el_commands_seen :: int
  el_connected_peers :: "string list"
  el_pending_disconnects :: "(string \<times> nat) list"
  el_worker_execution_enabled :: bool
  el_current_session :: SessionId
  el_lists :: "ElectionMessage list list"
  el_candidates :: nat
  el_campaign_cancel_scope :: "nat option"
  el_campaign_done :: "nat option"
  el_campaigns :: "campaign list"
  el_confirms :: "(string \<times> nat) list"
  el_ids :: nat
  el_cancelled :: "nat set"
  el_done :: "nat set"
  el_sent :: "ElectionMessage list"
  el_results :: "ElectionResult list"

definition new_election :: "string \<Rightarrow> bool \<Rightarrow> int \<Rightarrow> SessionId option \<Rightarrow> bool \<Rightarrow> Election" where
  "new_election node_id is_candidate seniority initial_session_id worker_enabled =
    \<lparr>el_node_id = node_id, el_seniority = (if is_candidate then seniority else -1), el_clock = 0,
     el_commands_seen = 0, el_connected_peers = [], el_pending_disconnects = [],
     el_worker_execution_enabled = worker_enabled,
     el_current_session = (case initial_session_id of Some s \<Rightarrow> s
       | None \<Rightarrow> \<lparr>ss_master_node_id = node_id, ss_election_clock = 0\<rparr>),
     el_lists = [[]], el_candidates = 0, el_campaign_cancel_scope = None, el_campaign_done = None,
     el_campaigns = [], el_confirms = [], el_ids = 0, el_cancelled = {}, el_done = {}, el_sent = [], el_results = []\<rparr>"

definition campaign_active :: "Election \<Rightarrow> bool" where
  "campaign_active E \<longleftrightarrow> el_campaign_cancel_scope E \<noteq> None"

definition election_status :: "election_env \<Rightarrow> int option \<Rightarrow> Election \<Rightarrow> ElectionMessage" where
  "election_status V clock E =
    (let c = (case clock of None \<Rightarrow> el_clock E | Some c \<Rightarrow> c);
         current_master_id = ss_master_node_id (el_current_session E);
         fallback_master_id = (if el_seniority E < 0 \<and> el_connected_peers E \<noteq> []
                               then hd (sort (el_connected_peers E)) else el_node_id E);
         prefer_local_execution_master =
           (ee_reclaim_enabled V \<and> el_worker_execution_enabled E \<and> current_master_id \<noteq> el_node_id E);
         non_candidate_self_master_should_yield =
           (el_seniority E < 0 \<and> current_master_id = el_node_id E \<and> el_connected_peers E \<noteq> []);
         keep_current_master =
           (\<not> prefer_local_execution_master \<and> \<not> non_candidate_self_master_should_yield
            \<and> (current_master_id = el_node_id E \<or> current_master_id \<in> set (el_connected_peers E)
               \<or> current_master_id \<in> fst ` set (el_pending_disconnects E)));
         effective_seniority =
           (if el_seniority E \<ge> 0 \<and> el_worker_execution_enabled E
            then el_seniority E + ee_seniority_bonus V else el_seniority E)
     in \<lparr>em_clock = c, em_seniority = effective_seniority,
         em_proposed_session = (if keep_current_master then el_current_session E
           else \<lparr>ss_master_node_id = fallback_master_id, ss_election_clock = c\<rparr>),
         em_commands_seen = el_commands_seen E\<rparr>)"

section \<open>Starting a round\<close>

text \<open>A new list becomes \<open>self._candidates\<close>, and a campaign on it is started.\<close>

definition queue_campaign :: "ElectionMessage list \<Rightarrow> Election \<Rightarrow> Election" where
  "queue_campaign cs E =
    E\<lparr>el_lists := el_lists E @ [cs], el_candidates := length (el_lists E),
      el_campaigns := el_campaigns E @ [Queued (length (el_lists E))]\<rparr>"

definition start_new_campaign :: "ElectionMessage list \<Rightarrow> Election \<Rightarrow> Election" where
  "start_new_campaign initial_candidates E =
    (let clock = el_clock E + 1
     in queue_campaign (map (\<lambda>m. m\<lparr>em_clock := clock\<rparr>) initial_candidates) (E\<lparr>el_clock := clock\<rparr>))"

definition election_receiver :: "ElectionMessage \<Rightarrow> Election \<Rightarrow> Election" where
  "election_receiver m E =
    (if em_clock m > el_clock E then queue_campaign [m] (E\<lparr>el_clock := em_clock m\<rparr>)
     else if em_clock m < el_clock E then E
     else if \<not> campaign_active E then
       (if em_proposed_session m = el_current_session E then E else start_new_campaign [m] E)
     else E\<lparr>el_lists := (el_lists E)[el_candidates E := el_lists E ! el_candidates E @ [m]]\<rparr>)"

section \<open>Connections\<close>

definition connection_message :: "election_env \<Rightarrow> Election \<times> bool \<Rightarrow> ConnectionMessage \<Rightarrow> Election \<times> bool" where
  "connection_message V = (\<lambda>(E, state_changed) m.
    let n = cm_node_id m in
    if cm_connected m then
      let pending = map_of (el_pending_disconnects E) n;
          E1 = (case pending of None \<Rightarrow> E
                | Some k \<Rightarrow> E\<lparr>el_pending_disconnects := AList.delete n (el_pending_disconnects E),
                             el_cancelled := insert k (el_cancelled E)\<rparr>)
      in if n \<in> set (el_connected_peers E1)
         then ((if pending = None then E1 else E1\<lparr>el_sent := el_sent E1 @ [election_status V None E1]\<rparr>), state_changed)
         else (E1\<lparr>el_connected_peers := n # el_connected_peers E1\<rparr>, True)
    else if n \<notin> set (el_connected_peers E) then (E, state_changed)
    else if n \<in> fst ` set (el_pending_disconnects E) then (E, state_changed)
    else (E\<lparr>el_pending_disconnects := AList.update n (el_ids E) (el_pending_disconnects E),
            el_confirms := el_confirms E @ [(n, el_ids E)], el_ids := el_ids E + 1\<rparr>, state_changed))"

definition connection_receiver :: "election_env \<Rightarrow> ConnectionMessage list \<Rightarrow> Election \<Rightarrow> Election" where
  "connection_receiver V batch E =
    (let (E1, state_changed) = foldl (connection_message V) (E, False) batch
     in if state_changed then start_new_campaign [] E1 else E1)"

text \<open>The confirmation of a disconnect wakes up, after the grace time or because it was cancelled.\<close>

definition confirm_disconnect :: "nat \<Rightarrow> Election \<Rightarrow> Election" where
  "confirm_disconnect i E =
    (if i \<ge> length (el_confirms E) then E else
     let (n, k) = el_confirms E ! i;
         E1 = E\<lparr>el_confirms := take i (el_confirms E) @ drop (Suc i) (el_confirms E)\<rparr>;
         E2 = (if k \<in> el_cancelled E1 \<or> map_of (el_pending_disconnects E1) n \<noteq> Some k
                 \<or> n \<notin> set (el_connected_peers E1) then E1
               else start_new_campaign [] (E1\<lparr>el_connected_peers := removeAll n (el_connected_peers E1)\<rparr>))
     in if map_of (el_pending_disconnects E2) n = Some k
        then E2\<lparr>el_pending_disconnects := AList.delete n (el_pending_disconnects E2)\<rparr> else E2)"

definition command_counter :: "Election \<Rightarrow> Election" where
  "command_counter E = E\<lparr>el_commands_seen := el_commands_seen E + 1\<rparr>"

definition set_worker_execution_enabled :: "bool \<Rightarrow> Election \<Rightarrow> bool \<times> Election" where
  "set_worker_execution_enabled enabled E =
    (if el_worker_execution_enabled E = enabled then (False, E)
     else (True, E\<lparr>el_worker_execution_enabled := enabled\<rparr>))"

definition watch_local_worker_mode :: "bool \<Rightarrow> Election \<Rightarrow> Election" where
  "watch_local_worker_mode enabled E =
    (let (changed, E1) = set_worker_execution_enabled enabled E
     in if changed then start_new_campaign [] E1 else E1)"

section \<open>A campaign\<close>

text \<open>After the wait: a new scope, the own status among the candidates, the first broadcast.\<close>

definition campaign_enter :: "election_env \<Rightarrow> nat \<Rightarrow> int \<Rightarrow> nat \<Rightarrow> Election \<Rightarrow> Election" where
  "campaign_enter V l clock i E =
    (let k = el_ids E; status = election_status V (Some clock) E
     in E\<lparr>el_ids := k + 1, el_campaign_done := Some k, el_campaign_cancel_scope := Some k,
          el_lists := (el_lists E)[l := el_lists E ! l @ [status]], el_sent := el_sent E @ [status],
          el_campaigns := (el_campaigns E)[i := Sleeping l clock k status]\<rparr>)"

definition campaign_start :: "election_env \<Rightarrow> nat \<Rightarrow> Election \<Rightarrow> Election" where
  "campaign_start V i E =
    (if i \<ge> length (el_campaigns E) then E else
     case el_campaigns E ! i of
       Queued l \<Rightarrow>
         let clock = el_clock E;
             E1 = (case el_campaign_cancel_scope E of None \<Rightarrow> E
                   | Some k \<Rightarrow> E\<lparr>el_cancelled := insert k (el_cancelled E)\<rparr>)
         in (case el_campaign_done E of
               None \<Rightarrow> campaign_enter V l clock i E1
             | Some d \<Rightarrow> E1\<lparr>el_campaigns := (el_campaigns E1)[i := Waiting l clock d]\<rparr>)
     | _ \<Rightarrow> E)"

definition campaign_resume :: "election_env \<Rightarrow> nat \<Rightarrow> Election \<Rightarrow> Election" where
  "campaign_resume V i E =
    (if i \<ge> length (el_campaigns E) then E else
     case el_campaigns E ! i of
       Waiting l clock d \<Rightarrow> if d \<in> el_done E then campaign_enter V l clock i E else E
     | _ \<Rightarrow> E)"

text \<open>The \<open>finally\<close> of a campaign.\<close>

definition campaign_end :: "nat \<Rightarrow> nat \<Rightarrow> Election \<Rightarrow> Election" where
  "campaign_end i k E =
    E\<lparr>el_campaign_cancel_scope := (if el_campaign_cancel_scope E = Some k then None else el_campaign_cancel_scope E),
      el_done := insert k (el_done E), el_campaigns := (el_campaigns E)[i := Finished]\<rparr>"

definition campaign_wake :: "nat \<Rightarrow> Election \<Rightarrow> Election" where
  "campaign_wake i E =
    (if i \<ge> length (el_campaigns E) then E else
     case el_campaigns E ! i of
       Sleeping l clock k status \<Rightarrow>
         if k \<in> el_cancelled E then campaign_end i k E
         else E\<lparr>el_sent := el_sent E @ [status], el_campaigns := (el_campaigns E)[i := Closing l clock k]\<rparr>
     | _ \<Rightarrow> E)"

definition elect :: "ElectionMessage \<Rightarrow> Election \<Rightarrow> Election" where
  "elect em E =
    E\<lparr>el_current_session := em_proposed_session em,
      el_results := el_results E @ [\<lparr>res_session_id = em_proposed_session em, res_won_clock = em_clock em,
        res_is_new_master = (em_proposed_session em \<noteq> el_current_session E)\<rparr>]\<rparr>"

definition campaign_finish :: "nat \<Rightarrow> (Election, runtime_error, unit) sres" where
  "campaign_finish i E =
    (if i \<ge> length (el_campaigns E) then (Inr (), E) else
     case el_campaigns E ! i of
       Closing l clock k \<Rightarrow>
         if k \<in> el_cancelled E then (Inr (), campaign_end i k E)
         else (case max_candidate (el_lists E ! l) of
             Inl e \<Rightarrow> (Inl e, campaign_end i k E)
           | Inr elected \<Rightarrow>
               let E1 = (if el_node_id E = ss_master_node_id (em_proposed_session elected) \<and> el_seniority E \<ge> 0
                         then E\<lparr>el_seniority := max (el_seniority E) (int (length (el_lists E ! l)))\<rparr> else E)
               in (Inr (), campaign_end i k (elect elected E1)))
     | _ \<Rightarrow> (Inr (), E))"

text \<open>\<open>run\<close> starts with a campaign of its own that does not sleep.\<close>

definition election_run :: "Election \<Rightarrow> Election" where
  "election_run E = queue_campaign [] E"

end
