(* ===== verification/ElectionProps.thy ===== *)
theory ElectionProps
  imports Election
begin

text \<open>
  The election as a transition system: the steps of a node are the messages it receives and the
  moments at which one of its tasks goes on. The invariant \<open>round_ok\<close> ties the list of candidates
  to the clock; from it follow agreement of the nodes that collected the same statuses
  and the absence of \<open>max\<close> on an empty list. The last property is a schedule in which two
  campaigns run at the same time.
\<close>

section \<open>Steps\<close>

inductive election_step :: "election_env \<Rightarrow> Election \<Rightarrow> Election \<Rightarrow> bool" for V where
  receive: "election_step V E (election_receiver m E)"
| connections: "election_step V E (connection_receiver V batch E)"
| confirm: "election_step V E (confirm_disconnect i E)"
| counted: "election_step V E (command_counter E)"
| worker_mode: "election_step V E (watch_local_worker_mode enabled E)"
| start: "election_step V E (campaign_start V i E)"
| resume: "election_step V E (campaign_resume V i E)"
| wake: "election_step V E (campaign_wake i E)"
| finish: "campaign_finish i E = (r, E') \<Longrightarrow> election_step V E E'"

abbreviation election_steps :: "election_env \<Rightarrow> Election \<Rightarrow> Election \<Rightarrow> bool" where
  "election_steps V \<equiv> (election_step V)\<^sup>*\<^sup>*"

section \<open>The order of the messages\<close>

definition em_key :: "ElectionMessage \<Rightarrow> int \<times> int \<times> int \<times> string" where
  "em_key m = (em_clock m, em_seniority m, em_commands_seen m, ss_master_node_id (em_proposed_session m))"

lemma em_less_key: "em_less a b \<longleftrightarrow> em_key a < em_key b"
  by (auto simp: em_less_def em_key_def less_prod_def')

lemma foldl_max_key:
  "foldl (\<lambda>m x. if em_less m x then x else m) c cs \<in> set (c # cs)
   \<and> (\<forall>x \<in> set (c # cs). em_key x \<le> em_key (foldl (\<lambda>m x. if em_less m x then x else m) c cs))"
proof (induction cs arbitrary: c)
  case (Cons x cs)
  show ?case
  proof (cases "em_less c x")
    case True
    with Cons.IH [of x] show ?thesis by (auto simp: em_less_key)
  next
    case False
    with Cons.IH [of c] show ?thesis by (auto simp: em_less_key not_less)
  qed
qed simp

lemma max_candidate_greatest:
  assumes "cs \<noteq> []"
  obtains m where "max_candidate cs = Inr m" "m \<in> set cs" "\<And>x. x \<in> set cs \<Longrightarrow> em_key x \<le> em_key m"
  using assms foldl_max_key by (cases cs) (auto simp: max_candidate_def)

section \<open>The invariant\<close>

fun task_ok :: "Election \<Rightarrow> campaign \<Rightarrow> bool" where
  "task_ok E (Queued l) \<longleftrightarrow> l < length (el_lists E)"
| "task_ok E (Waiting l c d) \<longleftrightarrow> l < length (el_lists E) \<and> c \<le> el_clock E \<and> (l = el_candidates E \<longrightarrow> c = el_clock E)"
| "task_ok E (Sleeping l c k s) \<longleftrightarrow> l < length (el_lists E) \<and> el_lists E ! l \<noteq> []"
| "task_ok E (Closing l c k) \<longleftrightarrow> l < length (el_lists E) \<and> el_lists E ! l \<noteq> []"
| "task_ok E Finished \<longleftrightarrow> True"

definition round_ok :: "Election \<Rightarrow> bool" where
  "round_ok E \<longleftrightarrow> el_candidates E < length (el_lists E)
     \<and> (\<forall>ms \<in> set (el_lists E). \<forall>m \<in> set ms. em_clock m \<le> el_clock E)
     \<and> (\<forall>m \<in> set (el_lists E ! el_candidates E). em_clock m = el_clock E)
     \<and> (\<forall>t \<in> set (el_campaigns E). task_ok E t)
     \<and> (\<forall>r \<in> set (el_results E). res_won_clock r \<le> el_clock E)"

text \<open>What the invariant reads of a state.\<close>

definition same_round :: "Election \<Rightarrow> Election \<Rightarrow> bool" where
  "same_round E F \<longleftrightarrow> el_clock F = el_clock E \<and> el_lists F = el_lists E \<and> el_candidates F = el_candidates E
     \<and> el_campaigns F = el_campaigns E \<and> el_results F = el_results E"

lemma task_ok_cong:
  "el_clock F = el_clock E \<Longrightarrow> el_lists F = el_lists E \<Longrightarrow> el_candidates F = el_candidates E
   \<Longrightarrow> task_ok F t = task_ok E t"
  by (cases t) auto

lemma same_round_ok: "same_round E F \<Longrightarrow> round_ok E \<Longrightarrow> round_ok F"
  by (auto simp: same_round_def round_ok_def task_ok_cong [of F E])

lemma same_round_refl [simp]: "same_round E E" by (simp add: same_round_def)

lemma same_round_trans: "same_round E F \<Longrightarrow> same_round F G \<Longrightarrow> same_round E G"
  by (simp add: same_round_def)

lemma task_ok_appended:
  assumes "task_ok E t" and "el_lists F = el_lists E @ [cs]" "el_candidates F = length (el_lists E)" "el_clock E \<le> el_clock F"
  shows "task_ok F t"
  using assms by (cases t) (auto simp: nth_append)

lemma queue_campaign_ok:
  assumes "round_ok E" and "el_clock E \<le> clock" and "\<forall>m \<in> set cs. em_clock m = clock"
  shows "round_ok (queue_campaign cs (E\<lparr>el_clock := clock\<rparr>))"
proof -
  let ?F = "queue_campaign cs (E\<lparr>el_clock := clock\<rparr>)"
  have "task_ok ?F t" if "task_ok E t" for t
    by (rule task_ok_appended [OF that]) (use assms(2) in \<open>simp_all add: queue_campaign_def\<close>)
  then have "\<forall>t \<in> set (el_campaigns ?F). task_ok ?F t"
    using assms(1) by (auto simp: round_ok_def queue_campaign_def)
  moreover have "em_clock m \<le> clock" if "ms \<in> set (el_lists ?F)" "m \<in> set ms" for ms m
  proof (cases "ms \<in> set (el_lists E)")
    case True
    with that(2) assms(1) have "em_clock m \<le> el_clock E" by (simp add: round_ok_def)
    with assms(2) show ?thesis by simp
  qed (use that assms(3) in \<open>simp add: queue_campaign_def\<close>)
  moreover have "res_won_clock r \<le> clock" if "r \<in> set (el_results ?F)" for r
  proof -
    from that assms(1) have "res_won_clock r \<le> el_clock E" by (simp add: round_ok_def queue_campaign_def)
    with assms(2) show ?thesis by simp
  qed
  ultimately show ?thesis
    unfolding round_ok_def using assms(3) by (simp add: queue_campaign_def)
qed

lemma start_new_campaign_ok: "round_ok E \<Longrightarrow> round_ok (start_new_campaign cs E)"
  by (auto simp: start_new_campaign_def Let_def intro!: queue_campaign_ok)

lemma task_ok_extended:
  assumes "task_ok E t" "l < length (el_lists E)" "el_clock F = el_clock E" "el_candidates F = el_candidates E"
    "el_lists F = (el_lists E)[l := el_lists E ! l @ cs]"
  shows "task_ok F t"
  using assms by (cases t) (auto simp: nth_list_update)

lemma in_set_update: "x \<in> set (xs[i := y]) \<Longrightarrow> x = y \<or> x \<in> set xs"
  using set_update_subset_insert [of xs i y] by blast

lemma extended_ok:
  assumes "round_ok E" "l < length (el_lists E)" "el_clock F = el_clock E" "el_candidates F = el_candidates E"
    "el_lists F = (el_lists E)[l := el_lists E ! l @ [m]]" "em_clock m \<le> el_clock E"
    "l = el_candidates E \<Longrightarrow> em_clock m = el_clock E"
    "el_results F = el_results E" "\<forall>t \<in> set (el_campaigns F). t \<in> set (el_campaigns E) \<or> task_ok F t"
  shows "round_ok F"
proof -
  have "task_ok F t" if "task_ok E t" for t by (rule task_ok_extended [OF that assms(2-5)])
  moreover have "em_clock x \<le> el_clock E" if "ms \<in> set (el_lists F)" "x \<in> set ms" for ms x
  proof -
    have "ms = el_lists E ! l @ [m] \<or> ms \<in> set (el_lists E)"
      using that(1) by (auto simp: assms(5) dest: in_set_update)
    moreover have "el_lists E ! l \<in> set (el_lists E)" using assms(2) by simp
    ultimately show ?thesis using that(2) assms(1,6) unfolding round_ok_def by fastforce
  qed
  moreover have "\<forall>x \<in> set (el_lists F ! el_candidates E). em_clock x = el_clock E"
    using assms(1,2,5,7) by (auto simp: round_ok_def nth_list_update)
  ultimately show ?thesis using assms(1-5,8,9) unfolding round_ok_def by auto
qed

lemma election_receiver_ok: "round_ok E \<Longrightarrow> round_ok (election_receiver m E)"
proof -
  assume ok: "round_ok E"
  have "round_ok (E\<lparr>el_lists := (el_lists E)[el_candidates E := el_lists E ! el_candidates E @ [m]]\<rparr>)"
    if "em_clock m = el_clock E"
    using ok that by (intro extended_ok [OF ok, of "el_candidates E"]) (auto simp: round_ok_def)
  then show ?thesis
    using ok by (auto simp: election_receiver_def intro: start_new_campaign_ok queue_campaign_ok)
qed

lemma connection_message_round: "same_round E (fst (connection_message V (E, b) m))"
  by (auto simp: connection_message_def same_round_def Let_def split: option.splits)

lemma connection_messages_round: "same_round E (fst (foldl (connection_message V) (E, b) batch))"
proof (induction batch arbitrary: E b)
  case (Cons m ms)
  obtain F b' where F: "connection_message V (E, b) m = (F, b')" by fastforce
  with connection_message_round [of E V b m] Cons.IH [of F b'] show ?case
    by (auto intro: same_round_trans)
qed simp

lemma connection_receiver_ok: "round_ok E \<Longrightarrow> round_ok (connection_receiver V batch E)"
  using connection_messages_round [of E V False batch]
  by (auto simp: connection_receiver_def intro!: start_new_campaign_ok elim: same_round_ok split: prod.splits)

lemma confirm_disconnect_ok:
  assumes "round_ok E"
  shows "round_ok (confirm_disconnect i E)"
proof (cases "i < length (el_confirms E)")
  case True
  obtain n k where nk: "el_confirms E ! i = (n, k)" by fastforce
  define E1 where "E1 = E\<lparr>el_confirms := take i (el_confirms E) @ drop (Suc i) (el_confirms E)\<rparr>"
  define E2 where "E2 = (if k \<in> el_cancelled E1 \<or> map_of (el_pending_disconnects E1) n \<noteq> Some k
      \<or> n \<notin> set (el_connected_peers E1) then E1
    else start_new_campaign [] (E1\<lparr>el_connected_peers := removeAll n (el_connected_peers E1)\<rparr>))"
  have "round_ok E1" and "round_ok (E1\<lparr>el_connected_peers := p\<rparr>)" for p
    by (rule same_round_ok [OF _ assms], simp add: E1_def same_round_def)+
  then have ok: "round_ok E2" by (simp add: E2_def start_new_campaign_ok)
  moreover have "round_ok (E2\<lparr>el_pending_disconnects := p\<rparr>)" for p
    by (rule same_round_ok [OF _ ok]) (simp add: same_round_def)
  moreover have "confirm_disconnect i E = (if map_of (el_pending_disconnects E2) n = Some k
      then E2\<lparr>el_pending_disconnects := AList.delete n (el_pending_disconnects E2)\<rparr> else E2)"
    using True by (simp only: confirm_disconnect_def nk Let_def E1_def E2_def prod.case not_le [symmetric] if_False)
  ultimately show ?thesis by simp
qed (simp add: confirm_disconnect_def assms)

lemma status_clock: "em_clock (election_status V (Some c) E) = c"
  by (simp add: election_status_def Let_def)

lemma campaign_enter_ok:
  assumes "round_ok E" "l < length (el_lists E)" "c \<le> el_clock E" "l = el_candidates E \<Longrightarrow> c = el_clock E"
  shows "round_ok (campaign_enter V l c i E)"
proof -
  show ?thesis
    using assms(2-4)
    by (intro extended_ok [OF assms(1,2), of _ "election_status V (Some c) E"])
      (auto simp: campaign_enter_def status_clock Let_def dest: in_set_update)
qed

lemma updated_task_ok:
  assumes "round_ok E" "task_ok E t" "el_clock F = el_clock E" "el_lists F = el_lists E" "el_candidates F = el_candidates E"
    "el_campaigns F = (el_campaigns E)[i := t]" "\<forall>r \<in> set (el_results F). res_won_clock r \<le> el_clock E"
  shows "round_ok F"
  using assms task_ok_cong [of F E]
  by (auto simp: round_ok_def dest: in_set_update)

lemma round_ok_task: "round_ok E \<Longrightarrow> i < length (el_campaigns E) \<Longrightarrow> task_ok E (el_campaigns E ! i)"
  by (simp add: round_ok_def)

lemma campaign_start_ok:
  assumes "round_ok E"
  shows "round_ok (campaign_start V i E)"
proof (cases "i < length (el_campaigns E) \<and> (\<exists>l. el_campaigns E ! i = Queued l)")
  case True
  then obtain l where l: "i < length (el_campaigns E)" "el_campaigns E ! i = Queued l" by blast
  define E1 where "E1 = (case el_campaign_cancel_scope E of None \<Rightarrow> E
                   | Some k \<Rightarrow> E\<lparr>el_cancelled := insert k (el_cancelled E)\<rparr>)"
  have same: "same_round E E1" by (simp add: E1_def same_round_def split: option.splits)
  note ok = same_round_ok [OF same assms]
  have "l < length (el_lists E)" using round_ok_task [OF assms l(1)] l(2) by simp
  then have e: "round_ok (campaign_enter V l (el_clock E) i E1)"
    using same by (intro campaign_enter_ok ok) (simp_all add: same_round_def)
  have "round_ok (E1\<lparr>el_campaigns := (el_campaigns E1)[i := Waiting l (el_clock E) d]\<rparr>)" for d
    using ok same \<open>l < _\<close>
    by (intro updated_task_ok [OF ok, of "Waiting l (el_clock E) d" _ i]) (auto simp: same_round_def round_ok_def)
  with e l show ?thesis by (simp add: campaign_start_def Let_def E1_def split: option.splits)
qed (auto simp: campaign_start_def assms split: campaign.splits)

lemma campaign_resume_ok:
  assumes "round_ok E"
  shows "round_ok (campaign_resume V i E)"
  using assms round_ok_task [OF assms, of i]
  by (auto simp: campaign_resume_def split: campaign.splits intro!: campaign_enter_ok)

lemma campaign_end_ok:
  assumes "round_ok E"
  shows "round_ok (campaign_end i k E)"
  by (rule updated_task_ok [OF assms, of Finished _ i]) (use assms in \<open>auto simp: campaign_end_def round_ok_def\<close>)

lemma campaign_wake_ok:
  assumes "round_ok E"
  shows "round_ok (campaign_wake i E)"
proof -
  have "round_ok (E\<lparr>el_sent := s, el_campaigns := (el_campaigns E)[i := Closing l c k]\<rparr>)"
    if "task_ok E (Closing l c k)" for l c k s
    using assms that by (intro updated_task_ok [OF assms that, of _ i]) (auto simp: round_ok_def)
  then show ?thesis
    using assms round_ok_task [OF assms, of i] campaign_end_ok [OF assms]
    by (auto simp: campaign_wake_def split: campaign.splits)
qed

lemma elect_ok:
  assumes "round_ok E" "em_clock m \<le> el_clock E"
  shows "round_ok (elect m E)"
  using assms task_ok_cong [of "elect m E" E] by (auto simp: round_ok_def elect_def)

lemma campaign_finish_ok:
  assumes "round_ok E" "campaign_finish i E = (r, E')"
  shows "round_ok E'"
proof (cases "i < length (el_campaigns E) \<and> (\<exists>l c k. el_campaigns E ! i = Closing l c k \<and> k \<notin> el_cancelled E)")
  case True
  then obtain l c k where l: "i < length (el_campaigns E)" "el_campaigns E ! i = Closing l c k" "k \<notin> el_cancelled E"
    by blast
  from round_ok_task [OF assms(1) l(1)] l(2) have "l < length (el_lists E)" "el_lists E ! l \<noteq> []" by simp_all
  then obtain m where m: "max_candidate (el_lists E ! l) = Inr m" "m \<in> set (el_lists E ! l)"
    using max_candidate_greatest by blast
  have "em_clock m \<le> el_clock E" using assms(1) m(2) \<open>l < _\<close> by (auto simp: round_ok_def)
  moreover have "round_ok (E\<lparr>el_seniority := s\<rparr>)" for s
    using assms(1) by (rule same_round_ok [rotated]) (simp add: same_round_def)
  ultimately show ?thesis
    using assms l m(1) by (auto simp: campaign_finish_def Let_def intro!: campaign_end_ok elect_ok)
next
  case False
  with assms campaign_end_ok [OF assms(1)] show ?thesis
    by (auto simp: campaign_finish_def split: campaign.splits if_splits)
qed

lemma election_step_ok: "election_step V E E' \<Longrightarrow> round_ok E \<Longrightarrow> round_ok E'"
proof (induction rule: election_step.induct)
  case (counted E)
  then show ?case by (rule same_round_ok [rotated]) (simp add: same_round_def command_counter_def)
next
  case (worker_mode E enabled)
  have "round_ok (E\<lparr>el_worker_execution_enabled := enabled\<rparr>)"
    using worker_mode by (rule same_round_ok [rotated]) (simp add: same_round_def)
  with worker_mode show ?case
    by (auto simp: watch_local_worker_mode_def set_worker_execution_enabled_def intro: start_new_campaign_ok)
qed (blast intro: election_receiver_ok connection_receiver_ok confirm_disconnect_ok campaign_start_ok campaign_resume_ok
    campaign_wake_ok campaign_finish_ok)+

lemma election_steps_ok: "election_steps V E E' \<Longrightarrow> round_ok E \<Longrightarrow> round_ok E'"
  by (induction rule: rtranclp_induct) (auto intro: election_step_ok)

lemma initial_ok: "round_ok (election_run (new_election n c s sid w))"
  by (auto simp: round_ok_def election_run_def queue_campaign_def new_election_def)

section \<open>Agreement\<close>

lemma campaign_finish_elects:
  assumes "round_ok E" and "i < length (el_campaigns E)" "el_campaigns E ! i = Closing l c k" "k \<notin> el_cancelled E"
  obtains m E' where "campaign_finish i E = (Inr (), E')" "m \<in> set (el_lists E ! l)"
    "el_current_session E' = em_proposed_session m" "\<And>x. x \<in> set (el_lists E ! l) \<Longrightarrow> em_key x \<le> em_key m"
proof -
  from round_ok_task [OF assms(1,2)] assms(3) have "el_lists E ! l \<noteq> []" by simp
  then obtain m where m: "max_candidate (el_lists E ! l) = Inr m" "m \<in> set (el_lists E ! l)"
      "\<And>x. x \<in> set (el_lists E ! l) \<Longrightarrow> em_key x \<le> em_key m"
    using max_candidate_greatest by blast
  have "fst (campaign_finish i E) = Inr () \<and> el_current_session (snd (campaign_finish i E)) = em_proposed_session m"
    using assms(2-4) m(1) by (simp add: campaign_finish_def Let_def campaign_end_def elect_def)
  with m that show ?thesis by (cases "campaign_finish i E") auto
qed

text \<open>
  C14. Two nodes that have collected the same statuses in a round elect the same session, whatever
  the order in which the statuses arrived and however often each was repeated, and the election
  returns: the session is one that was proposed, by a message that no other exceeds in
  seniority, then commands seen, then master id. Needed is that messages equal in all three
  propose the same session, and that both campaigns are those of the latest round.
\<close>

theorem election_agreement:
  assumes "election_steps V (election_run (new_election n1 c1 s1 sid1 w1)) E"
    and "election_steps W (election_run (new_election n2 c2 s2 sid2 w2)) F"
    and "i < length (el_campaigns E)" "el_campaigns E ! i = Closing (el_candidates E) a k" "k \<notin> el_cancelled E"
    and "j < length (el_campaigns F)" "el_campaigns F ! j = Closing (el_candidates F) b h" "h \<notin> el_cancelled F"
    and same: "set (el_lists E ! el_candidates E) = set (el_lists F ! el_candidates F)"
    and ties: "\<forall>m \<in> set (el_lists E ! el_candidates E). \<forall>m' \<in> set (el_lists E ! el_candidates E).
      em_seniority m = em_seniority m' \<and> em_commands_seen m = em_commands_seen m'
      \<and> ss_master_node_id (em_proposed_session m) = ss_master_node_id (em_proposed_session m')
      \<longrightarrow> em_proposed_session m = em_proposed_session m'"
  shows "\<exists>E' F' m. campaign_finish i E = (Inr (), E') \<and> campaign_finish j F = (Inr (), F')
    \<and> el_current_session E' = em_proposed_session m \<and> el_current_session F' = em_proposed_session m
    \<and> m \<in> set (el_lists E ! el_candidates E)
    \<and> (\<forall>x \<in> set (el_lists E ! el_candidates E).
          (em_seniority x, em_commands_seen x, ss_master_node_id (em_proposed_session x))
          \<le> (em_seniority m, em_commands_seen m, ss_master_node_id (em_proposed_session m)))"
proof -
  have okE: "round_ok E" and okF: "round_ok F"
    using assms(1,2) initial_ok election_steps_ok by blast+
  obtain m E' where m: "campaign_finish i E = (Inr (), E')" "m \<in> set (el_lists E ! el_candidates E)"
      "el_current_session E' = em_proposed_session m"
      "\<And>x. x \<in> set (el_lists E ! el_candidates E) \<Longrightarrow> em_key x \<le> em_key m"
    using campaign_finish_elects [OF okE assms(3-5)] by blast
  obtain m' F' where m': "campaign_finish j F = (Inr (), F')" "m' \<in> set (el_lists F ! el_candidates F)"
      "el_current_session F' = em_proposed_session m'"
      "\<And>x. x \<in> set (el_lists F ! el_candidates F) \<Longrightarrow> em_key x \<le> em_key m'"
    using campaign_finish_elects [OF okF assms(6-8)] by blast
  have "em_key m = em_key m'" using m(2,4) m'(2,4) same by (metis antisym)
  then have "em_proposed_session m = em_proposed_session m'"
    using ties m(2) m'(2) same by (auto simp: em_key_def)
  moreover have "(em_seniority x, em_commands_seen x, ss_master_node_id (em_proposed_session x))
      \<le> (em_seniority m, em_commands_seen m, ss_master_node_id (em_proposed_session m))"
    if "x \<in> set (el_lists E ! el_candidates E)" for x
    using m(4) [OF that] that m(2) okE by (auto simp: em_key_def round_ok_def)
  ultimately show ?thesis using m m' by metis
qed

text \<open>A run of two nodes: both settle alone, connect, and exchange their statuses.\<close>

definition demo_election_env :: election_env where
  "demo_election_env = \<lparr>ee_seniority_bonus = 1000, ee_reclaim_enabled = False\<rparr>"

definition demo_settled :: "string \<Rightarrow> Election" where
  "demo_settled n = snd (campaign_finish 0 (campaign_wake 0 (campaign_start demo_election_env 0
     (election_run (new_election n True 0 None False)))))"

definition demo_status :: "string \<Rightarrow> ElectionMessage" where
  "demo_status n = \<lparr>em_clock = 1, em_seniority = 1,
     em_proposed_session = \<lparr>ss_master_node_id = n, ss_election_clock = 0\<rparr>, em_commands_seen = 0\<rparr>"

definition demo_campaign :: "Election \<Rightarrow> Election" where
  "demo_campaign E = campaign_resume demo_election_env 1 (campaign_start demo_election_env 1 E)"

definition demo_node_a :: Election where
  "demo_node_a = campaign_wake 1 (election_receiver (demo_status ''b'') (demo_campaign
     (connection_receiver demo_election_env [\<lparr>cm_node_id = ''b'', cm_connected = True\<rparr>] (demo_settled ''a''))))"

definition demo_node_b :: Election where
  "demo_node_b = campaign_wake 1 (election_receiver (demo_status ''a'') (demo_campaign
     (election_receiver (demo_status ''a'') (demo_settled ''b''))))"

lemma finish_step: "election_step V E (snd (campaign_finish i E))"
  by (rule election_step.finish [of i E "fst (campaign_finish i E)"]) simp

lemma demo_settled_reached:
  "election_steps demo_election_env (election_run (new_election n True 0 None False)) (demo_settled n)"
  unfolding demo_settled_def
  by (meson rtranclp.intros election_step.start election_step.wake finish_step)

lemma demo_node_a_reached:
  "election_steps demo_election_env (election_run (new_election ''a'' True 0 None False)) demo_node_a"
  unfolding demo_node_a_def demo_campaign_def
  by (rule rtranclp_trans [OF demo_settled_reached]) (meson rtranclp.intros election_step.intros)

lemma demo_node_b_reached:
  "election_steps demo_election_env (election_run (new_election ''b'' True 0 None False)) demo_node_b"
  unfolding demo_node_b_def demo_campaign_def
  by (rule rtranclp_trans [OF demo_settled_reached]) (meson rtranclp.intros election_step.intros)

lemma demo_nodes_collected:
  "el_campaigns demo_node_a = [Finished, Closing 2 1 1]" "el_candidates demo_node_a = 2" "el_cancelled demo_node_a = {}"
  "el_lists demo_node_a ! 2 = [demo_status ''a'', demo_status ''b'']"
  "el_campaigns demo_node_b = [Finished, Closing 2 1 1]" "el_candidates demo_node_b = 2" "el_cancelled demo_node_b = {}"
  "el_lists demo_node_b ! 2 = [demo_status ''a'', demo_status ''b'', demo_status ''a'']"
  by code_simp+

lemma demo_nodes_agree:
  "set (el_lists demo_node_a ! el_candidates demo_node_a) = {demo_status ''a'', demo_status ''b''}"
  "set (el_lists demo_node_b ! el_candidates demo_node_b) = {demo_status ''a'', demo_status ''b''}"
  by (auto simp: demo_nodes_collected)

theorem election_agreement_witness:
  "\<exists>E' F'. campaign_finish 1 demo_node_a = (Inr (), E') \<and> campaign_finish 1 demo_node_b = (Inr (), F')
     \<and> el_current_session E' = el_current_session F'"
proof -
  have "\<forall>m \<in> {demo_status ''a'', demo_status ''b''}. \<forall>m' \<in> {demo_status ''a'', demo_status ''b''}.
      em_seniority m = em_seniority m' \<and> em_commands_seen m = em_commands_seen m'
      \<and> ss_master_node_id (em_proposed_session m) = ss_master_node_id (em_proposed_session m')
      \<longrightarrow> em_proposed_session m = em_proposed_session m'"
    by (simp add: demo_status_def)
  from election_agreement [OF demo_node_a_reached demo_node_b_reached, of 1 1 1 1 1 1, unfolded demo_nodes_agree, OF _ _ _ _ _ _ refl this]
  show ?thesis by (auto simp: demo_nodes_collected)
qed

definition demo_overlap :: Election where
  "demo_overlap =
    (let V = demo_election_env; m = demo_status ''b''
     in campaign_resume V 3 (campaign_resume V 2 (campaign_wake 1 (campaign_start V 3 (election_receiver (m\<lparr>em_clock := 3\<rparr>)
       (campaign_start V 2 (election_receiver (m\<lparr>em_clock := 2\<rparr>) (campaign_resume V 1 (campaign_start V 1
         (connection_receiver V [\<lparr>cm_node_id = ''b'', cm_connected = True\<rparr>] (demo_settled ''a'')))))))))))"

text \<open>
  C15. A campaign that still waits for its predecessor to end is not cancelled by a newer round:
  from the state of a settled node two statuses of newer rounds, received before the
  running campaign has ended, leave two campaigns asleep at the same time, neither of them
  cancelled. The one of the older round then reports its winner although the clock of the
  node has moved on.
\<close>

theorem campaigns_overlap:
  assumes "E = campaign_resume V 1 (campaign_start V 1
      (connection_receiver V [\<lparr>cm_node_id = peer, cm_connected = True\<rparr>] (demo_settled node)))"
    and "em_clock m = 2" and "em_clock m' = 3"
    and "F = campaign_resume V 3 (campaign_resume V 2 (campaign_wake 1
      (campaign_start V 3 (election_receiver m' (campaign_start V 2 (election_receiver m E))))))"
  shows "\<exists>s s' k k'. el_campaigns F = [Finished, Finished, Sleeping 3 2 k s, Sleeping 4 3 k' s']
    \<and> k \<noteq> k' \<and> k \<notin> el_cancelled F \<and> k' \<notin> el_cancelled F
    \<and> (\<exists>G. campaign_finish 2 (campaign_wake 2 F) = (Inr (), G) \<and> el_clock G = 3
        \<and> res_won_clock (last (el_results G)) = 2)"
proof -
  have "el_campaigns (demo_settled node) = [Finished]" "el_ids (demo_settled node) = 1"
    "el_campaign_cancel_scope (demo_settled node) = None" "el_campaign_done (demo_settled node) = Some 0"
    "el_done (demo_settled node) = {0}" "el_cancelled (demo_settled node) = {}" "el_clock (demo_settled node) = 0"
    "length (el_lists (demo_settled node)) = 2" "el_connected_peers (demo_settled node) = []"
    "el_pending_disconnects (demo_settled node) = []"
    by (simp_all add: demo_settled_def election_run_def new_election_def queue_campaign_def campaign_start_def
        campaign_enter_def campaign_wake_def campaign_finish_def campaign_end_def elect_def max_candidate_def Let_def
        election_status_def)
  note settled = this
  have "\<exists>s s'. el_campaigns F = [Finished, Finished, Sleeping 3 2 2 s, Sleeping 4 3 3 s'] \<and> em_clock s = 2
      \<and> el_lists F ! 3 = [m, s] \<and> el_cancelled F = {1} \<and> el_clock F = 3"
    using assms settled
    by (simp add: connection_receiver_def connection_message_def start_new_campaign_def queue_campaign_def
        campaign_start_def campaign_resume_def campaign_enter_def campaign_wake_def campaign_end_def election_receiver_def
        campaign_active_def status_clock Let_def nth_append)
  then obtain s s' where F: "el_campaigns F = [Finished, Finished, Sleeping 3 2 2 s, Sleeping 4 3 3 s']" "em_clock s = 2"
      "el_lists F ! 3 = [m, s]" "el_cancelled F = {1}" "el_clock F = 3" by blast
  then have "fst (campaign_finish 2 (campaign_wake 2 F)) = Inr () \<and> el_clock (snd (campaign_finish 2 (campaign_wake 2 F))) = 3
      \<and> res_won_clock (last (el_results (snd (campaign_finish 2 (campaign_wake 2 F))))) = 2"
    using assms(2) by (simp add: campaign_wake_def campaign_finish_def campaign_end_def elect_def max_candidate_def Let_def)
  with F show ?thesis by (cases "campaign_finish 2 (campaign_wake 2 F)") auto
qed

theorem campaigns_overlap_witness:
  "\<exists>k k' s s'. el_campaigns demo_overlap = [Finished, Finished, Sleeping 3 2 k s, Sleeping 4 3 k' s']
     \<and> k \<noteq> k' \<and> k \<notin> el_cancelled demo_overlap \<and> k' \<notin> el_cancelled demo_overlap"
proof -
  have "em_clock (demo_status ''b''\<lparr>em_clock := 2\<rparr>) = 2" "em_clock (demo_status ''b''\<lparr>em_clock := 3\<rparr>) = 3" by simp_all
  from campaigns_overlap [OF refl this demo_overlap_def [unfolded Let_def]] show ?thesis by blast
qed

end
