(* ===== verification/Throttle.thy ===== *)
theory Throttle
  imports EventBuffer
begin

text \<open>
  The two throttles of the runtime: the rate limiter of the public API
  (\<open>cai/src/cai/api/rate_limit.py\<close>) and the backoff of the worker
  (\<open>cai/src/cai/utils/keyed_backoff.py\<close>). Times are rational numbers where the source has
  floats; a power of floats raises \<open>OverflowError\<close> from exponent 1024 on, which the model keeps.
  The clock is an argument.
\<close>

section \<open>The rate limiter\<close>

record RateLimitDecision =
  rl_allowed :: bool
  rl_retry_after_seconds :: int
  rl_remaining :: int

record InMemoryFixedWindowRateLimiter =
  li_limit :: int
  li_window_seconds :: int
  li_counts :: "((string \<times> int) \<times> int) list"

definition new_rate_limiter :: "int \<Rightarrow> int \<Rightarrow> InMemoryFixedWindowRateLimiter" where
  "new_rate_limiter limit window_seconds =
    \<lparr>li_limit = max 0 limit, li_window_seconds = max 1 window_seconds, li_counts = []\<rparr>"

definition limiter_enabled :: "InMemoryFixedWindowRateLimiter \<Rightarrow> bool" where
  "limiter_enabled L \<longleftrightarrow> li_limit L > 0"

definition prune_windows_before :: "int \<Rightarrow> InMemoryFixedWindowRateLimiter \<Rightarrow> InMemoryFixedWindowRateLimiter" where
  "prune_windows_before window_id L = L\<lparr>li_counts := filter (\<lambda>((_, w), _). \<not> w < window_id) (li_counts L)\<rparr>"

definition window_of :: "int \<Rightarrow> rat \<Rightarrow> int" where
  "window_of window_seconds now = \<lfloor>now / of_int window_seconds\<rfloor>"

definition bucket_of :: "int \<Rightarrow> string \<times> rat \<Rightarrow> string \<times> int" where
  "bucket_of window_seconds = (\<lambda>(key, now). (str_or key ''unknown'', window_of window_seconds now))"

definition rate_check :: "string \<Rightarrow> rat \<Rightarrow> InMemoryFixedWindowRateLimiter \<Rightarrow> RateLimitDecision \<times> InMemoryFixedWindowRateLimiter" where
  "rate_check key now L =
    (if \<not> limiter_enabled L then (\<lparr>rl_allowed = True, rl_retry_after_seconds = 0, rl_remaining = 0\<rparr>, L)
     else
       let window_id = window_of (li_window_seconds L) now;
           L1 = prune_windows_before window_id L;
           bucket = bucket_of (li_window_seconds L) (key, now);
           current_count = dget (li_counts L1) bucket 0
       in if current_count \<ge> li_limit L
          then (\<lparr>rl_allowed = False,
                 rl_retry_after_seconds = max 1 \<lfloor>of_int ((window_id + 1) * li_window_seconds L) - now\<rfloor>, rl_remaining = 0\<rparr>, L1)
          else (\<lparr>rl_allowed = True, rl_retry_after_seconds = 0, rl_remaining = max 0 (li_limit L - (current_count + 1))\<rparr>,
                L1\<lparr>li_counts := AList.update bucket (current_count + 1) (li_counts L1)\<rparr>))"

text \<open>A sequence of requests, each a key and a time.\<close>

fun rate_checks :: "(string \<times> rat) list \<Rightarrow> InMemoryFixedWindowRateLimiter \<Rightarrow> RateLimitDecision list \<times> InMemoryFixedWindowRateLimiter" where
  "rate_checks [] L = ([], L)"
| "rate_checks ((key, now) # reqs) L =
    (let (d, L1) = rate_check key now L; (ds, L2) = rate_checks reqs L1 in (d # ds, L2))"

section \<open>The backoff\<close>

record 'k KeyedBackoff =
  kb_base :: rat
  kb_cap :: rat
  kb_attempts :: "('k \<times> nat) list"
  kb_last_time :: "('k \<times> rat) list"

definition new_keyed_backoff :: "rat \<Rightarrow> rat \<Rightarrow> 'k KeyedBackoff" where
  "new_keyed_backoff base cap = \<lparr>kb_base = base, kb_cap = cap, kb_attempts = [], kb_last_time = []\<rparr>"

definition should_proceed :: "rat \<Rightarrow> 'k \<Rightarrow> 'k KeyedBackoff \<Rightarrow> (runtime_error, bool) res" where
  "should_proceed now key b =
    (let last_time = dget (kb_last_time b) key 0; attempts = dget (kb_attempts b) key 0
     in if attempts \<ge> 1024 then Inl OverflowError
        else Inr (now - last_time \<ge> min (kb_cap b) (kb_base b * 2 ^ attempts)))"

definition record_attempt :: "rat \<Rightarrow> 'k \<Rightarrow> 'k KeyedBackoff \<Rightarrow> 'k KeyedBackoff" where
  "record_attempt now key b =
    b\<lparr>kb_last_time := AList.update key now (kb_last_time b),
      kb_attempts := AList.update key (dget (kb_attempts b) key 0 + 1) (kb_attempts b)\<rparr>"

definition backoff_attempts :: "'k \<Rightarrow> 'k KeyedBackoff \<Rightarrow> nat" where
  "backoff_attempts key b = dget (kb_attempts b) key 0"

definition backoff_reset :: "'k \<Rightarrow> 'k KeyedBackoff \<Rightarrow> 'k KeyedBackoff" where
  "backoff_reset key b = b\<lparr>kb_attempts := AList.delete key (kb_attempts b), kb_last_time := AList.delete key (kb_last_time b)\<rparr>"

section \<open>The limiter counts exactly\<close>

text \<open>
  The state stands for the requests so far: every bucket that has not been pruned
  holds the number of its requests, cut off at the limit.
\<close>

definition counted :: "(string \<times> int) list \<Rightarrow> InMemoryFixedWindowRateLimiter \<Rightarrow> bool" where
  "counted past L \<longleftrightarrow> 0 < li_limit L \<and> 0 < li_window_seconds L
     \<and> (\<forall>b. (\<forall>p \<in> set past. snd p \<le> snd b) \<longrightarrow>
          dget (li_counts L) b 0 = min (li_limit L) (int (count_list past b)))"

lemma dget_prune:
  "dget (li_counts (prune_windows_before w L)) b 0 = (if snd b < w then 0 else dget (li_counts L) b 0)"
proof -
  have "map_of (filter (\<lambda>((_, v), _). \<not> v < w) xs) b = (if snd b < w then None else map_of xs b)" for xs :: "((string \<times> int) \<times> int) list"
    by (induction xs) auto
  then show ?thesis by (simp add: dget_def prune_windows_before_def)
qed

lemma rate_check_counted:
  assumes c: "counted past L" and mono: "\<forall>p \<in> set past. snd p \<le> window_of (li_window_seconds L) now"
    and r: "rate_check key now L = (d, L')"
  shows "rl_allowed d \<longleftrightarrow> int (count_list past (bucket_of (li_window_seconds L) (key, now))) < li_limit L"
    "counted (past @ [bucket_of (li_window_seconds L) (key, now)]) L'"
    "li_limit L' = li_limit L" "li_window_seconds L' = li_window_seconds L"
proof -
  let ?w = "window_of (li_window_seconds L) now" let ?b = "bucket_of (li_window_seconds L) (key, now)"
  let ?L1 = "prune_windows_before ?w L" let ?n = "int (count_list past ?b)"
  have en: "limiter_enabled L" and pos: "0 < li_window_seconds L" "0 < li_limit L" using c by (simp_all add: counted_def limiter_enabled_def)
  have b: "snd ?b = ?w" by (simp add: bucket_of_def)
  have L1: "li_limit ?L1 = li_limit L" "li_window_seconds ?L1 = li_window_seconds L" by (simp_all add: prune_windows_before_def)
  have held: "dget (li_counts L) x 0 = min (li_limit L) (int (count_list past x))" if "\<forall>p \<in> set past. snd p \<le> snd x" for x
    using c that unfolding counted_def by blast
  have cur: "dget (li_counts ?L1) ?b 0 = min (li_limit L) ?n" using held [of ?b] mono b by (simp add: dget_prune)
  then have r': "rate_check key now L = (if li_limit L \<le> ?n
      then (\<lparr>rl_allowed = False, rl_retry_after_seconds = max 1 \<lfloor>of_int ((?w + 1) * li_window_seconds L) - now\<rfloor>, rl_remaining = 0\<rparr>, ?L1)
      else (\<lparr>rl_allowed = True, rl_retry_after_seconds = 0, rl_remaining = max 0 (li_limit L - (?n + 1))\<rparr>,
            ?L1\<lparr>li_counts := AList.update ?b (?n + 1) (li_counts ?L1)\<rparr>))"
    using en by (simp add: rate_check_def Let_def)
  show "rl_allowed d \<longleftrightarrow> ?n < li_limit L" "li_limit L' = li_limit L" "li_window_seconds L' = li_window_seconds L"
    using r L1 unfolding r' by (auto split: if_splits)
  have "dget (li_counts L') x 0 = min (li_limit L) (int (count_list (past @ [?b]) x))" if "\<forall>p \<in> set (past @ [?b]). snd p \<le> snd x" for x
  proof -
    have "dget (li_counts ?L1) x 0 = min (li_limit L) (int (count_list past x))" using that held [of x] b by (simp add: dget_prune)
    then show ?thesis using r cur unfolding r' by (auto split: if_splits)
  qed
  then show "counted (past @ [?b]) L'" using r L1 pos unfolding r' counted_def by (auto split: if_splits)
qed

lemma rate_checks_counted:
  "counted past L \<Longrightarrow> sorted (map snd reqs) \<Longrightarrow> (\<forall>p \<in> set past. \<forall>(_, t) \<in> set reqs. snd p \<le> window_of (li_window_seconds L) t) \<Longrightarrow>
   map rl_allowed (fst (rate_checks reqs L)) = map (\<lambda>i. int (count_list (past @ map (bucket_of (li_window_seconds L)) (take i reqs))
     (bucket_of (li_window_seconds L) (reqs ! i))) < li_limit L) [0 ..< length reqs]"
proof (induction reqs arbitrary: past L)
  case (Cons req reqs)
  obtain key now where req: "req = (key, now)" by fastforce
  let ?W = "li_window_seconds L" let ?b = "bucket_of ?W (key, now)"
  obtain d L' where d: "rate_check key now L = (d, L')" by fastforce
  have mono: "\<forall>p \<in> set past. snd p \<le> window_of ?W now" using Cons.prems(3) by (auto simp: req)
  note step = rate_check_counted [OF Cons.prems(1) mono d]
  have pos: "0 < ?W" using Cons.prems(1) by (simp add: counted_def)
  have "snd ?b \<le> window_of ?W t" if "(k, t) \<in> set reqs" for k t
    using Cons.prems(2) that pos by (force simp: req bucket_of_def window_of_def intro!: floor_mono divide_right_mono)
  then have "\<forall>p \<in> set (past @ [?b]). \<forall>(_, t) \<in> set reqs. snd p \<le> window_of (li_window_seconds L') t"
    using Cons.prems(3) by (auto simp: step(4))
  from Cons.IH [OF step(2) _ this] Cons.prems(2) show ?case
    by (simp add: req d step split_beta Let_def upt_conv_Cons map_Suc_upt [symmetric] comp_def del: upt_Suc map_Suc_upt)
qed simp

text \<open>
  C39. The rate limiter allows exactly the requests it should: as long as the clock does not go
  back, a request is allowed if and only if fewer than the limit of requests with the same key
  came before it in the same window, although the limiter forgets the windows that are over.
\<close>

theorem rate_limit_exact:
  assumes "sorted (map snd reqs)" and "0 < limit"
  shows "map rl_allowed (fst (rate_checks reqs (new_rate_limiter limit window))) =
    map (\<lambda>i. int (count_list (map (bucket_of (max 1 window)) (take i reqs)) (bucket_of (max 1 window) (reqs ! i))) < limit)
      [0 ..< length reqs]"
proof -
  have "counted [] (new_rate_limiter limit window)"
    using assms(2) by (auto simp: counted_def new_rate_limiter_def dget_def)
  from rate_checks_counted [OF this assms(1)] show ?thesis using assms(2) by (simp add: new_rate_limiter_def)
qed

theorem rate_limit_exact_witness:
  "map rl_allowed (fst (rate_checks [(''a'', 0), (''a'', 1), (''b'', 1), (''a'', 2), (''a'', 61)] (new_rate_limiter 2 60)))
    = [True, True, True, False, True]"
proof -
  have "sorted (map snd [(''a'', 0 :: rat), (''a'', 1), (''b'', 1), (''a'', 2), (''a'', 61)])" by simp
  moreover have "\<lfloor>1 / 60 :: rat\<rfloor> = 0" "\<lfloor>1 / 30 :: rat\<rfloor> = 0" "\<lfloor>61 / 60 :: rat\<rfloor> = 1" by (simp_all add: floor_eq_iff)
  ultimately show ?thesis
    using rate_limit_exact [of "[(''a'', 0), (''a'', 1), (''b'', 1), (''a'', 2), (''a'', 61)]" 2 60]
    by (simp add: bucket_of_def window_of_def str_or_def upt_rec del: rate_checks.simps)
qed

end
