(* ===== verification/Worker.thy ===== *)
theory Worker
  imports ClusterState Throttle
begin

text \<open>
  The planner of the worker (\<open>cai/src/cai/worker/plan.py\<close>): from the runners of the node and the
  replicated state it picks the next task, or none. A loop that returns from its body is
  \<open>rfirst\<close>: the first item that yields a task ends it. The planner may raise: an \<open>assert\<close>, a
  missing key, or the backoff.

  What the planner reads from the disk is the record \<open>plan_env\<close>: whether the module
  \<open>model_distribution\<close> can be imported, whether a model has a package manifest, whether a model
  file exists, and whether the chunks of an assignment are in the local store or in the imported
  inventory of a peer. Fields of a model card or of task parameters that the state
  keeps as JSON are read from there.
\<close>

section \<open>What the planner reads\<close>

record RunnerSupervisor =
  su_bound_instance :: BoundInstance
  su_status :: RunnerStatus
  su_completed :: "string set"
  su_in_progress :: "string set"
  su_cancelled :: "string set"

record plan_env =
  pe_distribution :: bool
  pe_has_manifest :: "string \<Rightarrow> bool"
  pe_existing_model :: "string \<Rightarrow> bool"
  pe_store_ready :: "ShardMetadata \<Rightarrow> string \<Rightarrow> string \<Rightarrow> bool"
  pe_peer_ready :: "ShardMetadata \<Rightarrow> string \<Rightarrow> string \<Rightarrow> bool"

definition rest_field :: "json \<Rightarrow> string \<Rightarrow> json \<Rightarrow> json" where
  "rest_field j k v = (case j of JObj d \<Rightarrow> dget d k v | _ \<Rightarrow> v)"

definition is_llama_cpp :: "ModelCard \<Rightarrow> bool" where
  "is_llama_cpp c \<longleftrightarrow> rest_field (mc_rest c) ''inference_backend'' (JStr ''llama_cpp'') = JStr ''llama_cpp''"

definition total_input_chunks :: "TaskParams \<Rightarrow> int" where
  "total_input_chunks p = (case rest_field (pa_rest p) ''total_input_chunks'' (JInt 0) of JInt n \<Rightarrow> n | _ \<Rightarrow> 0)"

definition bound_shard :: "BoundInstance \<Rightarrow> (runtime_error, ShardMetadata) res" where
  "bound_shard b =
    (case map_of (sa_runner_to_shard (in_shard_assignments (bi_instance b))) (bi_bound_runner_id b) of
       None \<Rightarrow> Inl AssertionError | Some s \<Rightarrow> Inr s)"

definition new_task :: "string \<Rightarrow> string \<Rightarrow> task_kind \<Rightarrow> Task" where
  "new_task fresh instance_id kind =
    \<lparr>tk_task_id = fresh, tk_task_status = Pending, tk_instance_id = instance_id, tk_kind = kind,
     tk_error_type = None, tk_error_message = None\<rparr>"

fun rfirst :: "('a \<Rightarrow> ('e, 'b option) res) \<Rightarrow> 'a list \<Rightarrow> ('e, 'b option) res" where
  "rfirst f [] = Inr None"
| "rfirst f (x # xs) = rbind (f x) (\<lambda>y. case y of Some t \<Rightarrow> Inr (Some t) | None \<Rightarrow> rfirst f xs)"

fun rall :: "('a \<Rightarrow> ('e, bool) res) \<Rightarrow> 'a list \<Rightarrow> ('e, bool) res" where
  "rall f [] = Inr True"
| "rall f (x # xs) = rbind (f x) (\<lambda>b. if b then rall f xs else Inr False)"

definition is_failed :: "RunnerStatus option \<Rightarrow> bool" where
  "is_failed s \<longleftrightarrow> (case s of Some (RunnerFailed _) \<Rightarrow> True | _ \<Rightarrow> False)"

definition is_loading :: "RunnerStatus \<Rightarrow> bool" where
  "is_loading s \<longleftrightarrow> (case s of RunnerLoading _ _ \<Rightarrow> True | _ \<Rightarrow> False)"

section \<open>Downloads\<close>

definition is_completed :: "DownloadProgress \<Rightarrow> bool" where
  "is_completed d \<longleftrightarrow> (case dp_status d of DownloadCompleted _ _ \<Rightarrow> True | _ \<Rightarrow> False)"

definition has_download_completed :: "string \<Rightarrow> string \<Rightarrow> (string \<times> DownloadProgress list) list \<Rightarrow> bool" where
  "has_download_completed node_id model_id downloads =
    (case map_of downloads node_id of None \<Rightarrow> False
     | Some ds \<Rightarrow> list_ex (\<lambda>d. is_completed d \<and> dp_model_id d = model_id) ds)"

definition llama_cpp_node_chunk_ready :: "plan_env \<Rightarrow> string \<Rightarrow> string \<Rightarrow> Instance \<Rightarrow> bool" where
  "llama_cpp_node_chunk_ready P local_node_id target_node_id inst =
    (case map_of (sa_node_to_runner (in_shard_assignments inst)) target_node_id of
       None \<Rightarrow> False
     | Some runner_id \<Rightarrow>
         (case map_of (sa_runner_to_shard (in_shard_assignments inst)) runner_id of
            None \<Rightarrow> False
          | Some shard \<Rightarrow>
              if \<not> is_llama_cpp (sh_model_card shard) then False
              else if \<not> pe_distribution P then False
              else if \<not> pe_has_manifest P (mc_model_id (sh_model_card shard))
              then target_node_id \<noteq> local_node_id \<or> pe_existing_model P (mc_model_id (sh_model_card shard))
              else if target_node_id = local_node_id then pe_store_ready P shard target_node_id runner_id
              else pe_peer_ready P shard target_node_id runner_id))"

definition node_ready_for_model_load ::
  "plan_env \<Rightarrow> string \<Rightarrow> string \<Rightarrow> Instance \<Rightarrow> (string \<times> DownloadProgress list) list \<Rightarrow> bool" where
  "node_ready_for_model_load P local_node_id target_node_id inst downloads \<longleftrightarrow>
     has_download_completed target_node_id (sa_model_id (in_shard_assignments inst)) downloads
     \<or> llama_cpp_node_chunk_ready P local_node_id target_node_id inst"

section \<open>The steps of the plan\<close>

type_synonym runners = "(string \<times> RunnerSupervisor) list"
type_synonym statuses = "(string \<times> RunnerStatus) list"

definition kill_runner :: "string \<Rightarrow> runners \<Rightarrow> statuses \<Rightarrow> (string \<times> Instance) list \<Rightarrow> (runtime_error, Task option) res" where
  "kill_runner fresh runners all_runners instances =
    rfirst (\<lambda>(_, r).
      let b = su_bound_instance r; runner_id = bi_bound_runner_id b; instance_id = in_instance_id (bi_instance b);
          failed_peer = list_ex (\<lambda>(_, g). g \<noteq> runner_id \<and> is_failed (map_of all_runners g))
            (sa_node_to_runner (in_shard_assignments (bi_instance b)))
      in Inr (if instance_id \<notin> fst ` set instances \<or> is_failed (Some (su_status r)) \<or> failed_peer
              then Some (new_task fresh instance_id (Shutdown runner_id)) else None)) runners"

definition create_runner ::
  "string \<Rightarrow> rat \<Rightarrow> string \<Rightarrow> runners \<Rightarrow> statuses \<Rightarrow> (string \<times> Instance) list \<Rightarrow> string KeyedBackoff \<Rightarrow> (runtime_error, Task option) res" where
  "create_runner fresh now node_id runners all_runners instances instance_backoff =
    rfirst (\<lambda>(_, inst).
      case map_of (sa_node_to_runner (in_shard_assignments inst)) node_id of
        None \<Rightarrow> Inr None
      | Some runner_id \<Rightarrow>
          if runner_id \<in> fst ` set runners then Inr None
          else if list_ex (\<lambda>(_, g). g \<noteq> runner_id \<and> is_failed (map_of all_runners g)) (sa_node_to_runner (in_shard_assignments inst))
                  \<and> \<not> is_failed (map_of all_runners runner_id) then Inr None
          else rbind (should_proceed now (in_instance_id inst) instance_backoff) (\<lambda>ok.
            Inr (if ok then Some (new_task fresh (in_instance_id inst)
              (CreateRunner \<lparr>bi_instance = inst, bi_bound_runner_id = runner_id, bi_bound_node_id = node_id\<rparr>)) else None))) instances"

definition model_needs_download ::
  "plan_env \<Rightarrow> string \<Rightarrow> rat \<Rightarrow> string \<Rightarrow> runners \<Rightarrow> (string \<times> DownloadProgress list) list \<Rightarrow> (string \<times> Task) list
   \<Rightarrow> string KeyedBackoff \<Rightarrow> (runtime_error, Task option) res" where
  "model_needs_download P fresh now node_id runners downloads tasks download_backoff =
    (let download_status = foldl (\<lambda>d dp. AList.update (dp_model_id dp) dp d) [] (dget downloads node_id []);
         pending = concat (map (\<lambda>(_, t). case tk_kind t of
             DownloadModel s \<Rightarrow> if tk_task_status t \<in> {Pending, Running} then [mc_model_id (sh_model_card s)] else []
           | _ \<Rightarrow> []) tasks)
     in rfirst (\<lambda>(_, r).
       rbind (bound_shard (su_bound_instance r)) (\<lambda>shard.
       let model_id = mc_model_id (sh_model_card shard); inst = bi_instance (su_bound_instance r)
       in if su_status r = RunnerIdle
             \<and> \<not> (is_llama_cpp (sh_model_card shard) \<and> llama_cpp_node_chunk_ready P node_id node_id inst)
             \<and> model_id \<notin> set pending
             \<and> (case map_of download_status model_id of None \<Rightarrow> True
                | Some dp \<Rightarrow> (case dp_status dp of DownloadPending _ _ \<Rightarrow> True | _ \<Rightarrow> False))
          then rbind (should_proceed now model_id download_backoff) (\<lambda>ok.
            Inr (if ok then Some (new_task fresh (in_instance_id inst) (DownloadModel shard)) else None))
          else Inr None)) runners)"

definition init_distributed_backend :: "string \<Rightarrow> runners \<Rightarrow> statuses \<Rightarrow> (runtime_error, Task option) res" where
  "init_distributed_backend fresh runners all_runners =
    rfirst (\<lambda>(_, r).
      let inst = bi_instance (su_bound_instance r); members = map fst (sa_runner_to_shard (in_shard_assignments inst));
          connect = Some (new_task fresh (in_instance_id inst) ConnectToGroup);
          all_in = (\<lambda>S. list_all (\<lambda>g. map_of all_runners g \<in> Some ` S) members)
      in if length members = 1 then Inr None
         else rbind (bound_shard (su_bound_instance r)) (\<lambda>shard.
           if is_llama_cpp (sh_model_card shard)
           then Inr (if su_status r = RunnerIdle \<and> all_in {RunnerIdle, RunnerConnecting, RunnerConnected} then connect else None)
           else if \<not> (su_status r = RunnerIdle \<and> all_in {RunnerConnecting, RunnerIdle}) then Inr None
           else if \<not> sh_device_rank shard < sh_world_size shard \<or> \<not> sh_device_rank shard \<ge> 0 then Inl AssertionError
           else Inr (if sh_device_rank shard < sh_world_size shard - 1
                \<or> sh_device_rank shard = sh_world_size shard - 1
                  \<and> list_all (\<lambda>g. g \<noteq> bi_bound_runner_id (su_bound_instance r) \<longrightarrow> map_of all_runners g = Some RunnerConnecting) members
              then connect else None))) runners"

definition load_model ::
  "plan_env \<Rightarrow> string \<Rightarrow> runners \<Rightarrow> statuses \<Rightarrow> (string \<times> DownloadProgress list) list \<Rightarrow> (runtime_error, Task option) res" where
  "load_model P fresh runners all_runners downloads =
    rfirst (\<lambda>(_, r).
      let inst = bi_instance (su_bound_instance r); a = in_shard_assignments inst
      in Inr (if list_all (\<lambda>(nid, _). node_ready_for_model_load P (bi_bound_node_id (su_bound_instance r)) nid inst downloads)
                   (sa_node_to_runner a)
                \<and> (length (sa_runner_to_shard a) = 1 \<and> su_status r = RunnerIdle
                   \<or> su_status r = RunnerConnected
                     \<and> list_all (\<lambda>(g, _). case map_of all_runners g of None \<Rightarrow> False
                         | Some s \<Rightarrow> s = RunnerConnected \<or> is_loading s \<or> s = RunnerLoaded) (sa_runner_to_shard a))
              then Some (new_task fresh (in_instance_id inst) LoadModel) else None)) runners"

definition ready_to_warmup :: "string \<Rightarrow> runners \<Rightarrow> statuses \<Rightarrow> (runtime_error, Task option) res" where
  "ready_to_warmup fresh runners all_runners =
    rfirst (\<lambda>(_, r).
      let inst = bi_instance (su_bound_instance r); members = map fst (sa_runner_to_shard (in_shard_assignments inst));
          warmup = Some (new_task fresh (in_instance_id inst) StartWarmup);
          all_in = (\<lambda>S. list_all (\<lambda>g. map_of all_runners g \<in> Some ` S) members)
      in rbind (bound_shard (su_bound_instance r)) (\<lambda>shard.
         if is_llama_cpp (sh_model_card shard)
         then Inr (if su_status r = RunnerLoaded \<and> all_in {RunnerLoaded, RunnerWarmingUp, RunnerReady} then warmup else None)
         else if \<not> sh_device_rank shard < sh_world_size shard \<or> \<not> sh_device_rank shard \<ge> 0 then Inl AssertionError
         else Inr (if su_status r = RunnerLoaded
              \<and> (sh_device_rank shard > 0 \<and> all_in {RunnerLoaded, RunnerWarmingUp}
                 \<or> sh_device_rank shard = 0
                   \<and> list_all (\<lambda>g. g \<noteq> bi_bound_runner_id (su_bound_instance r) \<longrightarrow> map_of all_runners g = Some RunnerWarmingUp) members)
            then warmup else None))) runners"

section \<open>Generation tasks\<close>

definition runner_accepts_pending_task :: "RunnerSupervisor \<Rightarrow> Task \<Rightarrow> (runtime_error, bool) res" where
  "runner_accepts_pending_task r t =
    (case tk_kind t of
       TextGenerationTask _ _ \<Rightarrow> rbind (bound_shard (su_bound_instance r)) (\<lambda>shard.
         Inr (\<not> is_llama_cpp (sh_model_card shard) \<or> sh_world_size shard \<le> 1 \<or> sh_device_rank shard = 0))
     | _ \<Rightarrow> Inr True)"

definition chunks_missing :: "(string \<times> (int \<times> json) list) list \<Rightarrow> task_kind \<Rightarrow> bool" where
  "chunks_missing buffer k =
    (case k of
       ImageEditsTask c p \<Rightarrow> total_input_chunks p > 0 \<and> int (length (dget buffer c [])) < total_input_chunks p
     | TextGenerationTask c p \<Rightarrow> total_input_chunks p > 0 \<and> int (length (dget buffer c [])) < total_input_chunks p
     | _ \<Rightarrow> False)"

definition is_generation :: "task_kind \<Rightarrow> bool" where
  "is_generation k \<longleftrightarrow> (case k of TextGenerationTask _ _ \<Rightarrow> True | ImageGenerationTask _ _ \<Rightarrow> True | ImageEditsTask _ _ \<Rightarrow> True | _ \<Rightarrow> False)"

definition pending_tasks ::
  "runners \<Rightarrow> (string \<times> Task) list \<Rightarrow> statuses \<Rightarrow> (string \<times> (int \<times> json) list) list \<Rightarrow> (runtime_error, Task option) res" where
  "pending_tasks runners tasks all_runners input_chunk_buffer =
    rfirst (\<lambda>(_, t).
      if \<not> is_generation (tk_kind t) \<or> tk_task_status t \<notin> {Pending, Running} \<or> chunks_missing input_chunk_buffer (tk_kind t)
      then Inr None
      else rfirst (\<lambda>(_, r).
        let inst = bi_instance (su_bound_instance r)
        in if tk_instance_id t \<noteq> in_instance_id inst then Inr None
           else rbind (runner_accepts_pending_task r t) (\<lambda>accepts.
             if \<not> accepts \<or> tk_task_id t \<in> su_completed r \<union> su_in_progress r \<or> su_status r \<notin> {RunnerReady, RunnerRunning}
             then Inr None
             else rbind (rall (\<lambda>(g, _). case map_of all_runners g of None \<Rightarrow> Inl (RtKeyError g)
                   | Some s \<Rightarrow> Inr (s \<in> {RunnerReady, RunnerRunning})) (sa_runner_to_shard (in_shard_assignments inst)))
               (\<lambda>ready. Inr (if ready then Some t else None)))) runners) tasks"

definition cancel_tasks :: "string \<Rightarrow> runners \<Rightarrow> (string \<times> Task) list \<Rightarrow> (runtime_error, Task option) res" where
  "cancel_tasks fresh runners tasks =
    rfirst (\<lambda>(_, t).
      if tk_task_status t \<noteq> Cancelled then Inr None
      else rfirst (\<lambda>(runner_id, r).
        Inr (if tk_instance_id t = in_instance_id (bi_instance (su_bound_instance r)) \<and> tk_task_id t \<notin> su_cancelled r
             then Some (new_task fresh (tk_instance_id t) (CancelTask (tk_task_id t) runner_id)) else None)) runners) tasks"

section \<open>The plan\<close>

definition or_else :: "('e, 'a option) res \<Rightarrow> ('e, 'a option) res \<Rightarrow> ('e, 'a option) res" where
  "or_else m m' = rbind m (\<lambda>x. case x of Some t \<Rightarrow> Inr (Some t) | None \<Rightarrow> m')"

definition plan ::
  "plan_env \<Rightarrow> string \<Rightarrow> rat \<Rightarrow> string \<Rightarrow> runners \<Rightarrow> (string \<times> DownloadProgress list) list \<Rightarrow> (string \<times> Instance) list \<Rightarrow> statuses
   \<Rightarrow> (string \<times> Task) list \<Rightarrow> (string \<times> (int \<times> json) list) list \<Rightarrow> string KeyedBackoff \<Rightarrow> string KeyedBackoff
   \<Rightarrow> (runtime_error, Task option) res" where
  "plan P fresh now node_id runners downloads instances all_runners tasks input_chunk_buffer instance_backoff download_backoff =
    or_else (cancel_tasks fresh runners tasks)
    (or_else (kill_runner fresh runners all_runners instances)
    (or_else (create_runner fresh now node_id runners all_runners instances instance_backoff)
    (or_else (init_distributed_backend fresh runners all_runners)
    (or_else (model_needs_download P fresh now node_id runners downloads tasks download_backoff)
    (or_else (load_model P fresh runners all_runners downloads)
    (or_else (ready_to_warmup fresh runners all_runners)
    (pending_tasks runners tasks all_runners input_chunk_buffer)))))))"

end
