(* ===== verification/WorkerProps.thy ===== *)
theory WorkerProps
  imports Worker
begin

text \<open>
  The runners of one instance start together although every node plans for itself. A group is an
  instance whose model is downloaded everywhere; its state is the status of every runner. A step
  is a task that the plan of some node starts, or the end of a transition that a runner is in. For
  backends other than llama.cpp connecting and warming up are collective operations: they end
  only once every runner has entered them.
\<close>

section \<open>Groups\<close>

abbreviation members :: "Instance \<Rightarrow> (string \<times> ShardMetadata) list" where
  "members inst \<equiv> sa_runner_to_shard (in_shard_assignments inst)"

abbreviation places :: "Instance \<Rightarrow> (string \<times> string) list" where
  "places inst \<equiv> sa_node_to_runner (in_shard_assignments inst)"

definition group_ok :: "bool \<Rightarrow> Instance \<Rightarrow> bool" where
  "group_ok llama inst \<longleftrightarrow> members inst \<noteq> [] \<and> distinct (map fst (members inst)) \<and> distinct (map (sh_device_rank \<circ> snd) (members inst))
     \<and> (\<forall>(r, s) \<in> set (members inst). 0 \<le> sh_device_rank s \<and> sh_device_rank s < sh_world_size s
          \<and> sh_world_size s = int (length (members inst)) \<and> mc_model_id (sh_model_card s) = sa_model_id (in_shard_assignments inst)
          \<and> is_llama_cpp (sh_model_card s) = llama)
     \<and> distinct (map fst (places inst)) \<and> set (map snd (places inst)) = set (map fst (members inst))"

definition downloads_done :: "(string \<times> DownloadProgress list) list \<Rightarrow> Instance \<Rightarrow> bool" where
  "downloads_done D inst \<longleftrightarrow> (\<forall>(node, r) \<in> set (places inst). \<exists>d. map_of D node = Some [d] \<and> is_completed d
     \<and> dp_model_id d = sa_model_id (in_shard_assignments inst))"

definition view :: "Instance \<Rightarrow> (string \<Rightarrow> RunnerStatus) \<Rightarrow> statuses" where
  "view inst \<sigma> = map (\<lambda>(r, _). (r, \<sigma> r)) (members inst)"

definition supervisor :: "Instance \<Rightarrow> string \<Rightarrow> string \<Rightarrow> RunnerStatus \<Rightarrow> RunnerSupervisor" where
  "supervisor inst node r s =
    \<lparr>su_bound_instance = \<lparr>bi_instance = inst, bi_bound_runner_id = r, bi_bound_node_id = node\<rparr>, su_status = s,
     su_completed = {}, su_in_progress = {}, su_cancelled = {}\<rparr>"

text \<open>The plan of a node that runs the runner \<open>r\<close> of the instance.\<close>

definition node_plan ::
  "plan_env \<Rightarrow> string \<Rightarrow> rat \<Rightarrow> (string \<times> DownloadProgress list) list \<Rightarrow> Instance \<Rightarrow> (string \<Rightarrow> RunnerStatus) \<Rightarrow> string \<Rightarrow> string
   \<Rightarrow> (runtime_error, Task option) res" where
  "node_plan P fresh now D inst \<sigma> node r =
    plan P fresh now node [(r, supervisor inst node r (\<sigma> r))] D [(in_instance_id inst, inst)] (view inst \<sigma>) [] []
      (new_keyed_backoff (1 / 2) 10) (new_keyed_backoff (1 / 2) 10)"

inductive group_step ::
  "plan_env \<Rightarrow> (string \<times> DownloadProgress list) list \<Rightarrow> bool \<Rightarrow> Instance \<Rightarrow> (string \<Rightarrow> RunnerStatus) \<Rightarrow> (string \<Rightarrow> RunnerStatus) \<Rightarrow> bool"
  for P D llama inst where
  connect: "(node, r) \<in> set (places inst) \<Longrightarrow> node_plan P fresh now D inst \<sigma> node r = Inr (Some t) \<Longrightarrow> tk_kind t = ConnectToGroup
    \<Longrightarrow> group_step P D llama inst \<sigma> (\<sigma>(r := RunnerConnecting))"
| connected: "r \<in> fst ` set (members inst) \<Longrightarrow> \<sigma> r = RunnerConnecting \<Longrightarrow> llama \<or> (\<forall>g \<in> fst ` set (members inst). \<sigma> g \<noteq> RunnerIdle)
    \<Longrightarrow> group_step P D llama inst \<sigma> (\<sigma>(r := RunnerConnected))"
| load: "(node, r) \<in> set (places inst) \<Longrightarrow> node_plan P fresh now D inst \<sigma> node r = Inr (Some t) \<Longrightarrow> tk_kind t = LoadModel
    \<Longrightarrow> group_step P D llama inst \<sigma> (\<sigma>(r := RunnerLoading a b))"
| loaded: "r \<in> fst ` set (members inst) \<Longrightarrow> is_loading (\<sigma> r) \<Longrightarrow> group_step P D llama inst \<sigma> (\<sigma>(r := RunnerLoaded))"
| warmup: "(node, r) \<in> set (places inst) \<Longrightarrow> node_plan P fresh now D inst \<sigma> node r = Inr (Some t) \<Longrightarrow> tk_kind t = StartWarmup
    \<Longrightarrow> group_step P D llama inst \<sigma> (\<sigma>(r := RunnerWarmingUp))"
| ready: "r \<in> fst ` set (members inst) \<Longrightarrow> \<sigma> r = RunnerWarmingUp \<Longrightarrow> llama \<or> (\<forall>g \<in> fst ` set (members inst). \<sigma> g \<noteq> RunnerLoaded)
    \<Longrightarrow> group_step P D llama inst \<sigma> (\<sigma>(r := RunnerReady))"

section \<open>What a node plans\<close>

fun stage :: "RunnerStatus \<Rightarrow> nat" where
  "stage RunnerIdle = 0"
| "stage RunnerConnecting = 1"
| "stage RunnerConnected = 2"
| "stage (RunnerLoading _ _) = 3"
| "stage RunnerLoaded = 4"
| "stage RunnerWarmingUp = 5"
| "stage RunnerReady = 6"
| "stage _ = 7"

lemma stage_simps:
  "stage s = 0 \<longleftrightarrow> s = RunnerIdle" "stage s = 1 \<longleftrightarrow> s = RunnerConnecting" "stage s = 2 \<longleftrightarrow> s = RunnerConnected"
  "stage s = 3 \<longleftrightarrow> is_loading s" "stage s = 4 \<longleftrightarrow> s = RunnerLoaded" "stage s = 5 \<longleftrightarrow> s = RunnerWarmingUp" "stage s = 6 \<longleftrightarrow> s = RunnerReady"
  by (cases s; simp add: is_loading_def)+

definition everyone :: "Instance \<Rightarrow> (string \<Rightarrow> RunnerStatus) \<Rightarrow> nat set \<Rightarrow> bool" where
  "everyone inst \<sigma> S \<longleftrightarrow> (\<forall>g \<in> fst ` set (members inst). stage (\<sigma> g) \<in> S)"

definition others :: "Instance \<Rightarrow> (string \<Rightarrow> RunnerStatus) \<Rightarrow> string \<Rightarrow> nat \<Rightarrow> bool" where
  "others inst \<sigma> r k \<longleftrightarrow> (\<forall>g \<in> fst ` set (members inst). g \<noteq> r \<longrightarrow> stage (\<sigma> g) = k)"

definition can_connect :: "bool \<Rightarrow> Instance \<Rightarrow> (string \<Rightarrow> RunnerStatus) \<Rightarrow> string \<Rightarrow> ShardMetadata \<Rightarrow> bool" where
  "can_connect llama inst \<sigma> r s \<longleftrightarrow> length (members inst) \<noteq> 1 \<and> stage (\<sigma> r) = 0
     \<and> (if llama then everyone inst \<sigma> {0, 1, 2}
        else everyone inst \<sigma> {0, 1} \<and> (sh_device_rank s = int (length (members inst)) - 1 \<longrightarrow> others inst \<sigma> r 1))"

definition can_load :: "Instance \<Rightarrow> (string \<Rightarrow> RunnerStatus) \<Rightarrow> string \<Rightarrow> bool" where
  "can_load inst \<sigma> r \<longleftrightarrow> length (members inst) = 1 \<and> stage (\<sigma> r) = 0 \<or> stage (\<sigma> r) = 2 \<and> everyone inst \<sigma> {2, 3, 4}"

definition can_warmup :: "bool \<Rightarrow> Instance \<Rightarrow> (string \<Rightarrow> RunnerStatus) \<Rightarrow> string \<Rightarrow> ShardMetadata \<Rightarrow> bool" where
  "can_warmup llama inst \<sigma> r s \<longleftrightarrow> stage (\<sigma> r) = 4
     \<and> (if llama then everyone inst \<sigma> {4, 5, 6}
        else if sh_device_rank s > 0 then everyone inst \<sigma> {4, 5}
        else others inst \<sigma> r 5)"

lemma map_of_view: "r \<in> fst ` set (members inst) \<Longrightarrow> map_of (view inst \<sigma>) r = Some (\<sigma> r)"
proof -
  have "r \<in> fst ` set xs \<Longrightarrow> map_of (map (\<lambda>(r, _). (r, \<sigma> r)) xs) r = Some (\<sigma> r)" for xs :: "(string \<times> ShardMetadata) list"
    by (induction xs) auto
  then show "r \<in> fst ` set (members inst) \<Longrightarrow> map_of (view inst \<sigma>) r = Some (\<sigma> r)" unfolding view_def .
qed

lemma statuses_in:
  "list_all (\<lambda>g. map_of (view inst \<sigma>) g \<in> Some ` S) (map fst (members inst)) \<longleftrightarrow> (\<forall>g \<in> fst ` set (members inst). \<sigma> g \<in> S)"
  by (auto simp: list_all_iff map_of_view)

lemma others_are:
  "list_all (\<lambda>g. g \<noteq> r \<longrightarrow> map_of (view inst \<sigma>) g = Some RunnerConnecting) (map fst (members inst)) \<longleftrightarrow> others inst \<sigma> r 1"
  "list_all (\<lambda>g. g \<noteq> r \<longrightarrow> map_of (view inst \<sigma>) g = Some RunnerWarmingUp) (map fst (members inst)) \<longleftrightarrow> others inst \<sigma> r 5"
  by (auto simp: list_all_iff map_of_view others_def stage_simps [unfolded One_nat_def])

lemma in_stages:
  "s \<in> {RunnerIdle, RunnerConnecting, RunnerConnected} \<longleftrightarrow> stage s \<in> {0, 1, 2}"
  "s \<in> {RunnerConnecting, RunnerIdle} \<longleftrightarrow> stage s \<in> {0, 1}"
  "s \<in> {RunnerLoaded, RunnerWarmingUp, RunnerReady} \<longleftrightarrow> stage s \<in> {4, 5, 6}"
  "s \<in> {RunnerLoaded, RunnerWarmingUp} \<longleftrightarrow> stage s \<in> {4, 5}"
  "s = RunnerConnected \<or> is_loading s \<or> s = RunnerLoaded \<longleftrightarrow> stage s \<in> {2, 3, 4}"
  by (cases s; simp add: is_loading_def)+

lemma supervisor_simps [simp]:
  "su_bound_instance (supervisor inst node r s) = \<lparr>bi_instance = inst, bi_bound_runner_id = r, bi_bound_node_id = node\<rparr>"
  "su_status (supervisor inst node r s) = s"
  by (simp_all add: supervisor_def)

lemma bound_shard_supervisor:
  "map_of (members inst) r = Some s \<Longrightarrow> bound_shard \<lparr>bi_instance = inst, bi_bound_runner_id = r, bi_bound_node_id = node\<rparr> = Inr s"
  by (simp add: bound_shard_def)

lemma member_shard:
  assumes "group_ok llama inst" "map_of (members inst) r = Some s"
  shows "0 \<le> sh_device_rank s" "sh_device_rank s < sh_world_size s" "sh_world_size s = int (length (members inst))"
    "mc_model_id (sh_model_card s) = sa_model_id (in_shard_assignments inst)" "is_llama_cpp (sh_model_card s) = llama"
  using assms map_of_SomeD [OF assms(2)] unfolding group_ok_def by blast+

lemma everyone_in:
  "list_all (\<lambda>g. map_of (view inst \<sigma>) g \<in> Some ` {RunnerIdle, RunnerConnecting, RunnerConnected}) (map fst (members inst)) \<longleftrightarrow> everyone inst \<sigma> {0, 1, 2}"
  "list_all (\<lambda>g. map_of (view inst \<sigma>) g \<in> Some ` {RunnerConnecting, RunnerIdle}) (map fst (members inst)) \<longleftrightarrow> everyone inst \<sigma> {0, 1}"
  "list_all (\<lambda>g. map_of (view inst \<sigma>) g \<in> Some ` {RunnerLoaded, RunnerWarmingUp, RunnerReady}) (map fst (members inst)) \<longleftrightarrow> everyone inst \<sigma> {4, 5, 6}"
  "list_all (\<lambda>g. map_of (view inst \<sigma>) g \<in> Some ` {RunnerLoaded, RunnerWarmingUp}) (map fst (members inst)) \<longleftrightarrow> everyone inst \<sigma> {4, 5}"
  unfolding statuses_in in_stages everyone_def by (rule refl)+

lemmas plan_step_eval = Let_def rfirst.simps prod.case supervisor_simps BoundInstance.select_convs everyone_in others_are rbind_simps

lemma init_eval:
  assumes ok: "group_ok llama inst" and s: "map_of (members inst) r = Some s"
  shows "init_distributed_backend fresh [(r, supervisor inst node r (\<sigma> r))] (view inst \<sigma>)
    = Inr (if can_connect llama inst \<sigma> r s then Some (new_task fresh (in_instance_id inst) ConnectToGroup) else None)"
proof -
  note m = member_shard [OF ok s]
  have rank: "sh_device_rank s < sh_world_size s - 1 \<or> sh_device_rank s = sh_world_size s - 1 \<and> Q
      \<longleftrightarrow> (sh_device_rank s = int (length (members inst)) - 1 \<longrightarrow> Q)" for Q
    using m(2,3) by linarith
  show ?thesis
    unfolding init_distributed_backend_def plan_step_eval bound_shard_supervisor [OF s] rank
    using m(1,2,5) by (simp add: can_connect_def stage_simps)
qed

lemma load_eval:
  assumes "downloads_done D inst" and s: "map_of (members inst) r = Some s"
  shows "load_model P fresh [(r, supervisor inst node r (\<sigma> r))] (view inst \<sigma>) D
    = Inr (if can_load inst \<sigma> r then Some (new_task fresh (in_instance_id inst) LoadModel) else None)"
proof -
  have "list_all (\<lambda>(nid, _). node_ready_for_model_load P node nid inst D) (places inst)"
    using assms(1) by (fastforce simp: list_all_iff downloads_done_def node_ready_for_model_load_def has_download_completed_def)
  moreover have "list_all (\<lambda>(g, _). F g) (members inst) = (\<forall>g \<in> fst ` set (members inst). F g)" for F by (auto simp: list_all_iff)
  then have "list_all (\<lambda>(g, _). case map_of (view inst \<sigma>) g of None \<Rightarrow> False
      | Some s \<Rightarrow> s = RunnerConnected \<or> is_loading s \<or> s = RunnerLoaded) (members inst) = everyone inst \<sigma> {2, 3, 4}"
    unfolding everyone_def in_stages(5) [symmetric] by (simp add: map_of_view cong: ball_cong)
  ultimately show ?thesis
    unfolding load_model_def plan_step_eval by (simp add: can_load_def stage_simps)
qed

lemma warmup_eval:
  assumes ok: "group_ok llama inst" and s: "map_of (members inst) r = Some s"
  shows "ready_to_warmup fresh [(r, supervisor inst node r (\<sigma> r))] (view inst \<sigma>)
    = Inr (if can_warmup llama inst \<sigma> r s then Some (new_task fresh (in_instance_id inst) StartWarmup) else None)"
  unfolding ready_to_warmup_def plan_step_eval bound_shard_supervisor [OF s]
  using member_shard [OF ok s] by (simp add: can_warmup_def stage_simps)

text \<open>The other steps of the plan have nothing to do for a group that is starting.\<close>

lemma started_alive:
  assumes "everyone inst \<sigma> {..6}" "r \<in> fst ` set (members inst)"
  shows "\<not> is_failed (Some (\<sigma> r))"
  using assms by (cases "\<sigma> r") (auto simp: everyone_def is_failed_def)

lemma placed:
  assumes "group_ok llama inst" "(node, r) \<in> set (places inst)"
  shows "r \<in> fst ` set (members inst)"
proof -
  have "r \<in> set (map snd (places inst))" using assms(2) by (force simp: image_iff)
  then show ?thesis using assms(1) unfolding group_ok_def by simp
qed

lemma place_member:
  assumes "group_ok llama inst" "(node, r) \<in> set (places inst)"
  obtains s where "map_of (members inst) r = Some s" "(r, s) \<in> set (members inst)" "map_of (places inst) node = Some r"
proof -
  have "r \<in> fst ` set (members inst)" using assms by (rule placed)
  then obtain s where "map_of (members inst) r = Some s" by (metis map_of_eq_None_iff not_None_eq)
  moreover have "map_of (places inst) node = Some r" using assms by (simp add: group_ok_def)
  ultimately show ?thesis using that map_of_SomeD by fast
qed

lemma kill_none:
  assumes "group_ok llama inst" "everyone inst \<sigma> {..6}" "(node, r) \<in> set (places inst)"
  shows "kill_runner fresh [(r, supervisor inst node r (\<sigma> r))] (view inst \<sigma>) [(in_instance_id inst, inst)] = Inr None"
proof -
  note p = placed [OF assms(1)]
  have "\<not> is_failed (map_of (view inst \<sigma>) g)" if "(n, g) \<in> set (places inst)" for n g
    using started_alive [OF assms(2) p [OF that]] map_of_view [OF p [OF that]] by simp
  then have "\<not> list_ex (\<lambda>(_, g). g \<noteq> r \<and> is_failed (map_of (view inst \<sigma>) g)) (places inst)" by (auto simp: list_ex_iff)
  then show ?thesis using started_alive [OF assms(2) p [OF assms(3)]] by (simp add: kill_runner_def Let_def)
qed

lemma download_none:
  assumes "group_ok llama inst" "downloads_done D inst" "(node, r) \<in> set (places inst)"
  shows "model_needs_download P fresh now node [(r, supervisor inst node r (\<sigma> r))] D [] b = Inr None"
proof -
  obtain s where s: "map_of (members inst) r = Some s" using place_member [OF assms(1,3)] .
  obtain d where d: "map_of D node = Some [d]" "is_completed d" "dp_model_id d = sa_model_id (in_shard_assignments inst)"
    using assms(2,3) by (auto simp: downloads_done_def)
  have "(case dp_status d of DownloadPending _ _ \<Rightarrow> True | _ \<Rightarrow> False) = False"
    using d(2) by (simp add: is_completed_def split: download_status.splits)
  then show ?thesis
    using d(1,3) member_shard(4) [OF assms(1) s] by (simp add: model_needs_download_def bound_shard_supervisor [OF s] dget_def Let_def)
qed

lemma node_plan_eval:
  assumes ok: "group_ok llama inst" and dl: "downloads_done D inst" and st: "everyone inst \<sigma> {..6}"
    and p: "(node, r) \<in> set (places inst)" and s: "map_of (members inst) r = Some s"
  shows "node_plan P fresh now D inst \<sigma> node r =
    Inr (if can_connect llama inst \<sigma> r s then Some (new_task fresh (in_instance_id inst) ConnectToGroup)
         else if can_load inst \<sigma> r then Some (new_task fresh (in_instance_id inst) LoadModel)
         else if can_warmup llama inst \<sigma> r s then Some (new_task fresh (in_instance_id inst) StartWarmup) else None)"
proof -
  have "create_runner fresh now node [(r, supervisor inst node r (\<sigma> r))] (view inst \<sigma>) [(in_instance_id inst, inst)] b = Inr None" for b
    by (rule place_member [OF ok p]) (simp add: create_runner_def)
  moreover have "cancel_tasks fresh [(r, supervisor inst node r (\<sigma> r))] [] = Inr None" by (simp add: cancel_tasks_def)
  moreover have "pending_tasks [(r, supervisor inst node r (\<sigma> r))] [] (view inst \<sigma>) [] = Inr None" by (simp add: pending_tasks_def)
  ultimately show ?thesis
    by (simp add: node_plan_def plan_def or_else_def kill_none [OF ok st p] download_none [OF ok dl p] init_eval [OF ok s]
        load_eval [OF dl s] warmup_eval [OF ok s])
qed

lemma plan_kinds:
  assumes "group_ok llama inst" "downloads_done D inst" "everyone inst \<sigma> {..6}" "(node, r) \<in> set (places inst)"
    and "map_of (members inst) r = Some s" "node_plan P fresh now D inst \<sigma> node r = Inr (Some t)"
  shows "tk_kind t = ConnectToGroup \<Longrightarrow> can_connect llama inst \<sigma> r s" "tk_kind t = LoadModel \<Longrightarrow> can_load inst \<sigma> r"
    "tk_kind t = StartWarmup \<Longrightarrow> can_warmup llama inst \<sigma> r s"
  using assms(6) unfolding node_plan_eval [OF assms(1-5)] by (auto simp: new_task_def split: if_splits)

section \<open>Barriers\<close>

text \<open>No runner is past a barrier that another one has not reached.\<close>

definition barrier :: "Instance \<Rightarrow> (string \<Rightarrow> RunnerStatus) \<Rightarrow> nat \<Rightarrow> nat \<Rightarrow> bool" where
  "barrier inst \<sigma> a b \<longleftrightarrow> (\<forall>h \<in> fst ` set (members inst). a \<le> stage (\<sigma> h) \<longrightarrow> (\<forall>g \<in> fst ` set (members inst). b \<le> stage (\<sigma> g)))"

definition group_inv :: "bool \<Rightarrow> Instance \<Rightarrow> (string \<Rightarrow> RunnerStatus) \<Rightarrow> bool" where
  "group_inv llama inst \<sigma> \<longleftrightarrow> everyone inst \<sigma> {..6} \<and> barrier inst \<sigma> 3 2 \<and> barrier inst \<sigma> 5 4
     \<and> (\<not> llama \<longrightarrow> barrier inst \<sigma> 2 1 \<and> barrier inst \<sigma> 6 5)"

text \<open>A runner that moves up keeps a barrier it does not cross, or finds the others behind it.\<close>

lemma barrier_update:
  assumes "barrier inst \<sigma> a b" "stage (\<sigma> r) \<le> stage s" "b \<le> a"
    and "stage (\<sigma> r) < a \<Longrightarrow> a \<le> stage s \<Longrightarrow> \<forall>g \<in> fst ` set (members inst). g \<noteq> r \<longrightarrow> b \<le> stage (\<sigma> g)"
  shows "barrier inst (\<sigma>(r := s)) a b"
  unfolding barrier_def
proof (intro ballI impI)
  fix h g
  assume h: "h \<in> fst ` set (members inst)" "a \<le> stage ((\<sigma>(r := s)) h)" and g: "g \<in> fst ` set (members inst)"
  show "b \<le> stage ((\<sigma>(r := s)) g)"
  proof (cases "\<exists>h \<in> fst ` set (members inst). a \<le> stage (\<sigma> h)")
    case True
    then have "b \<le> stage (\<sigma> g)" using assms(1) g by (auto simp: barrier_def)
    then show ?thesis using assms(2) by auto
  next
    case False
    then have "h = r" "a \<le> stage s" "stage (\<sigma> r) < a" using h by (auto split: if_splits)
    then show ?thesis using assms(3,4) g by auto
  qed
qed

lemma everyone_update: "everyone inst \<sigma> {..6} \<Longrightarrow> stage s \<le> 6 \<Longrightarrow> everyone inst (\<sigma>(r := s)) {..6}"
  by (auto simp: everyone_def)

text \<open>What a step does: one runner moves up, and where it crosses a barrier the others are behind it.\<close>

lemma group_step_moves:
  assumes ok: "group_ok llama inst" and dl: "downloads_done D inst" and inv: "group_inv llama inst \<sigma>"
    and step: "group_step P D llama inst \<sigma> \<sigma>'"
  shows "\<exists>r s. r \<in> fst ` set (members inst) \<and> \<sigma>' = \<sigma>(r := s) \<and> stage (\<sigma> r) < stage s \<and> stage s \<le> 6
    \<and> (stage s = 3 \<longrightarrow> (\<forall>g \<in> fst ` set (members inst). g \<noteq> r \<longrightarrow> 2 \<le> stage (\<sigma> g)))
    \<and> (stage s = 5 \<longrightarrow> (\<forall>g \<in> fst ` set (members inst). g \<noteq> r \<longrightarrow> 4 \<le> stage (\<sigma> g)))
    \<and> (\<not> llama \<and> stage s = 2 \<longrightarrow> (\<forall>g \<in> fst ` set (members inst). 1 \<le> stage (\<sigma> g)))
    \<and> (\<not> llama \<and> stage s = 6 \<longrightarrow> (\<forall>g \<in> fst ` set (members inst). 5 \<le> stage (\<sigma> g)))
    \<and> (stage s \<in> {4, 5, 6} \<longrightarrow> stage (\<sigma> r) = stage s - 1) \<and> (stage s = 2 \<longrightarrow> stage (\<sigma> r) = 1)"
proof -
  have st: "everyone inst \<sigma> {..6}" using inv by (simp add: group_inv_def)
  show ?thesis
    using step
  proof cases
    case (connect node r fresh now t)
    obtain s where s: "map_of (members inst) r = Some s" using place_member [OF ok connect(2)] .
    have "can_connect llama inst \<sigma> r s" by (rule plan_kinds(1) [OF ok dl st connect(2) s connect(3,4)])
    then show ?thesis using connect(1) placed [OF ok connect(2)]
      by (intro exI [of _ r] exI [of _ RunnerConnecting]) (simp add: can_connect_def)
  next
    case (connected r)
    moreover have "1 \<le> stage (\<sigma> g)" if "\<not> llama" "g \<in> fst ` set (members inst)" for g
      using connected(4) that stage_simps(1) [of "\<sigma> g"] by auto
    ultimately show ?thesis by (intro exI [of _ r] exI [of _ RunnerConnected]) simp
  next
    case (load node r fresh now t a b)
    obtain s where s: "map_of (members inst) r = Some s" using place_member [OF ok load(2)] .
    have "can_load inst \<sigma> r" by (rule plan_kinds(2) [OF ok dl st load(2) s load(3,4)])
    moreover have "g = r" if "length (members inst) = 1" "g \<in> fst ` set (members inst)" for g
      using that placed [OF ok load(2)] by (cases "members inst") auto
    ultimately show ?thesis using load(1) placed [OF ok load(2)]
      by (intro exI [of _ r] exI [of _ "RunnerLoading a b"]) (auto simp: can_load_def everyone_def)
  next
    case (loaded r)
    then show ?thesis using stage_simps(4) [of "\<sigma> r"] by (intro exI [of _ r] exI [of _ RunnerLoaded]) simp
  next
    case (warmup node r fresh now t)
    obtain s where s: "map_of (members inst) r = Some s" using place_member [OF ok warmup(2)] .
    have "can_warmup llama inst \<sigma> r s" by (rule plan_kinds(3) [OF ok dl st warmup(2) s warmup(3,4)])
    then show ?thesis using warmup(1) placed [OF ok warmup(2)]
      by (intro exI [of _ r] exI [of _ RunnerWarmingUp]) (fastforce simp: can_warmup_def everyone_def others_def split: if_splits)
  next
    case (ready r)
    moreover have "5 \<le> stage (\<sigma> g)" if "\<not> llama" "g \<in> fst ` set (members inst)" for g
    proof -
      have "barrier inst \<sigma> 5 4" using inv by (simp add: group_inv_def)
      then have "4 \<le> stage (\<sigma> g)" using ready(2,3) that(2) unfolding barrier_def by fastforce
      moreover have "stage (\<sigma> g) \<noteq> 4" using ready(4) that stage_simps(5) [of "\<sigma> g"] by auto
      ultimately show ?thesis by simp
    qed
    ultimately show ?thesis by (intro exI [of _ r] exI [of _ RunnerReady]) simp
  qed
qed

lemma group_step_inv:
  assumes "group_ok llama inst" "downloads_done D inst" "group_inv llama inst \<sigma>" "group_step P D llama inst \<sigma> \<sigma>'"
  shows "group_inv llama inst \<sigma>'"
proof -
  obtain r s where r: "\<sigma>' = \<sigma>(r := s)" "stage (\<sigma> r) < stage s" "stage s \<le> 6"
    and b3: "stage s = 3 \<longrightarrow> (\<forall>g \<in> fst ` set (members inst). g \<noteq> r \<longrightarrow> 2 \<le> stage (\<sigma> g))"
    and b5: "stage s = 5 \<longrightarrow> (\<forall>g \<in> fst ` set (members inst). g \<noteq> r \<longrightarrow> 4 \<le> stage (\<sigma> g))"
    and b2: "\<not> llama \<and> stage s = 2 \<longrightarrow> (\<forall>g \<in> fst ` set (members inst). 1 \<le> stage (\<sigma> g))"
    and b6: "\<not> llama \<and> stage s = 6 \<longrightarrow> (\<forall>g \<in> fst ` set (members inst). 5 \<le> stage (\<sigma> g))"
    and one: "stage s \<in> {4, 5, 6} \<longrightarrow> stage (\<sigma> r) = stage s - 1" "stage s = 2 \<longrightarrow> stage (\<sigma> r) = 1"
    using group_step_moves [OF assms] by blast
  have inv: "everyone inst \<sigma> {..6}" "barrier inst \<sigma> 3 2" "barrier inst \<sigma> 5 4" "\<not> llama \<Longrightarrow> barrier inst \<sigma> 2 1" "\<not> llama \<Longrightarrow> barrier inst \<sigma> 6 5"
    using assms(3) by (simp_all add: group_inv_def)
  have cases: "stage s \<in> {1, 2, 3, 4, 5, 6}" using r(2,3) by auto
  have "barrier inst \<sigma>' 3 2" unfolding r(1) by (rule barrier_update [OF inv(2)]) (use r(2) b3 one cases in auto)
  moreover have "barrier inst \<sigma>' 5 4" unfolding r(1) by (rule barrier_update [OF inv(3)]) (use r(2) b5 one cases in auto)
  moreover have "barrier inst \<sigma>' 2 1" if "\<not> llama"
    unfolding r(1)
  proof (rule barrier_update [OF inv(4) [OF that]])
    assume "stage (\<sigma> r) < 2" "2 \<le> stage s"
    then have "stage s = 2 \<or> stage s = 3" using one cases by auto
    then show "\<forall>g \<in> fst ` set (members inst). g \<noteq> r \<longrightarrow> 1 \<le> stage (\<sigma> g)" using b2 b3 that by fastforce
  qed (use r(2) in simp_all)
  moreover have "barrier inst \<sigma>' 6 5" if "\<not> llama"
    unfolding r(1) by (rule barrier_update [OF inv(5) [OF that]]) (use r(2,3) b6 that in auto)
  ultimately show ?thesis using everyone_update [OF inv(1) r(3)] by (simp add: group_inv_def r(1))
qed

section \<open>Progress\<close>

lemma new_task_kind [simp]: "tk_kind (new_task fresh i k) = k"
  by (simp add: new_task_def)

lemma tasks_start:
  assumes ok: "group_ok llama inst" and dl: "downloads_done D inst" and st: "everyone inst \<sigma> {..6}" and r: "(r, s) \<in> set (members inst)"
  shows "can_connect llama inst \<sigma> r s \<Longrightarrow> \<exists>\<sigma>'. group_step P D llama inst \<sigma> \<sigma>'"
    "can_load inst \<sigma> r \<Longrightarrow> \<exists>\<sigma>'. group_step P D llama inst \<sigma> \<sigma>'"
    "can_warmup llama inst \<sigma> r s \<Longrightarrow> \<exists>\<sigma>'. group_step P D llama inst \<sigma> \<sigma>'"
proof -
  have s: "map_of (members inst) r = Some s" using ok r by (simp add: group_ok_def)
  have "r \<in> set (map snd (places inst))" using ok r unfolding group_ok_def by force
  then obtain node where p: "(node, r) \<in> set (places inst)" by auto
  note eval = node_plan_eval [OF ok dl st p s, of P "[]" 0]
  show "\<exists>\<sigma>'. group_step P D llama inst \<sigma> \<sigma>'" if "can_connect llama inst \<sigma> r s"
    using connect [OF p, of P "[]" 0 D \<sigma> "new_task [] (in_instance_id inst) ConnectToGroup" llama] eval that by auto
  show "\<exists>\<sigma>'. group_step P D llama inst \<sigma> \<sigma>'" if "can_load inst \<sigma> r"
  proof -
    have "\<not> can_connect llama inst \<sigma> r s" using that by (auto simp: can_load_def can_connect_def)
    then show ?thesis using load [OF p, of P "[]" 0 D \<sigma> "new_task [] (in_instance_id inst) LoadModel" llama] eval that by auto
  qed
  show "\<exists>\<sigma>'. group_step P D llama inst \<sigma> \<sigma>'" if "can_warmup llama inst \<sigma> r s"
  proof -
    have "\<not> can_connect llama inst \<sigma> r s" "\<not> can_load inst \<sigma> r" using that by (auto simp: can_load_def can_connect_def can_warmup_def)
    then show ?thesis using warmup [OF p, of P "[]" 0 D \<sigma> "new_task [] (in_instance_id inst) StartWarmup" llama] eval that by auto
  qed
qed

lemma same_rank:
  assumes "group_ok llama inst" "(r, s) \<in> set (members inst)" "(g, s') \<in> set (members inst)" "sh_device_rank s = sh_device_rank s'"
  shows "g = r"
proof -
  have "inj_on (sh_device_rank \<circ> snd) (set (members inst))" using assms(1) by (simp add: group_ok_def distinct_map)
  from inj_onD [OF this, of "(r, s)" "(g, s')"] assms(2-4) show ?thesis by simp
qed

text \<open>
  Of the runners that are furthest behind one may have to wait for its rank: then it is the only
  one, and the others have moved on.
\<close>

lemma behind_by_rank:
  assumes ok: "group_ok llama inst" and r: "(r, s) \<in> set (members inst)" "stage (\<sigma> r) = k" and two: "everyone inst \<sigma> {k, Suc k}"
  shows "(\<exists>(g, s') \<in> set (members inst). stage (\<sigma> g) = k \<and> sh_device_rank s' \<noteq> c)
    \<or> sh_device_rank s = c \<and> others inst \<sigma> r (Suc k)"
proof (cases "\<exists>(g, s') \<in> set (members inst). stage (\<sigma> g) = k \<and> sh_device_rank s' \<noteq> c")
  case False
  then have c: "sh_device_rank s' = c" if "(g, s') \<in> set (members inst)" "stage (\<sigma> g) = k" for g s' using that by blast
  have "stage (\<sigma> g) = Suc k" if "(g, s') \<in> set (members inst)" "g \<noteq> r" for g s'
  proof -
    have "stage (\<sigma> g) \<noteq> k" using same_rank [OF ok r(1) that(1)] c [OF that(1)] c [OF r] that(2) by auto
    moreover have "stage (\<sigma> g) \<in> {k, Suc k}" using two that(1) by (force simp: everyone_def)
    ultimately show ?thesis by simp
  qed
  then show ?thesis using c [OF r] by (auto simp: others_def)
qed simp

lemma group_progress:
  assumes ok: "group_ok llama inst" and dl: "downloads_done D inst" and inv: "group_inv llama inst \<sigma>"
    and g: "g \<in> fst ` set (members inst)" "\<sigma> g \<noteq> RunnerReady"
  shows "\<exists>\<sigma>'. group_step P D llama inst \<sigma> \<sigma>'"
proof -
  have st: "everyone inst \<sigma> {..6}" and b: "barrier inst \<sigma> 3 2" "barrier inst \<sigma> 5 4"
      "\<not> llama \<Longrightarrow> barrier inst \<sigma> 2 1" "\<not> llama \<Longrightarrow> barrier inst \<sigma> 6 5"
    using inv by (simp_all add: group_inv_def)
  have "finite (fst ` set (members inst))" "fst ` set (members inst) \<noteq> {}" using g(1) by auto
  from ex_is_arg_min_if_finite [OF this, of "stage \<circ> \<sigma>"]
  obtain r where "is_arg_min (stage \<circ> \<sigma>) (\<lambda>g. g \<in> fst ` set (members inst)) r" by auto
  then have rm: "r \<in> fst ` set (members inst)" and least: "\<And>g. g \<in> fst ` set (members inst) \<Longrightarrow> stage (\<sigma> r) \<le> stage (\<sigma> g)"
    by (auto simp: is_arg_min_linorder)
  obtain s where r: "(r, s) \<in> set (members inst)" using rm by auto
  have upto: "everyone inst \<sigma> {stage (\<sigma> r)..<a}" if "barrier inst \<sigma> a b" "stage (\<sigma> r) < b" for a b
  proof -
    have "\<not> a \<le> stage (\<sigma> g)" if "g \<in> fst ` set (members inst)" for g
      using \<open>barrier inst \<sigma> a b\<close> \<open>stage (\<sigma> r) < b\<close> rm that unfolding barrier_def by fastforce
    then show ?thesis using least by (simp add: everyone_def not_le)
  qed
  note start = tasks_start [OF ok dl st]
  have "stage (\<sigma> r) \<noteq> 6"
    using least [OF g(1)] st g stage_simps(7) [of "\<sigma> g"] by (auto simp: everyone_def)
  moreover have "stage (\<sigma> r) \<le> 6" using st rm by (auto simp: everyone_def)
  ultimately consider "stage (\<sigma> r) = 0" | "stage (\<sigma> r) = 1" | "stage (\<sigma> r) = 2" | "stage (\<sigma> r) = 3" | "stage (\<sigma> r) = 4" | "stage (\<sigma> r) = 5"
    by linarith
  then show ?thesis
  proof cases
    case 1
    show ?thesis
    proof (cases "length (members inst) = 1 \<or> llama")
      case True
      have "everyone inst \<sigma> {0, 1, 2}" using upto [OF b(1)] 1 by (auto simp: everyone_def)
      then have "can_load inst \<sigma> r \<or> can_connect llama inst \<sigma> r s" using True 1 by (auto simp: can_load_def can_connect_def)
      then show ?thesis using start(1,2) [OF r] by blast
    next
      case False
      have two: "everyone inst \<sigma> {0, Suc 0}" using upto [OF b(3)] False 1 by (auto simp: everyone_def)
      from behind_by_rank [OF ok r 1 two, of "int (length (members inst)) - 1"] show ?thesis
        using False 1 two start(1) r by (auto simp: can_connect_def)
    qed
  next
    case 2
    have "\<sigma> g \<noteq> RunnerIdle" if "g \<in> fst ` set (members inst)" for g using least [OF that] 2 by auto
    then show ?thesis using connected [OF rm] 2 stage_simps(2) by metis
  next
    case 3
    have "everyone inst \<sigma> {2, 3, 4}" using upto [OF b(2)] 3 by (auto simp: everyone_def)
    then show ?thesis using start(2) [OF r] 3 by (auto simp: can_load_def)
  next
    case 4
    then show ?thesis using loaded [OF rm] stage_simps(4) by metis
  next
    case 5
    show ?thesis
    proof (cases llama)
      case True
      have "everyone inst \<sigma> {4, 5, 6}" using st least 5 by (fastforce simp: everyone_def)
      then show ?thesis using True start(3) [OF r] 5 by (auto simp: can_warmup_def)
    next
      case False
      have two: "everyone inst \<sigma> {4, Suc 4}" using upto [OF b(4)] False 5 by (auto simp: everyone_def)
      have "0 \<le> sh_device_rank s'" if "(g, s') \<in> set (members inst)" for g s' using ok that by (auto simp: group_ok_def)
      with behind_by_rank [OF ok r 5 two, of 0] show ?thesis
        using False 5 two start(3) r by (fastforce simp: can_warmup_def)
    qed
  next
    case 6
    have "\<sigma> g \<noteq> RunnerLoaded" if "g \<in> fst ` set (members inst)" for g using least [OF that] 6 by auto
    then show ?thesis using ready [OF rm] 6 stage_simps(6) by metis
  qed
qed

lemma group_step_sum:
  assumes "group_ok llama inst" "downloads_done D inst" "group_inv llama inst \<sigma>" "group_step P D llama inst \<sigma> \<sigma>'"
  shows "(\<Sum>g \<in> fst ` set (members inst). stage (\<sigma> g)) < (\<Sum>g \<in> fst ` set (members inst). stage (\<sigma>' g))"
proof -
  obtain r s where r: "r \<in> fst ` set (members inst)" "\<sigma>' = \<sigma>(r := s)" "stage (\<sigma> r) < stage s"
    using group_step_moves [OF assms] by blast
  then show ?thesis by (intro sum_strict_mono_ex1) auto
qed

lemma group_steps_inv:
  assumes "group_ok llama inst" "downloads_done D inst"
  shows "(group_step P D llama inst ^^ k) (\<lambda>_. RunnerIdle) \<sigma> \<Longrightarrow>
    group_inv llama inst \<sigma> \<and> k \<le> (\<Sum>g \<in> fst ` set (members inst). stage (\<sigma> g))"
proof (induction k arbitrary: \<sigma>)
  case 0
  then show ?case by (auto simp: group_inv_def everyone_def barrier_def)
next
  case (Suc k)
  then obtain \<tau> where t: "(group_step P D llama inst ^^ k) (\<lambda>_. RunnerIdle) \<tau>" "group_step P D llama inst \<tau> \<sigma>" by auto
  from Suc.IH [OF t(1)] group_step_inv [OF assms _ t(2)] group_step_sum [OF assms _ t(2)] show ?case by fastforce
qed

text \<open>
  C13. The runners of an instance start together. Whatever the order in which the nodes plan and the
  runners finish what they are doing, a group that starts with all runners idle makes at most six
  steps per runner; as long as some runner is not ready there is a further step, so the group
  never gets stuck; no runner loads before all are connected and none warms up before all
  have loaded; and no plan raises.
\<close>

theorem group_becomes_ready:
  assumes "group_ok llama inst" and "downloads_done D inst"
    and "(group_step P D llama inst ^^ k) (\<lambda>_. RunnerIdle) \<sigma>"
  shows "k \<le> 6 * length (members inst)
    \<and> ((\<forall>g \<in> fst ` set (members inst). \<sigma> g = RunnerReady) \<or> (\<exists>\<sigma>'. group_step P D llama inst \<sigma> \<sigma>'))
    \<and> barrier inst \<sigma> 3 2 \<and> barrier inst \<sigma> 5 4
    \<and> (\<forall>(node, r) \<in> set (places inst). \<forall>fresh now. \<not> isl (node_plan P fresh now D inst \<sigma> node r))"
proof -
  have inv: "group_inv llama inst \<sigma>" and k: "k \<le> (\<Sum>g \<in> fst ` set (members inst). stage (\<sigma> g))"
    using group_steps_inv [OF assms] by simp_all
  have st: "everyone inst \<sigma> {..6}" using inv by (simp add: group_inv_def)
  then have "(\<Sum>g \<in> fst ` set (members inst). stage (\<sigma> g)) \<le> (\<Sum>g \<in> fst ` set (members inst). 6)"
    by (intro sum_mono) (auto simp: everyone_def)
  moreover have "card (fst ` set (members inst)) \<le> length (members inst)"
    by (metis card_length length_map list.set_map)
  ultimately have "k \<le> 6 * length (members inst)" using k by simp
  moreover have "\<not> isl (node_plan P fresh now D inst \<sigma> node r)" if "(node, r) \<in> set (places inst)" for node r fresh now
    by (rule place_member [OF assms(1) that]) (simp add: node_plan_eval [OF assms(1,2) st that])
  moreover have "(\<forall>g \<in> fst ` set (members inst). \<sigma> g = RunnerReady) \<or> (\<exists>\<sigma>'. group_step P D llama inst \<sigma> \<sigma>')"
    using group_progress [OF assms(1,2) inv] by blast
  ultimately show ?thesis using inv by (auto simp: group_inv_def)
qed

definition demo_card :: ModelCard where
  "demo_card = \<lparr>mc_model_id = ''m'', mc_storage_size = 8, mc_n_layers = 4, mc_uses_cfg = False, mc_is_custom = False,
     mc_rest = JObj [(''inference_backend'', JStr ''mlx'')]\<rparr>"

definition demo_shard :: "int \<Rightarrow> ShardMetadata" where
  "demo_shard rank = \<lparr>sh_kind = PipelineShardMetadata, sh_model_card = demo_card, sh_device_rank = rank, sh_world_size = 2,
     sh_start_layer = 2 * rank, sh_end_layer = 2 * rank + 2, sh_n_layers = 4\<rparr>"

definition demo_instance :: Instance where
  "demo_instance = \<lparr>in_instance_id = ''i'', in_shard_assignments = \<lparr>sa_model_id = ''m'',
     sa_runner_to_shard = [(''r0'', demo_shard 0), (''r1'', demo_shard 1)], sa_node_to_runner = [(''a'', ''r0''), (''b'', ''r1'')]\<rparr>,
     in_rest = JNull\<rparr>"

definition demo_downloads :: "(string \<times> DownloadProgress list) list" where
  "demo_downloads = map (\<lambda>n. (n, [\<lparr>dp_node_id = n, dp_shard_metadata = demo_shard 0, dp_model_directory = [], dp_status_message = [],
     dp_status = DownloadCompleted 8 False\<rparr>])) [''a'', ''b'']"

definition demo_plan_env :: plan_env where
  "demo_plan_env = \<lparr>pe_distribution = False, pe_has_manifest = (\<lambda>_. False), pe_existing_model = (\<lambda>_. False),
     pe_store_ready = (\<lambda>_ _ _. False), pe_peer_ready = (\<lambda>_ _ _. False)\<rparr>"

lemma demo_group: "group_ok False demo_instance" "downloads_done demo_downloads demo_instance"
  by (simp_all add: group_ok_def downloads_done_def demo_instance_def demo_downloads_def demo_shard_def demo_card_def is_llama_cpp_def
      rest_field_def dget_def is_completed_def dp_model_id_def)

text \<open>The runner of rank 0 connects first; the last rank follows, although rank 0 is still connecting.\<close>

theorem group_becomes_ready_witness:
  "\<exists>\<sigma>. group_step demo_plan_env demo_downloads False demo_instance ((\<lambda>_. RunnerIdle)(''r0'' := RunnerConnecting)) \<sigma>"
proof -
  have "node_plan demo_plan_env [] 0 demo_downloads demo_instance (\<lambda>_. RunnerIdle) ''a'' ''r0'' = Inr (Some (new_task [] ''i'' ConnectToGroup))"
    by code_simp
  then have "group_step demo_plan_env demo_downloads False demo_instance (\<lambda>_. RunnerIdle) ((\<lambda>_. RunnerIdle)(''r0'' := RunnerConnecting))"
    by (rule connect [rotated, OF _ new_task_kind]) (simp add: demo_instance_def)
  then have "(group_step demo_plan_env demo_downloads False demo_instance ^^ 1) (\<lambda>_. RunnerIdle) ((\<lambda>_. RunnerIdle)(''r0'' := RunnerConnecting))"
    by (simp only: relpowp_1)
  from group_becomes_ready [OF demo_group this] show ?thesis by (auto simp: demo_instance_def)
qed

end
