(* ===== verification/Spec2Isabelle.thy ===== *)
theory Spec2Isabelle
  imports ChainProps ValidatorProps StakeProps WalletKeyProps SettlementProps PlacementProps EventLog ClusterTheorems ElectionProps WorkerProps
begin

text \<open>
  \<^bold>\<open>The program.\<close> CAI is a network of nodes that run large language models together and pay each
  other for it. It has two halves, each a Python package under \<open>src/\<close>.

  \<^item> The ledger (\<open>src/src/cai_compute_chain/\<close>): a chain of blocks in a JSON file, wallets with
  hybrid Ed25519 and ML-DSA signatures, a registry of validators with stake locked on the chain,
  prices and funding of jobs, and settlements on which a committee of validators votes before
  workers are paid.
  \<^item> The runtime (\<open>src/cai/src/cai/\<close>): the nodes elect a master; the master puts the events of
  all nodes in one order, logs them and sends them back; every node applies them to its copy
  of the cluster state and plans its own runners from it. A model is placed on a cycle of
  nodes, each of which holds a range of its layers.

  A job connects them: its price is quoted (\<open>economics.py\<close>), it runs on an instance of the
  runtime, and what the user paid is distributed to the nodes by a settlement
  (\<open>settlement.py\<close>), whose entries become a block of the chain (\<open>chain.py\<close>).

  \<^bold>\<open>Conventions.\<close> A class becomes a record with a prefix for its fields, an enumeration a
  datatype, a dictionary an association list in insertion order, a Python integer an \<open>int\<close>, a
  text a \<open>string\<close>. A function that can raise returns \<open>error + value\<close>; an operation on files or on
  the state of a task is a state transformer \<open>sres\<close> that returns a result or an exception together with
  the state that is left, so what was written before an exception stays written. Every raise and
  every early return of the source is a branch. Floats are rationals, with the rounding as a
  parameter where it matters (\<open>Placement\<close>). What lies outside the repository is an argument:
  hashes, signatures, ciphers and base64 (records \<open>crypto\<close>, \<open>wallet_lib\<close>), the clock, randomness and
  file metadata (\<open>io\<close>, \<open>wallet_rand\<close>), the environment (\<open>getenv\<close>), the packing of events
  (\<open>me_ser\<close>, \<open>me_des\<close>), the indices and cycles of the graph library (\<open>rx\<close>), the order of a set
  (\<open>re_set_order\<close>). What a property needs of them is a named hypothesis: \<open>sha256_ok\<close>, \<open>lib_laws\<close>,
  \<open>env_ok\<close>, \<open>lossless\<close>, \<open>set_order_ok\<close>. Every property with hypotheses is followed by a witness, an
  instance in a small concrete world (\<open>Demo\<close> for the ledger; \<open>ClusterStateProps\<close> and
  \<open>ClusterTheorems\<close> for the runtime).

  \<^bold>\<open>Shared theories.\<close> \<open>Prelude\<close>: exception and state monads, dictionaries, running totals.
  \<open>PyValues\<close>: Python text, JSON values and their canonical text. \<open>Runs\<close>: the calculus
  \<open>runs m s Q\<close> for operations on files.

  \<^bold>\<open>The ledger, theory by theory.\<close>

  \<^item> \<open>Policy\<close> (\<open>model.py\<close>), \<open>Money\<close> (amounts and addresses of \<open>wallet.py\<close>), \<open>Signing\<close>
  (\<open>wallet_signing.py\<close>), \<open>SeedPhrase\<close> (\<open>seed_phrase.py\<close>).
  \<^item> \<open>Chain\<close>, \<open>ChainCodec\<close>, \<open>ChainSig\<close>, \<open>Genesis\<close>, \<open>ChainValidate\<close>, \<open>ChainIndex\<close>, \<open>ChainStore\<close>
  (\<open>chain.py\<close>): blocks and their hashes, the JSON form, signatures, the first block,
  \<open>validate_chain_blocks\<close>, the index, and the stored chain. The replay of transactions into
  totals is the locale \<open>replay_index\<close>, interpreted for balances and for bonds. \<open>ChainStoreProofs\<close>
  abstracts the three files to a list of blocks (\<open>store_ok\<close>) and describes every operation by
  what it does to that list; \<open>ChainFrame\<close> shows that readers leave it alone. \<open>ChainProps\<close>: the
  validator accepts exactly the chains; appending is all or nothing and succeeds where it should; the
  indexed balances and histories are those of the chain; saving and loading is a round trip; what
  an accepted signature binds.
  \<^item> \<open>Validators\<close> (\<open>validators.py\<close>): registry, effective stake, quorum, committees, division of
  fees; what a two-thirds quorum of stake promises is the locale \<open>stake_quorum\<close>.
  \<open>ValidatorProps\<close>: the division is exact, quorums overlap in a third of the stake, all nodes
  compute the same committee, one lock can back two records. \<open>StakeProps\<close>: on the files of a
  valid chain, stake that counts is locked by transactions of the chain and held by the bond pool.
  \<^item> \<open>Wallet\<close>, \<open>WalletTransfer\<close> (\<open>wallet.py\<close>): the data directory, one field per file, and every
  operation that changes it. \<open>WalletProps\<close>, \<open>WalletKeyProps\<close>: transfers balance, a wallet
  opens with its password only, the key file follows the session as long as it can be removed,
  the treasury is paid out once.
  \<^item> \<open>Economics\<close> (\<open>economics.py\<close>), \<open>Rewards\<close> (\<open>job_reward_distribution.py\<close>), \<open>SettlementData\<close>,
  \<open>Settlement\<close> (\<open>settlement.py\<close>, \<open>node_config.py\<close>). \<open>EconomicsProps\<close>, \<open>SettlementProps\<close>: allowances
  and funding, the shares of workers pass the accounting check, the entries of a settlement
  balance, envelopes, and the vote of the committee decides.

  \<^bold>\<open>The runtime, theory by theory.\<close>

  \<^item> \<open>EventBuffer\<close> (\<open>utils/event_buffer.py\<close>): resequencing buffers, locale \<open>resequencer\<close>.
  \<open>EventLog\<close> (\<open>utils/disk_event_log.py\<close>): the log file, byte by byte, with 32-bit lengths; locale
  \<open>event_log\<close>. \<open>Throttle\<close> (\<open>api/rate_limit.py\<close>, \<open>utils/keyed_backoff.py\<close>).
  \<^item> \<open>Shards\<close>, \<open>Topology\<close>, \<open>Placement\<close> (\<open>shared/types/worker/\<close>, \<open>shared/network_model_policy.py\<close>,
  \<open>shared/topology.py\<close>, \<open>shared/types/multiaddr.py\<close>, \<open>master/placement_utils.py\<close>), with
  \<open>TopologyProps\<close> and \<open>PlacementProps\<close>: the graph invariant; the allocation of layers returns
  and loses no layer.
  \<^item> \<open>ClusterState\<close>, \<open>ClusterStateProps\<close> (\<open>shared/apply.py\<close>, \<open>shared/types/\<close>): all events, the state and
  \<open>apply\<close>; its type invariant.
  \<^item> \<open>Master\<close> (\<open>master/main.py\<close>, \<open>master/placement.py\<close>), \<open>EventRouter\<close> (\<open>routing/event_router.py\<close>) and
  \<open>Cluster\<close>: the handlers of the master, the coroutines of a router cut at their suspension points, and the
  step relation \<open>cluster_step\<close> of a master, a router per node and a network that loses, repeats
  and reorders. \<open>ClusterProps\<close> holds the invariant \<open>cluster_rep\<close>, \<open>CatchUp\<close> the request
  protocol, \<open>ClusterTheorems\<close> the properties: routers hand out prefixes of the log; a request
  fills a gap of a batch, and only that; a process that applies the log has the master's state.
  \<^item> \<open>Election\<close>, \<open>ElectionProps\<close> (\<open>shared/election.py\<close>): campaigns as interleaved tasks on a heap of
  shared candidate lists; agreement, and a schedule in which two campaigns overlap.
  \<^item> \<open>Worker\<close>, \<open>WorkerProps\<close> (\<open>worker/plan.py\<close>, \<open>worker/runner/runner_supervisor.py\<close>): the planner, and
  that the runners of an instance become ready together.

  \<^bold>\<open>Loops and bounds.\<close> No definition uses fuel. Loops are recursion on the list they visit, or have
  a termination proof (draining a buffer removes an entry per round). The loop that lifts
  nodes to the minimum of layers is a \<open>partial_function\<close> in the option monad (\<open>fill_up\<close>), with
  \<open>None\<close> for not returning, and \<open>layer_allocation_returns\<close> shows that it returns. Waiting is a step of a
  relation, so that nothing is assumed of timers. Integers are unbounded as in Python; the 32-bit
  length of a log record is a word and the float power of a backoff raises from exponent 1024 on.

  \<^bold>\<open>Simplifications.\<close> Texts are lists of the code points below 256. A file is the value its last write put
  there; torn writes are not modelled. Of the failures of the file system only the one the
  source handles is modelled, removing the key file (\<open>dd_unlink_fails\<close>). A \<open>datetime\<close> of the cluster
  state is an instant or a naive time, in microseconds. The private attribute \<open>_master_time_stamp\<close>
  of an event is left out. The wallet, settlement and registry files are their decoded
  records; only the chain file is modelled as JSON. The network keeps a message after it was
  received. The search of \<open>place_instance\<close> for a cycle is a parameter of the master.

  \<^bold>\<open>Not modelled\<close>: the exchange of chains, validators, settlements and penalties with peers over
  HTTP; jobs (\<open>jobs.py\<close>, \<open>job_*.py\<close>) except the reward shares; the compute transport between
  peers (\<open>decentralized_compute.py\<close>, \<open>cai_owned_transport_*.py\<close>) and the drivers of llama.cpp
  (\<open>cai_owned_runtime.py\<close>, \<open>cai_llama_cpp_*.py\<close>), which move JSON documents and bytes between
  processes; model files and downloads; updates; the HTTP API and its adapters, except the rate
  limiter; the loop and the runner processes of the worker; the command line, the
  dashboard, the apps, the Rust network layer, benchmarks and scripts. Rotation of the event
  log and host and relay selection in placement are file and network handling.
\<close>

end
